(* ===== verification/X402_Prelude.thy ===== *)
theory X402_Prelude
  imports Main "HOL-Library.Word" "HOL-Library.Char_ord" "HOL-Library.List_Lexorder"
begin

text \<open>
  The vocabulary shared by every component of the development.

  \<^item> JavaScript exceptions are values: a fallible operation returns
    \<open>js_error + 'a\<close>, and \<open>bindE\<close> sequences two of them as consecutive statements of
    the source do. A guard \<open>if (c) throw e\<close> is \<open>if c then Inl e else \<dots>\<close>.
  \<^item> JavaScript strings are \<open>string\<close>: a character is a code unit below 256, so
    \<open>length\<close> is the source's \<open>length\<close> on such strings. \<open>to_lower\<close> is
    \<open>toLowerCase\<close> on that range.
  \<^item> JavaScript numbers are \<open>js_number\<close>: an integral value, or any other number
    carried by the text that \<open>String(n)\<close> prints for it, so that \<open>Number.isInteger\<close>
    and \<open>===\<close> are not trivialised.
  \<^item> An optional property is an \<open>opt_field\<close>: absent, present with the value
    \<open>undefined\<close>, or present with a value. The difference between the first two is
    observable in the canonical JSON comparisons of the source.
  \<^item> A \<open>bigint\<close> is \<open>int\<close>; its \<open>toString\<close> is \<open>int_to_string\<close>.
\<close>

section \<open>Errors as values\<close>

datatype kaspa_code =
    Invalid_version | Invalid_scheme | Invalid_network | Invalid_asset | Invalid_amount
  | Invalid_binding | Invalid_payload | Invalid_accepted | Invalid_payload_type
  | Invalid_public_key | Invalid_outpoint | Invalid_signature | Invalid_settlement_response
  | Invalid_transaction | Invalid_hex | Invalid_channel_id | Invalid_payment_identifier
  | Missing_payment_identifier | Payment_identifier_conflict | Invalid_exact_replay

datatype js_error =
    KaspaX402Error kaspa_code string
  | JsError string
  | JsTypeError string
  | JsSyntaxError string
  | JsRangeError string

type_synonym 'a res = "js_error + 'a"

definition bindE :: "'a res \<Rightarrow> ('a \<Rightarrow> 'b res) \<Rightarrow> 'b res" where
  "bindE m f = (case m of Inl e \<Rightarrow> Inl e | Inr x \<Rightarrow> f x)"

definition orE :: "bool res \<Rightarrow> bool res \<Rightarrow> bool res" where
  \<comment> \<open>\<open>a || b\<close> where either side may throw\<close>
  "orE a b = bindE a (\<lambda>x. if x then Inr True else b)"

fun mapE :: "('a \<Rightarrow> 'b res) \<Rightarrow> 'a list \<Rightarrow> 'b list res" where
  "mapE f [] = Inr []"
| "mapE f (x # xs) = bindE (f x) (\<lambda>y. bindE (mapE f xs) (\<lambda>ys. Inr (y # ys)))"

fun forE :: "('a \<Rightarrow> unit res) \<Rightarrow> 'a list \<Rightarrow> unit res" where
  "forE f [] = Inr ()"
| "forE f (x # xs) = bindE (f x) (\<lambda>_. forE f xs)"

fun foldE :: "('s \<Rightarrow> 'a \<Rightarrow> 's res) \<Rightarrow> 's \<Rightarrow> 'a list \<Rightarrow> 's res" where
  "foldE f s [] = Inr s"
| "foldE f s (x # xs) = bindE (f s x) (\<lambda>s'. foldE f s' xs)"

definition succeeds :: "'a res \<Rightarrow> bool" where
  "succeeds r = (\<exists>x. r = Inr x)"

named_theorems run_simps \<open>decomposition of a run that did not throw\<close>

lemma bindE_simps [simp]:
  "bindE (Inl e) f = Inl e"
  "bindE (Inr x) f = f x"
  by (simp_all add: bindE_def)

lemma bindE_Inr [run_simps]: "bindE m f = Inr y \<longleftrightarrow> (\<exists>x. m = Inr x \<and> f x = Inr y)"
  by (cases m) auto

lemma if_throw_Inr [run_simps]: "(if c then Inl e else k) = Inr y \<longleftrightarrow> \<not> c \<and> k = Inr y"
  by simp

lemma orE_Inr_False [run_simps]:
  "orE a b = Inr False \<longleftrightarrow> a = Inr False \<and> b = Inr False"
  by (cases a) (auto simp: orE_def)

lemma mapE_Inr_length: "mapE f xs = Inr ys \<Longrightarrow> length ys = length xs"
  by (induction xs arbitrary: ys) (auto simp: run_simps)

lemma mapE_Inr_nth:
  "mapE f xs = Inr ys \<Longrightarrow> i < length xs \<Longrightarrow> f (xs ! i) = Inr (ys ! i)"
  by (induction xs arbitrary: ys i) (auto simp: run_simps nth_Cons split: nat.splits)

lemma forE_Inr: "forE f xs = Inr u \<longleftrightarrow> (\<forall>x\<in>set xs. f x = Inr ())"
  by (induction xs) (auto simp: run_simps)

lemma foldE_append: "foldE f s (xs @ ys) = bindE (foldE f s xs) (\<lambda>s'. foldE f s' ys)"
proof (induction xs arbitrary: s)
  case (Cons x xs)
  then show ?case by (cases "f s x") simp_all
qed simp

lemma foldE_inv:
  assumes "foldE f s xs = Inr s'" and "P s"
    and "\<And>s x s'. x \<in> set xs \<Longrightarrow> P s \<Longrightarrow> f s x = Inr s' \<Longrightarrow> P s'"
  shows "P s'"
  using assms by (induction xs arbitrary: s) (auto simp: run_simps)

lemma succeeds_simps [simp]: "succeeds (Inr x)" "\<not> succeeds (Inl e)"
  by (simp_all add: succeeds_def)

lemma succeeds_iff: "succeeds r \<longleftrightarrow> (\<exists>x. r = Inr x)"
  by (cases r) (auto simp: succeeds_def)

lemma not_succeeds: "\<not> succeeds r \<longleftrightarrow> (\<exists>e. r = Inl e)"
  by (cases r) (auto simp: succeeds_def)

section \<open>Fallible machines\<close>

text \<open>
  The contract shared by the stateful components: commands run on a state, a command that
  throws leaves the state unchanged (the source computes every successor before it writes),
  and every successful command keeps the invariant. The consequences for whole command
  sequences are proved once here.
\<close>

fun run_cmds :: "('s \<Rightarrow> 'c \<Rightarrow> 's res) \<Rightarrow> 's \<Rightarrow> 'c list \<Rightarrow> 's" where
  "run_cmds step s [] = s"
| "run_cmds step s (c # cs) =
     run_cmds step (case step s c of Inl _ \<Rightarrow> s | Inr s' \<Rightarrow> s') cs"

locale fallible_machine =
  fixes step :: "'s \<Rightarrow> 'c \<Rightarrow> 's res"
    and inv :: "'s \<Rightarrow> bool"
  assumes step_inv: "inv s \<Longrightarrow> step s c = Inr s' \<Longrightarrow> inv s'"
begin

lemma run_inv: "inv s \<Longrightarrow> inv (run_cmds step s cs)"
  by (induction cs arbitrary: s) (auto split: sum.splits intro: step_inv)

end

locale monotone_machine = fallible_machine step inv
  for step :: "'s \<Rightarrow> 'c \<Rightarrow> 's res" and inv :: "'s \<Rightarrow> bool" +
  fixes below :: "'s \<Rightarrow> 's \<Rightarrow> bool"
  assumes below_refl: "below s s"
    and below_trans: "below s t \<Longrightarrow> below t u \<Longrightarrow> below s u"
    and step_below: "inv s \<Longrightarrow> step s c = Inr s' \<Longrightarrow> below s s'"
begin

lemma run_below: "inv s \<Longrightarrow> below s (run_cmds step s cs)"
proof (induction cs arbitrary: s)
  case Nil
  show ?case by (simp add: below_refl)
next
  case (Cons c cs)
  show ?case
  proof (cases "step s c")
    case (Inl e)
    with Cons show ?thesis by simp
  next
    case (Inr s')
    with Cons.prems have "inv s'" and "below s s'" by (auto intro: step_inv step_below)
    with Cons.IH Inr show ?thesis by (auto intro: below_trans)
  qed
qed

lemma run_prefix_below:
  "inv s \<Longrightarrow> below (run_cmds step s cs) (run_cmds step s (cs @ ds))"
proof (induction cs arbitrary: s)
  case Nil
  then show ?case by (simp add: run_below)
next
  case (Cons c cs)
  then show ?case by (auto split: sum.splits intro: step_inv)
qed

end

section \<open>Optional properties and numbers\<close>

datatype 'a opt_field = Absent | Undef | Val 'a

fun val_of :: "'a opt_field \<Rightarrow> 'a option" where
  "val_of (Val x) = Some x"
| "val_of _ = None"

fun of_option :: "'a option \<Rightarrow> 'a opt_field" where
  "of_option None = Undef"
| "of_option (Some x) = Val x"

definition truthy_str :: "string opt_field \<Rightarrow> bool" where
  \<comment> \<open>the truth value of an optional string: neither \<open>undefined\<close> nor empty\<close>
  "truthy_str f = (case f of Val s \<Rightarrow> s \<noteq> [] | _ \<Rightarrow> False)"

lemma val_of_None: "val_of f = None \<longleftrightarrow> f = Absent \<or> f = Undef"
  by (cases f) auto

lemma val_of_Some [simp]: "val_of f = Some x \<longleftrightarrow> f = Val x"
  by (cases f) auto

lemma truthy_str_simps [simp]:
  "truthy_str Absent = False" "truthy_str Undef = False" "truthy_str (Val s) = (s \<noteq> [])"
  by (simp_all add: truthy_str_def)

datatype js_number = JsInt int | JsNonInt string

definition is_integer :: "js_number \<Rightarrow> bool" where
  "is_integer n = (case n of JsInt _ \<Rightarrow> True | JsNonInt _ \<Rightarrow> False)"

definition is_finite_num :: "js_number \<Rightarrow> bool" where
  "is_finite_num n =
     (case n of JsInt _ \<Rightarrow> True
      | JsNonInt s \<Rightarrow> s \<notin> {''NaN'', ''Infinity'', ''-Infinity''})"

definition MAX_SAFE_INTEGER :: int where
  "MAX_SAFE_INTEGER = 9007199254740991"

definition is_safe_integer :: "js_number \<Rightarrow> bool" where
  "is_safe_integer n =
     (case n of JsInt i \<Rightarrow> - MAX_SAFE_INTEGER \<le> i \<and> i \<le> MAX_SAFE_INTEGER
      | JsNonInt _ \<Rightarrow> False)"

fun num_eq :: "js_number \<Rightarrow> js_number \<Rightarrow> bool" where
  \<comment> \<open>\<open>===\<close> on numbers: \<open>NaN\<close> differs from itself\<close>
  "num_eq (JsInt a) (JsInt b) = (a = b)"
| "num_eq (JsNonInt a) (JsNonInt b) = (a = b \<and> a \<noteq> ''NaN'')"
| "num_eq _ _ = False"

definition in_range :: "js_number \<Rightarrow> int \<Rightarrow> int \<Rightarrow> bool" where
  \<comment> \<open>an integral number within the bounds: \<open>Number.isInteger(n) && lo <= n && n <= hi\<close>\<close>
  "in_range n lo hi = (case n of JsInt i \<Rightarrow> lo \<le> i \<and> i \<le> hi | JsNonInt _ \<Rightarrow> False)"

lemma num_eq_JsInt [simp]: "num_eq (JsInt a) n \<longleftrightarrow> n = JsInt a" "num_eq n (JsInt a) \<longleftrightarrow> n = JsInt a"
  by (cases n; auto)+

lemma num_eq_imp_eq: "num_eq a b \<Longrightarrow> a = b"
  by (cases a; cases b) auto

lemma in_range_iff: "in_range n lo hi \<longleftrightarrow> (\<exists>i. n = JsInt i \<and> lo \<le> i \<and> i \<le> hi)"
  by (cases n) (auto simp: in_range_def)

section \<open>Characters and strings\<close>

definition code :: "char \<Rightarrow> nat" where
  "code c = of_char c"

lemma code_less [simp]: "code c < 256"
  by (simp add: code_def)

lemma code_eq_iff: "code c = code d \<longleftrightarrow> c = d"
  by (simp add: code_def)

definition lower_char :: "char \<Rightarrow> char" where
  "lower_char c =
     (if (65 \<le> code c \<and> code c \<le> 90) \<or> (192 \<le> code c \<and> code c \<le> 222 \<and> code c \<noteq> 215)
      then char_of (code c + 32) else c)"

definition to_lower :: "string \<Rightarrow> string" where
  "to_lower s = map lower_char s"

lemma code_char_of: "n < 256 \<Longrightarrow> code (char_of n) = n"
  by (simp add: code_def)

lemma code_lower_char:
  "code (lower_char c) =
     (if (65 \<le> code c \<and> code c \<le> 90) \<or> (192 \<le> code c \<and> code c \<le> 222 \<and> code c \<noteq> 215)
      then code c + 32 else code c)"
  by (auto simp: lower_char_def code_char_of)

lemma lower_char_idem [simp]: "lower_char (lower_char c) = lower_char c"
  by (subst code_eq_iff [symmetric]) (simp add: code_lower_char)

lemma to_lower_idem [simp]: "to_lower (to_lower s) = to_lower s"
  by (simp add: to_lower_def)

lemma length_to_lower [simp]: "length (to_lower s) = length s"
  by (simp add: to_lower_def)

lemma to_lower_Nil [simp]: "to_lower s = [] \<longleftrightarrow> s = []" "to_lower [] = []"
  by (simp_all add: to_lower_def)

lemma to_lower_append [simp]: "to_lower (s @ t) = to_lower s @ to_lower t"
  by (simp add: to_lower_def)

text \<open>\<open>String.prototype.trim\<close> removes white space at both ends; the source only asks
  whether anything is left.\<close>

definition is_space :: "char \<Rightarrow> bool" where
  "is_space c = (code c \<in> {9, 10, 11, 12, 13, 32, 160})"

definition blank :: "string \<Rightarrow> bool" where
  "blank s = list_all is_space s"

section \<open>Regular expressions\<close>

text \<open>
  The anchored patterns of the source: a list of alternatives, each a sequence of literal
  text and of character classes with a repetition count.
\<close>

datatype rx_item = Lit string | Rng nat nat nat nat
  \<comment> \<open>\<open>Rng lo hi m n\<close>: between \<open>m\<close> and \<open>n\<close> characters with codes in \<open>lo..hi\<close>\<close>

fun rx_seq :: "rx_item list \<Rightarrow> string \<Rightarrow> bool" where
  "rx_seq [] s = (s = [])"
| "rx_seq (Lit p # is) s = (take (length p) s = p \<and> rx_seq is (drop (length p) s))"
| "rx_seq (Rng lo hi m n # is) s =
     list_ex (\<lambda>k. k \<le> length s \<and> list_all (\<lambda>c. lo \<le> code c \<and> code c \<le> hi) (take k s)
                  \<and> rx_seq is (drop k s)) [m ..< Suc n]"

definition rx_test :: "rx_item list list \<Rightarrow> string \<Rightarrow> bool" where
  "rx_test alts s = list_ex (\<lambda>a. rx_seq a s) alts"

definition is_hex :: "char \<Rightarrow> bool" where
  "is_hex c = ((48 \<le> code c \<and> code c \<le> 57) \<or> (65 \<le> code c \<and> code c \<le> 70)
             \<or> (97 \<le> code c \<and> code c \<le> 102))"

definition is_lower_hex :: "char \<Rightarrow> bool" where
  "is_lower_hex c = ((48 \<le> code c \<and> code c \<le> 57) \<or> (97 \<le> code c \<and> code c \<le> 102))"

definition is_hash32 :: "string \<Rightarrow> bool" where
  \<comment> \<open>\<open>/^[0-9a-fA-F]{64}$/\<close>\<close>
  "is_hash32 s = (length s = 64 \<and> list_all is_hex s)"

definition is_lower_hash32 :: "string \<Rightarrow> bool" where
  \<comment> \<open>\<open>/^[0-9a-f]{64}$/\<close>\<close>
  "is_lower_hash32 s = (length s = 64 \<and> list_all is_lower_hex s)"

definition is_zero_hash32 :: "string \<Rightarrow> bool" where
  \<comment> \<open>\<open>/^0{64}$/\<close>\<close>
  "is_zero_hash32 s = (length s = 64 \<and> list_all (\<lambda>c. c = CHR ''0'') s)"

definition is_byte_hex :: "string \<Rightarrow> bool" where
  \<comment> \<open>\<open>/^(?:[0-9a-fA-F]{2})+$/\<close>\<close>
  "is_byte_hex s = (s \<noteq> [] \<and> even (length s) \<and> list_all is_hex s)"

lemma is_hex_lower [simp]: "is_hex (lower_char c) \<longleftrightarrow> is_hex c"
  by (auto simp: is_hex_def code_lower_char)

lemma is_lower_hex_lower: "is_hex c \<Longrightarrow> is_lower_hex (lower_char c)"
  by (auto simp: is_hex_def is_lower_hex_def code_lower_char)

lemma is_hash32_lower [simp]: "is_hash32 (to_lower s) \<longleftrightarrow> is_hash32 s"
  by (simp add: is_hash32_def to_lower_def list_all_iff)

lemma is_lower_hash32_lower: "is_hash32 s \<Longrightarrow> is_lower_hash32 (to_lower s)"
  by (auto simp: is_hash32_def is_lower_hash32_def to_lower_def list_all_iff is_lower_hex_lower)

lemma lower_char_lower_hex: "is_lower_hex c \<Longrightarrow> lower_char c = c"
  by (auto simp: is_lower_hex_def lower_char_def)

lemma to_lower_lower_hash32: "is_lower_hash32 s \<Longrightarrow> to_lower s = s"
  by (auto simp: is_lower_hash32_def to_lower_def list_all_iff lower_char_lower_hex
      intro!: map_idI)

lemma is_byte_hex_lower [simp]: "is_byte_hex (to_lower s) \<longleftrightarrow> is_byte_hex s"
  by (auto simp: is_byte_hex_def to_lower_def list_all_iff)

section \<open>Decimal text\<close>

definition digit_char :: "nat \<Rightarrow> char" where
  "digit_char d = char_of (48 + d)"

definition is_digit :: "char \<Rightarrow> bool" where
  "is_digit c = (48 \<le> code c \<and> code c \<le> 57)"

definition digit_val :: "char \<Rightarrow> nat" where
  "digit_val c = code c - 48"

fun nat_to_string :: "nat \<Rightarrow> string" where
  "nat_to_string n =
     (if n < 10 then [digit_char n] else nat_to_string (n div 10) @ [digit_char (n mod 10)])"

declare nat_to_string.simps [simp del]

definition int_to_string :: "int \<Rightarrow> string" where
  \<comment> \<open>\<open>BigInt.prototype.toString\<close>\<close>
  "int_to_string i = (if i < 0 then CHR ''-'' # nat_to_string (nat (- i)) else nat_to_string (nat i))"

definition dec_val :: "string \<Rightarrow> nat" where
  "dec_val s = foldl (\<lambda>n c. 10 * n + digit_val c) 0 s"

lemma code_digit_char: "d < 10 \<Longrightarrow> code (digit_char d) = 48 + d"
  by (simp add: digit_char_def code_char_of)

lemma digit_val_digit_char [simp]: "d < 10 \<Longrightarrow> digit_val (digit_char d) = d"
  by (simp add: digit_val_def code_digit_char)

lemma is_digit_digit_char [simp]: "d < 10 \<Longrightarrow> is_digit (digit_char d)"
  by (simp add: is_digit_def code_digit_char)

lemma digit_char_digit_val: "is_digit c \<Longrightarrow> digit_char (digit_val c) = c"
  by (subst code_eq_iff [symmetric]) (auto simp: is_digit_def digit_val_def code_digit_char)

lemma dec_val_snoc [simp]: "dec_val (s @ [c]) = 10 * dec_val s + digit_val c"
  by (simp add: dec_val_def)

lemma dec_val_Nil [simp]: "dec_val [] = 0"
  by (simp add: dec_val_def)

lemma dec_val_nat_to_string [simp]: "dec_val (nat_to_string n) = n"
proof (induction n rule: nat_to_string.induct)
  case (1 n)
  show ?case
  proof (cases "n < 10")
    case True
    then show ?thesis using dec_val_snoc [of "[]" "digit_char n"]
      by (subst nat_to_string.simps) simp
  next
    case False
    with "1.IH" show ?thesis by (subst nat_to_string.simps) simp
  qed
qed

lemma nat_to_string_inject [simp]: "nat_to_string m = nat_to_string n \<longleftrightarrow> m = n"
  by (metis dec_val_nat_to_string)

lemma nat_to_string_digits: "c \<in> set (nat_to_string n) \<Longrightarrow> is_digit c"
proof (induction n rule: nat_to_string.induct)
  case (1 n)
  from "1.prems" have "c \<in> set (if n < 10 then [digit_char n]
      else nat_to_string (n div 10) @ [digit_char (n mod 10)])"
    by (subst (asm) nat_to_string.simps)
  with "1.IH" show ?case by (auto split: if_splits)
qed

lemma nat_to_string_nonempty [simp]: "nat_to_string n \<noteq> []"
  by (subst nat_to_string.simps) simp

lemma nat_to_string_hd_zero: "hd (nat_to_string n) = CHR ''0'' \<longleftrightarrow> n = 0"
proof (induction n rule: nat_to_string.induct)
  case (1 n)
  show ?case
  proof (cases "n < 10")
    case True
    have "code (CHR ''0'') = 48" by (simp add: code_def)
    with True have "digit_char n = CHR ''0'' \<longleftrightarrow> n = 0"
      by (subst code_eq_iff [symmetric]) (simp add: code_digit_char)
    with True show ?thesis by (subst nat_to_string.simps) simp
  next
    case False
    with "1.IH" show ?thesis by (subst nat_to_string.simps) (simp add: hd_append)
  qed
qed

definition trim :: "string \<Rightarrow> string" where
  "trim s = rev (dropWhile is_space (rev (dropWhile is_space s)))"

definition radix_val :: "nat \<Rightarrow> string \<Rightarrow> nat" where
  "radix_val b s = foldl (\<lambda>n c. b * n +
     (if code c \<le> 57 then code c - 48 else if code c \<le> 70 then code c - 55 else code c - 87)) 0 s"

definition js_BigInt :: "string \<Rightarrow> int res" where
  \<comment> \<open>\<open>BigInt(text)\<close>: white space around a signed decimal or a prefixed literal\<close>
  "js_BigInt s =
     (let t = trim s; body = drop 2 t; sign = take 1 t;
          digits = (if sign = ''+'' \<or> sign = ''-'' then drop 1 t else t);
          radix = (\<lambda>b. Inr (int (radix_val b body)))
      in if t = [] then Inr 0
         else if take 2 t \<in> {''0x'', ''0X''} \<and> body \<noteq> [] \<and> list_all is_hex body then radix 16
         else if take 2 t \<in> {''0o'', ''0O''} \<and> body \<noteq> []
              \<and> list_all (\<lambda>c. 48 \<le> code c \<and> code c \<le> 55) body then radix 8
         else if take 2 t \<in> {''0b'', ''0B''} \<and> body \<noteq> []
              \<and> list_all (\<lambda>c. 48 \<le> code c \<and> code c \<le> 49) body then radix 2
         else if digits \<noteq> [] \<and> list_all is_digit digits
              then Inr (if sign = ''-'' then - int (dec_val digits) else int (dec_val digits))
         else Inl (JsSyntaxError (''Cannot convert '' @ s @ '' to a BigInt'')))"

text \<open>Canonical decimal text is exactly a single zero or digits without a leading zero.\<close>

definition canonical_dec :: "string \<Rightarrow> bool" where
  "canonical_dec s = (s \<noteq> [] \<and> list_all is_digit s \<and> (hd s = CHR ''0'' \<longrightarrow> length s = 1))"

lemma dec_val_lt: "list_all is_digit s \<Longrightarrow> dec_val s < 10 ^ length s"
proof (induction s rule: rev_induct)
  case (snoc c s)
  then have "digit_val c < 10" by (auto simp: is_digit_def digit_val_def)
  with snoc show ?case by simp
qed simp

lemma dec_val_ge:
  "list_all is_digit s \<Longrightarrow> s \<noteq> [] \<Longrightarrow> hd s \<noteq> CHR ''0'' \<Longrightarrow> 10 ^ (length s - 1) \<le> dec_val s"
proof (induction s rule: rev_induct)
  case (snoc c s)
  show ?case
  proof (cases "s = []")
    case True
    have "code (CHR ''0'') = 48" by (simp add: code_def)
    with snoc.prems True have "digit_val c \<noteq> 0"
      using code_eq_iff [of c "CHR ''0''"] by (auto simp: is_digit_def digit_val_def)
    then show ?thesis using True dec_val_snoc [of "[]" c] by simp
  next
    case False
    with snoc have "10 ^ (length s - 1) \<le> dec_val s" by simp
    with False show ?thesis by (cases "length s") auto
  qed
qed simp

lemma nat_to_string_dec_val: "canonical_dec s \<Longrightarrow> nat_to_string (dec_val s) = s"
proof (induction s rule: rev_induct)
  case Nil
  then show ?case by (simp add: canonical_dec_def)
next
  case (snoc c s)
  then have c: "is_digit c" "digit_val c < 10"
    by (auto simp: canonical_dec_def is_digit_def digit_val_def)
  show ?case
  proof (cases "s = []")
    case True
    with c show ?thesis using dec_val_snoc [of "[]" c]
      by (subst nat_to_string.simps) (simp add: digit_char_digit_val)
  next
    case False
    with snoc.prems have canon: "canonical_dec s" and nz: "hd s \<noteq> CHR ''0''"
      by (auto simp: canonical_dec_def)
    from canon have "list_all is_digit s" by (simp add: canonical_dec_def)
    then have "10 ^ (length s - 1) \<le> dec_val s" using False nz by (rule dec_val_ge)
    then have pos: "0 < dec_val s" by (rule less_le_trans [rotated]) simp
    from snoc.IH [OF canon] have "nat_to_string (dec_val s) = s" .
    with c pos show ?thesis
      by (subst nat_to_string.simps) (simp add: digit_char_digit_val)
  qed
qed

lemma canonical_dec_nat_to_string: "canonical_dec (nat_to_string n)"
proof -
  have "hd (nat_to_string n) = CHR ''0'' \<Longrightarrow> length (nat_to_string n) = 1"
    by (simp only: nat_to_string_hd_zero) (simp add: nat_to_string.simps)
  then show ?thesis
    by (auto simp: canonical_dec_def list_all_iff dest: nat_to_string_digits)
qed

lemma canonical_dec_iff: "canonical_dec s \<longleftrightarrow> (\<exists>n. s = nat_to_string n)"
  by (metis canonical_dec_nat_to_string nat_to_string_dec_val)

lemma int_to_string_nonneg: "0 \<le> i \<Longrightarrow> int_to_string i = nat_to_string (nat i)"
  by (simp add: int_to_string_def)

lemma trim_digits: "list_all is_digit s \<Longrightarrow> trim s = s"
proof -
  have no: "dropWhile is_space u = u" if "list_all is_digit u" for u
    using that by (cases u) (auto simp: is_digit_def is_space_def)
  assume "list_all is_digit s"
  then show ?thesis by (simp add: trim_def no list_all_rev)
qed

lemma js_BigInt_canonical: "js_BigInt (nat_to_string n) = Inr (int n)"
proof -
  have d: "list_all is_digit (nat_to_string n)" by (auto simp: list_all_iff nat_to_string_digits)
  then have t: "trim (nat_to_string n) = nat_to_string n" by (rule trim_digits)
  have nd: "\<not> is_digit (CHR ''x'')" "\<not> is_digit (CHR ''X'')" "\<not> is_digit (CHR ''o'')"
    "\<not> is_digit (CHR ''O'')" "\<not> is_digit (CHR ''b'')" "\<not> is_digit (CHR ''B'')"
    "\<not> is_digit (CHR ''+'')" "\<not> is_digit (CHR ''-'')"
    by (simp_all add: is_digit_def code_def)
  obtain c s where s: "nat_to_string n = c # s" using nat_to_string_nonempty by (metis list.exhaust)
  have c: "c \<noteq> CHR ''+''" "c \<noteq> CHR ''-''" using d nd s by auto
  have s2: "take 1 s \<noteq> [x]" if "\<not> is_digit x" for x using d s that by (cases s) auto
  have v: "dec_val (c # s) = n" using dec_val_nat_to_string [of n] s by simp
  show ?thesis using c d nd s2 t v by (simp add: js_BigInt_def Let_def s)
qed

lemma js_BigInt_nonneg: "0 \<le> v \<Longrightarrow> js_BigInt (int_to_string v) = Inr v"
  by (simp add: int_to_string_nonneg js_BigInt_canonical)

lemma digit_char_simps [simp]:
  "digit_char 0 = CHR ''0''" "digit_char 1 = CHR ''1''" "digit_char (Suc 0) = CHR ''1''"
  "digit_char 2 = CHR ''2''"
  "digit_char 3 = CHR ''3''" "digit_char 4 = CHR ''4''" "digit_char 5 = CHR ''5''"
  "digit_char 6 = CHR ''6''" "digit_char 7 = CHR ''7''" "digit_char 8 = CHR ''8''"
  "digit_char 9 = CHR ''9''"
  by (code_simp, code_simp, code_simp, code_simp, code_simp, code_simp, code_simp, code_simp,
      code_simp, code_simp, code_simp)

lemma code_simps_digits [simp]:
  "code (CHR ''0'') = 48" "code (CHR ''1'') = 49" "code (CHR ''2'') = 50" "code (CHR ''3'') = 51"
  "code (CHR ''4'') = 52" "code (CHR ''5'') = 53" "code (CHR ''6'') = 54" "code (CHR ''7'') = 55"
  "code (CHR ''8'') = 56" "code (CHR ''9'') = 57"
  by (simp_all add: code_def)

end
