(* ===== verification/Core_Amount.thy ===== *)
theory Core_Amount
  imports X402_Prelude
begin

text \<open>
  Amounts and networks: \<^verbatim>\<open>core/src/constants.ts\<close>, \<^verbatim>\<open>amount.ts\<close> and \<^verbatim>\<open>network.ts\<close>.

  A sompi amount travels as decimal text and is admitted by one regular expression. The
  main fact of this theory is that this expression, and the narrower one for covenant
  arithmetic, accept exactly the canonical decimal texts of the numbers up to their bound,
  so that parsing needs no further range check and printing is its inverse.
\<close>

section \<open>Constants\<close>

definition U32_MAX :: int where
  "U32_MAX = 4294967295"

definition U64_MAX :: int where
  "U64_MAX = 18446744073709551615"

definition BATCH_SCRIPT_INT_MAX :: int where
  "BATCH_SCRIPT_INT_MAX = 9223372036854775807"

definition KASPA_LOCK_TIME_THRESHOLD :: int where
  "KASPA_LOCK_TIME_THRESHOLD = 500000000000"

definition SUPPORTED_NETWORKS :: "string list" where
  "SUPPORTED_NETWORKS = [''kaspa:mainnet'', ''kaspa:testnet-10'']"

definition ASSET_ID :: string where
  "ASSET_ID = ''KAS''"

definition ESCROW_BINDING_ID :: string where
  "ESCROW_BINDING_ID = ''kaspa-escrow-v3''"

definition ESCROW_TEMPLATE_ID :: string where
  "ESCROW_TEMPLATE_ID = ''kaspa-x402-escrow-v5''"

abbreviation dr :: "nat \<Rightarrow> nat \<Rightarrow> rx_item" where
  \<comment> \<open>one digit between the two given ones\<close>
  "dr a b \<equiv> Rng (48 + a) (48 + b) 1 1"

abbreviation dd :: "nat \<Rightarrow> rx_item" where
  \<comment> \<open>exactly that many digits\<close>
  "dd k \<equiv> Rng 48 57 k k"

definition U64_DECIMAL_PATTERN :: "rx_item list list" where
  "U64_DECIMAL_PATTERN =
    [[Lit ''0''],
     [dr 1 9, Rng 48 57 0 18],
     [Lit ''1'', dr 0 7, dd 18],
     [Lit ''18'', dr 0 3, dd 17],
     [Lit ''184'', dr 0 3, dd 16],
     [Lit ''1844'', dr 0 5, dd 15],
     [Lit ''18446'', dr 0 6, dd 14],
     [Lit ''184467'', dr 0 3, dd 13],
     [Lit ''1844674'', dr 0 3, dd 12],
     [Lit ''184467440'', dr 0 6, dd 10],
     [Lit ''1844674407'', dr 0 2, dd 9],
     [Lit ''18446744073'', dr 0 6, dd 8],
     [Lit ''1844674407370'', dr 0 8, dd 6],
     [Lit ''18446744073709'', dr 0 4, dd 5],
     [Lit ''184467440737095'', dr 0 4, dd 4],
     [Lit ''18446744073709550'', dd 3],
     [Lit ''18446744073709551'', dr 0 5, dd 2],
     [Lit ''1844674407370955160'', dd 1],
     [Lit ''1844674407370955161'', dr 0 4],
     [Lit ''18446744073709551615'']]"

definition BATCH_AMOUNT_DECIMAL_PATTERN :: "rx_item list list" where
  "BATCH_AMOUNT_DECIMAL_PATTERN =
    [[Lit ''0''],
     [dr 1 9, Rng 48 57 0 17],
     [dr 1 8, dd 18],
     [Lit ''9'', dr 0 1, dd 17],
     [Lit ''92'', dr 0 1, dd 16],
     [Lit ''922'', dr 0 2, dd 15],
     [Lit ''9223'', dr 0 2, dd 14],
     [Lit ''92233'', dr 0 6, dd 13],
     [Lit ''922337'', dr 0 1, dd 12],
     [Lit ''92233720'', dr 0 2, dd 10],
     [Lit ''922337203'', dr 0 5, dd 9],
     [Lit ''9223372036'', dr 0 7, dd 8],
     [Lit ''92233720368'', dr 0 4, dd 7],
     [Lit ''922337203685'', dr 0 3, dd 6],
     [Lit ''9223372036854'', dr 0 6, dd 5],
     [Lit ''92233720368547'', dr 0 6, dd 4],
     [Lit ''922337203685477'', dr 0 4, dd 3],
     [Lit ''9223372036854775'', dr 0 7, dd 2],
     [Lit ''922337203685477580'', dr 0 7]]"

section \<open>amount.ts\<close>

definition isDecimalSompi :: "string \<Rightarrow> bool" where
  "isDecimalSompi value = rx_test U64_DECIMAL_PATTERN value"

definition parseSompiString :: "string \<Rightarrow> int res" where
  "parseSompiString value =
     (if \<not> isDecimalSompi value
      then Inl (KaspaX402Error Invalid_amount
                  ''amount must be a canonical uint64 decimal sompi string'')
      else Inr (int (dec_val value)))"

definition numberToBigInt :: "js_number \<Rightarrow> int res" where
  "numberToBigInt value =
     (case value of
        JsInt i \<Rightarrow>
          if \<not> is_safe_integer value \<or> i < 0
          then Inl (KaspaX402Error Invalid_amount
                      ''number amount must be a non-negative safe integer'')
          else Inr i
      | JsNonInt _ \<Rightarrow>
          Inl (KaspaX402Error Invalid_amount
                 ''number amount must be a non-negative safe integer''))"

datatype amount_value = BigIntV int | NumberV js_number | StringV string

definition formatSompiString :: "amount_value \<Rightarrow> string res" where
  "formatSompiString value =
     bindE (case value of BigIntV i \<Rightarrow> Inr i
              | NumberV n \<Rightarrow> numberToBigInt n
              | StringV s \<Rightarrow> parseSompiString s)
       (\<lambda>normalized.
         if normalized < 0 \<or> U64_MAX < normalized
         then Inl (KaspaX402Error Invalid_amount ''amount is outside uint64 range'')
         else Inr (int_to_string normalized))"

section \<open>network.ts\<close>

definition isKaspaX402Network :: "string \<Rightarrow> bool" where
  "isKaspaX402Network value = (value \<in> set SUPPORTED_NETWORKS)"

definition parseKaspaNetwork :: "string \<Rightarrow> string res" where
  "parseKaspaNetwork value =
     (if \<not> isKaspaX402Network value
      then Inl (KaspaX402Error Invalid_network ''unsupported Kaspa x402 network'')
      else Inr value)"

definition assertSupportedNetwork :: "string \<Rightarrow> string list \<Rightarrow> string res" where
  "assertSupportedNetwork value supported =
     (if value \<notin> set supported
      then Inl (KaspaX402Error Invalid_network
                  ''network is not supported by this implementation'')
      else Inr value)"

definition assertMainnetAllowed :: "string \<Rightarrow> bool \<Rightarrow> string \<Rightarrow> unit res" where
  "assertMainnetAllowed network allowMainnet component =
     (if network = ''kaspa:mainnet'' \<and> \<not> allowMainnet
      then Inl (KaspaX402Error Invalid_network
                  (component @ '' requires allowMainnet for kaspa:mainnet''))
      else Inr ())"

section \<open>Each alternative of a decimal pattern is an interval\<close>

lemma dec_val_append: "dec_val (s @ t) = dec_val s * 10 ^ length t + dec_val t"
proof (induction t rule: rev_induct)
  case (snoc c t)
  have "dec_val (s @ t @ [c]) = 10 * dec_val (s @ t) + digit_val c"
    using dec_val_snoc [of "s @ t" c] by simp
  with snoc show ?case by (simp add: algebra_simps)
qed simp

lemma dec_val_single [simp]: "dec_val [c] = digit_val c"
  using dec_val_snoc [of "[]" c] by simp

lemma dec_val_inject:
  assumes "length s = length t" "list_all is_digit s" "list_all is_digit t"
    and "dec_val s = dec_val t"
  shows "s = t"
  using assms
proof (induction s arbitrary: t rule: rev_induct)
  case (snoc c s)
  then obtain t' d where t: "t = t' @ [d]" by (cases t rule: rev_cases) auto
  from snoc.prems t have cd: "is_digit c" "is_digit d" by auto
  then have small: "digit_val c < 10" "digit_val d < 10"
    by (auto simp: is_digit_def digit_val_def)
  from snoc.prems t have eq: "10 * dec_val s + digit_val c = 10 * dec_val t' + digit_val d"
    by simp
  have d: "digit_val c = digit_val d" "dec_val s = dec_val t'"
    using eq small by presburger+
  then have "c = d" using cd by (metis digit_char_digit_val)
  with d snoc t show ?case by simp
qed simp

lemma rx_seq_Rng_exact:
  "rx_seq (Rng lo hi k k # is) s \<longleftrightarrow>
     k \<le> length s \<and> list_all (\<lambda>c. lo \<le> code c \<and> code c \<le> hi) (take k s) \<and> rx_seq is (drop k s)"
  by simp

declare rx_seq.simps(3) [simp del]

lemma digits_iff: "list_all (\<lambda>c. 48 \<le> code c \<and> code c \<le> 57) s \<longleftrightarrow> list_all is_digit s"
  by (simp add: list_all_iff is_digit_def)

lemma interval_block:
  fixes P U a b d w X :: nat
  assumes "w < X" "d < 10" "a < 10" "b < 10"
  shows "(10 * P + a) * X \<le> (10 * U + d) * X + w \<and> (10 * U + d) * X + w < (10 * P + b + 1) * X
     \<longleftrightarrow> U = P \<and> a \<le> d \<and> d \<le> b"
proof -
  have "(10 * P + a) * X \<le> (10 * U + d) * X + w \<longleftrightarrow> 10 * P + a \<le> 10 * U + d"
  proof
    assume "(10 * P + a) * X \<le> (10 * U + d) * X + w"
    also have "\<dots> < (10 * U + d + 1) * X" using assms(1) by simp
    finally show "10 * P + a \<le> 10 * U + d" by (simp only: mult_less_cancel2) simp
  next
    assume "10 * P + a \<le> 10 * U + d"
    then have "(10 * P + a) * X \<le> (10 * U + d) * X" by (rule mult_le_mono1)
    then show "(10 * P + a) * X \<le> (10 * U + d) * X + w" by (rule trans_le_add1)
  qed
  moreover have "(10 * U + d) * X + w < (10 * P + b + 1) * X \<longleftrightarrow> 10 * U + d < 10 * P + b + 1"
  proof
    assume "(10 * U + d) * X + w < (10 * P + b + 1) * X"
    then have "(10 * U + d) * X < (10 * P + b + 1) * X" by simp
    then show "10 * U + d < 10 * P + b + 1" by (simp only: mult_less_cancel2)
  next
    assume "10 * U + d < 10 * P + b + 1"
    then have 1: "(10 * U + d + 1) * X \<le> (10 * P + b + 1) * X" by (intro mult_le_mono1) simp
    have 2: "(10 * U + d) * X + w < (10 * U + d + 1) * X" using assms(1) by simp
    show "(10 * U + d) * X + w < (10 * P + b + 1) * X" using less_le_trans [OF 2 1] .
  qed
  moreover have "10 * P + a \<le> 10 * U + d \<and> 10 * U + d < 10 * P + b + 1
      \<longleftrightarrow> U = P \<and> a \<le> d \<and> d \<le> b"
  proof
    assume *: "10 * P + a \<le> 10 * U + d \<and> 10 * U + d < 10 * P + b + 1"
    have "\<not> U < P" "\<not> P < U" using * assms(2-4) by linarith+
    then have "U = P" by simp
    with * show "U = P \<and> a \<le> d \<and> d \<le> b" by simp
  qed simp
  ultimately show ?thesis by blast
qed

text \<open>A literal prefix, one digit from a range, then free digits: an interval of values.\<close>

lemma rx_block:
  assumes p: "list_all is_digit p" and ab: "a < 10" "b < 10"
  shows "rx_seq [Lit p, Rng (48 + a) (48 + b) 1 1, Rng 48 57 k k] s \<longleftrightarrow>
     length s = length p + 1 + k \<and> list_all is_digit s \<and>
     (10 * dec_val p + a) * 10 ^ k \<le> dec_val s \<and> dec_val s < (10 * dec_val p + b + 1) * 10 ^ k"
    (is "?L \<longleftrightarrow> ?R")
proof (cases "length s = length p + 1 + k \<and> list_all is_digit s")
  case False
  moreover have "length s = length p + 1 + k \<and> list_all is_digit s" if ?L
  proof -
    let ?n = "length p"
    from that have 1: "take ?n s = p" and 2: "?n + 1 \<le> length s" and 3: "k \<le> length s - (?n + 1)"
      and 4: "drop k (drop 1 (drop ?n s)) = []"
      and 5: "list_all (\<lambda>c. 48 + a \<le> code c \<and> code c \<le> 48 + b) (take 1 (drop ?n s))"
      and 6: "list_all is_digit (take k (drop 1 (drop ?n s)))"
      by (auto simp: rx_seq_Rng_exact digits_iff simp del: One_nat_def)
    have "s = take ?n s @ take 1 (drop ?n s) @ take k (drop 1 (drop ?n s))
               @ drop k (drop 1 (drop ?n s))"
      by (simp only: append_take_drop_id)
    then have s: "s = p @ take 1 (drop ?n s) @ take k (drop 1 (drop ?n s))"
      by (simp only: 1 4 append_Nil2)
    moreover have "list_all is_digit (take 1 (drop ?n s))"
      using 5 ab by (auto simp: list_all_iff is_digit_def)
    moreover have "length s = ?n + 1 + k" using 2 3 4 by simp
    ultimately show ?thesis using p 6 by (metis list_all_append)
  qed
  ultimately show ?thesis by blast
next
  case True
  define u where "u = take (length p) s"
  define v where "v = drop (length p) s"
  have s: "s = u @ v" by (simp add: u_def v_def)
  have lu: "length u = length p" using True by (simp add: u_def)
  have lv: "length v = 1 + k" using True by (simp add: v_def)
  then obtain c w where v: "v = c # w" by (cases v) auto
  have dig: "list_all is_digit u" "is_digit c" "list_all is_digit w"
    using True s v by simp_all
  have lw: "length w = k" using lv v by simp
  have L: "?L \<longleftrightarrow> u = p \<and> a \<le> digit_val c \<and> digit_val c \<le> b"
    using dig lu lw ab by (auto simp: s v rx_seq_Rng_exact digits_iff is_digit_def digit_val_def)
  have val: "dec_val s = (10 * dec_val u + digit_val c) * 10 ^ k + dec_val w"
    using dec_val_append [of u "c # w"] dec_val_append [of "[c]" w]
    by (simp add: s v lw algebra_simps)
  have "dec_val w < 10 ^ k" using dec_val_lt [OF dig(3)] lw by simp
  moreover have "digit_val c < 10" using dig(2) by (auto simp: is_digit_def digit_val_def)
  ultimately have "(10 * dec_val p + a) * 10 ^ k \<le> dec_val s \<and>
      dec_val s < (10 * dec_val p + b + 1) * 10 ^ k
      \<longleftrightarrow> dec_val u = dec_val p \<and> a \<le> digit_val c \<and> digit_val c \<le> b"
    unfolding val using ab by (intro interval_block)
  moreover have "dec_val u = dec_val p \<longleftrightarrow> u = p"
    using dec_val_inject [OF lu dig(1) p] by blast
  ultimately show ?thesis using True L by blast
qed

lemma rx_last_digit:
  assumes "list_all is_digit p" "a < 10" "b < 10"
  shows "rx_seq [Lit p, Rng (48 + a) (48 + b) 1 1] s \<longleftrightarrow>
     length s = length p + 1 \<and> list_all is_digit s \<and>
     10 * dec_val p + a \<le> dec_val s \<and> dec_val s < 10 * dec_val p + b + 1"
  using rx_block [OF assms, of 0 s] by (simp add: rx_seq_Rng_exact)

lemma rx_free_digits:
  assumes "list_all is_digit p" and "0 < k"
  shows "rx_seq [Lit p, Rng 48 57 k k] s \<longleftrightarrow>
     length s = length p + k \<and> list_all is_digit s \<and>
     dec_val p * 10 ^ k \<le> dec_val s \<and> dec_val s < (dec_val p + 1) * 10 ^ k"
proof -
  from assms(2) obtain j where k: "k = Suc j" by (cases k) auto
  have "rx_seq [Lit p, Rng 48 57 (Suc j) (Suc j)] s \<longleftrightarrow>
        rx_seq [Lit p, Rng (48 + 0) (48 + 9) 1 1, Rng 48 57 j j] s"
  proof (cases "drop (length p) s")
    case (Cons c v)
    then show ?thesis by (auto simp: rx_seq_Rng_exact digits_iff is_digit_def)
  qed (simp add: rx_seq_Rng_exact)
  also have "\<dots> \<longleftrightarrow> length s = length p + Suc j \<and> list_all is_digit s \<and>
     dec_val p * 10 ^ Suc j \<le> dec_val s \<and> dec_val s < (dec_val p + 1) * 10 ^ Suc j"
    using rx_block [OF assms(1), of 0 9 j s] by (simp add: algebra_simps)
  finally show ?thesis by (simp only: k)
qed

lemma rx_literal:
  assumes "list_all is_digit p"
  shows "rx_seq [Lit p] s \<longleftrightarrow> length s = length p \<and> list_all is_digit s \<and> dec_val s = dec_val p"
  using assms dec_val_inject [of s p] by auto

lemma rx_leading:
  "rx_seq [Rng 49 57 (Suc 0) (Suc 0), Rng 48 57 0 k] s \<longleftrightarrow>
     1 \<le> length s \<and> length s \<le> Suc k \<and> list_all is_digit s \<and> hd s \<noteq> CHR ''0''"
proof (cases s)
  case (Cons c w)
  have "49 \<le> code c \<and> code c \<le> 57 \<longleftrightarrow> is_digit c \<and> c \<noteq> CHR ''0''"
    using code_eq_iff [of c "CHR ''0''"] by (auto simp: is_digit_def)
  moreover have "rx_seq [Rng 48 57 0 k] w \<longleftrightarrow> length w \<le> k \<and> list_all is_digit w"
    by (auto simp: rx_seq.simps(3) list_ex_iff digits_iff simp del: upt_Suc)
  ultimately show ?thesis by (auto simp: Cons rx_seq_Rng_exact)
qed (simp add: rx_seq_Rng_exact)

section \<open>The patterns accept exactly the canonical texts up to their bound\<close>

lemma digits_consts [simp]:
  "is_digit (CHR ''0'')" "is_digit (CHR ''1'')" "is_digit (CHR ''2'')" "is_digit (CHR ''3'')"
  "is_digit (CHR ''4'')" "is_digit (CHR ''5'')" "is_digit (CHR ''6'')" "is_digit (CHR ''7'')"
  "is_digit (CHR ''8'')" "is_digit (CHR ''9'')"
  by (simp_all add: is_digit_def)

lemma canonical_length:
  assumes "canonical_dec s" "s \<noteq> ''0''"
  shows "10 ^ (length s - 1) \<le> dec_val s" and "dec_val s < 10 ^ length s"
proof -
  from assms have "list_all is_digit s" "s \<noteq> []" "hd s \<noteq> CHR ''0''"
    by (auto simp: canonical_dec_def length_Suc_conv)
  then show "10 ^ (length s - 1) \<le> dec_val s" and "dec_val s < 10 ^ length s"
    using dec_val_ge [of s] dec_val_lt [of s] by simp_all
qed

lemma leading_canonical:
  "rx_seq [Rng 49 57 (Suc 0) (Suc 0), Rng 48 57 0 k] s \<longleftrightarrow>
     canonical_dec s \<and> s \<noteq> ''0'' \<and> length s \<le> Suc k"
  by (cases s) (auto simp: rx_leading canonical_dec_def)

lemma long_canonical:
  assumes "list_all is_digit s" "10 ^ k \<le> dec_val s" "length s = Suc k"
  shows "canonical_dec s \<and> s \<noteq> ''0''"
proof -
  from assms(3) obtain c w where s: "s = c # w" "length w = k" by (cases s) auto
  have "c \<noteq> CHR ''0''"
  proof
    assume c: "c = CHR ''0''"
    have "dec_val s = dec_val w"
      using dec_val_append [of "[c]" w] c s(1) by (simp add: digit_val_def)
    also have "\<dots> < 10 ^ k" using dec_val_lt [of w] assms(1) s by simp
    finally show False using assms(2) by simp
  qed
  with assms(1) s show ?thesis by (auto simp: canonical_dec_def)
qed

lemma dec_val_Cons: "dec_val (c # s) = digit_val c * 10 ^ length s + dec_val s"
  using dec_val_append [of "[c]" s] by simp

text \<open>Every alternative of fixed length denotes a block of consecutive values; adjacent
  blocks merge.\<close>

definition digit_block :: "nat \<Rightarrow> nat \<Rightarrow> nat \<Rightarrow> string \<Rightarrow> bool" where
  "digit_block n lo hi s =
     (length s = n \<and> list_all is_digit s \<and> lo \<le> dec_val s \<and> dec_val s < hi)"

lemma digit_block_merge:
  assumes "l \<le> m" "m \<le> h"
  shows "digit_block n l m s \<or> digit_block n m h s \<longleftrightarrow> digit_block n l h s"
    and "digit_block n l m s \<or> digit_block n m h s \<or> R \<longleftrightarrow> digit_block n l h s \<or> R"
  using assms by (auto simp: digit_block_def)

lemma block_alternatives:
  assumes "list_all is_digit p"
  shows "a < 10 \<Longrightarrow> b < 10 \<Longrightarrow> length p + 1 + k = n \<Longrightarrow>
      rx_seq [Lit p, Rng (48 + a) (48 + b) 1 1, Rng 48 57 k k] s \<longleftrightarrow>
      digit_block n ((10 * dec_val p + a) * 10 ^ k) ((10 * dec_val p + b + 1) * 10 ^ k) s"
    and "a < 10 \<Longrightarrow> b < 10 \<Longrightarrow> length p + 1 = n \<Longrightarrow>
      rx_seq [Lit p, Rng (48 + a) (48 + b) 1 1] s \<longleftrightarrow>
      digit_block n (10 * dec_val p + a) (10 * dec_val p + b + 1) s"
    and "0 < k \<Longrightarrow> length p + k = n \<Longrightarrow>
      rx_seq [Lit p, Rng 48 57 k k] s \<longleftrightarrow>
      digit_block n (dec_val p * 10 ^ k) ((dec_val p + 1) * 10 ^ k) s"
    and "length p = n \<Longrightarrow> rx_seq [Lit p] s \<longleftrightarrow> digit_block n (dec_val p) (dec_val p + 1) s"
  using rx_block [OF assms, of a b k s] rx_last_digit [OF assms, of a b s]
    rx_free_digits [OF assms, of k s] rx_literal [OF assms, of s]
  by (auto simp: digit_block_def)

lemma bounded_canonical:
  assumes "10 ^ k < N" "N \<le> 10 ^ Suc k"
  shows "s = ''0'' \<or> (canonical_dec s \<and> s \<noteq> ''0'' \<and> length s \<le> k) \<or> digit_block (Suc k) (10 ^ k) N s
     \<longleftrightarrow> canonical_dec s \<and> dec_val s < N"
proof (cases "s = ''0''")
  case True
  then show ?thesis using assms by (simp add: canonical_dec_def digit_val_def)
next
  case False
  have short: "dec_val s < N" if "canonical_dec s" "length s \<le> k"
  proof -
    have "dec_val s < 10 ^ length s" using canonical_length(2) [OF that(1) False] .
    also have "\<dots> \<le> 10 ^ k" using that(2) by (rule power_increasing) simp
    finally show ?thesis using assms(1) by simp
  qed
  have long: "length s = Suc k \<and> 10 ^ k \<le> dec_val s"
    if "canonical_dec s" "\<not> length s \<le> k" "dec_val s < N"
  proof -
    have lower: "10 ^ (length s - 1) \<le> dec_val s" using canonical_length(1) [OF that(1) False] .
    then have "(10::nat) ^ (length s - 1) < 10 ^ Suc k" using that(3) assms(2) by linarith
    then have "length s - 1 < Suc k" by (rule power_less_imp_less_exp [rotated]) simp
    with that(2) have "length s = Suc k" by simp
    with lower show ?thesis by simp
  qed
  have "canonical_dec s \<Longrightarrow> list_all is_digit s" by (simp add: canonical_dec_def)
  with False short long long_canonical [of s k] show ?thesis by (auto simp: digit_block_def)
qed

lemma rx_zero: "rx_seq [Lit ''0''] s \<longleftrightarrow> s = ''0''" 
  by (cases s) auto

lemma u64_pattern_blocks:
  "isDecimalSompi s \<longleftrightarrow> s = ''0'' \<or> (canonical_dec s \<and> s \<noteq> ''0'' \<and> length s \<le> 19) \<or>
     digit_block 20 (10 ^ 19) 18446744073709551616 s"
  apply (simp only: isDecimalSompi_def rx_test_def U64_DECIMAL_PATTERN_def rx_zero
      list_ex_Nil_iff list_ex_Cons_iff)
  apply (subst block_alternatives(1) [where n = 20], simp, simp, simp, simp)+
  apply (subst block_alternatives(2) [where n = 20], simp, simp, simp, simp)+
  apply (subst block_alternatives(3) [where n = 20], simp, simp, simp)+
  apply (subst block_alternatives(4) [where n = 20], simp, simp)+
  by (simp add: leading_canonical dec_val_Cons digit_val_def digit_block_merge)

lemma batch_pattern_blocks:
  "rx_test BATCH_AMOUNT_DECIMAL_PATTERN s \<longleftrightarrow> s = ''0'' \<or> (canonical_dec s \<and> s \<noteq> ''0'' \<and> length s \<le> 18) \<or>
     digit_block 19 (10 ^ 18) 9223372036854775808 s"
proof -
  have first: "rx_seq [dr 1 8, dd 18] s = rx_seq [Lit [], dr 1 8, dd 18] s" by simp
  show ?thesis
  apply (simp only: rx_test_def BATCH_AMOUNT_DECIMAL_PATTERN_def rx_zero first
      list_ex_Nil_iff list_ex_Cons_iff)
  apply (subst block_alternatives(1) [where n = 19], simp, simp, simp, simp)+
  apply (subst block_alternatives(2) [where n = 19], simp, simp, simp, simp)+
  by (simp add: leading_canonical dec_val_Cons digit_val_def digit_block_merge)
qed

lemma isDecimalSompi_canonical:
  "isDecimalSompi s \<longleftrightarrow> canonical_dec s \<and> int (dec_val s) \<le> U64_MAX"
  using bounded_canonical [of 19 18446744073709551616 s]
  by (simp add: u64_pattern_blocks U64_MAX_def) linarith

lemma batch_pattern_canonical:
  "rx_test BATCH_AMOUNT_DECIMAL_PATTERN s \<longleftrightarrow>
     canonical_dec s \<and> int (dec_val s) \<le> BATCH_SCRIPT_INT_MAX"
  using bounded_canonical [of 18 9223372036854775808 s]
  by (simp add: batch_pattern_blocks BATCH_SCRIPT_INT_MAX_def) linarith

section \<open>Parsing and printing amounts\<close>

lemma parseSompiString_Inr [run_simps]:
  "parseSompiString s = Inr v \<longleftrightarrow> 0 \<le> v \<and> v \<le> U64_MAX \<and> s = int_to_string v"
proof -
  have "int_to_string v = s \<longleftrightarrow> nat v = dec_val s" if "0 \<le> v" "canonical_dec s"
    using that by (metis int_to_string_nonneg nat_to_string_dec_val nat_to_string_inject)
  moreover have "canonical_dec (int_to_string v)" "dec_val (int_to_string v) = nat v" if "0 \<le> v"
    using that by (simp_all add: int_to_string_nonneg canonical_dec_nat_to_string)
  ultimately show ?thesis
    by (auto simp: parseSompiString_def isDecimalSompi_canonical int_to_string_nonneg
        nat_to_string_dec_val)
qed

lemma parseSompiString_int_to_string:
  "parseSompiString (int_to_string v) = Inr v \<longleftrightarrow> 0 \<le> v \<and> v \<le> U64_MAX"
  by (simp add: parseSompiString_Inr)

lemma parseSompiString_range:
  "parseSompiString s = Inr v \<Longrightarrow> 0 \<le> v" "parseSompiString s = Inr v \<Longrightarrow> v \<le> U64_MAX"
  by (simp_all add: parseSompiString_Inr)

lemma int_to_string_inject [simp]:
  "0 \<le> i \<Longrightarrow> 0 \<le> j \<Longrightarrow> int_to_string i = int_to_string j \<longleftrightarrow> i = j"
  by (auto simp: int_to_string_nonneg)

lemma formatSompiString_Inr:
  "formatSompiString (BigIntV i) = Inr s \<longleftrightarrow> 0 \<le> i \<and> i \<le> U64_MAX \<and> s = int_to_string i"
  by (auto simp: formatSompiString_def)

lemma numberToBigInt_Inr:
  "numberToBigInt n = Inr i \<longleftrightarrow> n = JsInt i \<and> 0 \<le> i \<and> i \<le> MAX_SAFE_INTEGER"
  by (cases n) (auto simp: numberToBigInt_def is_safe_integer_def MAX_SAFE_INTEGER_def)

lemma parseKaspaNetwork_Inr [run_simps]:
  "parseKaspaNetwork v = Inr n \<longleftrightarrow> n = v \<and> (v = ''kaspa:mainnet'' \<or> v = ''kaspa:testnet-10'')"
  by (auto simp: parseKaspaNetwork_def isKaspaX402Network_def SUPPORTED_NETWORKS_def)

text \<open>C40: the regular expression that admits a sompi amount accepts exactly the canonical
  decimal texts of the numbers from 0 to the largest uint64, so parsing returns the number
  that the text denotes and rejects every other text.\<close>

theorem parse_amount_exact:
  "parseSompiString s = Inr v \<longleftrightarrow> 0 \<le> v \<and> v \<le> U64_MAX \<and> s = int_to_string v"
  by (rule parseSompiString_Inr)

text \<open>The narrower expression for covenant amounts accepts exactly the canonical decimal
  texts of the numbers up to the largest signed 64-bit script integer, that is, the amounts
  that both parse as uint64 and stay within the script bound.\<close>

theorem batch_amount_pattern_exact:
  "rx_test BATCH_AMOUNT_DECIMAL_PATTERN s \<longleftrightarrow>
     (\<exists>v. parseSompiString s = Inr v \<and> v \<le> BATCH_SCRIPT_INT_MAX)"
  by (auto simp: batch_pattern_canonical parseSompiString_def isDecimalSompi_canonical
      U64_MAX_def BATCH_SCRIPT_INT_MAX_def)

text \<open>Printing is the inverse of parsing for every kind of input: what
  \<open>formatSompiString\<close> prints parses back to the number it was given, for a bigint, a safe
  integer number and an amount text alike.\<close>

theorem format_parse_roundtrip:
  "formatSompiString v = Inr s \<Longrightarrow>
     (\<exists>i. parseSompiString s = Inr i \<and>
          (case v of BigIntV j \<Rightarrow> i = j | NumberV n \<Rightarrow> n = JsInt i | StringV t \<Rightarrow> t = s))"
  by (cases v) (auto simp: formatSompiString_def run_simps numberToBigInt_Inr)

theorem format_parse_roundtrip_witness:
  "formatSompiString (NumberV (JsInt 250)) = Inr ''250'' \<and>
   (\<exists>i. parseSompiString ''250'' = Inr i \<and> JsInt 250 = JsInt i)"
proof -
  have h: "formatSompiString (NumberV (JsInt 250)) = Inr ''250''" by code_simp
  show ?thesis using h format_parse_roundtrip [OF h] by simp
qed

end
