(* ===== verification/Batch_Lane.thy ===== *)
theory Batch_Lane
  imports Core_Amount
begin

text \<open>
  The accounting of a batch lane: \<^verbatim>\<open>core/src/batch-lane.ts\<close>. A lane snapshot carries the
  value of the active covenant output and three lifetime totals; every operation first
  validates the snapshot. The claims of a lane form a machine (interpretation \<open>lane\<close> of
  \<open>monotone_machine\<close>): no sequence of claims loses or creates value, charges or vouchers.
\<close>

section \<open>Definitions\<close>

record batch_lane_state =
  fundingAmount :: string
  chargedCumulativeAmount :: string
  claimedCumulativeAmount :: string
  signedMaxClaimable :: string

record batch_lane_accounting =
  acc_fundingAmount :: int
  acc_chargedCumulativeAmount :: int
  acc_claimedCumulativeAmount :: int
  acc_signedMaxClaimable :: int
  activeChargedAmount :: int
  remainingAuthorizedAmount :: int

definition amountError :: "string \<Rightarrow> js_error" where
  "amountError message = KaspaX402Error Invalid_amount message"

definition parseBatchLaneAmount :: "string \<Rightarrow> string \<Rightarrow> int res" where
  "parseBatchLaneAmount value label =
     bindE (parseSompiString value) (\<lambda>parsed.
       if BATCH_SCRIPT_INT_MAX < parsed
       then Inl (KaspaX402Error Invalid_amount
                   (label @ '' exceeds the batch covenant signed-int64 range''))
       else Inr parsed)"

definition batchLaneAccounting :: "batch_lane_state \<Rightarrow> batch_lane_accounting res" where
  "batchLaneAccounting state =
     bindE (parseBatchLaneAmount (fundingAmount state) ''funding amount'') (\<lambda>funding.
     bindE (parseBatchLaneAmount (chargedCumulativeAmount state) ''charged cumulative amount'')
       (\<lambda>charged.
     bindE (parseBatchLaneAmount (claimedCumulativeAmount state) ''claimed cumulative amount'')
       (\<lambda>claimed.
     bindE (parseBatchLaneAmount (signedMaxClaimable state) ''signed cumulative ceiling'')
       (\<lambda>signed.
     if charged < claimed
     then Inl (amountError ''claimed cumulative amount cannot exceed charged cumulative amount'')
     else if signed < charged
     then Inl (amountError ''charged cumulative amount cannot exceed the signed cumulative ceiling'')
     else let active = charged - claimed; remaining = signed - claimed in
     if funding < active
     then Inl (amountError ''unsettled charges cannot exceed the active covenant value'')
     else if funding < remaining
     then Inl (amountError
                 ''remaining voucher authorization cannot exceed the active covenant value'')
     else Inr \<lparr>acc_fundingAmount = funding, acc_chargedCumulativeAmount = charged,
               acc_claimedCumulativeAmount = claimed, acc_signedMaxClaimable = signed,
               activeChargedAmount = active, remainingAuthorizedAmount = remaining\<rparr>))))"

definition requiredBatchVoucherAmount :: "batch_lane_state \<Rightarrow> string \<Rightarrow> string res" where
  "requiredBatchVoucherAmount state maximumNewCharge =
     bindE (batchLaneAccounting state) (\<lambda>accounting.
     bindE (parseBatchLaneAmount maximumNewCharge ''maximum new charge'') (\<lambda>maximumCharge.
     let required = acc_chargedCumulativeAmount accounting + maximumCharge in
     if BATCH_SCRIPT_INT_MAX < required
     then Inl (amountError
                 ''required voucher ceiling exceeds the batch covenant signed-int64 range'')
     else if acc_signedMaxClaimable accounting \<noteq> acc_chargedCumulativeAmount accounting
           \<and> acc_signedMaxClaimable accounting \<noteq> required
     then Inl (amountError
                 (''existing voucher authorization does not match the current or ''
                  @ ''requested fixed cumulative charge''))
     else if acc_fundingAmount accounting < required - acc_claimedCumulativeAmount accounting
     then Inl (amountError ''required voucher authorization exceeds the active covenant value'')
     else Inr (int_to_string required)))"

definition assertBatchVoucherReserve :: "batch_lane_state \<Rightarrow> string \<Rightarrow> unit res" where
  "assertBatchVoucherReserve state reserveAmount =
     bindE (batchLaneAccounting state) (\<lambda>accounting.
     bindE (parseBatchLaneAmount reserveAmount ''batch reserve'') (\<lambda>reserve.
     if acc_fundingAmount accounting < remainingAuthorizedAmount accounting + reserve
     then Inl (amountError (''remaining voucher authorization plus reserve cannot exceed ''
                 @ ''the active covenant value''))
     else Inr ()))"

definition applyBatchClaimAccounting :: "batch_lane_state \<Rightarrow> string \<Rightarrow> batch_lane_state res" where
  "applyBatchClaimAccounting state claimAmount =
     bindE (batchLaneAccounting state) (\<lambda>accounting.
     bindE (parseBatchLaneAmount claimAmount ''claim amount'') (\<lambda>claim.
     if claim = 0 then Inl (amountError ''claim amount must be positive'')
     else if activeChargedAmount accounting < claim
     then Inl (amountError ''claim amount cannot exceed unsettled actual charges'')
     else if remainingAuthorizedAmount accounting < claim
     then Inl (amountError ''claim amount cannot exceed remaining voucher authorization'')
     else if acc_fundingAmount accounting \<le> claim
     then Inl (amountError ''claim must leave a positive covenant successor'')
     else Inr \<lparr>fundingAmount = int_to_string (acc_fundingAmount accounting - claim),
               chargedCumulativeAmount = int_to_string (acc_chargedCumulativeAmount accounting),
               claimedCumulativeAmount =
                 int_to_string (acc_claimedCumulativeAmount accounting + claim),
               signedMaxClaimable = int_to_string (acc_signedMaxClaimable accounting)\<rparr>))"

section \<open>The lane as four numbers\<close>

text \<open>A snapshot is admitted exactly when it is the printed form of an abstract lane.\<close>

record lane =
  funded :: int
  charged :: int
  claimed :: int
  signed :: int

definition lane_ok :: "lane \<Rightarrow> bool" where
  "lane_ok l = (0 \<le> claimed l \<and> claimed l \<le> charged l \<and> charged l \<le> signed l
     \<and> signed l - claimed l \<le> funded l
     \<and> funded l \<le> BATCH_SCRIPT_INT_MAX \<and> signed l \<le> BATCH_SCRIPT_INT_MAX)"

definition print_lane :: "lane \<Rightarrow> batch_lane_state" where
  "print_lane l = \<lparr>fundingAmount = int_to_string (funded l),
     chargedCumulativeAmount = int_to_string (charged l),
     claimedCumulativeAmount = int_to_string (claimed l),
     signedMaxClaimable = int_to_string (signed l)\<rparr>"

definition lane_accounting :: "lane \<Rightarrow> batch_lane_accounting" where
  "lane_accounting l = \<lparr>acc_fundingAmount = funded l, acc_chargedCumulativeAmount = charged l,
     acc_claimedCumulativeAmount = claimed l, acc_signedMaxClaimable = signed l,
     activeChargedAmount = charged l - claimed l,
     remainingAuthorizedAmount = signed l - claimed l\<rparr>"

definition claim_lane :: "lane \<Rightarrow> int \<Rightarrow> lane" where
  "claim_lane l c = l\<lparr>funded := funded l - c, claimed := claimed l + c\<rparr>"

lemma script_max_le_u64: "v \<le> BATCH_SCRIPT_INT_MAX \<Longrightarrow> v \<le> U64_MAX"
  by (simp add: BATCH_SCRIPT_INT_MAX_def U64_MAX_def)

lemma parseBatchLaneAmount_Inr [run_simps]:
  "parseBatchLaneAmount s l = Inr v \<longleftrightarrow>
     0 \<le> v \<and> v \<le> BATCH_SCRIPT_INT_MAX \<and> s = int_to_string v"
  by (auto simp: parseBatchLaneAmount_def run_simps intro: script_max_le_u64)

lemma batchLaneAccounting_Inr [run_simps]:
  "batchLaneAccounting s = Inr a \<longleftrightarrow>
     (\<exists>l. lane_ok l \<and> s = print_lane l \<and> a = lane_accounting l)"
proof
  assume "batchLaneAccounting s = Inr a"
  then obtain f c k g where parts:
    "0 \<le> f" "f \<le> BATCH_SCRIPT_INT_MAX" "fundingAmount s = int_to_string f"
    "0 \<le> c" "chargedCumulativeAmount s = int_to_string c"
    "0 \<le> k" "claimedCumulativeAmount s = int_to_string k"
    "0 \<le> g" "g \<le> BATCH_SCRIPT_INT_MAX" "signedMaxClaimable s = int_to_string g"
    "k \<le> c" "c \<le> g" "g - k \<le> f"
    and a: "a = \<lparr>acc_fundingAmount = f, acc_chargedCumulativeAmount = c,
       acc_claimedCumulativeAmount = k, acc_signedMaxClaimable = g,
       activeChargedAmount = c - k, remainingAuthorizedAmount = g - k\<rparr>"
    by (auto simp: batchLaneAccounting_def run_simps Let_def split: if_splits)
  show "\<exists>l. lane_ok l \<and> s = print_lane l \<and> a = lane_accounting l"
    using parts a
    by (intro exI [of _ "\<lparr>funded = f, charged = c, claimed = k, signed = g\<rparr>"])
      (simp add: lane_ok_def print_lane_def lane_accounting_def)
next
  assume "\<exists>l. lane_ok l \<and> s = print_lane l \<and> a = lane_accounting l"
  then obtain l where l: "lane_ok l" "s = print_lane l" "a = lane_accounting l" by blast
  have "parseBatchLaneAmount (int_to_string v) w = Inr v" if "0 \<le> v" "v \<le> BATCH_SCRIPT_INT_MAX" for v w
    using that by (simp add: run_simps)
  with l show "batchLaneAccounting s = Inr a"
    by (simp add: batchLaneAccounting_def print_lane_def lane_accounting_def lane_ok_def Let_def)
qed

lemma print_lane_inject: "lane_ok l \<Longrightarrow> lane_ok m \<Longrightarrow> print_lane l = print_lane m \<longleftrightarrow> l = m"
  by (auto simp: print_lane_def lane_ok_def)

lemma applyBatchClaimAccounting_lane:
  assumes "lane_ok l"
  shows "applyBatchClaimAccounting (print_lane l) s = Inr s' \<longleftrightarrow>
     (\<exists>c. s = int_to_string c \<and> 0 < c \<and> c \<le> charged l - claimed l \<and> c < funded l
        \<and> s' = print_lane (claim_lane l c))"
proof -
  have acc: "batchLaneAccounting (print_lane l) = Inr (lane_accounting l)"
    using assms by (auto simp: batchLaneAccounting_Inr)
  show ?thesis
  proof
    assume "applyBatchClaimAccounting (print_lane l) s = Inr s'"
    then obtain c where "0 \<le> c" "s = int_to_string c" "c \<noteq> 0" "c \<le> charged l - claimed l" "c < funded l"
      "s' = print_lane (claim_lane l c)"
      by (simp add: applyBatchClaimAccounting_def acc lane_accounting_def)
        (auto simp: run_simps print_lane_def claim_lane_def)
    then show "\<exists>c. s = int_to_string c \<and> 0 < c \<and> c \<le> charged l - claimed l \<and> c < funded l
        \<and> s' = print_lane (claim_lane l c)" by (intro exI [of _ c]) simp
  next
    assume "\<exists>c. s = int_to_string c \<and> 0 < c \<and> c \<le> charged l - claimed l \<and> c < funded l
        \<and> s' = print_lane (claim_lane l c)"
    then obtain c where c: "s = int_to_string c" "0 < c" "c \<le> charged l - claimed l" "c < funded l"
      and s': "s' = print_lane (claim_lane l c)" by blast
    have "parseBatchLaneAmount s ''claim amount'' = Inr c"
      using assms c by (simp add: run_simps lane_ok_def)
    then show "applyBatchClaimAccounting (print_lane l) s = Inr s'"
      using assms c by (simp add: applyBatchClaimAccounting_def acc lane_accounting_def lane_ok_def)
        (simp add: s' print_lane_def claim_lane_def)
  qed
qed

lemma claim_lane_ok:
  "lane_ok l \<Longrightarrow> 0 \<le> c \<Longrightarrow> c \<le> charged l - claimed l \<Longrightarrow> c < funded l \<Longrightarrow> lane_ok (claim_lane l c)"
  by (auto simp: lane_ok_def claim_lane_def)

section \<open>Claims as a machine\<close>

definition lane_valid :: "batch_lane_state \<Rightarrow> bool" where
  "lane_valid s = succeeds (batchLaneAccounting s)"

definition lane_below :: "batch_lane_state \<Rightarrow> batch_lane_state \<Rightarrow> bool" where
  \<comment> \<open>value moves from the covenant to the claimed total, nothing else changes\<close>
  "lane_below s t = (chargedCumulativeAmount s = chargedCumulativeAmount t
     \<and> signedMaxClaimable s = signedMaxClaimable t
     \<and> dec_val (fundingAmount s) + dec_val (claimedCumulativeAmount s)
         = dec_val (fundingAmount t) + dec_val (claimedCumulativeAmount t)
     \<and> dec_val (claimedCumulativeAmount s) \<le> dec_val (claimedCumulativeAmount t))"

lemma lane_valid_iff: "lane_valid s \<longleftrightarrow> (\<exists>l. lane_ok l \<and> s = print_lane l)"
  by (auto simp: lane_valid_def succeeds_iff batchLaneAccounting_Inr)

lemma dec_val_int_to_string [simp]: "0 \<le> v \<Longrightarrow> dec_val (int_to_string v) = nat v"
  by (simp add: int_to_string_nonneg)

lemma lane_below_claim:
  assumes "lane_ok l" "0 \<le> c" "c \<le> charged l - claimed l" "c < funded l"
  shows "lane_below (print_lane l) (print_lane (claim_lane l c))"
  using assms by (auto simp: lane_below_def print_lane_def claim_lane_def lane_ok_def)

interpretation lane: monotone_machine applyBatchClaimAccounting lane_valid lane_below
proof
  fix s c s' assume "lane_valid s" "applyBatchClaimAccounting s c = Inr s'"
  then obtain l k where "lane_ok l" "s = print_lane l" "s' = print_lane (claim_lane l k)"
    "0 < k" "k \<le> charged l - claimed l" "k < funded l"
    by (auto simp: lane_valid_iff applyBatchClaimAccounting_lane)
  then show "lane_valid s'" "lane_below s s'"
    using claim_lane_ok [of l k] lane_below_claim [of l k] by (auto simp: lane_valid_iff)
qed (auto simp: lane_below_def)

section \<open>Properties\<close>

text \<open>A claim succeeds exactly on a valid lane with a positive amount that is covered by
  the unsettled charges and leaves a positive covenant output; it then moves that amount from
  the covenant value to the claimed total and touches nothing else. (The guard against the
  remaining voucher authorization never fires on a valid lane.)\<close>

theorem claim_exact:
  "applyBatchClaimAccounting s a = Inr s' \<longleftrightarrow>
     (\<exists>l c. lane_ok l \<and> s = print_lane l \<and> a = int_to_string c \<and> 0 < c
        \<and> c \<le> charged l - claimed l \<and> c < funded l
        \<and> s' = print_lane (l\<lparr>funded := funded l - c, claimed := claimed l + c\<rparr>))"
proof
  assume "applyBatchClaimAccounting s a = Inr s'"
  moreover from this have "lane_valid s"
    by (auto simp: applyBatchClaimAccounting_def run_simps lane_valid_iff)
  ultimately show "\<exists>l c. lane_ok l \<and> s = print_lane l \<and> a = int_to_string c \<and> 0 < c
        \<and> c \<le> charged l - claimed l \<and> c < funded l
        \<and> s' = print_lane (l\<lparr>funded := funded l - c, claimed := claimed l + c\<rparr>)"
    by (auto simp: lane_valid_iff applyBatchClaimAccounting_lane claim_lane_def)
qed (auto simp: applyBatchClaimAccounting_lane claim_lane_def)

text \<open>C29: whatever sequence of claims is submitted to a valid lane, accepted or rejected, the
  lane stays valid, the lifetime charges and the voucher ceiling are unchanged, the sum of the
  covenant value and the claimed total is unchanged, and the claimed total never goes down.\<close>

theorem claims_conserve_value:
  assumes "lane_valid s"
  shows "lane_valid (run_cmds applyBatchClaimAccounting s claims) \<and>
     lane_below s (run_cmds applyBatchClaimAccounting s claims)"
  using assms by (simp add: lane.run_inv lane.run_below)

definition lane_example :: batch_lane_state where
  "lane_example = \<lparr>fundingAmount = ''100'', chargedCumulativeAmount = ''40'',
     claimedCumulativeAmount = ''10'', signedMaxClaimable = ''45''\<rparr>"

lemma lane_example_valid: "lane_valid lane_example"
  by (simp add: lane_valid_iff, rule exI [of _ "\<lparr>funded = 100, charged = 40, claimed = 10, signed = 45\<rparr>"])
    (simp add: lane_ok_def print_lane_def lane_example_def BATCH_SCRIPT_INT_MAX_def
      int_to_string_def nat_to_string.simps)

theorem claims_conserve_value_witness:
  "lane_valid lane_example \<and>
   lane_valid (run_cmds applyBatchClaimAccounting lane_example [''20'', ''11'', ''5'']) \<and>
   lane_below lane_example (run_cmds applyBatchClaimAccounting lane_example [''20'', ''11'', ''5''])"
  using claims_conserve_value [OF lane_example_valid] lane_example_valid by blast

text \<open>A computed voucher ceiling keeps the lane sound. When the next ceiling is granted
  for a charge, a lane that signs it and books the charge is again valid and its charged total
  equals the signed ceiling, so the same lane accepts any later request on the same terms.\<close>

theorem voucher_ceiling_sound:
  assumes "requiredBatchVoucherAmount s a = Inr v"
  shows "lane_valid (s\<lparr>signedMaxClaimable := v\<rparr>) \<and>
     lane_valid (s\<lparr>signedMaxClaimable := v, chargedCumulativeAmount := v\<rparr>) \<and>
     (\<exists>c. a = int_to_string c \<and>
        v = int_to_string (int (dec_val (chargedCumulativeAmount s)) + c) \<and>
        dec_val (signedMaxClaimable s) \<le> dec_val v)"
proof -
  from assms obtain l c where l: "lane_ok l" "s = print_lane l" and c: "0 \<le> c" "a = int_to_string c"
    and v: "v = int_to_string (charged l + c)" "charged l + c \<le> BATCH_SCRIPT_INT_MAX"
      "signed l = charged l \<or> signed l = charged l + c" "charged l + c - claimed l \<le> funded l"
    by (auto simp: requiredBatchVoucherAmount_def run_simps Let_def lane_accounting_def
        split: if_splits)
  let ?m = "l\<lparr>signed := charged l + c\<rparr>"
  have "lane_ok ?m" "s\<lparr>signedMaxClaimable := v\<rparr> = print_lane ?m"
    using l c v by (auto simp: lane_ok_def print_lane_def)
  moreover have "lane_ok (?m\<lparr>charged := charged l + c\<rparr>)"
    "s\<lparr>signedMaxClaimable := v, chargedCumulativeAmount := v\<rparr> = print_lane (?m\<lparr>charged := charged l + c\<rparr>)"
    using l c v by (auto simp: lane_ok_def print_lane_def)
  moreover have "v = int_to_string (int (dec_val (chargedCumulativeAmount s)) + c)"
    "dec_val (signedMaxClaimable s) \<le> dec_val v"
    using l c v by (auto simp: print_lane_def lane_ok_def)
  ultimately show ?thesis using c(2) unfolding lane_valid_iff by blast
qed

theorem voucher_ceiling_sound_witness:
  "requiredBatchVoucherAmount (lane_example\<lparr>signedMaxClaimable := ''40''\<rparr>) ''25'' = Inr ''65'' \<and>
   lane_valid (lane_example\<lparr>signedMaxClaimable := ''65''\<rparr>)"
proof -
  let ?l = "\<lparr>funded = 100, charged = 40, claimed = 10, signed = 40\<rparr>"
  have nums: "int_to_string 100 = ''100''" "int_to_string 40 = ''40''" "int_to_string 10 = ''10''"
    "int_to_string 25 = ''25''" "int_to_string 65 = ''65''"
    by (simp_all add: int_to_string_def nat_to_string.simps)
  have "batchLaneAccounting (lane_example\<lparr>signedMaxClaimable := ''40''\<rparr>) = Inr (lane_accounting ?l)"
    unfolding batchLaneAccounting_Inr
    by (rule exI [of _ ?l])
      (simp add: lane_ok_def print_lane_def lane_example_def BATCH_SCRIPT_INT_MAX_def nums)
  moreover have "parseBatchLaneAmount ''25'' ''maximum new charge'' = Inr 25"
    by (simp add: run_simps BATCH_SCRIPT_INT_MAX_def nums)
  ultimately have h: "requiredBatchVoucherAmount (lane_example\<lparr>signedMaxClaimable := ''40''\<rparr>) ''25'' = Inr ''65''"
    by (simp add: requiredBatchVoucherAmount_def lane_accounting_def BATCH_SCRIPT_INT_MAX_def nums)
  show ?thesis using h voucher_ceiling_sound [OF h] by simp
qed

end
