(* ===== verification/Core_Binary.thy ===== *)
theory Core_Binary
  imports Core_Amount
begin

text \<open>
  Byte encodings: \<^verbatim>\<open>core/src/binary.ts\<close>. Hex text, little-endian integers, UTF-8 and
  concatenation, with their round trips, and the interface \<open>fixed_width_code\<close> through
  which the preimage builders of the later theories use them: an encoding whose results all
  have one width can be peeled off the front of a byte string.
\<close>

type_synonym byte = "8 word"

section \<open>Definitions\<close>

definition b8 :: "nat \<Rightarrow> byte" where
  \<comment> \<open>a number stored in one element of a \<open>Uint8Array\<close>\<close>
  "b8 n = of_nat n"

definition hex_val :: "char \<Rightarrow> nat" where
  "hex_val c = (if code c \<le> 57 then code c - 48 else if code c \<le> 70 then code c - 55 else code c - 87)"

definition hex_digit :: "nat \<Rightarrow> char" where
  "hex_digit n = (if n < 10 then char_of (48 + n) else char_of (87 + n))"

fun hex_decode :: "string \<Rightarrow> byte list" where
  \<comment> \<open>\<open>Buffer.from(hex, "hex")\<close> on an even number of hex digits\<close>
  "hex_decode (a # b # rest) = b8 (16 * hex_val a + hex_val b) # hex_decode rest"
| "hex_decode _ = []"

definition HEX_BYTE_PATTERN_test :: "string \<Rightarrow> bool" where
  \<comment> \<open>\<open>/^(?:[0-9a-fA-F]{2})*$/\<close>\<close>
  "HEX_BYTE_PATTERN_test s = (even (length s) \<and> list_all is_hex s)"

definition hexToBytes :: "string \<Rightarrow> nat option \<Rightarrow> kaspa_code \<Rightarrow> string \<Rightarrow> byte list res" where
  "hexToBytes hex expectedLength errorCode label =
     (if \<not> HEX_BYTE_PATTERN_test hex
      then Inl (KaspaX402Error errorCode (label @ '' must be an even-length hex byte string''))
      else case expectedLength of
             None \<Rightarrow> Inr (hex_decode hex)
           | Some n \<Rightarrow>
               if length hex \<noteq> n * 2
               then Inl (KaspaX402Error errorCode (label @ '' must be '' @ nat_to_string n @ '' bytes''))
               else Inr (hex_decode hex))"

definition bytesToHex :: "byte list \<Rightarrow> string" where
  "bytesToHex bytes =
     concat (map (\<lambda>b. [hex_digit (unat b div 16), hex_digit (unat b mod 16)]) bytes)"

definition utf8_char :: "char \<Rightarrow> byte list" where
  "utf8_char c =
     (if code c < 128 then [b8 (code c)]
      else [b8 (192 + code c div 64), b8 (128 + code c mod 64)])"

definition utf8Bytes :: "string \<Rightarrow> byte list" where
  "utf8Bytes s = concat (map utf8_char s)"

definition set_at :: "byte list \<Rightarrow> byte list \<Rightarrow> nat \<Rightarrow> byte list" where
  \<comment> \<open>\<open>output.set(part, offset)\<close>\<close>
  "set_at output part offset = take offset output @ part @ drop (offset + length part) output"

definition concatBytes :: "byte list list \<Rightarrow> byte list" where
  "concatBytes parts =
     fst (foldl (\<lambda>(output, offset) part. (set_at output part offset, offset + length part))
            (replicate (sum_list (map length parts)) 0, 0) parts)"

primrec le_bytes :: "nat \<Rightarrow> nat \<Rightarrow> byte list" where
  "le_bytes 0 n = []"
| "le_bytes (Suc k) n = b8 (n mod 256) # le_bytes k (n div 256)"

fun le_val :: "byte list \<Rightarrow> nat" where
  "le_val [] = 0"
| "le_val (b # bs) = unat b + 256 * le_val bs"

definition le32 :: "js_number \<Rightarrow> byte list res" where
  "le32 value =
     (case value of
        JsInt i \<Rightarrow>
          if i < 0 \<or> U32_MAX < i
          then Inl (KaspaX402Error Invalid_outpoint ''value must fit in uint32'')
          else Inr (le_bytes 4 (nat i))
      | JsNonInt _ \<Rightarrow> Inl (KaspaX402Error Invalid_outpoint ''value must fit in uint32''))"

definition numberToUint64 :: "js_number \<Rightarrow> int res" where
  "numberToUint64 value =
     (case value of
        JsInt i \<Rightarrow>
          if \<not> is_safe_integer value \<or> i < 0
          then Inl (KaspaX402Error Invalid_amount ''number must be a non-negative safe integer'')
          else Inr i
      | JsNonInt _ \<Rightarrow>
          Inl (KaspaX402Error Invalid_amount ''number must be a non-negative safe integer''))"

definition normalizeUint64 :: "amount_value \<Rightarrow> int res" where
  "normalizeUint64 value =
     bindE (case value of BigIntV i \<Rightarrow> Inr i
              | NumberV n \<Rightarrow> numberToUint64 n
              | StringV s \<Rightarrow> parseSompiString s)
       (\<lambda>normalized.
         if normalized < 0 \<or> U64_MAX < normalized
         then Inl (KaspaX402Error Invalid_amount ''value must fit in uint64'')
         else Inr normalized)"

definition le64 :: "amount_value \<Rightarrow> byte list res" where
  "le64 value = bindE (normalizeUint64 value) (\<lambda>n. Inr (le_bytes 8 (nat n)))"

section \<open>Fixed-width encodings\<close>

locale fixed_width_code =
  fixes enc :: "'a \<Rightarrow> 'b list"
    and width :: nat
    and dom_ok :: "'a \<Rightarrow> bool"
  assumes enc_length: "dom_ok x \<Longrightarrow> length (enc x) = width"
    and enc_inject: "dom_ok x \<Longrightarrow> dom_ok y \<Longrightarrow> enc x = enc y \<Longrightarrow> x = y"
begin

lemma append_inject:
  assumes "dom_ok x" "dom_ok y"
  shows "enc x @ r = enc y @ s \<longleftrightarrow> x = y \<and> r = s"
  using assms enc_length enc_inject by (metis append_eq_append_conv)

lemma concat_inject:
  assumes "\<forall>x\<in>set xs. dom_ok x" "\<forall>y\<in>set ys. dom_ok y" "0 < width"
    and "concat (map enc xs) = concat (map enc ys)"
  shows "xs = ys"
  using assms
proof (induction xs arbitrary: ys)
  case Nil
  show ?case
  proof (cases ys)
    case (Cons y zs)
    with Nil.prems have "dom_ok y" and e: "enc y = []" by simp_all
    from \<open>dom_ok y\<close> have "length (enc y) = width" by (rule enc_length)
    with e Nil.prems(3) show ?thesis by simp
  qed simp
next
  case (Cons x xs)
  show ?case
  proof (cases ys)
    case Nil
    with Cons.prems have "dom_ok x" and e: "enc x = []" by simp_all
    from \<open>dom_ok x\<close> have "length (enc x) = width" by (rule enc_length)
    with e Cons.prems(3) show ?thesis by simp
  next
    case (Cons y zs)
    with Cons.prems Cons.IH [of zs] show ?thesis by (auto simp: append_inject)
  qed
qed

end

subsection \<open>Little-endian integers\<close>

lemma length_le_bytes [simp]: "length (le_bytes k n) = k"
  by (induction k arbitrary: n) auto

lemma unat_b8 [simp]: "n < 256 \<Longrightarrow> unat (b8 n) = n"
  by (simp add: b8_def unat_of_nat)

lemma b8_inject [simp]: "m < 256 \<Longrightarrow> n < 256 \<Longrightarrow> b8 m = b8 n \<longleftrightarrow> m = n"
  by (metis unat_b8)

lemma b8_unat [simp]: "b8 (unat b) = b"
  by (simp add: b8_def)

lemma le_val_le_bytes: "le_val (le_bytes k n) = n mod 256 ^ k"
proof (induction k arbitrary: n)
  case (Suc k)
  have "n mod 256 + 256 * (n div 256 mod 256 ^ k) = n mod (256 * 256 ^ k)"
    by (simp add: mod_mult2_eq)
  with Suc show ?case by simp
qed simp

lemma le_bytes_inject:
  assumes "m < 256 ^ k" "n < 256 ^ k" "le_bytes k m = le_bytes k n"
  shows "m = n"
proof -
  from assms(3) have "m mod 256 ^ k = n mod 256 ^ k" by (metis le_val_le_bytes)
  with assms(1,2) show ?thesis by simp
qed

interpretation le64c: fixed_width_code "\<lambda>i. le_bytes 8 (nat i)" 8 "\<lambda>i. 0 \<le> i \<and> i \<le> U64_MAX"
proof
  fix x y :: int
  assume "0 \<le> x \<and> x \<le> U64_MAX" "0 \<le> y \<and> y \<le> U64_MAX" "le_bytes 8 (nat x) = le_bytes 8 (nat y)"
  then have "nat x = nat y" by (intro le_bytes_inject [of _ 8]) (auto simp: U64_MAX_def)
  with \<open>0 \<le> x \<and> x \<le> U64_MAX\<close> \<open>0 \<le> y \<and> y \<le> U64_MAX\<close> show "x = y" by linarith
qed simp

interpretation le32c: fixed_width_code "\<lambda>i. le_bytes 4 (nat i)" 4 "\<lambda>i. 0 \<le> i \<and> i \<le> U32_MAX"
proof
  fix x y :: int
  assume "0 \<le> x \<and> x \<le> U32_MAX" "0 \<le> y \<and> y \<le> U32_MAX" "le_bytes 4 (nat x) = le_bytes 4 (nat y)"
  then have "nat x = nat y" by (intro le_bytes_inject [of _ 4]) (auto simp: U32_MAX_def)
  with \<open>0 \<le> x \<and> x \<le> U32_MAX\<close> \<open>0 \<le> y \<and> y \<le> U32_MAX\<close> show "x = y" by linarith
qed simp

lemma normalizeUint64_BigIntV:
  "normalizeUint64 (BigIntV i) = Inr n \<longleftrightarrow> n = i \<and> 0 \<le> i \<and> i \<le> U64_MAX"
  by (auto simp: normalizeUint64_def)

lemma numberToUint64_Inr:
  "numberToUint64 n = Inr i \<longleftrightarrow> n = JsInt i \<and> 0 \<le> i \<and> i \<le> MAX_SAFE_INTEGER"
  by (cases n) (auto simp: numberToUint64_def is_safe_integer_def MAX_SAFE_INTEGER_def)

lemma normalizeUint64_StringV:
  "normalizeUint64 (StringV s) = Inr n \<longleftrightarrow> parseSompiString s = Inr n"
  by (auto simp: normalizeUint64_def run_simps)

lemma le64_BigIntV [run_simps]:
  "le64 (BigIntV i) = Inr bs \<longleftrightarrow> 0 \<le> i \<and> i \<le> U64_MAX \<and> bs = le_bytes 8 (nat i)"
  by (auto simp: le64_def bindE_Inr normalizeUint64_BigIntV)

lemma le64_StringV [run_simps]:
  "le64 (StringV s) = Inr bs \<longleftrightarrow> (\<exists>i. parseSompiString s = Inr i \<and> bs = le_bytes 8 (nat i))"
  by (auto simp: le64_def bindE_Inr normalizeUint64_StringV)

lemma le32_Inr [run_simps]:
  "le32 v = Inr bs \<longleftrightarrow> (\<exists>i. v = JsInt i \<and> 0 \<le> i \<and> i \<le> U32_MAX \<and> bs = le_bytes 4 (nat i))"
  by (cases v) (auto simp: le32_def)

subsection \<open>Hex text\<close>

lemma hex_cases:
  assumes "is_hex c"
  shows "hex_val c < 16" and "hex_digit (hex_val c) = lower_char c"
proof -
  show v: "hex_val c < 16" using assms by (auto simp: is_hex_def hex_val_def)
  have "code (hex_digit (hex_val c)) = code (lower_char c)"
    using assms by (auto simp: is_hex_def hex_val_def hex_digit_def code_lower_char code_char_of)
  then show "hex_digit (hex_val c) = lower_char c" by (simp add: code_eq_iff)
qed

lemma code_hex_digit: "n < 16 \<Longrightarrow> code (hex_digit n) = (if n < 10 then 48 + n else 87 + n)"
  by (simp add: hex_digit_def code_char_of)

lemma hex_val_hex_digit [simp]: "n < 16 \<Longrightarrow> hex_val (hex_digit n) = n"
  by (auto simp: hex_val_def code_hex_digit)

lemma is_lower_hex_hex_digit: "n < 16 \<Longrightarrow> is_lower_hex (hex_digit n)"
  by (auto simp: is_lower_hex_def code_hex_digit)

lemma unat_div_16: "unat (b :: byte) div 16 < 16"
  using unsigned_less [of b, where ?'a = nat] by simp

lemma bytesToHex_Cons [simp]:
  "bytesToHex (b # bs) = hex_digit (unat b div 16) # hex_digit (unat b mod 16) # bytesToHex bs"
  "bytesToHex [] = []"
  by (simp_all add: bytesToHex_def)

lemma hex_decode_bytesToHex [simp]: "hex_decode (bytesToHex bs) = bs"
  by (induction bs) (simp_all add: unat_div_16)

lemma length_bytesToHex [simp]: "length (bytesToHex bs) = 2 * length bs"
  by (induction bs) auto

lemma bytesToHex_lower: "list_all is_lower_hex (bytesToHex bs)"
  by (induction bs) (simp_all add: is_lower_hex_hex_digit unat_div_16)

lemma bytesToHex_hex_decode:
  "even (length s) \<Longrightarrow> list_all is_hex s \<Longrightarrow> bytesToHex (hex_decode s) = to_lower s"
proof (induction s rule: hex_decode.induct)
  case (1 a b rest)
  then have ab: "is_hex a" "is_hex b" by auto
  then have v: "hex_val a < 16" "hex_val b < 16" by (auto intro: hex_cases)
  then have "16 * hex_val a + hex_val b < 256" by simp
  then have "unat (b8 (16 * hex_val a + hex_val b)) = 16 * hex_val a + hex_val b" by simp
  moreover have "(16 * hex_val a + hex_val b) div 16 = hex_val a"
    "(16 * hex_val a + hex_val b) mod 16 = hex_val b"
    using v by auto
  ultimately show ?case using 1 ab hex_cases(2) by (simp add: to_lower_def)
qed (auto simp: to_lower_def)

lemma length_hex_decode: "length (hex_decode s) = length s div 2"
  by (induction s rule: hex_decode.induct) auto

lemma hex_decode_inject:
  assumes "HEX_BYTE_PATTERN_test s" "HEX_BYTE_PATTERN_test t"
  shows "hex_decode s = hex_decode t \<longleftrightarrow> to_lower s = to_lower t"
proof
  assume "hex_decode s = hex_decode t"
  then show "to_lower s = to_lower t"
    using assms by (metis HEX_BYTE_PATTERN_test_def bytesToHex_hex_decode)
next
  assume "to_lower s = to_lower t"
  moreover have "hex_decode u = hex_decode (to_lower u)" if "HEX_BYTE_PATTERN_test u" for u
    using that by (metis HEX_BYTE_PATTERN_test_def bytesToHex_hex_decode hex_decode_bytesToHex)
  ultimately show "hex_decode s = hex_decode t" using assms by metis
qed

lemma hexToBytes_Inr [run_simps]:
  "hexToBytes s (Some n) e l = Inr bs \<longleftrightarrow>
     length s = 2 * n \<and> list_all is_hex s \<and> bs = hex_decode s"
  by (auto simp: hexToBytes_def HEX_BYTE_PATTERN_test_def)

lemma hexToBytes_None_Inr [run_simps]:
  "hexToBytes s None e l = Inr bs \<longleftrightarrow> HEX_BYTE_PATTERN_test s \<and> bs = hex_decode s"
  by (auto simp: hexToBytes_def)

definition hex_of_width :: "nat \<Rightarrow> string \<Rightarrow> bool" where
  "hex_of_width n s = (length s = 2 * n \<and> list_all is_hex s)"

lemma hex_decode_append_inject:
  assumes "hex_of_width n s" "hex_of_width n t"
  shows "hex_decode s @ u = hex_decode t @ v \<longleftrightarrow> to_lower s = to_lower t \<and> u = v"
proof -
  have "length (hex_decode s) = length (hex_decode t)"
    using assms by (simp add: length_hex_decode hex_of_width_def)
  moreover have "HEX_BYTE_PATTERN_test s" "HEX_BYTE_PATTERN_test t"
    using assms by (simp_all add: hex_of_width_def HEX_BYTE_PATTERN_test_def)
  ultimately show ?thesis by (simp add: hex_decode_inject)
qed

interpretation hash32c: fixed_width_code hex_decode 32 is_lower_hash32
proof
  fix s t assume st: "is_lower_hash32 s" "is_lower_hash32 t" "hex_decode s = hex_decode t"
  have "is_hex c" if "is_lower_hex c" for c
    using that by (auto simp: is_lower_hex_def is_hex_def)
  with st have "hex_of_width 32 s" "hex_of_width 32 t"
    by (auto simp: is_lower_hash32_def hex_of_width_def list_all_iff)
  with st(3) have "to_lower s = to_lower t"
    using hex_decode_append_inject [of 32 s t "[]" "[]"] by simp
  with st(1,2) show "s = t" by (simp add: to_lower_lower_hash32)
qed (simp add: is_lower_hash32_def length_hex_decode)

subsection \<open>Concatenation\<close>

lemma concatBytes_loop:
  assumes "length pre = off" "length rest = sum_list (map length parts)"
  shows "fst (foldl (\<lambda>(output, offset) part. (set_at output part offset, offset + length part))
           (pre @ rest, off) parts) = pre @ concat parts"
  using assms
proof (induction parts arbitrary: pre rest off)
  case (Cons p ps)
  have "set_at (pre @ rest) p off = (pre @ p) @ drop (length p) rest"
    using Cons.prems by (simp add: set_at_def)
  moreover have "length (drop (length p) rest) = sum_list (map length ps)"
    using Cons.prems by simp
  ultimately show ?case using Cons.IH [of "pre @ p" "off + length p"] Cons.prems by simp
qed simp

lemma concatBytes_concat [simp]: "concatBytes parts = concat parts"
  using concatBytes_loop [of "[]" 0 "replicate (sum_list (map length parts)) 0" parts]
  by (simp add: concatBytes_def)

subsection \<open>UTF-8\<close>

lemma utf8_char_append_inject:
  "utf8_char c @ r = utf8_char d @ s \<longleftrightarrow> c = d \<and> r = s"
proof -
  have small: "code c < 256" "code d < 256" by simp_all
  have "c = d" if "code c div 64 = code d div 64" "code c mod 64 = code d mod 64"
    using that by (metis code_eq_iff div_mult_mod_eq)
  moreover have "192 + code x div 64 < 256" "128 + code x mod 64 < 256" for x
    using code_less [of x] by linarith+
  ultimately show ?thesis
    using small code_eq_iff [of c d] by (auto simp: utf8_char_def)
qed

lemma utf8Bytes_inject [simp]: "utf8Bytes s = utf8Bytes t \<longleftrightarrow> s = t"
proof (induction s arbitrary: t)
  case Nil
  show ?case by (cases t) (auto simp: utf8Bytes_def utf8_char_def)
next
  case (Cons c s)
  have u: "utf8Bytes (a # x) = utf8_char a @ utf8Bytes x" for a x by (simp add: utf8Bytes_def)
  show ?case
  proof (cases t)
    case Nil
    then show ?thesis by (auto simp: utf8Bytes_def utf8_char_def)
  next
    case (Cons d t')
    then show ?thesis using Cons.IH by (simp add: u utf8_char_append_inject)
  qed
qed

text \<open>Hex text and byte arrays are inverse to each other: decoding the printed form of
  any byte array gives it back, and printing the decoded form of an accepted hex text gives
  its lower-case spelling.\<close>

theorem hex_roundtrip:
  "hexToBytes (bytesToHex bs) None e l = Inr bs \<and>
   (\<forall>h bs'. hexToBytes h n e l = Inr bs' \<longrightarrow> bytesToHex bs' = to_lower h)"
proof -
  have "HEX_BYTE_PATTERN_test (bytesToHex bs)"
    using bytesToHex_lower [of bs]
    by (auto simp: HEX_BYTE_PATTERN_test_def list_all_iff is_lower_hex_def is_hex_def)
  then have "hexToBytes (bytesToHex bs) None e l = Inr bs" by (simp add: run_simps)
  moreover have "bytesToHex bs' = to_lower h" if "hexToBytes h n e l = Inr bs'" for h bs'
  proof -
    from that have "HEX_BYTE_PATTERN_test h \<and> bs' = hex_decode h"
      by (auto simp: hexToBytes_def split: if_splits option.splits)
    then show ?thesis by (simp add: HEX_BYTE_PATTERN_test_def bytesToHex_hex_decode)
  qed
  ultimately show ?thesis by blast
qed

theorem hex_roundtrip_witness:
  "hexToBytes ''0aF0'' None Invalid_hex ''salt'' = Inr [10, 240] \<and>
   bytesToHex [10, 240] = to_lower ''0aF0''"
proof -
  have h: "hexToBytes ''0aF0'' None Invalid_hex ''salt'' = Inr [10, 240]" by code_simp
  then show ?thesis
    using hex_roundtrip [of "[10, 240]" Invalid_hex "''salt''" None] by blast
qed

end
