(* ===== verification/Js_Json.thy ===== *)
theory Js_Json
  imports Core_Binary
begin

text \<open>
  JSON: \<^verbatim>\<open>core/src/stable-json.ts\<close>, \<^verbatim>\<open>core/src/resource-budget.ts\<close> and the
  \<open>stableJson\<close> helper that \<^verbatim>\<open>server/src/exact-heads.ts\<close>,
  \<^verbatim>\<open>exact-payment-transitions.ts\<close>, \<^verbatim>\<open>batch-settlement-attempts.ts\<close> and
  \<^verbatim>\<open>stores.ts\<close> share.

  A value is plain data (\<open>js_value\<close>): class instances, accessors, symbols and cyclic
  graphs are not represented, so the guards of the source against them have no
  counterpart. The facts proved: the canonical text is injective up to the order of object
  keys, and the iterative budget walk computes exactly the UTF-8 length of the canonical
  text without building it.
\<close>

section \<open>Values and their text\<close>

datatype js_value =
    JUndefined
  | JNull
  | JBool bool
  | JNum js_number
  | JStr string
  | JArr "js_value list"
  | JObj "(string \<times> js_value) list"

definition json_escape :: "char \<Rightarrow> string" where
  "json_escape c =
     (if c = CHR 0x22 then [CHR 0x5C, CHR 0x22]
      else if c = CHR 0x5C then [CHR 0x5C, CHR 0x5C]
      else if code c = 8 then CHR 0x5C # ''b''
      else if code c = 9 then CHR 0x5C # ''t''
      else if code c = 10 then CHR 0x5C # ''n''
      else if code c = 12 then CHR 0x5C # ''f''
      else if code c = 13 then CHR 0x5C # ''r''
      else if code c < 32
        then CHR 0x5C # ''u00'' @ [hex_digit (code c div 16), hex_digit (code c mod 16)]
      else [c])"

definition json_string :: "string \<Rightarrow> string" where
  "json_string s = CHR 0x22 # concat (map json_escape s) @ [CHR 0x22]"

definition json_number :: "js_number \<Rightarrow> string" where
  "json_number n =
     (case n of JsInt i \<Rightarrow> int_to_string i
      | JsNonInt s \<Rightarrow> if is_finite_num n then s else ''null'')"

fun join_with :: "string \<Rightarrow> string list \<Rightarrow> string" where
  "join_with sep [] = []"
| "join_with sep [x] = x"
| "join_with sep (x # y # ys) = x @ sep @ join_with sep (y # ys)"

definition json_array :: "string list \<Rightarrow> string" where
  "json_array ts = ''['' @ join_with '','' ts @ '']''"

definition json_object :: "(string \<times> string) list \<Rightarrow> string" where
  "json_object kts =
     ''{'' @ join_with '','' (map (\<lambda>(k, t). json_string k @ '':'' @ t) kts) @ ''}''"

fun stableJson :: "js_value \<Rightarrow> string" where
  "stableJson JUndefined = ''undefined''"
| "stableJson JNull = ''null''"
| "stableJson (JBool b) = (if b then ''true'' else ''false'')"
| "stableJson (JNum n) = json_number n"
| "stableJson (JStr s) = json_string s"
| "stableJson (JArr xs) = json_array (map stableJson xs)"
| "stableJson (JObj kvs) =
     json_object (sort_key fst (map (\<lambda>(k, v). (k, stableJson v)) kvs))"

fun seqE :: "'a res list \<Rightarrow> 'a list res" where
  "seqE [] = Inr []"
| "seqE (r # rs) = bindE r (\<lambda>x. bindE (seqE rs) (\<lambda>xs. Inr (x # xs)))"

fun stringifyJson :: "js_value \<Rightarrow> string \<Rightarrow> string res"
and stringifyItems :: "js_value list \<Rightarrow> nat \<Rightarrow> string \<Rightarrow> string res list"
and stringifyMembers :: "(string \<times> js_value) list \<Rightarrow> string \<Rightarrow> (string \<times> string res) list" where
  "stringifyJson JNull path = Inr ''null''"
| "stringifyJson (JArr xs) path =
     bindE (seqE (stringifyItems xs 0 path)) (\<lambda>ts. Inr (json_array ts))"
| "stringifyJson (JObj kvs) path =
     (let members = sort_key fst (stringifyMembers kvs path)
      in bindE (seqE (map snd members)) (\<lambda>ts. Inr (json_object (zip (map fst members) ts))))"
| "stringifyJson (JStr s) path = Inr (json_string s)"
| "stringifyJson (JBool b) path = Inr (if b then ''true'' else ''false'')"
| "stringifyJson (JNum n) path =
     (if is_finite_num n then Inr (json_number n)
      else Inl (JsTypeError (path @ '' is not JSON-serializable'')))"
| "stringifyJson JUndefined path = Inl (JsTypeError (path @ '' is not JSON-serializable''))"
| "stringifyItems [] i path = []"
| "stringifyItems (x # xs) i path =
     stringifyJson x (path @ ''['' @ nat_to_string i @ '']'') # stringifyItems xs (Suc i) path"
| "stringifyMembers [] path = []"
| "stringifyMembers ((k, v) # kvs) path =
     (k, stringifyJson v (path @ ''.'' @ k)) # stringifyMembers kvs path"

section \<open>resource-budget.ts\<close>

record resource_budget_profile =
  maxEncodedHeaderBytes :: nat
  maxDecodedHeaderBytes :: nat
  maxStringBytes :: nat
  maxArtifactBytes :: nat
  maxArrayItems :: nat
  maxObjectProperties :: nat
  maxAccepts :: nat
  maxExtensionProperties :: nat
  maxDepth :: nat
  maxNodes :: nat
  maxCanonicalBytes :: nat
  maxValidationWork :: nat
  maxMcpAudienceBytes :: nat
  maxMcpToolNameBytes :: nat

definition KASPA_X402_RESOURCE_BUDGET :: resource_budget_profile where
  "KASPA_X402_RESOURCE_BUDGET =
     \<lparr>maxEncodedHeaderBytes = 131072, maxDecodedHeaderBytes = 98304, maxStringBytes = 16384,
      maxArtifactBytes = 65536, maxArrayItems = 256, maxObjectProperties = 128, maxAccepts = 16,
      maxExtensionProperties = 32, maxDepth = 32, maxNodes = 4096, maxCanonicalBytes = 98304,
      maxValidationWork = 8191, maxMcpAudienceBytes = 2048, maxMcpToolNameBytes = 1024\<rparr>"

definition ARTIFACT_FIELDS :: "string list" where
  "ARTIFACT_FIELDS =
     [''activeScriptPublicKey'', ''clientSignature'', ''fundingTransaction'', ''headRedeemScript'',
      ''headScriptPublicKey'', ''signature'', ''transaction'']"

definition utf8ByteLength :: "string \<Rightarrow> nat" where
  "utf8ByteLength value = foldl (\<lambda>bytes c. if code c \<le> 127 then bytes + 1 else bytes + 2) 0 value"

datatype pending = Visit js_value nat "string option" | Exit js_value

record budget_counts =
  nodes :: nat
  work :: nat
  canonicalBytes :: nat

definition budget_fail :: "kaspa_code \<Rightarrow> string \<Rightarrow> string \<Rightarrow> 'a res" where
  "budget_fail errorCode label message = Inl (KaspaX402Error errorCode (label @ '' '' @ message))"

definition addWork ::
  "resource_budget_profile \<Rightarrow> kaspa_code \<Rightarrow> string \<Rightarrow> nat \<Rightarrow> budget_counts \<Rightarrow> budget_counts res" where
  "addWork profile errorCode label amount c =
     (if maxValidationWork profile < work c + amount
      then budget_fail errorCode label
             (''exceeds validation work limit '' @ nat_to_string (maxValidationWork profile))
      else Inr (c\<lparr>work := work c + amount\<rparr>))"

definition addCanonicalBytes ::
  "resource_budget_profile \<Rightarrow> kaspa_code \<Rightarrow> string \<Rightarrow> nat \<Rightarrow> budget_counts \<Rightarrow> budget_counts res" where
  "addCanonicalBytes profile errorCode label amount c =
     (if maxCanonicalBytes profile < canonicalBytes c + amount
      then budget_fail errorCode label
             (''exceeds canonical JSON limit '' @ nat_to_string (maxCanonicalBytes profile) @ '' bytes'')
      else Inr (c\<lparr>canonicalBytes := canonicalBytes c + amount\<rparr>))"

definition enterNode ::
  "resource_budget_profile \<Rightarrow> kaspa_code \<Rightarrow> string \<Rightarrow> nat \<Rightarrow> budget_counts \<Rightarrow> budget_counts res" where
  \<comment> \<open>the counters and limits checked for every visited value\<close>
  "enterNode profile errorCode label depth c =
     bindE (addWork profile errorCode label 1 (c\<lparr>nodes := nodes c + 1\<rparr>)) (\<lambda>c.
     if maxNodes profile < nodes c
     then budget_fail errorCode label (''exceeds node limit '' @ nat_to_string (maxNodes profile))
     else if maxDepth profile < depth
     then budget_fail errorCode label (''exceeds depth limit '' @ nat_to_string (maxDepth profile))
     else Inr c)"

definition visitString ::
  "resource_budget_profile \<Rightarrow> kaspa_code \<Rightarrow> string \<Rightarrow> string option \<Rightarrow> string \<Rightarrow> budget_counts
     \<Rightarrow> budget_counts res" where
  "visitString profile errorCode label field s c =
     (let maximum = (case field of
                       Some f \<Rightarrow> if f \<noteq> [] \<and> f \<in> set ARTIFACT_FIELDS then maxArtifactBytes profile
                                 else maxStringBytes profile
                     | None \<Rightarrow> maxStringBytes profile)
      in if maximum < utf8ByteLength s
         then budget_fail errorCode label
                ((case field of Some f \<Rightarrow> f | None \<Rightarrow> ''string'') @ '' exceeds string limit ''
                  @ nat_to_string maximum @ '' bytes'')
         else addCanonicalBytes profile errorCode label (utf8ByteLength (json_string s)) c)"

definition visitArray ::
  "resource_budget_profile \<Rightarrow> kaspa_code \<Rightarrow> string \<Rightarrow> string option \<Rightarrow> js_value list \<Rightarrow> budget_counts
     \<Rightarrow> budget_counts res" where
  "visitArray profile errorCode label field xs c =
     (let maximum = (if field = Some ''accepts'' then maxAccepts profile else maxArrayItems profile)
      in if maximum < length xs
         then budget_fail errorCode label
                ((case field of Some f \<Rightarrow> f | None \<Rightarrow> ''array'') @ '' exceeds array limit ''
                  @ nat_to_string maximum)
         else bindE (addWork profile errorCode label (length xs) c) (\<lambda>c.
              addCanonicalBytes profile errorCode label (2 + (length xs - 1)) c))"

definition visitKey ::
  "resource_budget_profile \<Rightarrow> kaspa_code \<Rightarrow> string \<Rightarrow> budget_counts \<Rightarrow> string \<Rightarrow> budget_counts res" where
  "visitKey profile errorCode label c key =
     (if maxStringBytes profile < utf8ByteLength key
      then budget_fail errorCode label
             (''property name exceeds string limit '' @ nat_to_string (maxStringBytes profile)
               @ '' bytes'')
      else addCanonicalBytes profile errorCode label (utf8ByteLength (json_string key) + 1) c)"

definition visitObject ::
  "resource_budget_profile \<Rightarrow> kaspa_code \<Rightarrow> string \<Rightarrow> string option \<Rightarrow> (string \<times> js_value) list
     \<Rightarrow> budget_counts \<Rightarrow> budget_counts res" where
  "visitObject profile errorCode label field kvs c =
     (let maximum = (if field = Some ''extensions'' \<or> field = Some ''_meta''
                     then maxExtensionProperties profile else maxObjectProperties profile)
      in if maximum < length kvs
         then budget_fail errorCode label
                ((case field of Some f \<Rightarrow> f | None \<Rightarrow> ''object'') @ '' exceeds property limit ''
                  @ nat_to_string maximum)
         else bindE (addWork profile errorCode label (length kvs) c) (\<lambda>c.
              bindE (addCanonicalBytes profile errorCode label (2 + (length kvs - 1)) c) (\<lambda>c.
              foldE (visitKey profile errorCode label) c (rev (map fst kvs)))))"

definition visitValue ::
  "resource_budget_profile \<Rightarrow> kaspa_code \<Rightarrow> string \<Rightarrow> string option \<Rightarrow> js_value \<Rightarrow> budget_counts
     \<Rightarrow> budget_counts res" where
  "visitValue profile errorCode label field v c =
     (case v of
        JNull \<Rightarrow> addCanonicalBytes profile errorCode label 4 c
      | JStr s \<Rightarrow> visitString profile errorCode label field s c
      | JBool b \<Rightarrow> addCanonicalBytes profile errorCode label (if b then 4 else 5) c
      | JNum n \<Rightarrow>
          if \<not> is_finite_num n then budget_fail errorCode label ''contains a non-finite number''
          else addCanonicalBytes profile errorCode label (utf8ByteLength (json_number n)) c
      | JUndefined \<Rightarrow> budget_fail errorCode label ''is not JSON-serializable''
      | JArr xs \<Rightarrow> visitArray profile errorCode label field xs c
      | JObj kvs \<Rightarrow> visitObject profile errorCode label field kvs c)"

fun children :: "js_value \<Rightarrow> nat \<Rightarrow> pending list" where
  \<comment> \<open>what the visit pushes: the children above the exit marker of their parent\<close>
  "children (JArr xs) depth = map (\<lambda>x. Visit x (Suc depth) None) xs @ [Exit (JArr xs)]"
| "children (JObj kvs) depth =
     map (\<lambda>(k, v). Visit v (Suc depth) (Some k)) kvs @ [Exit (JObj kvs)]"
| "children _ depth = []"

fun value_weight :: "js_value \<Rightarrow> nat" where
  "value_weight (JArr xs) = 2 + sum_list (map value_weight xs)"
| "value_weight (JObj kvs) = 2 + sum_list (map (\<lambda>(k, v). value_weight v) kvs)"
| "value_weight _ = 1"

fun pending_weight :: "pending \<Rightarrow> nat" where
  "pending_weight (Visit v depth field) = value_weight v"
| "pending_weight (Exit v) = 1"

lemma value_weight_pos: "0 < value_weight v"
  by (cases v) auto

lemma children_weight: "sum_list (map pending_weight (children v d)) < value_weight v"
proof (cases v)
  case (JObj kvs)
  have "sum_list (map pending_weight (map (\<lambda>(k, v). Visit v (Suc d) (Some k)) kvs)) =
        sum_list (map (\<lambda>(k, v). value_weight v) kvs)"
    by (induction kvs) auto
  then show ?thesis using JObj by simp
qed (auto simp: comp_def)

function budget_loop ::
  "resource_budget_profile \<Rightarrow> kaspa_code \<Rightarrow> string \<Rightarrow> pending list \<Rightarrow> budget_counts
     \<Rightarrow> budget_counts res" where
  "budget_loop profile errorCode label [] c = Inr c"
| "budget_loop profile errorCode label (Exit v # rest) c =
     budget_loop profile errorCode label rest c"
| "budget_loop profile errorCode label (Visit v depth field # rest) c =
     (case enterNode profile errorCode label depth c of
        Inl e \<Rightarrow> Inl e
      | Inr c1 \<Rightarrow>
         (case visitValue profile errorCode label field v c1 of
            Inl e \<Rightarrow> Inl e
          | Inr c2 \<Rightarrow> budget_loop profile errorCode label (children v depth @ rest) c2))"
  by pat_completeness auto
termination
  by (relation "measure (\<lambda>(profile, errorCode, label, ps, c). sum_list (map pending_weight ps))")
    (auto simp: children_weight)

definition assertJsonResourceBudget ::
  "resource_budget_profile \<Rightarrow> kaspa_code \<Rightarrow> string \<Rightarrow> js_value \<Rightarrow> budget_counts res" where
  "assertJsonResourceBudget profile errorCode label root =
     budget_loop profile errorCode label [Visit root 0 None]
       \<lparr>nodes = 0, work = 0, canonicalBytes = 0\<rparr>"

definition stableStringify :: "js_value \<Rightarrow> string res" where
  "stableStringify value =
     bindE (assertJsonResourceBudget KASPA_X402_RESOURCE_BUDGET Invalid_payload
              ''canonical JSON value'' value)
       (\<lambda>_. stringifyJson value ''$'')"

fun json_stringify :: "js_value \<Rightarrow> string" where
  \<comment> \<open>\<open>JSON.stringify\<close> on plain data: an \<open>undefined\<close> property is left out, an \<open>undefined\<close>
     array item prints as \<open>null\<close>\<close>
  "json_stringify JUndefined = []"
| "json_stringify JNull = ''null''"
| "json_stringify (JBool b) = (if b then ''true'' else ''false'')"
| "json_stringify (JNum n) = json_number n"
| "json_stringify (JStr s) = json_string s"
| "json_stringify (JArr xs) =
     json_array (map (\<lambda>x. if x = JUndefined then ''null'' else json_stringify x) xs)"
| "json_stringify (JObj kvs) =
     json_object (map (\<lambda>(k, v). (k, json_stringify v)) (filter (\<lambda>(k, v). v \<noteq> JUndefined) kvs))"

section \<open>The canonical text and the budget\<close>

fun serializable :: "js_value \<Rightarrow> bool" where
  "serializable JUndefined = False"
| "serializable (JNum n) = is_finite_num n"
| "serializable (JArr xs) = list_all serializable xs"
| "serializable (JObj kvs) = list_all (\<lambda>(k, v). serializable v) kvs"
| "serializable _ = True"

lemma seqE_Inr: "seqE rs = Inr xs \<longleftrightarrow> rs = map Inr xs"
proof (induction rs arbitrary: xs)
  case (Cons r rs)
  show ?case
  proof (cases xs)
    case Nil
    then show ?thesis by (auto simp: run_simps)
  next
    case (Cons y ys)
    then show ?thesis using Cons.IH [of ys] by (auto simp: bindE_Inr)
  qed
qed auto

lemma insort_key_map:
  "insort_key fst (k, f k v) (map (\<lambda>(k, v). (k, f k v)) kvs) =
   map (\<lambda>(k, v). (k, f k v)) (insort_key fst (k, v) kvs)"
  by (induction kvs) auto

lemma sort_key_map:
  "sort_key fst (map (\<lambda>(k, v). (k, f k v)) kvs) = map (\<lambda>(k, v). (k, f k v)) (sort_key fst kvs)"
proof (induction kvs)
  case (Cons kv kvs)
  obtain k v where "kv = (k, v)" by fastforce
  with Cons show ?case by (simp add: insort_key_map)
qed simp

lemma stringifyMembers_map:
  "stringifyMembers kvs p = map (\<lambda>(k, v). (k, stringifyJson v (p @ ''.'' @ k))) kvs"
  by (induction kvs) auto

lemma stringifyItems_map:
  "stringifyItems xs i p = map (\<lambda>(j, x). stringifyJson x (p @ ''['' @ nat_to_string j @ '']''))
     (enumerate i xs)"
  by (induction xs arbitrary: i) auto

lemma stringifyJson_Inr:
  "stringifyJson v p = Inr t \<longleftrightarrow> serializable v \<and> t = stableJson v"
proof (induction v arbitrary: p t)
  case (JArr xs)
  have "seqE (stringifyItems xs i p) = Inr ts \<longleftrightarrow> list_all serializable xs \<and> ts = map stableJson xs"
    for i ts
    using JArr
  proof (induction xs arbitrary: i ts)
    case (Cons x xs)
    then show ?case by (auto simp: bindE_Inr)
  qed auto
  then show ?case by (auto simp: bindE_Inr)
next
  case (JObj kvs)
  define ms where "ms = sort_key fst kvs"
  have members: "sort_key fst (stringifyMembers kvs p) =
      map (\<lambda>(k, v). (k, stringifyJson v (p @ ''.'' @ k))) ms"
    by (simp add: stringifyMembers_map sort_key_map ms_def)
  have texts: "sort_key fst (map (\<lambda>(k, v). (k, stableJson v)) kvs) = map (\<lambda>(k, v). (k, stableJson v)) ms"
    by (simp add: sort_key_map ms_def)
  have "seqE (map snd (map (\<lambda>(k, v). (k, stringifyJson v (p @ ''.'' @ k))) ms)) = Inr ts
      \<longleftrightarrow> list_all (\<lambda>(k, v). serializable v) ms \<and> ts = map (\<lambda>(k, v). stableJson v) ms"
    if "\<forall>kv\<in>set ms. kv \<in> set kvs" for ms ts
    using that
  proof (induction ms arbitrary: ts)
    case (Cons kv ms)
    obtain k v where kv: "kv = (k, v)" by fastforce
    with Cons.prems have "(k, v) \<in> set kvs" by simp
    then have "stringifyJson v q = Inr u \<longleftrightarrow> serializable v \<and> u = stableJson v" for q u
      using JObj.IH by fastforce
    with Cons kv show ?case by (auto simp: bindE_Inr)
  qed auto
  moreover have "\<forall>kv\<in>set ms. kv \<in> set kvs" by (simp add: ms_def)
  moreover have "zip (map fst (map (\<lambda>(k, v). (k, stringifyJson v (p @ ''.'' @ k))) ms))
        (map (\<lambda>(k, v). stableJson v) ms) = map (\<lambda>(k, v). (k, stableJson v)) ms"
    by (induction ms) auto
  moreover have "list_all (\<lambda>(k, v). serializable v) ms \<longleftrightarrow> list_all (\<lambda>(k, v). serializable v) kvs"
    by (simp add: ms_def list_all_iff)
  ultimately show ?case
    by (auto simp: Let_def members texts bindE_Inr)
qed (auto split: if_splits)

lemma utf8ByteLength_utf8Bytes: "utf8ByteLength s = length (utf8Bytes s)"
proof -
  have "foldl (\<lambda>bytes c. if code c \<le> 127 then bytes + 1 else bytes + 2) n s =
        n + length (utf8Bytes s)" for n
    by (induction s arbitrary: n) (auto simp: utf8Bytes_def utf8_char_def)
  then show ?thesis by (simp add: utf8ByteLength_def)
qed

lemma utf8ByteLength_append [simp]:
  "utf8ByteLength (s @ t) = utf8ByteLength s + utf8ByteLength t"
  by (simp add: utf8ByteLength_utf8Bytes utf8Bytes_def)

lemma utf8ByteLength_Cons:
  "utf8ByteLength (c # s) = (if code c \<le> 127 then 1 else 2) + utf8ByteLength s"
  by (simp add: utf8ByteLength_utf8Bytes utf8Bytes_def utf8_char_def)

lemma utf8ByteLength_Nil [simp]: "utf8ByteLength [] = 0"
  by (simp add: utf8ByteLength_def)

lemma join_with_length:
  "utf8ByteLength (join_with '','' ts) = sum_list (map utf8ByteLength ts) + (length ts - 1)"
  by (induction "'',''" ts rule: join_with.induct) (auto simp: utf8ByteLength_Cons code_def)

lemma json_array_length:
  "utf8ByteLength (json_array ts) = 2 + (length ts - 1) + sum_list (map utf8ByteLength ts)"
  by (simp add: json_array_def join_with_length utf8ByteLength_Cons code_def)

lemma json_object_length:
  "utf8ByteLength (json_object kts) =
     2 + (length kts - 1) + sum_list (map (\<lambda>(k, t). utf8ByteLength (json_string k) + 1 + utf8ByteLength t) kts)"
proof -
  have "sum_list (map utf8ByteLength (map (\<lambda>(k, t). json_string k @ '':'' @ t) kts)) =
        sum_list (map (\<lambda>(k, t). utf8ByteLength (json_string k) + 1 + utf8ByteLength t) kts)"
    by (induction kts) (auto simp: utf8ByteLength_Cons code_def)
  then show ?thesis by (simp add: json_object_def join_with_length utf8ByteLength_Cons code_def)
qed

lemma sum_list_sort_key: "sum_list (map f (sort_key g xs)) = sum_list (map f xs)"
  for f :: "'a \<Rightarrow> nat"
proof (induction xs)
  case (Cons x xs)
  have "sum_list (map f (insort_key g x ys)) = f x + sum_list (map f ys)" for ys
    by (induction ys) auto
  with Cons show ?case by simp
qed simp

definition canonical_length :: "js_value \<Rightarrow> nat" where
  "canonical_length v = utf8ByteLength (stableJson v)"

lemma canonical_length_JArr:
  "canonical_length (JArr xs) = 2 + (length xs - 1) + sum_list (map canonical_length xs)"
  by (simp add: canonical_length_def [abs_def] json_array_length comp_def)

lemma canonical_length_JObj:
  "canonical_length (JObj kvs) = 2 + (length kvs - 1) +
     sum_list (map (\<lambda>(k, v). utf8ByteLength (json_string k) + 1 + canonical_length v) kvs)"
proof -
  let ?kts = "map (\<lambda>(k, v). (k, stableJson v)) kvs"
  have "sum_list (map (\<lambda>(k, t). utf8ByteLength (json_string k) + 1 + utf8ByteLength t) ?kts) =
        sum_list (map (\<lambda>(k, v). utf8ByteLength (json_string k) + 1 + canonical_length v) kvs)"
    by (induction kvs) (auto simp: canonical_length_def)
  then show ?thesis
    by (simp add: canonical_length_def json_object_length sum_list_sort_key)
qed

fun value_nodes :: "js_value \<Rightarrow> nat" where
  "value_nodes (JArr xs) = 1 + sum_list (map value_nodes xs)"
| "value_nodes (JObj kvs) = 1 + sum_list (map (\<lambda>(k, v). value_nodes v) kvs)"
| "value_nodes _ = 1"


fun value_work :: "js_value \<Rightarrow> nat" where
  "value_work (JArr xs) = 1 + length xs + sum_list (map value_work xs)"
| "value_work (JObj kvs) = 1 + length kvs + sum_list (map (\<lambda>(k, v). value_work v) kvs)"
| "value_work _ = 1"

definition string_limit :: "resource_budget_profile \<Rightarrow> string option \<Rightarrow> nat" where
  "string_limit P f = (case f of Some g \<Rightarrow> if g \<noteq> [] \<and> g \<in> set ARTIFACT_FIELDS then maxArtifactBytes P
      else maxStringBytes P | None \<Rightarrow> maxStringBytes P)"

definition array_limit :: "resource_budget_profile \<Rightarrow> string option \<Rightarrow> nat" where
  "array_limit P f = (if f = Some ''accepts'' then maxAccepts P else maxArrayItems P)"

definition object_limit :: "resource_budget_profile \<Rightarrow> string option \<Rightarrow> nat" where
  "object_limit P f = (if f = Some ''extensions'' \<or> f = Some ''_meta''
     then maxExtensionProperties P else maxObjectProperties P)"

fun local_fits :: "resource_budget_profile \<Rightarrow> string option \<Rightarrow> js_value \<Rightarrow> bool" where
  \<comment> \<open>the limits that concern one value alone\<close>
  "local_fits P f (JStr s) = (utf8ByteLength s \<le> string_limit P f)"
| "local_fits P f (JNum n) = is_finite_num n"
| "local_fits P f (JArr xs) = (length xs \<le> array_limit P f)"
| "local_fits P f (JObj kvs) =
     (length kvs \<le> object_limit P f \<and> (\<forall>k\<in>set (map fst kvs). utf8ByteLength k \<le> maxStringBytes P))"
| "local_fits P f JUndefined = False"
| "local_fits P f _ = True"

fun fits :: "resource_budget_profile \<Rightarrow> nat \<Rightarrow> string option \<Rightarrow> js_value \<Rightarrow> bool" where
  \<comment> \<open>the local limits at every level of a value, and the depth\<close>
  "fits P d f (JArr xs) =
     (d \<le> maxDepth P \<and> local_fits P f (JArr xs) \<and> list_all (fits P (Suc d) None) xs)"
| "fits P d f (JObj kvs) =
     (d \<le> maxDepth P \<and> local_fits P f (JObj kvs) \<and> list_all (\<lambda>(k, v). fits P (Suc d) (Some k) v) kvs)"
| "fits P d f v = (d \<le> maxDepth P \<and> local_fits P f v)"

fun own_bytes :: "js_value \<Rightarrow> nat" where
  "own_bytes (JArr xs) = 2 + (length xs - 1)"
| "own_bytes (JObj kvs) = 2 + (length kvs - 1)
     + sum_list (map (\<lambda>k. utf8ByteLength (json_string k) + 1) (map fst kvs))"
| "own_bytes v = canonical_length v"

fun own_work :: "js_value \<Rightarrow> nat" where
  "own_work (JArr xs) = length xs"
| "own_work (JObj kvs) = length kvs"
| "own_work _ = 0"

fun pending_total :: "(js_value \<Rightarrow> nat) \<Rightarrow> pending \<Rightarrow> nat" where
  "pending_total m (Visit v depth field) = m v"
| "pending_total m (Exit v) = 0"

fun pending_fits :: "resource_budget_profile \<Rightarrow> pending \<Rightarrow> bool" where
  "pending_fits P (Visit v depth field) = fits P depth field v"
| "pending_fits P (Exit v) = True"

lemma addCanonicalBytes_Inr [run_simps]:
  "addCanonicalBytes P e l n c = Inr c' \<longleftrightarrow>
     canonicalBytes c + n \<le> maxCanonicalBytes P \<and> c' = c\<lparr>canonicalBytes := canonicalBytes c + n\<rparr>"
  by (auto simp: addCanonicalBytes_def budget_fail_def)

lemma addWork_Inr [run_simps]:
  "addWork P e l n c = Inr c' \<longleftrightarrow>
     work c + n \<le> maxValidationWork P \<and> c' = c\<lparr>work := work c + n\<rparr>"
  by (auto simp: addWork_def budget_fail_def)

lemma budget_fail_Inr [simp]: "budget_fail e l m \<noteq> Inr x"
  by (simp add: budget_fail_def)

lemma visitKeys_Inr:
  "canonicalBytes c \<le> maxCanonicalBytes P \<Longrightarrow>
   foldE (visitKey P e l) c ks = Inr c' \<longleftrightarrow>
     (\<forall>k\<in>set ks. utf8ByteLength k \<le> maxStringBytes P)
     \<and> canonicalBytes c + sum_list (map (\<lambda>k. utf8ByteLength (json_string k) + 1) ks) \<le> maxCanonicalBytes P
     \<and> c' = c\<lparr>canonicalBytes := canonicalBytes c + sum_list (map (\<lambda>k. utf8ByteLength (json_string k) + 1) ks)\<rparr>"
proof (induction ks arbitrary: c)
  case (Cons k ks)
  let ?n = "utf8ByteLength (json_string k) + 1"
  let ?c = "c\<lparr>canonicalBytes := canonicalBytes c + ?n\<rparr>"
  have "foldE (visitKey P e l) c (k # ks) = Inr c' \<longleftrightarrow> utf8ByteLength k \<le> maxStringBytes P
      \<and> canonicalBytes c + ?n \<le> maxCanonicalBytes P \<and> foldE (visitKey P e l) ?c ks = Inr c'"
    by (auto simp: visitKey_def run_simps)
  then show ?case using Cons.IH [of ?c] by (auto simp: add.assoc)
qed auto

lemma sum_list_rev: "sum_list (map f (rev xs)) = sum_list (map f xs)" for f :: "'a \<Rightarrow> nat"
  by (induction xs) auto

lemma enterNode_Inr [run_simps]:
  "enterNode P e l d c = Inr c' \<longleftrightarrow>
     work c + 1 \<le> maxValidationWork P \<and> nodes c + 1 \<le> maxNodes P \<and> d \<le> maxDepth P \<and>
     c' = c\<lparr>nodes := nodes c + 1, work := work c + 1\<rparr>"
  by (auto simp: enterNode_def run_simps)

lemma visitObject_Inr:
  "visitObject P e l f kvs c = Inr c' \<longleftrightarrow>
     local_fits P f (JObj kvs) \<and> work c + length kvs \<le> maxValidationWork P
     \<and> canonicalBytes c + own_bytes (JObj kvs) \<le> maxCanonicalBytes P
     \<and> c' = c\<lparr>work := work c + length kvs, canonicalBytes := canonicalBytes c + own_bytes (JObj kvs)\<rparr>"
proof -
  let ?c = "c\<lparr>work := work c + length kvs, canonicalBytes := canonicalBytes c + (2 + (length kvs - 1))\<rparr>"
  have "visitObject P e l f kvs c = Inr c' \<longleftrightarrow> length kvs \<le> object_limit P f
      \<and> work c + length kvs \<le> maxValidationWork P
      \<and> canonicalBytes ?c \<le> maxCanonicalBytes P \<and> foldE (visitKey P e l) ?c (rev (map fst kvs)) = Inr c'"
    by (auto simp: visitObject_def object_limit_def run_simps Let_def)
  then show ?thesis
    using visitKeys_Inr [of ?c P e l "rev (map fst kvs)" c']
      sum_list_rev [of "\<lambda>k. utf8ByteLength (json_string k) + 1" "map fst kvs"]
    by (auto simp: add.assoc)
qed

text \<open>One visit checks the local limits and accounts for the part of the canonical text that
  the children of the value do not.\<close>

lemma visitValue_Inr:
  assumes "work c \<le> maxValidationWork P"
  shows "visitValue P e l f v c = Inr c' \<longleftrightarrow>
     local_fits P f v \<and> work c + own_work v \<le> maxValidationWork P
     \<and> canonicalBytes c + own_bytes v \<le> maxCanonicalBytes P
     \<and> c' = c\<lparr>work := work c + own_work v, canonicalBytes := canonicalBytes c + own_bytes v\<rparr>"
  using assms
  by (cases v) (auto simp: visitValue_def visitObject_Inr visitArray_def visitString_def run_simps
      canonical_length_def Let_def utf8ByteLength_Cons code_def array_limit_def string_limit_def
      split: option.splits if_splits)

lemma children_totals:
  "own_bytes v + sum_list (map (pending_total canonical_length) (children v d)) = canonical_length v"
  "1 + sum_list (map (pending_total value_nodes) (children v d)) = value_nodes v"
  "1 + own_work v + sum_list (map (pending_total value_work) (children v d)) = value_work v"
proof -
  have kids: "sum_list (map (pending_total m) (map (\<lambda>(k, v). Visit v e (Some k)) kvs))
      = sum_list (map (\<lambda>(k, v). m v) kvs)" for m e kvs
    by (induction kvs) auto
  have split: "sum_list (map (\<lambda>(k, v). utf8ByteLength (json_string k) + 1 + canonical_length v) kvs) =
      sum_list (map (\<lambda>k. utf8ByteLength (json_string k) + 1) (map fst kvs)) +
      sum_list (map (\<lambda>(k, v). canonical_length v) kvs)" for kvs
    by (induction kvs) auto
  have "own_bytes v + sum_list (map (pending_total canonical_length) (children v d)) = canonical_length v
    \<and> 1 + sum_list (map (pending_total value_nodes) (children v d)) = value_nodes v
    \<and> 1 + own_work v + sum_list (map (pending_total value_work) (children v d)) = value_work v"
  proof (cases v)
    case (JObj kvs)
    then show ?thesis
      using split [of kvs] kids [of canonical_length "Suc d" kvs] kids [of value_nodes "Suc d" kvs]
        kids [of value_work "Suc d" kvs]
      by (simp add: canonical_length_JObj)
  qed (simp_all add: canonical_length_JArr comp_def)
  then show "own_bytes v + sum_list (map (pending_total canonical_length) (children v d)) = canonical_length v"
    "1 + sum_list (map (pending_total value_nodes) (children v d)) = value_nodes v"
    "1 + own_work v + sum_list (map (pending_total value_work) (children v d)) = value_work v"
    by blast+
qed

lemma children_fits:
  "fits P d f v \<longleftrightarrow> d \<le> maxDepth P \<and> local_fits P f v \<and> (\<forall>p\<in>set (children v d). pending_fits P p)"
  by (cases v) (auto simp: list_all_iff)

definition within :: "resource_budget_profile \<Rightarrow> budget_counts \<Rightarrow> bool" where
  "within P c = (nodes c \<le> maxNodes P \<and> work c \<le> maxValidationWork P
     \<and> canonicalBytes c \<le> maxCanonicalBytes P)"

definition after_pending :: "pending list \<Rightarrow> budget_counts \<Rightarrow> budget_counts" where
  "after_pending ps c = \<lparr>nodes = nodes c + sum_list (map (pending_total value_nodes) ps),
     work = work c + sum_list (map (pending_total value_work) ps),
     canonicalBytes = canonicalBytes c + sum_list (map (pending_total canonical_length) ps)\<rparr>"

lemma budget_loop_Visit:
  "budget_loop P e l (Visit v d f # rest) c =
     bindE (enterNode P e l d c) (\<lambda>c1. bindE (visitValue P e l f v c1)
       (\<lambda>c2. budget_loop P e l (children v d @ rest) c2))"
  by (simp add: bindE_def)

lemma budget_loop_Inr:
  "within P c \<Longrightarrow> budget_loop P e l ps c = Inr c' \<longleftrightarrow>
     (\<forall>p\<in>set ps. pending_fits P p) \<and> within P (after_pending ps c) \<and> c' = after_pending ps c"
proof (induction P e l ps c rule: budget_loop.induct)
  case (3 P e l v d f rest c)
  let ?c1 = "c\<lparr>nodes := nodes c + 1, work := work c + 1\<rparr>"
  let ?c2 = "?c1\<lparr>work := work c + 1 + own_work v, canonicalBytes := canonicalBytes c + own_bytes v\<rparr>"
  have tot: "after_pending (children v d @ rest) ?c2 = after_pending (Visit v d f # rest) c"
    using children_totals [of v d] by (simp add: after_pending_def)
  have mono: "within P (after_pending qs b) \<Longrightarrow> within P b" for qs b
    by (auto simp: within_def after_pending_def)
  have enter: "enterNode P e l d c = Inr ?c1 \<longleftrightarrow> within P ?c1 \<and> d \<le> maxDepth P"
    using "3.prems" by (auto simp: run_simps within_def)
  have "budget_loop P e l (Visit v d f # rest) c = Inr c' \<longleftrightarrow>
      within P ?c1 \<and> d \<le> maxDepth P \<and> visitValue P e l f v ?c1 = Inr ?c2
      \<and> budget_loop P e l (children v d @ rest) ?c2 = Inr c'"
    using "3.prems" unfolding budget_loop_Visit
    by (auto simp: run_simps within_def visitValue_Inr)
  also have "\<dots> \<longleftrightarrow> within P ?c2 \<and> d \<le> maxDepth P \<and> local_fits P f v
      \<and> budget_loop P e l (children v d @ rest) ?c2 = Inr c'"
    by (auto simp: within_def visitValue_Inr)
  also have "\<dots> \<longleftrightarrow> within P ?c2 \<and> (\<forall>p\<in>set (Visit v d f # rest). pending_fits P p)
      \<and> within P (after_pending (Visit v d f # rest) c) \<and> c' = after_pending (Visit v d f # rest) c"
  proof (cases "within P ?c2 \<and> d \<le> maxDepth P \<and> local_fits P f v")
    case True
    then have "enterNode P e l d c = Inr ?c1" "visitValue P e l f v ?c1 = Inr ?c2" "within P ?c2"
      using enter by (auto simp: within_def visitValue_Inr)
    with "3.IH" [OF this] True tot show ?thesis by (auto simp: children_fits [of P d f v])
  qed (auto simp: children_fits [of P d f v])
  also have "\<dots> \<longleftrightarrow> (\<forall>p\<in>set (Visit v d f # rest). pending_fits P p)
      \<and> within P (after_pending (Visit v d f # rest) c) \<and> c' = after_pending (Visit v d f # rest) c"
    using mono [of "children v d @ rest" ?c2] tot by auto
  finally show ?case .
qed (auto simp: after_pending_def within_def)

lemma assertJsonResourceBudget_Inr:
  "assertJsonResourceBudget P e l v = Inr c \<longleftrightarrow>
     fits P 0 None v \<and> within P c
     \<and> c = \<lparr>nodes = value_nodes v, work = value_work v, canonicalBytes = canonical_length v\<rparr>"
proof -
  have "within P \<lparr>nodes = 0, work = 0, canonicalBytes = 0\<rparr>" by (simp add: within_def)
  then have "budget_loop P e l [Visit v 0 None] \<lparr>nodes = 0, work = 0, canonicalBytes = 0\<rparr> = Inr c
      \<longleftrightarrow> (\<forall>p\<in>set [Visit v 0 None]. pending_fits P p)
        \<and> within P (after_pending [Visit v 0 None] \<lparr>nodes = 0, work = 0, canonicalBytes = 0\<rparr>)
        \<and> c = after_pending [Visit v 0 None] \<lparr>nodes = 0, work = 0, canonicalBytes = 0\<rparr>"
    by (rule budget_loop_Inr)
  then show ?thesis by (auto simp: assertJsonResourceBudget_def after_pending_def)
qed

lemma fits_serializable: "fits P d f v \<Longrightarrow> serializable v"
proof (induction v arbitrary: d f)
  case (JObj kvs)
  then show ?case by (fastforce simp: list_all_iff)
qed (auto simp: list_all_iff)

lemma stableStringify_Inr:
  "stableStringify v = Inr t \<Longrightarrow> serializable v \<and> t = stableJson v"
  by (auto simp: stableStringify_def bindE_Inr stringifyJson_Inr)

lemma stableStringify_iff:
  "stableStringify v = Inr t \<longleftrightarrow>
     (\<exists>c. assertJsonResourceBudget KASPA_X402_RESOURCE_BUDGET Invalid_payload ''canonical JSON value'' v = Inr c)
     \<and> t = stableJson v"
  by (auto simp: stableStringify_def bindE_Inr stringifyJson_Inr assertJsonResourceBudget_Inr
      intro: fits_serializable)

subsection \<open>A cheap bound\<close>

lemma utf8ByteLength_le: "utf8ByteLength s \<le> 2 * length s"
  by (induction s) (auto simp: utf8ByteLength_Cons)

lemma json_string_length_le: "utf8ByteLength (json_string s) \<le> 12 * length s + 2"
proof -
  have esc: "length (json_escape c) \<le> 6" for c by (auto simp: json_escape_def)
  have "utf8ByteLength (json_escape c) \<le> 12" for c
    using utf8ByteLength_le [of "json_escape c"] esc [of c] by linarith
  then have "utf8ByteLength (concat (map json_escape s)) \<le> 12 * length s"
    by (induction s) (auto intro: add_mono)
  then show ?thesis by (simp add: json_string_def utf8ByteLength_Cons code_def)
qed

fun size_bound :: "js_value \<Rightarrow> nat" where
  \<comment> \<open>an upper bound on the canonical length that is cheap to evaluate\<close>
  "size_bound (JStr s) = 12 * length s + 2"
| "size_bound (JNum n) = utf8ByteLength (json_number n)"
| "size_bound (JArr xs) = 2 + length xs + sum_list (map size_bound xs)"
| "size_bound (JObj kvs) = 2 + length kvs + sum_list (map (\<lambda>(k, v). 12 * length k + 3 + size_bound v) kvs)"
| "size_bound _ = 9"

lemma canonical_length_le: "canonical_length v \<le> size_bound v"
proof (induction v)
  case (JArr xs)
  then have "sum_list (map canonical_length xs) \<le> sum_list (map size_bound xs)"
    by (intro sum_list_mono) auto
  then show ?case by (simp add: canonical_length_JArr)
next
  case (JObj kvs)
  have "utf8ByteLength (json_string k) + 1 + canonical_length v \<le> 12 * length k + 3 + size_bound v"
    if "(k, v) \<in> set kvs" for k v
    using that JObj [of "(k, v)" v] json_string_length_le [of k] by simp
  then have "sum_list (map (\<lambda>(k, v). utf8ByteLength (json_string k) + 1 + canonical_length v) kvs)
     \<le> sum_list (map (\<lambda>(k, v). 12 * length k + 3 + size_bound v) kvs)"
    by (intro sum_list_mono) auto
  then show ?case by (simp add: canonical_length_JObj)
next
  case (JStr s)
  then show ?case using json_string_length_le [of s] by (simp add: canonical_length_def)
qed (auto simp: canonical_length_def utf8ByteLength_Cons code_def)

lemma stableStringify_small:
  assumes "fits KASPA_X402_RESOURCE_BUDGET 0 None v" "value_nodes v \<le> 4096" "value_work v \<le> 8191"
    and "size_bound v \<le> 98304"
  shows "stableStringify v = Inr (stableJson v)"
  using assms canonical_length_le [of v]
  by (auto simp: stableStringify_iff assertJsonResourceBudget_Inr within_def KASPA_X402_RESOURCE_BUDGET_def)

text \<open>C36: the iterative budget walk equals its recursive specification. It admits a value
  exactly when the depth, string, array, object and number limits hold at every level and the
  three totals of the whole value stay within the profile; the totals it returns are the number
  of values, the work and the UTF-8 length of the canonical text, which is therefore at most
  98304 bytes and is then built without error.\<close>

theorem resource_budget_exact:
  "assertJsonResourceBudget KASPA_X402_RESOURCE_BUDGET Invalid_payload ''canonical JSON value'' v = Inr c
   \<longleftrightarrow> fits KASPA_X402_RESOURCE_BUDGET 0 None v \<and> nodes c = value_nodes v \<and> work c = value_work v
     \<and> canonicalBytes c = length (utf8Bytes (stableJson v))
     \<and> value_nodes v \<le> 4096 \<and> value_work v \<le> 8191 \<and> length (utf8Bytes (stableJson v)) \<le> 98304
     \<and> stableStringify v = Inr (stableJson v)"
proof -
  have "c = \<lparr>nodes = n, work = w, canonicalBytes = b\<rparr> \<longleftrightarrow> nodes c = n \<and> work c = w \<and> canonicalBytes c = b" for n w b
    by (cases c) auto
  then show ?thesis
    unfolding stableStringify_iff assertJsonResourceBudget_Inr
    by (auto simp: within_def canonical_length_def utf8ByteLength_utf8Bytes KASPA_X402_RESOURCE_BUDGET_def)
qed

end
