(* ===== verification/Canonical_Json.thy ===== *)
theory Canonical_Json
  imports Js_Json
begin

text \<open>
  The canonical text as a code for values. Object members are written in key order, strings
  are escaped and every value kind begins with its own character, so the text of a value
  determines the value up to the order of its keys (\<open>canonical_text_iff\<close>). Every digest and
  every equality the protocol takes over \<open>stableJson\<close> texts rests on this fact.
\<close>

section \<open>The canonical text is injective\<close>

definition num_char :: "char \<Rightarrow> bool" where
  "num_char c = (is_digit c \<or> c \<in> set ''-+.e'')"

definition wf_number :: "js_number \<Rightarrow> bool" where
  \<comment> \<open>the text of a non-integral number is what \<open>String(n)\<close> prints for a finite one\<close>
  "wf_number n = (case n of JsInt _ \<Rightarrow> True
     | JsNonInt s \<Rightarrow> s \<noteq> [] \<and> list_all num_char s \<and> (is_digit (hd s) \<or> hd s = CHR ''-'')
                    \<and> (\<forall>i. s \<noteq> int_to_string i))"

fun wf_js :: "js_value \<Rightarrow> bool" where
  "wf_js (JNum n) = wf_number n"
| "wf_js (JArr xs) = list_all wf_js xs"
| "wf_js (JObj kvs) = list_all (\<lambda>(k, v). wf_js v) kvs"
| "wf_js _ = True"

fun canon :: "js_value \<Rightarrow> js_value" where
  \<comment> \<open>keys in canonical order at every level\<close>
  "canon (JArr xs) = JArr (map canon xs)"
| "canon (JObj kvs) = JObj (sort_key fst (map (\<lambda>(k, v). (k, canon v)) kvs))"
| "canon v = v"

fun plain_text :: "js_value \<Rightarrow> string" where
  "plain_text (JArr xs) = json_array (map plain_text xs)"
| "plain_text (JObj kvs) = json_object (map (\<lambda>(k, v). (k, plain_text v)) kvs)"
| "plain_text v = stableJson v"

lemma stableJson_plain_text: "stableJson v = plain_text (canon v)"
proof (induction v)
  case (JArr xs)
  then show ?case by (simp add: comp_def cong: map_cong)
next
  case (JObj kvs)
  have "map (\<lambda>(k, v). (k, stableJson v)) (sort_key fst kvs)
      = map (\<lambda>(k, v). (k, plain_text (canon v))) (sort_key fst kvs)"
    using JObj by (intro map_cong) auto
  moreover have "stableJson (JObj kvs) = json_object (map (\<lambda>(k, v). (k, stableJson v)) (sort_key fst kvs))"
    by (simp add: sort_key_map comp_def case_prod_beta)
  moreover have "plain_text (canon (JObj kvs))
      = json_object (map (\<lambda>(k, v). (k, plain_text (canon v))) (sort_key fst kvs))"
    by (simp add: sort_key_map) (simp add: case_prod_beta' comp_def)
  ultimately show ?case by (simp only:)
qed auto

lemma wf_js_canon [simp]: "wf_js (canon v) = wf_js v"
proof (induction v)
  case (JArr xs)
  then show ?case by (auto simp: list_all_iff)
next
  case (JObj kvs)
  then show ?case by (fastforce simp: list_all_iff)
qed auto

definition ends :: "string \<Rightarrow> bool" where
  \<comment> \<open>what may follow a value inside a canonical text\<close>
  "ends r = (r = [] \<or> hd r \<in> set '',]}'')"

definition prefix_free :: "('a \<Rightarrow> string) \<Rightarrow> 'a \<Rightarrow> 'a \<Rightarrow> bool" where
  "prefix_free g x y =
     (\<forall>r s. ends r \<longrightarrow> ends s \<longrightarrow> g x @ r = g y @ s \<longrightarrow> x = y \<and> r = s)"

lemma prefix_freeD:
  "prefix_free g x y \<Longrightarrow> ends r \<Longrightarrow> ends s \<Longrightarrow> g x @ r = g y @ s \<Longrightarrow> x = y \<and> r = s"
  by (auto simp: prefix_free_def)

fun items_tail :: "char \<Rightarrow> string list \<Rightarrow> string \<Rightarrow> string" where
  "items_tail c [] r = c # r"
| "items_tail c (t # ts) r = CHR '','' # t @ items_tail c ts r"

lemma join_with_tail:
  "join_with '','' (t # ts) @ c # r = t @ items_tail c ts r"
proof (induction ts arbitrary: t)
  case (Cons u us)
  then show ?case by (cases us) auto
qed simp

lemma ends_items_tail: "c \<in> set '']}'' \<Longrightarrow> ends (items_tail c ts r)"
  by (cases ts) (auto simp: ends_def)

lemma items_tail_inject:
  assumes "c \<in> set '']}''" "\<forall>x\<in>set xs. \<forall>y\<in>set ys. prefix_free g x y"
    and "items_tail c (map g xs) r = items_tail c (map g ys) s"
  shows "xs = ys \<and> r = s"
  using assms
proof (induction xs arbitrary: ys)
  case Nil
  then show ?case by (cases ys) auto
next
  case (Cons x xs)
  then obtain y zs where ys: "ys = y # zs" by (cases ys) auto
  with Cons.prems have "g x @ items_tail c (map g xs) r = g y @ items_tail c (map g zs) s" by simp
  then have "x = y \<and> items_tail c (map g xs) r = items_tail c (map g zs) s"
    using Cons.prems ys by (intro prefix_freeD [of g]) (auto simp: ends_items_tail)
  with Cons.IH [of zs] Cons.prems ys show ?case by simp
qed

lemma list_text_inject:
  assumes c: "c \<in> set '']}''" and pf: "\<forall>x\<in>set xs. \<forall>y\<in>set ys. prefix_free g x y"
    and hd: "\<forall>x\<in>set xs \<union> set ys. g x \<noteq> [] \<and> hd (g x) \<noteq> c"
    and eq: "join_with '','' (map g xs) @ c # r = join_with '','' (map g ys) @ c # s"
  shows "xs = ys \<and> r = s"
proof (cases xs)
  case Nil
  show ?thesis
  proof (cases ys)
    case (Cons y zs)
    with eq Nil have "c # r = g y @ items_tail c (map g zs) s" by (simp add: join_with_tail)
    with hd Cons show ?thesis by (cases "g y") auto
  qed (use eq Nil in simp)
next
  case xs: (Cons x us)
  show ?thesis
  proof (cases ys)
    case Nil
    with eq xs have "g x @ items_tail c (map g us) r = c # s" by (simp add: join_with_tail)
    with hd xs show ?thesis by (cases "g x") auto
  next
    case (Cons y zs)
    with eq xs have "g x @ items_tail c (map g us) r = g y @ items_tail c (map g zs) s"
      by (simp add: join_with_tail)
    then have "items_tail c (map g xs) r = items_tail c (map g ys) s" by (simp add: xs Cons)
    with c pf show ?thesis by (rule items_tail_inject)
  qed
qed

subsection \<open>Strings and numbers\<close>

fun unescape :: "string \<Rightarrow> char \<times> string" where
  \<comment> \<open>reads one character of a string literal\<close>
  "unescape (x # rest) =
     (if x \<noteq> CHR 0x5C then (x, rest)
      else if hd rest = CHR ''u''
        then (char_of (16 * hex_val (rest ! 3) + hex_val (rest ! 4)), drop 5 rest)
      else if hd rest = CHR ''b'' then (char_of (8 :: nat), tl rest)
      else if hd rest = CHR ''t'' then (char_of (9 :: nat), tl rest)
      else if hd rest = CHR ''n'' then (char_of (10 :: nat), tl rest)
      else if hd rest = CHR ''f'' then (char_of (12 :: nat), tl rest)
      else if hd rest = CHR ''r'' then (char_of (13 :: nat), tl rest)
      else (hd rest, tl rest))"
| "unescape [] = (CHR 0x22, [])"

lemma unescape_json_escape: "unescape (json_escape c @ r) = (c, r)"
proof -
  have c: "char_of (code c) = c" by (simp add: code_def)
  consider "c = CHR 0x22" | "c = CHR 0x5C" | "code c \<in> {8, 9, 10, 12, 13}"
    | "code c < 32" "code c \<notin> {8, 9, 10, 12, 13}" "c \<noteq> CHR 0x22" "c \<noteq> CHR 0x5C"
    | "\<not> code c < 32" "c \<noteq> CHR 0x22" "c \<noteq> CHR 0x5C"
    by blast
  then show ?thesis
  proof cases
    case 3
    then have "c \<noteq> CHR 0x22" "c \<noteq> CHR 0x5C" by (auto simp: code_def)
    with 3 c show ?thesis by (auto simp: json_escape_def)
  next
    case 4
    then have "code c div 16 < 16" by simp
    with 4 c show ?thesis by (simp add: json_escape_def)
  qed (use c in \<open>auto simp: json_escape_def code_def\<close>)
qed

lemma json_escape_inject:
  "json_escape c @ r = json_escape d @ s \<longleftrightarrow> c = d \<and> r = s"
  by (metis prod.inject unescape_json_escape)

lemma json_escape_quote: "json_escape c @ r \<noteq> CHR 0x22 # s"
  by (auto simp: json_escape_def)

lemma json_string_inject:
  "json_string a @ r = json_string b @ s \<longleftrightarrow> a = b \<and> r = s"
proof -
  have "concat (map json_escape a) @ CHR 0x22 # r = concat (map json_escape b) @ CHR 0x22 # s
      \<longleftrightarrow> a = b \<and> r = s"
  proof (induction a arbitrary: b)
    case Nil
    show ?case by (cases b) (auto simp: json_escape_quote dest: sym)
  next
    case (Cons c a)
    show ?case
    proof (cases b)
      case Nil
      then show ?thesis by (simp add: json_escape_quote)
    next
      case (Cons d b')
      then show ?thesis using Cons.IH by (simp add: json_escape_inject)
    qed
  qed
  then show ?thesis by (simp add: json_string_def)
qed

lemma span_inject:
  assumes "list_all num_char xs" "list_all num_char ys" "ends r" "ends s" "xs @ r = ys @ s"
  shows "xs = ys \<and> r = s"
proof -
  have tw: "takeWhile num_char (us @ q) = us" if "list_all num_char us" "ends q" for us q
    using that by (cases q) (auto simp: takeWhile_append list_all_iff ends_def num_char_def is_digit_def code_def)
  have "xs = ys" using tw [OF assms(1,3)] tw [OF assms(2,4)] assms(5) by simp
  with assms(5) show ?thesis by simp
qed

lemma int_to_string_num: "list_all num_char (int_to_string i)"
  "int_to_string i \<noteq> [] \<and> (is_digit (hd (int_to_string i)) \<or> hd (int_to_string i) = CHR ''-'')"
proof -
  have "is_digit (hd (nat_to_string n))" for n
    by (rule nat_to_string_digits [of _ n]) simp
  then show "list_all num_char (int_to_string i)"
    "int_to_string i \<noteq> [] \<and> (is_digit (hd (int_to_string i)) \<or> hd (int_to_string i) = CHR ''-'')"
    by (auto simp: int_to_string_def num_char_def list_all_iff dest: nat_to_string_digits)
qed

lemma int_to_string_eq [simp]: "int_to_string i = int_to_string j \<longleftrightarrow> i = j"
proof -
  have "nat_to_string n \<noteq> CHR ''-'' # nat_to_string m" for n m
  proof
    assume "nat_to_string n = CHR ''-'' # nat_to_string m"
    then have "is_digit (CHR ''-'')" by (metis list.set_intros(1) nat_to_string_digits)
    then show False by (simp add: is_digit_def code_def)
  qed
  then show ?thesis by (auto simp: int_to_string_def dest: sym)
qed

lemma wf_number_json: "wf_number (JsNonInt s) \<Longrightarrow> json_number (JsNonInt s) = s"
proof -
  assume "wf_number (JsNonInt s)"
  then have "list_all num_char s" by (simp add: wf_number_def)
  then have "s \<noteq> ''NaN'' \<and> s \<noteq> ''Infinity'' \<and> s \<noteq> ''-Infinity''"
    by (auto simp: num_char_def is_digit_def code_def)
  then show ?thesis by (simp add: json_number_def is_finite_num_def)
qed

lemma wf_number_text:
  assumes "wf_number n"
  shows "list_all num_char (json_number n)" "json_number n \<noteq> []"
    "is_digit (hd (json_number n)) \<or> hd (json_number n) = CHR ''-''"
proof -
  have "list_all num_char (json_number n) \<and> json_number n \<noteq> [] \<and>
     (is_digit (hd (json_number n)) \<or> hd (json_number n) = CHR ''-'')"
  proof (cases n)
    case (JsInt i)
    then show ?thesis using int_to_string_num [of i] by (simp add: json_number_def)
  next
    case (JsNonInt s)
    then show ?thesis using assms wf_number_json [of s] by (simp add: wf_number_def)
  qed
  then show "list_all num_char (json_number n)" "json_number n \<noteq> []"
    "is_digit (hd (json_number n)) \<or> hd (json_number n) = CHR ''-''" by blast+
qed

lemma json_number_inject:
  assumes "wf_number m" "wf_number n" "json_number m = json_number n"
  shows "m = n"
proof (cases m)
  case (JsInt i)
  show ?thesis
  proof (cases n)
    case (JsInt j)
    with \<open>m = JsInt i\<close> assms(3) show ?thesis by (simp add: json_number_def)
  next
    case (JsNonInt t)
    with \<open>m = JsInt i\<close> assms wf_number_json [of t] show ?thesis
      by (auto simp: json_number_def wf_number_def)
  qed
next
  case (JsNonInt s)
  show ?thesis
  proof (cases n)
    case (JsInt j)
    with JsNonInt assms wf_number_json [of s] show ?thesis
      by (auto simp: json_number_def wf_number_def)
  next
    case (JsNonInt t)
    with \<open>m = JsNonInt s\<close> assms wf_number_json show ?thesis by metis
  qed
qed

subsection \<open>Values\<close>

definition text_tag :: "js_value \<Rightarrow> nat" where
  \<comment> \<open>values of different kinds begin with different characters\<close>
  "text_tag v = (case v of JUndefined \<Rightarrow> 0 | JNull \<Rightarrow> 1 | JBool b \<Rightarrow> (if b then 2 else 3)
     | JNum _ \<Rightarrow> 4 | JStr _ \<Rightarrow> 5 | JArr _ \<Rightarrow> 6 | JObj _ \<Rightarrow> 7)"

definition tag_of_char :: "char \<Rightarrow> nat" where
  "tag_of_char c =
     (if c = CHR ''u'' then 0 else if c = CHR ''n'' then 1 else if c = CHR ''t'' then 2
      else if c = CHR ''f'' then 3 else if is_digit c \<or> c = CHR ''-'' then 4
      else if c = CHR 0x22 then 5 else if c = CHR ''['' then 6
      else if c = CHR ''{'' then 7 else 8)"

lemma plain_text_tag:
  assumes "wf_js v"
  shows "plain_text v \<noteq> []" "tag_of_char (hd (plain_text v)) = text_tag v"
proof -
  have num: "tag_of_char c = 4" if "is_digit c \<or> c = CHR ''-''" for c
    using that by (auto simp: tag_of_char_def is_digit_def code_def)
  have "plain_text v \<noteq> [] \<and> tag_of_char (hd (plain_text v)) = text_tag v"
    using assms num wf_number_text(2,3)
    by (cases v) (auto simp: text_tag_def json_string_def json_array_def json_object_def
        tag_of_char_def is_digit_def code_def)
  then show "plain_text v \<noteq> []" "tag_of_char (hd (plain_text v)) = text_tag v" by blast+
qed

lemma text_tag_eq:
  assumes "wf_js a" "wf_js b" "plain_text a @ r = plain_text b @ s"
  shows "text_tag a = text_tag b"
proof -
  have "hd (plain_text a) = hd (plain_text b)"
    using plain_text_tag(1) assms by (metis hd_append2)
  then show ?thesis using plain_text_tag(2) assms(1,2) by metis
qed

lemma plain_text_hd:
  assumes "wf_js v" "c \<in> set '',]}''"
  shows "hd (plain_text v) \<noteq> c"
proof
  assume "hd (plain_text v) = c"
  with plain_text_tag(2) [OF assms(1)] assms(2) have "text_tag v = 8"
    by (auto simp: tag_of_char_def is_digit_def code_def)
  then show False by (simp add: text_tag_def split: js_value.splits if_splits)
qed

definition member_text :: "string \<times> js_value \<Rightarrow> string" where
  "member_text m = json_string (fst m) @ '':'' @ plain_text (snd m)"

lemma member_text_prefix_free:
  "prefix_free plain_text (snd m) (snd n) \<Longrightarrow> prefix_free member_text m n"
  by (auto simp: prefix_free_def member_text_def json_string_inject prod_eq_iff)

lemma plain_text_containers:
  "plain_text (JArr xs) @ r = CHR ''['' # join_with '','' (map plain_text xs) @ CHR '']'' # r"
  "plain_text (JObj kvs) @ r = CHR ''{'' # join_with '','' (map member_text kvs) @ CHR ''}'' # r"
  by (simp_all add: json_array_def json_object_def member_text_def [abs_def] comp_def case_prod_beta)

lemma plain_text_array_inject:
  assumes "\<forall>x\<in>set xs. \<forall>y\<in>set ys. prefix_free plain_text x y"
    and "\<forall>x\<in>set xs \<union> set ys. wf_js x"
    and "plain_text (JArr xs) @ r = plain_text (JArr ys) @ s"
  shows "xs = ys \<and> r = s"
proof (rule list_text_inject [of "CHR '']''"])
  show "\<forall>x\<in>set xs \<union> set ys. plain_text x \<noteq> [] \<and> hd (plain_text x) \<noteq> CHR '']''"
    using assms(2) plain_text_tag(1) plain_text_hd by auto
  show "join_with '','' (map plain_text xs) @ CHR '']'' # r
      = join_with '','' (map plain_text ys) @ CHR '']'' # s"
    using assms(3) by (simp only: plain_text_containers list.inject)
qed (use assms(1) in auto)

lemma plain_text_object_inject:
  assumes "\<forall>x\<in>set xs. \<forall>y\<in>set ys. prefix_free plain_text (snd x) (snd y)"
    and "plain_text (JObj xs) @ r = plain_text (JObj ys) @ s"
  shows "xs = ys \<and> r = s"
proof (rule list_text_inject [of "CHR ''}''"])
  show "\<forall>x\<in>set xs \<union> set ys. member_text x \<noteq> [] \<and> hd (member_text x) \<noteq> CHR ''}''"
    by (simp add: member_text_def json_string_def)
  show "join_with '','' (map member_text xs) @ CHR ''}'' # r
      = join_with '','' (map member_text ys) @ CHR ''}'' # s"
    using assms(2) by (simp only: plain_text_containers list.inject)
qed (use assms(1) member_text_prefix_free in auto)

lemma plain_text_atom_inject:
  assumes "wf_js a" "wf_js b" "text_tag a \<in> {0, 1, 2, 3, 5}"
  shows "prefix_free plain_text a b"
  unfolding prefix_free_def
proof (intro allI impI)
  fix r s assume eq: "plain_text a @ r = plain_text b @ s"
  have "text_tag a = text_tag b" using assms(1,2) eq by (rule text_tag_eq)
  then show "a = b \<and> r = s" using assms(3) eq
    by (cases a; cases b) (auto simp: text_tag_def json_string_inject split: if_splits)
qed

lemma plain_text_inject: "wf_js a \<Longrightarrow> wf_js b \<Longrightarrow> prefix_free plain_text a b"
proof (induction a arbitrary: b)
  case (JArr xs)
  show ?case unfolding prefix_free_def
  proof (intro allI impI)
    fix r s assume eq: "plain_text (JArr xs) @ r = plain_text b @ s"
    then obtain ys where b: "b = JArr ys"
      using text_tag_eq [OF JArr.prems eq] by (cases b) (auto simp: text_tag_def split: if_splits)
    show "JArr xs = b \<and> r = s"
      using plain_text_array_inject [of xs ys r s] JArr eq b by (auto simp: list_all_iff)
  qed
next
  case (JObj xs)
  show ?case unfolding prefix_free_def
  proof (intro allI impI)
    fix r s assume eq: "plain_text (JObj xs) @ r = plain_text b @ s"
    then obtain ys where b: "b = JObj ys"
      using text_tag_eq [OF JObj.prems eq] by (cases b) (auto simp: text_tag_def split: if_splits)
    have "\<forall>x\<in>set xs. \<forall>y\<in>set ys. prefix_free plain_text (snd x) (snd y)"
    proof (intro ballI)
      fix x y assume "x \<in> set xs" "y \<in> set ys"
      then show "prefix_free plain_text (snd x) (snd y)"
        using JObj.prems b by (intro JObj.IH [of x]) (auto simp: list_all_iff snds.simps case_prod_beta)
    qed
    then show "JObj xs = b \<and> r = s"
      using plain_text_object_inject [of xs ys r s] eq b by auto
  qed
next
  case (JNum m)
  show ?case unfolding prefix_free_def
  proof (intro allI impI)
    fix r s assume rs: "ends r" "ends s" and eq: "plain_text (JNum m) @ r = plain_text b @ s"
    then obtain n where b: "b = JNum n"
      using text_tag_eq [OF JNum.prems eq] by (cases b) (auto simp: text_tag_def split: if_splits)
    have "json_number m = json_number n \<and> r = s"
      using JNum.prems b rs eq by (intro span_inject) (auto simp: wf_number_text)
    then show "JNum m = b \<and> r = s" using JNum.prems b json_number_inject by auto
  qed
qed (auto intro!: plain_text_atom_inject simp: text_tag_def split: if_splits)

lemma canonical_text_iff:
  assumes "wf_js a" "wf_js b"
  shows "stableJson a = stableJson b \<longleftrightarrow> canon a = canon b"
proof
  assume "stableJson a = stableJson b"
  then have "plain_text (canon a) @ [] = plain_text (canon b) @ []" by (simp add: stableJson_plain_text)
  moreover have "prefix_free plain_text (canon a) (canon b)" using assms by (simp add: plain_text_inject)
  ultimately show "canon a = canon b" by (auto simp: prefix_free_def ends_def)
qed (simp add: stableJson_plain_text)

lemma map_of_sort_key:
  "distinct (map fst kvs) \<Longrightarrow> map_of (sort_key fst kvs) = map_of kvs"
  by (rule map_of_eqI) (auto simp: distinct_map dest: map_of_SomeD)

lemma canon_object_lookup:
  assumes "canon (JObj as) = canon (JObj bs)" "distinct (map fst as)" "distinct (map fst bs)"
  shows "map_option canon (map_of as k) = map_option canon (map_of bs k)"
proof -
  have look: "map_of (sort_key fst (map (\<lambda>(k, v). (k, canon v)) cs)) k = map_option canon (map_of cs k)"
    if "distinct (map fst cs)" for cs
    using that by (subst map_of_sort_key) (simp_all add: comp_def case_prod_beta' map_of_map [unfolded case_prod_beta'])
  show ?thesis using assms look [of as] look [of bs] by simp
qed

lemma canon_fixed_keys:
  assumes "canon (JObj as) = canon (JObj bs)" "map fst as = map fst bs" "distinct (map fst as)"
  shows "map (canon \<circ> snd) as = map (canon \<circ> snd) bs"
proof (rule nth_equalityI)
  show len: "length (map (canon \<circ> snd) as) = length (map (canon \<circ> snd) bs)"
    using assms(2) by (metis length_map)
  fix n assume n: "n < length (map (canon \<circ> snd) as)"
  define k where "k = fst (as ! n)"
  have b: "k = fst (bs ! n)" using assms(2) n len by (metis k_def length_map nth_map)
  have "map_of as k = Some (snd (as ! n))" "map_of bs k = Some (snd (bs ! n))"
    using assms(2,3) n len b
    by (auto simp: k_def intro!: map_of_is_SomeI) (metis nth_mem prod.collapse)+
  then show "map (canon \<circ> snd) as ! n = map (canon \<circ> snd) bs ! n"
    using canon_object_lookup [OF assms(1), of k] assms(2,3) n len by simp
qed

text \<open>C35: The canonical text of \<^verbatim>\<open>stable-json.ts\<close> is injective up to the order of
  object keys: two values whose stable texts both exist have the same text exactly when they
  become equal once the keys are sorted at every level, and the text itself is
  \<open>stableJson\<close>, so a value can never pass for another under a digest of its text.\<close>

theorem stableStringify_injective:
  assumes "wf_js a" "wf_js b" "stableStringify a = Inr s" "stableStringify b = Inr t"
  shows "s = t \<longleftrightarrow> canon a = canon b"
  using assms canonical_text_iff stableStringify_Inr by metis

theorem stableStringify_injective_witness:
  "stableStringify (JObj [(''b'', JNull), (''a'', JStr ''x'')])
     = stableStringify (JObj [(''a'', JStr ''x''), (''b'', JNull)])
   \<and> stableStringify (JObj [(''a'', JStr ''x'')]) \<noteq> stableStringify (JObj [(''a'', JNull)])"
proof -
  note eval = stableStringify_def assertJsonResourceBudget_def enterNode_def addWork_def
    addCanonicalBytes_def visitValue_def visitObject_def visitKey_def visitString_def
    KASPA_X402_RESOURCE_BUDGET_def utf8ByteLength_Cons json_string_def json_object_def
    json_escape_def code_def
  let ?s = "CHR ''{'' # json_string ''a'' @ '':'' @ json_string ''x'' @ '','' @ json_string ''b'' @ '':null}''"
  let ?t = "CHR ''{'' # json_string ''a'' @ '':'' @ json_string ''x'' @ ''}''"
  let ?u = "CHR ''{'' # json_string ''a'' @ '':null}''"
  have ba: "stableStringify (JObj [(''b'', JNull), (''a'', JStr ''x'')]) = Inr ?s"
    by (simp add: eval)
  have ab: "stableStringify (JObj [(''a'', JStr ''x''), (''b'', JNull)]) = Inr ?s"
    by (simp add: eval)
  have x: "stableStringify (JObj [(''a'', JStr ''x'')]) = Inr ?t" by (simp add: eval)
  have n: "stableStringify (JObj [(''a'', JNull)]) = Inr ?u" by (simp add: eval)
  show ?thesis
    using stableStringify_injective [OF _ _ ba ab] stableStringify_injective [OF _ _ x n] ba ab x n
    by simp
qed

end
