(* ===== verification/Batch_Ids.thy ===== *)
theory Batch_Ids
  imports Batch_Lane Canonical_Json
begin

text \<open>
  Channel ids and voucher digests: \<^verbatim>\<open>core/src/channel.ts\<close> and \<^verbatim>\<open>voucher.ts\<close>.

  SHA-256 (\<^verbatim>\<open>node:crypto\<close>) is the parameter \<open>sha\<close>; all that is used of it is that its
  digests have 32 bytes. Binding is stated without any assumption on collisions: two inputs
  with the same id agree in every field, or two of the byte strings that were hashed for these two
  inputs, which the statement lists, are different and have the same digest.
\<close>

section \<open>Digests\<close>

definition sha256_text :: "(byte list \<Rightarrow> byte list) \<Rightarrow> string \<Rightarrow> byte list" where
  "sha256_text sha value = sha (utf8Bytes value)"

definition sha256Hex :: "(byte list \<Rightarrow> byte list) \<Rightarrow> byte list \<Rightarrow> string" where
  "sha256Hex sha value = bytesToHex (sha value)"

definition collision_in :: "(byte list \<Rightarrow> byte list) \<Rightarrow> byte list list \<Rightarrow> bool" where
  \<comment> \<open>two of the listed byte strings collide\<close>
  "collision_in sha texts = list_ex (\<lambda>x. list_ex (\<lambda>y. x \<noteq> y \<and> sha x = sha y) texts) texts"

definition digest32 :: "(byte list \<Rightarrow> byte list) \<Rightarrow> bool" where
  "digest32 sha = (\<forall>x. length (sha x) = 32)"

record funding_outpoint =
  op_txid :: string
  op_index :: js_number

definition sameOutpoint :: "funding_outpoint \<Rightarrow> funding_outpoint \<Rightarrow> bool" where
  "sameOutpoint left right =
     (to_lower (op_txid left) = to_lower (op_txid right) \<and> num_eq (op_index left) (op_index right))"

fun opt_member :: "string \<Rightarrow> ('a \<Rightarrow> js_value) \<Rightarrow> 'a opt_field \<Rightarrow> (string \<times> js_value) list" where
  \<comment> \<open>an optional property of an object\<close>
  "opt_member k enc Absent = []"
| "opt_member k enc Undef = [(k, JUndefined)]"
| "opt_member k enc (Val x) = [(k, enc x)]"

definition outpoint_json :: "funding_outpoint \<Rightarrow> js_value" where
  "outpoint_json o' = JObj [(''txid'', JStr (op_txid o')), (''index'', JNum (op_index o'))]"

section \<open>channel.ts\<close>

definition CHANNEL_DOMAIN_TAG :: string where
  "CHANNEL_DOMAIN_TAG = ''kaspa:x402:channel:v2''"

record channel_config =
  cc_network :: string
  cc_asset :: string
  cc_templateId :: string
  cc_clientPublicKey :: string
  cc_serverPublicKey :: string
  cc_payTo :: string
  cc_refundAddress :: string
  cc_refundTimeoutDaa :: string
  cc_salt :: string

definition channelIdPreimage ::
  "(byte list \<Rightarrow> byte list) \<Rightarrow> channel_config \<Rightarrow> byte list res" where
  "channelIdPreimage sha input =
     bindE (parseKaspaNetwork (cc_network input)) (\<lambda>network.
     if cc_asset input \<noteq> ASSET_ID
     then Inl (KaspaX402Error Invalid_asset ''channel asset must be KAS'')
     else if cc_templateId input \<noteq> ESCROW_TEMPLATE_ID
     then Inl (KaspaX402Error Invalid_payload ''unsupported channel template id'')
     else bindE (js_BigInt (cc_refundTimeoutDaa input)) (\<lambda>timeout.
     if KASPA_LOCK_TIME_THRESHOLD \<le> timeout
     then Inl (KaspaX402Error Invalid_payload
                 ''refundTimeoutDaa must remain below the consensus timestamp boundary'')
     else bindE (hexToBytes (cc_clientPublicKey input) (Some 32) Invalid_public_key ''clientPublicKey'')
       (\<lambda>clientKey.
     bindE (hexToBytes (cc_serverPublicKey input) (Some 32) Invalid_public_key ''serverPublicKey'')
       (\<lambda>serverKey.
     bindE (le64 (StringV (cc_refundTimeoutDaa input))) (\<lambda>daa.
     bindE (hexToBytes (cc_salt input) (Some 32) Invalid_hex ''salt'') (\<lambda>salt.
     Inr (concatBytes
       [sha256_text sha CHANNEL_DOMAIN_TAG, sha256_text sha network,
        sha256_text sha (cc_asset input), sha256_text sha (cc_templateId input),
        clientKey, serverKey,
        sha256_text sha (cc_payTo input), sha256_text sha (cc_refundAddress input),
        daa, salt])))))))"

definition channelIdPreimageHex ::
  "(byte list \<Rightarrow> byte list) \<Rightarrow> channel_config \<Rightarrow> string res" where
  "channelIdPreimageHex sha input =
     bindE (channelIdPreimage sha input) (\<lambda>p. Inr (bytesToHex p))"

definition channelId :: "(byte list \<Rightarrow> byte list) \<Rightarrow> channel_config \<Rightarrow> string res" where
  "channelId sha input = bindE (channelIdPreimage sha input) (\<lambda>p. Inr (bytesToHex (sha p)))"

definition validateChannelId ::
  "(byte list \<Rightarrow> byte list) \<Rightarrow> channel_config \<Rightarrow> string \<Rightarrow> bool res" where
  "validateChannelId sha input expected =
     bindE (channelId sha input) (\<lambda>cid.
     if to_lower cid \<noteq> to_lower expected
     then Inl (KaspaX402Error Invalid_channel_id ''channel id does not match channel config'')
     else Inr True)"

section \<open>voucher.ts\<close>

definition VOUCHER_DOMAIN_TAG :: string where
  "VOUCHER_DOMAIN_TAG = ''kaspa:x402:escrow-voucher:v3''"

record voucher_digest_input =
  vd_network :: string
  vd_covenantId :: string
  vd_authorizedCumulativeAmount :: string

definition networkHash :: "(byte list \<Rightarrow> byte list) \<Rightarrow> string \<Rightarrow> byte list res" where
  "networkHash sha network = bindE (parseKaspaNetwork network) (\<lambda>n. Inr (sha256_text sha n))"

definition voucherPreimage ::
  "(byte list \<Rightarrow> byte list) \<Rightarrow> voucher_digest_input \<Rightarrow> byte list res" where
  "voucherPreimage sha input =
     bindE (parseKaspaNetwork (vd_network input)) (\<lambda>network.
     bindE (hexToBytes (vd_covenantId input) (Some 32) Invalid_binding ''covenantId'')
       (\<lambda>covenantId.
     if list_all (\<lambda>b. b = 0) covenantId
     then Inl (KaspaX402Error Invalid_binding ''covenantId must identify a bound KIP-20 lineage'')
     else bindE (parseBatchLaneAmount (vd_authorizedCumulativeAmount input)
                   ''voucher authorized cumulative amount'') (\<lambda>amount.
     bindE (le64 (BigIntV amount)) (\<lambda>amountBytes.
     Inr (concatBytes [sha256_text sha VOUCHER_DOMAIN_TAG, sha256_text sha network,
                       covenantId, amountBytes])))))"

definition voucherPreimageHex ::
  "(byte list \<Rightarrow> byte list) \<Rightarrow> voucher_digest_input \<Rightarrow> string res" where
  "voucherPreimageHex sha input = bindE (voucherPreimage sha input) (\<lambda>p. Inr (bytesToHex p))"

definition voucherDigest ::
  "(byte list \<Rightarrow> byte list) \<Rightarrow> voucher_digest_input \<Rightarrow> string res" where
  "voucherDigest sha input = bindE (voucherPreimage sha input) (\<lambda>p. Inr (bytesToHex (sha p)))"

section \<open>Peeling preimages\<close>

lemma bytesToHex_inject [simp]: "bytesToHex a = bytesToHex b \<longleftrightarrow> a = b"
  by (metis hex_decode_bytesToHex)

lemma digest_append:
  "digest32 sha \<Longrightarrow> sha x @ r = sha y @ s \<longleftrightarrow> sha x = sha y \<and> r = s"
  by (simp add: digest32_def append_eq_append_conv)

lemma digest_eq:
  "sha x = sha y \<Longrightarrow> \<not> collision_in sha texts \<Longrightarrow> x \<in> set texts \<Longrightarrow> y \<in> set texts \<Longrightarrow> x = y"
  by (auto simp: collision_in_def list_ex_iff)

lemma preimage_eq:
  "sha (utf8Bytes s) = sha (utf8Bytes t) \<Longrightarrow> \<not> collision_in sha [utf8Bytes s, utf8Bytes t] \<Longrightarrow> s = t"
  using digest_eq [of sha "utf8Bytes s" "utf8Bytes t"] by simp

lemma digest_text_eq:
  "sha256_text sha x = sha256_text sha y \<Longrightarrow> \<not> collision_in sha texts
     \<Longrightarrow> utf8Bytes x \<in> set texts \<Longrightarrow> utf8Bytes y \<in> set texts \<Longrightarrow> x = y"
  using digest_eq [of sha "utf8Bytes x" "utf8Bytes y" texts] by (simp add: sha256_text_def)

lemma digest_text_append:
  "digest32 sha \<Longrightarrow> sha256_text sha x @ r = sha256_text sha y @ s
     \<longleftrightarrow> sha256_text sha x = sha256_text sha y \<and> r = s"
  by (simp add: sha256_text_def digest_append)

lemma hex_width_append:
  assumes "length s = 2 * n" "list_all is_hex s" "length t = 2 * n" "list_all is_hex t"
  shows "hex_decode s @ u = hex_decode t @ v \<longleftrightarrow> to_lower s = to_lower t \<and> u = v"
  using assms by (intro hex_decode_append_inject) (auto simp: hex_of_width_def)

lemma le64_width_append:
  assumes "0 \<le> i" "i \<le> U64_MAX" "0 \<le> j" "j \<le> U64_MAX"
  shows "le_bytes 8 (nat i) @ u = le_bytes 8 (nat j) @ v \<longleftrightarrow> i = j \<and> u = v"
  using assms by (intro le64c.append_inject) simp_all

lemma le64_width_eq:
  assumes "0 \<le> i" "i \<le> U64_MAX" "0 \<le> j" "j \<le> U64_MAX"
  shows "le_bytes 8 (nat i) = le_bytes 8 (nat j) \<longleftrightarrow> i = j"
  using le64_width_append [OF assms, of "[]" "[]"] by simp

subsection \<open>Channel ids\<close>

definition hex32 :: "string \<Rightarrow> bool" where
  "hex32 s = (length s = 64 \<and> list_all is_hex s)"

lemma hexToBytes_32 [run_simps]:
  "hexToBytes s (Some 32) e l = Inr bs \<longleftrightarrow> hex32 s \<and> bs = hex_decode s"
  by (auto simp: hexToBytes_Inr hex32_def)

declare hexToBytes_Inr [run_simps del]

lemma hex32_append:
  "hex32 s \<Longrightarrow> hex32 t \<Longrightarrow>
     hex_decode s @ u = hex_decode t @ v \<longleftrightarrow> to_lower s = to_lower t \<and> u = v"
  using hex_width_append [of s 32] by (simp add: hex32_def)

lemma hex32_decode_eq:
  "hex32 s \<Longrightarrow> hex32 t \<Longrightarrow> hex_decode s = hex_decode t \<longleftrightarrow> to_lower s = to_lower t"
  using hex32_append [of s t "[]" "[]"] by simp

lemma hex_decode_zeros: "is_zero_hash32 s \<Longrightarrow> list_all (\<lambda>b. b = 0) (hex_decode s)"
proof -
  have z: "list_all (\<lambda>b. b = 0) (hex_decode u)" if "list_all (\<lambda>c. c = CHR ''0'') u" for u
    using that by (induction u rule: hex_decode.induct) (auto simp: hex_val_def b8_def)
  assume "is_zero_hash32 s"
  then show ?thesis by (simp add: is_zero_hash32_def z)
qed

definition channel_config_ok :: "channel_config \<Rightarrow> bool" where
  "channel_config_ok c = (cc_network c \<in> set SUPPORTED_NETWORKS \<and> cc_asset c = ASSET_ID
     \<and> cc_templateId c = ESCROW_TEMPLATE_ID
     \<and> (\<exists>v. 0 \<le> v \<and> v < KASPA_LOCK_TIME_THRESHOLD \<and> cc_refundTimeoutDaa c = int_to_string v)
     \<and> hex32 (cc_clientPublicKey c) \<and> hex32 (cc_serverPublicKey c) \<and> hex32 (cc_salt c))"

definition same_channel :: "channel_config \<Rightarrow> channel_config \<Rightarrow> bool" where
  \<comment> \<open>the same configuration up to the case of its hex fields\<close>
  "same_channel a b = (cc_network a = cc_network b \<and> cc_asset a = cc_asset b
     \<and> cc_templateId a = cc_templateId b
     \<and> to_lower (cc_clientPublicKey a) = to_lower (cc_clientPublicKey b)
     \<and> to_lower (cc_serverPublicKey a) = to_lower (cc_serverPublicKey b)
     \<and> cc_payTo a = cc_payTo b \<and> cc_refundAddress a = cc_refundAddress b
     \<and> cc_refundTimeoutDaa a = cc_refundTimeoutDaa b
     \<and> to_lower (cc_salt a) = to_lower (cc_salt b))"

definition channel_bytes :: "(byte list \<Rightarrow> byte list) \<Rightarrow> channel_config \<Rightarrow> byte list" where
  "channel_bytes sha c =
     sha256_text sha CHANNEL_DOMAIN_TAG @ sha256_text sha (cc_network c) @ sha256_text sha (cc_asset c)
     @ sha256_text sha (cc_templateId c) @ hex_decode (cc_clientPublicKey c)
     @ hex_decode (cc_serverPublicKey c) @ sha256_text sha (cc_payTo c)
     @ sha256_text sha (cc_refundAddress c) @ le_bytes 8 (dec_val (cc_refundTimeoutDaa c))
     @ hex_decode (cc_salt c)"

definition channel_hashed :: "(byte list \<Rightarrow> byte list) \<Rightarrow> channel_config \<Rightarrow> byte list list" where
  \<comment> \<open>the byte strings that are hashed for the id of a channel\<close>
  "channel_hashed sha c = map utf8Bytes [CHANNEL_DOMAIN_TAG, cc_network c, cc_asset c, cc_templateId c, cc_payTo c,
     cc_refundAddress c] @ [channel_bytes sha c]"

lemma lock_threshold_u64: "v < KASPA_LOCK_TIME_THRESHOLD \<Longrightarrow> v \<le> U64_MAX"
  by (simp add: KASPA_LOCK_TIME_THRESHOLD_def U64_MAX_def)

lemma timeout_checks:
  "js_BigInt s = Inr t \<and> t < KASPA_LOCK_TIME_THRESHOLD \<and> le64 (StringV s) = Inr bs \<longleftrightarrow>
     0 \<le> t \<and> t < KASPA_LOCK_TIME_THRESHOLD \<and> s = int_to_string t \<and> bs = le_bytes 8 (dec_val s)"
  using lock_threshold_u64 [of t] by (auto simp: run_simps js_BigInt_nonneg)

lemma channelIdPreimage_Inr [run_simps]:
  "channelIdPreimage sha c = Inr p \<longleftrightarrow> channel_config_ok c \<and> p = channel_bytes sha c"
proof -
  have "channelIdPreimage sha c = Inr p \<longleftrightarrow>
     cc_network c \<in> set SUPPORTED_NETWORKS \<and> cc_asset c = ASSET_ID
     \<and> cc_templateId c = ESCROW_TEMPLATE_ID \<and> hex32 (cc_clientPublicKey c)
     \<and> hex32 (cc_serverPublicKey c) \<and> hex32 (cc_salt c)
     \<and> (\<exists>t bs. (js_BigInt (cc_refundTimeoutDaa c) = Inr t \<and> t < KASPA_LOCK_TIME_THRESHOLD
              \<and> le64 (StringV (cc_refundTimeoutDaa c)) = Inr bs)
         \<and> p = sha256_text sha CHANNEL_DOMAIN_TAG @ sha256_text sha (cc_network c)
             @ sha256_text sha (cc_asset c) @ sha256_text sha (cc_templateId c)
             @ hex_decode (cc_clientPublicKey c) @ hex_decode (cc_serverPublicKey c)
             @ sha256_text sha (cc_payTo c) @ sha256_text sha (cc_refundAddress c)
             @ bs @ hex_decode (cc_salt c))"
    by (auto simp: channelIdPreimage_def bindE_Inr if_throw_Inr hexToBytes_32
        parseKaspaNetwork_Inr SUPPORTED_NETWORKS_def)
  then show ?thesis
    unfolding timeout_checks by (auto simp: channel_config_ok_def channel_bytes_def)
qed

lemma channel_bytes_inject:
  assumes "digest32 sha" "channel_config_ok a" "channel_config_ok b"
    and "channel_bytes sha a = channel_bytes sha b" "\<not> collision_in sha (channel_hashed sha a @ channel_hashed sha b)"
  shows "same_channel a b"
proof -
  from assms(2,3) have h: "hex32 (cc_clientPublicKey a)" "hex32 (cc_serverPublicKey a)"
    "hex32 (cc_salt a)" "hex32 (cc_clientPublicKey b)" "hex32 (cc_serverPublicKey b)"
    "hex32 (cc_salt b)" by (simp_all add: channel_config_ok_def)
  from assms(2,3) obtain v w where vw: "0 \<le> v" "v \<le> U64_MAX" "0 \<le> w" "w \<le> U64_MAX"
    "cc_refundTimeoutDaa a = int_to_string v" "cc_refundTimeoutDaa b = int_to_string w"
    by (auto simp: channel_config_ok_def intro: lock_threshold_u64)
  have "sha256_text sha (cc_network a) = sha256_text sha (cc_network b)
      \<and> to_lower (cc_clientPublicKey a) = to_lower (cc_clientPublicKey b)
      \<and> to_lower (cc_serverPublicKey a) = to_lower (cc_serverPublicKey b)
      \<and> sha256_text sha (cc_payTo a) = sha256_text sha (cc_payTo b)
      \<and> sha256_text sha (cc_refundAddress a) = sha256_text sha (cc_refundAddress b)
      \<and> v = w \<and> to_lower (cc_salt a) = to_lower (cc_salt b)"
    using assms(1,4) h vw
    by (simp add: channel_bytes_def digest_text_append hex32_append le64_width_eq
        le64_width_append hex32_decode_eq)
  moreover have same: "x = y" if "sha256_text sha x = sha256_text sha y"
    "utf8Bytes x \<in> set (channel_hashed sha a)" "utf8Bytes y \<in> set (channel_hashed sha b)" for x y
    using that by (intro digest_text_eq [OF that(1) assms(5)]) simp_all
  ultimately have "cc_network a = cc_network b" "cc_payTo a = cc_payTo b" "cc_refundAddress a = cc_refundAddress b"
    "to_lower (cc_clientPublicKey a) = to_lower (cc_clientPublicKey b)"
    "to_lower (cc_serverPublicKey a) = to_lower (cc_serverPublicKey b)" "v = w"
    "to_lower (cc_salt a) = to_lower (cc_salt b)"
    by (auto intro!: same simp: channel_hashed_def)
  then show ?thesis
    using assms(2,3) vw unfolding same_channel_def channel_config_ok_def by simp
qed

text \<open>A channel id binds the whole channel configuration: two configurations that are
  given the same id agree in every field (hex fields up to case), or two different ones of the byte
  strings that were hashed for these two ids have the same SHA-256 digest.\<close>

theorem channel_id_binds:
  assumes "digest32 sha" "channelId sha a = Inr i" "channelId sha b = Inr i"
  shows "same_channel a b \<or> collision_in sha (channel_hashed sha a @ channel_hashed sha b)"
proof -
  from assms(2,3) have ok: "channel_config_ok a" "channel_config_ok b"
    and eq: "sha (channel_bytes sha a) = sha (channel_bytes sha b)"
    by (auto simp: channelId_def bindE_Inr channelIdPreimage_Inr)
  have "channel_bytes sha a = channel_bytes sha b" if "\<not> collision_in sha (channel_hashed sha a @ channel_hashed sha b)"
    by (rule digest_eq [where sha = sha, OF eq that]) (simp_all add: channel_hashed_def)
  then show ?thesis
    using channel_bytes_inject [OF assms(1) ok] by blast
qed

definition fold_sha :: "byte list \<Rightarrow> byte list" where
  \<comment> \<open>a 32-byte function, for evaluating the definitions on concrete inputs\<close>
  "fold_sha bs = take 32 (bs @ replicate 32 0)"

lemma fold_sha_digest32: "digest32 fold_sha"
  by (auto simp: digest32_def fold_sha_def)

definition channel_example :: channel_config where
  "channel_example = \<lparr>cc_network = ''kaspa:testnet-10'', cc_asset = ''KAS'',
     cc_templateId = ''kaspa-x402-escrow-v5'', cc_clientPublicKey = replicate 64 (CHR ''a''),
     cc_serverPublicKey = replicate 64 (CHR ''b''), cc_payTo = ''kaspatest:pay'',
     cc_refundAddress = ''kaspatest:refund'', cc_refundTimeoutDaa = ''4200'',
     cc_salt = replicate 64 (CHR ''1'')\<rparr>"

lemma hex32_replicate: "is_hex c \<Longrightarrow> hex32 (replicate 64 c)"
  by (simp add: hex32_def list_all_length)

lemma channel_example_ok: "channel_config_ok channel_example"
proof -
  have "int_to_string 4200 = ''4200''" by (simp add: int_to_string_def nat_to_string.simps)
  then have "\<exists>v. 0 \<le> v \<and> v < KASPA_LOCK_TIME_THRESHOLD \<and> ''4200'' = int_to_string v"
    by (intro exI [of _ 4200]) (simp add: KASPA_LOCK_TIME_THRESHOLD_def)
  moreover have "is_hex (CHR ''a'')" "is_hex (CHR ''b'')" "is_hex (CHR ''1'')"
    by (simp_all add: is_hex_def code_def)
  ultimately show ?thesis
    by (simp add: channel_config_ok_def channel_example_def SUPPORTED_NETWORKS_def ASSET_ID_def
        ESCROW_TEMPLATE_ID_def hex32_replicate)
qed

theorem channel_id_binds_witness:
  "\<exists>i. channelId fold_sha channel_example = Inr i \<and>
       (same_channel channel_example channel_example
        \<or> collision_in fold_sha (channel_hashed fold_sha channel_example @ channel_hashed fold_sha channel_example))"
proof -
  have "channelId fold_sha channel_example = Inr (bytesToHex (fold_sha (channel_bytes fold_sha channel_example)))"
    by (simp add: channelId_def bindE_Inr channelIdPreimage_Inr channel_example_ok)
  then show ?thesis using channel_id_binds [OF fold_sha_digest32] by blast
qed

subsection \<open>Voucher digests\<close>

definition voucher_input_ok :: "voucher_digest_input \<Rightarrow> bool" where
  "voucher_input_ok v = (vd_network v \<in> set SUPPORTED_NETWORKS \<and> hex32 (vd_covenantId v)
     \<and> \<not> list_all (\<lambda>b. b = 0) (hex_decode (vd_covenantId v))
     \<and> (\<exists>a. 0 \<le> a \<and> a \<le> BATCH_SCRIPT_INT_MAX \<and> vd_authorizedCumulativeAmount v = int_to_string a))"

definition voucher_bytes :: "(byte list \<Rightarrow> byte list) \<Rightarrow> voucher_digest_input \<Rightarrow> byte list" where
  "voucher_bytes sha v = sha256_text sha VOUCHER_DOMAIN_TAG @ sha256_text sha (vd_network v)
     @ hex_decode (vd_covenantId v) @ le_bytes 8 (dec_val (vd_authorizedCumulativeAmount v))"

definition voucher_hashed :: "(byte list \<Rightarrow> byte list) \<Rightarrow> voucher_digest_input \<Rightarrow> byte list list" where
  "voucher_hashed sha v = [utf8Bytes VOUCHER_DOMAIN_TAG, utf8Bytes (vd_network v), voucher_bytes sha v]"

lemma voucherPreimage_Inr [run_simps]:
  "voucherPreimage sha v = Inr p \<longleftrightarrow> voucher_input_ok v \<and> p = voucher_bytes sha v"
  by (auto simp: voucherPreimage_def run_simps voucher_input_ok_def voucher_bytes_def
      SUPPORTED_NETWORKS_def intro: script_max_le_u64)

text \<open>A voucher digest binds network, covenant lineage and amount: two vouchers with the
  same digest authorise the same cumulative amount of the same lineage on the same network, or
  two byte strings hashed for them collide. The lineage is never the zero hash and the amount is a
  script integer.\<close>

theorem voucher_digest_binds:
  assumes "digest32 sha" "voucherDigest sha a = Inr d" "voucherDigest sha b = Inr d"
  shows "(vd_network a = vd_network b \<and> to_lower (vd_covenantId a) = to_lower (vd_covenantId b)
      \<and> vd_authorizedCumulativeAmount a = vd_authorizedCumulativeAmount b
      \<and> \<not> is_zero_hash32 (vd_covenantId a)
      \<and> int (dec_val (vd_authorizedCumulativeAmount a)) \<le> BATCH_SCRIPT_INT_MAX)
    \<or> collision_in sha (voucher_hashed sha a @ voucher_hashed sha b)"
proof (cases "collision_in sha (voucher_hashed sha a @ voucher_hashed sha b)")
  case False
  from assms have ok: "voucher_input_ok a" "voucher_input_ok b"
    and eq: "sha (voucher_bytes sha a) = sha (voucher_bytes sha b)"
    by (auto simp: voucherDigest_def bindE_Inr voucherPreimage_Inr)
  have "voucher_bytes sha a = voucher_bytes sha b"
    by (rule digest_eq [OF eq False]) (simp_all add: voucher_hashed_def)
  moreover from ok obtain v w where vw: "0 \<le> v" "v \<le> BATCH_SCRIPT_INT_MAX" "0 \<le> w" "w \<le> BATCH_SCRIPT_INT_MAX"
    "vd_authorizedCumulativeAmount a = int_to_string v" "vd_authorizedCumulativeAmount b = int_to_string w"
    by (auto simp: voucher_input_ok_def)
  ultimately have "sha256_text sha (vd_network a) = sha256_text sha (vd_network b)
      \<and> to_lower (vd_covenantId a) = to_lower (vd_covenantId b) \<and> v = w"
    using assms(1) ok
    by (simp add: le64_width_eq voucher_bytes_def digest_text_append hex32_append hex32_decode_eq
        voucher_input_ok_def script_max_le_u64)
  moreover have "\<not> is_zero_hash32 (vd_covenantId a)"
    using ok(1) hex_decode_zeros by (auto simp: voucher_input_ok_def)
  ultimately show ?thesis
    using digest_text_eq [OF _ False, of "vd_network a" "vd_network b"] vw by (auto simp: voucher_hashed_def)
qed simp

definition voucher_example :: voucher_digest_input where
  "voucher_example = \<lparr>vd_network = ''kaspa:testnet-10'', vd_covenantId = replicate 64 (CHR ''c''),
     vd_authorizedCumulativeAmount = ''65''\<rparr>"

theorem voucher_digest_binds_witness:
  "\<exists>d. voucherDigest fold_sha voucher_example = Inr d \<and>
     (\<not> is_zero_hash32 (vd_covenantId voucher_example)
      \<or> collision_in fold_sha (voucher_hashed fold_sha voucher_example @ voucher_hashed fold_sha voucher_example))"
proof -
  have "int_to_string 65 = ''65''" by (simp add: int_to_string_def nat_to_string.simps)
  then have "\<exists>a. 0 \<le> a \<and> a \<le> BATCH_SCRIPT_INT_MAX \<and> ''65'' = int_to_string a"
    by (intro exI [of _ 65]) (simp add: BATCH_SCRIPT_INT_MAX_def)
  moreover have "hex32 (replicate 64 (CHR ''c''))"
    by (rule hex32_replicate) (simp add: is_hex_def code_def)
  moreover have "\<not> list_all (\<lambda>b. b = 0) (hex_decode (replicate 64 (CHR ''c'')))"
    by code_simp
  ultimately have "voucher_input_ok voucher_example"
    by (simp add: voucher_input_ok_def voucher_example_def SUPPORTED_NETWORKS_def)
  then have h: "voucherDigest fold_sha voucher_example
      = Inr (bytesToHex (fold_sha (voucher_bytes fold_sha voucher_example)))"
    by (simp add: voucherDigest_def bindE_Inr voucherPreimage_Inr)
  show ?thesis using h voucher_digest_binds [OF fold_sha_digest32 h h] by blast
qed

end
