(* ===== verification/Batch_Commitment.thy ===== *)
theory Batch_Commitment
  imports Batch_Ids
begin

text \<open>
  The commitment of one batch charge: \<^verbatim>\<open>core/src/batch-commitment.ts\<close>. The accepted payment
  requirements are a JSON value whose canonical text is hashed; the commitment id hashes that
  digest together with the channel, the lineage, the presentation, the active output and the
  accounting before and after the charge. Proved: what admitted requirements guarantee, what an
  id fixes, and the arithmetic every id certifies.
\<close>

section \<open>Untyped access\<close>

fun get_prop :: "string \<Rightarrow> js_value \<Rightarrow> js_value res" where
  \<comment> \<open>\<open>value.key\<close> for the property names of this module\<close>
  "get_prop k (JObj kvs) = Inr (case map_of kvs k of None \<Rightarrow> JUndefined | Some v \<Rightarrow> v)"
| "get_prop k JUndefined = Inl (JsTypeError (''Cannot read properties of undefined (reading '' @ k @ '')''))"
| "get_prop k JNull = Inl (JsTypeError (''Cannot read properties of null (reading '' @ k @ '')''))"
| "get_prop k _ = Inr JUndefined"

definition extra_prop :: "string \<Rightarrow> js_value \<Rightarrow> js_value res" where
  "extra_prop k v = bindE (get_prop ''extra'' v) (get_prop k)"

fun parseBatchLaneValue :: "js_value \<Rightarrow> string \<Rightarrow> int res" where
  \<comment> \<open>\<open>parseBatchLaneAmount\<close> on a value that need not be a string\<close>
  "parseBatchLaneValue (JStr s) label = parseBatchLaneAmount s label"
| "parseBatchLaneValue _ label =
     Inl (KaspaX402Error Invalid_amount ''amount must be a canonical uint64 decimal sompi string'')"

fun le64_value :: "js_value \<Rightarrow> byte list res" where
  "le64_value (JNum n) = le64 (NumberV n)"
| "le64_value (JStr s) = le64 (StringV s)"
| "le64_value _ =
     Inl (KaspaX402Error Invalid_amount ''amount must be a canonical uint64 decimal sompi string'')"

fun hexToBytes_value :: "js_value \<Rightarrow> nat option \<Rightarrow> kaspa_code \<Rightarrow> string \<Rightarrow> byte list res" where
  "hexToBytes_value (JStr s) n e label = hexToBytes s n e label"
| "hexToBytes_value _ n e label =
     Inl (KaspaX402Error e (label @ '' must be an even-length hex byte string''))"

definition differs :: "js_value res \<Rightarrow> string \<Rightarrow> bool res" where
  \<comment> \<open>\<open>value !== "text"\<close>\<close>
  "differs r s = bindE r (\<lambda>v. Inr (v \<noteq> JStr s))"

section \<open>batch-commitment.ts\<close>

definition BATCH_PAYMENT_REQUIREMENTS_DOMAIN_TAG :: string where
  "BATCH_PAYMENT_REQUIREMENTS_DOMAIN_TAG = ''kaspa:x402:batch-payment-requirements:v3''"

definition BATCH_COMMITMENT_DOMAIN_TAG :: string where
  "BATCH_COMMITMENT_DOMAIN_TAG = ''kaspa:x402:batch-commitment:v3''"

record voucher =
  v_covenantId :: string
  v_authorizedCumulativeAmount :: string
  v_signature :: string

record batch_commitment_input =
  ci_accepted :: js_value
  ci_channelId :: string
  ci_presentationDigest :: string
  ci_requestFingerprint :: string
  ci_activeOutpoint :: funding_outpoint
  ci_voucher :: voucher
  ci_fixedCharge :: string
  ci_authorizedCumulativeBefore :: string
  ci_authorizedCumulativeAfter :: string
  ci_claimedCumulativeAmount :: string

definition scoped_requirements :: "js_value \<Rightarrow> js_value" where
  "scoped_requirements accepted =
     JObj [(''scope'', JStr BATCH_PAYMENT_REQUIREMENTS_DOMAIN_TAG), (''accepted'', accepted)]"

definition requirement_amounts :: "js_value \<Rightarrow> unit res" where
  \<comment> \<open>the arithmetic checks on the parsed snapshot\<close>
  "requirement_amounts snapshot =
     bindE (bindE (get_prop ''amount'' snapshot) (\<lambda>v. parseBatchLaneValue v ''payment requirement amount''))
       (\<lambda>amount.
     if amount = 0
     then Inl (KaspaX402Error Invalid_amount ''batch fixed charge must be positive'')
     else bindE (bindE (extra_prop ''minDepositSompi'' snapshot) (\<lambda>v. parseBatchLaneValue v ''minimum deposit''))
       (\<lambda>minimumDeposit.
     bindE (bindE (extra_prop ''claimReserveSompi'' snapshot) (\<lambda>v. parseBatchLaneValue v ''claim reserve''))
       (\<lambda>claimReserve.
     bindE (bindE (extra_prop ''refundTimeoutDaa'' snapshot) (\<lambda>v. parseBatchLaneValue v ''refund timeout DAA''))
       (\<lambda>refundTimeoutDaa.
     if KASPA_LOCK_TIME_THRESHOLD \<le> refundTimeoutDaa
     then Inl (KaspaX402Error Invalid_amount
                 ''refund timeout DAA must remain below the consensus timestamp boundary'')
     else bindE (bindE (get_prop ''maxTimeoutSeconds'' snapshot) le64_value) (\<lambda>_.
     let requiredMinimumDeposit = amount + claimReserve in
     if BATCH_SCRIPT_INT_MAX < requiredMinimumDeposit
     then Inl (KaspaX402Error Invalid_amount
                 (''payment requirement amount plus claim reserve exceeds the batch covenant ''
                  @ ''signed-int64 range''))
     else if minimumDeposit < requiredMinimumDeposit
     then Inl (KaspaX402Error Invalid_amount
                 ''minimum deposit must cover the payment requirement amount plus claim reserve'')
     else bindE (bindE (extra_prop ''securityContextHash'' snapshot)
                  (\<lambda>v. hexToBytes_value v (Some 32) Invalid_hex ''securityContextHash'')) (\<lambda>_.
     bindE (bindE (extra_prop ''mcpErrorChargeSompi'' snapshot) (\<lambda>v.
              if v = JUndefined then Inr False
              else bindE (parseBatchLaneValue v ''MCP error charge'') (\<lambda>c. Inr (c \<noteq> amount)))) (\<lambda>bad.
     if bad
     then Inl (KaspaX402Error Invalid_amount ''MCP error charge must equal the batch fixed charge'')
     else bindE (bindE (extra_prop ''serverPublicKey'' snapshot)
                  (\<lambda>v. hexToBytes_value v (Some 32) Invalid_public_key ''serverPublicKey''))
       (\<lambda>_. Inr ()))))))))"

definition batchPaymentRequirementsPreimage :: "js_value \<Rightarrow> byte list res" where
  \<comment> \<open>\<open>JSON.parse\<close> of a canonical text gives the value with its keys in order\<close>
  "batchPaymentRequirementsPreimage accepted =
     bindE (stableStringify (scoped_requirements accepted)) (\<lambda>preimage.
     let snapshot = canon accepted in
     bindE (get_prop ''network'' snapshot) (\<lambda>network.
     if network \<noteq> JStr ''kaspa:testnet-10'' \<and> network \<noteq> JStr ''kaspa:mainnet''
     then Inl (KaspaX402Error Invalid_network ''batch settlement v3 requires a supported Kaspa network'')
     else bindE (orE (differs (get_prop ''scheme'' snapshot) ''batch-settlement'')
                (orE (differs (get_prop ''asset'' snapshot) ASSET_ID)
                (orE (differs (extra_prop ''binding'' snapshot) ESCROW_BINDING_ID)
                     (differs (extra_prop ''templateId'' snapshot) ESCROW_TEMPLATE_ID))))
       (\<lambda>unsupported.
     if unsupported
     then Inl (KaspaX402Error Invalid_binding ''unsupported batch payment requirements'')
     else bindE (requirement_amounts snapshot) (\<lambda>_. Inr (utf8Bytes preimage)))))"

definition batchPaymentRequirementsPreimageHex :: "js_value \<Rightarrow> string res" where
  "batchPaymentRequirementsPreimageHex accepted =
     bindE (batchPaymentRequirementsPreimage accepted) (\<lambda>p. Inr (bytesToHex p))"

definition batchPaymentRequirementsHash :: "(byte list \<Rightarrow> byte list) \<Rightarrow> js_value \<Rightarrow> string res" where
  "batchPaymentRequirementsHash sha accepted =
     bindE (batchPaymentRequirementsPreimage accepted) (\<lambda>p. Inr (bytesToHex (sha p)))"

definition lane_le64 :: "string \<Rightarrow> string \<Rightarrow> byte list res" where
  "lane_le64 value label = bindE (parseBatchLaneAmount value label) (\<lambda>n. le64 (BigIntV n))"

definition batchCommitmentPreimage ::
  "(byte list \<Rightarrow> byte list) \<Rightarrow> batch_commitment_input \<Rightarrow> byte list res" where
  "batchCommitmentPreimage sha input =
     bindE (hexToBytes (ci_channelId input) (Some 32) Invalid_hex ''channelId'') (\<lambda>channel.
     bindE (hexToBytes (v_covenantId (ci_voucher input)) (Some 32) Invalid_binding ''voucher.covenantId'')
       (\<lambda>covenant.
     bindE (hexToBytes (ci_presentationDigest input) (Some 32) Invalid_hex ''presentationDigest'')
       (\<lambda>presentation.
     bindE (hexToBytes (ci_requestFingerprint input) (Some 32) Invalid_hex ''requestFingerprint'')
       (\<lambda>fingerprint.
     bindE (bindE (batchPaymentRequirementsHash sha (ci_accepted input))
              (\<lambda>h. hexToBytes h (Some 32) Invalid_hex ''paymentRequirementsHash'')) (\<lambda>requirements.
     bindE (hexToBytes (op_txid (ci_activeOutpoint input)) (Some 32) Invalid_outpoint ''activeOutpoint.txid'')
       (\<lambda>txid.
     bindE (le32 (op_index (ci_activeOutpoint input))) (\<lambda>index.
     bindE (lane_le64 (ci_authorizedCumulativeBefore input) ''authorized cumulative before'') (\<lambda>before.
     bindE (lane_le64 (ci_authorizedCumulativeAfter input) ''authorized cumulative after'') (\<lambda>after.
     bindE (hexToBytes (v_signature (ci_voucher input)) (Some 64) Invalid_hex ''voucher.signature'')
       (\<lambda>signature.
     bindE (lane_le64 (ci_fixedCharge input) ''fixed charge'') (\<lambda>charge.
     bindE (lane_le64 (ci_claimedCumulativeAmount input) ''claimed cumulative amount'') (\<lambda>claimed.
     Inr (concatBytes
       [sha256_text sha BATCH_COMMITMENT_DOMAIN_TAG, channel, covenant, presentation, fingerprint,
        requirements, txid, index, before, after, sha signature, charge, claimed])))))))))))))"

definition batchCommitmentPreimageHex ::
  "(byte list \<Rightarrow> byte list) \<Rightarrow> batch_commitment_input \<Rightarrow> string res" where
  "batchCommitmentPreimageHex sha input =
     bindE (batchCommitmentPreimage sha input) (\<lambda>p. Inr (bytesToHex p))"

definition batchCommitmentId ::
  "(byte list \<Rightarrow> byte list) \<Rightarrow> batch_commitment_input \<Rightarrow> string res" where
  "batchCommitmentId sha input =
     bindE (parseBatchLaneAmount (ci_authorizedCumulativeBefore input) ''authorized cumulative before'')
       (\<lambda>before.
     bindE (parseBatchLaneAmount (ci_fixedCharge input) ''fixed charge'') (\<lambda>fixedCharge.
     bindE (parseBatchLaneAmount (ci_authorizedCumulativeAfter input) ''authorized cumulative after'')
       (\<lambda>after.
     bindE (parseBatchLaneAmount (ci_claimedCumulativeAmount input) ''claimed cumulative amount'')
       (\<lambda>claimed.
     bindE (parseBatchLaneAmount (v_authorizedCumulativeAmount (ci_voucher input))
              ''voucher authorized cumulative amount'') (\<lambda>voucherAuthorized.
     if before < claimed
     then Inl (KaspaX402Error Invalid_amount
                 ''claimed cumulative amount cannot exceed the prior authorization'')
     else if fixedCharge = 0 \<or> before + fixedCharge \<noteq> after
     then Inl (KaspaX402Error Invalid_amount
                 (''authorized cumulative amount must equal the prior amount plus the ''
                  @ ''positive fixed charge''))
     else if after \<noteq> voucherAuthorized
     then Inl (KaspaX402Error Invalid_amount
                 ''voucher must sign the exact authorized cumulative amount after this charge'')
     else bindE (batchCommitmentPreimage sha input) (\<lambda>p. Inr (bytesToHex (sha p))))))))"

section \<open>Admitted requirements\<close>

definition extra_text :: "js_value \<Rightarrow> string \<Rightarrow> string option" where
  "extra_text v k = (case extra_prop k v of Inr (JStr s) \<Rightarrow> Some s | _ \<Rightarrow> None)"

definition prop_text :: "js_value \<Rightarrow> string \<Rightarrow> string option" where
  "prop_text v k = (case get_prop k v of Inr (JStr s) \<Rightarrow> Some s | _ \<Rightarrow> None)"

lemma parseBatchLaneValue_Inr [run_simps]:
  "parseBatchLaneValue v l = Inr n \<longleftrightarrow>
     v = JStr (int_to_string n) \<and> 0 \<le> n \<and> n \<le> BATCH_SCRIPT_INT_MAX"
  by (cases v) (auto simp: run_simps)

lemma hexToBytes_value_Inr [run_simps]:
  "hexToBytes_value v (Some 32) e l = Inr bs \<longleftrightarrow> (\<exists>s. v = JStr s \<and> hex32 s \<and> bs = hex_decode s)"
  by (cases v) (auto simp: run_simps)

lemma differs_False [run_simps]: "differs r s = Inr False \<longleftrightarrow> r = Inr (JStr s)"
  by (cases r) (auto simp: differs_def)

lemma requirement_amounts_Inr:
  assumes "requirement_amounts v = Inr u"
  shows "\<exists>amount deposit reserve timeout. prop_text v ''amount'' = Some (int_to_string amount)
     \<and> extra_text v ''minDepositSompi'' = Some (int_to_string deposit)
     \<and> extra_text v ''claimReserveSompi'' = Some (int_to_string reserve)
     \<and> extra_text v ''refundTimeoutDaa'' = Some (int_to_string timeout)
     \<and> 0 < amount \<and> 0 \<le> reserve \<and> 0 \<le> timeout \<and> timeout < KASPA_LOCK_TIME_THRESHOLD
     \<and> amount + reserve \<le> deposit \<and> deposit \<le> BATCH_SCRIPT_INT_MAX
     \<and> extra_prop ''mcpErrorChargeSompi'' v \<in> {Inr JUndefined, Inr (JStr (int_to_string amount))}"
proof -
  from assms obtain a d r t m where
    "get_prop ''amount'' v = Inr (JStr (int_to_string a))" "0 \<le> a" "a \<noteq> 0"
    "extra_prop ''minDepositSompi'' v = Inr (JStr (int_to_string d))" "d \<le> BATCH_SCRIPT_INT_MAX"
    "extra_prop ''claimReserveSompi'' v = Inr (JStr (int_to_string r))" "0 \<le> r"
    "extra_prop ''refundTimeoutDaa'' v = Inr (JStr (int_to_string t))" "0 \<le> t"
    "t < KASPA_LOCK_TIME_THRESHOLD" "a + r \<le> d"
    "extra_prop ''mcpErrorChargeSompi'' v = Inr m" "m = JUndefined \<or> m = JStr (int_to_string a)"
    unfolding requirement_amounts_def
    by (auto simp: run_simps Let_def split: if_splits)
  then show ?thesis
    by (intro exI [of _ a] exI [of _ d] exI [of _ r] exI [of _ t])
      (auto simp: prop_text_def extra_text_def)
qed

lemma batchPaymentRequirementsPreimage_Inr:
  assumes "batchPaymentRequirementsPreimage v = Inr p"
  shows "p = utf8Bytes (stableJson (scoped_requirements v))"
    and "requirement_amounts (canon v) = Inr ()"
    and "prop_text (canon v) ''network'' \<in> Some ` set SUPPORTED_NETWORKS"
    and "prop_text (canon v) ''asset'' = Some ASSET_ID"
    and "extra_text (canon v) ''templateId'' = Some ESCROW_TEMPLATE_ID"
proof -
  from assms have f: "\<exists>t. stableStringify (scoped_requirements v) = Inr t \<and> p = utf8Bytes t"
    "requirement_amounts (canon v) = Inr ()"
    "get_prop ''network'' (canon v) \<in> {Inr (JStr ''kaspa:testnet-10''), Inr (JStr ''kaspa:mainnet'')}"
    "get_prop ''asset'' (canon v) = Inr (JStr ASSET_ID)"
    "extra_prop ''templateId'' (canon v) = Inr (JStr ESCROW_TEMPLATE_ID)"
    by (auto simp: batchPaymentRequirementsPreimage_def run_simps Let_def split: if_splits)
  then show "p = utf8Bytes (stableJson (scoped_requirements v))"
    "requirement_amounts (canon v) = Inr ()" using stableStringify_Inr by auto
  show "prop_text (canon v) ''network'' \<in> Some ` set SUPPORTED_NETWORKS"
    "prop_text (canon v) ''asset'' = Some ASSET_ID"
    "extra_text (canon v) ''templateId'' = Some ESCROW_TEMPLATE_ID"
    using f(3-5) by (auto simp: prop_text_def extra_text_def SUPPORTED_NETWORKS_def)
qed

lemma requirements_preimage_inject:
  assumes "wf_js a" "wf_js b"
    and "batchPaymentRequirementsPreimage a = Inr p" "batchPaymentRequirementsPreimage b = Inr p"
  shows "canon a = canon b"
proof -
  have "stableJson (scoped_requirements a) = stableJson (scoped_requirements b)"
    using batchPaymentRequirementsPreimage_Inr(1) [OF assms(3)]
      batchPaymentRequirementsPreimage_Inr(1) [OF assms(4)] by simp
  moreover have "wf_js (scoped_requirements a)" "wf_js (scoped_requirements b)"
    using assms(1,2) by (simp_all add: scoped_requirements_def)
  ultimately have "canon (scoped_requirements a) = canon (scoped_requirements b)"
    by (simp add: canonical_text_iff)
  then show ?thesis
    using canon_object_lookup [of "[(''scope'', JStr BATCH_PAYMENT_REQUIREMENTS_DOMAIN_TAG), (''accepted'', a)]"
        "[(''scope'', JStr BATCH_PAYMENT_REQUIREMENTS_DOMAIN_TAG), (''accepted'', b)]" "''accepted''"]
    by (simp add: scoped_requirements_def)
qed

section \<open>Commitments\<close>

lemma lane_le64_Inr [run_simps]:
  "lane_le64 s l = Inr bs \<longleftrightarrow>
     (\<exists>n. 0 \<le> n \<and> n \<le> BATCH_SCRIPT_INT_MAX \<and> s = int_to_string n \<and> bs = le_bytes 8 (nat n))"
  by (auto simp: lane_le64_def run_simps intro: script_max_le_u64)

definition lane_text :: "string \<Rightarrow> bool" where
  "lane_text s = (\<exists>n. 0 \<le> n \<and> n \<le> BATCH_SCRIPT_INT_MAX \<and> s = int_to_string n)"

lemma lane_le64_text: "lane_le64 s l = Inr bs \<longleftrightarrow> lane_text s \<and> bs = le_bytes 8 (dec_val s)"
  by (auto simp: lane_le64_Inr lane_text_def)

lemma lane_text_append:
  assumes "lane_text s" "lane_text t"
  shows "le_bytes 8 (dec_val s) @ u = le_bytes 8 (dec_val t) @ v \<longleftrightarrow> s = t \<and> u = v"
proof -
  from assms obtain m n where "0 \<le> m" "m \<le> BATCH_SCRIPT_INT_MAX" "s = int_to_string m"
    "0 \<le> n" "n \<le> BATCH_SCRIPT_INT_MAX" "t = int_to_string n" by (auto simp: lane_text_def)
  then show ?thesis using le64_width_append [of m n u v] by (simp add: script_max_le_u64)
qed

definition uint32 :: "js_number \<Rightarrow> bool" where
  "uint32 n = in_range n 0 U32_MAX"

fun num_nat :: "js_number \<Rightarrow> nat" where
  "num_nat (JsInt i) = nat i"
| "num_nat (JsNonInt s) = 0"

lemma le32_uint32: "le32 n = Inr bs \<longleftrightarrow> uint32 n \<and> bs = le_bytes 4 (num_nat n)"
  by (cases n) (auto simp: le32_Inr uint32_def in_range_def)

lemma uint32_append:
  assumes "uint32 m" "uint32 n"
  shows "le_bytes 4 (num_nat m) @ u = le_bytes 4 (num_nat n) @ v \<longleftrightarrow> m = n \<and> u = v"
proof -
  from assms obtain i j where "0 \<le> i" "i \<le> U32_MAX" "m = JsInt i" "0 \<le> j" "j \<le> U32_MAX" "n = JsInt j"
    by (auto simp: uint32_def in_range_iff)
  then show ?thesis using le32c.append_inject [of i j u v] by simp
qed

definition commitment_ok :: "(byte list \<Rightarrow> byte list) \<Rightarrow> batch_commitment_input \<Rightarrow> byte list \<Rightarrow> bool" where
  "commitment_ok sha i req = (hex32 (ci_channelId i) \<and> hex32 (v_covenantId (ci_voucher i))
     \<and> hex32 (ci_presentationDigest i) \<and> hex32 (ci_requestFingerprint i)
     \<and> hex32 (op_txid (ci_activeOutpoint i)) \<and> uint32 (op_index (ci_activeOutpoint i))
     \<and> hex_of_width 64 (v_signature (ci_voucher i))
     \<and> lane_text (ci_authorizedCumulativeBefore i) \<and> lane_text (ci_authorizedCumulativeAfter i)
     \<and> lane_text (ci_fixedCharge i) \<and> lane_text (ci_claimedCumulativeAmount i)
     \<and> batchPaymentRequirementsPreimage (ci_accepted i) = Inr req)"

definition commitment_bytes ::
  "(byte list \<Rightarrow> byte list) \<Rightarrow> batch_commitment_input \<Rightarrow> byte list \<Rightarrow> byte list" where
  "commitment_bytes sha i req =
     sha256_text sha BATCH_COMMITMENT_DOMAIN_TAG @ hex_decode (ci_channelId i)
     @ hex_decode (v_covenantId (ci_voucher i)) @ hex_decode (ci_presentationDigest i)
     @ hex_decode (ci_requestFingerprint i) @ sha req @ hex_decode (op_txid (ci_activeOutpoint i))
     @ le_bytes 4 (num_nat (op_index (ci_activeOutpoint i)))
     @ le_bytes 8 (dec_val (ci_authorizedCumulativeBefore i))
     @ le_bytes 8 (dec_val (ci_authorizedCumulativeAfter i))
     @ sha (hex_decode (v_signature (ci_voucher i)))
     @ le_bytes 8 (dec_val (ci_fixedCharge i)) @ le_bytes 8 (dec_val (ci_claimedCumulativeAmount i))"

definition commitment_hashed :: "(byte list \<Rightarrow> byte list) \<Rightarrow> batch_commitment_input \<Rightarrow> byte list list" where
  \<comment> \<open>the byte strings that are hashed for a commitment id\<close>
  "commitment_hashed sha i =
     (case batchPaymentRequirementsPreimage (ci_accepted i) of
        Inl _ \<Rightarrow> []
      | Inr req \<Rightarrow> [utf8Bytes BATCH_COMMITMENT_DOMAIN_TAG, req, hex_decode (v_signature (ci_voucher i)),
                    commitment_bytes sha i req])"

lemma hexToBytes_64:
  "hexToBytes s (Some 64) e l = Inr bs \<longleftrightarrow> hex_of_width 64 s \<and> bs = hex_decode s"
  by (auto simp: hexToBytes_Inr hex_of_width_def)

lemma batchPaymentRequirementsHash_Inr:
  "batchPaymentRequirementsHash sha v = Inr h \<longleftrightarrow>
     (\<exists>p. batchPaymentRequirementsPreimage v = Inr p \<and> h = bytesToHex (sha p))"
  by (auto simp: batchPaymentRequirementsHash_def bindE_Inr)

lemma hex32_digest: "digest32 sha \<Longrightarrow> hex32 (bytesToHex (sha p))"
  using bytesToHex_lower [of "sha p"]
  by (auto simp: hex32_def digest32_def list_all_iff is_lower_hex_def is_hex_def)

lemma batchCommitmentPreimage_Inr:
  assumes "digest32 sha"
  shows "batchCommitmentPreimage sha i = Inr p \<longleftrightarrow>
     (\<exists>req. commitment_ok sha i req \<and> p = commitment_bytes sha i req)"
  by (auto simp: batchCommitmentPreimage_def bindE_Inr hexToBytes_32 hexToBytes_64 lane_le64_text
      le32_uint32 batchPaymentRequirementsHash_Inr hex32_digest [OF assms] commitment_ok_def
      commitment_bytes_def)

definition same_commitment :: "batch_commitment_input \<Rightarrow> batch_commitment_input \<Rightarrow> bool" where
  \<comment> \<open>equal inputs, up to the case of hex fields and the key order of the requirements\<close>
  "same_commitment a b = (canon (ci_accepted a) = canon (ci_accepted b)
     \<and> to_lower (ci_channelId a) = to_lower (ci_channelId b)
     \<and> to_lower (ci_presentationDigest a) = to_lower (ci_presentationDigest b)
     \<and> to_lower (ci_requestFingerprint a) = to_lower (ci_requestFingerprint b)
     \<and> to_lower (op_txid (ci_activeOutpoint a)) = to_lower (op_txid (ci_activeOutpoint b))
     \<and> op_index (ci_activeOutpoint a) = op_index (ci_activeOutpoint b)
     \<and> to_lower (v_covenantId (ci_voucher a)) = to_lower (v_covenantId (ci_voucher b))
     \<and> v_authorizedCumulativeAmount (ci_voucher a) = v_authorizedCumulativeAmount (ci_voucher b)
     \<and> to_lower (v_signature (ci_voucher a)) = to_lower (v_signature (ci_voucher b))
     \<and> ci_fixedCharge a = ci_fixedCharge b
     \<and> ci_authorizedCumulativeBefore a = ci_authorizedCumulativeBefore b
     \<and> ci_authorizedCumulativeAfter a = ci_authorizedCumulativeAfter b
     \<and> ci_claimedCumulativeAmount a = ci_claimedCumulativeAmount b)"

lemma commitment_bytes_inject:
  assumes "digest32 sha" "commitment_ok sha a p" "commitment_ok sha b q"
    and "commitment_bytes sha a p = commitment_bytes sha b q"
    and "\<not> collision_in sha (commitment_hashed sha a @ commitment_hashed sha b)"
    and "wf_js (ci_accepted a)" "wf_js (ci_accepted b)"
    and "v_authorizedCumulativeAmount (ci_voucher a) = ci_authorizedCumulativeAfter a"
    and "v_authorizedCumulativeAmount (ci_voucher b) = ci_authorizedCumulativeAfter b"
  shows "same_commitment a b"
proof -
  have eqs: "to_lower (ci_channelId a) = to_lower (ci_channelId b)
     \<and> to_lower (v_covenantId (ci_voucher a)) = to_lower (v_covenantId (ci_voucher b))
     \<and> to_lower (ci_presentationDigest a) = to_lower (ci_presentationDigest b)
     \<and> to_lower (ci_requestFingerprint a) = to_lower (ci_requestFingerprint b)
     \<and> sha p = sha q
     \<and> to_lower (op_txid (ci_activeOutpoint a)) = to_lower (op_txid (ci_activeOutpoint b))
     \<and> op_index (ci_activeOutpoint a) = op_index (ci_activeOutpoint b)
     \<and> ci_authorizedCumulativeBefore a = ci_authorizedCumulativeBefore b
     \<and> ci_authorizedCumulativeAfter a = ci_authorizedCumulativeAfter b
     \<and> sha (hex_decode (v_signature (ci_voucher a))) = sha (hex_decode (v_signature (ci_voucher b)))
     \<and> ci_fixedCharge a = ci_fixedCharge b
     \<and> ci_claimedCumulativeAmount a = ci_claimedCumulativeAmount b"
    using assms(1-4) lane_text_append [of "ci_claimedCumulativeAmount a" "ci_claimedCumulativeAmount b" "[]" "[]"]
    unfolding commitment_bytes_def commitment_ok_def
    by (simp only: digest_text_append digest_append hex32_append uint32_append lane_text_append
        append_Nil2 simp_thms)
  moreover have "p \<in> set (commitment_hashed sha a)" "q \<in> set (commitment_hashed sha b)"
    "hex_decode (v_signature (ci_voucher a)) \<in> set (commitment_hashed sha a)"
    "hex_decode (v_signature (ci_voucher b)) \<in> set (commitment_hashed sha b)"
    using assms(2,3) by (simp_all add: commitment_ok_def commitment_hashed_def)
  ultimately have "p = q" "hex_decode (v_signature (ci_voucher a)) = hex_decode (v_signature (ci_voucher b))"
    using digest_eq [OF _ assms(5)] by simp_all
  moreover from this(2) have "to_lower (v_signature (ci_voucher a)) = to_lower (v_signature (ci_voucher b))"
    using assms(2,3) hex_decode_append_inject [of 64 _ _ "[]" "[]"] by (simp add: commitment_ok_def)
  moreover have "canon (ci_accepted a) = canon (ci_accepted b)"
    using assms(2,3,6,7) \<open>p = q\<close> by (intro requirements_preimage_inject) (auto simp: commitment_ok_def)
  ultimately show ?thesis using eqs assms(8,9) by (simp add: same_commitment_def)
qed

lemma batchCommitmentId_Inr:
  assumes "batchCommitmentId sha i = Inr d"
  shows "\<exists>p. batchCommitmentPreimage sha i = Inr p \<and> d = bytesToHex (sha p)"
    and "v_authorizedCumulativeAmount (ci_voucher i) = ci_authorizedCumulativeAfter i"
    and "dec_val (ci_claimedCumulativeAmount i) \<le> dec_val (ci_authorizedCumulativeBefore i)"
    and "dec_val (ci_authorizedCumulativeBefore i) + dec_val (ci_fixedCharge i)
           = dec_val (ci_authorizedCumulativeAfter i)"
    and "0 < dec_val (ci_fixedCharge i)"
    and "int (dec_val (ci_authorizedCumulativeAfter i)) \<le> BATCH_SCRIPT_INT_MAX"
proof -
  from assms obtain b c a k where "0 \<le> b" "ci_authorizedCumulativeBefore i = int_to_string b"
    "0 \<le> c" "c \<noteq> 0" "ci_fixedCharge i = int_to_string c" "0 \<le> a" "a \<le> BATCH_SCRIPT_INT_MAX"
    "ci_authorizedCumulativeAfter i = int_to_string a" "0 \<le> k" "k \<le> b"
    "ci_claimedCumulativeAmount i = int_to_string k" "b + c = a"
    "v_authorizedCumulativeAmount (ci_voucher i) = int_to_string a"
    and pre: "\<exists>p. batchCommitmentPreimage sha i = Inr p \<and> d = bytesToHex (sha p)"
    unfolding batchCommitmentId_def by (auto simp: bindE_Inr if_throw_Inr parseBatchLaneAmount_Inr)
  then show "v_authorizedCumulativeAmount (ci_voucher i) = ci_authorizedCumulativeAfter i"
    "dec_val (ci_claimedCumulativeAmount i) \<le> dec_val (ci_authorizedCumulativeBefore i)"
    "dec_val (ci_authorizedCumulativeBefore i) + dec_val (ci_fixedCharge i)
       = dec_val (ci_authorizedCumulativeAfter i)"
    "0 < dec_val (ci_fixedCharge i)"
    "int (dec_val (ci_authorizedCumulativeAfter i)) \<le> BATCH_SCRIPT_INT_MAX" by auto
  show "\<exists>p. batchCommitmentPreimage sha i = Inr p \<and> d = bytesToHex (sha p)" by (rule pre)
qed

section \<open>Properties\<close>

text \<open>Requirements that are admitted for a batch payment name a supported network, the KAS
  asset and the current covenant template, charge a positive amount, and ask for a deposit
  that covers the charge and the claim reserve within the script integer range; the refund
  timeout is a DAA score and the charge for a failed tool call, if any, is the fixed charge.\<close>

theorem admitted_requirements_sound:
  assumes "batchPaymentRequirementsPreimage accepted = Inr p"
  shows "\<exists>amount deposit reserve timeout.
     prop_text (canon accepted) ''amount'' = Some (int_to_string amount)
     \<and> extra_text (canon accepted) ''minDepositSompi'' = Some (int_to_string deposit)
     \<and> extra_text (canon accepted) ''claimReserveSompi'' = Some (int_to_string reserve)
     \<and> extra_text (canon accepted) ''refundTimeoutDaa'' = Some (int_to_string timeout)
     \<and> 0 < amount \<and> 0 \<le> reserve \<and> 0 \<le> timeout \<and> timeout < KASPA_LOCK_TIME_THRESHOLD
     \<and> amount + reserve \<le> deposit \<and> deposit \<le> BATCH_SCRIPT_INT_MAX
     \<and> extra_prop ''mcpErrorChargeSompi'' (canon accepted)
          \<in> {Inr JUndefined, Inr (JStr (int_to_string amount))}
     \<and> prop_text (canon accepted) ''network'' \<in> Some ` set SUPPORTED_NETWORKS
     \<and> prop_text (canon accepted) ''asset'' = Some ASSET_ID
     \<and> extra_text (canon accepted) ''templateId'' = Some ESCROW_TEMPLATE_ID"
  using batchPaymentRequirementsPreimage_Inr(3-5) [OF assms]
    requirement_amounts_Inr [OF batchPaymentRequirementsPreimage_Inr(2) [OF assms]] by blast

text \<open>C37: a commitment id binds the whole charge. Two charges with the same id agree in the
  requirements (up to key order), the channel, lineage, presentation and request, the active
  output, the voucher with its signature and all four amounts, or two of the byte strings that were
  hashed for these two ids collide.\<close>

theorem commitment_id_binds:
  assumes "digest32 sha" "batchCommitmentId sha a = Inr d" "batchCommitmentId sha b = Inr d"
    and "wf_js (ci_accepted a)" "wf_js (ci_accepted b)"
  shows "same_commitment a b \<or> collision_in sha (commitment_hashed sha a @ commitment_hashed sha b)"
proof (cases "collision_in sha (commitment_hashed sha a @ commitment_hashed sha b)")
  case False
  obtain p q where p: "batchCommitmentPreimage sha a = Inr p" "d = bytesToHex (sha p)"
    and q: "batchCommitmentPreimage sha b = Inr q" "d = bytesToHex (sha q)"
    using batchCommitmentId_Inr(1) [OF assms(2)] batchCommitmentId_Inr(1) [OF assms(3)] by blast
  then obtain r s where r: "commitment_ok sha a r" "p = commitment_bytes sha a r"
    and s: "commitment_ok sha b s" "q = commitment_bytes sha b s"
    using batchCommitmentPreimage_Inr [OF assms(1)] by metis
  have "p \<in> set (commitment_hashed sha a)" "q \<in> set (commitment_hashed sha b)"
    using r s by (simp_all add: commitment_ok_def commitment_hashed_def)
  then have "p = q" using p q digest_eq [OF _ False, of p q] by simp
  then show ?thesis
    using commitment_bytes_inject [OF assms(1) r(1) s(1) _ False assms(4,5)] r s
      batchCommitmentId_Inr(2) [OF assms(2)] batchCommitmentId_Inr(2) [OF assms(3)] by simp
qed simp

text \<open>Every commitment id certifies the arithmetic of its charge: the charge is positive,
  the authorisation after it is exactly the authorisation before it plus the charge, it is the
  amount the voucher signs, it is a script integer, and no more than the prior authorisation
  has been claimed.\<close>

theorem commitment_arithmetic:
  assumes "batchCommitmentId sha i = Inr d"
  shows "0 < dec_val (ci_fixedCharge i)
    \<and> dec_val (ci_authorizedCumulativeBefore i) + dec_val (ci_fixedCharge i)
        = dec_val (ci_authorizedCumulativeAfter i)
    \<and> v_authorizedCumulativeAmount (ci_voucher i) = ci_authorizedCumulativeAfter i
    \<and> dec_val (ci_claimedCumulativeAmount i) \<le> dec_val (ci_authorizedCumulativeBefore i)
    \<and> int (dec_val (ci_authorizedCumulativeAfter i)) \<le> BATCH_SCRIPT_INT_MAX"
  using batchCommitmentId_Inr(2-6) [OF assms] by blast

section \<open>A concrete charge\<close>

definition requirements_example :: js_value where
  "requirements_example = JObj
     [(''scheme'', JStr ''batch-settlement''), (''network'', JStr ''kaspa:testnet-10''),
      (''asset'', JStr ''KAS''), (''amount'', JStr ''25''), (''maxTimeoutSeconds'', JNum (JsInt 60)),
      (''extra'', JObj
        [(''binding'', JStr ''kaspa-escrow-v3''), (''templateId'', JStr ''kaspa-x402-escrow-v5''),
         (''minDepositSompi'', JStr ''100''), (''claimReserveSompi'', JStr ''10''),
         (''refundTimeoutDaa'', JStr ''4200''),
         (''securityContextHash'', JStr (replicate 64 (CHR ''d''))),
         (''serverPublicKey'', JStr (replicate 64 (CHR ''b'')))])]"

lemma requirements_example_text:
  "stableStringify (scoped_requirements requirements_example)
     = Inr (stableJson (scoped_requirements requirements_example))"
proof (rule stableStringify_small)
  let ?v = "scoped_requirements requirements_example"
  note ev = scoped_requirements_def requirements_example_def BATCH_PAYMENT_REQUIREMENTS_DOMAIN_TAG_def
  show "fits KASPA_X402_RESOURCE_BUDGET 0 None ?v"
    by (simp add: ev KASPA_X402_RESOURCE_BUDGET_def object_limit_def string_limit_def
        is_finite_num_def ARTIFACT_FIELDS_def utf8ByteLength_le [THEN le_trans])
  show "size_bound ?v \<le> 98304"
    by (simp add: ev json_number_def int_to_string_def nat_to_string.simps utf8ByteLength_Cons)
  show "value_nodes ?v \<le> 4096" "value_work ?v \<le> 8191" by (simp_all add: ev)
qed

lemma example_numbers: "int_to_string 25 = ''25''" "int_to_string 100 = ''100''"
  "int_to_string 10 = ''10''" "int_to_string 4200 = ''4200''" "int_to_string 40 = ''40''"
  "int_to_string 65 = ''65''"
  by (simp_all add: int_to_string_def nat_to_string.simps)

lemma example_amounts:
  "parseBatchLaneAmount ''25'' l = Inr 25" "parseBatchLaneAmount ''100'' l = Inr 100"
  "parseBatchLaneAmount ''10'' l = Inr 10" "parseBatchLaneAmount ''4200'' l = Inr 4200"
  "parseBatchLaneAmount ''40'' l = Inr 40" "parseBatchLaneAmount ''65'' l = Inr 65"
  by (simp_all add: parseBatchLaneAmount_Inr example_numbers BATCH_SCRIPT_INT_MAX_def)

lemma hexToBytes_replicate:
  "is_hex c \<Longrightarrow> hexToBytes (replicate 64 c) (Some 32) e l = Inr (hex_decode (replicate 64 c))"
  by (simp add: hexToBytes_32 hex32_replicate)

lemma example_hex: "is_hex (CHR ''a'')" "is_hex (CHR ''b'')" "is_hex (CHR ''c'')" "is_hex (CHR ''d'')"
  "is_hex (CHR ''e'')" "is_hex (CHR ''f'')" "is_hex (CHR ''1'')" "is_hex (CHR ''2'')"
  by (simp_all add: is_hex_def code_def)

lemma requirements_example_preimage:
  "batchPaymentRequirementsPreimage requirements_example
     = Inr (utf8Bytes (stableJson (scoped_requirements requirements_example)))"
proof -
  have "le64_value (JNum (JsInt 60)) = Inr (le_bytes 8 60)"
    by (simp add: le64_def normalizeUint64_def numberToUint64_def is_safe_integer_def
        MAX_SAFE_INTEGER_def U64_MAX_def)
  then show ?thesis
    by (simp add: batchPaymentRequirementsPreimage_def requirements_example_text)
      (simp add: requirements_example_def requirement_amounts_def extra_prop_def differs_def orE_def
        example_amounts hexToBytes_replicate example_hex Let_def ASSET_ID_def ESCROW_BINDING_ID_def
        ESCROW_TEMPLATE_ID_def KASPA_LOCK_TIME_THRESHOLD_def BATCH_SCRIPT_INT_MAX_def)
qed

theorem admitted_requirements_sound_witness:
  "succeeds (batchPaymentRequirementsPreimage requirements_example) \<and>
   prop_text (canon requirements_example) ''asset'' = Some ASSET_ID"
  using admitted_requirements_sound [OF requirements_example_preimage]
    requirements_example_preimage by auto

definition commitment_example :: batch_commitment_input where
  "commitment_example = \<lparr>ci_accepted = requirements_example,
     ci_channelId = replicate 64 (CHR ''a''), ci_presentationDigest = replicate 64 (CHR ''e''),
     ci_requestFingerprint = replicate 64 (CHR ''f''),
     ci_activeOutpoint = \<lparr>op_txid = replicate 64 (CHR ''1''), op_index = JsInt 0\<rparr>,
     ci_voucher = \<lparr>v_covenantId = replicate 64 (CHR ''c''), v_authorizedCumulativeAmount = ''65'',
        v_signature = replicate 128 (CHR ''2'')\<rparr>,
     ci_fixedCharge = ''25'', ci_authorizedCumulativeBefore = ''40'',
     ci_authorizedCumulativeAfter = ''65'', ci_claimedCumulativeAmount = ''10''\<rparr>"

lemma commitment_example_id:
  "\<exists>d. batchCommitmentId fold_sha commitment_example = Inr d"
proof -
  have lane: "lane_text ''25''" "lane_text ''40''" "lane_text ''65''" "lane_text ''10''"
    unfolding lane_text_def
    by (intro exI [of _ 25] exI [of _ 40] exI [of _ 65] exI [of _ 10];
        simp add: example_numbers BATCH_SCRIPT_INT_MAX_def)+
  have "hex_of_width 64 (replicate 128 (CHR ''2''))"
    using example_hex by (simp add: hex_of_width_def list_all_length)
  then have "commitment_ok fold_sha commitment_example
      (utf8Bytes (stableJson (scoped_requirements requirements_example)))"
    using lane requirements_example_preimage
    by (simp add: commitment_ok_def commitment_example_def hex32_replicate example_hex uint32_def
        in_range_def U32_MAX_def)
  then have "\<exists>p. batchCommitmentPreimage fold_sha commitment_example = Inr p"
    by (auto simp: batchCommitmentPreimage_Inr [OF fold_sha_digest32])
  then show ?thesis
    by (auto simp: batchCommitmentId_def) (simp add: commitment_example_def example_amounts)
qed

theorem commitment_id_binds_witness:
  "\<exists>d. batchCommitmentId fold_sha commitment_example = Inr d \<and>
     (same_commitment commitment_example commitment_example
      \<or> collision_in fold_sha (commitment_hashed fold_sha commitment_example @ commitment_hashed fold_sha commitment_example))"
proof -
  obtain d where d: "batchCommitmentId fold_sha commitment_example = Inr d"
    using commitment_example_id by blast
  have "wf_js (ci_accepted commitment_example)"
    by (simp add: commitment_example_def requirements_example_def wf_number_def)
  then show ?thesis using d commitment_id_binds [OF fold_sha_digest32 d d] by blast
qed

theorem commitment_arithmetic_witness:
  "succeeds (batchCommitmentId fold_sha commitment_example) \<and>
   dec_val (ci_authorizedCumulativeBefore commitment_example) + dec_val (ci_fixedCharge commitment_example)
     = dec_val (ci_authorizedCumulativeAfter commitment_example)"
proof -
  obtain d where d: "batchCommitmentId fold_sha commitment_example = Inr d"
    using commitment_example_id by blast
  show ?thesis using d commitment_arithmetic [OF d] by simp
qed

end
