(* ===== verification/Batch_Presentation.thy ===== *)
theory Batch_Presentation
  imports Batch_Commitment
begin

text \<open>
  Presentations: \<^verbatim>\<open>core/src/batch-presentation.ts\<close>. A presentation authorises one request to
  spend from a channel for a short time. Its digest hashes the canonical text of nine fields;
  its id hashes version, digest and signature. \<open>Date.parse\<close> is the parameter \<open>dateParse\<close>,
  because the language leaves the accepted formats to the implementation: \<open>None\<close> stands for
  \<open>NaN\<close>, and a time value is an integral number of milliseconds. Time values lie below
  \<open>2\<^sup>53\<close>, where the comparison of the source is exact.
\<close>

section \<open>Definitions\<close>

definition BATCH_PRESENTATION_VERSION :: string where
  "BATCH_PRESENTATION_VERSION = ''kaspa-x402-batch-presentation-v1''"

definition BATCH_PRESENTATION_SCOPE :: string where
  "BATCH_PRESENTATION_SCOPE = ''kaspa:x402:batch-presentation:v1''"

record presentation_input =
  bp_requestFingerprint :: string
  bp_acceptedRequirementsHash :: string
  bp_securityContextHash :: string
  bp_channelId :: string
  bp_covenantId :: string
  bp_voucherDigest :: string
  bp_paymentIdentifier :: "string option"
  bp_nonce :: string
  bp_expiresAt :: string

record presentation_authorization =
  pa_version :: string
  pa_input :: presentation_input
  pa_digest :: string
  pa_signature :: string

definition hash32 :: "string \<Rightarrow> string \<Rightarrow> string res" where
  "hash32 value label =
     bindE (hexToBytes value (Some 32) Invalid_hex label) (\<lambda>_. Inr (to_lower value))"

definition nonZeroHash32 :: "string \<Rightarrow> string \<Rightarrow> string res" where
  "nonZeroHash32 value label =
     bindE (hexToBytes value (Some 32) Invalid_hex label) (\<lambda>bytes.
       if list_all (\<lambda>b. b = 0) bytes
       then Inl (KaspaX402Error Invalid_binding (label @ '' must not be zero''))
       else Inr (to_lower value))"

definition TIMESTAMP_PATTERN :: "rx_item list list" where
  \<comment> \<open>\<open>YYYY-MM-DDThh:mm:ssZ\<close>, with optional milliseconds\<close>
  "TIMESTAMP_PATTERN =
     (let head = [dd 4, Lit ''-'', dd 2, Lit ''-'', dd 2, Lit ''T'',
                  dd 2, Lit '':'', dd 2, Lit '':'', dd 2]
      in [head @ [Lit ''Z''], head @ [Lit ''.'', dd 3, Lit ''Z'']])"

definition validTimestamp :: "(string \<Rightarrow> int option) \<Rightarrow> string \<Rightarrow> bool" where
  "validTimestamp dateParse value = (rx_test TIMESTAMP_PATTERN value \<and> dateParse value \<noteq> None)"

definition presentation_object :: "presentation_input \<Rightarrow> js_value" where
  \<comment> \<open>the object literal that is hashed\<close>
  "presentation_object p = JObj
     [(''scope'', JStr BATCH_PRESENTATION_SCOPE),
      (''requestFingerprint'', JStr (bp_requestFingerprint p)),
      (''acceptedRequirementsHash'', JStr (bp_acceptedRequirementsHash p)),
      (''securityContextHash'', JStr (bp_securityContextHash p)),
      (''channelId'', JStr (bp_channelId p)),
      (''covenantId'', JStr (bp_covenantId p)),
      (''voucherDigest'', JStr (bp_voucherDigest p)),
      (''paymentIdentifier'', case bp_paymentIdentifier p of None \<Rightarrow> JNull | Some s \<Rightarrow> JStr s),
      (''nonce'', JStr (bp_nonce p)),
      (''expiresAt'', JStr (bp_expiresAt p))]"

definition batchPresentationPreimage ::
  "(string \<Rightarrow> int option) \<Rightarrow> presentation_input \<Rightarrow> string res" where
  "batchPresentationPreimage dateParse input =
     bindE (hash32 (bp_requestFingerprint input) ''requestFingerprint'') (\<lambda>requestFingerprint.
     bindE (hash32 (bp_acceptedRequirementsHash input) ''acceptedRequirementsHash'')
       (\<lambda>acceptedRequirementsHash.
     bindE (hash32 (bp_securityContextHash input) ''securityContextHash'') (\<lambda>securityContextHash.
     bindE (hash32 (bp_channelId input) ''channelId'') (\<lambda>channelId.
     bindE (nonZeroHash32 (bp_covenantId input) ''covenantId'') (\<lambda>covenantId.
     bindE (hash32 (bp_voucherDigest input) ''voucherDigest'') (\<lambda>voucherDigest.
     bindE (hash32 (bp_nonce input) ''nonce'') (\<lambda>nonce.
     if bp_paymentIdentifier input = Some []
     then Inl (KaspaX402Error Invalid_payload ''paymentIdentifier must be a non-empty string or null'')
     else if \<not> validTimestamp dateParse (bp_expiresAt input)
     then Inl (KaspaX402Error Invalid_payload ''presentation expiresAt must be an ISO-8601 timestamp'')
     else stableStringify (presentation_object
            (input\<lparr>bp_requestFingerprint := requestFingerprint,
                   bp_acceptedRequirementsHash := acceptedRequirementsHash,
                   bp_securityContextHash := securityContextHash, bp_channelId := channelId,
                   bp_covenantId := covenantId, bp_voucherDigest := voucherDigest,
                   bp_nonce := nonce\<rparr>)))))))))"

definition batchPresentationDigest ::
  "(byte list \<Rightarrow> byte list) \<Rightarrow> (string \<Rightarrow> int option) \<Rightarrow> presentation_input \<Rightarrow> string res" where
  "batchPresentationDigest sha dateParse input =
     bindE (batchPresentationPreimage dateParse input) (\<lambda>t. Inr (sha256Hex sha (utf8Bytes t)))"

datatype expiry_error =
    Invalid_max_timeout | Invalid_presentation_expiry | Expired_presentation
  | Presentation_exceeds_max_timeout

definition batchPresentationExpiryError ::
  "(string \<Rightarrow> int option) \<Rightarrow> js_number \<Rightarrow> string \<Rightarrow> int \<Rightarrow> expiry_error option" where
  "batchPresentationExpiryError dateParse maxTimeoutSeconds expiresAt nowMs =
     (case maxTimeoutSeconds of
        JsNonInt _ \<Rightarrow> Some Invalid_max_timeout
      | JsInt seconds \<Rightarrow>
          if seconds \<le> 0 then Some Invalid_max_timeout
          else (case dateParse expiresAt of
                  None \<Rightarrow> Some Invalid_presentation_expiry
                | Some t \<Rightarrow>
                    if t \<le> nowMs then Some Expired_presentation
                    else if nowMs + seconds * 1000 < t then Some Presentation_exceeds_max_timeout
                    else None))"

definition batchPresentationId ::
  "(byte list \<Rightarrow> byte list) \<Rightarrow> presentation_authorization \<Rightarrow> string res" where
  "batchPresentationId sha authorization =
     (if pa_version authorization \<noteq> BATCH_PRESENTATION_VERSION
      then Inl (KaspaX402Error Invalid_payload ''unsupported batch presentation version'')
      else bindE (hash32 (pa_digest authorization) ''presentation digest'') (\<lambda>_.
      bindE (hexToBytes (pa_signature authorization) (Some 64) Invalid_hex ''presentation signature'')
        (\<lambda>_.
      bindE (stableStringify (JObj
         [(''scope'', JStr ''kaspa:x402:batch-presentation-id:v1''),
          (''version'', JStr (pa_version authorization)),
          (''digest'', JStr (to_lower (pa_digest authorization))),
          (''signature'', JStr (to_lower (pa_signature authorization)))]))
        (\<lambda>t. Inr (sha256Hex sha (utf8Bytes t))))))"

definition batchPresentationDigestInput :: "presentation_authorization \<Rightarrow> presentation_input" where
  "batchPresentationDigestInput authorization = pa_input authorization"

section \<open>Binding\<close>

definition lower_input :: "presentation_input \<Rightarrow> presentation_input" where
  "lower_input p = p\<lparr>bp_requestFingerprint := to_lower (bp_requestFingerprint p),
     bp_acceptedRequirementsHash := to_lower (bp_acceptedRequirementsHash p),
     bp_securityContextHash := to_lower (bp_securityContextHash p),
     bp_channelId := to_lower (bp_channelId p), bp_covenantId := to_lower (bp_covenantId p),
     bp_voucherDigest := to_lower (bp_voucherDigest p), bp_nonce := to_lower (bp_nonce p)\<rparr>"

lemma hash32_Inr [run_simps]: "hash32 s l = Inr t \<longleftrightarrow> hex32 s \<and> t = to_lower s"
  by (auto simp: hash32_def run_simps)

lemma nonZeroHash32_Inr [run_simps]:
  "nonZeroHash32 s l = Inr t \<longleftrightarrow>
     hex32 s \<and> \<not> list_all (\<lambda>b. b = 0) (hex_decode s) \<and> t = to_lower s"
  by (auto simp: nonZeroHash32_def run_simps)

definition presentation_ok :: "(string \<Rightarrow> int option) \<Rightarrow> presentation_input \<Rightarrow> bool" where
  "presentation_ok dateParse p = (hex32 (bp_requestFingerprint p) \<and> hex32 (bp_acceptedRequirementsHash p)
     \<and> hex32 (bp_securityContextHash p) \<and> hex32 (bp_channelId p) \<and> hex32 (bp_covenantId p)
     \<and> \<not> list_all (\<lambda>b. b = 0) (hex_decode (bp_covenantId p)) \<and> hex32 (bp_voucherDigest p)
     \<and> hex32 (bp_nonce p) \<and> bp_paymentIdentifier p \<noteq> Some []
     \<and> validTimestamp dateParse (bp_expiresAt p))"

lemma batchPresentationPreimage_Inr:
  "batchPresentationPreimage dp p = Inr t \<longleftrightarrow>
     presentation_ok dp p \<and> stableStringify (presentation_object (lower_input p)) = Inr t"
  by (auto simp: batchPresentationPreimage_def run_simps presentation_ok_def lower_input_def)

lemma wf_presentation_object: "wf_js (presentation_object p)"
  by (simp add: presentation_object_def split: option.splits)

lemma presentation_object_inject:
  assumes "canon (presentation_object p) = canon (presentation_object q)"
  shows "p = q"
  using canon_fixed_keys [OF assms [unfolded presentation_object_def]]
  by (intro presentation_input.equality) (simp_all split: option.splits)

definition presentation_hashed :: "presentation_input \<Rightarrow> byte list list" where
  "presentation_hashed p = [utf8Bytes (stableJson (presentation_object (lower_input p)))]"

text \<open>A presentation digest binds the request, the accepted requirements, the security
  context, the channel and its lineage, the voucher, the payment identifier, the nonce and the
  expiry: two presentations with the same digest agree in all nine fields (hashes up to case),
  or their two preimages collide.\<close>

theorem presentation_digest_binds:
  assumes "batchPresentationDigest sha dp p = Inr d" "batchPresentationDigest sha dp q = Inr d"
  shows "lower_input p = lower_input q \<or> collision_in sha (presentation_hashed p @ presentation_hashed q)"
proof (cases "collision_in sha (presentation_hashed p @ presentation_hashed q)")
  case False
  from assms have "sha (utf8Bytes (stableJson (presentation_object (lower_input p))))
      = sha (utf8Bytes (stableJson (presentation_object (lower_input q))))"
    by (auto simp: batchPresentationDigest_def bindE_Inr batchPresentationPreimage_Inr sha256Hex_def
        dest!: stableStringify_Inr)
  then have "stableJson (presentation_object (lower_input p)) = stableJson (presentation_object (lower_input q))"
    using False by (intro preimage_eq [where sha = sha]) (simp_all add: presentation_hashed_def)
  then show ?thesis
    using presentation_object_inject wf_presentation_object by (metis canonical_text_iff)
qed simp

text \<open>A presentation is accepted as current exactly when the advertised timeout is a
  positive integer and the expiry parses to a time after now and at most that many seconds
  ahead; the four error results are mutually exclusive and cover every other case.\<close>

theorem presentation_window_exact:
  "batchPresentationExpiryError dp m expiresAt now = None \<longleftrightarrow>
     (\<exists>s t. m = JsInt s \<and> 0 < s \<and> dp expiresAt = Some t \<and> now < t \<and> t \<le> now + 1000 * s)"
  by (auto simp: batchPresentationExpiryError_def split: js_number.splits option.splits)

section \<open>A concrete presentation\<close>

definition example_date :: "string \<Rightarrow> int option" where
  "example_date s = (if s = ''2026-01-01T00:00:00Z'' then Some 1767225600000 else None)"

definition presentation_example :: presentation_input where
  "presentation_example = \<lparr>bp_requestFingerprint = replicate 64 (CHR ''a''),
     bp_acceptedRequirementsHash = replicate 64 (CHR ''b''),
     bp_securityContextHash = replicate 64 (CHR ''c''), bp_channelId = replicate 64 (CHR ''d''),
     bp_covenantId = replicate 64 (CHR ''e''), bp_voucherDigest = replicate 64 (CHR ''f''),
     bp_paymentIdentifier = None, bp_nonce = replicate 64 (CHR ''1''),
     bp_expiresAt = ''2026-01-01T00:00:00Z''\<rparr>"

lemma presentation_example_digest:
  "\<exists>d. batchPresentationDigest fold_sha example_date presentation_example = Inr d"
proof -
  have "rx_test TIMESTAMP_PATTERN ''2026-01-01T00:00:00Z''"
    by (simp add: TIMESTAMP_PATTERN_def rx_test_def rx_seq_Rng_exact)
  moreover have "\<not> list_all (\<lambda>b. b = 0) (hex_decode (replicate 64 (CHR ''e'')))" by code_simp
  ultimately have ok: "presentation_ok example_date presentation_example"
    by (simp add: presentation_ok_def presentation_example_def hex32_replicate example_hex
        validTimestamp_def example_date_def)
  let ?v = "presentation_object (lower_input presentation_example)"
  note ev = presentation_object_def lower_input_def presentation_example_def BATCH_PRESENTATION_SCOPE_def
  have "stableStringify ?v = Inr (stableJson ?v)"
  proof (rule stableStringify_small)
    show "fits KASPA_X402_RESOURCE_BUDGET 0 None ?v"
      by (simp add: ev KASPA_X402_RESOURCE_BUDGET_def object_limit_def string_limit_def
          ARTIFACT_FIELDS_def utf8ByteLength_le [THEN le_trans])
    show "size_bound ?v \<le> 98304" "value_nodes ?v \<le> 4096" "value_work ?v \<le> 8191" by (simp_all add: ev)
  qed
  with ok show ?thesis
    by (simp add: batchPresentationDigest_def bindE_Inr batchPresentationPreimage_Inr)
qed

theorem presentation_digest_binds_witness:
  "\<exists>d. batchPresentationDigest fold_sha example_date presentation_example = Inr d \<and>
     (lower_input presentation_example = lower_input presentation_example
      \<or> collision_in fold_sha (presentation_hashed presentation_example @ presentation_hashed presentation_example))"
proof -
  obtain d where d: "batchPresentationDigest fold_sha example_date presentation_example = Inr d"
    using presentation_example_digest by blast
  show ?thesis using d presentation_digest_binds [OF d d] by blast
qed

end
