(* ===== verification/Batch_Authorization.thy ===== *)
theory Batch_Authorization
  imports Batch_Presentation
begin

text \<open>
  The payer's authorisation of a batch payment: \<^verbatim>\<open>core/src/batch-authorization.ts\<close>. Before it signs or
  funds anything the client states the payment as an intent and compares it with the limits that the
  payer has set. Every amount of an intent is a decimal text; the check parses them all, compares them
  with each other and then with the policy. A lane that is opened, charged and topped up only under
  validated intents never holds more of the payer's money than the policy allows, whatever is claimed
  in between.
\<close>

section \<open>Definitions\<close>

definition BATCH_PAYMENT_INTENT_SCOPE :: string where
  "BATCH_PAYMENT_INTENT_SCOPE = ''kaspa:x402:batch-payment-intent:v1''"

record batch_intent =
  bi_scope :: string
  bi_operation :: string
  bi_origin :: string
  bi_resource :: string
  bi_network :: string
  bi_asset :: string
  bi_payTo :: string
  bi_serverPublicKey :: string
  bi_clientPublicKey :: "string option"
  bi_requestFingerprint :: string
  bi_acceptedRequirementsHash :: string
  bi_securityContextHash :: string
  bi_fixedChargeSompi :: string
  bi_mcpErrorChargeSompi :: "string option"
  bi_authorizedCumulativeBefore :: string
  bi_authorizedCumulativeAfter :: string
  bi_claimedCumulativeAmount :: string
  bi_initialDepositSompi :: string
  bi_currentFundingSompi :: string
  bi_topUpSompi :: string
  bi_resultingFundingSompi :: string
  bi_resultingExposureSompi :: string
  bi_claimReserveSompi :: string
  bi_refundTimeoutDaa :: string
  bi_authoritativeCurrentDaa :: string
  bi_refundDistanceDaa :: string
  bi_fundingSource :: string
  bi_channelId :: "string option"
  bi_covenantId :: "string option"
  bi_paymentIdentifier :: "string option"

record batch_policy =
  bl_maximumBatchChargeSompi :: string
  bl_maximumInitialDepositSompi :: string
  bl_maximumTopUpSompi :: string
  bl_maximumCumulativeAuthorizationSompi :: string
  bl_maximumTotalExposureSompi :: string
  bl_minimumRefundLeadDaa :: string
  bl_maximumRefundHorizonDaa :: string
  bl_allowedOrigins :: "string list"
  bl_allowedResources :: "string list"
  bl_allowedPayTo :: "string list"
  bl_allowedServerPublicKeys :: "string list"
  bl_allowedFundingSources :: "string list"

record intent_economics =
  ie_fixedCharge :: int
  ie_before :: int
  ie_after :: int
  ie_claimed :: int
  ie_initialDeposit :: int
  ie_currentFunding :: int
  ie_topUp :: int
  ie_resultingFunding :: int
  ie_resultingExposure :: int
  ie_reserve :: int
  ie_timeout :: int
  ie_currentDaa :: int
  ie_distance :: int
  ie_errorCharge :: "int option"

definition intent_hash32 :: "string \<Rightarrow> string \<Rightarrow> unit res" where
  "intent_hash32 value label = bindE (hexToBytes value (Some 32) Invalid_hex label) (\<lambda>_. Inr ())"

definition intent_nonZeroHash32 :: "string \<Rightarrow> string \<Rightarrow> unit res" where
  "intent_nonZeroHash32 value label =
     bindE (hexToBytes value (Some 32) Invalid_hex label) (\<lambda>bytes.
       if list_all (\<lambda>b. b = 0) bytes
       then Inl (KaspaX402Error Invalid_binding (label @ '' must not be zero''))
       else Inr ())"

definition requireE_if :: "bool \<Rightarrow> kaspa_code \<Rightarrow> string \<Rightarrow> unit res" where
  \<comment> \<open>\<open>if (bad) throw new KaspaX402Error(errorCode, message)\<close>\<close>
  "requireE_if bad errorCode message = (if bad then Inl (KaspaX402Error errorCode message) else Inr ())"

definition for_some :: "'a option \<Rightarrow> ('a \<Rightarrow> unit res) \<Rightarrow> unit res" where
  \<comment> \<open>\<open>if (value !== null) f(value)\<close>\<close>
  "for_some value f = (case value of None \<Rightarrow> Inr () | Some x \<Rightarrow> f x)"

definition requireExistingLane :: "batch_intent \<Rightarrow> unit res" where
  "requireExistingLane intent =
     requireE_if (bi_channelId intent = None \<or> bi_covenantId intent = None \<or> bi_clientPublicKey intent = None)
       Invalid_payload ''existing-lane intent requires channel, covenant, and client public key''"

definition validateIntentShape :: "batch_intent \<Rightarrow> unit res" where
  "validateIntentShape intent =
     bindE (requireE_if (bi_scope intent \<noteq> BATCH_PAYMENT_INTENT_SCOPE)
              Invalid_binding ''unsupported batch payment intent scope'') (\<lambda>_.
     bindE (requireE_if (bi_operation intent \<notin> set [''open'', ''charge'', ''top-up''])
              Invalid_payload ''unsupported batch payment operation'') (\<lambda>_.
     bindE (requireE_if (bi_network intent \<notin> set [''kaspa:testnet-10'', ''kaspa:mainnet''] \<or> bi_asset intent \<noteq> ''KAS'')
              Invalid_binding ''batch payment intent must target supported native KAS'') (\<lambda>_.
     bindE (forE (\<lambda>(label, value). requireE_if (value = []) Invalid_payload (label @ '' must be non-empty''))
              [(''origin'', bi_origin intent), (''resource'', bi_resource intent),
               (''payTo'', bi_payTo intent), (''fundingSource'', bi_fundingSource intent)]) (\<lambda>_.
     bindE (intent_hash32 (bi_serverPublicKey intent) ''serverPublicKey'') (\<lambda>_.
     bindE (for_some (bi_clientPublicKey intent) (\<lambda>k. intent_hash32 k ''clientPublicKey'')) (\<lambda>_.
     bindE (intent_hash32 (bi_requestFingerprint intent) ''requestFingerprint'') (\<lambda>_.
     bindE (intent_hash32 (bi_acceptedRequirementsHash intent) ''acceptedRequirementsHash'') (\<lambda>_.
     bindE (intent_hash32 (bi_securityContextHash intent) ''securityContextHash'') (\<lambda>_.
     bindE (for_some (bi_channelId intent) (\<lambda>c. intent_hash32 c ''channelId'')) (\<lambda>_.
     bindE (for_some (bi_covenantId intent) (\<lambda>c. intent_nonZeroHash32 c ''covenantId'')) (\<lambda>_.
     bindE (if bi_operation intent \<noteq> ''open'' then requireExistingLane intent else Inr ()) (\<lambda>_.
     requireE_if (bi_paymentIdentifier intent = Some [])
       Invalid_payload ''paymentIdentifier must be a non-empty string or null''))))))))))))"

definition validateIntentForDigest :: "batch_intent \<Rightarrow> intent_economics res" where
  "validateIntentForDigest intent =
     bindE (validateIntentShape intent) (\<lambda>_.
     bindE (parseBatchLaneAmount (bi_fixedChargeSompi intent) ''fixed charge'') (\<lambda>fixedCharge.
     bindE (parseBatchLaneAmount (bi_authorizedCumulativeBefore intent) ''authorized cumulative before'') (\<lambda>before.
     bindE (parseBatchLaneAmount (bi_authorizedCumulativeAfter intent) ''authorized cumulative after'') (\<lambda>after.
     bindE (parseBatchLaneAmount (bi_claimedCumulativeAmount intent) ''claimed cumulative amount'') (\<lambda>claimed.
     bindE (parseBatchLaneAmount (bi_initialDepositSompi intent) ''initial deposit'') (\<lambda>initialDeposit.
     bindE (parseBatchLaneAmount (bi_currentFundingSompi intent) ''current funding'') (\<lambda>currentFunding.
     bindE (parseBatchLaneAmount (bi_topUpSompi intent) ''top-up'') (\<lambda>topUp.
     bindE (parseBatchLaneAmount (bi_resultingFundingSompi intent) ''resulting funding'') (\<lambda>resultingFunding.
     bindE (parseBatchLaneAmount (bi_resultingExposureSompi intent) ''resulting exposure'') (\<lambda>resultingExposure.
     bindE (parseBatchLaneAmount (bi_claimReserveSompi intent) ''claim reserve'') (\<lambda>reserve.
     bindE (parseBatchLaneAmount (bi_refundTimeoutDaa intent) ''refund timeout DAA'') (\<lambda>timeout.
     bindE (parseBatchLaneAmount (bi_authoritativeCurrentDaa intent) ''authoritative current DAA'') (\<lambda>currentDaa.
     bindE (parseBatchLaneAmount (bi_refundDistanceDaa intent) ''refund distance DAA'') (\<lambda>distance.
     bindE (case bi_mcpErrorChargeSompi intent of
              None \<Rightarrow> Inr None
            | Some c \<Rightarrow> bindE (parseBatchLaneAmount c ''MCP error charge'') (\<lambda>v. Inr (Some v))) (\<lambda>errorCharge.
     if KASPA_LOCK_TIME_THRESHOLD \<le> timeout
     then Inl (amountError ''refund timeout DAA must remain below the consensus timestamp boundary'')
     else Inr \<lparr>ie_fixedCharge = fixedCharge, ie_before = before, ie_after = after, ie_claimed = claimed,
               ie_initialDeposit = initialDeposit, ie_currentFunding = currentFunding, ie_topUp = topUp,
               ie_resultingFunding = resultingFunding, ie_resultingExposure = resultingExposure,
               ie_reserve = reserve, ie_timeout = timeout, ie_currentDaa = currentDaa,
               ie_distance = distance, ie_errorCharge = errorCharge\<rparr>)))))))))))))))"

definition snapshotIntent :: "batch_intent \<Rightarrow> batch_intent" where
  "snapshotIntent intent =
     \<lparr>bi_scope = bi_scope intent, bi_operation = bi_operation intent, bi_origin = bi_origin intent,
      bi_resource = bi_resource intent, bi_network = bi_network intent, bi_asset = bi_asset intent,
      bi_payTo = bi_payTo intent, bi_serverPublicKey = bi_serverPublicKey intent,
      bi_clientPublicKey = bi_clientPublicKey intent,
      bi_requestFingerprint = bi_requestFingerprint intent,
      bi_acceptedRequirementsHash = bi_acceptedRequirementsHash intent,
      bi_securityContextHash = bi_securityContextHash intent,
      bi_fixedChargeSompi = bi_fixedChargeSompi intent,
      bi_mcpErrorChargeSompi = bi_mcpErrorChargeSompi intent,
      bi_authorizedCumulativeBefore = bi_authorizedCumulativeBefore intent,
      bi_authorizedCumulativeAfter = bi_authorizedCumulativeAfter intent,
      bi_claimedCumulativeAmount = bi_claimedCumulativeAmount intent,
      bi_initialDepositSompi = bi_initialDepositSompi intent,
      bi_currentFundingSompi = bi_currentFundingSompi intent,
      bi_topUpSompi = bi_topUpSompi intent,
      bi_resultingFundingSompi = bi_resultingFundingSompi intent,
      bi_resultingExposureSompi = bi_resultingExposureSompi intent,
      bi_claimReserveSompi = bi_claimReserveSompi intent,
      bi_refundTimeoutDaa = bi_refundTimeoutDaa intent,
      bi_authoritativeCurrentDaa = bi_authoritativeCurrentDaa intent,
      bi_refundDistanceDaa = bi_refundDistanceDaa intent,
      bi_fundingSource = bi_fundingSource intent, bi_channelId = bi_channelId intent,
      bi_covenantId = bi_covenantId intent, bi_paymentIdentifier = bi_paymentIdentifier intent\<rparr>"

definition normalizedIntent :: "batch_intent \<Rightarrow> batch_intent" where
  "normalizedIntent intent = intent
     \<lparr>bi_scope := BATCH_PAYMENT_INTENT_SCOPE,
      bi_serverPublicKey := to_lower (bi_serverPublicKey intent),
      bi_clientPublicKey := map_option to_lower (bi_clientPublicKey intent),
      bi_requestFingerprint := to_lower (bi_requestFingerprint intent),
      bi_acceptedRequirementsHash := to_lower (bi_acceptedRequirementsHash intent),
      bi_securityContextHash := to_lower (bi_securityContextHash intent),
      bi_channelId := map_option to_lower (bi_channelId intent),
      bi_covenantId := map_option to_lower (bi_covenantId intent)\<rparr>"

definition nullable :: "string option \<Rightarrow> js_value" where
  "nullable value = (case value of None \<Rightarrow> JNull | Some s \<Rightarrow> JStr s)"

definition intent_object :: "batch_intent \<Rightarrow> js_value" where
  \<comment> \<open>the object that \<open>normalizedIntent\<close> returns\<close>
  "intent_object i = JObj
     [(''scope'', JStr (bi_scope i)), (''operation'', JStr (bi_operation i)), (''origin'', JStr (bi_origin i)),
      (''resource'', JStr (bi_resource i)), (''network'', JStr (bi_network i)), (''asset'', JStr (bi_asset i)),
      (''payTo'', JStr (bi_payTo i)), (''serverPublicKey'', JStr (bi_serverPublicKey i)),
      (''clientPublicKey'', nullable (bi_clientPublicKey i)),
      (''requestFingerprint'', JStr (bi_requestFingerprint i)),
      (''acceptedRequirementsHash'', JStr (bi_acceptedRequirementsHash i)),
      (''securityContextHash'', JStr (bi_securityContextHash i)),
      (''fixedChargeSompi'', JStr (bi_fixedChargeSompi i)),
      (''mcpErrorChargeSompi'', nullable (bi_mcpErrorChargeSompi i)),
      (''authorizedCumulativeBefore'', JStr (bi_authorizedCumulativeBefore i)),
      (''authorizedCumulativeAfter'', JStr (bi_authorizedCumulativeAfter i)),
      (''claimedCumulativeAmount'', JStr (bi_claimedCumulativeAmount i)),
      (''initialDepositSompi'', JStr (bi_initialDepositSompi i)),
      (''currentFundingSompi'', JStr (bi_currentFundingSompi i)), (''topUpSompi'', JStr (bi_topUpSompi i)),
      (''resultingFundingSompi'', JStr (bi_resultingFundingSompi i)),
      (''resultingExposureSompi'', JStr (bi_resultingExposureSompi i)),
      (''claimReserveSompi'', JStr (bi_claimReserveSompi i)),
      (''refundTimeoutDaa'', JStr (bi_refundTimeoutDaa i)),
      (''authoritativeCurrentDaa'', JStr (bi_authoritativeCurrentDaa i)),
      (''refundDistanceDaa'', JStr (bi_refundDistanceDaa i)),
      (''fundingSource'', JStr (bi_fundingSource i)), (''channelId'', nullable (bi_channelId i)),
      (''covenantId'', nullable (bi_covenantId i)), (''paymentIdentifier'', nullable (bi_paymentIdentifier i))]"

definition batchPaymentAuthorizationIntentPreimage :: "batch_intent \<Rightarrow> string res" where
  "batchPaymentAuthorizationIntentPreimage intent =
     (let snapshot = snapshotIntent intent in
      bindE (validateIntentForDigest snapshot) (\<lambda>_. stableStringify (intent_object (normalizedIntent snapshot))))"

definition batchPaymentAuthorizationIntentDigest :: "(byte list \<Rightarrow> byte list) \<Rightarrow> batch_intent \<Rightarrow> string res" where
  "batchPaymentAuthorizationIntentDigest sha intent =
     bindE (batchPaymentAuthorizationIntentPreimage intent) (\<lambda>t. Inr (sha256Hex sha (utf8Bytes t)))"

definition failAmount_if :: "bool \<Rightarrow> string \<Rightarrow> unit res" where
  "failAmount_if bad message = requireE_if bad Invalid_amount message"

definition failPolicy_if :: "bool \<Rightarrow> string \<Rightarrow> unit res" where
  "failPolicy_if bad message = requireE_if bad Invalid_payload message"

definition requireAllowed :: "string list \<Rightarrow> string \<Rightarrow> string \<Rightarrow> unit res" where
  "requireAllowed allowed value label = failPolicy_if (value \<notin> set allowed) (label @ '' is not payer-approved'')"

definition check_economics :: "intent_economics \<Rightarrow> unit res" where
  \<comment> \<open>the amounts of an intent against each other\<close>
  "check_economics e =
     bindE (failAmount_if (ie_fixedCharge e = 0) ''fixed charge must be positive'') (\<lambda>_.
     bindE (failAmount_if (ie_before e + ie_fixedCharge e \<noteq> ie_after e)
              ''authorized cumulative after must equal before plus fixed charge'') (\<lambda>_.
     bindE (failAmount_if (ie_before e < ie_claimed e)
              ''claimed cumulative amount cannot exceed prior authorization'') (\<lambda>_.
     bindE (failAmount_if (ie_claimed e + ie_resultingFunding e \<noteq> ie_resultingExposure e)
              ''resulting exposure must equal claimed cumulative amount plus resulting funding'') (\<lambda>_.
     bindE (failAmount_if (ie_resultingFunding e < ie_after e - ie_claimed e + ie_reserve e)
              ''resulting funding must cover remaining authorization plus claim reserve'') (\<lambda>_.
     bindE (failAmount_if (ie_timeout e \<le> ie_currentDaa e \<or> ie_timeout e - ie_currentDaa e \<noteq> ie_distance e)
              ''refund distance must equal a future timeout minus authoritative current DAA'') (\<lambda>_.
     case ie_errorCharge e of
       None \<Rightarrow> Inr ()
     | Some errorCharge \<Rightarrow>
         failAmount_if (errorCharge \<noteq> ie_fixedCharge e) ''MCP error charge must equal the fixed charge''))))))"

definition check_operation :: "string \<Rightarrow> intent_economics \<Rightarrow> unit res" where
  "check_operation operation e =
     (if operation = ''open''
      then failAmount_if (ie_initialDeposit e = 0 \<or> ie_currentFunding e \<noteq> 0 \<or> ie_topUp e \<noteq> 0
             \<or> ie_resultingFunding e \<noteq> ie_initialDeposit e \<or> ie_before e \<noteq> 0 \<or> ie_claimed e \<noteq> 0)
             ''open intent has inconsistent genesis funding or accounting''
      else if operation = ''charge''
      then failAmount_if (ie_initialDeposit e \<noteq> 0 \<or> ie_topUp e \<noteq> 0
             \<or> ie_resultingFunding e \<noteq> ie_currentFunding e)
             ''charge intent must preserve existing lane funding''
      else failAmount_if (ie_initialDeposit e \<noteq> 0 \<or> ie_topUp e = 0
             \<or> ie_currentFunding e + ie_topUp e \<noteq> ie_resultingFunding e)
             ''top-up intent has inconsistent funding delta'')"

definition check_caps :: "intent_economics \<Rightarrow> batch_policy \<Rightarrow> unit res" where
  "check_caps e policy =
     bindE (parseBatchLaneAmount (bl_maximumBatchChargeSompi policy) ''maximum batch charge'') (\<lambda>maximumCharge.
     bindE (parseBatchLaneAmount (bl_maximumInitialDepositSompi policy) ''maximum initial deposit'') (\<lambda>maximumInitialDeposit.
     bindE (parseBatchLaneAmount (bl_maximumTopUpSompi policy) ''maximum top-up'') (\<lambda>maximumTopUp.
     bindE (parseBatchLaneAmount (bl_maximumCumulativeAuthorizationSompi policy)
              ''maximum cumulative authorization'') (\<lambda>maximumCumulative.
     bindE (parseBatchLaneAmount (bl_maximumTotalExposureSompi policy) ''maximum total exposure'') (\<lambda>maximumExposure.
     bindE (parseBatchLaneAmount (bl_minimumRefundLeadDaa policy) ''minimum refund lead DAA'') (\<lambda>minimumLead.
     bindE (parseBatchLaneAmount (bl_maximumRefundHorizonDaa policy) ''maximum refund horizon DAA'') (\<lambda>maximumHorizon.
     bindE (failPolicy_if (maximumCharge < ie_fixedCharge e) ''fixed charge exceeds payer cap'') (\<lambda>_.
     bindE (failPolicy_if (maximumInitialDeposit < ie_initialDeposit e) ''initial deposit exceeds payer cap'') (\<lambda>_.
     bindE (failPolicy_if (maximumTopUp < ie_topUp e) ''top-up exceeds payer cap'') (\<lambda>_.
     bindE (failPolicy_if (maximumCumulative < ie_after e) ''cumulative authorization exceeds payer cap'') (\<lambda>_.
     bindE (failPolicy_if (maximumExposure < ie_resultingExposure e) ''total exposure exceeds payer cap'') (\<lambda>_.
     bindE (failPolicy_if (ie_distance e < minimumLead) ''refund timeout is below the payer minimum lead'') (\<lambda>_.
     failPolicy_if (maximumHorizon = 0 \<or> maximumHorizon \<le> ie_distance e)
       ''refund timeout reaches or exceeds the payer maximum horizon'')))))))))))))"

definition check_audience :: "batch_intent \<Rightarrow> batch_policy \<Rightarrow> unit res" where
  "check_audience intent policy =
     bindE (requireAllowed (bl_allowedOrigins policy) (bi_origin intent) ''origin'') (\<lambda>_.
     bindE (requireAllowed (bl_allowedResources policy) (bi_resource intent) ''resource'') (\<lambda>_.
     bindE (requireAllowed (bl_allowedPayTo policy) (bi_payTo intent) ''payee'') (\<lambda>_.
     bindE (requireAllowed (map to_lower (bl_allowedServerPublicKeys policy))
              (to_lower (bi_serverPublicKey intent)) ''server key'') (\<lambda>_.
     requireAllowed (bl_allowedFundingSources policy) (bi_fundingSource intent) ''funding source''))))"

definition validateBatchPaymentAuthorization :: "batch_intent \<Rightarrow> batch_policy \<Rightarrow> bool res" where
  "validateBatchPaymentAuthorization intent policy =
     (let snapshot = snapshotIntent intent in
      bindE (validateIntentForDigest snapshot) (\<lambda>e.
      bindE (check_economics e) (\<lambda>_.
      bindE (check_operation (bi_operation snapshot) e) (\<lambda>_.
      bindE (check_caps e policy) (\<lambda>_.
      bindE (check_audience snapshot policy) (\<lambda>_. Inr True))))))"

section \<open>What a validated intent says\<close>

lemma snapshotIntent_id [simp]: "snapshotIntent i = i"
  by (simp add: snapshotIntent_def)

lemma requireE_if_Inr [run_simps]: "requireE_if b c m = Inr u \<longleftrightarrow> \<not> b"
  by (simp add: requireE_if_def)

lemma failAmount_if_Inr [run_simps]: "failAmount_if b m = Inr u \<longleftrightarrow> \<not> b"
  by (simp add: failAmount_if_def run_simps)

lemma failPolicy_if_Inr [run_simps]: "failPolicy_if b m = Inr u \<longleftrightarrow> \<not> b"
  by (simp add: failPolicy_if_def run_simps)

lemma requireAllowed_Inr [run_simps]: "requireAllowed xs v l = Inr u \<longleftrightarrow> v \<in> set xs"
  by (simp add: requireAllowed_def run_simps)

definition script_int :: "int \<Rightarrow> bool" where
  "script_int v \<longleftrightarrow> 0 \<le> v \<and> v \<le> BATCH_SCRIPT_INT_MAX"

definition prints_economics :: "batch_intent \<Rightarrow> intent_economics \<Rightarrow> bool" where
  \<comment> \<open>the amounts of the intent are the decimal texts of these numbers\<close>
  "prints_economics i e \<longleftrightarrow>
     list_all (\<lambda>(t, v). t = int_to_string v \<and> script_int v)
       [(bi_fixedChargeSompi i, ie_fixedCharge e), (bi_authorizedCumulativeBefore i, ie_before e),
        (bi_authorizedCumulativeAfter i, ie_after e), (bi_claimedCumulativeAmount i, ie_claimed e),
        (bi_initialDepositSompi i, ie_initialDeposit e), (bi_currentFundingSompi i, ie_currentFunding e),
        (bi_topUpSompi i, ie_topUp e), (bi_resultingFundingSompi i, ie_resultingFunding e),
        (bi_resultingExposureSompi i, ie_resultingExposure e), (bi_claimReserveSompi i, ie_reserve e),
        (bi_refundTimeoutDaa i, ie_timeout e), (bi_authoritativeCurrentDaa i, ie_currentDaa e),
        (bi_refundDistanceDaa i, ie_distance e)]
     \<and> bi_mcpErrorChargeSompi i = map_option int_to_string (ie_errorCharge e)
     \<and> (\<forall>c. ie_errorCharge e = Some c \<longrightarrow> script_int c) \<and> ie_timeout e < KASPA_LOCK_TIME_THRESHOLD"

lemma validateIntentForDigest_Inr:
  "validateIntentForDigest i = Inr e \<longleftrightarrow> validateIntentShape i = Inr () \<and> prints_economics i e"
proof (cases "bi_mcpErrorChargeSompi i")
  case None
  then show ?thesis
    by (cases e) (auto simp: validateIntentForDigest_def run_simps prints_economics_def script_int_def)
next
  case (Some c)
  then show ?thesis
    by (cases e; cases "ie_errorCharge e")
      (auto simp: validateIntentForDigest_def run_simps prints_economics_def script_int_def)
qed


definition sound_economics :: "string \<Rightarrow> intent_economics \<Rightarrow> bool" where
  "sound_economics operation e \<longleftrightarrow>
     0 < ie_fixedCharge e \<and> ie_after e = ie_before e + ie_fixedCharge e \<and> ie_claimed e \<le> ie_before e
     \<and> ie_resultingExposure e = ie_claimed e + ie_resultingFunding e
     \<and> ie_after e - ie_claimed e + ie_reserve e \<le> ie_resultingFunding e
     \<and> ie_distance e = ie_timeout e - ie_currentDaa e \<and> 0 < ie_distance e
     \<and> ie_errorCharge e \<in> {None, Some (ie_fixedCharge e)}
     \<and> ie_resultingFunding e = ie_currentFunding e + ie_initialDeposit e + ie_topUp e
     \<and> (ie_initialDeposit e \<noteq> 0 \<longleftrightarrow> operation = ''open'')
     \<and> (ie_topUp e \<noteq> 0 \<longleftrightarrow> operation = ''top-up'')
     \<and> (operation = ''open'' \<longrightarrow> ie_currentFunding e = 0 \<and> ie_before e = 0 \<and> ie_claimed e = 0)"

definition within_caps :: "batch_policy \<Rightarrow> intent_economics \<Rightarrow> bool" where
  "within_caps policy e \<longleftrightarrow>
     (\<exists>charge deposit topUp cumulative exposure lead horizon.
        list_all (\<lambda>(t, v). t = int_to_string v \<and> script_int v)
          [(bl_maximumBatchChargeSompi policy, charge), (bl_maximumInitialDepositSompi policy, deposit),
           (bl_maximumTopUpSompi policy, topUp), (bl_maximumCumulativeAuthorizationSompi policy, cumulative),
           (bl_maximumTotalExposureSompi policy, exposure), (bl_minimumRefundLeadDaa policy, lead),
           (bl_maximumRefundHorizonDaa policy, horizon)]
        \<and> ie_fixedCharge e \<le> charge \<and> ie_initialDeposit e \<le> deposit \<and> ie_topUp e \<le> topUp
        \<and> ie_after e \<le> cumulative \<and> ie_resultingExposure e \<le> exposure
        \<and> lead \<le> ie_distance e \<and> ie_distance e < horizon)"

lemma shape_operation:
  "validateIntentShape i = Inr () \<Longrightarrow> bi_operation i \<in> {''open'', ''charge'', ''top-up''}"
  by (simp add: validateIntentShape_def run_simps)

lemma check_economics_Inr [run_simps]:
  "check_economics e = Inr () \<longleftrightarrow>
     ie_fixedCharge e \<noteq> 0 \<and> ie_after e = ie_before e + ie_fixedCharge e \<and> ie_claimed e \<le> ie_before e
     \<and> ie_resultingExposure e = ie_claimed e + ie_resultingFunding e
     \<and> ie_after e - ie_claimed e + ie_reserve e \<le> ie_resultingFunding e
     \<and> ie_distance e = ie_timeout e - ie_currentDaa e \<and> 0 < ie_distance e
     \<and> ie_errorCharge e \<in> {None, Some (ie_fixedCharge e)}"
  by (auto simp: check_economics_def run_simps split: option.splits)

lemma checked_economics:
  assumes "prints_economics i e" "bi_operation i \<in> {''open'', ''charge'', ''top-up''}"
  shows "check_economics e = Inr () \<and> check_operation (bi_operation i) e = Inr () \<longleftrightarrow>
     sound_economics (bi_operation i) e"
  using assms unfolding check_economics_Inr check_operation_def
  by (auto simp: sound_economics_def prints_economics_def script_int_def run_simps)

lemma check_caps_Inr: "0 \<le> ie_distance e \<Longrightarrow> check_caps e p = Inr () \<longleftrightarrow> within_caps p e"
  by (auto simp: check_caps_def within_caps_def run_simps script_int_def)

lemma validated_intent:
  "validateBatchPaymentAuthorization i p = Inr b \<longleftrightarrow>
     b \<and> validateIntentShape i = Inr () \<and> check_audience i p = Inr ()
     \<and> (\<exists>e. prints_economics i e \<and> sound_economics (bi_operation i) e \<and> within_caps p e)"
  (is "?L \<longleftrightarrow> ?R")
proof
  assume ?L
  then obtain e where e: "validateIntentShape i = Inr ()" "prints_economics i e" "check_economics e = Inr ()"
    "check_operation (bi_operation i) e = Inr ()" "check_caps e p = Inr ()" "check_audience i p = Inr ()" "b"
    by (auto simp: validateBatchPaymentAuthorization_def bindE_Inr validateIntentForDigest_Inr)
  then have "sound_economics (bi_operation i) e" using checked_economics [of i e] shape_operation by blast
  moreover from this have "0 \<le> ie_distance e" by (simp add: sound_economics_def)
  ultimately show ?R using e check_caps_Inr by blast
next
  assume ?R
  then obtain e where e: "validateIntentShape i = Inr ()" "prints_economics i e"
    "sound_economics (bi_operation i) e" "within_caps p e" "check_audience i p = Inr ()" "b" by blast
  then have "check_economics e = Inr ()" "check_operation (bi_operation i) e = Inr ()"
    using checked_economics [of i e] shape_operation by blast+
  moreover have "check_caps e p = Inr ()"
    using e check_caps_Inr by (simp add: sound_economics_def)
  ultimately show ?L
    using e by (auto simp: validateBatchPaymentAuthorization_def bindE_Inr validateIntentForDigest_Inr)
qed

section \<open>The life of an authorised lane\<close>

definition authorized_lane :: "batch_intent \<Rightarrow> batch_lane_state" where
  \<comment> \<open>the lane once the intent has been carried out\<close>
  "authorized_lane i = \<lparr>fundingAmount = bi_resultingFundingSompi i,
     chargedCumulativeAmount = bi_authorizedCumulativeAfter i,
     claimedCumulativeAmount = bi_claimedCumulativeAmount i,
     signedMaxClaimable = bi_authorizedCumulativeAfter i\<rparr>"

definition continues_lane :: "batch_lane_state \<Rightarrow> batch_intent \<Rightarrow> bool" where
  "continues_lane lane i \<longleftrightarrow> bi_operation i \<noteq> ''open''
     \<and> bi_currentFundingSompi i = fundingAmount lane
     \<and> bi_authorizedCumulativeBefore i = signedMaxClaimable lane
     \<and> bi_claimedCumulativeAmount i = claimedCumulativeAmount lane"

definition paid_in :: "batch_intent \<Rightarrow> nat" where
  \<comment> \<open>what the payer locks for this intent\<close>
  "paid_in i = dec_val (bi_initialDepositSompi i) + dec_val (bi_topUpSompi i)"

inductive authorized_run :: "batch_policy \<Rightarrow> batch_lane_state \<Rightarrow> nat \<Rightarrow> bool" for policy where
  open_lane: "validateBatchPaymentAuthorization i policy = Inr True \<Longrightarrow> bi_operation i = ''open''
    \<Longrightarrow> authorized_run policy (authorized_lane i) (paid_in i)"
| pay: "authorized_run policy lane paid \<Longrightarrow> validateBatchPaymentAuthorization i policy = Inr True
    \<Longrightarrow> continues_lane lane i \<Longrightarrow> authorized_run policy (authorized_lane i) (paid + paid_in i)"
| claim: "authorized_run policy lane paid \<Longrightarrow> applyBatchClaimAccounting lane amount = Inr lane'
    \<Longrightarrow> authorized_run policy lane' paid"


definition lane_of :: "intent_economics \<Rightarrow> lane" where
  "lane_of e = \<lparr>funded = ie_resultingFunding e, charged = ie_after e, claimed = ie_claimed e, signed = ie_after e\<rparr>"

definition lane_capped :: "batch_policy \<Rightarrow> lane \<Rightarrow> nat \<Rightarrow> bool" where
  "lane_capped policy l paid \<longleftrightarrow> lane_ok l \<and> funded l + claimed l = int paid \<and> charged l = signed l
     \<and> paid \<le> dec_val (bl_maximumTotalExposureSompi policy)
     \<and> nat (signed l) \<le> dec_val (bl_maximumCumulativeAuthorizationSompi policy)"

lemma authorized_lane_print:
  "prints_economics i e \<Longrightarrow> authorized_lane i = print_lane (lane_of e)"
  by (simp add: authorized_lane_def print_lane_def lane_of_def prints_economics_def)

lemma paid_in_economics:
  "prints_economics i e \<Longrightarrow> int (paid_in i) = ie_initialDeposit e + ie_topUp e"
  by (simp add: paid_in_def prints_economics_def script_int_def)

lemma caps_exposure:
  assumes "within_caps policy e"
  shows "nat (ie_resultingExposure e) \<le> dec_val (bl_maximumTotalExposureSompi policy)"
    "nat (ie_after e) \<le> dec_val (bl_maximumCumulativeAuthorizationSompi policy)"
  using assms by (auto simp: within_caps_def script_int_def)

lemma sound_lane_capped:
  assumes "prints_economics i e" "sound_economics op e" "within_caps policy e"
    and "int paid = ie_resultingExposure e"
  shows "lane_capped policy (lane_of e) paid"
  using assms caps_exposure [of policy e]
  by (auto simp: lane_capped_def lane_ok_def lane_of_def sound_economics_def prints_economics_def script_int_def)

lemma authorized_run_capped:
  "authorized_run policy lane paid \<Longrightarrow> \<exists>l. lane = print_lane l \<and> lane_capped policy l paid"
proof (induction rule: authorized_run.induct)
  case (open_lane i)
  then obtain e where e: "prints_economics i e" "sound_economics ''open'' e" "within_caps policy e"
    by (auto simp: validated_intent)
  have "int (paid_in i) = ie_resultingExposure e"
    using e by (simp add: paid_in_economics sound_economics_def)
  then have "lane_capped policy (lane_of e) (paid_in i)" using e by (intro sound_lane_capped)
  then show ?case using e authorized_lane_print by blast
next
  case (pay lane paid i)
  then obtain l e where l: "lane = print_lane l" "lane_capped policy l paid"
    and e: "prints_economics i e" "sound_economics (bi_operation i) e" "within_caps policy e"
    by (auto simp: validated_intent)
  have "ie_currentFunding e = funded l" "ie_claimed e = claimed l" "ie_initialDeposit e = 0"
    using pay.hyps(3) l e
    by (auto simp: continues_lane_def print_lane_def prints_economics_def sound_economics_def)
  then have "int (paid + paid_in i) = ie_resultingExposure e"
    using l e by (simp add: paid_in_economics sound_economics_def lane_capped_def)
  then have "lane_capped policy (lane_of e) (paid + paid_in i)" using e by (intro sound_lane_capped)
  then show ?case using e authorized_lane_print by blast
next
  case (claim lane paid amount lane')
  then obtain l where l: "lane = print_lane l" "lane_capped policy l paid" by blast
  then have ok: "lane_ok l" by (simp add: lane_capped_def)
  with claim.hyps(2) l obtain c where c: "0 < c" "c \<le> charged l - claimed l" "c < funded l"
    and lane': "lane' = print_lane (claim_lane l c)"
    by (auto simp: applyBatchClaimAccounting_lane)
  have "lane_ok (claim_lane l c)" using ok c by (intro claim_lane_ok) auto
  then show ?case using l lane' by (auto simp: lane_capped_def claim_lane_def)
qed

text \<open>C23. A payer whose client acts only on validated intents never has more at stake than the policy
  says. However a lane is opened, charged and topped up, and whatever the server claims in between,
  the lane passes its accounting, what it holds and what was claimed are exactly what the payer has
  paid in, that sum is within the exposure limit, and the vouchers signed so far are covered by it
  and within the limit on authorisations.\<close>

theorem authorized_exposure_bounded:
  assumes "authorized_run policy lane paid"
  shows "lane_valid lane
    \<and> dec_val (fundingAmount lane) + dec_val (claimedCumulativeAmount lane) = paid
    \<and> paid \<le> dec_val (bl_maximumTotalExposureSompi policy)
    \<and> dec_val (signedMaxClaimable lane)
        \<le> min paid (dec_val (bl_maximumCumulativeAuthorizationSompi policy))"
proof -
  obtain l where l: "lane = print_lane l" "lane_capped policy l paid"
    using authorized_run_capped [OF assms] by blast
  then have n: "0 \<le> funded l" "0 \<le> claimed l" "0 \<le> signed l" "signed l - claimed l \<le> funded l"
    by (auto simp: lane_capped_def lane_ok_def)
  have "lane_valid lane" using l by (auto simp: lane_valid_iff lane_capped_def)
  then show ?thesis using l n by (auto simp: print_lane_def lane_capped_def)
qed

section \<open>Binding\<close>

lemma nullable_canon: "canon (nullable a) = canon (nullable b) \<longleftrightarrow> a = b"
  by (auto simp: nullable_def split: option.splits)

lemma wf_intent_object: "wf_js (intent_object i)"
  by (simp add: intent_object_def nullable_def split: option.splits)

lemma intent_object_inject:
  assumes "canon (intent_object i) = canon (intent_object j)"
  shows "i = j"
  using canon_fixed_keys [OF assms [unfolded intent_object_def]]
  by (intro batch_intent.equality) (simp_all add: nullable_canon)

definition intent_hashed :: "batch_intent \<Rightarrow> byte list list" where
  "intent_hashed i = [utf8Bytes (stableJson (intent_object (normalizedIntent i)))]"

text \<open>C24. The digest of an intent binds all of its thirty fields: two intents with the same digest are the
  same payment on the same lane for the same request (keys and hashes up to case), or their two
  preimages are different texts with the same SHA-256 digest.\<close>

theorem intent_digest_binds:
  assumes "batchPaymentAuthorizationIntentDigest sha i = Inr d" "batchPaymentAuthorizationIntentDigest sha j = Inr d"
  shows "normalizedIntent i = normalizedIntent j \<or> collision_in sha (intent_hashed i @ intent_hashed j)"
proof (cases "collision_in sha (intent_hashed i @ intent_hashed j)")
  case False
  from assms have "sha (utf8Bytes (stableJson (intent_object (normalizedIntent i))))
      = sha (utf8Bytes (stableJson (intent_object (normalizedIntent j))))"
    by (auto simp: batchPaymentAuthorizationIntentDigest_def batchPaymentAuthorizationIntentPreimage_def
        bindE_Inr sha256Hex_def dest!: stableStringify_Inr)
  then have "stableJson (intent_object (normalizedIntent i)) = stableJson (intent_object (normalizedIntent j))"
    using False by (intro preimage_eq [where sha = sha]) (simp_all add: intent_hashed_def)
  then show ?thesis
    using intent_object_inject wf_intent_object by (metis canonical_text_iff)
qed simp


section \<open>A concrete lane\<close>

definition example_policy :: batch_policy where
  "example_policy = \<lparr>bl_maximumBatchChargeSompi = int_to_string 10, bl_maximumInitialDepositSompi = int_to_string 100,
     bl_maximumTopUpSompi = int_to_string 50, bl_maximumCumulativeAuthorizationSompi = int_to_string 120,
     bl_maximumTotalExposureSompi = int_to_string 150, bl_minimumRefundLeadDaa = int_to_string 5, bl_maximumRefundHorizonDaa = int_to_string 1000,
     bl_allowedOrigins = [''https://shop''], bl_allowedResources = [''/item''], bl_allowedPayTo = [''kaspa:m''],
     bl_allowedServerPublicKeys = [replicate 64 (CHR ''A'')], bl_allowedFundingSources = [''hot-wallet'']\<rparr>"

definition open_intent :: batch_intent where
  "open_intent = \<lparr>bi_scope = BATCH_PAYMENT_INTENT_SCOPE, bi_operation = ''open'', bi_origin = ''https://shop'',
     bi_resource = ''/item'', bi_network = ''kaspa:testnet-10'', bi_asset = ''KAS'', bi_payTo = ''kaspa:m'',
     bi_serverPublicKey = replicate 64 (CHR ''a''), bi_clientPublicKey = None,
     bi_requestFingerprint = replicate 64 (CHR ''b''), bi_acceptedRequirementsHash = replicate 64 (CHR ''c''),
     bi_securityContextHash = replicate 64 (CHR ''d''), bi_fixedChargeSompi = int_to_string 10,
     bi_mcpErrorChargeSompi = Some (int_to_string 10), bi_authorizedCumulativeBefore = int_to_string 0,
     bi_authorizedCumulativeAfter = int_to_string 10, bi_claimedCumulativeAmount = int_to_string 0, bi_initialDepositSompi = int_to_string 100,
     bi_currentFundingSompi = int_to_string 0, bi_topUpSompi = int_to_string 0, bi_resultingFundingSompi = int_to_string 100,
     bi_resultingExposureSompi = int_to_string 100, bi_claimReserveSompi = int_to_string 20, bi_refundTimeoutDaa = int_to_string 900,
     bi_authoritativeCurrentDaa = int_to_string 400, bi_refundDistanceDaa = int_to_string 500, bi_fundingSource = ''hot-wallet'',
     bi_channelId = None, bi_covenantId = None, bi_paymentIdentifier = None\<rparr>"

definition topup_intent :: batch_intent where
  "topup_intent = open_intent\<lparr>bi_operation := ''top-up'', bi_clientPublicKey := Some (replicate 64 (CHR ''e'')),
     bi_authorizedCumulativeBefore := int_to_string 10, bi_authorizedCumulativeAfter := int_to_string 20,
     bi_claimedCumulativeAmount := int_to_string 4, bi_initialDepositSompi := int_to_string 0, bi_currentFundingSompi := int_to_string 96,
     bi_topUpSompi := int_to_string 50, bi_resultingFundingSompi := int_to_string 146, bi_resultingExposureSompi := int_to_string 150,
     bi_channelId := Some (replicate 64 (CHR ''f'')), bi_covenantId := Some (replicate 64 (CHR ''1''))\<rparr>"

definition open_economics :: intent_economics where
  "open_economics = \<lparr>ie_fixedCharge = 10, ie_before = 0, ie_after = 10, ie_claimed = 0, ie_initialDeposit = 100,
     ie_currentFunding = 0, ie_topUp = 0, ie_resultingFunding = 100, ie_resultingExposure = 100, ie_reserve = 20,
     ie_timeout = 900, ie_currentDaa = 400, ie_distance = 500, ie_errorCharge = Some 10\<rparr>"

definition topup_economics :: intent_economics where
  "topup_economics = open_economics\<lparr>ie_before := 10, ie_after := 20, ie_claimed := 4, ie_initialDeposit := 0,
     ie_currentFunding := 96, ie_topUp := 50, ie_resultingFunding := 146, ie_resultingExposure := 150\<rparr>"

lemmas lane_examples = example_policy_def open_intent_def topup_intent_def open_economics_def topup_economics_def

lemma example_hash: "is_hex c \<Longrightarrow> intent_hash32 (replicate 64 c) l = Inr ()"
  using hex32_replicate [of c] by (simp add: intent_hash32_def bindE_Inr hexToBytes_Inr hex32_def)

lemma example_nonzero: "intent_nonZeroHash32 (replicate 64 (CHR ''1'')) l = Inr ()"
proof -
  have "\<not> list_all (\<lambda>b. b = 0) (hex_decode (replicate 64 (CHR ''1'')))" "is_hex (CHR ''1'')" by code_simp+
  then show ?thesis
    using hex32_replicate [of "CHR ''1''"]
    by (simp add: intent_nonZeroHash32_def bindE_Inr hexToBytes_Inr hex32_def)
qed

lemma example_shapes: "validateIntentShape open_intent = Inr ()" "validateIntentShape topup_intent = Inr ()"
  by (simp_all add: validateIntentShape_def lane_examples requireE_if_def for_some_def requireExistingLane_def
      example_hash example_hex example_nonzero)

lemma example_caps: "within_caps example_policy open_economics" "within_caps example_policy topup_economics"
  unfolding within_caps_def
  by (rule exI [of _ 10], rule exI [of _ 100], rule exI [of _ 50], rule exI [of _ 120], rule exI [of _ 150],
      rule exI [of _ 5], rule exI [of _ 1000], simp add: lane_examples script_int_def BATCH_SCRIPT_INT_MAX_def)+

lemma example_audience:
  "check_audience open_intent example_policy = Inr ()" "check_audience topup_intent example_policy = Inr ()"
proof -
  have "to_lower (replicate 64 (CHR ''a'')) = to_lower (replicate 64 (CHR ''A''))" by code_simp
  then show "check_audience open_intent example_policy = Inr ()" "check_audience topup_intent example_policy = Inr ()"
    by (simp_all add: check_audience_def lane_examples run_simps)
qed

lemma example_intents_valid:
  "validateBatchPaymentAuthorization open_intent example_policy = Inr True"
  "validateBatchPaymentAuthorization topup_intent example_policy = Inr True"
proof -
  have "prints_economics open_intent open_economics" "prints_economics topup_intent topup_economics"
    "sound_economics (bi_operation open_intent) open_economics"
    "sound_economics (bi_operation topup_intent) topup_economics"
    by (simp_all add: prints_economics_def sound_economics_def lane_examples script_int_def
        BATCH_SCRIPT_INT_MAX_def KASPA_LOCK_TIME_THRESHOLD_def)
  then show "validateBatchPaymentAuthorization open_intent example_policy = Inr True"
    "validateBatchPaymentAuthorization topup_intent example_policy = Inr True"
    using example_shapes example_caps example_audience validated_intent by blast+
qed

definition claimed_lane :: batch_lane_state where
  "claimed_lane = \<lparr>fundingAmount = int_to_string 96, chargedCumulativeAmount = int_to_string 10,
     claimedCumulativeAmount = int_to_string 4, signedMaxClaimable = int_to_string 10\<rparr>"

lemma example_claim: "applyBatchClaimAccounting (authorized_lane open_intent) (int_to_string 4) = Inr claimed_lane"
proof -
  let ?l = "\<lparr>funded = 100, charged = 10, claimed = 0, signed = 10\<rparr>"
  have "authorized_lane open_intent = print_lane ?l"
    by (simp add: authorized_lane_def print_lane_def open_intent_def)
  moreover have "applyBatchClaimAccounting (print_lane ?l) (int_to_string 4) = Inr claimed_lane"
    by (subst applyBatchClaimAccounting_lane)
      (auto simp: lane_ok_def BATCH_SCRIPT_INT_MAX_def claimed_lane_def print_lane_def claim_lane_def)
  ultimately show ?thesis by simp
qed

theorem authorized_exposure_bounded_witness:
  "authorized_run example_policy (authorized_lane topup_intent) 150
   \<and> dec_val (fundingAmount (authorized_lane topup_intent))
       + dec_val (claimedCumulativeAmount (authorized_lane topup_intent)) = 150"
proof -
  have "authorized_run example_policy (authorized_lane open_intent) (paid_in open_intent)"
    using example_intents_valid(1) by (rule open_lane) (simp add: open_intent_def)
  then have "authorized_run example_policy claimed_lane (paid_in open_intent)"
    using example_claim by (rule claim)
  then have "authorized_run example_policy (authorized_lane topup_intent) (paid_in open_intent + paid_in topup_intent)"
    using example_intents_valid(2)
    by (rule pay) (simp add: continues_lane_def claimed_lane_def topup_intent_def open_intent_def)
  moreover have "paid_in open_intent + paid_in topup_intent = 150"
    by (simp add: paid_in_def lane_examples)
  ultimately have run: "authorized_run example_policy (authorized_lane topup_intent) 150" by simp
  show ?thesis using run authorized_exposure_bounded [OF run] by blast
qed

lemma open_intent_digest: "\<exists>d. batchPaymentAuthorizationIntentDigest fold_sha open_intent = Inr d"
proof -
  let ?v = "intent_object (normalizedIntent open_intent)"
  note ev = intent_object_def normalizedIntent_def open_intent_def nullable_def BATCH_PAYMENT_INTENT_SCOPE_def
  have "stableStringify ?v = Inr (stableJson ?v)"
  proof (rule stableStringify_small)
    show "fits KASPA_X402_RESOURCE_BUDGET 0 None ?v"
      by (simp add: ev KASPA_X402_RESOURCE_BUDGET_def object_limit_def string_limit_def
          ARTIFACT_FIELDS_def utf8ByteLength_le [THEN le_trans] int_to_string_def nat_to_string.simps)
    show "size_bound ?v \<le> 98304" "value_nodes ?v \<le> 4096" "value_work ?v \<le> 8191"
      by (simp_all add: ev int_to_string_def nat_to_string.simps)
  qed
  moreover have "\<exists>e. validateIntentForDigest open_intent = Inr e"
    using example_intents_valid(1) by (auto simp: validateBatchPaymentAuthorization_def bindE_Inr)
  ultimately show ?thesis
    by (auto simp: batchPaymentAuthorizationIntentDigest_def batchPaymentAuthorizationIntentPreimage_def bindE_Inr)
qed

theorem intent_digest_binds_witness:
  "\<exists>d. batchPaymentAuthorizationIntentDigest fold_sha open_intent = Inr d \<and>
     (normalizedIntent open_intent = normalizedIntent open_intent
      \<or> collision_in fold_sha (intent_hashed open_intent @ intent_hashed open_intent))"
proof -
  obtain d where d: "batchPaymentAuthorizationIntentDigest fold_sha open_intent = Inr d"
    using open_intent_digest by blast
  show ?thesis using d intent_digest_binds [OF d d] by blast
qed

end
