(* ===== verification/Chain_Evidence.thy ===== *)
theory Chain_Evidence
  imports Batch_Ids
begin

text \<open>
  Chain evidence: the first part of \<^verbatim>\<open>core/src/chain-truth.ts\<close>. Adapters report objective
  evidence about a transaction; \<open>decideChainEvidence\<close> turns it into the decisions accepted,
  confirmed, absent or unknown under the deployment's confirmation threshold.
\<close>

section \<open>Data\<close>

record chain_checkpoint =
  cp_blockHash :: string
  cp_blueScore :: string
  cp_daaScore :: string

record accepted_evidence =
  ae_transactionId :: string
  ae_acceptingBlockHash :: string
  ae_acceptingBlockBlueScore :: string
  ae_confirmationCount :: js_number
  ae_checkpoint :: chain_checkpoint

datatype absence_proof =
    ConflictingSpend funding_outpoint accepted_evidence
  | ConsensusRejection string string chain_checkpoint
    \<comment> \<open>the rejected transaction, the rejection code and the checkpoint\<close>

datatype transaction_evidence =
    AcceptedEvidence accepted_evidence
  | AbsentEvidence string string absence_proof
  | UnknownEvidence string string "chain_checkpoint option"
    \<comment> \<open>the transaction, the reason and what supports it\<close>

datatype evidence_decision =
    DecidedAccepted accepted_evidence
  | DecidedConfirmed accepted_evidence
  | DecidedAbsent string string absence_proof
  | DecidedUnknown string string "chain_checkpoint option"

section \<open>Checks\<close>

definition assertHash32 :: "string \<Rightarrow> string \<Rightarrow> bool \<Rightarrow> unit res" where
  "assertHash32 value label nonzero =
     (if \<not> is_hash32 value \<or> (nonzero \<and> is_zero_hash32 value)
      then Inl (JsError (label @ '' must be '' @ (if nonzero then ''non-zero '' else []) @ ''32-byte hex''))
      else Inr ())"

definition assertByteHex :: "string \<Rightarrow> string \<Rightarrow> unit res" where
  "assertByteHex value label =
     (if is_byte_hex value then Inr () else Inl (JsError (label @ '' must be non-empty byte hex'')))"

definition safe_index :: "js_number \<Rightarrow> bool" where
  "safe_index n = in_range n 0 0xffffffff"

definition assertOutpoint :: "funding_outpoint \<Rightarrow> string \<Rightarrow> unit res" where
  "assertOutpoint outpoint label =
     bindE (assertHash32 (op_txid outpoint) (label @ '' transaction id'') False) (\<lambda>_.
     if safe_index (op_index outpoint) then Inr ()
     else Inl (JsError (label @ '' index is invalid'')))"

definition assertCheckpoint :: "chain_checkpoint \<Rightarrow> unit res" where
  "assertCheckpoint checkpoint =
     bindE (assertHash32 (cp_blockHash checkpoint) ''chain checkpoint block hash'' False) (\<lambda>_.
     bindE (parseSompiString (cp_blueScore checkpoint)) (\<lambda>_.
     bindE (parseSompiString (cp_daaScore checkpoint)) (\<lambda>_. Inr ())))"

definition positive_safe :: "js_number \<Rightarrow> bool" where
  "positive_safe n = (case n of JsInt i \<Rightarrow> 1 \<le> i \<and> i \<le> MAX_SAFE_INTEGER | _ \<Rightarrow> False)"

definition assertConfirmationThreshold :: "js_number \<Rightarrow> unit res" where
  "assertConfirmationThreshold value =
     (if positive_safe value then Inr ()
      else Inl (JsError ''confirmation threshold must be a positive safe integer''))"

definition sameCheckpoint :: "chain_checkpoint \<Rightarrow> chain_checkpoint \<Rightarrow> bool" where
  "sameCheckpoint left right =
     (to_lower (cp_blockHash left) = to_lower (cp_blockHash right)
      \<and> cp_blueScore left = cp_blueScore right \<and> cp_daaScore left = cp_daaScore right)"

definition assertAcceptedEvidence :: "accepted_evidence \<Rightarrow> unit res" where
  "assertAcceptedEvidence evidence =
     bindE (assertHash32 (ae_transactionId evidence) ''accepted transaction id'' False) (\<lambda>_.
     bindE (assertHash32 (ae_acceptingBlockHash evidence) ''accepting block hash'' False) (\<lambda>_.
     bindE (assertCheckpoint (ae_checkpoint evidence)) (\<lambda>_.
     bindE (parseSompiString (ae_acceptingBlockBlueScore evidence)) (\<lambda>acceptingBlueScore.
     bindE (parseSompiString (cp_blueScore (ae_checkpoint evidence))) (\<lambda>checkpointBlueScore.
     if \<not> positive_safe (ae_confirmationCount evidence) \<or> checkpointBlueScore < acceptingBlueScore
     then Inl (JsError ''accepted transaction confirmation evidence is inconsistent'')
     else if to_lower (ae_acceptingBlockHash evidence) = to_lower (cp_blockHash (ae_checkpoint evidence))
             \<and> (acceptingBlueScore \<noteq> checkpointBlueScore \<or> ae_confirmationCount evidence \<noteq> JsInt 1)
     then Inl (JsError ''accepting block cannot differ from its identical checkpoint'')
     else Inr ())))))"

definition is_rejection_code :: "string \<Rightarrow> bool" where
  \<comment> \<open>\<open>/^[A-Z0-9_]{3,64}$/\<close>\<close>
  "is_rejection_code s = (3 \<le> length s \<and> length s \<le> 64
     \<and> list_all (\<lambda>c. 65 \<le> code c \<and> code c \<le> 90 \<or> is_digit c \<or> c = CHR ''_'') s)"

fun reached :: "js_number \<Rightarrow> js_number \<Rightarrow> bool" where
  \<comment> \<open>\<open>count >= required\<close> on integers\<close>
  "reached (JsInt count) (JsInt required) = (required \<le> count)"
| "reached _ _ = False"

definition decide_accepted :: "accepted_evidence \<Rightarrow> js_number \<Rightarrow> evidence_decision res" where
  "decide_accepted evidence requiredConfirmations =
     bindE (assertAcceptedEvidence evidence) (\<lambda>_.
     Inr (if reached (ae_confirmationCount evidence) requiredConfirmations
          then DecidedConfirmed evidence else DecidedAccepted evidence))"

definition assertAbsentEvidence :: "string \<Rightarrow> string \<Rightarrow> absence_proof \<Rightarrow> js_number \<Rightarrow> unit res" where
  "assertAbsentEvidence transactionId reason proof requiredConfirmations =
     (if blank reason then Inl (JsError ''absent chain evidence requires a reason'')
      else case proof of
        ConflictingSpend spentOutpoint conflicting \<Rightarrow>
          bindE (assertOutpoint spentOutpoint ''conflicting spent outpoint'') (\<lambda>_.
          bindE (assertConfirmationThreshold requiredConfirmations) (\<lambda>_.
          bindE (assertHash32 (ae_transactionId conflicting) ''transaction evidence id'' False) (\<lambda>_.
          bindE (decide_accepted conflicting requiredConfirmations) (\<lambda>decision.
          if (case decision of DecidedConfirmed _ \<Rightarrow> False | _ \<Rightarrow> True)
             \<or> to_lower (ae_transactionId conflicting) = to_lower transactionId
          then Inl (JsError ''absent evidence needs a distinct confirmed conflicting spend'')
          else Inr ()))))
      | ConsensusRejection rejected rejectionCode checkpoint \<Rightarrow>
          bindE (assertHash32 rejected ''consensus rejected transaction id'' False) (\<lambda>_.
          if to_lower rejected \<noteq> to_lower transactionId
          then Inl (JsError ''consensus rejection is not bound to the absent transaction'')
          else if \<not> is_rejection_code rejectionCode
          then Inl (JsError ''consensus rejection evidence requires a stable rejection code'')
          else assertCheckpoint checkpoint))"

definition evidence_transaction :: "transaction_evidence \<Rightarrow> string" where
  "evidence_transaction evidence = (case evidence of AcceptedEvidence e \<Rightarrow> ae_transactionId e
     | AbsentEvidence t _ _ \<Rightarrow> t | UnknownEvidence t _ _ \<Rightarrow> t)"

definition decideChainEvidence :: "transaction_evidence \<Rightarrow> js_number \<Rightarrow> evidence_decision res" where
  "decideChainEvidence evidence requiredConfirmations =
     bindE (assertConfirmationThreshold requiredConfirmations) (\<lambda>_.
     bindE (assertHash32 (evidence_transaction evidence) ''transaction evidence id'' False) (\<lambda>_.
     case evidence of
       AcceptedEvidence e \<Rightarrow> decide_accepted e requiredConfirmations
     | AbsentEvidence t reason proof \<Rightarrow>
         bindE (assertAbsentEvidence t reason proof requiredConfirmations) (\<lambda>_.
         Inr (DecidedAbsent t reason proof))
     | UnknownEvidence t reason checkpoint \<Rightarrow>
         if blank reason then Inl (JsError ''unknown chain evidence requires a reason'')
         else bindE (case checkpoint of None \<Rightarrow> Inr () | Some c \<Rightarrow> assertCheckpoint c) (\<lambda>_.
           Inr (DecidedUnknown t reason checkpoint))))"

section \<open>What a decision means\<close>

lemmas evidence_checks = assertHash32_def assertOutpoint_def assertCheckpoint_def
  assertConfirmationThreshold_def assertAcceptedEvidence_def

lemma confirmed_iff:
  "decide_accepted e n = Inr (DecidedConfirmed e') \<longleftrightarrow>
     e' = e \<and> assertAcceptedEvidence e = Inr () \<and> reached (ae_confirmationCount e) n"
  by (auto simp: decide_accepted_def run_simps)

lemma decide_accepted_cases:
  "decide_accepted e n = Inr d \<longleftrightarrow> assertAcceptedEvidence e = Inr () \<and>
     d = (if reached (ae_confirmationCount e) n then DecidedConfirmed e else DecidedAccepted e)"
  by (auto simp: decide_accepted_def run_simps)

lemma accepted_counts:
  assumes "assertAcceptedEvidence e = Inr ()"
  shows "\<exists>count accepting tip. ae_confirmationCount e = JsInt count \<and> 1 \<le> count
     \<and> parseSompiString (ae_acceptingBlockBlueScore e) = Inr accepting
     \<and> parseSompiString (cp_blueScore (ae_checkpoint e)) = Inr tip \<and> accepting \<le> tip
     \<and> (to_lower (ae_acceptingBlockHash e) = to_lower (cp_blockHash (ae_checkpoint e)) \<longrightarrow>
          count = 1 \<and> accepting = tip)"
  using assms by (auto simp: assertAcceptedEvidence_def run_simps positive_safe_def split: js_number.splits)

lemma confirmed_decision:
  "decideChainEvidence evidence (JsInt required) = Inr (DecidedConfirmed e) \<longleftrightarrow>
     evidence = AcceptedEvidence e \<and> 1 \<le> required \<and> required \<le> MAX_SAFE_INTEGER
     \<and> is_hash32 (ae_transactionId e) \<and> assertAcceptedEvidence e = Inr ()
     \<and> (\<exists>count. ae_confirmationCount e = JsInt count \<and> required \<le> count)"
proof -
  have "reached n (JsInt required) \<longleftrightarrow> (\<exists>count. n = JsInt count \<and> required \<le> count)" for n
    by (cases n) auto
  then show ?thesis
    by (cases evidence)
      (auto simp: decideChainEvidence_def run_simps confirmed_iff assertConfirmationThreshold_def
        positive_safe_def assertHash32_def evidence_transaction_def split: if_splits)
qed

text \<open>A transaction is decided to be confirmed exactly when the evidence is acceptance evidence
  that passes every check and counts at least the required number of confirmations; the decision
  carries that evidence unchanged.\<close>

theorem confirmed_decision_exact:
  "decideChainEvidence evidence (JsInt required) = Inr (DecidedConfirmed e) \<longleftrightarrow>
     evidence = AcceptedEvidence e \<and> 1 \<le> required \<and> required \<le> MAX_SAFE_INTEGER
     \<and> is_hash32 (ae_transactionId e) \<and> assertAcceptedEvidence e = Inr ()
     \<and> (\<exists>count. ae_confirmationCount e = JsInt count \<and> required \<le> count)"
  by (rule confirmed_decision)

text \<open>A transaction is decided to be absent only on positive evidence: a different transaction
  that spends the outpoint and has itself the required confirmations, or a consensus rejection that
  names this transaction. Missing data never counts as absence.\<close>

theorem absence_needs_evidence:
  assumes "decideChainEvidence evidence (JsInt required) = Inr (DecidedAbsent t reason evid)"
  shows "\<not> blank reason \<and>
    (case evid of
       ConflictingSpend spent e \<Rightarrow>
         to_lower (ae_transactionId e) \<noteq> to_lower t \<and> assertAcceptedEvidence e = Inr ()
         \<and> (\<exists>count. ae_confirmationCount e = JsInt count \<and> required \<le> count)
     | ConsensusRejection rejected rejectionCode checkpoint \<Rightarrow>
         to_lower rejected = to_lower t \<and> is_rejection_code rejectionCode \<and> assertCheckpoint checkpoint = Inr ())"
proof -
  have absent: "assertAbsentEvidence t reason evid (JsInt required) = Inr ()"
    using assms by (cases evidence)
      (auto simp: decideChainEvidence_def run_simps decide_accepted_cases split: if_splits)
  show ?thesis
  proof (cases evid)
    case (ConflictingSpend spent e)
    with absent have "assertAcceptedEvidence e = Inr ()" "reached (ae_confirmationCount e) (JsInt required)"
      "to_lower (ae_transactionId e) \<noteq> to_lower t" "\<not> blank reason"
      by (auto simp: assertAbsentEvidence_def run_simps decide_accepted_cases split: if_splits)
    with ConflictingSpend show ?thesis
      by (cases "ae_confirmationCount e") auto
  next
    case (ConsensusRejection rejected rejectionCode checkpoint)
    with absent show ?thesis
      by (auto simp: assertAbsentEvidence_def run_simps)
  qed
qed

definition example_checkpoint :: chain_checkpoint where
  "example_checkpoint = \<lparr>cp_blockHash = replicate 64 (CHR ''a''), cp_blueScore = ''100'', cp_daaScore = ''100''\<rparr>"

definition example_acceptance :: "char \<Rightarrow> char \<Rightarrow> accepted_evidence" where
  "example_acceptance tx block = \<lparr>ae_transactionId = replicate 64 tx, ae_acceptingBlockHash = replicate 64 block,
     ae_acceptingBlockBlueScore = ''90'', ae_confirmationCount = JsInt 10, ae_checkpoint = example_checkpoint\<rparr>"

definition example_absence :: absence_proof where
  "example_absence = ConflictingSpend \<lparr>op_txid = replicate 64 (CHR ''3''), op_index = JsInt 0\<rparr>
     (example_acceptance (CHR ''1'') (CHR ''b''))"

lemma example_absence_decided:
  "decideChainEvidence (AbsentEvidence (replicate 64 (CHR ''2'')) ''double spend'' example_absence) (JsInt 10)
     = Inr (DecidedAbsent (replicate 64 (CHR ''2'')) ''double spend'' example_absence)"
  by code_simp

theorem absence_needs_evidence_witness:
  "\<not> blank ''double spend'' \<and>
     (case example_absence of
        ConflictingSpend spent e \<Rightarrow>
          to_lower (ae_transactionId e) \<noteq> to_lower (replicate 64 (CHR ''2'')) \<and> assertAcceptedEvidence e = Inr ()
          \<and> (\<exists>count. ae_confirmationCount e = JsInt count \<and> 10 \<le> count)
      | ConsensusRejection rejected rejectionCode checkpoint \<Rightarrow>
          to_lower rejected = to_lower (replicate 64 (CHR ''2'')) \<and> is_rejection_code rejectionCode
          \<and> assertCheckpoint checkpoint = Inr ())"
  by (rule absence_needs_evidence [OF example_absence_decided])

end
