(* ===== verification/Chain_Lineage.thy ===== *)
theory Chain_Lineage
  imports Chain_Evidence
begin

text \<open>
  Covenant lineage: the second part of \<^verbatim>\<open>core/src/chain-truth.ts\<close>. A lineage state holds the
  launch manifest, a compacted anchor, a journal of accepted and removed transitions and the
  derived head. \<open>applyCovenantSelectedChainUpdate\<close> journals one selected-chain delta and derives
  the head again; \<open>compactLineage\<close> folds old events into the anchor.

  SHA-256 is the parameter \<open>sha\<close>. A property that the source leaves out when absent is an
  option, \<open>null\<close> likewise; the states come from JSON, which has no \<open>undefined\<close>.
\<close>

section \<open>Data\<close>

definition MAX_LINEAGE_REMOVED_BLOCKS :: nat where "MAX_LINEAGE_REMOVED_BLOCKS = 32"

definition MAX_LINEAGE_UPDATE_EVENTS :: nat where "MAX_LINEAGE_UPDATE_EVENTS = 64"

definition MAX_LINEAGE_JOURNAL_EVENTS :: nat where "MAX_LINEAGE_JOURNAL_EVENTS = 128"

definition MAX_LINEAGE_STATE_BYTES :: nat where "MAX_LINEAGE_STATE_BYTES = 512 * 1024"

definition MAX_LINEAGE_UPDATE_BYTES :: nat where "MAX_LINEAGE_UPDATE_BYTES = 128 * 1024"

record manifest_genesis =
  mg_derivation :: string
  mg_covenantId :: string
  mg_authorizingInput :: funding_outpoint
  mg_transactionId :: string
  mg_outpoint :: funding_outpoint
  mg_scriptPublicKey :: string
  mg_value :: string
  mg_claimedCumulativeAmount :: string
  mg_acceptance :: accepted_evidence

record launch_manifest =
  lm_format :: string
  lm_network :: string
  lm_compiler_name :: string
  lm_compiler_checkedCommit :: string
  lm_compiler_command :: string
  lm_source_path :: string
  lm_source_sha256 :: string
  lm_bytecode_templateId :: string
  lm_bytecode_compiledBaseSha256 :: string
  lm_constructorSlots :: js_value
  lm_abi :: js_value
  lm_selectors :: js_value
  lm_identitySha256 :: string
  lm_genesis :: manifest_genesis

record lineage_head =
  lh_outpoint :: funding_outpoint
  lh_scriptPublicKey :: string
  lh_value :: string
  lh_claimedCumulativeAmount :: string

record lineage_successor = lineage_head +
  su_covenantId :: string
  su_authorizingInput :: js_number

record terminal_output =
  to_index :: js_number
  to_scriptPublicKey :: string
  to_value :: string

record lineage_transition =
  lt_kind :: string
  lt_covenantId :: string
  lt_templateId :: string
  lt_consumedOutpoint :: funding_outpoint
  lt_transactionId :: string
  lt_authorizedSuccessorCount :: js_number
  lt_successor :: "lineage_successor option"
  lt_terminalOutput :: "terminal_output option"
  lt_acceptance :: accepted_evidence

datatype lineage_event =
    AcceptedEvent js_number lineage_transition
  | GenesisAcceptedEvent js_number accepted_evidence
  | RemovedEvent js_number string "string list"
    \<comment> \<open>the sequence number; the accepting block and the transactions removed with it\<close>

record lineage_anchor =
  an_compactedEvents :: js_number
  an_head :: "lineage_head option"
  an_genesisAcceptance :: "accepted_evidence option"
  an_tipTransition :: "lineage_transition option"
  an_manifestIdentitySha256 :: string
  an_checkpointBlockHash :: string
  an_historyHash :: string
  an_snapshotHash :: string
  an_relevantBlocksBloom :: string

record lineage_state =
  ln_manifest :: launch_manifest
  ln_anchor :: lineage_anchor
  ln_journal :: "lineage_event list"
  ln_currentHead :: "lineage_head option"
  ln_checkpoint :: chain_checkpoint
  ln_availability :: string
  ln_unavailableReason :: "string option"

record selected_block =
  sb_blockHash :: string
  sb_genesisAcceptance :: "accepted_evidence option"
  sb_transitions :: "lineage_transition list"

record chain_update =
  cu_fromCheckpoint :: chain_checkpoint
  cu_checkpoint :: chain_checkpoint
  cu_continuity :: string
  cu_removedChainBlockHashes :: "string list"
  cu_addedChainBlocks :: "selected_block list"

section \<open>Records as JSON\<close>

fun optional :: "string \<Rightarrow> ('a \<Rightarrow> js_value) \<Rightarrow> 'a option \<Rightarrow> (string \<times> js_value) list" where
  \<comment> \<open>a property that may be left out\<close>
  "optional k enc None = []"
| "optional k enc (Some x) = [(k, enc x)]"

fun nullable :: "('a \<Rightarrow> js_value) \<Rightarrow> 'a option \<Rightarrow> js_value" where
  "nullable enc None = JNull"
| "nullable enc (Some x) = enc x"

definition checkpoint_json :: "chain_checkpoint \<Rightarrow> js_value" where
  "checkpoint_json c = JObj [(''blockHash'', JStr (cp_blockHash c)), (''blueScore'', JStr (cp_blueScore c)),
     (''daaScore'', JStr (cp_daaScore c))]"

definition accepted_json :: "accepted_evidence \<Rightarrow> js_value" where
  "accepted_json e = JObj [(''status'', JStr ''accepted''), (''transactionId'', JStr (ae_transactionId e)),
     (''acceptingBlockHash'', JStr (ae_acceptingBlockHash e)),
     (''acceptingBlockBlueScore'', JStr (ae_acceptingBlockBlueScore e)),
     (''confirmationCount'', JNum (ae_confirmationCount e)),
     (''checkpoint'', checkpoint_json (ae_checkpoint e))]"

definition lineage_head_members :: "'a lineage_head_scheme \<Rightarrow> (string \<times> js_value) list" where
  "lineage_head_members h = [(''outpoint'', outpoint_json (lh_outpoint h)),
     (''scriptPublicKey'', JStr (lh_scriptPublicKey h)), (''value'', JStr (lh_value h)),
     (''claimedCumulativeAmount'', JStr (lh_claimedCumulativeAmount h))]"

definition lineage_head_json :: "lineage_head \<Rightarrow> js_value" where
  "lineage_head_json h = JObj (lineage_head_members h)"

definition successor_json :: "lineage_successor \<Rightarrow> js_value" where
  "successor_json s = JObj (lineage_head_members s
     @ [(''covenantId'', JStr (su_covenantId s)), (''authorizingInput'', JNum (su_authorizingInput s))])"

definition terminal_json :: "terminal_output \<Rightarrow> js_value" where
  "terminal_json t = JObj [(''index'', JNum (to_index t)), (''scriptPublicKey'', JStr (to_scriptPublicKey t)),
     (''value'', JStr (to_value t))]"

definition transition_json :: "lineage_transition \<Rightarrow> js_value" where
  "transition_json t = JObj [(''kind'', JStr (lt_kind t)), (''covenantId'', JStr (lt_covenantId t)),
     (''templateId'', JStr (lt_templateId t)), (''consumedOutpoint'', outpoint_json (lt_consumedOutpoint t)),
     (''transactionId'', JStr (lt_transactionId t)),
     (''authorizedSuccessorCount'', JNum (lt_authorizedSuccessorCount t)),
     (''successor'', nullable successor_json (lt_successor t)),
     (''terminalOutput'', nullable terminal_json (lt_terminalOutput t)),
     (''acceptance'', accepted_json (lt_acceptance t))]"

fun event_json :: "lineage_event \<Rightarrow> js_value" where
  "event_json (AcceptedEvent n t) = JObj [(''event'', JStr ''accepted''), (''sequence'', JNum n),
     (''transition'', transition_json t)]"
| "event_json (GenesisAcceptedEvent n e) = JObj [(''event'', JStr ''genesis-accepted''), (''sequence'', JNum n),
     (''acceptance'', accepted_json e)]"
| "event_json (RemovedEvent n b ids) = JObj [(''event'', JStr ''removed''), (''sequence'', JNum n),
     (''acceptingBlockHash'', JStr b), (''transactionIds'', JArr (map JStr ids))]"

definition anchor_members :: "lineage_anchor \<Rightarrow> (string \<times> js_value) list" where
  "anchor_members a = [(''compactedEvents'', JNum (an_compactedEvents a)),
     (''head'', nullable lineage_head_json (an_head a))]
     @ optional ''genesisAcceptance'' accepted_json (an_genesisAcceptance a)
     @ optional ''tipTransition'' transition_json (an_tipTransition a)
     @ [(''manifestIdentitySha256'', JStr (an_manifestIdentitySha256 a)),
        (''checkpointBlockHash'', JStr (an_checkpointBlockHash a)),
        (''historyHash'', JStr (an_historyHash a)),
        (''relevantBlocksBloom'', JStr (an_relevantBlocksBloom a))]"

definition anchor_json :: "lineage_anchor \<Rightarrow> js_value" where
  "anchor_json a = JObj (anchor_members a @ [(''snapshotHash'', JStr (an_snapshotHash a))])"

definition identity_members :: "launch_manifest \<Rightarrow> (string \<times> js_value) list" where
  "identity_members m =
     [(''compiler'', JObj [(''name'', JStr (lm_compiler_name m)),
        (''checkedCommit'', JStr (lm_compiler_checkedCommit m)), (''command'', JStr (lm_compiler_command m))]),
      (''source'', JObj [(''path'', JStr (lm_source_path m)), (''sha256'', JStr (lm_source_sha256 m))]),
      (''bytecode'', JObj [(''templateId'', JStr (lm_bytecode_templateId m)),
        (''compiledBaseSha256'', JStr (lm_bytecode_compiledBaseSha256 m))]),
      (''constructorSlots'', lm_constructorSlots m), (''abi'', lm_abi m), (''selectors'', lm_selectors m)]"

definition genesis_json :: "manifest_genesis \<Rightarrow> js_value" where
  "genesis_json g = JObj [(''derivation'', JStr (mg_derivation g)), (''covenantId'', JStr (mg_covenantId g)),
     (''authorizingInput'', outpoint_json (mg_authorizingInput g)),
     (''transactionId'', JStr (mg_transactionId g)), (''outpoint'', outpoint_json (mg_outpoint g)),
     (''scriptPublicKey'', JStr (mg_scriptPublicKey g)), (''value'', JStr (mg_value g)),
     (''claimedCumulativeAmount'', JStr (mg_claimedCumulativeAmount g)),
     (''acceptance'', accepted_json (mg_acceptance g))]"

definition manifest_json :: "launch_manifest \<Rightarrow> js_value" where
  "manifest_json m = JObj ([(''format'', JStr (lm_format m)), (''network'', JStr (lm_network m))]
     @ identity_members m
     @ [(''identitySha256'', JStr (lm_identitySha256 m)), (''genesis'', genesis_json (lm_genesis m))])"

definition lineage_json :: "lineage_state \<Rightarrow> js_value" where
  "lineage_json s = JObj ([(''manifest'', manifest_json (ln_manifest s)), (''anchor'', anchor_json (ln_anchor s)),
     (''journal'', JArr (map event_json (ln_journal s))),
     (''currentHead'', nullable lineage_head_json (ln_currentHead s)),
     (''checkpoint'', checkpoint_json (ln_checkpoint s)), (''availability'', JStr (ln_availability s))]
     @ optional ''unavailableReason'' JStr (ln_unavailableReason s))"

definition block_json :: "selected_block \<Rightarrow> js_value" where
  "block_json b = JObj ([(''blockHash'', JStr (sb_blockHash b))]
     @ optional ''genesisAcceptance'' accepted_json (sb_genesisAcceptance b)
     @ [(''transitions'', JArr (map transition_json (sb_transitions b)))])"

definition update_json :: "chain_update \<Rightarrow> js_value" where
  "update_json u = JObj [(''fromCheckpoint'', checkpoint_json (cu_fromCheckpoint u)),
     (''checkpoint'', checkpoint_json (cu_checkpoint u)), (''continuity'', JStr (cu_continuity u)),
     (''removedChainBlockHashes'', JArr (map JStr (cu_removedChainBlockHashes u))),
     (''addedChainBlocks'', JArr (map block_json (cu_addedChainBlocks u)))]"

definition serializedBytes :: "js_value \<Rightarrow> nat" where
  "serializedBytes value = utf8ByteLength (json_stringify value)"

section \<open>Manifests and transitions\<close>

fun object_keys :: "js_value \<Rightarrow> string list" where
  "object_keys (JObj kvs) = map fst kvs"
| "object_keys _ = []"

definition isRecord :: "js_value \<Rightarrow> bool" where
  "isRecord v = (case v of JObj _ \<Rightarrow> True | _ \<Rightarrow> False)"

definition is_commit_id :: "string \<Rightarrow> bool" where
  \<comment> \<open>\<open>/^[0-9a-fA-F]{40}$/\<close>\<close>
  "is_commit_id s = (length s = 40 \<and> list_all is_hex s)"

definition assert_selector :: "string \<times> js_value \<Rightarrow> unit res" where
  "assert_selector entry =
     (case entry of (name, selector) \<Rightarrow>
        if blank name then Inl (JsError ''covenant launch manifest selector name is invalid'')
        else (case selector of
                JStr s \<Rightarrow> assertByteHex s (''covenant selector '' @ name)
              | _ \<Rightarrow> Inl (JsError (''covenant selector '' @ name @ '' must be non-empty byte hex''))))"

definition object_entries :: "js_value \<Rightarrow> (string \<times> js_value) list" where
  "object_entries v = (case v of JObj kvs \<Rightarrow> kvs | _ \<Rightarrow> [])"

definition assert_genesis :: "manifest_genesis \<Rightarrow> unit res" where
  "assert_genesis g =
     (if mg_derivation g \<noteq> ''kip20-covenant-id-v1''
      then Inl (JsError ''covenant launch manifest genesis derivation is invalid'')
      else bindE (assertHash32 (mg_covenantId g) ''genesis covenant id'' True) (\<lambda>_.
      bindE (assertHash32 (mg_transactionId g) ''genesis transaction id'' False) (\<lambda>_.
      bindE (assertOutpoint (mg_authorizingInput g) ''genesis authorizing input'') (\<lambda>_.
      bindE (assertOutpoint (mg_outpoint g) ''genesis outpoint'') (\<lambda>_.
      if to_lower (op_txid (mg_outpoint g)) \<noteq> to_lower (mg_transactionId g)
         \<or> to_lower (ae_transactionId (mg_acceptance g)) \<noteq> to_lower (mg_transactionId g)
      then Inl (JsError ''covenant launch manifest genesis transaction is inconsistent'')
      else bindE (assertByteHex (mg_scriptPublicKey g) ''genesis script public key'') (\<lambda>_.
      bindE (parseSompiString (mg_value g)) (\<lambda>_.
      bindE (parseSompiString (mg_claimedCumulativeAmount g)) (\<lambda>_.
      assertAcceptedEvidence (mg_acceptance g)))))))))"

definition assertLaunchManifest :: "(byte list \<Rightarrow> byte list) \<Rightarrow> launch_manifest \<Rightarrow> unit res" where
  "assertLaunchManifest sha m =
     (if lm_format m \<noteq> ''kaspa-x402-covenant-launch-v1''
      then Inl (JsError ''covenant launch manifest format is invalid'')
      else if lm_network m \<noteq> ''kaspa:testnet-10'' \<and> lm_network m \<noteq> ''kaspa:mainnet''
      then Inl (JsError ''covenant launch manifest network is invalid'')
      else if \<not> is_commit_id (lm_compiler_checkedCommit m)
      then Inl (JsError ''compiler checked commit must be a 20-byte git object id'')
      else bindE (assertHash32 (lm_source_sha256 m) ''covenant source hash'' False) (\<lambda>_.
      bindE (assertHash32 (lm_bytecode_compiledBaseSha256 m) ''compiled bytecode hash'' False) (\<lambda>_.
      if blank (lm_compiler_name m) \<or> blank (lm_compiler_command m) \<or> blank (lm_source_path m)
      then Inl (JsError ''covenant launch manifest build identity is incomplete'')
      else if blank (lm_bytecode_templateId m) \<or> \<not> isRecord (lm_constructorSlots m)
              \<or> object_keys (lm_constructorSlots m) = [] \<or> \<not> isRecord (lm_abi m)
              \<or> object_keys (lm_abi m) = [] \<or> \<not> isRecord (lm_selectors m) \<or> object_keys (lm_selectors m) = []
      then Inl (JsError ''covenant launch manifest template identity is incomplete'')
      else bindE (assertHash32 (lm_identitySha256 m) ''covenant launch identity hash'' False) (\<lambda>_.
      bindE (stableStringify (JObj (identity_members m))) (\<lambda>identity.
      if sha256Hex sha (utf8Bytes identity) \<noteq> to_lower (lm_identitySha256 m)
      then Inl (JsError ''covenant launch identity hash is inconsistent'')
      else bindE (forE assert_selector (object_entries (lm_selectors m))) (\<lambda>_.
      assert_genesis (lm_genesis m)))))))"

definition assertTerminalOutput :: "terminal_output \<Rightarrow> unit res" where
  "assertTerminalOutput output =
     (if \<not> safe_index (to_index output) then Inl (JsError ''terminal output index is invalid'')
      else bindE (assertByteHex (to_scriptPublicKey output) ''terminal output script'') (\<lambda>_.
      bindE (parseSompiString (to_value output)) (\<lambda>v.
      if v \<le> 0 then Inl (JsError ''terminal output value must be positive'') else Inr ())))"

definition assert_successor :: "lineage_transition \<Rightarrow> lineage_successor \<Rightarrow> unit res" where
  "assert_successor t s =
     bindE (assertOutpoint (lh_outpoint s) ''covenant successor outpoint'') (\<lambda>_.
     bindE (assertByteHex (lh_scriptPublicKey s) ''covenant successor script'') (\<lambda>_.
     bindE (assertHash32 (su_covenantId s) ''successor covenant id'' True) (\<lambda>_.
     if to_lower (op_txid (lh_outpoint s)) \<noteq> to_lower (lt_transactionId t)
        \<or> to_lower (su_covenantId s) \<noteq> to_lower (lt_covenantId t) \<or> \<not> safe_index (su_authorizingInput s)
     then Inl (JsError ''covenant successor binding is inconsistent'')
     else bindE (parseSompiString (lh_value s)) (\<lambda>_.
     bindE (parseSompiString (lh_claimedCumulativeAmount s)) (\<lambda>_. Inr ())))))"

definition assertLineageTransition :: "launch_manifest \<Rightarrow> lineage_transition \<Rightarrow> unit res" where
  "assertLineageTransition m t =
     bindE (assertHash32 (lt_covenantId t) ''lineage covenant id'' True) (\<lambda>_.
     bindE (assertHash32 (lt_transactionId t) ''lineage transaction id'' False) (\<lambda>_.
     bindE (assertOutpoint (lt_consumedOutpoint t) ''consumed outpoint'') (\<lambda>_.
     bindE (assertAcceptedEvidence (lt_acceptance t)) (\<lambda>_.
     if to_lower (lt_covenantId t) \<noteq> to_lower (mg_covenantId (lm_genesis m))
        \<or> lt_templateId t \<noteq> lm_bytecode_templateId m
     then Inl (JsError ''lineage transition belongs to the wrong covenant or template'')
     else if to_lower (ae_transactionId (lt_acceptance t)) \<noteq> to_lower (lt_transactionId t)
     then Inl (JsError ''lineage acceptance transaction id is inconsistent'')
     else if lt_kind t = ''refund'' then
       (if \<not> num_eq (lt_authorizedSuccessorCount t) (JsInt 0) \<or> lt_successor t \<noteq> None
        then Inl (JsError ''terminal refund must have no covenant successor'')
        else case lt_terminalOutput t of
               None \<Rightarrow> Inl (JsError ''terminal refund must have no covenant successor'')
             | Some output \<Rightarrow> assertTerminalOutput output)
     else if (lt_kind t \<noteq> ''claim'' \<and> lt_kind t \<noteq> ''top-up'')
             \<or> \<not> num_eq (lt_authorizedSuccessorCount t) (JsInt 1) \<or> lt_terminalOutput t \<noteq> None
     then Inl (JsError ''non-terminal covenant transition must have one unique successor'')
     else case lt_successor t of
            None \<Rightarrow> Inl (JsError ''non-terminal covenant transition must have one unique successor'')
          | Some s \<Rightarrow> assert_successor t s))))"

section \<open>The journal\<close>

fun drop_removed :: "string \<Rightarrow> string list \<Rightarrow> (string \<times> lineage_transition) list
  \<Rightarrow> (string \<times> lineage_transition) list" where
  \<comment> \<open>deletes the listed transactions that were accepted in this block\<close>
  "drop_removed block [] active = active"
| "drop_removed block (i # ids) active =
     drop_removed block ids
       (case map_of active (to_lower i) of
          Some t \<Rightarrow> if to_lower (ae_acceptingBlockHash (lt_acceptance t)) = to_lower block
                    then filter (\<lambda>p. fst p \<noteq> to_lower i) active else active
        | None \<Rightarrow> active)"

fun canonical_loop :: "(string \<times> lineage_transition) list \<Rightarrow> lineage_event list
  \<Rightarrow> (string \<times> lineage_transition) list res" where
  "canonical_loop active [] = Inr active"
| "canonical_loop active (AcceptedEvent n t # rest) =
     (if map_of active (to_lower (lt_transactionId t)) \<noteq> None
      then Inl (JsError ''canonical covenant lineage repeats a transaction'')
      else canonical_loop (active @ [(to_lower (lt_transactionId t), t)]) rest)"
| "canonical_loop active (GenesisAcceptedEvent n e # rest) = canonical_loop active rest"
| "canonical_loop active (RemovedEvent n b ids # rest) = canonical_loop (drop_removed b ids active) rest"

definition canonicalAcceptedEvents :: "lineage_event list \<Rightarrow> lineage_transition list res" where
  "canonicalAcceptedEvents journal = bindE (canonical_loop [] journal) (\<lambda>active. Inr (map snd active))"

fun genesis_loop :: "string \<Rightarrow> accepted_evidence option \<Rightarrow> lineage_event list \<Rightarrow> accepted_evidence option" where
  "genesis_loop tx active [] = active"
| "genesis_loop tx active (AcceptedEvent n t # rest) = genesis_loop tx active rest"
| "genesis_loop tx active (GenesisAcceptedEvent n e # rest) = genesis_loop tx (Some e) rest"
| "genesis_loop tx active (RemovedEvent n b ids # rest) =
     genesis_loop tx
       (if map_option (\<lambda>e. to_lower (ae_acceptingBlockHash e)) active = Some (to_lower b)
           \<and> list_ex (\<lambda>i. to_lower i = tx) ids
        then None else active) rest"

definition genesis_of :: "launch_manifest \<Rightarrow> lineage_anchor \<Rightarrow> lineage_event list \<Rightarrow> accepted_evidence option" where
  "genesis_of m a journal = genesis_loop (to_lower (mg_transactionId (lm_genesis m))) (an_genesisAcceptance a) journal"

definition canonicalGenesisAcceptance :: "lineage_state \<Rightarrow> accepted_evidence option" where
  "canonicalGenesisAcceptance state = genesis_of (ln_manifest state) (ln_anchor state) (ln_journal state)"

definition genesis_head :: "launch_manifest \<Rightarrow> lineage_head" where
  "genesis_head m = (let g = lm_genesis m in
     \<lparr>lh_outpoint = mg_outpoint g, lh_scriptPublicKey = to_lower (mg_scriptPublicKey g), lh_value = mg_value g,
      lh_claimedCumulativeAmount = mg_claimedCumulativeAmount g\<rparr>)"

definition successor_head :: "lineage_successor \<Rightarrow> lineage_head" where
  "successor_head s = \<lparr>lh_outpoint = lh_outpoint s, lh_scriptPublicKey = to_lower (lh_scriptPublicKey s),
     lh_value = lh_value s, lh_claimedCumulativeAmount = lh_claimedCumulativeAmount s\<rparr>"

definition advance_head :: "lineage_head option \<Rightarrow> lineage_transition \<Rightarrow> lineage_head option res" where
  \<comment> \<open>one canonical transition applied to the head; the successor and the terminal output are
     present on validated transitions, and reading them when absent throws\<close>
  "advance_head head t =
     (case head of
        None \<Rightarrow> Inl (JsError ''covenant lineage is missing a unique predecessor'')
      | Some h \<Rightarrow>
         if \<not> sameOutpoint (lh_outpoint h) (lt_consumedOutpoint t)
         then Inl (JsError ''covenant lineage is missing a unique predecessor'')
         else if lt_kind t = ''refund'' then
           (case lt_terminalOutput t of
              None \<Rightarrow> Inl (JsTypeError ''Cannot read properties of null'')
            | Some output \<Rightarrow>
               bindE (parseSompiString (to_value output)) (\<lambda>refunded.
               bindE (parseSompiString (lh_value h)) (\<lambda>value.
               if value < refunded then Inl (JsError ''refund terminal output exceeds the consumed value'')
               else Inr None)))
         else
           (case lt_successor t of
              None \<Rightarrow> Inl (JsTypeError ''Cannot read properties of null'')
            | Some s \<Rightarrow>
               bindE (parseSompiString (lh_value h)) (\<lambda>priorValue.
               bindE (parseSompiString (lh_value s)) (\<lambda>nextValue.
               bindE (parseSompiString (lh_claimedCumulativeAmount h)) (\<lambda>priorClaimed.
               bindE (parseSompiString (lh_claimedCumulativeAmount s)) (\<lambda>nextClaimed.
               if lt_kind t = ''claim'' then
                 (if priorValue \<le> nextValue \<or> nextClaimed \<le> priorClaimed
                     \<or> priorValue - nextValue \<noteq> nextClaimed - priorClaimed
                  then Inl (JsError ''claim successor has inconsistent value or covenant state'')
                  else Inr (Some (successor_head s)))
               else if nextValue \<le> priorValue \<or> nextClaimed \<noteq> priorClaimed
               then Inl (JsError ''top-up successor has inconsistent value or covenant state'')
               else Inr (Some (successor_head s))))))))"

fun derive_loop :: "string list \<Rightarrow> lineage_head option \<Rightarrow> lineage_transition list \<Rightarrow> lineage_head option res" where
  "derive_loop seen head [] = Inr head"
| "derive_loop seen head (t # rest) =
     (if to_lower (lt_transactionId t) \<in> set seen
      then Inl (JsError ''canonical covenant lineage repeats a transaction'')
      else bindE (advance_head head t) (\<lambda>next. derive_loop (to_lower (lt_transactionId t) # seen) next rest))"

definition start_head :: "launch_manifest \<Rightarrow> lineage_anchor \<Rightarrow> lineage_event list \<Rightarrow> lineage_head option" where
  "start_head m a journal =
     (case genesis_of m a journal of
        None \<Rightarrow> None
      | Some _ \<Rightarrow> if an_genesisAcceptance a \<noteq> None then an_head a else Some (genesis_head m))"

definition derive_head ::
  "launch_manifest \<Rightarrow> lineage_anchor \<Rightarrow> lineage_event list \<Rightarrow> lineage_head option res" where
  "derive_head m a journal =
     bindE (canonicalAcceptedEvents journal) (derive_loop [] (start_head m a journal))"

definition deriveCanonicalLineage :: "lineage_state \<Rightarrow> lineage_state res" where
  "deriveCanonicalLineage state =
     bindE (derive_head (ln_manifest state) (ln_anchor state) (ln_journal state)) (\<lambda>head.
     Inr (state\<lparr>ln_currentHead := head\<rparr>))"

section \<open>Bloom filter and compaction\<close>

definition bloomIndexes :: "(byte list \<Rightarrow> byte list) \<Rightarrow> string \<Rightarrow> nat list" where
  "bloomIndexes sha blockHash =
     map (\<lambda>salt. radix_val 16 (take 8 (sha256Hex sha (utf8Bytes (salt @ '':'' @ to_lower blockHash)))) mod 2048)
       [''0'', ''1'', ''2'', ''3'']"

definition bloom_bit :: "byte list \<Rightarrow> nat \<Rightarrow> bool" where
  "bloom_bit bytes index = (index div 8 < length bytes \<and> bit (bytes ! (index div 8)) (index mod 8))"

definition bloomContains :: "(byte list \<Rightarrow> byte list) \<Rightarrow> string \<Rightarrow> string \<Rightarrow> bool" where
  \<comment> \<open>on a filter of 512 hex digits, which every check of a state demands\<close>
  "bloomContains sha bloom blockHash = list_all (bloom_bit (hex_decode bloom)) (bloomIndexes sha blockHash)"

definition bloomAdd :: "(byte list \<Rightarrow> byte list) \<Rightarrow> string \<Rightarrow> string \<Rightarrow> string" where
  "bloomAdd sha bloom blockHash =
     bytesToHex (foldl (\<lambda>bytes index. bytes[index div 8 := set_bit (index mod 8) (bytes ! (index div 8))])
       (hex_decode bloom) (bloomIndexes sha blockHash))"

definition makeLineageAnchor :: "(byte list \<Rightarrow> byte list) \<Rightarrow> lineage_anchor \<Rightarrow> lineage_anchor res" where
  "makeLineageAnchor sha input =
     bindE (stableStringify (JObj (anchor_members input))) (\<lambda>data.
     Inr (input\<lparr>an_snapshotHash := sha256Hex sha (utf8Bytes data)\<rparr>))"

fun add_events :: "(byte list \<Rightarrow> byte list) \<Rightarrow> string \<Rightarrow> lineage_event list \<Rightarrow> string" where
  "add_events sha bloom [] = bloom"
| "add_events sha bloom (AcceptedEvent n t # rest) =
     add_events sha (bloomAdd sha bloom (ae_acceptingBlockHash (lt_acceptance t))) rest"
| "add_events sha bloom (_ # rest) = add_events sha bloom rest"

fun num_plus :: "js_number \<Rightarrow> nat \<Rightarrow> js_number" where
  \<comment> \<open>counting up from a safe integer\<close>
  "num_plus (JsInt i) n = JsInt (i + int n)"
| "num_plus x n = x"

definition compactedLineageAnchor ::
  "(byte list \<Rightarrow> byte list) \<Rightarrow> launch_manifest \<Rightarrow> lineage_anchor \<Rightarrow> lineage_event list \<Rightarrow> string
     \<Rightarrow> lineage_anchor res" where
  "compactedLineageAnchor sha m a prefix checkpointBlockHash =
     bindE (derive_head m a prefix) (\<lambda>head.
     bindE (canonicalAcceptedEvents prefix) (\<lambda>canonicalPrefix.
     bindE (stableStringify (JObj [(''prior'', JStr (an_historyHash a)), (''events'', JArr (map event_json prefix))]))
       (\<lambda>history.
     makeLineageAnchor sha
       \<lparr>an_compactedEvents = num_plus (an_compactedEvents a) (length prefix), an_head = head,
        an_genesisAcceptance = genesis_of m a prefix,
        an_tipTransition = (if canonicalPrefix = [] then an_tipTransition a else Some (last canonicalPrefix)),
        an_manifestIdentitySha256 = lm_identitySha256 m, an_checkpointBlockHash = checkpointBlockHash,
        an_historyHash = sha256Hex sha (utf8Bytes history), an_snapshotHash = [],
        an_relevantBlocksBloom = add_events sha (an_relevantBlocksBloom a) prefix\<rparr>)))"

fun removed_ids :: "lineage_event \<Rightarrow> string list" where
  "removed_ids (RemovedEvent n b ids) = map to_lower ids"
| "removed_ids _ = []"

fun accepted_in :: "string set \<Rightarrow> lineage_event \<Rightarrow> bool" where
  "accepted_in ids (AcceptedEvent n t) = (to_lower (lt_transactionId t) \<in> ids)"
| "accepted_in ids _ = False"

definition compact_cutoff :: "lineage_event list \<Rightarrow> nat" where
  \<comment> \<open>the first of the old events whose transaction the last 64 events remove\<close>
  "compact_cutoff journal =
     (let cutoff = length journal - 64;
          suffixRemovals = set (concat (map removed_ids (drop cutoff journal)))
      in length (takeWhile (\<lambda>e. \<not> accepted_in suffixRemovals e) (take cutoff journal)))"

fun resequence :: "nat \<Rightarrow> lineage_event \<Rightarrow> lineage_event" where
  "resequence n (AcceptedEvent _ t) = AcceptedEvent (JsInt (int n)) t"
| "resequence n (GenesisAcceptedEvent _ e) = GenesisAcceptedEvent (JsInt (int n)) e"
| "resequence n (RemovedEvent _ b ids) = RemovedEvent (JsInt (int n)) b ids"

definition resequenced :: "lineage_event list \<Rightarrow> lineage_event list" where
  "resequenced events = map (\<lambda>(n, e). resequence n e) (zip [0..<length events] events)"

definition compactLineage :: "(byte list \<Rightarrow> byte list) \<Rightarrow> lineage_state \<Rightarrow> lineage_state res" where
  "compactLineage sha state =
     (if length (ln_journal state) \<le> 64 then Inr state
      else let cutoff = compact_cutoff (ln_journal state)
           in if cutoff = 0 then Inr state
              else bindE (compactedLineageAnchor sha (ln_manifest state) (ln_anchor state)
                            (take cutoff (ln_journal state)) (cp_blockHash (ln_checkpoint state))) (\<lambda>anchor.
                Inr (state\<lparr>ln_anchor := anchor, ln_journal := resequenced (drop cutoff (ln_journal state))\<rparr>)))"

end
