(* ===== verification/Chain_Update.thy ===== *)
theory Chain_Update
  imports Chain_Lineage
begin

text \<open>
  Selected-chain updates of a covenant lineage: the operations of
  \<^verbatim>\<open>core/src/chain-truth.ts\<close> on a whole state. A state is created from its manifest, checked by
  \<open>assertLineageState\<close>, moved by \<open>applyCovenantSelectedChainUpdate\<close>, compared with its durable
  predecessor by \<open>assertCovenantLineageExtension\<close> and released to settlement by
  \<open>assertCovenantLineageConfirmed\<close>.

  Sequence numbers are the journal's length: the source starts its counter there and counts once
  per push.
\<close>

section \<open>Budget and state checks\<close>

definition assertLineageBudget :: "lineage_state \<Rightarrow> unit res" where
  "assertLineageBudget state =
     (if length (ln_journal state) > MAX_LINEAGE_JOURNAL_EVENTS
         \<or> serializedBytes (lineage_json state) > MAX_LINEAGE_STATE_BYTES
      then Inl (JsError ''covenant lineage state exceeds the event or byte limit'')
      else Inr ())"

fun sameLineageHead :: "lineage_head option \<Rightarrow> lineage_head option \<Rightarrow> bool" where
  "sameLineageHead None None = True"
| "sameLineageHead (Some left) (Some right) =
     (sameOutpoint (lh_outpoint left) (lh_outpoint right)
      \<and> to_lower (lh_scriptPublicKey left) = to_lower (lh_scriptPublicKey right)
      \<and> lh_value left = lh_value right
      \<and> lh_claimedCumulativeAmount left = lh_claimedCumulativeAmount right)"
| "sameLineageHead _ _ = False"

definition is_bloom :: "string \<Rightarrow> bool" where
  \<comment> \<open>\<open>/^[0-9a-f]{512}$/\<close>\<close>
  "is_bloom s = (length s = 512 \<and> list_all is_lower_hex s)"

definition tip_head :: "lineage_transition \<Rightarrow> lineage_head option" where
  "tip_head t = map_option (\<lambda>s. \<lparr>lh_outpoint = lh_outpoint s, lh_scriptPublicKey = lh_scriptPublicKey s,
     lh_value = lh_value s, lh_claimedCumulativeAmount = lh_claimedCumulativeAmount s\<rparr>) (lt_successor t)"

definition manifest_head :: "launch_manifest \<Rightarrow> lineage_head" where
  "manifest_head m = (let g = lm_genesis m in
     \<lparr>lh_outpoint = mg_outpoint g, lh_scriptPublicKey = mg_scriptPublicKey g, lh_value = mg_value g,
      lh_claimedCumulativeAmount = mg_claimedCumulativeAmount g\<rparr>)"

definition assert_anchor_tip :: "launch_manifest \<Rightarrow> lineage_anchor \<Rightarrow> unit res" where
  "assert_anchor_tip m a =
     (case an_tipTransition a of
        Some t \<Rightarrow>
          bindE (assertLineageTransition m t) (\<lambda>_.
          if sameLineageHead (tip_head t) (an_head a) then Inr ()
          else Inl (JsError ''covenant lineage compact head lacks its accepted tip witness''))
      | None \<Rightarrow>
          if sameLineageHead (map_option (\<lambda>_. manifest_head m) (an_genesisAcceptance a)) (an_head a) then Inr ()
          else Inl (JsError ''covenant lineage compact genesis head is invalid''))"

definition assert_anchor :: "(byte list \<Rightarrow> byte list) \<Rightarrow> launch_manifest \<Rightarrow> lineage_anchor \<Rightarrow> unit res" where
  "assert_anchor sha m a =
     (if \<not> is_safe_integer (an_compactedEvents a)
         \<or> \<not> in_range (an_compactedEvents a) 0 MAX_SAFE_INTEGER
         \<or> \<not> is_bloom (an_relevantBlocksBloom a)
      then Inl (JsError ''covenant lineage compact checkpoint is invalid'')
      else bindE (makeLineageAnchor sha a) (\<lambda>made.
      if an_snapshotHash a \<noteq> an_snapshotHash made
      then Inl (JsError ''covenant lineage compact checkpoint is invalid'')
      else if an_manifestIdentitySha256 a \<noteq> lm_identitySha256 m \<or> \<not> is_lower_hash32 (an_checkpointBlockHash a)
      then Inl (JsError ''covenant lineage compact checkpoint is detached from the manifest'')
      else assert_anchor_tip m a))"

fun event_sequence :: "lineage_event \<Rightarrow> js_number" where
  "event_sequence (AcceptedEvent n t) = n"
| "event_sequence (GenesisAcceptedEvent n e) = n"
| "event_sequence (RemovedEvent n b ids) = n"

fun assert_event :: "launch_manifest \<Rightarrow> lineage_event \<Rightarrow> unit res" where
  "assert_event m (AcceptedEvent n t) = assertLineageTransition m t"
| "assert_event m (GenesisAcceptedEvent n e) =
     bindE (assertAcceptedEvidence e) (\<lambda>_.
     if to_lower (ae_transactionId e) \<noteq> to_lower (mg_transactionId (lm_genesis m))
     then Inl (JsError ''covenant genesis reacceptance transaction is inconsistent'') else Inr ())"
| "assert_event m (RemovedEvent n b ids) =
     bindE (assertHash32 b ''removed accepting block hash'' False) (\<lambda>_.
     forE (\<lambda>i. assertHash32 i ''removed transaction id'' False) ids)"

fun assert_journal :: "launch_manifest \<Rightarrow> nat \<Rightarrow> lineage_event list \<Rightarrow> unit res" where
  "assert_journal m index [] = Inr ()"
| "assert_journal m index (e # rest) =
     (if \<not> num_eq (event_sequence e) (JsInt (int index))
      then Inl (JsError ''covenant lineage journal sequence is not append-only'')
      else bindE (assert_event m e) (\<lambda>_. assert_journal m (Suc index) rest))"

definition assertLineageState :: "(byte list \<Rightarrow> byte list) \<Rightarrow> lineage_state \<Rightarrow> unit res" where
  "assertLineageState sha state =
     bindE (assertLineageBudget state) (\<lambda>_.
     bindE (assertLaunchManifest sha (ln_manifest state)) (\<lambda>_.
     bindE (assert_anchor sha (ln_manifest state) (ln_anchor state)) (\<lambda>_.
     bindE (assertCheckpoint (ln_checkpoint state)) (\<lambda>_.
     if ln_availability state \<noteq> ''available'' \<and> ln_availability state \<noteq> ''unknown''
     then Inl (JsError ''covenant lineage availability is invalid'')
     else bindE (assert_journal (ln_manifest state) 0 (ln_journal state)) (\<lambda>_.
     bindE (deriveCanonicalLineage state) (\<lambda>derived.
     if \<not> sameLineageHead (ln_currentHead derived) (ln_currentHead state)
     then Inl (JsError ''covenant current head is not the derived journal index'')
     else if ln_availability state = ''available'' \<and> canonicalGenesisAcceptance state = None
     then Inl (JsError ''available covenant lineage is missing its canonical genesis'')
     else Inr ()))))))"

section \<open>Creation\<close>

definition createCovenantLineageState :: "(byte list \<Rightarrow> byte list) \<Rightarrow> launch_manifest \<Rightarrow> lineage_state res" where
  "createCovenantLineageState sha manifest =
     (if serializedBytes (manifest_json manifest) > MAX_LINEAGE_STATE_BYTES - 4096
      then Inl (JsError ''covenant launch manifest exceeds the lineage byte limit'')
      else bindE (assertLaunchManifest sha manifest) (\<lambda>_.
      bindE (stableStringify (JObj [(''genesis'', JStr (lm_identitySha256 manifest))])) (\<lambda>history.
      bindE (makeLineageAnchor sha
        \<lparr>an_compactedEvents = JsInt 0, an_head = Some (genesis_head manifest),
         an_genesisAcceptance = Some (mg_acceptance (lm_genesis manifest)), an_tipTransition = None,
         an_manifestIdentitySha256 = lm_identitySha256 manifest,
         an_checkpointBlockHash = cp_blockHash (ae_checkpoint (mg_acceptance (lm_genesis manifest))),
         an_historyHash = sha256Hex sha (utf8Bytes history), an_snapshotHash = [],
         an_relevantBlocksBloom = replicate 512 (CHR ''0'')\<rparr>) (\<lambda>anchor.
      let state = \<lparr>ln_manifest = manifest, ln_anchor = anchor, ln_journal = [],
                   ln_currentHead = Some (genesis_head manifest),
                   ln_checkpoint = ae_checkpoint (mg_acceptance (lm_genesis manifest)),
                   ln_availability = ''available'', ln_unavailableReason = None\<rparr>
      in bindE (assertLineageBudget state) (\<lambda>_. Inr state)))))"

section \<open>One selected-chain delta\<close>

definition unavailable :: "lineage_state \<Rightarrow> string \<Rightarrow> lineage_state" where
  "unavailable state reason = state\<lparr>ln_availability := ''unknown'', ln_unavailableReason := Some reason\<rparr>"

datatype removal_result =
    OutsideWindow string \<comment> \<open>the early return, with its reason\<close>
  | Journaled "lineage_event list"

definition removed_transactions ::
  "launch_manifest \<Rightarrow> lineage_transition list \<Rightarrow> accepted_evidence option \<Rightarrow> string \<Rightarrow> string list" where
  \<comment> \<open>the entry of \<open>acceptedByBlock\<close>, and the genesis when this block accepted it\<close>
  "removed_transactions m canonical genesis block =
     map (\<lambda>t. to_lower (lt_transactionId t))
       (filter (\<lambda>t. to_lower (ae_acceptingBlockHash (lt_acceptance t)) = block) canonical)
     @ (if map_option (\<lambda>e. to_lower (ae_acceptingBlockHash e)) genesis = Some block
        then [to_lower (mg_transactionId (lm_genesis m))] else [])"

fun removal_loop ::
  "(byte list \<Rightarrow> byte list) \<Rightarrow> launch_manifest \<Rightarrow> lineage_anchor \<Rightarrow> lineage_transition list
   \<Rightarrow> accepted_evidence option \<Rightarrow> string list \<Rightarrow> lineage_event list \<Rightarrow> string list \<Rightarrow> removal_result res" where
  "removal_loop sha m a canonical genesis removed journal [] = Inr (Journaled journal)"
| "removal_loop sha m a canonical genesis removed journal (hash # rest) =
     bindE (assertHash32 hash ''removed chain block hash'' False) (\<lambda>_.
     let normalized = to_lower hash; transactionIds = removed_transactions m canonical genesis normalized in
     if normalized \<in> set removed then Inl (JsError ''selected-chain update repeats a removed block'')
     else if transactionIds = [] then
       (if bloomContains sha (an_relevantBlocksBloom a) normalized
        then Inr (OutsideWindow ''selected-chain removal exceeds the compact reorganization window'')
        else removal_loop sha m a canonical genesis (normalized # removed) journal rest)
     else if in_range (an_compactedEvents a) 1 MAX_SAFE_INTEGER
             \<and> to_lower (mg_transactionId (lm_genesis m)) \<in> set transactionIds
     then Inr (OutsideWindow ''covenant genesis removal exceeds the compact reorganization window'')
     else removal_loop sha m a canonical genesis (normalized # removed)
            (journal @ [RemovedEvent (JsInt (int (length journal))) normalized transactionIds]) rest)"

definition outpointKey :: "funding_outpoint \<Rightarrow> string" where
  "outpointKey outpoint = to_lower (op_txid outpoint) @ '':'' @ json_number (op_index outpoint)"

fun add_transitions ::
  "launch_manifest \<Rightarrow> chain_checkpoint \<Rightarrow> string \<Rightarrow> string list \<Rightarrow> lineage_event list \<Rightarrow> lineage_transition list
   \<Rightarrow> (string list \<times> lineage_event list) res" where
  "add_transitions m checkpoint blockHash spends journal [] = Inr (spends, journal)"
| "add_transitions m checkpoint blockHash spends journal (t # rest) =
     bindE (assertLineageTransition m t) (\<lambda>_.
     if to_lower (ae_acceptingBlockHash (lt_acceptance t)) \<noteq> blockHash
     then Inl (JsError ''lineage transition accepting block is inconsistent'')
     else if \<not> sameCheckpoint (ae_checkpoint (lt_acceptance t)) checkpoint
     then Inl (JsError ''lineage transition checkpoint is inconsistent'')
     else if outpointKey (lt_consumedOutpoint t) \<in> set spends
     then Inl (JsError ''selected-chain update contains branching covenant spends'')
     else add_transitions m checkpoint blockHash (outpointKey (lt_consumedOutpoint t) # spends)
            (journal @ [AcceptedEvent (JsInt (int (length journal))) t]) rest)"

definition reaccept_genesis ::
  "launch_manifest \<Rightarrow> lineage_anchor \<Rightarrow> chain_checkpoint \<Rightarrow> string \<Rightarrow> lineage_event list
   \<Rightarrow> accepted_evidence option \<Rightarrow> lineage_event list res" where
  "reaccept_genesis m a checkpoint blockHash journal acceptance =
     (case acceptance of
        None \<Rightarrow> Inr journal
      | Some e \<Rightarrow>
         bindE (assertAcceptedEvidence e) (\<lambda>_.
         if to_lower (ae_transactionId e) \<noteq> to_lower (mg_transactionId (lm_genesis m))
            \<or> to_lower (ae_acceptingBlockHash e) \<noteq> blockHash
            \<or> \<not> sameCheckpoint (ae_checkpoint e) checkpoint
         then Inl (JsError ''reaccepted covenant genesis evidence is inconsistent'')
         else if genesis_of m a journal \<noteq> None
         then Inl (JsError ''selected-chain update repeats an accepted covenant genesis'')
         else Inr (journal @ [GenesisAcceptedEvent (JsInt (int (length journal))) e])))"

fun add_blocks ::
  "launch_manifest \<Rightarrow> lineage_anchor \<Rightarrow> chain_checkpoint \<Rightarrow> string list \<Rightarrow> string list \<Rightarrow> lineage_event list
   \<Rightarrow> selected_block list \<Rightarrow> lineage_event list res" where
  "add_blocks m a checkpoint added spends journal [] = Inr journal"
| "add_blocks m a checkpoint added spends journal (block # rest) =
     bindE (assertHash32 (sb_blockHash block) ''added chain block hash'' False) (\<lambda>_.
     let blockHash = to_lower (sb_blockHash block) in
     if blockHash \<in> set added then Inl (JsError ''selected-chain update repeats an added block'')
     else bindE (reaccept_genesis m a checkpoint blockHash journal (sb_genesisAcceptance block)) (\<lambda>journal1.
     bindE (add_transitions m checkpoint blockHash spends journal1 (sb_transitions block)) (\<lambda>(spends', journal2).
     add_blocks m a checkpoint (blockHash # added) spends' journal2 rest)))"

definition update_additions :: "chain_update \<Rightarrow> nat" where
  "update_additions update = sum_list (map (\<lambda>b. length (sb_transitions b)
     + (if sb_genesisAcceptance b \<noteq> None then 1 else 0)) (cu_addedChainBlocks update))"

definition assert_update_budget :: "lineage_state \<Rightarrow> chain_update \<Rightarrow> unit res" where
  "assert_update_budget current update =
     (if length (cu_removedChainBlockHashes update) > MAX_LINEAGE_REMOVED_BLOCKS
      then Inl (JsError ''selected-chain removed block count exceeds the limit'')
      else if update_additions update + length (cu_removedChainBlockHashes update) > MAX_LINEAGE_UPDATE_EVENTS
              \<or> serializedBytes (update_json update) > MAX_LINEAGE_UPDATE_BYTES
      then Inl (JsError ''selected-chain update exceeds the event or byte limit'')
      else bindE (assertLineageBudget current) (\<lambda>_.
      if length (ln_journal current) + update_additions update + length (cu_removedChainBlockHashes update)
           > MAX_LINEAGE_JOURNAL_EVENTS
         \<or> serializedBytes (lineage_json current) + serializedBytes (update_json update) > MAX_LINEAGE_STATE_BYTES
      then Inl (JsError ''projected covenant lineage exceeds the event or byte limit'')
      else Inr ()))"

definition finish_update :: "(byte list \<Rightarrow> byte list) \<Rightarrow> lineage_state \<Rightarrow> lineage_state res" where
  "finish_update sha state =
     bindE (compactLineage sha state) (\<lambda>compacted.
     bindE (deriveCanonicalLineage compacted) (\<lambda>derived.
     bindE (assertLineageBudget derived) (\<lambda>_.
     Inr (if canonicalGenesisAcceptance derived \<noteq> None
          then derived\<lparr>ln_availability := ''available'', ln_unavailableReason := None\<rparr>
          else unavailable derived (''covenant genesis was removed from the selected chain and ''
                 @ ''has not been authoritatively reaccepted'')))))"

definition apply_delta :: "(byte list \<Rightarrow> byte list) \<Rightarrow> lineage_state \<Rightarrow> chain_update \<Rightarrow> lineage_state res" where
  "apply_delta sha current update =
     bindE (canonicalAcceptedEvents (ln_journal current)) (\<lambda>canonical.
     bindE (removal_loop sha (ln_manifest current) (ln_anchor current) canonical
              (canonicalGenesisAcceptance current) [] (ln_journal current)
              (cu_removedChainBlockHashes update)) (\<lambda>removals.
     case removals of
       OutsideWindow reason \<Rightarrow> Inr (unavailable current reason)
     | Journaled journal \<Rightarrow>
         bindE (add_blocks (ln_manifest current) (ln_anchor current) (cu_checkpoint update) [] [] journal
                  (cu_addedChainBlocks update)) (\<lambda>journal'.
         finish_update sha (current\<lparr>ln_journal := journal', ln_checkpoint := cu_checkpoint update\<rparr>))))"

definition applyCovenantSelectedChainUpdate ::
  "(byte list \<Rightarrow> byte list) \<Rightarrow> lineage_state \<Rightarrow> chain_update \<Rightarrow> lineage_state res" where
  "applyCovenantSelectedChainUpdate sha current update =
     bindE (assert_update_budget current update) (\<lambda>_.
     bindE (assertLineageState sha current) (\<lambda>_.
     bindE (assertCheckpoint (cu_fromCheckpoint update)) (\<lambda>_.
     bindE (assertCheckpoint (cu_checkpoint update)) (\<lambda>_.
     if \<not> sameCheckpoint (ln_checkpoint current) (cu_fromCheckpoint update)
     then Inl (JsError ''selected-chain update does not resume from durable checkpoint'')
     else if cu_continuity update = ''pruned''
     then Inr (unavailable current ''selected-chain continuity cannot be proven across the pruning horizon'')
     else if cu_continuity update \<noteq> ''complete''
     then Inl (JsError ''selected-chain update continuity is invalid'')
     else apply_delta sha current update))))"

section \<open>Readers of a state\<close>

definition canonicalCovenantTransitions ::
  "(byte list \<Rightarrow> byte list) \<Rightarrow> lineage_state \<Rightarrow> lineage_transition list res" where
  "canonicalCovenantTransitions sha state =
     bindE (assertLineageState sha state) (\<lambda>_. canonicalAcceptedEvents (ln_journal state))"

definition assertCovenantLineageConfirmed ::
  "(byte list \<Rightarrow> byte list) \<Rightarrow> lineage_state \<Rightarrow> js_number \<Rightarrow> unit res" where
  "assertCovenantLineageConfirmed sha state requiredConfirmations =
     bindE (assertLineageState sha state) (\<lambda>_.
     if ln_availability state \<noteq> ''available''
     then Inl (JsError (case ln_unavailableReason state of Some r \<Rightarrow> r | None \<Rightarrow> ''covenant lineage is unavailable''))
     else case canonicalGenesisAcceptance state of
       None \<Rightarrow> Inl (JsError ''covenant genesis is not on the selected chain'')
     | Some genesis \<Rightarrow>
         bindE (canonicalAcceptedEvents (ln_journal state)) (\<lambda>canonical.
         forE (\<lambda>e. bindE (decideChainEvidence (AcceptedEvidence e) requiredConfirmations) (\<lambda>decision.
                 if (case decision of DecidedConfirmed _ \<Rightarrow> True | _ \<Rightarrow> False) then Inr ()
                 else Inl (JsError (''covenant lineage has not reached the configured ''
                        @ ''confirmation threshold''))))
           (genesis # map lt_acceptance canonical)))"

fun compacted_between :: "js_number \<Rightarrow> js_number \<Rightarrow> int option" where
  \<comment> \<open>the difference of the counters, when it is a safe integer; the counters of a checked state are\<close>
  "compacted_between (JsInt p) (JsInt n) = (if is_safe_integer (JsInt (n - p)) then Some (n - p) else None)"
| "compacted_between _ _ = None"

definition not_append_only :: "'a res" where
  "not_append_only = Inl (JsError ''covenant lineage journal is not append-only'')"

definition same_text :: "js_value \<Rightarrow> js_value \<Rightarrow> unit res" where
  "same_text left right =
     bindE (stableStringify left) (\<lambda>a. bindE (stableStringify right) (\<lambda>b.
     if a \<noteq> b then not_append_only else Inr ()))"

fun retained_events :: "nat \<Rightarrow> lineage_event list \<Rightarrow> lineage_event list \<Rightarrow> unit res" where
  \<comment> \<open>the new journal is at least as long\<close>
  "retained_events index (e # rest) (f # next) =
     bindE (same_text (event_json (resequence index e)) (event_json f)) (\<lambda>_. retained_events (Suc index) rest next)"
| "retained_events index _ _ = Inr ()"

definition assertCovenantLineageExtension ::
  "(byte list \<Rightarrow> byte list) \<Rightarrow> lineage_state \<Rightarrow> lineage_state \<Rightarrow> unit res" where
  "assertCovenantLineageExtension sha previous next =
     (case compacted_between (an_compactedEvents (ln_anchor previous)) (an_compactedEvents (ln_anchor next)) of
        None \<Rightarrow> not_append_only
      | Some compacted \<Rightarrow>
         if compacted < 0 \<or> compacted > int (length (ln_journal previous)) then not_append_only
         else let retained = drop (nat compacted) (ln_journal previous) in
           if length (ln_journal next) < length retained then not_append_only
           else bindE (retained_events 0 retained (ln_journal next)) (\<lambda>_.
             if compacted = 0 then same_text (anchor_json (ln_anchor previous)) (anchor_json (ln_anchor next))
             else case compactedLineageAnchor sha (ln_manifest previous) (ln_anchor previous)
                         (take (nat compacted) (ln_journal previous)) (cp_blockHash (ln_checkpoint next)) of
                    Inl _ \<Rightarrow> not_append_only
                  | Inr expected \<Rightarrow> same_text (anchor_json expected) (anchor_json (ln_anchor next))))"

end
