(* ===== verification/Kip10_Template.thy ===== *)
theory Kip10_Template
  imports Batch_Ids
begin

text \<open>
  The KIP-10 additive template: the part of \<^verbatim>\<open>covenant/src/template.ts\<close> that the exact
  payment heads rest on. A redeem script is built from an owner key and a threshold; parsing
  accepts the scripts that building produces and no others, and recovers their parameters.
  BLAKE2b is the parameter \<open>blake2b\<close>.
\<close>

section \<open>Definitions\<close>

definition covenant_hexToBytes :: "string \<Rightarrow> nat option \<Rightarrow> string \<Rightarrow> byte list res" where
  "covenant_hexToBytes hex expectedLength label =
     (if \<not> HEX_BYTE_PATTERN_test hex
      then Inl (JsError (label @ '' must be an even-length hex byte string''))
      else case expectedLength of
             None \<Rightarrow> Inr (hex_decode hex)
           | Some n \<Rightarrow>
               if length hex \<noteq> n * 2
               then Inl (JsError (label @ '' must be '' @ nat_to_string n @ '' bytes''))
               else Inr (hex_decode hex))"

definition stringToUint64 :: "string \<Rightarrow> string \<Rightarrow> int res" where
  "stringToUint64 value label =
     (if \<not> rx_test U64_DECIMAL_PATTERN value
      then Inl (JsError (label @ '' must be a canonical uint64 decimal string''))
      else Inr (int (dec_val value)))"

definition covenant_numberToUint64 :: "js_number \<Rightarrow> string \<Rightarrow> int res" where
  "covenant_numberToUint64 value label =
     (case value of
        JsInt i \<Rightarrow>
          if \<not> is_safe_integer value \<or> i < 0
          then Inl (JsError (label @ '' must be a non-negative safe integer''))
          else Inr i
      | JsNonInt _ \<Rightarrow> Inl (JsError (label @ '' must be a non-negative safe integer'')))"

definition covenant_normalizeUint64 :: "amount_value \<Rightarrow> string \<Rightarrow> int res" where
  "covenant_normalizeUint64 value label =
     bindE (case value of BigIntV i \<Rightarrow> Inr i
              | NumberV n \<Rightarrow> covenant_numberToUint64 n label
              | StringV s \<Rightarrow> stringToUint64 s label)
       (\<lambda>normalized.
         if normalized < 0 \<or> U64_MAX < normalized
         then Inl (JsError (label @ '' must fit in uint64''))
         else Inr normalized)"

definition normalizeScriptInt64 :: "amount_value \<Rightarrow> string \<Rightarrow> int res" where
  "normalizeScriptInt64 value label =
     bindE (covenant_normalizeUint64 value label) (\<lambda>normalized.
       if 0x7fffffffffffffff < normalized
       then Inl (JsError (label @ '' must fit in signed 64-bit script number''))
       else Inr normalized)"

definition pushData :: "byte list \<Rightarrow> byte list res" where
  "pushData data =
     (if length data \<le> 75 then Inr (concatBytes [[b8 (length data)], data])
      else if length data \<le> 0xff then Inr (concatBytes [[0x4c, b8 (length data)], data])
      else if length data \<le> 0xffff
      then Inr (concatBytes [[0x4d, b8 (length data mod 256), b8 (length data div 256)], data])
      else Inl (JsError ''pushdata payload is too large''))"

fun minimal_le :: "nat \<Rightarrow> byte list" where
  \<comment> \<open>the loop that splits off the low byte while anything is left\<close>
  "minimal_le cursor = (if cursor = 0 then [] else b8 (cursor mod 256) # minimal_le (cursor div 256))"

declare minimal_le.simps [simp del]

definition signed_le :: "nat \<Rightarrow> byte list" where
  \<comment> \<open>a zero byte follows a set sign bit\<close>
  "signed_le value =
     (let bytes = minimal_le value
      in if bytes \<noteq> [] \<and> 128 \<le> unat (last bytes) then bytes @ [0] else bytes)"

definition pushScriptNumber :: "nat \<Rightarrow> byte list res" where
  "pushScriptNumber value =
     (if value = 0 then Inr [0]
      else if value \<le> 16 then Inr [b8 (0x50 + value)]
      else pushData (signed_le value))"

definition KIP10_OPCODES :: "byte list" where
  "KIP10_OPCODES = [0xac, 0x67, 0xb9, 0xbf, 0xb9, 0xc3, 0x88, 0xb9, 0xc2]"

definition KIP10_SUFFIX :: "byte list" where
  "KIP10_SUFFIX = [0x94, 0xb9, 0xbe, 0xa2, 0x68]"

definition buildKip10AdditiveRedeemScript :: "string \<Rightarrow> amount_value \<Rightarrow> string res" where
  "buildKip10AdditiveRedeemScript ownerPublicKey amountParam =
     bindE (covenant_hexToBytes ownerPublicKey (Some 32) ''ownerPublicKey'') (\<lambda>owner.
     bindE (normalizeScriptInt64 amountParam ''amount'') (\<lambda>amount.
     bindE (pushData owner) (\<lambda>pushOwner.
     bindE (pushScriptNumber (nat amount)) (\<lambda>pushAmount.
     Inr (bytesToHex (concatBytes [[0x63], pushOwner, KIP10_OPCODES, pushAmount, KIP10_SUFFIX]))))))"

definition readNonNegativeScriptNumber :: "byte list \<Rightarrow> nat \<Rightarrow> (nat \<times> nat) res" where
  "readNonNegativeScriptNumber bytes offset =
     (if length bytes \<le> offset then Inl (JsError ''redeemScript is missing the additive threshold'')
      else let opcode = unat (bytes ! offset) in
      if opcode = 0 then Inr (0, offset + 1)
      else if 0x51 \<le> opcode \<and> opcode \<le> 0x60 then Inr (opcode - 0x50, offset + 1)
      else if 0x08 < opcode \<or> length bytes < offset + 1 + opcode
      then Inl (JsError ''redeemScript has an invalid KIP-10 additive threshold'')
      else let numberBytes = take opcode (drop (offset + 1) bytes) in
      if numberBytes \<noteq> [] \<and> 128 \<le> unat (last numberBytes)
      then Inl (JsError ''redeemScript KIP-10 additive threshold must be non-negative'')
      else let value = foldl (\<lambda>v b. v * 256 + unat b) 0 (rev numberBytes) in
      if 0x7fffffffffffffff < value
      then Inl (JsError ''redeemScript KIP-10 additive threshold must fit in signed 64-bit script number'')
      else Inr (value, offset + 1 + opcode))"

record kip10_template =
  k_ownerPublicKey :: string
  k_amount :: string

definition not_canonical :: js_error where
  "not_canonical = JsError ''redeemScript is not the canonical KIP-10 additive template''"

definition parseKip10AdditiveRedeemScript :: "string \<Rightarrow> kip10_template res" where
  "parseKip10AdditiveRedeemScript redeemScript =
     bindE (covenant_hexToBytes redeemScript None ''redeemScript'') (\<lambda>bytes.
     if length bytes < 49 \<or> bytes ! 0 \<noteq> 0x63 \<or> bytes ! 1 \<noteq> 0x20 then Inl not_canonical
     else let owner = take 32 (drop 2 bytes) in
     if take 9 (drop 34 bytes) \<noteq> KIP10_OPCODES then Inl not_canonical
     else bindE (readNonNegativeScriptNumber bytes 43) (\<lambda>(amount, nextOffset).
     if drop nextOffset bytes \<noteq> KIP10_SUFFIX then Inl not_canonical
     else let parsed = \<lparr>k_ownerPublicKey = bytesToHex owner, k_amount = int_to_string (int amount)\<rparr> in
     bindE (buildKip10AdditiveRedeemScript (k_ownerPublicKey parsed) (StringV (k_amount parsed)))
       (\<lambda>rebuilt.
     if rebuilt \<noteq> bytesToHex bytes
     then Inl (JsError ''redeemScript must use canonical KIP-10 script-number encoding'')
     else Inr parsed)))"

record script_public_key =
  spk_version :: js_number
  spk_script :: string

definition payToScriptHashScript ::
  "(byte list \<Rightarrow> byte list) \<Rightarrow> string \<Rightarrow> script_public_key res" where
  "payToScriptHashScript blake2b redeemScript =
     bindE (covenant_hexToBytes redeemScript None ''redeemScript'') (\<lambda>redeem.
     Inr \<lparr>spk_version = JsInt 0,
          spk_script = bytesToHex (concatBytes [[0xaa, 0x20], blake2b redeem, [0x87]])\<rparr>)"

definition serializedScriptPublicKey :: "script_public_key \<Rightarrow> string res" where
  "serializedScriptPublicKey spk =
     (if \<not> in_range (spk_version spk) 0 0xffff
      then Inl (JsError ''script public key version must fit in uint16'')
      else case spk_version spk of
             JsInt v \<Rightarrow>
               bindE (covenant_hexToBytes (spk_script spk) None ''script'') (\<lambda>script.
               Inr (bytesToHex (concatBytes [[b8 (nat v div 256), b8 (nat v mod 256)], script])))
           | JsNonInt _ \<Rightarrow> Inl (JsError ''script public key version must fit in uint16''))"

definition kip10AdditiveScriptPublicKey ::
  "(byte list \<Rightarrow> byte list) \<Rightarrow> string \<Rightarrow> amount_value \<Rightarrow> script_public_key res" where
  "kip10AdditiveScriptPublicKey blake2b ownerPublicKey amountParam =
     bindE (buildKip10AdditiveRedeemScript ownerPublicKey amountParam) (payToScriptHashScript blake2b)"

definition buildKip10AdditiveBorrowSignatureScript :: "string \<Rightarrow> string res" where
  "buildKip10AdditiveBorrowSignatureScript redeemScript =
     bindE (parseKip10AdditiveRedeemScript redeemScript) (\<lambda>canonical.
     bindE (buildKip10AdditiveRedeemScript (k_ownerPublicKey canonical) (StringV (k_amount canonical)))
       (\<lambda>rebuilt.
     bindE (covenant_hexToBytes rebuilt None ''redeemScript'') (\<lambda>script.
     bindE (pushData script) (\<lambda>push. Inr (bytesToHex (concatBytes [[0x00], push]))))))"

section \<open>Script numbers\<close>

lemma minimal_le_zero [simp]: "minimal_le 0 = []"
  by (simp add: minimal_le.simps)

lemma minimal_le_pos: "0 < n \<Longrightarrow> minimal_le n = b8 (n mod 256) # minimal_le (n div 256)"
  by (subst minimal_le.simps) simp

lemma minimal_le_nonempty [simp]: "minimal_le n = [] \<longleftrightarrow> n = 0"
  by (cases "n = 0") (simp_all add: minimal_le_pos)

lemma le_val_minimal_le [simp]: "le_val (minimal_le n) = n"
proof (induction n rule: minimal_le.induct)
  case (1 n)
  then show ?case by (cases "n = 0") (simp_all add: minimal_le_pos)
qed

lemma length_minimal_le: "length (minimal_le n) \<le> k \<longleftrightarrow> n < 256 ^ k"
proof (induction k arbitrary: n)
  case (Suc k)
  show ?case
  proof (cases "n = 0")
    case False
    then have "length (minimal_le n) \<le> Suc k \<longleftrightarrow> length (minimal_le (n div 256)) \<le> k"
      by (simp add: minimal_le_pos)
    also have "\<dots> \<longleftrightarrow> n div 256 < 256 ^ k" by (rule Suc)
    finally show ?thesis by (simp add: less_mult_imp_div_less div_less_iff_less_mult mult.commute)
  qed simp
qed auto

lemma le_val_append: "le_val (xs @ ys) = le_val xs + 256 ^ length xs * le_val ys"
  by (induction xs) (simp_all add: algebra_simps)

lemma le_val_foldl: "foldl (\<lambda>v b. v * 256 + unat b) 0 (rev bs) = le_val bs"
  by (induction bs) (simp_all add: mult.commute)

lemma le_val_last: "bs \<noteq> [] \<Longrightarrow> 256 ^ (length bs - 1) * unat (last bs) \<le> le_val bs"
proof -
  assume "bs \<noteq> []"
  then obtain cs b where "bs = cs @ [b]" by (metis append_butlast_last_id)
  then show ?thesis by (simp add: le_val_append)
qed

lemma signed_le_facts:
  assumes "0 < n" "n \<le> 0x7fffffffffffffff"
  shows "le_val (signed_le n) = n" "1 \<le> length (signed_le n)" "length (signed_le n) \<le> 8"
    "unat (last (signed_le n)) < 128"
proof -
  have len: "length (minimal_le n) \<le> 8" using assms(2) by (simp add: length_minimal_le)
  have short: "length (minimal_le n) \<le> 7" if "128 \<le> unat (last (minimal_le n))"
  proof (rule ccontr)
    assume "\<not> ?thesis"
    with len have "length (minimal_le n) = 8" by simp
    then have "256 ^ 7 * unat (last (minimal_le n)) \<le> n" using le_val_last [of "minimal_le n"] assms(1) by simp
    moreover have "(256 :: nat) ^ 7 * 128 \<le> 256 ^ 7 * unat (last (minimal_le n))" using that by simp
    ultimately show False using assms(2) by simp
  qed
  have "1 \<le> length (minimal_le n)" using assms(1) by (cases "minimal_le n") auto
  then show "le_val (signed_le n) = n" "1 \<le> length (signed_le n)" "length (signed_le n) \<le> 8"
    "unat (last (signed_le n)) < 128"
    using len short assms(1) by (auto simp: signed_le_def Let_def le_val_append)
qed

lemma pushScriptNumber_Inr:
  assumes "n \<le> 0x7fffffffffffffff"
  obtains push where "pushScriptNumber n = Inr push" "1 \<le> length push"
    "\<And>pre post. readNonNegativeScriptNumber (pre @ push @ post) (length pre) = Inr (n, length pre + length push)"
proof -
  consider "n = 0" | "0 < n" "n \<le> 16" | "16 < n" by linarith
  then show thesis
  proof cases
    case 1
    then show thesis
      by (intro that [of "[0]"]) (simp_all add: pushScriptNumber_def readNonNegativeScriptNumber_def nth_append)
  next
    case 2
    then have "unat (b8 (80 + n)) = 80 + n" by simp
    with 2 show thesis
      by (intro that [of "[b8 (80 + n)]"])
        (simp_all add: pushScriptNumber_def readNonNegativeScriptNumber_def nth_append)
  next
    case 3
    then have pos: "0 < n" by simp
    note f = signed_le_facts [OF pos assms]
    let ?p = "b8 (length (signed_le n)) # signed_le n"
    have op: "unat (b8 (length (signed_le n))) = length (signed_le n)" using f(3) by simp
    show thesis
    proof (intro that [of ?p])
      show "pushScriptNumber n = Inr ?p" using 3 f by (simp add: pushScriptNumber_def pushData_def)
      show "readNonNegativeScriptNumber (pre @ ?p @ post) (length pre) = Inr (n, length pre + length ?p)"
        for pre post
        using f op assms
        by (auto simp: readNonNegativeScriptNumber_def nth_append Let_def le_val_foldl)
    qed simp
  qed
qed

section \<open>Build and parse\<close>

lemma covenant_hexToBytes_Inr [run_simps]:
  "covenant_hexToBytes s (Some n) l = Inr bs \<longleftrightarrow> length s = 2 * n \<and> list_all is_hex s \<and> bs = hex_decode s"
  "covenant_hexToBytes s None l = Inr bs \<longleftrightarrow> HEX_BYTE_PATTERN_test s \<and> bs = hex_decode s"
  by (auto simp: covenant_hexToBytes_def HEX_BYTE_PATTERN_test_def)

lemma bytesToHex_hex: "HEX_BYTE_PATTERN_test (bytesToHex bs)" "list_all is_hex (bytesToHex bs)"
  using bytesToHex_lower [of bs]
  by (auto simp: HEX_BYTE_PATTERN_test_def list_all_iff is_lower_hex_def is_hex_def)

lemma stringToUint64_parse: "stringToUint64 s l = Inr v \<longleftrightarrow> parseSompiString s = Inr v"
  by (auto simp: stringToUint64_def parseSompiString_def isDecimalSompi_def)

lemma normalizeScriptInt64_text:
  "0 \<le> v \<Longrightarrow> v \<le> 0x7fffffffffffffff \<Longrightarrow> normalizeScriptInt64 (StringV (int_to_string v)) l = Inr v"
proof -
  assume v: "0 \<le> v" "v \<le> 0x7fffffffffffffff"
  then have "parseSompiString (int_to_string v) = Inr v" by (simp add: parseSompiString_Inr U64_MAX_def)
  then have "stringToUint64 (int_to_string v) l = Inr v" by (simp add: stringToUint64_parse)
  with v show ?thesis by (simp add: normalizeScriptInt64_def covenant_normalizeUint64_def U64_MAX_def)
qed

lemma normalizeScriptInt64_range:
  "normalizeScriptInt64 a l = Inr v \<Longrightarrow> 0 \<le> v \<and> v \<le> 0x7fffffffffffffff"
  by (auto simp: normalizeScriptInt64_def covenant_normalizeUint64_def run_simps)

definition kip10_bytes :: "byte list \<Rightarrow> byte list \<Rightarrow> byte list" where
  "kip10_bytes owner push = 0x63 # 0x20 # owner @ KIP10_OPCODES @ push @ KIP10_SUFFIX"

lemma buildKip10_value:
  assumes "length owner = 32" "normalizeScriptInt64 a ''amount'' = Inr v" "pushScriptNumber (nat v) = Inr push"
    and "list_all is_hex key" "length key = 64" "hex_decode key = owner"
  shows "buildKip10AdditiveRedeemScript key a = Inr (bytesToHex (kip10_bytes owner push))"
proof -
  have "covenant_hexToBytes key (Some 32) ''ownerPublicKey'' = Inr owner"
    using assms by (simp add: covenant_hexToBytes_Inr)
  moreover have "pushData owner = Inr (0x20 # owner)" using assms(1) by (simp add: pushData_def b8_def)
  ultimately show ?thesis
    using assms(2,3) by (simp add: buildKip10AdditiveRedeemScript_def kip10_bytes_def)
qed

lemma buildKip10_Inr:
  assumes "buildKip10AdditiveRedeemScript key a = Inr s"
  obtains v push where "length key = 64" "list_all is_hex key" "normalizeScriptInt64 a ''amount'' = Inr v"
    "0 \<le> v" "v \<le> 0x7fffffffffffffff" "pushScriptNumber (nat v) = Inr push"
    "s = bytesToHex (kip10_bytes (hex_decode key) push)"
proof -
  from assms obtain v push where *: "length key = 64" "list_all is_hex key"
    "normalizeScriptInt64 a ''amount'' = Inr v" "pushScriptNumber (nat v) = Inr push"
    by (auto simp: buildKip10AdditiveRedeemScript_def run_simps)
  have "length (hex_decode key) = 32" using *(1) by (simp add: length_hex_decode)
  then have "buildKip10AdditiveRedeemScript key a = Inr (bytesToHex (kip10_bytes (hex_decode key) push))"
    using * by (intro buildKip10_value) auto
  with assms * that normalizeScriptInt64_range [OF *(3)] show thesis by auto
qed

lemma kip10_bytes_slices:
  assumes "length owner = 32" "1 \<le> length push"
  shows "\<not> length (kip10_bytes owner push) < 49" "kip10_bytes owner push ! 0 = 0x63"
    "kip10_bytes owner push ! 1 = 0x20" "take 32 (drop 2 (kip10_bytes owner push)) = owner"
    "take 9 (drop 34 (kip10_bytes owner push)) = KIP10_OPCODES"
    "kip10_bytes owner push = (0x63 # 0x20 # owner @ KIP10_OPCODES) @ push @ KIP10_SUFFIX"
    "length (0x63 # 0x20 # owner @ KIP10_OPCODES) = 43"
    "drop (43 + length push) (kip10_bytes owner push) = KIP10_SUFFIX"
proof -
  let ?pre = "0x63 # 0x20 # owner @ KIP10_OPCODES"
  show "\<not> length (kip10_bytes owner push) < 49" "kip10_bytes owner push ! 0 = 0x63"
    "kip10_bytes owner push ! 1 = 0x20" "take 32 (drop 2 (kip10_bytes owner push)) = owner"
    "take 9 (drop 34 (kip10_bytes owner push)) = KIP10_OPCODES"
    and split: "kip10_bytes owner push = ?pre @ push @ KIP10_SUFFIX" and len: "length ?pre = 43"
    using assms by (auto simp: kip10_bytes_def KIP10_OPCODES_def KIP10_SUFFIX_def)
  have "drop (length (?pre @ push)) ((?pre @ push) @ KIP10_SUFFIX) = KIP10_SUFFIX" by simp
  then show "drop (43 + length push) (kip10_bytes owner push) = KIP10_SUFFIX"
    using split len by (simp only: length_append append_assoc)
qed

lemma parse_kip10_bytes:
  assumes "length owner = 32" "v \<le> 0x7fffffffffffffff" "pushScriptNumber v = Inr push"
    and "HEX_BYTE_PATTERN_test s" "hex_decode s = kip10_bytes owner push"
  shows "parseKip10AdditiveRedeemScript s
     = Inr \<lparr>k_ownerPublicKey = bytesToHex owner, k_amount = int_to_string (int v)\<rparr>"
proof -
  obtain push' where "pushScriptNumber v = Inr push'" and len: "1 \<le> length push'"
    and read: "readNonNegativeScriptNumber (pre @ push' @ post) (length pre) = Inr (v, length pre + length push')"
    for pre post
    using pushScriptNumber_Inr [OF assms(2)] by metis
  with assms(3) have p: "push' = push" by simp
  note sl = kip10_bytes_slices [OF assms(1) len [unfolded p]]
  have rd: "readNonNegativeScriptNumber (kip10_bytes owner push) 43 = Inr (v, 43 + length push)"
    using read [of "0x63 # 0x20 # owner @ KIP10_OPCODES" KIP10_SUFFIX] sl(6,7) p by metis
  have hex: "covenant_hexToBytes s None ''redeemScript'' = Inr (kip10_bytes owner push)"
    using assms(4,5) by (simp add: covenant_hexToBytes_Inr)
  have "normalizeScriptInt64 (StringV (int_to_string (int v))) ''amount'' = Inr (int v)"
    using assms(2) by (intro normalizeScriptInt64_text) auto
  then have rebuilt: "buildKip10AdditiveRedeemScript (bytesToHex owner) (StringV (int_to_string (int v)))
      = Inr (bytesToHex (kip10_bytes owner push))"
    using assms(1,3) by (intro buildKip10_value) (auto simp: bytesToHex_hex)
  show ?thesis
    by (simp only: parseKip10AdditiveRedeemScript_def hex bindE_simps sl(1-5,8) rd rebuilt Let_def if_False
        simp_thms split_conv kip10_template.simps HOL.not_True_eq_False HOL.not_False_eq_True)
qed

text \<open>The KIP-10 redeem scripts round-trip. Parsing a built script returns the owner key
  (in lower case) and the threshold it was built from, and every script the parser accepts is,
  up to the case of its hex digits, the script built from what the parser returned; so the
  accepted scripts are exactly the canonical ones.\<close>

theorem kip10_roundtrip:
  "(buildKip10AdditiveRedeemScript key (StringV amount) = Inr s \<longrightarrow>
      parseKip10AdditiveRedeemScript s = Inr \<lparr>k_ownerPublicKey = to_lower key, k_amount = amount\<rparr>)
   \<and> (parseKip10AdditiveRedeemScript r = Inr t \<longrightarrow>
      buildKip10AdditiveRedeemScript (k_ownerPublicKey t) (StringV (k_amount t)) = Inr (to_lower r))"
proof (intro conjI impI)
  assume "buildKip10AdditiveRedeemScript key (StringV amount) = Inr s"
  then obtain v push where b: "length key = 64" "list_all is_hex key"
    "normalizeScriptInt64 (StringV amount) ''amount'' = Inr v" "0 \<le> v" "v \<le> 0x7fffffffffffffff"
    "pushScriptNumber (nat v) = Inr push" "s = bytesToHex (kip10_bytes (hex_decode key) push)"
    by (rule buildKip10_Inr)
  have "amount = int_to_string v"
    using b(3) by (auto simp: normalizeScriptInt64_def covenant_normalizeUint64_def run_simps stringToUint64_parse)
  moreover have "bytesToHex (hex_decode key) = to_lower key"
    using b(1,2) by (simp add: bytesToHex_hex_decode)
  ultimately show "parseKip10AdditiveRedeemScript s = Inr \<lparr>k_ownerPublicKey = to_lower key, k_amount = amount\<rparr>"
    using parse_kip10_bytes [of "hex_decode key" "nat v" push s] b
    by (simp add: length_hex_decode bytesToHex_hex)
next
  assume "parseKip10AdditiveRedeemScript r = Inr t"
  then have "HEX_BYTE_PATTERN_test r"
    "buildKip10AdditiveRedeemScript (k_ownerPublicKey t) (StringV (k_amount t)) = Inr (bytesToHex (hex_decode r))"
    by (auto simp: parseKip10AdditiveRedeemScript_def run_simps Let_def split: prod.splits)
  then show "buildKip10AdditiveRedeemScript (k_ownerPublicKey t) (StringV (k_amount t)) = Inr (to_lower r)"
    by (simp add: bytesToHex_hex_decode HEX_BYTE_PATTERN_test_def)
qed

theorem kip10_roundtrip_witness:
  "\<exists>s. buildKip10AdditiveRedeemScript (replicate 64 (CHR ''A'')) (StringV ''1000'') = Inr s \<and>
     parseKip10AdditiveRedeemScript s
       = Inr \<lparr>k_ownerPublicKey = to_lower (replicate 64 (CHR ''A'')), k_amount = ''1000''\<rparr>"
proof -
  have num: "int_to_string 1000 = ''1000''" by (simp add: int_to_string_def nat_to_string.simps)
  have norm: "normalizeScriptInt64 (StringV ''1000'') ''amount'' = Inr 1000"
    using normalizeScriptInt64_text [of 1000 "''amount''"] num by simp
  have "nat 1000 \<le> 0x7fffffffffffffff" by simp
  then obtain push where "pushScriptNumber (nat 1000) = Inr push" by (rule pushScriptNumber_Inr)
  then have "buildKip10AdditiveRedeemScript (replicate 64 (CHR ''A'')) (StringV ''1000'')
      = Inr (bytesToHex (kip10_bytes (hex_decode (replicate 64 (CHR ''A''))) push))"
    using norm buildKip10_value [of "hex_decode (replicate 64 (CHR ''A''))" "StringV ''1000''" 1000 push
        "replicate 64 (CHR ''A'')"]
    by (simp add: length_hex_decode list_all_length is_hex_def code_def)
  then show ?thesis using kip10_roundtrip by blast
qed

end
