(* ===== verification/Payment_Identifier.thy ===== *)
theory Payment_Identifier
  imports Canonical_Json
begin

text \<open>
  Payment identifiers: \<^verbatim>\<open>server/src/payment-identifier-state.ts\<close>. A reservation ties an
  identifier to the payment that owns it; every change of a reservation is computed by
  \<open>transitionPaymentIdentifierReservation\<close>. The reservation record extends the ownership
  claim, so the functions that read claims apply to both. The commands on one identifier form
  a machine (interpretation \<open>reservations\<close>): a completed reservation is final, and an owner is
  replaced only after a safe release.
\<close>

section \<open>Records\<close>

record reservation_claim =
  rc_id :: string
  rc_fingerprint :: string
  rc_paymentPayloadHash :: string
  rc_paymentScopeId :: string
  rc_paymentKind :: string
  rc_ownerId :: string
  rc_payerId :: string
  rc_channelId :: "string opt_field"
  rc_transactionId :: "string opt_field"
  rc_paymentOutputIndex :: "js_number opt_field"

datatype reservation_status =
    Reserved | ReservationPending | RecoveryRequired | Completed | SafelyReleased

record reservation = reservation_claim +
  rs_status :: reservation_status
  rs_createdAt :: string
  rs_updatedAt :: string
  rs_recoveryReason :: "string opt_field"

record identifier_record =
  pi_id :: string
  pi_fingerprint :: string
  pi_paymentPayloadHash :: string
  pi_response :: js_value
  pi_settlement :: js_value
  pi_paymentScopeId :: string
  pi_channelId :: "string opt_field"
  pi_transactionId :: "string opt_field"
  pi_paymentOutputIndex :: "js_number opt_field"

definition same_str :: "string opt_field \<Rightarrow> string opt_field \<Rightarrow> bool" where
  \<comment> \<open>\<open>===\<close> on optional strings: a missing property reads as \<open>undefined\<close>\<close>
  "same_str a b = (val_of a = val_of b)"

definition same_num :: "js_number opt_field \<Rightarrow> js_number opt_field \<Rightarrow> bool" where
  "same_num a b =
     (case (val_of a, val_of b) of
        (None, None) \<Rightarrow> True
      | (Some m, Some n) \<Rightarrow> num_eq m n
      | _ \<Rightarrow> False)"

section \<open>Ownership checks\<close>

definition assertPaymentIdentifierReservationClaim :: "'a reservation_claim_scheme \<Rightarrow> unit res" where
  "assertPaymentIdentifierReservationClaim claim =
     (if rc_id claim = [] \<or> 256 < length (rc_id claim)
         \<or> rc_payerId claim = [] \<or> 256 < length (rc_payerId claim)
         \<or> \<not> is_lower_hash32 (rc_fingerprint claim)
         \<or> \<not> is_lower_hash32 (rc_paymentPayloadHash claim)
         \<or> \<not> is_lower_hash32 (rc_paymentScopeId claim)
         \<or> \<not> is_lower_hash32 (rc_ownerId claim)
      then Inl (JsError ''payment identifier reservation is invalid'')
      else if rc_paymentKind claim = ''batch-settlement'' then
        (if \<not> truthy_str (rc_channelId claim) \<or> truthy_str (rc_transactionId claim)
            \<or> val_of (rc_paymentOutputIndex claim) \<noteq> None
         then Inl (JsError ''batch payment identifier ownership is invalid'')
         else Inr ())
      else if rc_paymentKind claim = ''exact'' then
        (if \<not> truthy_str (rc_transactionId claim) \<or> truthy_str (rc_channelId claim)
            \<or> (case val_of (rc_paymentOutputIndex claim) of
                  Some (JsInt i) \<Rightarrow> i < 0
                | _ \<Rightarrow> True)
         then Inl (JsError ''exact payment identifier ownership is invalid'')
         else Inr ())
      else Inl (JsError ''payment identifier kind is invalid''))"

definition paymentIdentifierReservationClaimsMatch ::
  "'a reservation_claim_scheme \<Rightarrow> 'b reservation_claim_scheme \<Rightarrow> bool" where
  "paymentIdentifierReservationClaimsMatch left right =
     (rc_id left = rc_id right \<and> rc_fingerprint left = rc_fingerprint right
      \<and> rc_paymentPayloadHash left = rc_paymentPayloadHash right
      \<and> rc_paymentScopeId left = rc_paymentScopeId right
      \<and> rc_paymentKind left = rc_paymentKind right
      \<and> rc_ownerId left = rc_ownerId right \<and> rc_payerId left = rc_payerId right
      \<and> same_str (rc_channelId left) (rc_channelId right)
      \<and> same_str (rc_transactionId left) (rc_transactionId right)
      \<and> same_num (rc_paymentOutputIndex left) (rc_paymentOutputIndex right))"

definition assertPaymentIdentifierAvailable ::
  "reservation_claim option \<Rightarrow> reservation option \<Rightarrow> identifier_record option \<Rightarrow> unit res" where
  "assertPaymentIdentifierAvailable claim reservation completed =
     (case claim of
        None \<Rightarrow> Inr ()
      | Some c \<Rightarrow>
          bindE (assertPaymentIdentifierReservationClaim c) (\<lambda>_.
          if (case completed of
                None \<Rightarrow> False
              | Some d \<Rightarrow> pi_fingerprint d \<noteq> rc_fingerprint c
                          \<or> pi_paymentPayloadHash d \<noteq> rc_paymentPayloadHash c
                          \<or> pi_paymentScopeId d \<noteq> rc_paymentScopeId c)
          then Inl (JsError ''payment identifier is already owned by another payment'')
          else if (case reservation of
                     None \<Rightarrow> False
                   | Some r \<Rightarrow> rs_status r \<noteq> SafelyReleased
                               \<and> \<not> paymentIdentifierReservationClaimsMatch r c)
          then Inl (JsError ''payment identifier is already owned by another payment'')
          else Inr ()))"

definition assertPaymentIdentifierCompletion ::
  "reservation_claim option \<Rightarrow> identifier_record option \<Rightarrow> reservation option
     \<Rightarrow> identifier_record option \<Rightarrow> unit res" where
  "assertPaymentIdentifierCompletion claim completed reservation retained =
     (case (claim, completed) of
        (None, None) \<Rightarrow> Inr ()
      | (Some c, Some d) \<Rightarrow>
          if rc_id c \<noteq> pi_id d \<or> rc_fingerprint c \<noteq> pi_fingerprint d
             \<or> rc_paymentPayloadHash c \<noteq> pi_paymentPayloadHash d
             \<or> rc_paymentScopeId c \<noteq> pi_paymentScopeId d
             \<or> \<not> same_str (rc_channelId c) (pi_channelId d)
             \<or> \<not> same_str (rc_transactionId c) (pi_transactionId d)
             \<or> \<not> same_num (rc_paymentOutputIndex c) (pi_paymentOutputIndex d)
          then Inl (JsError ''payment identifier completion does not match reservation'')
          else if (case reservation of
                     None \<Rightarrow> True
                   | Some r \<Rightarrow> \<not> paymentIdentifierReservationClaimsMatch r c
                               \<or> rs_status r = SafelyReleased)
          then Inl (JsError ''payment identifier completion lost its reservation'')
          else assertPaymentIdentifierAvailable (Some c) reservation retained
      | _ \<Rightarrow> Inl (JsError ''payment identifier completion does not match reservation''))"

section \<open>Transitions\<close>

datatype reservation_transition =
    Reserve string
  | Complete string
  | Update reservation_status string "string opt_field"
    \<comment> \<open>status, time and, when the property is present, the recovery reason\<close>
  | Release string string bool
    \<comment> \<open>reason, time and whether a pending reservation may be released\<close>

fun spread :: "'a opt_field \<Rightarrow> 'a opt_field \<Rightarrow> 'a opt_field" where
  \<comment> \<open>the value of a property after \<open>{...old, ...update}\<close>\<close>
  "spread old Absent = old"
| "spread old new = new"

definition fresh_reservation :: "reservation_claim \<Rightarrow> string \<Rightarrow> reservation" where
  "fresh_reservation c at = reservation_claim.extend c (reservation.fields Reserved at at Absent)"

definition lost_reservation_error :: "reservation_transition \<Rightarrow> string" where
  "lost_reservation_error transition =
     (case transition of
        Complete _ \<Rightarrow> ''payment identifier completion lost its reservation''
      | Release _ _ _ \<Rightarrow> ''payment identifier release lost its reservation''
      | _ \<Rightarrow> ''payment identifier reservation ownership changed'')"

definition transitionPaymentIdentifierReservation ::
  "reservation_claim option \<Rightarrow> reservation option \<Rightarrow> reservation_transition
     \<Rightarrow> reservation option res" where
  "transitionPaymentIdentifierReservation claim current transition =
     (case claim of
        None \<Rightarrow> Inr None
      | Some c \<Rightarrow>
         (case transition of
            Reserve observedAt \<Rightarrow>
              if (case current of None \<Rightarrow> False | Some r \<Rightarrow> rs_status r \<noteq> SafelyReleased)
              then Inr None
              else Inr (Some (fresh_reservation c observedAt))
          | _ \<Rightarrow>
             (case current of
                None \<Rightarrow> Inl (JsError (lost_reservation_error transition))
              | Some r \<Rightarrow>
                  if \<not> paymentIdentifierReservationClaimsMatch r c
                  then Inl (JsError (lost_reservation_error transition))
                  else
                   (case transition of
                      Complete observedAt \<Rightarrow>
                        if rs_status r = SafelyReleased
                        then Inl (JsError ''released payment identifier cannot be completed'')
                        else Inr (Some (r\<lparr>rs_status := Completed, rs_recoveryReason := Undef,
                                         rs_updatedAt := observedAt\<rparr>))
                    | Release reason observedAt allowPending \<Rightarrow>
                        if (rs_status r \<noteq> Reserved
                              \<and> \<not> (allowPending \<and> rs_status r = ReservationPending))
                           \<or> val_of (rs_recoveryReason r) \<noteq> None
                        then Inl (JsError ''uncertain or completed payment identifier cannot be released'')
                        else Inr (Some (r\<lparr>rs_status := SafelyReleased, rs_recoveryReason := Val reason,
                                         rs_updatedAt := observedAt\<rparr>))
                    | Update status updatedAt recoveryReason \<Rightarrow>
                        if rs_status r = Completed \<or> rs_status r = SafelyReleased
                        then Inl (JsError ''terminal payment identifier reservation cannot change'')
                        else Inr (Some (r\<lparr>rs_status := status, rs_updatedAt := updatedAt,
                               rs_recoveryReason := spread (rs_recoveryReason r) recoveryReason\<rparr>))
                    | Reserve _ \<Rightarrow> Inr None))))"

section \<open>Matching claims\<close>

lemma same_num_sym: "same_num a b \<Longrightarrow> same_num b a"
  by (auto simp: same_num_def split: option.splits dest: num_eq_imp_eq)

lemma same_num_trans: "same_num a b \<Longrightarrow> same_num b c \<Longrightarrow> same_num a c"
  by (auto simp: same_num_def split: option.splits dest: num_eq_imp_eq)

lemma claims_match_sym:
  "paymentIdentifierReservationClaimsMatch a b \<Longrightarrow> paymentIdentifierReservationClaimsMatch b a"
  by (auto simp: paymentIdentifierReservationClaimsMatch_def same_str_def intro: same_num_sym)

lemma claims_match_trans:
  "paymentIdentifierReservationClaimsMatch a b \<Longrightarrow> paymentIdentifierReservationClaimsMatch b c
     \<Longrightarrow> paymentIdentifierReservationClaimsMatch a c"
  by (auto simp: paymentIdentifierReservationClaimsMatch_def same_str_def intro: same_num_trans)

lemma same_num_valid: "same_num (Val (JsInt i)) (Val (JsInt i))" "same_num Absent Undef"
  by (simp_all add: same_num_def)

definition same_owner :: "'a reservation_claim_scheme \<Rightarrow> 'b reservation_claim_scheme \<Rightarrow> bool" where
  \<comment> \<open>literally the same ownership facts\<close>
  "same_owner a b = (reservation_claim.truncate a = reservation_claim.truncate b)"

lemma same_owner_refl [simp]: "same_owner r r"
  by (simp add: same_owner_def)

lemma same_owner_trans: "same_owner a b \<Longrightarrow> same_owner b c \<Longrightarrow> same_owner a c"
  by (simp add: same_owner_def)

lemma truncate_reservation [simp]:
  "reservation_claim.truncate (r\<lparr>rs_status := s\<rparr>) = reservation_claim.truncate r"
  "reservation_claim.truncate (r\<lparr>rs_updatedAt := t\<rparr>) = reservation_claim.truncate r"
  "reservation_claim.truncate (r\<lparr>rs_recoveryReason := w\<rparr>) = reservation_claim.truncate r"
  by (simp_all add: reservation_claim.truncate_def)

lemma fresh_reservation_simps [simp]:
  "rs_status (fresh_reservation c at) = Reserved" "same_owner (fresh_reservation c at) c"
  "rs_createdAt (fresh_reservation c at) = at" "rs_updatedAt (fresh_reservation c at) = at"
  "rs_recoveryReason (fresh_reservation c at) = Absent"
  by (simp_all add: fresh_reservation_def reservation_claim.defs reservation.defs same_owner_def)

section \<open>The reservation of one identifier as a machine\<close>

definition reservation_step ::
  "reservation option \<Rightarrow> reservation_claim \<times> reservation_transition \<Rightarrow> reservation option res" where
  \<comment> \<open>the caller stores the successor, if there is one\<close>
  "reservation_step current cmd =
     bindE (transitionPaymentIdentifierReservation (Some (fst cmd)) current (snd cmd))
       (\<lambda>next. Inr (case next of None \<Rightarrow> current | Some r \<Rightarrow> Some r))"

definition reservation_below :: "reservation option \<Rightarrow> reservation option \<Rightarrow> bool" where
  \<comment> \<open>a completed reservation stays completed for the same owner\<close>
  "reservation_below s t =
     (\<forall>r. s = Some r \<longrightarrow> rs_status r = Completed
        \<longrightarrow> (\<exists>q. t = Some q \<and> rs_status q = Completed \<and> same_owner r q))"

lemma reservation_step_cases:
  assumes "reservation_step s (c, tr) = Inr t"
  shows "t = s \<or> (\<exists>q. t = Some q \<and>
     (((s = None \<or> (\<exists>r. s = Some r \<and> rs_status r = SafelyReleased)) \<and> (\<exists>at. tr = Reserve at)
         \<and> rs_status q = Reserved \<and> same_owner q c)
      \<or> (\<exists>r. s = Some r \<and> rs_status r \<noteq> SafelyReleased \<and> same_owner r q
           \<and> paymentIdentifierReservationClaimsMatch r c
           \<and> (rs_status r = Completed \<longrightarrow> rs_status q = Completed))))"
proof (cases tr)
  case (Reserve at)
  then show ?thesis using assms
    by (auto simp: reservation_step_def transitionPaymentIdentifierReservation_def split: option.splits if_splits)
next
  case (Complete at)
  then show ?thesis using assms
    by (auto simp: reservation_step_def transitionPaymentIdentifierReservation_def same_owner_def
        split: option.splits if_splits)
next
  case (Update status at reason)
  then show ?thesis using assms
    by (auto simp: reservation_step_def transitionPaymentIdentifierReservation_def same_owner_def
        split: option.splits if_splits)
next
  case (Release reason at allowPending)
  then show ?thesis using assms
    by (auto simp: reservation_step_def transitionPaymentIdentifierReservation_def same_owner_def
        split: option.splits if_splits)
qed

interpretation reservations: monotone_machine reservation_step "\<lambda>_. True" reservation_below
proof
  fix s c s' assume "reservation_step s c = Inr s'"
  then have "reservation_step s (fst c, snd c) = Inr s'" by simp
  from reservation_step_cases [OF this] show "reservation_below s s'"
    by (auto simp: reservation_below_def)
next
  fix s t u assume "reservation_below s t" "reservation_below t u"
  then show "reservation_below s u" unfolding reservation_below_def by (metis same_owner_trans)
qed (auto simp: reservation_below_def)

section \<open>Properties\<close>

text \<open>C30: a completed reservation is final. Whatever commands are issued on its identifier
  afterwards, by its owner or by anyone else, it stays completed and keeps its owner.\<close>

theorem completed_reservation_final:
  assumes "rs_status r = Completed"
  shows "\<exists>q. run_cmds reservation_step (Some r) cmds = Some q \<and> rs_status q = Completed \<and> same_owner r q"
  using reservations.run_below [of "Some r" cmds] assms by (simp add: reservation_below_def)

text \<open>Ownership of an identifier changes hands only after a safe release. A command that
  succeeds and leaves a reservation with another owner was a reservation of an identifier that
  was free or safely released, and the new owner is the claimant, in the state \<open>reserved\<close>.\<close>

theorem owner_changes_after_release:
  assumes "transitionPaymentIdentifierReservation (Some c) (Some r) tr = Inr (Some q)"
    and "\<not> same_owner r q"
  shows "rs_status r = SafelyReleased \<and> (\<exists>at. tr = Reserve at) \<and> rs_status q = Reserved \<and> same_owner q c"
proof -
  have "reservation_step (Some r) (c, tr) = Inr (Some q)"
    using assms(1) by (simp add: reservation_step_def)
  from reservation_step_cases [OF this] assms(2) show ?thesis by auto
qed

text \<open>A release succeeds exactly for the owner of a reservation that is still reserved, or
  pending where the caller allows it, and carries no recovery reason: an uncertain or finished
  payment can never give its identifier back.\<close>

theorem release_exact:
  "transitionPaymentIdentifierReservation (Some c) s (Release reason at allowPending) = Inr t \<longleftrightarrow>
     (\<exists>r. s = Some r \<and> paymentIdentifierReservationClaimsMatch r c
        \<and> (rs_status r = Reserved \<or> allowPending \<and> rs_status r = ReservationPending)
        \<and> val_of (rs_recoveryReason r) = None
        \<and> t = Some (r\<lparr>rs_status := SafelyReleased, rs_recoveryReason := Val reason, rs_updatedAt := at\<rparr>))"
  by (auto simp: transitionPaymentIdentifierReservation_def val_of_None split: option.splits if_splits)

section \<open>A concrete reservation\<close>

definition claim_example :: reservation_claim where
  "claim_example = \<lparr>rc_id = ''order-1'', rc_fingerprint = replicate 64 (CHR ''a''),
     rc_paymentPayloadHash = replicate 64 (CHR ''b''), rc_paymentScopeId = replicate 64 (CHR ''c''),
     rc_paymentKind = ''exact'', rc_ownerId = replicate 64 (CHR ''d''), rc_payerId = ''payer'',
     rc_channelId = Absent, rc_transactionId = Val (replicate 64 (CHR ''d'')),
     rc_paymentOutputIndex = Val (JsInt 0)\<rparr>"

definition reservation_example :: "reservation_status \<Rightarrow> reservation" where
  "reservation_example status = reservation_claim.extend claim_example
     (reservation.fields status ''2026-01-01T00:00:00Z'' ''2026-01-01T00:00:00Z'' Absent)"

theorem completed_reservation_final_witness:
  "\<exists>q. run_cmds reservation_step (Some (reservation_example Completed))
         [(claim_example, Release ''gone'' ''t'' True), (claim_example\<lparr>rc_ownerId := ''x''\<rparr>, Reserve ''t'')]
       = Some q \<and> rs_status q = Completed \<and> same_owner (reservation_example Completed) q"
proof -
  have "rs_status (reservation_example Completed) = Completed"
    by (simp add: reservation_example_def reservation_claim.defs reservation.defs)
  then show ?thesis by (rule completed_reservation_final)
qed

theorem owner_changes_after_release_witness:
  "\<exists>q. transitionPaymentIdentifierReservation (Some (claim_example\<lparr>rc_ownerId := ''x''\<rparr>))
         (Some (reservation_example SafelyReleased)) (Reserve ''t'') = Inr (Some q)
       \<and> \<not> same_owner (reservation_example SafelyReleased) q \<and> rs_status q = Reserved"
proof -
  let ?c = "claim_example\<lparr>rc_ownerId := ''x''\<rparr>"
  let ?q = "fresh_reservation ?c ''t''"
  note ev = reservation_example_def reservation_claim.defs reservation.defs claim_example_def same_owner_def
    fresh_reservation_def
  have h: "transitionPaymentIdentifierReservation (Some ?c) (Some (reservation_example SafelyReleased))
      (Reserve ''t'') = Inr (Some ?q)"
    by (simp add: transitionPaymentIdentifierReservation_def reservation_example_def
        reservation_claim.defs reservation.defs)
  have n: "\<not> same_owner (reservation_example SafelyReleased) ?q" by (simp add: ev numeral_eq_Suc)
  show ?thesis using h n owner_changes_after_release [OF h n] by blast
qed

end
