(* ===== verification/Exact_Heads.thy ===== *)
theory Exact_Heads
  imports Kip10_Template Payment_Identifier
begin

text \<open>
  Exact payment heads: \<^verbatim>\<open>server/src/exact-heads.ts\<close>. A head is a reusable KIP-10 output of
  the payee whose value only grows; a settlement attempt claims it, and acceptance advances it
  to the successor output of the paying transaction. The environment carries the two library
  functions in use, BLAKE2b and \<open>Date.parse\<close>. \<open>structuredClone\<close> copies plain data, so it is
  the identity here.
\<close>

section \<open>Records\<close>

record environment =
  env_blake2b :: "byte list \<Rightarrow> byte list"
  env_dateParse :: "string \<Rightarrow> int option"

datatype head_status = HeadAvailable | HeadClaimed | HeadUnavailable | HeadRetired

record exact_head =
  eh_headId :: string
  eh_network :: string
  eh_payTo :: string
  eh_templateId :: string
  eh_transactionEncoding :: string
  eh_currentOutpoint :: funding_outpoint
  eh_currentAmount :: string
  eh_scriptPublicKey :: string
  eh_redeemScript :: string
  eh_additiveThresholdSompi :: string
  eh_version :: string
  eh_status :: head_status
  eh_createdAt :: string
  eh_updatedAt :: string
  eh_claimTransactionId :: "string opt_field"
  eh_lastTransactionId :: "string opt_field"
  eh_unavailableReason :: "string opt_field"

record head_continuation =
  hc_outpoint :: funding_outpoint
  hc_amount :: string
  hc_scriptPublicKey :: string

record head_claim =
  cl_headId :: string
  cl_expectedVersion :: string
  cl_expectedOutpoint :: funding_outpoint
  cl_expectedAmount :: string
  cl_successor :: head_continuation

datatype attempt_status = AttemptPending | AttemptBroadcast | AttemptAccepted | AttemptApplied

record exact_attempt =
  at_network :: "string opt_field"
  at_transactionId :: string
  at_profile :: string
  at_amount :: string
  at_paymentOutputIndex :: js_number
  at_requestFingerprint :: string
  at_paymentRequirementsHash :: string
  at_paymentPayloadHash :: string
  at_requestAuthorizationId :: string
  at_authorizationExpiresAt :: string
  at_challengeExpiresAt :: "string opt_field"
  at_grantExpiresAt :: "string opt_field"
  at_payToScriptPublicKey :: string
  at_transaction :: string
  at_requiredFinality :: string
  at_status :: attempt_status
  at_createdAt :: string
  at_updatedAt :: string
  at_finality :: "string opt_field"
  at_handlerStartedAt :: "string opt_field"
  at_handlerResult :: "js_value opt_field"
  at_handlerCompletedAt :: "string opt_field"
  at_head :: "head_claim opt_field"
  at_recoveryReason :: "string opt_field"
  at_paymentIdentifier :: "reservation_claim opt_field"
  at_payerId :: string

record lineage_step =
  ls_transactionId :: string
  ls_spentOutpoint :: funding_outpoint
  ls_successor :: head_continuation
  ls_finality :: string

record lineage_apply =
  la_headId :: string
  la_expectedVersion :: string
  la_expectedOutpoint :: funding_outpoint
  la_expectedAmount :: string
  la_steps :: "lineage_step list"
  la_observedAt :: string

record head_selection =
  sel_network :: string
  sel_amount :: string
  sel_payTo :: string
  sel_payToScriptPublicKey :: string
  sel_minimumAdditiveThresholdSompi :: string

record head_manifest =
  hm_headId :: string
  hm_network :: string
  hm_payTo :: string
  hm_ownerPublicKey :: string
  hm_additiveThresholdSompi :: string
  hm_redeemScript :: string
  hm_scriptPublicKey :: string
  hm_currentOutpoint :: funding_outpoint
  hm_currentAmount :: string
  hm_version :: string
  hm_status :: head_status
  hm_createdAt :: string
  hm_updatedAt :: string
  hm_lastTransactionId :: "string opt_field"
  hm_unavailableReason :: "string opt_field"

definition MAX_EXTERNAL_LINEAGE_STEPS :: nat where
  "MAX_EXTERNAL_LINEAGE_STEPS = 64"

definition lower_opt :: "string opt_field \<Rightarrow> string opt_field" where
  \<comment> \<open>\<open>...(x ? { k: x.toLowerCase() } : {})\<close> over an existing property\<close>
  "lower_opt f = (case f of Val s \<Rightarrow> if s = [] then f else Val (to_lower s) | _ \<Rightarrow> f)"

definition lower_outpoint :: "funding_outpoint \<Rightarrow> funding_outpoint" where
  "lower_outpoint o' = \<lparr>op_txid = to_lower (op_txid o'), op_index = op_index o'\<rparr>"

fun js_truthy :: "js_value \<Rightarrow> bool" where
  "js_truthy JUndefined = False"
| "js_truthy JNull = False"
| "js_truthy (JBool b) = b"
| "js_truthy (JNum n) = (n \<noteq> JsInt 0 \<and> n \<noteq> JsNonInt ''NaN'')"
| "js_truthy (JStr s) = (s \<noteq> [])"
| "js_truthy _ = True"

definition truthy_value :: "js_value opt_field \<Rightarrow> bool" where
  "truthy_value f = (case f of Val v \<Rightarrow> js_truthy v | _ \<Rightarrow> False)"

section \<open>Heads\<close>

definition normalizeExactHeadRecord :: "environment \<Rightarrow> exact_head \<Rightarrow> exact_head res" where
  "normalizeExactHeadRecord env input =
     (if \<not> is_hash32 (eh_headId input) then Inl (JsError ''exact head id must be 32-byte hex'')
      else if \<not> is_hash32 (op_txid (eh_currentOutpoint input))
      then Inl (JsError ''exact head outpoint txid must be 32-byte hex'')
      else if \<not> in_range (op_index (eh_currentOutpoint input)) 0 0xffffffff
      then Inl (JsError ''exact head outpoint index is invalid'')
      else if eh_templateId input \<noteq> ''kaspa-x402-kip10-additive-v1''
              \<or> eh_transactionEncoding input \<noteq> ''kaspa-sdk-safe-json-v2.0.0''
      then Inl (JsError ''exact head template or transaction encoding is unsupported'')
      else bindE (parseSompiString (eh_currentAmount input)) (\<lambda>amount.
      if amount \<le> 0 then Inl (JsError ''exact head amount must be positive'')
      else bindE (parseSompiString (eh_version input)) (\<lambda>version.
      if version < 0 then Inl (JsError ''exact head version cannot be negative'')
      else bindE (parseSompiString (eh_additiveThresholdSompi input)) (\<lambda>threshold.
      if threshold \<le> 0 then Inl (JsError ''exact head additive threshold must be positive'')
      else bindE (parseKip10AdditiveRedeemScript (eh_redeemScript input)) (\<lambda>template.
      if k_amount template \<noteq> eh_additiveThresholdSompi input
      then Inl (JsError ''exact head threshold does not match its KIP-10 script'')
      else bindE (bindE (payToScriptHashScript (env_blake2b env) (eh_redeemScript input))
                   serializedScriptPublicKey) (\<lambda>serialized.
      let scriptPublicKey = to_lower serialized in
      if scriptPublicKey \<noteq> to_lower (eh_scriptPublicKey input)
      then Inl (JsError ''exact head redeem script does not match its script public key'')
      else if env_dateParse env (eh_createdAt input) = None \<or> env_dateParse env (eh_updatedAt input) = None
      then Inl (JsError ''exact head timestamps must be ISO date strings'')
      else if eh_status input = HeadClaimed \<and> \<not> truthy_str (eh_claimTransactionId input)
      then Inl (JsError ''claimed exact head requires a transaction id'')
      else if (case eh_claimTransactionId input of Val s \<Rightarrow> s \<noteq> [] \<and> \<not> is_hash32 s | _ \<Rightarrow> False)
      then Inl (JsError ''exact head claim transaction id must be 32-byte hex'')
      else Inr (input\<lparr>eh_headId := to_lower (eh_headId input),
                      eh_currentOutpoint := lower_outpoint (eh_currentOutpoint input),
                      eh_scriptPublicKey := scriptPublicKey,
                      eh_redeemScript := to_lower (eh_redeemScript input),
                      eh_claimTransactionId := lower_opt (eh_claimTransactionId input),
                      eh_lastTransactionId := lower_opt (eh_lastTransactionId input)\<rparr>)))))))"

definition exactHeadManifest :: "environment \<Rightarrow> exact_head \<Rightarrow> head_manifest res" where
  "exactHeadManifest env input =
     bindE (normalizeExactHeadRecord env input) (\<lambda>head.
     bindE (parseKip10AdditiveRedeemScript (eh_redeemScript head)) (\<lambda>template.
     Inr \<lparr>hm_headId = eh_headId head, hm_network = eh_network head, hm_payTo = eh_payTo head,
          hm_ownerPublicKey = k_ownerPublicKey template,
          hm_additiveThresholdSompi = eh_additiveThresholdSompi head,
          hm_redeemScript = eh_redeemScript head, hm_scriptPublicKey = eh_scriptPublicKey head,
          hm_currentOutpoint = eh_currentOutpoint head, hm_currentAmount = eh_currentAmount head,
          hm_version = eh_version head, hm_status = eh_status head,
          hm_createdAt = eh_createdAt head, hm_updatedAt = eh_updatedAt head,
          hm_lastTransactionId =
            (if truthy_str (eh_lastTransactionId head) then eh_lastTransactionId head else Absent),
          hm_unavailableReason =
            (if truthy_str (eh_unavailableReason head) then eh_unavailableReason head else Absent)\<rparr>))"

definition exactHeadMatchesSelection :: "exact_head \<Rightarrow> head_selection \<Rightarrow> bool res" where
  "exactHeadMatchesSelection head request =
     (if \<not> (eh_status head = HeadAvailable \<and> eh_network head = sel_network request
             \<and> eh_payTo head = sel_payTo request
             \<and> to_lower (eh_scriptPublicKey head) = to_lower (sel_payToScriptPublicKey request))
      then Inr False
      else bindE (parseSompiString (eh_additiveThresholdSompi head)) (\<lambda>threshold.
      bindE (parseSompiString (sel_minimumAdditiveThresholdSompi request)) (\<lambda>minimum.
      if \<not> minimum \<le> threshold then Inr False
      else bindE (parseSompiString (sel_amount request)) (\<lambda>amount.
      bindE (parseSompiString (eh_additiveThresholdSompi head)) (\<lambda>threshold'.
      Inr (threshold' \<le> amount))))))"

section \<open>Attempts\<close>

definition invalid_deadline :: "environment \<Rightarrow> string opt_field \<Rightarrow> bool" where
  "invalid_deadline env f = (case f of Val s \<Rightarrow> env_dateParse env s = None | _ \<Rightarrow> False)"

definition normalize_head_claim :: "string \<Rightarrow> string \<Rightarrow> string \<Rightarrow> head_claim \<Rightarrow> head_claim res" where
  \<comment> \<open>the checks on an attempt that claims a head: profile, transaction id and amount\<close>
  "normalize_head_claim profile transactionId amount claim =
     (if profile \<noteq> ''additive'' then Inl (JsError ''only additive exact may claim a head'')
      else if \<not> num_eq (op_index (cl_expectedOutpoint claim)) (JsInt 0)
              \<or> \<not> num_eq (op_index (hc_outpoint (cl_successor claim))) (JsInt 0)
      then Inl (JsError ''additive exact head and successor must remain at index 0'')
      else if to_lower (op_txid (hc_outpoint (cl_successor claim))) \<noteq> transactionId
      then Inl (JsError ''additive exact successor must belong to the claimed transaction'')
      else bindE (parseSompiString (hc_amount (cl_successor claim))) (\<lambda>successorAmount.
      bindE (parseSompiString (cl_expectedAmount claim)) (\<lambda>expectedAmount.
      bindE (parseSompiString amount) (\<lambda>delta.
      if successorAmount \<noteq> expectedAmount + delta
      then Inl (JsError ''additive exact successor delta must equal the settlement amount'')
      else Inr (claim\<lparr>cl_headId := to_lower (cl_headId claim),
              cl_expectedOutpoint := lower_outpoint (cl_expectedOutpoint claim),
              cl_successor := (cl_successor claim)
                \<lparr>hc_outpoint := lower_outpoint (hc_outpoint (cl_successor claim)),
                 hc_scriptPublicKey := to_lower (hc_scriptPublicKey (cl_successor claim))\<rparr>\<rparr>)))))"

definition normalizeExactSettlementAttempt ::
  "environment \<Rightarrow> exact_attempt \<Rightarrow> exact_attempt res" where
  "normalizeExactSettlementAttempt env input =
     bindE (case at_network input of Val n \<Rightarrow> bindE (parseKaspaNetwork n) (\<lambda>_. Inr ()) | _ \<Rightarrow> Inr ())
       (\<lambda>_.
     if \<not> is_hash32 (at_transactionId input)
     then Inl (JsError ''exact settlement transaction id must be 32-byte hex'')
     else if \<not> is_hash32 (at_requestFingerprint input)
     then Inl (JsError ''exact settlement request fingerprint must be 32-byte hex'')
     else if \<not> is_hash32 (at_paymentRequirementsHash input) \<or> \<not> is_hash32 (at_paymentPayloadHash input)
             \<or> \<not> is_hash32 (at_requestAuthorizationId input)
     then Inl (JsError ''exact settlement hashes must be 32-byte hex'')
     else if at_status input \<noteq> AttemptPending \<or> truthy_str (at_finality input)
             \<or> truthy_str (at_handlerStartedAt input) \<or> truthy_value (at_handlerResult input)
             \<or> truthy_str (at_handlerCompletedAt input) \<or> truthy_str (at_recoveryReason input)
     then Inl (JsError ''new exact settlement attempt must begin pending without finality or handler state'')
     else bindE (parseSompiString (at_amount input)) (\<lambda>amount.
     if amount \<le> 0 then Inl (JsError ''exact settlement amount must be positive'')
     else if at_transaction input = [] then Inl (JsError ''exact settlement transaction is required'')
     else if at_payerId input = [] \<or> 256 < length (at_payerId input)
     then Inl (JsError ''exact settlement payer identity is invalid'')
     else if (case at_paymentIdentifier input of
                Val c \<Rightarrow> to_lower (rc_ownerId c) \<noteq> to_lower (at_transactionId input)
                        \<or> map_option to_lower (val_of (rc_transactionId c))
                            \<noteq> Some (to_lower (at_transactionId input))
              | _ \<Rightarrow> False)
     then Inl (JsError ''exact payment identifier owner does not match its attempt'')
     else if at_requiredFinality input \<noteq> ''accepted'' \<and> at_requiredFinality input \<noteq> ''confirmed''
     then Inl (JsError ''exact settlement required finality is invalid'')
     else if \<not> is_byte_hex (at_payToScriptPublicKey input)
     then Inl (JsError ''exact settlement payTo script public key must be byte hex'')
     else if env_dateParse env (at_createdAt input) = None \<or> env_dateParse env (at_updatedAt input) = None
     then Inl (JsError ''exact settlement timestamps must be ISO date strings'')
     else if env_dateParse env (at_authorizationExpiresAt input) = None
             \<or> invalid_deadline env (at_challengeExpiresAt input)
             \<or> invalid_deadline env (at_grantExpiresAt input)
     then Inl (JsError ''exact settlement admission deadlines are invalid'')
     else let attempt = input\<lparr>at_transactionId := to_lower (at_transactionId input),
                at_requestFingerprint := to_lower (at_requestFingerprint input),
                at_paymentRequirementsHash := to_lower (at_paymentRequirementsHash input),
                at_paymentPayloadHash := to_lower (at_paymentPayloadHash input),
                at_requestAuthorizationId := to_lower (at_requestAuthorizationId input),
                at_payToScriptPublicKey := to_lower (at_payToScriptPublicKey input)\<rparr>
     in case at_head attempt of
          Val claim \<Rightarrow>
            bindE (normalize_head_claim (at_profile attempt) (at_transactionId attempt)
                     (at_amount attempt) claim)
              (\<lambda>c. Inr (attempt\<lparr>at_head := Val c\<rparr>))
        | _ \<Rightarrow> Inr attempt))"

section \<open>Claim, accept, release\<close>

definition attempt_network :: "exact_attempt \<Rightarrow> string" where
  "attempt_network attempt = (case at_network attempt of Val n \<Rightarrow> n | _ \<Rightarrow> ''kaspa:testnet-10'')"

definition claimExactHead :: "exact_head \<Rightarrow> exact_attempt \<Rightarrow> exact_head res" where
  "claimExactHead head attempt =
     (if eh_network head \<noteq> attempt_network attempt
      then Inl (JsError ''exact head and settlement attempt network mismatch'')
      else case at_head attempt of
        Val claim \<Rightarrow>
          if eh_status head \<noteq> HeadAvailable \<or> eh_headId head \<noteq> cl_headId claim
             \<or> eh_version head \<noteq> cl_expectedVersion claim
             \<or> \<not> sameOutpoint (eh_currentOutpoint head) (cl_expectedOutpoint claim)
             \<or> eh_currentAmount head \<noteq> cl_expectedAmount claim
             \<or> to_lower (eh_scriptPublicKey head) \<noteq> to_lower (hc_scriptPublicKey (cl_successor claim))
          then Inl (JsError ''exact head changed before settlement claim'')
          else Inr (head\<lparr>eh_status := HeadClaimed, eh_claimTransactionId := Val (at_transactionId attempt),
                         eh_updatedAt := at_updatedAt attempt\<rparr>)
      | _ \<Rightarrow> Inl (JsError ''exact head changed before settlement claim''))"

definition lower_is :: "string opt_field \<Rightarrow> string \<Rightarrow> bool" where
  \<comment> \<open>\<open>field?.toLowerCase() === text\<close>\<close>
  "lower_is f s = (map_option to_lower (val_of f) = Some s)"

definition already_advanced :: "exact_head \<Rightarrow> exact_attempt \<Rightarrow> head_claim \<Rightarrow> bool" where
  "already_advanced head attempt claim =
     (lower_is (eh_lastTransactionId head) (at_transactionId attempt)
      \<and> sameOutpoint (eh_currentOutpoint head) (hc_outpoint (cl_successor claim))
      \<and> eh_currentAmount head = hc_amount (cl_successor claim))"

definition acceptExactHead :: "exact_head \<Rightarrow> exact_attempt \<Rightarrow> string \<Rightarrow> exact_head res" where
  "acceptExactHead head attempt observedAt =
     (case at_head attempt of
        Val claim \<Rightarrow>
          if already_advanced head attempt claim then Inr head
          else if eh_status head \<noteq> HeadClaimed
             \<or> \<not> lower_is (eh_claimTransactionId head) (at_transactionId attempt)
             \<or> eh_version head \<noteq> cl_expectedVersion claim
             \<or> \<not> sameOutpoint (eh_currentOutpoint head) (cl_expectedOutpoint claim)
             \<or> eh_currentAmount head \<noteq> cl_expectedAmount claim
             \<or> to_lower (eh_scriptPublicKey head) \<noteq> to_lower (hc_scriptPublicKey (cl_successor claim))
          then Inl (JsError ''exact head changed before settlement acceptance'')
          else bindE (parseSompiString (eh_version head)) (\<lambda>version.
            Inr (head\<lparr>eh_currentOutpoint := hc_outpoint (cl_successor claim),
                      eh_currentAmount := hc_amount (cl_successor claim),
                      eh_version := int_to_string (version + 1), eh_status := HeadAvailable,
                      eh_updatedAt := observedAt,
                      eh_lastTransactionId := Val (at_transactionId attempt),
                      eh_claimTransactionId := Undef, eh_unavailableReason := Undef\<rparr>))
      | _ \<Rightarrow> Inl (JsError ''additive exact settlement is missing its head claim''))"

definition releaseExactHeadClaim :: "exact_head \<Rightarrow> exact_attempt \<Rightarrow> string \<Rightarrow> exact_head" where
  "releaseExactHeadClaim head attempt observedAt =
     (if \<not> lower_is (eh_claimTransactionId head) (at_transactionId attempt) then head
      else head\<lparr>eh_status := HeadAvailable, eh_claimTransactionId := Undef,
                eh_updatedAt := observedAt, eh_unavailableReason := Undef\<rparr>)"

section \<open>External lineage\<close>

record lineage_cursor =
  cu_outpoint :: funding_outpoint
  cu_amount :: int
  cu_lastTransactionId :: "string option"

definition lineage_step_check ::
  "string \<Rightarrow> int \<Rightarrow> lineage_cursor \<Rightarrow> lineage_step \<Rightarrow> lineage_cursor res" where
  \<comment> \<open>one iteration, for a head with this script and threshold\<close>
  "lineage_step_check script threshold cursor step =
     (if ls_finality step \<noteq> ''accepted'' \<and> ls_finality step \<noteq> ''confirmed''
      then Inl (JsError ''exact head lineage finality is invalid'')
      else if \<not> is_hash32 (ls_transactionId step)
      then Inl (JsError ''exact head lineage transaction id must be 32-byte hex'')
      else if \<not> sameOutpoint (ls_spentOutpoint step) (cu_outpoint cursor)
              \<or> to_lower (op_txid (hc_outpoint (ls_successor step))) \<noteq> to_lower (ls_transactionId step)
              \<or> \<not> num_eq (op_index (hc_outpoint (ls_successor step))) (op_index (cu_outpoint cursor))
              \<or> to_lower (hc_scriptPublicKey (ls_successor step)) \<noteq> to_lower script
      then Inl (JsError ''exact head lineage does not prove the same-index successor'')
      else bindE (parseSompiString (hc_amount (ls_successor step))) (\<lambda>successorAmount.
      if successorAmount < cu_amount cursor + threshold
      then Inl (JsError ''exact head lineage successor is below the KIP-10 threshold'')
      else Inr \<lparr>cu_outpoint = lower_outpoint (hc_outpoint (ls_successor step)),
                cu_amount = successorAmount,
                cu_lastTransactionId = Some (to_lower (ls_transactionId step))\<rparr>))"

definition applyExactHeadLineage ::
  "environment \<Rightarrow> exact_head \<Rightarrow> lineage_apply \<Rightarrow> exact_head res" where
  "applyExactHeadLineage env head input =
     (if eh_headId head \<noteq> to_lower (la_headId input) \<or> eh_version head \<noteq> la_expectedVersion input
         \<or> \<not> sameOutpoint (eh_currentOutpoint head) (la_expectedOutpoint input)
         \<or> eh_currentAmount head \<noteq> la_expectedAmount input
         \<or> eh_status head = HeadClaimed \<or> eh_status head = HeadRetired
      then Inl (JsError ''exact head changed before lineage reconciliation'')
      else if la_steps input = [] \<or> MAX_EXTERNAL_LINEAGE_STEPS < length (la_steps input)
      then Inl (JsError ''exact head lineage must contain between 1 and 64 steps'')
      else if env_dateParse env (la_observedAt input) = None
      then Inl (JsError ''exact head lineage observation time must be an ISO date string'')
      else bindE (parseSompiString (eh_additiveThresholdSompi head)) (\<lambda>threshold.
      bindE (parseSompiString (eh_currentAmount head)) (\<lambda>startAmount.
      bindE (foldE (lineage_step_check (eh_scriptPublicKey head) threshold)
               \<lparr>cu_outpoint = eh_currentOutpoint head, cu_amount = startAmount,
                cu_lastTransactionId = None\<rparr> (la_steps input)) (\<lambda>cursor.
      bindE (parseSompiString (eh_version head)) (\<lambda>version.
      normalizeExactHeadRecord env
        (head\<lparr>eh_currentOutpoint := cu_outpoint cursor,
              eh_currentAmount := int_to_string (cu_amount cursor),
              eh_version := int_to_string (version + int (length (la_steps input))),
              eh_status := HeadAvailable, eh_updatedAt := la_observedAt input,
              eh_lastTransactionId := of_option (cu_lastTransactionId cursor),
              eh_claimTransactionId := Undef, eh_unavailableReason := Undef\<rparr>))))))"

section \<open>Attempts as JSON\<close>

definition continuation_json :: "head_continuation \<Rightarrow> js_value" where
  "continuation_json c = JObj [(''outpoint'', outpoint_json (hc_outpoint c)),
     (''amount'', JStr (hc_amount c)), (''scriptPublicKey'', JStr (hc_scriptPublicKey c))]"

definition head_claim_json :: "head_claim \<Rightarrow> js_value" where
  "head_claim_json c = JObj [(''headId'', JStr (cl_headId c)),
     (''expectedVersion'', JStr (cl_expectedVersion c)),
     (''expectedOutpoint'', outpoint_json (cl_expectedOutpoint c)),
     (''expectedAmount'', JStr (cl_expectedAmount c)),
     (''successor'', continuation_json (cl_successor c))]"

definition claim_members :: "'a reservation_claim_scheme \<Rightarrow> (string \<times> js_value) list" where
  "claim_members c =
     [(''id'', JStr (rc_id c)), (''fingerprint'', JStr (rc_fingerprint c)),
      (''paymentPayloadHash'', JStr (rc_paymentPayloadHash c)),
      (''paymentScopeId'', JStr (rc_paymentScopeId c)), (''paymentKind'', JStr (rc_paymentKind c)),
      (''ownerId'', JStr (rc_ownerId c)), (''payerId'', JStr (rc_payerId c))]
     @ opt_member ''channelId'' JStr (rc_channelId c)
     @ opt_member ''transactionId'' JStr (rc_transactionId c)
     @ opt_member ''paymentOutputIndex'' JNum (rc_paymentOutputIndex c)"

definition exactAttemptTerms :: "exact_attempt \<Rightarrow> js_value" where
  \<comment> \<open>the attempt without its progress, the network made explicit\<close>
  "exactAttemptTerms a = JObj
     ([(''transactionId'', JStr (at_transactionId a)), (''profile'', JStr (at_profile a)),
       (''amount'', JStr (at_amount a)), (''paymentOutputIndex'', JNum (at_paymentOutputIndex a)),
       (''requestFingerprint'', JStr (at_requestFingerprint a)),
       (''paymentRequirementsHash'', JStr (at_paymentRequirementsHash a)),
       (''paymentPayloadHash'', JStr (at_paymentPayloadHash a)),
       (''requestAuthorizationId'', JStr (at_requestAuthorizationId a)),
       (''authorizationExpiresAt'', JStr (at_authorizationExpiresAt a)),
       (''payToScriptPublicKey'', JStr (at_payToScriptPublicKey a)),
       (''transaction'', JStr (at_transaction a)),
       (''requiredFinality'', JStr (at_requiredFinality a)), (''payerId'', JStr (at_payerId a)),
       (''network'', JStr (attempt_network a))]
      @ opt_member ''challengeExpiresAt'' JStr (at_challengeExpiresAt a)
      @ opt_member ''grantExpiresAt'' JStr (at_grantExpiresAt a)
      @ opt_member ''head'' head_claim_json (at_head a)
      @ opt_member ''paymentIdentifier'' (\<lambda>c. JObj (claim_members c)) (at_paymentIdentifier a))"

definition exactSettlementAttemptsMatch :: "exact_attempt \<Rightarrow> exact_attempt \<Rightarrow> bool" where
  "exactSettlementAttemptsMatch current expected =
     (stableJson (exactAttemptTerms current) = stableJson (exactAttemptTerms expected))"

section \<open>Matching attempts have the same terms\<close>

fun enc_opt :: "('a \<Rightarrow> js_value) \<Rightarrow> 'a opt_field \<Rightarrow> js_value option" where
  "enc_opt enc Absent = None"
| "enc_opt enc Undef = Some JUndefined"
| "enc_opt enc (Val x) = Some (enc x)"

lemma map_of_opt_member [simp]:
  "map_of (opt_member k enc f) j = (if j = k then enc_opt enc f else None)"
  by (cases f) auto

lemma add_opt_member [simp]:
  "j \<noteq> k \<Longrightarrow> (m ++ map_of (opt_member k enc f)) j = m j"
  "m k = None \<Longrightarrow> (m ++ map_of (opt_member k enc f)) k = enc_opt enc f"
  by (cases f; auto simp: map_add_def)+

lemma distinct_opt_member [simp]: "distinct (map fst (opt_member k enc f))"
  by (cases f) auto

definition json_code :: "('a \<Rightarrow> js_value) \<Rightarrow> bool" where
  \<comment> \<open>an encoder whose canonical values determine what they encode\<close>
  "json_code enc = ((\<forall>x y. canon (enc x) = canon (enc y) \<longrightarrow> x = y) \<and> (\<forall>x. canon (enc x) \<noteq> JUndefined))"

lemma opt_member_inject:
  assumes "json_code enc"
    and "map_option canon (enc_opt enc f) = map_option canon (enc_opt enc g)"
  shows "f = g"
  using assms by (cases f; cases g) (auto simp: json_code_def dest: sym)

lemma json_code_atoms: "json_code JStr" "json_code JNum"
  by (simp_all add: json_code_def)

lemma object_code:
  assumes "canon (JObj as) = canon (JObj bs)" "distinct (map fst as)" "distinct (map fst bs)"
  shows "map_option canon (map_of as k) = map_option canon (map_of bs k)"
  using assms by (rule canon_object_lookup)

lemma json_code_outpoint: "json_code outpoint_json"
proof -
  have "x = y" if "canon (outpoint_json x) = canon (outpoint_json y)" for x y
    using object_code [OF that [unfolded outpoint_json_def], of "''txid''"]
      object_code [OF that [unfolded outpoint_json_def], of "''index''"]
    by (cases x; cases y) simp
  then show ?thesis by (auto simp: json_code_def outpoint_json_def)
qed

lemma json_code_continuation: "json_code continuation_json"
proof -
  have "x = y" if "canon (continuation_json x) = canon (continuation_json y)" for x y
    using object_code [OF that [unfolded continuation_json_def], of "''outpoint''"]
      object_code [OF that [unfolded continuation_json_def], of "''amount''"]
      object_code [OF that [unfolded continuation_json_def], of "''scriptPublicKey''"]
      json_code_outpoint
    by (cases x; cases y) (simp add: json_code_def)
  then show ?thesis by (auto simp: json_code_def continuation_json_def)
qed

lemma json_code_head_claim: "json_code head_claim_json"
proof -
  have "x = y" if "canon (head_claim_json x) = canon (head_claim_json y)" for x y
    using object_code [OF that [unfolded head_claim_json_def], of "''headId''"]
      object_code [OF that [unfolded head_claim_json_def], of "''expectedVersion''"]
      object_code [OF that [unfolded head_claim_json_def], of "''expectedOutpoint''"]
      object_code [OF that [unfolded head_claim_json_def], of "''expectedAmount''"]
      object_code [OF that [unfolded head_claim_json_def], of "''successor''"]
      json_code_outpoint json_code_continuation
    by (cases x; cases y) (simp add: json_code_def)
  then show ?thesis by (auto simp: json_code_def head_claim_json_def)
qed

lemma distinct_claim_members: "distinct (map fst (claim_members c))"
  by (cases "rc_channelId c"; cases "rc_transactionId c"; cases "rc_paymentOutputIndex c")
    (simp_all add: claim_members_def)

lemma json_code_claim: "json_code (\<lambda>c :: reservation_claim. JObj (claim_members c))"
proof -
  have "x = y" if eq: "canon (JObj (claim_members x)) = canon (JObj (claim_members y))"
    for x y :: reservation_claim
  proof -
    note look = object_code [OF eq distinct_claim_members distinct_claim_members]
    have "rc_id x = rc_id y" "rc_fingerprint x = rc_fingerprint y"
      "rc_paymentPayloadHash x = rc_paymentPayloadHash y" "rc_paymentScopeId x = rc_paymentScopeId y"
      "rc_paymentKind x = rc_paymentKind y" "rc_ownerId x = rc_ownerId y" "rc_payerId x = rc_payerId y"
      using look [of "''id''"] look [of "''fingerprint''"] look [of "''paymentPayloadHash''"]
        look [of "''paymentScopeId''"] look [of "''paymentKind''"] look [of "''ownerId''"]
        look [of "''payerId''"] by (simp_all add: claim_members_def)
    moreover have "rc_channelId x = rc_channelId y"
      using look [of "''channelId''"] by (intro opt_member_inject [OF json_code_atoms(1)]) (simp add: claim_members_def)
    moreover have "rc_transactionId x = rc_transactionId y"
      using look [of "''transactionId''"] by (intro opt_member_inject [OF json_code_atoms(1)]) (simp add: claim_members_def)
    moreover have "rc_paymentOutputIndex x = rc_paymentOutputIndex y"
      using look [of "''paymentOutputIndex''"] by (intro opt_member_inject [OF json_code_atoms(2)]) (simp add: claim_members_def)
    ultimately show ?thesis by (cases x; cases y) simp
  qed
  then show ?thesis by (auto simp: json_code_def)
qed

lemma distinct_attempt_terms:
  "exactAttemptTerms a = JObj kvs \<Longrightarrow> distinct (map fst kvs)"
  by (cases "at_challengeExpiresAt a"; cases "at_grantExpiresAt a"; cases "at_head a";
      cases "at_paymentIdentifier a") (auto simp: exactAttemptTerms_def)

definition immutable_terms :: "exact_attempt \<Rightarrow> exact_attempt" where
  \<comment> \<open>what identifies an attempt: everything but its progress, with the default network\<close>
  "immutable_terms a = a\<lparr>at_network := Val (attempt_network a), at_status := AttemptPending,
     at_createdAt := [], at_updatedAt := [], at_finality := Absent, at_handlerStartedAt := Absent,
     at_handlerResult := Absent, at_handlerCompletedAt := Absent, at_recoveryReason := Absent\<rparr>"

lemma attempt_terms_inject:
  assumes "canon (exactAttemptTerms a) = canon (exactAttemptTerms b)"
  shows "immutable_terms a = immutable_terms b"
proof -
  obtain as bs where ab: "exactAttemptTerms a = JObj as" "exactAttemptTerms b = JObj bs"
    by (simp add: exactAttemptTerms_def)
  have look: "map_option canon (map_of as k) = map_option canon (map_of bs k)" for k
    using assms ab distinct_attempt_terms by (intro object_code) auto
  note ev = exactAttemptTerms_def
  have "at_transactionId a = at_transactionId b" "at_profile a = at_profile b" "at_amount a = at_amount b"
    "at_paymentOutputIndex a = at_paymentOutputIndex b" "at_requestFingerprint a = at_requestFingerprint b"
    "at_paymentRequirementsHash a = at_paymentRequirementsHash b"
    using ab look [of "''transactionId''"] look [of "''profile''"] look [of "''amount''"]
      look [of "''paymentOutputIndex''"] look [of "''requestFingerprint''"]
      look [of "''paymentRequirementsHash''"]
    by (auto simp: exactAttemptTerms_def)
  moreover have "at_paymentPayloadHash a = at_paymentPayloadHash b"
    "at_requestAuthorizationId a = at_requestAuthorizationId b"
    "at_authorizationExpiresAt a = at_authorizationExpiresAt b"
    "at_payToScriptPublicKey a = at_payToScriptPublicKey b" "at_transaction a = at_transaction b"
    "at_requiredFinality a = at_requiredFinality b" "at_payerId a = at_payerId b"
    "attempt_network a = attempt_network b"
    using ab look [of "''paymentPayloadHash''"] look [of "''requestAuthorizationId''"]
      look [of "''authorizationExpiresAt''"] look [of "''payToScriptPublicKey''"]
      look [of "''transaction''"] look [of "''requiredFinality''"] look [of "''payerId''"]
      look [of "''network''"]
    by (auto simp: exactAttemptTerms_def)
  moreover have "at_challengeExpiresAt a = at_challengeExpiresAt b" "at_grantExpiresAt a = at_grantExpiresAt b"
    using ab look [of "''challengeExpiresAt''"] look [of "''grantExpiresAt''"]
    by (auto intro!: opt_member_inject [OF json_code_atoms(1)] simp: ev)
  moreover have "at_head a = at_head b"
    using ab look [of "''head''"] by (auto intro!: opt_member_inject [OF json_code_head_claim] simp: ev)
  moreover have "at_paymentIdentifier a = at_paymentIdentifier b"
    using ab look [of "''paymentIdentifier''"]
    by (auto intro!: opt_member_inject [OF json_code_claim] simp: ev)
  ultimately show ?thesis
    by (intro exact_attempt.equality) (simp_all add: immutable_terms_def)
qed

definition claim_numbers_ok :: "reservation_claim \<Rightarrow> bool" where
  "claim_numbers_ok c = (case rc_paymentOutputIndex c of Val n \<Rightarrow> wf_number n | _ \<Rightarrow> True)"

definition attempt_numbers_ok :: "exact_attempt \<Rightarrow> bool" where
  \<comment> \<open>every number of the record is one that JavaScript can print\<close>
  "attempt_numbers_ok a = (wf_number (at_paymentOutputIndex a)
     \<and> (case at_head a of Val c \<Rightarrow> wf_number (op_index (cl_expectedOutpoint c))
            \<and> wf_number (op_index (hc_outpoint (cl_successor c))) | _ \<Rightarrow> True)
     \<and> (case at_paymentIdentifier a of Val c \<Rightarrow> claim_numbers_ok c | _ \<Rightarrow> True))"

lemma wf_opt_member: "list_all (\<lambda>(k, v). wf_js v) (opt_member k enc f) \<longleftrightarrow> (case f of Val x \<Rightarrow> wf_js (enc x) | _ \<Rightarrow> True)"
  by (cases f) auto

lemma opt_case_True: "(case f of Absent \<Rightarrow> True | _ \<Rightarrow> True)"
  by (cases f) auto

lemma wf_claim_members: "list_all (\<lambda>(k, v). wf_js v) (claim_members c) \<longleftrightarrow> claim_numbers_ok (reservation_claim.truncate c)"
  by (simp add: claim_members_def wf_opt_member claim_numbers_ok_def reservation_claim.defs
      split: opt_field.splits)

lemma wf_head_claim: "wf_js (head_claim_json c) \<longleftrightarrow> wf_number (op_index (cl_expectedOutpoint c))
    \<and> wf_number (op_index (hc_outpoint (cl_successor c)))"
  by (simp add: head_claim_json_def continuation_json_def outpoint_json_def)

lemma truncate_claim [simp]: "reservation_claim.truncate (c :: reservation_claim) = c"
  by (simp add: reservation_claim.defs)

lemma wf_attempt_terms: "attempt_numbers_ok a \<Longrightarrow> wf_js (exactAttemptTerms a)"
  by (simp add: attempt_numbers_ok_def exactAttemptTerms_def wf_opt_member wf_claim_members wf_head_claim
      opt_case_True cong: opt_field.case_cong)

text \<open>Two attempts match exactly when they have the same immutable terms: comparing the
  canonical texts of the records decides equality of every field except the progress fields
  (status, times, finality, handler state, recovery reason), where an untagged record counts as
  testnet-10. A transaction can therefore be claimed again only for the very same payment.\<close>

theorem attempts_match_exact:
  assumes "attempt_numbers_ok a" "attempt_numbers_ok b"
  shows "exactSettlementAttemptsMatch a b \<longleftrightarrow> immutable_terms a = immutable_terms b"
proof
  assume "exactSettlementAttemptsMatch a b"
  then show "immutable_terms a = immutable_terms b"
    using assms by (intro attempt_terms_inject)
      (simp add: exactSettlementAttemptsMatch_def canonical_text_iff wf_attempt_terms)
next
  assume eq: "immutable_terms a = immutable_terms b"
  have "exactAttemptTerms (immutable_terms c) = exactAttemptTerms c" for c
    by (simp add: exactAttemptTerms_def immutable_terms_def attempt_network_def)
  with eq show "exactSettlementAttemptsMatch a b" by (metis exactSettlementAttemptsMatch_def)
qed

end
