(* ===== verification/Server_Channel.thy ===== *)
theory Server_Channel
  imports Chain_Update Batch_Lane Exact_Heads
begin

text \<open>
  Server channels: the channel record of \<^verbatim>\<open>server/src/types.ts\<close> and
  \<^verbatim>\<open>server/src/channel-lineage.ts\<close>. A channel couples the lane accounting of a covenant with its
  lineage; the checks of this file keep the two in step and decide which lineage may replace another.
  The build identity of the escrow template is generated code: it is the parameter \<open>escrow\<close>.
\<close>

section \<open>Records\<close>

record genesis_verification =
  gv_covenantId :: string
  gv_authorizingInput :: funding_outpoint
  gv_genesisOutpoint :: funding_outpoint
  gv_genesisScriptPublicKey :: string
  gv_genesisAmount :: string
  gv_totalOutputCount :: js_number
  gv_authorizedOutputCount :: js_number
  gv_acceptance :: accepted_evidence

datatype channel_status = ChannelActive | ChannelRetired | ChannelRefunded | ChannelSuspicious

record server_channel = batch_lane_state +
  sc_channelId :: string
  sc_covenantId :: string
  sc_version :: string
  sc_genesisEvidence :: genesis_verification
  sc_channelConfig :: channel_config
  sc_escrowAddress :: string
  sc_activeOutpoint :: funding_outpoint
  sc_activeScriptPublicKey :: string
  sc_voucherSignature :: "string opt_field"
  sc_lastCommitmentId :: "string opt_field"
  sc_lineage :: lineage_state
  sc_status :: channel_status

record launch_identity =
  li_compiler :: js_value
  li_source :: js_value
  li_bytecode :: js_value
  li_constructorSlots :: js_value
  li_abi :: js_value
  li_selectors :: js_value
  li_identitySha256 :: string

abbreviation lane_of :: "server_channel \<Rightarrow> batch_lane_state" where
  "lane_of c \<equiv> batch_lane_state.truncate c"

section \<open>Records as JSON\<close>

definition channel_status_text :: "channel_status \<Rightarrow> string" where
  "channel_status_text s = (case s of ChannelActive \<Rightarrow> ''active'' | ChannelRetired \<Rightarrow> ''retired''
     | ChannelRefunded \<Rightarrow> ''refunded'' | ChannelSuspicious \<Rightarrow> ''suspicious'')"

definition genesis_evidence_json :: "genesis_verification \<Rightarrow> js_value" where
  "genesis_evidence_json g = JObj [(''covenantId'', JStr (gv_covenantId g)),
     (''authorizingInput'', outpoint_json (gv_authorizingInput g)),
     (''genesisOutpoint'', outpoint_json (gv_genesisOutpoint g)),
     (''genesisScriptPublicKey'', JStr (gv_genesisScriptPublicKey g)),
     (''genesisAmount'', JStr (gv_genesisAmount g)), (''totalOutputCount'', JNum (gv_totalOutputCount g)),
     (''authorizedOutputCount'', JNum (gv_authorizedOutputCount g)), (''acceptance'', accepted_json (gv_acceptance g))]"

definition channel_config_json :: "channel_config \<Rightarrow> js_value" where
  "channel_config_json c = JObj [(''network'', JStr (cc_network c)), (''asset'', JStr (cc_asset c)),
     (''templateId'', JStr (cc_templateId c)), (''clientPublicKey'', JStr (cc_clientPublicKey c)),
     (''serverPublicKey'', JStr (cc_serverPublicKey c)), (''payTo'', JStr (cc_payTo c)),
     (''refundAddress'', JStr (cc_refundAddress c)), (''refundTimeoutDaa'', JStr (cc_refundTimeoutDaa c)),
     (''salt'', JStr (cc_salt c))]"

definition channel_json :: "server_channel \<Rightarrow> js_value" where
  "channel_json c = JObj ([(''channelId'', JStr (sc_channelId c)), (''covenantId'', JStr (sc_covenantId c)),
     (''version'', JStr (sc_version c)), (''genesisEvidence'', genesis_evidence_json (sc_genesisEvidence c)),
     (''channelConfig'', channel_config_json (sc_channelConfig c)), (''escrowAddress'', JStr (sc_escrowAddress c)),
     (''activeOutpoint'', outpoint_json (sc_activeOutpoint c)),
     (''activeScriptPublicKey'', JStr (sc_activeScriptPublicKey c)), (''fundingAmount'', JStr (fundingAmount c)),
     (''chargedCumulativeAmount'', JStr (chargedCumulativeAmount c)),
     (''claimedCumulativeAmount'', JStr (claimedCumulativeAmount c)),
     (''signedMaxClaimable'', JStr (signedMaxClaimable c))]
     @ opt_member ''voucherSignature'' JStr (sc_voucherSignature c)
     @ opt_member ''lastCommitmentId'' JStr (sc_lastCommitmentId c)
     @ [(''lineage'', lineage_json (sc_lineage c)), (''status'', JStr (channel_status_text (sc_status c)))])"

section \<open>channel-lineage.ts\<close>

definition textDiffers :: "js_value \<Rightarrow> js_value \<Rightarrow> bool res" where
  \<comment> \<open>\<open>stableStringify(a) !== stableStringify(b)\<close>\<close>
  "textDiffers a b = bindE (stableStringify a) (\<lambda>s. bindE (stableStringify b) (\<lambda>t. Inr (s \<noteq> t)))"

definition compiler_json :: "launch_manifest \<Rightarrow> js_value" where
  "compiler_json m = JObj [(''name'', JStr (lm_compiler_name m)),
     (''checkedCommit'', JStr (lm_compiler_checkedCommit m)), (''command'', JStr (lm_compiler_command m))]"

definition source_json :: "launch_manifest \<Rightarrow> js_value" where
  "source_json m = JObj [(''path'', JStr (lm_source_path m)), (''sha256'', JStr (lm_source_sha256 m))]"

definition bytecode_json :: "launch_manifest \<Rightarrow> js_value" where
  "bytecode_json m = JObj [(''templateId'', JStr (lm_bytecode_templateId m)),
     (''compiledBaseSha256'', JStr (lm_bytecode_compiledBaseSha256 m))]"

definition manifest_mismatch :: "launch_identity \<Rightarrow> server_channel \<Rightarrow> bool res" where
  "manifest_mismatch escrow channel =
     (let m = ln_manifest (sc_lineage channel); g = lm_genesis m; e = sc_genesisEvidence channel in
      orE (Inr (lm_network m \<noteq> cc_network (sc_channelConfig channel)))
     (orE (textDiffers (compiler_json m) (li_compiler escrow))
     (orE (textDiffers (source_json m) (li_source escrow))
     (orE (textDiffers (bytecode_json m) (li_bytecode escrow))
     (orE (textDiffers (lm_constructorSlots m) (li_constructorSlots escrow))
     (orE (textDiffers (lm_abi m) (li_abi escrow))
     (orE (textDiffers (lm_selectors m) (li_selectors escrow))
     (orE (Inr (to_lower (lm_identitySha256 m) \<noteq> to_lower (li_identitySha256 escrow)
        \<or> to_lower (mg_covenantId g) \<noteq> to_lower (sc_covenantId channel)
        \<or> to_lower (mg_transactionId g) \<noteq> to_lower (op_txid (gv_genesisOutpoint e))
        \<or> \<not> sameOutpoint (mg_authorizingInput g) (gv_authorizingInput e)
        \<or> \<not> sameOutpoint (mg_outpoint g) (gv_genesisOutpoint e)
        \<or> to_lower (mg_scriptPublicKey g) \<noteq> to_lower (gv_genesisScriptPublicKey e)
        \<or> mg_value g \<noteq> gv_genesisAmount e))
     (textDiffers (accepted_json (mg_acceptance g)) (accepted_json (gv_acceptance e)))))))))))"

definition assertServerChannelLineageConsistency ::
  "(byte list \<Rightarrow> byte list) \<Rightarrow> launch_identity \<Rightarrow> server_channel \<Rightarrow> unit res" where
  "assertServerChannelLineageConsistency sha escrow channel =
     bindE (canonicalCovenantTransitions sha (sc_lineage channel)) (\<lambda>_.
     bindE (manifest_mismatch escrow channel) (\<lambda>mismatch.
     if mismatch then Inl (JsError ''server channel does not match its immutable covenant launch manifest'')
     else case ln_currentHead (sc_lineage channel) of
       None \<Rightarrow>
         if sc_status channel \<noteq> ChannelRefunded
         then Inl (JsError ''terminal covenant lineage requires a refunded channel'') else Inr ()
     | Some head \<Rightarrow>
         if sc_status channel = ChannelRefunded
         then Inl (JsError ''refunded server channel still has a derived covenant head'')
         else if to_lower (op_txid (lh_outpoint head)) \<noteq> to_lower (op_txid (sc_activeOutpoint channel))
            \<or> \<not> num_eq (op_index (lh_outpoint head)) (op_index (sc_activeOutpoint channel))
            \<or> to_lower (lh_scriptPublicKey head) \<noteq> to_lower (sc_activeScriptPublicKey channel)
            \<or> lh_value head \<noteq> fundingAmount channel
            \<or> lh_claimedCumulativeAmount head \<noteq> claimedCumulativeAmount channel
         then Inl (JsError ''server channel head does not match its derived covenant lineage'')
         else Inr ()))"

definition sameCovenantLineage :: "lineage_state \<Rightarrow> lineage_state \<Rightarrow> bool res" where
  "sameCovenantLineage left right = bindE (textDiffers (lineage_json left) (lineage_json right)) (\<lambda>d. Inr (\<not> d))"

definition assertServerCovenantJournalExtension ::
  "(byte list \<Rightarrow> byte list) \<Rightarrow> launch_identity \<Rightarrow> server_channel \<Rightarrow> server_channel \<Rightarrow> unit res" where
  "assertServerCovenantJournalExtension sha escrow previous next =
     bindE (assertServerChannelLineageConsistency sha escrow previous) (\<lambda>_.
     bindE (assertServerChannelLineageConsistency sha escrow next) (\<lambda>_.
     bindE (textDiffers (manifest_json (ln_manifest (sc_lineage previous)))
              (manifest_json (ln_manifest (sc_lineage next)))) (\<lambda>changed.
     if changed then Inl (JsError ''covenant launch manifest is immutable'')
     else assertCovenantLineageExtension sha (sc_lineage previous) (sc_lineage next))))"

fun accepted_ids :: "lineage_event list \<Rightarrow> string list" where
  "accepted_ids [] = []"
| "accepted_ids (AcceptedEvent n t # rest) = to_lower (lt_transactionId t) # accepted_ids rest"
| "accepted_ids (_ # rest) = accepted_ids rest"

fun num_diff :: "js_number \<Rightarrow> js_number \<Rightarrow> nat" where
  \<comment> \<open>the events compacted between two states, a non-negative integer after the extension check\<close>
  "num_diff (JsInt n) (JsInt p) = nat (n - p)"
| "num_diff _ _ = 0"

definition rolled_back ::
  "(byte list \<Rightarrow> byte list) \<Rightarrow> lineage_state \<Rightarrow> lineage_state \<Rightarrow> bool res" where
  \<comment> \<open>some canonical transition of the previous lineage is neither canonical nor newly anchored\<close>
  "rolled_back sha previous next =
     bindE (canonicalCovenantTransitions sha next) (\<lambda>nextTransitions.
     bindE (canonicalCovenantTransitions sha previous) (\<lambda>previousTransitions.
     let nextIds = map (\<lambda>t. to_lower (lt_transactionId t)) nextTransitions;
         compacted = num_diff (an_compactedEvents (ln_anchor next)) (an_compactedEvents (ln_anchor previous));
         newlyAnchoredIds = accepted_ids (take compacted (ln_journal previous))
     in Inr (list_ex (\<lambda>t. to_lower (lt_transactionId t) \<notin> set nextIds
                         \<and> to_lower (lt_transactionId t) \<notin> set newlyAnchoredIds) previousTransitions)))"

definition off_chain_changed :: "server_channel \<Rightarrow> server_channel \<Rightarrow> bool res" where
  "off_chain_changed previous next =
     orE (Inr (sc_channelId next \<noteq> sc_channelId previous \<or> sc_covenantId next \<noteq> sc_covenantId previous))
    (orE (textDiffers (genesis_evidence_json (sc_genesisEvidence next)) (genesis_evidence_json (sc_genesisEvidence previous)))
    (orE (textDiffers (channel_config_json (sc_channelConfig next)) (channel_config_json (sc_channelConfig previous)))
    (Inr (chargedCumulativeAmount next \<noteq> chargedCumulativeAmount previous
      \<or> signedMaxClaimable next \<noteq> signedMaxClaimable previous
      \<or> val_of (sc_voucherSignature next) \<noteq> val_of (sc_voucherSignature previous)
      \<or> val_of (sc_lastCommitmentId next) \<noteq> val_of (sc_lastCommitmentId previous)))))"

definition assertServerCovenantLineageExtension ::
  "(byte list \<Rightarrow> byte list) \<Rightarrow> launch_identity \<Rightarrow> server_channel \<Rightarrow> server_channel \<Rightarrow> unit res" where
  "assertServerCovenantLineageExtension sha escrow previous next =
     bindE (assertServerCovenantJournalExtension sha escrow previous next) (\<lambda>_.
     bindE (off_chain_changed previous next) (\<lambda>changed.
     if changed
     then Inl (JsError ''covenant lineage reconciliation changed immutable or off-chain channel state'')
     else bindE (parseSompiString (sc_version next)) (\<lambda>nextVersion.
     bindE (parseSompiString (sc_version previous)) (\<lambda>previousVersion.
     if nextVersion \<noteq> previousVersion + 1
     then Inl (JsError ''covenant lineage reconciliation must increment channel version'')
     else bindE (rolled_back sha (sc_lineage previous) (sc_lineage next)) (\<lambda>rolledBack.
     let expectedStatus =
           (if ln_currentHead (sc_lineage next) = None then ChannelRefunded
            else if sc_status previous = ChannelRefunded \<or> rolledBack then ChannelSuspicious
            else sc_status previous)
     in if sc_status next \<noteq> expectedStatus
        then Inl (JsError ''covenant lineage reconciliation has an invalid channel status transition'')
        else Inr ())))))"

end
