(* ===== verification/Head_Lifecycle.thy ===== *)
theory Head_Lifecycle
  imports Exact_Heads
begin

text \<open>
  The life of an exact head. \<open>head_ok\<close> is the normal form every stored head has, and
  \<open>attempt_ok\<close> what admission guarantees about an attempt for its whole life. On these rest the
  properties of \<^verbatim>\<open>exact-heads.ts\<close>: claiming is exclusive and reversible, acceptance adds
  exactly the paid amount and is idempotent, and an external lineage raises the value by at
  least the threshold per step.
\<close>

section \<open>Normalised heads\<close>

lemma to_lower_append_hex: "hex_decode (to_lower s) = hex_decode s" if "HEX_BYTE_PATTERN_test s"
  using that by (metis HEX_BYTE_PATTERN_test_def bytesToHex_hex_decode hex_decode_bytesToHex)

lemma HEX_BYTE_PATTERN_lower [simp]: "HEX_BYTE_PATTERN_test (to_lower s) = HEX_BYTE_PATTERN_test s"
  by (simp add: HEX_BYTE_PATTERN_test_def to_lower_def list_all_iff)

lemma covenant_hexToBytes_lower: "covenant_hexToBytes (to_lower s) None l = covenant_hexToBytes s None l"
  by (simp add: covenant_hexToBytes_def to_lower_append_hex)

lemma parseKip10_lower: "parseKip10AdditiveRedeemScript (to_lower s) = parseKip10AdditiveRedeemScript s"
  by (simp add: parseKip10AdditiveRedeemScript_def covenant_hexToBytes_lower)

lemma payToScriptHash_lower: "payToScriptHashScript b (to_lower s) = payToScriptHashScript b s"
  by (simp add: payToScriptHashScript_def covenant_hexToBytes_lower)

lemma lower_opt_idem [simp]: "lower_opt (lower_opt f) = lower_opt f"
  by (cases f) (auto simp: lower_opt_def)

lemma lower_outpoint_idem [simp]: "lower_outpoint (lower_outpoint p) = lower_outpoint p"
  by (simp add: lower_outpoint_def)

lemma lower_outpoint_simps [simp]:
  "op_txid (lower_outpoint p) = to_lower (op_txid p)" "op_index (lower_outpoint p) = op_index p"
  by (simp_all add: lower_outpoint_def)

definition head_terms_ok :: "environment \<Rightarrow> exact_head \<Rightarrow> bool" where
  \<comment> \<open>the facts about a head that no operation changes\<close>
  "head_terms_ok env h = (is_hash32 (eh_headId h) \<and> eh_templateId h = ''kaspa-x402-kip10-additive-v1''
     \<and> eh_transactionEncoding h = ''kaspa-sdk-safe-json-v2.0.0''
     \<and> (\<exists>v. 0 < v \<and> v \<le> U64_MAX \<and> eh_additiveThresholdSompi h = int_to_string v)
     \<and> (\<exists>k. parseKip10AdditiveRedeemScript (eh_redeemScript h) = Inr k \<and> k_amount k = eh_additiveThresholdSompi h)
     \<and> (\<exists>s. bindE (payToScriptHashScript (env_blake2b env) (eh_redeemScript h)) serializedScriptPublicKey = Inr s
           \<and> to_lower s = to_lower (eh_scriptPublicKey h))
     \<and> env_dateParse env (eh_createdAt h) \<noteq> None)"

definition head_position_ok :: "environment \<Rightarrow> exact_head \<Rightarrow> bool" where
  \<comment> \<open>the facts about the current output, version and claim\<close>
  "head_position_ok env h = (is_hash32 (op_txid (eh_currentOutpoint h))
     \<and> in_range (op_index (eh_currentOutpoint h)) 0 0xffffffff
     \<and> (\<exists>v. 0 < v \<and> v \<le> U64_MAX \<and> eh_currentAmount h = int_to_string v)
     \<and> (\<exists>v. 0 \<le> v \<and> v \<le> U64_MAX \<and> eh_version h = int_to_string v)
     \<and> env_dateParse env (eh_updatedAt h) \<noteq> None
     \<and> (eh_status h = HeadClaimed \<longrightarrow> truthy_str (eh_claimTransactionId h))
     \<and> (\<forall>s. eh_claimTransactionId h = Val s \<longrightarrow> s = [] \<or> is_hash32 s))"

definition lower_head :: "exact_head \<Rightarrow> exact_head" where
  "lower_head h = h\<lparr>eh_headId := to_lower (eh_headId h),
     eh_currentOutpoint := lower_outpoint (eh_currentOutpoint h),
     eh_scriptPublicKey := to_lower (eh_scriptPublicKey h),
     eh_redeemScript := to_lower (eh_redeemScript h),
     eh_claimTransactionId := lower_opt (eh_claimTransactionId h),
     eh_lastTransactionId := lower_opt (eh_lastTransactionId h)\<rparr>"

lemma normalizeExactHeadRecord_Inr [run_simps]:
  "normalizeExactHeadRecord env h = Inr h' \<longleftrightarrow>
     head_terms_ok env h \<and> head_position_ok env h \<and> h' = lower_head h"
proof
  assume "normalizeExactHeadRecord env h = Inr h'"
  then show "head_terms_ok env h \<and> head_position_ok env h \<and> h' = lower_head h"
    unfolding normalizeExactHeadRecord_def head_terms_ok_def head_position_ok_def lower_head_def
    by (auto simp: if_throw_Inr bindE_Inr parseSompiString_Inr Let_def split: opt_field.splits if_splits)
next
  assume r: "head_terms_ok env h \<and> head_position_ok env h \<and> h' = lower_head h"
  then obtain s k p where "payToScriptHashScript (env_blake2b env) (eh_redeemScript h) = Inr p"
    "serializedScriptPublicKey p = Inr s" "to_lower s = to_lower (eh_scriptPublicKey h)"
    "parseKip10AdditiveRedeemScript (eh_redeemScript h) = Inr k" "k_amount k = eh_additiveThresholdSompi h"
    by (auto simp: head_terms_ok_def bindE_Inr)
  moreover from r have "\<exists>v. 0 < v \<and> parseSompiString (eh_additiveThresholdSompi h) = Inr v"
    "\<exists>v. 0 < v \<and> parseSompiString (eh_currentAmount h) = Inr v"
    "\<exists>v. 0 \<le> v \<and> parseSompiString (eh_version h) = Inr v"
    by (auto simp: head_terms_ok_def head_position_ok_def parseSompiString_Inr)
  ultimately show "normalizeExactHeadRecord env h = Inr h'"
    using r unfolding normalizeExactHeadRecord_def head_terms_ok_def head_position_ok_def lower_head_def
    by (auto simp: if_throw_Inr bindE_Inr Let_def split: opt_field.splits)
qed

lemma lower_head_idem [simp]: "lower_head (lower_head h) = lower_head h"
  by (simp add: lower_head_def)

lemma lower_head_id:
  "lower_head h = h \<longleftrightarrow> to_lower (eh_headId h) = eh_headId h
     \<and> lower_outpoint (eh_currentOutpoint h) = eh_currentOutpoint h
     \<and> to_lower (eh_scriptPublicKey h) = eh_scriptPublicKey h
     \<and> to_lower (eh_redeemScript h) = eh_redeemScript h
     \<and> lower_opt (eh_claimTransactionId h) = eh_claimTransactionId h
     \<and> lower_opt (eh_lastTransactionId h) = eh_lastTransactionId h"
  by (cases h) (simp add: lower_head_def)

lemma lower_opt_simps [simp]:
  "lower_opt Absent = Absent" "lower_opt Undef = Undef"
  "lower_opt (Val s) = Val (to_lower s)"
  by (simp_all add: lower_opt_def)

lemma lower_head_ok:
  "head_terms_ok env h \<Longrightarrow> head_terms_ok env (lower_head h)"
  "head_position_ok env h \<Longrightarrow> head_position_ok env (lower_head h)"
  by (auto simp: head_terms_ok_def head_position_ok_def lower_head_def parseKip10_lower
      payToScriptHash_lower lower_opt_def split: opt_field.splits if_splits)

definition head_ok :: "environment \<Rightarrow> exact_head \<Rightarrow> bool" where
  \<comment> \<open>a stored head: valid and in normal form\<close>
  "head_ok env h = (normalizeExactHeadRecord env h = Inr h)"

lemma head_ok_iff: "head_ok env h \<longleftrightarrow> head_terms_ok env h \<and> head_position_ok env h \<and> lower_head h = h"
  by (auto simp: head_ok_def normalizeExactHeadRecord_Inr)

lemma normalized_head_ok: "normalizeExactHeadRecord env h = Inr h' \<Longrightarrow> head_ok env h'"
  by (simp add: head_ok_def normalizeExactHeadRecord_Inr lower_head_ok)

section \<open>Normalised attempts\<close>

definition head_claim_ok :: "string \<Rightarrow> string \<Rightarrow> string \<Rightarrow> head_claim \<Rightarrow> bool" where
  "head_claim_ok profile txid amount c = (profile = ''additive''
     \<and> op_index (cl_expectedOutpoint c) = JsInt 0
     \<and> hc_outpoint (cl_successor c) = \<lparr>op_txid = txid, op_index = JsInt 0\<rparr>
     \<and> to_lower (cl_headId c) = cl_headId c
     \<and> (\<exists>e d. 0 \<le> e \<and> 0 \<le> d \<and> e + d \<le> U64_MAX \<and> cl_expectedAmount c = int_to_string e
          \<and> amount = int_to_string d \<and> hc_amount (cl_successor c) = int_to_string (e + d)))"

lemma normalize_head_claim_Inr:
  assumes "normalize_head_claim profile txid amount c = Inr c'" "to_lower txid = txid"
  shows "head_claim_ok profile txid amount c'"
  using assms
  by (auto simp: normalize_head_claim_def run_simps head_claim_ok_def lower_outpoint_def)

definition attempt_ok :: "environment \<Rightarrow> exact_attempt \<Rightarrow> bool" where
  \<comment> \<open>the facts about an attempt that its progress never changes\<close>
  "attempt_ok env a = (is_lower_hash32 (at_transactionId a)
     \<and> (\<exists>v. 0 < v \<and> v \<le> U64_MAX \<and> at_amount a = int_to_string v)
     \<and> (\<forall>c. at_head a = Val c \<longrightarrow> head_claim_ok (at_profile a) (at_transactionId a) (at_amount a) c)
     \<and> (\<forall>c. at_paymentIdentifier a = Val c \<longrightarrow> to_lower (rc_ownerId c) = at_transactionId a
          \<and> lower_is (rc_transactionId c) (at_transactionId a))
     \<and> attempt_network a \<in> set SUPPORTED_NETWORKS)"

lemma normalizeExactSettlementAttempt_Inr:
  assumes "normalizeExactSettlementAttempt env a = Inr a'"
  shows "attempt_ok env a'" "at_status a' = AttemptPending" "\<not> truthy_str (at_handlerStartedAt a')"
    "\<not> truthy_value (at_handlerResult a')" "\<not> truthy_str (at_recoveryReason a')"
    "at_transactionId a' = to_lower (at_transactionId a)"
    "env_dateParse env (at_updatedAt a') \<noteq> None"
    "(\<forall>c. at_head a' \<noteq> Val c) \<longleftrightarrow> (\<forall>c. at_head a \<noteq> Val c)"
proof -
  define b where "b = a\<lparr>at_transactionId := to_lower (at_transactionId a),
                at_requestFingerprint := to_lower (at_requestFingerprint a),
                at_paymentRequirementsHash := to_lower (at_paymentRequirementsHash a),
                at_paymentPayloadHash := to_lower (at_paymentPayloadHash a),
                at_requestAuthorizationId := to_lower (at_requestAuthorizationId a),
                at_payToScriptPublicKey := to_lower (at_payToScriptPublicKey a)\<rparr>"
  from assms have pre: "is_hash32 (at_transactionId a)" "\<exists>v. 0 < v \<and> v \<le> U64_MAX \<and> at_amount a = int_to_string v"
    "at_status a = AttemptPending" "\<not> truthy_str (at_handlerStartedAt a)"
    "\<not> truthy_value (at_handlerResult a)" "\<not> truthy_str (at_recoveryReason a)"
    "env_dateParse env (at_updatedAt a) \<noteq> None"
    "attempt_network a \<in> set SUPPORTED_NETWORKS"
    "\<forall>c. at_paymentIdentifier a = Val c \<longrightarrow> to_lower (rc_ownerId c) = to_lower (at_transactionId a)
        \<and> map_option to_lower (val_of (rc_transactionId c)) = Some (to_lower (at_transactionId a))"
    and res: "(case at_head b of Val claim \<Rightarrow> bindE (normalize_head_claim (at_profile b) (at_transactionId b)
           (at_amount b) claim) (\<lambda>c. Inr (b\<lparr>at_head := Val c\<rparr>)) | _ \<Rightarrow> Inr b) = Inr a'"
    unfolding normalizeExactSettlementAttempt_def b_def [symmetric]
    by (auto simp: bindE_Inr if_throw_Inr parseSompiString_Inr parseKaspaNetwork_Inr attempt_network_def
        SUPPORTED_NETWORKS_def Let_def split: opt_field.splits)
  from res obtain f where f: "a' = b\<lparr>at_head := f\<rparr>" "(\<forall>c. f \<noteq> Val c) \<longleftrightarrow> (\<forall>c. at_head b \<noteq> Val c)"
  proof (cases "at_head b")
    case (Val c)
    with res obtain c' where "a' = b\<lparr>at_head := Val c'\<rparr>" by (auto simp: bindE_Inr)
    with Val that [of "Val c'"] show thesis by simp
  qed (use that [of "at_head b"] in auto)
  have lower: "to_lower (at_transactionId b) = at_transactionId b" by (simp add: b_def)
  have claims: "head_claim_ok (at_profile b) (at_transactionId b) (at_amount b) c" if "at_head a' = Val c" for c
    using res that normalize_head_claim_Inr [OF _ lower] by (auto simp: bindE_Inr split: opt_field.splits)
  show "at_status a' = AttemptPending" "\<not> truthy_str (at_handlerStartedAt a')"
    "\<not> truthy_value (at_handlerResult a')" "\<not> truthy_str (at_recoveryReason a')"
    "at_transactionId a' = to_lower (at_transactionId a)" "env_dateParse env (at_updatedAt a') \<noteq> None"
    "(\<forall>c. at_head a' \<noteq> Val c) \<longleftrightarrow> (\<forall>c. at_head a \<noteq> Val c)"
    using pre(3-7) f by (simp_all add: b_def)
  have "attempt_network a' = attempt_network a" by (simp add: attempt_network_def f(1) b_def)
  moreover have "\<forall>c. f = Val c \<longrightarrow> head_claim_ok (at_profile a) (to_lower (at_transactionId a)) (at_amount a) c"
    using claims f(1) by (simp add: b_def)
  ultimately show "attempt_ok env a'"
    using pre(1,2,8,9) by (simp add: attempt_ok_def f(1) b_def is_lower_hash32_lower lower_is_def)
qed

section \<open>Claims\<close>

lemma sameOutpoint_refl: "in_range (op_index p) lo hi \<Longrightarrow> sameOutpoint p p"
  by (auto simp: sameOutpoint_def in_range_iff)

lemma claimExactHead_Inr:
  "claimExactHead h a = Inr h' \<longleftrightarrow>
     (\<exists>c. at_head a = Val c \<and> eh_network h = attempt_network a \<and> eh_status h = HeadAvailable
        \<and> eh_headId h = cl_headId c \<and> eh_version h = cl_expectedVersion c
        \<and> sameOutpoint (eh_currentOutpoint h) (cl_expectedOutpoint c)
        \<and> eh_currentAmount h = cl_expectedAmount c
        \<and> to_lower (eh_scriptPublicKey h) = to_lower (hc_scriptPublicKey (cl_successor c))
        \<and> h' = h\<lparr>eh_status := HeadClaimed, eh_claimTransactionId := Val (at_transactionId a),
                  eh_updatedAt := at_updatedAt a\<rparr>)"
  by (cases "at_head a") (auto simp: claimExactHead_def)

definition holds_claim :: "exact_head \<Rightarrow> exact_attempt \<Rightarrow> head_claim \<Rightarrow> bool" where
  \<comment> \<open>the head is claimed by this attempt on the terms of this claim\<close>
  "holds_claim h a c = (at_head a = Val c \<and> eh_status h = HeadClaimed
     \<and> eh_claimTransactionId h = Val (at_transactionId a) \<and> eh_headId h = cl_headId c
     \<and> eh_version h = cl_expectedVersion c
     \<and> sameOutpoint (eh_currentOutpoint h) (cl_expectedOutpoint c)
     \<and> eh_currentAmount h = cl_expectedAmount c
     \<and> to_lower (eh_scriptPublicKey h) = to_lower (hc_scriptPublicKey (cl_successor c)))"

lemma claim_holds: "claimExactHead h a = Inr h' \<Longrightarrow> \<exists>c. holds_claim h' a c"
  by (auto simp: claimExactHead_Inr holds_claim_def)

lemma lower_txid: "attempt_ok env a \<Longrightarrow> to_lower (at_transactionId a) = at_transactionId a"
  by (simp add: attempt_ok_def to_lower_lower_hash32)

lemma hash32_txid: "attempt_ok env a \<Longrightarrow> is_hash32 (at_transactionId a)"
  by (metis attempt_ok_def is_hash32_lower is_lower_hash32_def is_hash32_def is_lower_hex_def is_hex_def
      list_all_iff)

lemma claim_keeps_ok:
  assumes "head_ok env h" "attempt_ok env a" "env_dateParse env (at_updatedAt a) \<noteq> None"
    and "claimExactHead h a = Inr h'"
  shows "head_ok env h'"
proof -
  have "is_hash32 (at_transactionId a)" "to_lower (at_transactionId a) = at_transactionId a"
    using assms(2) hash32_txid lower_txid by blast+
  then show ?thesis
    using assms(1,3,4)
    by (auto simp: claimExactHead_Inr head_ok_iff head_terms_ok_def head_position_ok_def lower_head_id
        is_hash32_def)
qed

section \<open>Acceptance\<close>

lemma accept_claimed:
  assumes "attempt_ok env a" "holds_claim h a c" "eh_version h = int_to_string n" "0 \<le> n" "n \<le> U64_MAX"
  shows "acceptExactHead h a t = Inr (h\<lparr>eh_currentOutpoint := hc_outpoint (cl_successor c),
       eh_currentAmount := hc_amount (cl_successor c), eh_version := int_to_string (n + 1),
       eh_status := HeadAvailable, eh_updatedAt := t,
       eh_lastTransactionId := Val (at_transactionId a),
       eh_claimTransactionId := Undef, eh_unavailableReason := Undef\<rparr>)"
proof -
  from assms(1,2) obtain e d where ed: "0 \<le> e" "0 < d" "cl_expectedAmount c = int_to_string e"
    "hc_amount (cl_successor c) = int_to_string (e + d)"
    by (auto simp: attempt_ok_def holds_claim_def head_claim_ok_def)
  then have "cl_expectedAmount c \<noteq> hc_amount (cl_successor c)" by simp
  then have "\<not> already_advanced h a c" using assms(2) by (auto simp: already_advanced_def holds_claim_def)
  moreover have "parseSompiString (eh_version h) = Inr n" using assms(3-5) by (simp add: parseSompiString_Inr)
  moreover have "lower_is (eh_claimTransactionId h) (at_transactionId a)"
    using assms(1,2) lower_txid by (simp add: lower_is_def holds_claim_def)
  ultimately show ?thesis using assms(2) by (simp add: acceptExactHead_def holds_claim_def)
qed

lemma accept_keeps_ok:
  assumes "head_ok env h" "attempt_ok env a" "env_dateParse env t \<noteq> None"
    and "acceptExactHead h a t = Inr h'" "eh_version h \<noteq> int_to_string U64_MAX"
  shows "head_ok env h'"
proof -
  from assms(4) obtain c where c: "at_head a = Val c" by (auto simp: acceptExactHead_def split: opt_field.splits)
  then have claim: "head_claim_ok (at_profile a) (at_transactionId a) (at_amount a) c"
    using assms(2) by (simp add: attempt_ok_def)
  from assms(1) obtain n where n: "0 \<le> n" "n \<le> U64_MAX" "eh_version h = int_to_string n"
    by (auto simp: head_ok_iff head_position_ok_def)
  with assms(5) have "n + 1 \<le> U64_MAX" by (cases "n = U64_MAX") auto
  then have ver: "\<exists>v. 0 \<le> v \<and> v \<le> U64_MAX \<and> int_to_string (n + 1) = int_to_string v" using n by force
  have amt: "\<exists>v. 0 < v \<and> v \<le> U64_MAX \<and> hc_amount (cl_successor c) = int_to_string v"
    using claim assms(2) by (force simp: head_claim_ok_def attempt_ok_def)
  show ?thesis
  proof (cases "already_advanced h a c")
    case True
    with assms(1,4) c show ?thesis by (simp add: acceptExactHead_def)
  next
    case False
    with assms(4) c n have "h' = h\<lparr>eh_currentOutpoint := hc_outpoint (cl_successor c),
       eh_currentAmount := hc_amount (cl_successor c), eh_version := int_to_string (n + 1),
       eh_status := HeadAvailable, eh_updatedAt := t, eh_lastTransactionId := Val (at_transactionId a),
       eh_claimTransactionId := Undef, eh_unavailableReason := Undef\<rparr>"
      by (auto simp: acceptExactHead_def bindE_Inr parseSompiString_Inr split: if_splits)
    then show ?thesis
      using assms(1-3) claim ver amt hash32_txid [OF assms(2)] lower_txid [OF assms(2)]
      by (auto simp: head_ok_iff head_terms_ok_def head_position_ok_def lower_head_id head_claim_ok_def
          lower_outpoint_def in_range_def)
  qed
qed

lemma release_keeps_ok:
  assumes "head_ok env h" "env_dateParse env t \<noteq> None"
  shows "head_ok env (releaseExactHeadClaim h a t)"
  using assms
  by (auto simp: releaseExactHeadClaim_def head_ok_iff head_terms_ok_def head_position_ok_def lower_head_id)

section \<open>Lineage\<close>

lemma lineage_step_check_Inr:
  assumes "lineage_step_check script threshold cu s = Inr cu'"
  shows "cu_amount cu + threshold \<le> cu_amount cu'" "cu_outpoint cu' = lower_outpoint (hc_outpoint (ls_successor s))"
    "op_index (cu_outpoint cu') = op_index (cu_outpoint cu)"
    "cu_lastTransactionId cu' = Some (to_lower (ls_transactionId s))" "is_hash32 (ls_transactionId s)"
    "op_txid (cu_outpoint cu') = to_lower (ls_transactionId s)" "sameOutpoint (ls_spentOutpoint s) (cu_outpoint cu)"
  using assms by (auto simp: lineage_step_check_def run_simps dest: num_eq_imp_eq)

lemma lineage_fold:
  assumes "foldE (lineage_step_check script threshold) cu steps = Inr cu'"
  shows "cu_amount cu + int (length steps) * threshold \<le> cu_amount cu'"
    and "op_index (cu_outpoint cu') = op_index (cu_outpoint cu)"
    and "steps \<noteq> [] \<Longrightarrow> op_txid (cu_outpoint cu') = to_lower (ls_transactionId (last steps))
          \<and> cu_lastTransactionId cu' = Some (to_lower (ls_transactionId (last steps)))"
proof -
  have "cu_amount cu + int (length steps) * threshold \<le> cu_amount cu'
    \<and> op_index (cu_outpoint cu') = op_index (cu_outpoint cu)
    \<and> (steps \<noteq> [] \<longrightarrow> op_txid (cu_outpoint cu') = to_lower (ls_transactionId (last steps))
          \<and> cu_lastTransactionId cu' = Some (to_lower (ls_transactionId (last steps))))"
    using assms
  proof (induction steps arbitrary: cu)
    case (Cons s steps)
    then obtain m where m: "lineage_step_check script threshold cu s = Inr m"
      "foldE (lineage_step_check script threshold) m steps = Inr cu'" by (auto simp: bindE_Inr)
    note st = lineage_step_check_Inr [OF m(1)] and ih = Cons.IH [OF m(2)]
    have "cu_amount cu + int (length (s # steps)) * threshold \<le> cu_amount cu'"
      using st(1) ih by (simp add: algebra_simps)
    moreover have "op_index (cu_outpoint cu') = op_index (cu_outpoint cu)" using st(3) ih by simp
    ultimately show ?case using st(4,6) ih m(2) by (cases "steps = []") auto
  qed auto
  then show "cu_amount cu + int (length steps) * threshold \<le> cu_amount cu'"
    "op_index (cu_outpoint cu') = op_index (cu_outpoint cu)"
    "steps \<noteq> [] \<Longrightarrow> op_txid (cu_outpoint cu') = to_lower (ls_transactionId (last steps))
          \<and> cu_lastTransactionId cu' = Some (to_lower (ls_transactionId (last steps)))" by blast+
qed

lemma lineage_effect:
  assumes "applyExactHeadLineage env h input = Inr h'"
  shows "head_ok env h' \<and> eh_status h \<noteq> HeadClaimed \<and> eh_status h \<noteq> HeadRetired
    \<and> int (dec_val (eh_version h')) = int (dec_val (eh_version h)) + int (length (la_steps input))
    \<and> int (dec_val (eh_currentAmount h)) + int (length (la_steps input)) * int (dec_val (eh_additiveThresholdSompi h))
        \<le> int (dec_val (eh_currentAmount h'))
    \<and> op_index (eh_currentOutpoint h') = op_index (eh_currentOutpoint h)
    \<and> op_txid (eh_currentOutpoint h') = to_lower (ls_transactionId (last (la_steps input)))
    \<and> eh_scriptPublicKey h' = to_lower (eh_scriptPublicKey h)
    \<and> 1 \<le> length (la_steps input) \<and> length (la_steps input) \<le> 64"
proof -
  from assms obtain th am ve cu where st: "eh_status h \<noteq> HeadClaimed" "eh_status h \<noteq> HeadRetired"
    "la_steps input \<noteq> []" "length (la_steps input) \<le> 64"
    and p: "parseSompiString (eh_additiveThresholdSompi h) = Inr th" "parseSompiString (eh_currentAmount h) = Inr am"
    "parseSompiString (eh_version h) = Inr ve"
    and fold: "foldE (lineage_step_check (eh_scriptPublicKey h) th)
        \<lparr>cu_outpoint = eh_currentOutpoint h, cu_amount = am, cu_lastTransactionId = None\<rparr> (la_steps input) = Inr cu"
    and norm: "normalizeExactHeadRecord env (h\<lparr>eh_currentOutpoint := cu_outpoint cu,
          eh_currentAmount := int_to_string (cu_amount cu),
          eh_version := int_to_string (ve + int (length (la_steps input))),
          eh_status := HeadAvailable, eh_updatedAt := la_observedAt input,
          eh_lastTransactionId := of_option (cu_lastTransactionId cu),
          eh_claimTransactionId := Undef, eh_unavailableReason := Undef\<rparr>) = Inr h'"
    by (auto simp: applyExactHeadLineage_def bindE_Inr if_throw_Inr MAX_EXTERNAL_LINEAGE_STEPS_def)
  note lf = lineage_fold [OF fold]
  from norm have h': "h' = lower_head (h\<lparr>eh_currentOutpoint := cu_outpoint cu,
          eh_currentAmount := int_to_string (cu_amount cu),
          eh_version := int_to_string (ve + int (length (la_steps input))),
          eh_status := HeadAvailable, eh_updatedAt := la_observedAt input,
          eh_lastTransactionId := of_option (cu_lastTransactionId cu),
          eh_claimTransactionId := Undef, eh_unavailableReason := Undef\<rparr>)"
    by (simp add: normalizeExactHeadRecord_Inr)
  have nums: "0 \<le> th" "0 \<le> am" "0 \<le> ve" "eh_additiveThresholdSompi h = int_to_string th"
    "eh_currentAmount h = int_to_string am" "eh_version h = int_to_string ve"
    using p by (auto simp: parseSompiString_Inr)
  have "0 \<le> int (length (la_steps input)) * th" using nums(1) by simp
  then have "0 \<le> cu_amount cu" using lf(1) nums(2) by simp
  have "1 \<le> length (la_steps input)" using st(3) by (simp add: Suc_le_eq)
  with st normalized_head_ok [OF norm] nums lf \<open>0 \<le> cu_amount cu\<close> show ?thesis
    by (simp add: h' lower_head_def lower_outpoint_def)
qed

section \<open>Properties\<close>

text \<open>Normalising a head is idempotent: the record it returns passes every check again and
  is returned unchanged, so the stored form is a fixed point.\<close>

theorem normalize_head_idempotent:
  assumes "normalizeExactHeadRecord env h = Inr h'"
  shows "normalizeExactHeadRecord env h' = Inr h'"
  using normalized_head_ok [OF assms] by (simp add: head_ok_def)

text \<open>A head is claimed by at most one attempt: once a claim succeeds every further claim
  fails, whoever makes it, and releasing it restores the head as it was, available with the
  same output, amount and version.\<close>

theorem claim_exclusive:
  assumes "attempt_ok env a" "claimExactHead h a = Inr h'"
  shows "(\<forall>b. \<not> succeeds (claimExactHead h' b))
    \<and> releaseExactHeadClaim h' a t
        = h\<lparr>eh_claimTransactionId := Undef, eh_updatedAt := t, eh_unavailableReason := Undef\<rparr>"
proof -
  from assms(2) have h': "h' = h\<lparr>eh_status := HeadClaimed, eh_claimTransactionId := Val (at_transactionId a),
      eh_updatedAt := at_updatedAt a\<rparr>" and "eh_status h = HeadAvailable"
    by (auto simp: claimExactHead_Inr)
  then have "\<not> succeeds (claimExactHead h' b)" for b
    by (auto simp: succeeds_iff claimExactHead_Inr)
  moreover have "releaseExactHeadClaim h' a t
      = h\<lparr>eh_claimTransactionId := Undef, eh_updatedAt := t, eh_unavailableReason := Undef\<rparr>"
    using \<open>eh_status h = HeadAvailable\<close> lower_txid [OF assms(1)]
    by (cases h) (simp add: h' releaseExactHeadClaim_def lower_is_def)
  ultimately show ?thesis by blast
qed

text \<open>C1: acceptance always succeeds on the head its attempt has claimed, adds exactly the paid
  amount to it, moves it to output 0 of the paying transaction, raises its version by one and
  frees it; accepting the same attempt again changes nothing.\<close>

theorem accept_adds_exactly:
  assumes "head_ok env h" "attempt_ok env a" "claimExactHead h a = Inr h1"
  shows "\<exists>h2. acceptExactHead h1 a t = Inr h2
    \<and> int (dec_val (eh_currentAmount h2)) = int (dec_val (eh_currentAmount h)) + int (dec_val (at_amount a))
    \<and> int (dec_val (eh_version h2)) = int (dec_val (eh_version h)) + 1
    \<and> eh_currentOutpoint h2 = \<lparr>op_txid = at_transactionId a, op_index = JsInt 0\<rparr>
    \<and> eh_status h2 = HeadAvailable \<and> eh_scriptPublicKey h2 = eh_scriptPublicKey h
    \<and> acceptExactHead h2 a u = Inr h2"
proof -
  from claim_holds [OF assms(3)] obtain c where c: "holds_claim h1 a c" by blast
  from assms(3) have h1: "eh_version h1 = eh_version h" "eh_currentAmount h1 = eh_currentAmount h"
    "eh_scriptPublicKey h1 = eh_scriptPublicKey h" by (auto simp: claimExactHead_Inr)
  from assms(1) h1 obtain n where n: "0 \<le> n" "n \<le> U64_MAX" "eh_version h1 = int_to_string n"
    by (auto simp: head_ok_iff head_position_ok_def)
  from assms(2) c obtain e d where ed: "0 \<le> e" "0 \<le> d" "cl_expectedAmount c = int_to_string e"
    "at_amount a = int_to_string d" "hc_amount (cl_successor c) = int_to_string (e + d)"
    and out: "hc_outpoint (cl_successor c) = \<lparr>op_txid = at_transactionId a, op_index = JsInt 0\<rparr>"
    and head: "at_head a = Val c" and cur: "eh_currentAmount h1 = cl_expectedAmount c"
    by (auto simp: attempt_ok_def holds_claim_def head_claim_ok_def)
  have "lower_is (Val (at_transactionId a)) (at_transactionId a)"
    using lower_txid [OF assms(2)] by (simp add: lower_is_def)
  then show ?thesis
    using ed out head cur n h1 accept_claimed [OF assms(2) c n(3,1,2), of t]
    by (simp add: acceptExactHead_def already_advanced_def sameOutpoint_def)
qed

text \<open>An external lineage only adds value. When it is applied, the head was neither
  claimed nor retired, its version grows by the number of steps, its amount by at least the
  additive threshold for every step, its output index and script stay the same, its outpoint is
  in the last transaction of the lineage, and the result is again a valid normalised head.\<close>

theorem lineage_adds_value:
  assumes "applyExactHeadLineage env h input = Inr h'"
  shows "head_ok env h' \<and> eh_status h \<noteq> HeadClaimed \<and> eh_status h \<noteq> HeadRetired
    \<and> int (dec_val (eh_version h')) = int (dec_val (eh_version h)) + int (length (la_steps input))
    \<and> int (dec_val (eh_currentAmount h)) + int (length (la_steps input)) * int (dec_val (eh_additiveThresholdSompi h))
        \<le> int (dec_val (eh_currentAmount h'))
    \<and> op_index (eh_currentOutpoint h') = op_index (eh_currentOutpoint h)
    \<and> op_txid (eh_currentOutpoint h') = to_lower (ls_transactionId (last (la_steps input)))
    \<and> eh_scriptPublicKey h' = to_lower (eh_scriptPublicKey h)
    \<and> 1 \<le> length (la_steps input) \<and> length (la_steps input) \<le> 64"
  using lineage_effect [OF assms] .

section \<open>A concrete head\<close>

lemma to_lower_bytesToHex [simp]: "to_lower (bytesToHex bs) = bytesToHex bs"
  using bytesToHex_hex_decode [of "bytesToHex bs"] bytesToHex_hex [of bs]
  by (simp add: HEX_BYTE_PATTERN_test_def)

definition example_time :: string where
  "example_time = ''2026-01-01T00:00:00Z''"

definition example_deadline :: string where
  "example_deadline = ''2026-01-01T00:05:00Z''"

definition example_env :: environment where
  "example_env = \<lparr>env_blake2b = fold_sha,
     env_dateParse = (\<lambda>s. if s = example_time then Some 1767225600000
                         else if s = example_deadline then Some 1767225900000 else None)\<rparr>"

definition example_owner :: "byte list" where
  "example_owner = replicate 32 0xaa"

definition example_redeem :: "byte list" where
  "example_redeem = kip10_bytes example_owner [2, 0xe8, 3]"

definition example_spk :: string where
  "example_spk = bytesToHex ([0, 0, 0xaa, 0x20] @ fold_sha example_redeem @ [0x87])"

definition head_example :: exact_head where
  "head_example = \<lparr>eh_headId = replicate 64 (CHR ''1''), eh_network = ''kaspa:testnet-10'',
     eh_payTo = ''kaspatest:payee'', eh_templateId = ''kaspa-x402-kip10-additive-v1'',
     eh_transactionEncoding = ''kaspa-sdk-safe-json-v2.0.0'',
     eh_currentOutpoint = \<lparr>op_txid = replicate 64 (CHR ''2''), op_index = JsInt 0\<rparr>,
     eh_currentAmount = ''5000'', eh_scriptPublicKey = example_spk,
     eh_redeemScript = bytesToHex example_redeem, eh_additiveThresholdSompi = ''1000'',
     eh_version = ''3'', eh_status = HeadAvailable, eh_createdAt = example_time,
     eh_updatedAt = example_time, eh_claimTransactionId = Absent, eh_lastTransactionId = Absent,
     eh_unavailableReason = Absent\<rparr>"

lemma head_numbers: "int_to_string 5000 = ''5000''" "int_to_string 1000 = ''1000''" "int_to_string 3 = ''3''"
  "int_to_string 2500 = ''2500''" "int_to_string 7500 = ''7500''" "int_to_string 4 = ''4''"
  by (simp_all add: int_to_string_def nat_to_string.simps)

lemma lower_replicate: "is_lower_hex c \<Longrightarrow> to_lower (replicate n c) = replicate n c"
  by (simp add: to_lower_def lower_char_lower_hex)

lemma hash32_replicate: "is_hex c \<Longrightarrow> is_hash32 (replicate 64 c)"
  by (simp add: is_hash32_def list_all_length)

lemma example_hex_digits: "is_lower_hex (CHR ''1'')" "is_lower_hex (CHR ''2'')" "is_lower_hex (CHR ''3'')"
  "is_lower_hex (CHR ''a'')" "is_lower_hex (CHR ''b'')" "is_lower_hex (CHR ''c'')" "is_lower_hex (CHR ''d'')"
  by (simp_all add: is_lower_hex_def code_def)

lemma lower_hex_is_hex: "is_lower_hex c \<Longrightarrow> is_hex c"
  by (auto simp: is_lower_hex_def is_hex_def)

lemmas example_digits = example_hex_digits example_hex_digits [THEN lower_hex_is_hex]

lemma example_redeem_parse:
  "parseKip10AdditiveRedeemScript (bytesToHex example_redeem)
     = Inr \<lparr>k_ownerPublicKey = bytesToHex example_owner, k_amount = ''1000''\<rparr>"
proof -
  have "pushScriptNumber 1000 = Inr [2, 0xe8, 3]"
    by (simp add: pushScriptNumber_def signed_le_def pushData_def minimal_le.simps b8_def)
  then show ?thesis
    using parse_kip10_bytes [of example_owner 1000 "[2, 0xe8, 3]" "bytesToHex example_redeem"]
    by (simp add: example_owner_def example_redeem_def bytesToHex_hex head_numbers)
qed

lemma example_redeem_spk:
  "bindE (payToScriptHashScript fold_sha (bytesToHex example_redeem)) serializedScriptPublicKey = Inr example_spk"
  by (simp add: payToScriptHashScript_def serializedScriptPublicKey_def covenant_hexToBytes_def
      bytesToHex_hex in_range_def example_spk_def b8_def del: bytesToHex_Cons)

lemma example_spk_hex: "to_lower example_spk = example_spk" "list_all is_hex example_spk"
  "length example_spk = 74"
proof -
  have "length (fold_sha example_redeem) = 32" using fold_sha_digest32 by (simp add: digest32_def)
  then show "length example_spk = 74" by (simp add: example_spk_def)
  show "to_lower example_spk = example_spk" unfolding example_spk_def by (rule to_lower_bytesToHex)
  show "list_all is_hex example_spk" unfolding example_spk_def by (rule bytesToHex_hex)
qed

lemma head_example_ok: "head_ok example_env head_example"
proof -
  have nums: "\<exists>v>0. v \<le> U64_MAX \<and> ''5000'' = int_to_string v" "\<exists>v>0. v \<le> U64_MAX \<and> ''1000'' = int_to_string v"
    "\<exists>v\<ge>0. v \<le> U64_MAX \<and> ''3'' = int_to_string v"
    using head_numbers by (intro exI [of _ 5000] exI [of _ 1000] exI [of _ 3]; simp add: U64_MAX_def)+
  have "head_terms_ok example_env head_example"
    using nums example_redeem_parse example_redeem_spk
    by (simp add: head_terms_ok_def head_example_def hash32_replicate example_digits example_env_def)
  moreover have "head_position_ok example_env head_example"
    using nums by (simp add: head_position_ok_def head_example_def hash32_replicate example_digits
        example_env_def in_range_def)
  moreover have "lower_head head_example = head_example"
    by (simp add: lower_head_id head_example_def lower_replicate example_digits lower_outpoint_def example_spk_hex)
  ultimately show ?thesis by (simp add: head_ok_iff)
qed

definition attempt_example :: exact_attempt where
  "attempt_example = \<lparr>at_network = Val ''kaspa:testnet-10'', at_transactionId = replicate 64 (CHR ''d''),
     at_profile = ''additive'', at_amount = ''2500'', at_paymentOutputIndex = JsInt 0,
     at_requestFingerprint = replicate 64 (CHR ''a''), at_paymentRequirementsHash = replicate 64 (CHR ''b''),
     at_paymentPayloadHash = replicate 64 (CHR ''b''), at_requestAuthorizationId = replicate 64 (CHR ''c''),
     at_authorizationExpiresAt = example_deadline, at_challengeExpiresAt = Absent,
     at_grantExpiresAt = Absent, at_payToScriptPublicKey = example_spk, at_transaction = ''tx'',
     at_requiredFinality = ''accepted'', at_status = AttemptPending, at_createdAt = example_time,
     at_updatedAt = example_time, at_finality = Absent, at_handlerStartedAt = Absent,
     at_handlerResult = Absent, at_handlerCompletedAt = Absent,
     at_head = Val \<lparr>cl_headId = replicate 64 (CHR ''1''), cl_expectedVersion = ''3'',
        cl_expectedOutpoint = \<lparr>op_txid = replicate 64 (CHR ''2''), op_index = JsInt 0\<rparr>,
        cl_expectedAmount = ''5000'',
        cl_successor = \<lparr>hc_outpoint = \<lparr>op_txid = replicate 64 (CHR ''d''), op_index = JsInt 0\<rparr>,
          hc_amount = ''7500'', hc_scriptPublicKey = example_spk\<rparr>\<rparr>,
     at_recoveryReason = Absent, at_paymentIdentifier = Val claim_example, at_payerId = ''payer''\<rparr>"

lemma attempt_example_normal:
  "normalizeExactSettlementAttempt example_env attempt_example = Inr attempt_example"
proof -
  have nums: "parseSompiString ''2500'' = Inr 2500" "parseSompiString ''5000'' = Inr 5000"
    "parseSompiString ''7500'' = Inr 7500"
    by (simp_all add: parseSompiString_Inr head_numbers U64_MAX_def)
  have spk: "is_byte_hex example_spk" "to_lower example_spk = example_spk"
    using example_spk_hex by (auto simp: is_byte_hex_def)
  show ?thesis
    by (simp add: normalizeExactSettlementAttempt_def attempt_example_def normalize_head_claim_def nums spk
        parseKaspaNetwork_def isKaspaX402Network_def SUPPORTED_NETWORKS_def hash32_replicate example_digits
        lower_replicate truthy_value_def claim_example_def example_env_def invalid_deadline_def
        lower_outpoint_def)
qed

lemma attempt_example_ok: "attempt_ok example_env attempt_example"
  by (rule normalizeExactSettlementAttempt_Inr(1) [OF attempt_example_normal])

lemma claim_example_head: "succeeds (claimExactHead head_example attempt_example)"
  by (simp add: succeeds_iff claimExactHead_Inr head_example_def attempt_example_def attempt_network_def
      sameOutpoint_def)

theorem normalize_head_idempotent_witness:
  "normalizeExactHeadRecord example_env head_example = Inr head_example"
  using normalize_head_idempotent [of example_env head_example head_example] head_example_ok
  by (simp add: head_ok_def)

theorem claim_exclusive_witness:
  "\<exists>h'. claimExactHead head_example attempt_example = Inr h' \<and> \<not> succeeds (claimExactHead h' attempt_example)"
proof -
  obtain h' where h: "claimExactHead head_example attempt_example = Inr h'"
    using claim_example_head by (auto simp: succeeds_iff)
  then show ?thesis using claim_exclusive [OF attempt_example_ok h] by blast
qed

theorem accept_adds_exactly_witness:
  "\<exists>h1 h2. claimExactHead head_example attempt_example = Inr h1 \<and>
     acceptExactHead h1 attempt_example example_time = Inr h2 \<and> dec_val (eh_currentAmount h2) = 7500"
proof -
  obtain h1 where h: "claimExactHead head_example attempt_example = Inr h1"
    using claim_example_head by (auto simp: succeeds_iff)
  have "dec_val (eh_currentAmount head_example) = 5000" "dec_val (at_amount attempt_example) = 2500"
    by (simp_all add: head_example_def attempt_example_def dec_val_def digit_val_def)
  then show ?thesis using accept_adds_exactly [OF head_example_ok attempt_example_ok h, of example_time] h by auto
qed

definition lineage_example :: lineage_apply where
  "lineage_example = \<lparr>la_headId = replicate 64 (CHR ''1''), la_expectedVersion = ''3'',
     la_expectedOutpoint = \<lparr>op_txid = replicate 64 (CHR ''2''), op_index = JsInt 0\<rparr>,
     la_expectedAmount = ''5000'',
     la_steps = [\<lparr>ls_transactionId = replicate 64 (CHR ''3''),
        ls_spentOutpoint = \<lparr>op_txid = replicate 64 (CHR ''2''), op_index = JsInt 0\<rparr>,
        ls_successor = \<lparr>hc_outpoint = \<lparr>op_txid = replicate 64 (CHR ''3''), op_index = JsInt 0\<rparr>,
          hc_amount = ''7500'', hc_scriptPublicKey = example_spk\<rparr>, ls_finality = ''accepted''\<rparr>],
     la_observedAt = example_time\<rparr>"

lemma lineage_example_applies: "succeeds (applyExactHeadLineage example_env head_example lineage_example)"
proof -
  have nums: "parseSompiString ''1000'' = Inr 1000" "parseSompiString ''5000'' = Inr 5000"
    "parseSompiString ''7500'' = Inr 7500" "parseSompiString ''3'' = Inr 3"
    by (simp_all add: parseSompiString_Inr head_numbers U64_MAX_def)
  have ex: "\<exists>v>0. v \<le> U64_MAX \<and> ''7500'' = int_to_string v" "\<exists>v\<ge>0. v \<le> U64_MAX \<and> ''4'' = int_to_string v"
    using head_numbers by (intro exI [of _ 7500] exI [of _ 4]; simp add: U64_MAX_def)+
  let ?h = "head_example\<lparr>eh_currentOutpoint := \<lparr>op_txid = replicate 64 (CHR ''3''), op_index = JsInt 0\<rparr>,
      eh_currentAmount := ''7500'', eh_version := ''4'', eh_status := HeadAvailable,
      eh_updatedAt := example_time, eh_lastTransactionId := Val (replicate 64 (CHR ''3'')),
      eh_claimTransactionId := Undef, eh_unavailableReason := Undef\<rparr>"
  have "head_terms_ok example_env ?h" using head_example_ok by (simp add: head_ok_iff head_terms_ok_def)
  moreover have "head_position_ok example_env ?h"
    using ex by (simp add: head_position_ok_def hash32_replicate example_digits in_range_def example_env_def)
  ultimately have "normalizeExactHeadRecord example_env ?h = Inr (lower_head ?h)"
    by (simp add: normalizeExactHeadRecord_Inr)
  then show ?thesis
    by (simp add: applyExactHeadLineage_def lineage_example_def head_example_def sameOutpoint_def nums
        MAX_EXTERNAL_LINEAGE_STEPS_def lineage_step_check_def lower_outpoint_def hash32_replicate
        example_digits lower_replicate head_numbers example_env_def)
qed

theorem lineage_adds_value_witness:
  "\<exists>h'. applyExactHeadLineage example_env head_example lineage_example = Inr h' \<and>
     dec_val (eh_currentAmount head_example) + dec_val (eh_additiveThresholdSompi head_example)
       \<le> dec_val (eh_currentAmount h')"
proof -
  obtain h' where h: "applyExactHeadLineage example_env head_example lineage_example = Inr h'"
    using lineage_example_applies by (auto simp: succeeds_iff)
  have "length (la_steps lineage_example) = 1" by (simp add: lineage_example_def)
  then show ?thesis using h lineage_adds_value [OF h] by auto
qed

theorem attempts_match_exact_witness:
  "exactSettlementAttemptsMatch attempt_example (attempt_example\<lparr>at_status := AttemptBroadcast\<rparr>)
   \<and> \<not> exactSettlementAttemptsMatch attempt_example (attempt_example\<lparr>at_amount := ''2501''\<rparr>)"
proof -
  have ok: "attempt_numbers_ok attempt_example" "attempt_numbers_ok (attempt_example\<lparr>at_status := AttemptBroadcast\<rparr>)"
    "attempt_numbers_ok (attempt_example\<lparr>at_amount := ''2501''\<rparr>)"
    by (simp_all add: attempt_numbers_ok_def attempt_example_def claim_numbers_ok_def claim_example_def wf_number_def)
  have "immutable_terms attempt_example = immutable_terms (attempt_example\<lparr>at_status := AttemptBroadcast\<rparr>)"
    by (simp add: immutable_terms_def attempt_network_def)
  moreover have "at_amount (immutable_terms attempt_example)
      \<noteq> at_amount (immutable_terms (attempt_example\<lparr>at_amount := ''2501''\<rparr>))"
    by (simp add: immutable_terms_def attempt_example_def)
  ultimately show ?thesis
    using attempts_match_exact [OF ok(1,2)] attempts_match_exact [OF ok(1,3)] by metis
qed

end
