(* ===== verification/Exact_Transitions.thy ===== *)
theory Exact_Transitions
  imports Head_Lifecycle Batch_Commitment
begin

text \<open>
  The exact payment protocol: \<^verbatim>\<open>server/src/exact-payment-transitions.ts\<close> and
  \<^verbatim>\<open>durable-record-budget.ts\<close>. One pure function, \<open>prepareExactTransition\<close>, decides every
  change of an attempt together with its head, its payment, its identifier and its budget; the
  stores read a snapshot, call it and write what it returns. The command and result types
  follow the store interface of \<^verbatim>\<open>types.ts\<close>.
\<close>

section \<open>durable-record-budget.ts\<close>

definition MAX_DURABLE_HANDLER_RESULT_BYTES :: nat where
  "MAX_DURABLE_HANDLER_RESULT_BYTES = 256 * 1024"

definition MAX_DURABLE_RESPONSE_BYTES :: nat where
  "MAX_DURABLE_RESPONSE_BYTES = MAX_DURABLE_HANDLER_RESULT_BYTES
     + maxEncodedHeaderBytes KASPA_X402_RESOURCE_BUDGET + 1024"

definition durableByteLength :: "js_value \<Rightarrow> nat" where
  "durableByteLength value = utf8ByteLength (json_stringify value)"

definition durableOpenRecordBytes :: "js_value \<Rightarrow> nat" where
  "durableOpenRecordBytes value = durableByteLength value + 2 * MAX_DURABLE_RESPONSE_BYTES"

section \<open>Records as JSON\<close>

definition attempt_status_text :: "attempt_status \<Rightarrow> string" where
  "attempt_status_text s = (case s of AttemptPending \<Rightarrow> ''pending'' | AttemptBroadcast \<Rightarrow> ''broadcast''
     | AttemptAccepted \<Rightarrow> ''accepted'' | AttemptApplied \<Rightarrow> ''applied'')"

definition head_status_text :: "head_status \<Rightarrow> string" where
  "head_status_text s = (case s of HeadAvailable \<Rightarrow> ''available'' | HeadClaimed \<Rightarrow> ''claimed''
     | HeadUnavailable \<Rightarrow> ''unavailable'' | HeadRetired \<Rightarrow> ''retired'')"

definition reservation_status_text :: "reservation_status \<Rightarrow> string" where
  "reservation_status_text s = (case s of Reserved \<Rightarrow> ''reserved'' | ReservationPending \<Rightarrow> ''pending''
     | RecoveryRequired \<Rightarrow> ''recovery-required'' | Completed \<Rightarrow> ''completed''
     | SafelyReleased \<Rightarrow> ''safely-released'')"

definition attempt_json :: "exact_attempt \<Rightarrow> js_value" where
  "attempt_json a = JObj
     (opt_member ''network'' JStr (at_network a)
      @ [(''transactionId'', JStr (at_transactionId a)), (''profile'', JStr (at_profile a)),
         (''amount'', JStr (at_amount a)), (''paymentOutputIndex'', JNum (at_paymentOutputIndex a)),
         (''requestFingerprint'', JStr (at_requestFingerprint a)),
         (''paymentRequirementsHash'', JStr (at_paymentRequirementsHash a)),
         (''paymentPayloadHash'', JStr (at_paymentPayloadHash a)),
         (''requestAuthorizationId'', JStr (at_requestAuthorizationId a)),
         (''authorizationExpiresAt'', JStr (at_authorizationExpiresAt a))]
      @ opt_member ''challengeExpiresAt'' JStr (at_challengeExpiresAt a)
      @ opt_member ''grantExpiresAt'' JStr (at_grantExpiresAt a)
      @ [(''payToScriptPublicKey'', JStr (at_payToScriptPublicKey a)),
         (''transaction'', JStr (at_transaction a)),
         (''requiredFinality'', JStr (at_requiredFinality a)),
         (''status'', JStr (attempt_status_text (at_status a))),
         (''createdAt'', JStr (at_createdAt a)), (''updatedAt'', JStr (at_updatedAt a))]
      @ opt_member ''finality'' JStr (at_finality a)
      @ opt_member ''handlerStartedAt'' JStr (at_handlerStartedAt a)
      @ opt_member ''handlerResult'' id (at_handlerResult a)
      @ opt_member ''handlerCompletedAt'' JStr (at_handlerCompletedAt a)
      @ opt_member ''head'' head_claim_json (at_head a)
      @ opt_member ''recoveryReason'' JStr (at_recoveryReason a)
      @ opt_member ''paymentIdentifier'' (\<lambda>c. JObj (claim_members c)) (at_paymentIdentifier a)
      @ [(''payerId'', JStr (at_payerId a))])"

definition head_json :: "exact_head \<Rightarrow> js_value" where
  "head_json h = JObj
     ([(''headId'', JStr (eh_headId h)), (''network'', JStr (eh_network h)),
       (''payTo'', JStr (eh_payTo h)), (''templateId'', JStr (eh_templateId h)),
       (''transactionEncoding'', JStr (eh_transactionEncoding h)),
       (''currentOutpoint'', outpoint_json (eh_currentOutpoint h)),
       (''currentAmount'', JStr (eh_currentAmount h)),
       (''scriptPublicKey'', JStr (eh_scriptPublicKey h)),
       (''redeemScript'', JStr (eh_redeemScript h)),
       (''additiveThresholdSompi'', JStr (eh_additiveThresholdSompi h)),
       (''version'', JStr (eh_version h)), (''status'', JStr (head_status_text (eh_status h))),
       (''createdAt'', JStr (eh_createdAt h)), (''updatedAt'', JStr (eh_updatedAt h))]
      @ opt_member ''claimTransactionId'' JStr (eh_claimTransactionId h)
      @ opt_member ''lastTransactionId'' JStr (eh_lastTransactionId h)
      @ opt_member ''unavailableReason'' JStr (eh_unavailableReason h))"

definition reservation_json :: "reservation \<Rightarrow> js_value" where
  "reservation_json r = JObj
     (claim_members r
      @ [(''status'', JStr (reservation_status_text (rs_status r))),
         (''createdAt'', JStr (rs_createdAt r)), (''updatedAt'', JStr (rs_updatedAt r))]
      @ opt_member ''recoveryReason'' JStr (rs_recoveryReason r))"

definition identifier_json :: "identifier_record \<Rightarrow> js_value" where
  "identifier_json i = JObj
     ([(''id'', JStr (pi_id i)), (''fingerprint'', JStr (pi_fingerprint i)),
       (''paymentPayloadHash'', JStr (pi_paymentPayloadHash i)), (''response'', pi_response i),
       (''settlement'', pi_settlement i), (''paymentScopeId'', JStr (pi_paymentScopeId i))]
      @ opt_member ''channelId'' JStr (pi_channelId i)
      @ opt_member ''transactionId'' JStr (pi_transactionId i)
      @ opt_member ''paymentOutputIndex'' JNum (pi_paymentOutputIndex i))"

record exact_payment =
  ep_profile :: string
  ep_transactionId :: string
  ep_paymentOutputIndex :: js_number
  ep_requestFingerprint :: string
  ep_paymentRequirementsHash :: string
  ep_paymentPayloadHash :: string
  ep_requestAuthorizationId :: string
  ep_amount :: string
  ep_payerAddress :: "string opt_field"
  ep_finality :: string
  ep_settlement :: js_value
  ep_response :: js_value

definition payment_json :: "exact_payment \<Rightarrow> js_value" where
  "payment_json p = JObj
     ([(''profile'', JStr (ep_profile p)), (''transactionId'', JStr (ep_transactionId p)),
       (''paymentOutputIndex'', JNum (ep_paymentOutputIndex p)),
       (''requestFingerprint'', JStr (ep_requestFingerprint p)),
       (''paymentRequirementsHash'', JStr (ep_paymentRequirementsHash p)),
       (''paymentPayloadHash'', JStr (ep_paymentPayloadHash p)),
       (''requestAuthorizationId'', JStr (ep_requestAuthorizationId p)),
       (''amount'', JStr (ep_amount p))]
      @ opt_member ''payerAddress'' JStr (ep_payerAddress p)
      @ [(''finality'', JStr (ep_finality p)), (''settlement'', ep_settlement p),
         (''response'', ep_response p)])"

section \<open>Commands, snapshots and changes\<close>

record unavailable_apply =
  ua_headId :: string
  ua_expectedVersion :: string
  ua_expectedOutpoint :: funding_outpoint
  ua_expectedAmount :: string
  ua_expectedStatus :: head_status
  ua_reason :: string
  ua_observedAt :: string

datatype exact_command =
    Claim exact_attempt
  | Broadcast string string string
  | Accept string string string
  | BeginHandler string string
  | ResetHandler string string
  | RecordResult string js_value string
  | Recovery string string string
  | Abandon string string string
  | Commit exact_payment "identifier_record option"
  | RegisterHead exact_head
  | UnavailableHead unavailable_apply
  | Lineage lineage_apply

datatype exact_result =
    ResultUndefined
  | ResultBool bool
  | ResultClaim exact_attempt bool
  | ResultHead exact_head
  | ResultUnavailable bool exact_head

record transition_snapshot =
  sn_now :: string
  sn_attempt :: "exact_attempt option"
  sn_head :: "exact_head option"
  sn_payment :: "exact_payment option"
  sn_identifier :: "identifier_record option"
  sn_reservation :: "reservation option"
  sn_heads :: "exact_head list option"
  sn_maxHeads :: "nat option"

datatype transition_budget =
    AdmitBudget exact_attempt nat
  | TerminalBudget string nat "string option" bool
  | DeleteBudget string

datatype attempt_change = KeepAttempt | DeleteAttempt | PutAttempt exact_attempt

record transition_changes =
  ch_result :: exact_result
  ch_transactionId :: "string option"
  ch_attempt :: attempt_change
  ch_head :: "exact_head option"
  ch_payment :: "exact_payment option"
  ch_identifier :: "identifier_record option"
  ch_reservation :: "reservation option"
  ch_budget :: "transition_budget option"

definition only_result :: "exact_result \<Rightarrow> transition_changes" where
  "only_result r = \<lparr>ch_result = r, ch_transactionId = None, ch_attempt = KeepAttempt, ch_head = None,
     ch_payment = None, ch_identifier = None, ch_reservation = None, ch_budget = None\<rparr>"

definition unchanged :: transition_changes where
  "unchanged = only_result ResultUndefined"

record transition_scope =
  sc_transactionId :: "string option"
  sc_headId :: "string option"
  sc_identifierId :: "string option"

definition command_transaction :: "exact_command \<Rightarrow> string" where
  "command_transaction command =
     (case command of Claim a \<Rightarrow> at_transactionId a | Commit p i \<Rightarrow> ep_transactionId p
      | Broadcast t f w \<Rightarrow> t | Accept t f w \<Rightarrow> t | BeginHandler t w \<Rightarrow> t | ResetHandler t w \<Rightarrow> t
      | RecordResult t r w \<Rightarrow> t | Recovery t r w \<Rightarrow> t | Abandon t r w \<Rightarrow> t | _ \<Rightarrow> [])"

definition exactTransitionScope ::
  "environment \<Rightarrow> exact_command \<Rightarrow> exact_attempt option \<Rightarrow> transition_scope res" where
  "exactTransitionScope env command attempt =
     (case command of
        RegisterHead h \<Rightarrow>
          bindE (normalizeExactHeadRecord env h) (\<lambda>n.
            Inr \<lparr>sc_transactionId = None, sc_headId = Some (eh_headId n), sc_identifierId = None\<rparr>)
      | UnavailableHead u \<Rightarrow>
          Inr \<lparr>sc_transactionId = None, sc_headId = Some (to_lower (ua_headId u)), sc_identifierId = None\<rparr>
      | Lineage l \<Rightarrow>
          Inr \<lparr>sc_transactionId = None, sc_headId = Some (to_lower (la_headId l)), sc_identifierId = None\<rparr>
      | _ \<Rightarrow>
          bindE (case command of Claim a \<Rightarrow> bindE (normalizeExactSettlementAttempt env a) (\<lambda>n. Inr (Some n))
                 | _ \<Rightarrow> Inr attempt) (\<lambda>current.
          Inr \<lparr>sc_transactionId = Some (to_lower (command_transaction command)),
               sc_headId = Option.bind current (\<lambda>a. map_option cl_headId (val_of (at_head a))),
               sc_identifierId =
                 (case Option.bind current (\<lambda>a. map_option rc_id (val_of (at_paymentIdentifier a))) of
                    Some i \<Rightarrow> Some i
                  | None \<Rightarrow> (case command of Commit p i \<Rightarrow> map_option pi_id i | _ \<Rightarrow> None))\<rparr>))"

section \<open>Phases\<close>

definition registerHead :: "environment \<Rightarrow> exact_head \<Rightarrow> transition_snapshot \<Rightarrow> transition_changes res" where
  "registerHead env input snapshot =
     bindE (normalizeExactHeadRecord env input) (\<lambda>head.
     case sn_head snapshot of
       Some current \<Rightarrow>
         if stableJson (head_json current) \<noteq> stableJson (head_json head)
         then Inl (JsError ''exact head id is already registered for different state'')
         else Inr ((only_result (ResultHead current))\<lparr>ch_head := Some current\<rparr>)
     | None \<Rightarrow>
         if (case sn_heads snapshot of
               Some hs \<Rightarrow> list_ex (\<lambda>h. sameOutpoint (eh_currentOutpoint h) (eh_currentOutpoint head)) hs
             | None \<Rightarrow> False)
         then Inl (JsError ''exact head outpoint is already registered'')
         else case (sn_heads snapshot, sn_maxHeads snapshot) of
                (Some hs, Some maxHeads) \<Rightarrow>
                  if maxHeads \<le> length hs then Inl (JsError ''exact head admission limit exceeded'')
                  else Inr ((only_result (ResultHead head))\<lparr>ch_head := Some head\<rparr>)
              | _ \<Rightarrow> Inl (JsError ''exact head admission snapshot is missing''))"

definition unavailableHead :: "unavailable_apply \<Rightarrow> exact_head \<Rightarrow> transition_changes res" where
  "unavailableHead input head =
     (if eh_status head = HeadRetired
      then Inl (JsError ''retired exact head cannot be marked unavailable'')
      else if eh_version head \<noteq> ua_expectedVersion input
              \<or> \<not> sameOutpoint (eh_currentOutpoint head) (ua_expectedOutpoint input)
              \<or> eh_currentAmount head \<noteq> ua_expectedAmount input
              \<or> eh_status head \<noteq> ua_expectedStatus input
      then Inr (only_result (ResultUnavailable False head))
      else let next = head\<lparr>eh_status := HeadUnavailable, eh_unavailableReason := Val (ua_reason input),
                           eh_updatedAt := ua_observedAt input\<rparr>
           in Inr ((only_result (ResultUnavailable True next))\<lparr>ch_head := Some next\<rparr>))"

definition deadline_passed :: "environment \<Rightarrow> int \<Rightarrow> string opt_field \<Rightarrow> bool" where
  \<comment> \<open>an invalid date compares as \<open>NaN\<close>\<close>
  "deadline_passed env time deadline =
     (case deadline of Val d \<Rightarrow> (case env_dateParse env d of Some t \<Rightarrow> t \<le> time | None \<Rightarrow> False)
      | _ \<Rightarrow> False)"

definition claim_expired :: "environment \<Rightarrow> string \<Rightarrow> exact_attempt \<Rightarrow> bool" where
  "claim_expired env now attempt =
     (case env_dateParse env now of
        None \<Rightarrow> True
      | Some time \<Rightarrow> deadline_passed env time (Val (at_authorizationExpiresAt attempt))
                    \<or> deadline_passed env time (at_challengeExpiresAt attempt)
                    \<or> deadline_passed env time (at_grantExpiresAt attempt))"

definition claim_head_successor ::
  "exact_attempt \<Rightarrow> transition_snapshot \<Rightarrow> exact_head option res" where
  "claim_head_successor attempt snapshot =
     (if at_profile attempt = ''additive'' then
        (case at_head attempt of
           Val _ \<Rightarrow>
             (case sn_head snapshot of
                None \<Rightarrow> Inl (JsError ''exact head changed before settlement claim'')
              | Some head \<Rightarrow> bindE (claimExactHead head attempt) (\<lambda>h. Inr (Some h)))
         | _ \<Rightarrow> Inl (JsError ''additive exact settlement requires a head claim''))
      else (case at_head attempt of
              Val _ \<Rightarrow> Inl (JsError ''standard-native exact settlement cannot claim a head'')
            | _ \<Rightarrow> Inr None))"

definition claimTransition ::
  "environment \<Rightarrow> exact_attempt \<Rightarrow> transition_snapshot \<Rightarrow> transition_changes res" where
  "claimTransition env input snapshot =
     bindE (normalizeExactSettlementAttempt env input) (\<lambda>attempt.
     case sn_attempt snapshot of
       Some current \<Rightarrow>
         if \<not> exactSettlementAttemptsMatch current attempt
         then Inl (JsError ''exact transaction is already claimed for a different request'')
         else Inr (only_result (ResultClaim current False))
     | None \<Rightarrow>
         if claim_expired env (sn_now snapshot) attempt
         then Inl (JsError ''exact settlement claim expired before durable admission'')
         else bindE (assertPaymentIdentifierAvailable (val_of (at_paymentIdentifier attempt))
                       (sn_reservation snapshot) (sn_identifier snapshot)) (\<lambda>_.
         bindE (claim_head_successor attempt snapshot) (\<lambda>head.
         bindE (transitionPaymentIdentifierReservation (val_of (at_paymentIdentifier attempt))
                  (sn_reservation snapshot) (Reserve (at_createdAt attempt))) (\<lambda>reservation.
         Inr ((only_result (ResultClaim attempt True))
                \<lparr>ch_transactionId := Some (at_transactionId attempt), ch_attempt := PutAttempt attempt,
                 ch_head := head, ch_reservation := reservation,
                 ch_budget := Some (AdmitBudget attempt (durableOpenRecordBytes (attempt_json attempt)))\<rparr>)))))"

definition applied_attempt :: "exact_attempt \<Rightarrow> string \<Rightarrow> exact_attempt" where
  \<comment> \<open>the compact record of a committed attempt\<close>
  "applied_attempt attempt now = attempt\<lparr>at_handlerResult := Absent, at_handlerCompletedAt := Absent,
     at_status := AttemptApplied, at_transaction := [], at_recoveryReason := Undef, at_updatedAt := now\<rparr>"

definition commitTransition ::
  "exact_payment \<Rightarrow> identifier_record option \<Rightarrow> transition_snapshot \<Rightarrow> transition_changes res" where
  "commitTransition payment identifier snapshot =
     (case sn_payment snapshot of
        Some retained \<Rightarrow>
          if ep_requestFingerprint retained \<noteq> ep_requestFingerprint payment
             \<or> ep_paymentPayloadHash retained \<noteq> ep_paymentPayloadHash payment
             \<or> \<not> num_eq (ep_paymentOutputIndex retained) (ep_paymentOutputIndex payment)
          then Inl (JsError ''exact payment transaction was already committed for a different request'')
          else Inr unchanged
      | None \<Rightarrow>
          bindE (case identifier of
                   None \<Rightarrow> Inr None
                 | Some completed \<Rightarrow>
                     (case sn_attempt snapshot of
                        None \<Rightarrow> Inl (JsError ''payment identifier completion requires its reserved attempt'')
                      | Some attempt \<Rightarrow>
                          bindE (assertPaymentIdentifierCompletion (val_of (at_paymentIdentifier attempt))
                                   (Some completed) (sn_reservation snapshot) (sn_identifier snapshot)) (\<lambda>_.
                          transitionPaymentIdentifierReservation (val_of (at_paymentIdentifier attempt))
                            (sn_reservation snapshot) (Complete (sn_now snapshot))))) (\<lambda>reservation.
          bindE (case sn_attempt snapshot of
                   None \<Rightarrow> Inr None
                 | Some attempt \<Rightarrow>
                     if at_status attempt \<noteq> AttemptAccepted \<or> \<not> truthy_str (at_handlerStartedAt attempt)
                        \<or> \<not> truthy_value (at_handlerResult attempt)
                     then Inl (JsError ''exact settlement attempt is not ready to apply'')
                     else Inr (Some (applied_attempt attempt (sn_now snapshot)))) (\<lambda>applied.
          Inr \<lparr>ch_result = ResultUndefined, ch_transactionId = Some (to_lower (ep_transactionId payment)),
               ch_attempt = (case applied of None \<Rightarrow> KeepAttempt | Some a \<Rightarrow> PutAttempt a),
               ch_head = None, ch_payment = Some payment, ch_identifier = identifier,
               ch_reservation = reservation,
               ch_budget =
                 (case applied of
                    None \<Rightarrow> None
                  | Some a \<Rightarrow> Some (TerminalBudget (at_transactionId a)
                      (durableByteLength (JObj
                         ([(''attempt'', attempt_json a), (''payment'', payment_json payment)]
                          @ (case identifier of None \<Rightarrow> []
                             | Some i \<Rightarrow> [(''paymentIdentifier'', identifier_json i)]))))
                      (map_option pi_id identifier) False))\<rparr>)))"

definition pending_change ::
  "exact_attempt \<Rightarrow> transition_snapshot \<Rightarrow> exact_attempt \<Rightarrow> reservation_status \<Rightarrow> string opt_field
     \<Rightarrow> exact_result \<Rightarrow> transition_changes res" where
  \<comment> \<open>the helper \<open>pending\<close>: the next attempt and the matching update of its reservation\<close>
  "pending_change attempt snapshot next status recoveryReason result =
     bindE (transitionPaymentIdentifierReservation (val_of (at_paymentIdentifier attempt))
              (sn_reservation snapshot) (Update status (at_updatedAt next) recoveryReason)) (\<lambda>reservation.
     Inr ((only_result result)\<lparr>ch_transactionId := Some (at_transactionId attempt),
            ch_attempt := PutAttempt next, ch_reservation := reservation\<rparr>))"

definition object_values :: "js_value \<Rightarrow> js_value list" where
  \<comment> \<open>\<open>Object.values\<close>\<close>
  "object_values v = (case v of JObj kvs \<Rightarrow> map snd kvs | JArr xs \<Rightarrow> xs
     | JStr s \<Rightarrow> map (\<lambda>c. JStr [c]) s | _ \<Rightarrow> [])"

definition bad_handler_status :: "js_value \<Rightarrow> bool" where
  "bad_handler_status v = (case v of JUndefined \<Rightarrow> False | JNum n \<Rightarrow> \<not> in_range n 100 599 | _ \<Rightarrow> True)"

definition assertHandlerResult ::
  "environment \<Rightarrow> exact_attempt \<Rightarrow> js_value \<Rightarrow> string \<Rightarrow> unit res" where
  "assertHandlerResult env attempt result completedAt =
     (if at_status attempt \<noteq> AttemptAccepted \<or> \<not> truthy_str (at_handlerStartedAt attempt)
      then Inl (JsError ''exact handler has not started on an accepted settlement'')
      else if env_dateParse env completedAt = None
      then Inl (JsError ''exact handler completion time must be an ISO date string'')
      else bindE (get_prop ''status'' result) (\<lambda>status.
      if bad_handler_status status then Inl (JsError ''exact handler status is invalid'')
      else bindE (get_prop ''headers'' result) (\<lambda>headers.
      if js_truthy headers \<and> list_ex (\<lambda>v. case v of JStr _ \<Rightarrow> False | _ \<Rightarrow> True) (object_values headers)
      then Inl (JsError ''exact handler headers are invalid'')
      else if js_truthy headers \<and> 64 < length (object_values headers)
      then Inl (JsError ''exact handler has too many response headers'')
      else if MAX_DURABLE_HANDLER_RESULT_BYTES < durableByteLength result
      then Inl (JsError ''exact handler result exceeds the durable size limit'')
      else bindE (get_prop ''chargedAmount'' result) (\<lambda>charged.
      if charged \<noteq> JUndefined \<and> charged \<noteq> JStr (at_amount attempt)
      then Inl (JsError ''exact handler charge must equal the accepted amount'')
      else Inr ()))))"

definition acceptTransition ::
  "exact_attempt \<Rightarrow> transition_snapshot \<Rightarrow> string \<Rightarrow> string \<Rightarrow> transition_changes res" where
  "acceptTransition attempt snapshot finality observedAt =
     (if at_status attempt = AttemptApplied then Inr unchanged
      else bindE (case at_head attempt of
                    Val _ \<Rightarrow>
                      (case sn_head snapshot of
                         None \<Rightarrow> Inl (JsError ''exact head was not found during settlement acceptance'')
                       | Some head \<Rightarrow> bindE (acceptExactHead head attempt observedAt) (\<lambda>h. Inr (Some h)))
                  | _ \<Rightarrow> Inr None) (\<lambda>head.
      bindE (pending_change attempt snapshot
               (attempt\<lparr>at_status := AttemptAccepted, at_finality := Val finality, at_updatedAt := observedAt\<rparr>)
               ReservationPending Absent ResultUndefined) (\<lambda>changes.
      Inr (changes\<lparr>ch_head := head\<rparr>))))"

definition abandonTransition ::
  "exact_attempt \<Rightarrow> transition_snapshot \<Rightarrow> string \<Rightarrow> string \<Rightarrow> transition_changes res" where
  "abandonTransition attempt snapshot reason observedAt =
     (if at_status attempt = AttemptAccepted \<or> at_status attempt = AttemptApplied
      then Inl (JsError ''accepted exact settlement cannot be abandoned'')
      else if truthy_str (at_handlerStartedAt attempt) \<or> truthy_value (at_handlerResult attempt)
              \<or> truthy_str (at_recoveryReason attempt)
      then Inl (JsError ''uncertain exact settlement cannot be abandoned'')
      else let head = (case (at_head attempt, sn_head snapshot) of
                         (Val _, Some h) \<Rightarrow> Some (releaseExactHeadClaim h attempt observedAt)
                       | _ \<Rightarrow> None)
           in bindE (transitionPaymentIdentifierReservation (val_of (at_paymentIdentifier attempt))
                       (sn_reservation snapshot) (Release reason observedAt True)) (\<lambda>reservation.
      Inr ((only_result ResultUndefined)
             \<lparr>ch_transactionId := Some (at_transactionId attempt), ch_attempt := DeleteAttempt,
              ch_head := head, ch_reservation := reservation,
              ch_budget := Some (case reservation of
                 Some r \<Rightarrow> TerminalBudget (at_transactionId attempt)
                            (durableByteLength (JObj [(''paymentIdentifierReservation'', reservation_json r)]))
                            (Some (rc_id r)) True
               | None \<Rightarrow> DeleteBudget (at_transactionId attempt))\<rparr>)))"

definition attemptTransition ::
  "environment \<Rightarrow> exact_command \<Rightarrow> exact_attempt \<Rightarrow> transition_snapshot \<Rightarrow> transition_changes res" where
  \<comment> \<open>the commands on an existing attempt\<close>
  "attemptTransition env command attempt snapshot =
     (case command of
        Broadcast _ finality observedAt \<Rightarrow>
          if at_status attempt = AttemptAccepted \<or> at_status attempt = AttemptApplied then Inr unchanged
          else pending_change attempt snapshot
                 (attempt\<lparr>at_status := AttemptBroadcast, at_finality := Val finality,
                          at_updatedAt := observedAt\<rparr>) ReservationPending Absent ResultUndefined
      | Accept _ finality observedAt \<Rightarrow> acceptTransition attempt snapshot finality observedAt
      | BeginHandler _ startedAt \<Rightarrow>
          if at_status attempt \<noteq> AttemptAccepted \<or> truthy_str (at_handlerStartedAt attempt)
          then Inr (only_result (ResultBool False))
          else if env_dateParse env startedAt = None then Inr (only_result (ResultBool False))
          else pending_change attempt snapshot
                 (attempt\<lparr>at_handlerStartedAt := Val startedAt, at_updatedAt := startedAt\<rparr>)
                 ReservationPending Absent (ResultBool True)
      | ResetHandler _ startedAt \<Rightarrow>
          if at_status attempt \<noteq> AttemptAccepted \<or> val_of (at_handlerStartedAt attempt) \<noteq> Some startedAt
             \<or> truthy_value (at_handlerResult attempt) \<or> truthy_str (at_recoveryReason attempt)
          then Inr (only_result (ResultBool False))
          else pending_change attempt snapshot
                 (attempt\<lparr>at_handlerStartedAt := Undef, at_updatedAt := sn_now snapshot\<rparr>)
                 ReservationPending Absent (ResultBool True)
      | RecordResult _ result completedAt \<Rightarrow>
          bindE (assertHandlerResult env attempt result completedAt) (\<lambda>_.
          case at_handlerResult attempt of
            Val current \<Rightarrow>
              if js_truthy current then
                (if stableJson current \<noteq> stableJson result
                 then Inl (JsError ''exact handler result conflicts with durable state'')
                 else Inr unchanged)
              else pending_change attempt snapshot
                     (attempt\<lparr>at_handlerResult := Val result, at_handlerCompletedAt := Val completedAt,
                              at_recoveryReason := Undef, at_updatedAt := completedAt\<rparr>)
                     ReservationPending Undef ResultUndefined
          | _ \<Rightarrow> pending_change attempt snapshot
                   (attempt\<lparr>at_handlerResult := Val result, at_handlerCompletedAt := Val completedAt,
                            at_recoveryReason := Undef, at_updatedAt := completedAt\<rparr>)
                   ReservationPending Undef ResultUndefined)
      | Recovery _ reason observedAt \<Rightarrow>
          if at_status attempt \<noteq> AttemptAccepted \<or> \<not> truthy_str (at_handlerStartedAt attempt)
             \<or> truthy_value (at_handlerResult attempt)
          then Inl (JsError ''exact handler is not awaiting recovery'')
          else pending_change attempt snapshot
                 (attempt\<lparr>at_recoveryReason := Val reason, at_updatedAt := observedAt\<rparr>)
                 RecoveryRequired (Val reason) ResultUndefined
      | Abandon _ reason observedAt \<Rightarrow> abandonTransition attempt snapshot reason observedAt
      | _ \<Rightarrow> Inr unchanged)"

definition prepareExactTransition ::
  "environment \<Rightarrow> exact_command \<Rightarrow> transition_snapshot \<Rightarrow> transition_changes res" where
  "prepareExactTransition env command snapshot =
     (case command of
        RegisterHead h \<Rightarrow> registerHead env h snapshot
      | UnavailableHead u \<Rightarrow>
          (case sn_head snapshot of None \<Rightarrow> Inl (JsError ''exact head was not found'')
           | Some head \<Rightarrow> unavailableHead u head)
      | Lineage l \<Rightarrow>
          (case sn_head snapshot of None \<Rightarrow> Inl (JsError ''exact head was not found'')
           | Some head \<Rightarrow>
               bindE (applyExactHeadLineage env head l) (\<lambda>next.
               Inr ((only_result (ResultHead next))\<lparr>ch_head := Some next\<rparr>)))
      | Claim a \<Rightarrow> claimTransition env a snapshot
      | Commit p i \<Rightarrow> commitTransition p i snapshot
      | _ \<Rightarrow>
          (case sn_attempt snapshot of
             None \<Rightarrow> Inl (JsError ''exact settlement attempt was not found'')
           | Some attempt \<Rightarrow> attemptTransition env command attempt snapshot))"

section \<open>The life of an attempt\<close>

type_synonym phase = "attempt_status \<times> bool \<times> bool \<times> bool"
  \<comment> \<open>status, handler started, handler result recorded, recovery required\<close>

definition phase :: "exact_attempt \<Rightarrow> phase" where
  "phase a = (at_status a, truthy_str (at_handlerStartedAt a), truthy_value (at_handlerResult a),
     truthy_str (at_recoveryReason a))"

inductive phase_step :: "phase \<Rightarrow> phase option \<Rightarrow> bool" where
  broadcast: "s \<in> {AttemptPending, AttemptBroadcast} \<Longrightarrow>
     phase_step (s, h, r, w) (Some (AttemptBroadcast, h, r, w))"
| accept: "s \<noteq> AttemptApplied \<Longrightarrow> phase_step (s, h, r, w) (Some (AttemptAccepted, h, r, w))"
| begin_handler: "phase_step (AttemptAccepted, False, r, w) (Some (AttemptAccepted, True, r, w))"
| reset_handler: "phase_step (AttemptAccepted, True, False, False) (Some (AttemptAccepted, False, False, False))"
| record_result: "phase_step (AttemptAccepted, True, False, w) (Some (AttemptAccepted, True, r, False))"
| recovery: "phase_step (AttemptAccepted, True, False, w) (Some (AttemptAccepted, True, False, w'))"
| abandon: "s \<in> {AttemptPending, AttemptBroadcast} \<Longrightarrow> phase_step (s, False, False, False) None"
| commit: "phase_step (AttemptAccepted, True, True, w) (Some (AttemptApplied, True, False, False))"

inductive_cases phase_step_applied: "phase_step (AttemptApplied, h, r, w) q"

inductive reachable_phase :: "phase \<Rightarrow> bool" where
  admitted: "reachable_phase (AttemptPending, False, False, False)"
| progress: "reachable_phase p \<Longrightarrow> phase_step p (Some q) \<Longrightarrow> reachable_phase q"

fun phase_ok :: "phase \<Rightarrow> bool" where
  \<comment> \<open>no handler before acceptance, no result without a handler, nothing left open once applied\<close>
  "phase_ok (AttemptPending, h, r, w) = (\<not> h \<and> \<not> r \<and> \<not> w)"
| "phase_ok (AttemptBroadcast, h, r, w) = (\<not> h \<and> \<not> r \<and> \<not> w)"
| "phase_ok (AttemptAccepted, h, r, w) = ((r \<longrightarrow> h) \<and> (w \<longrightarrow> h))"
| "phase_ok (AttemptApplied, h, r, w) = (h \<and> \<not> r \<and> \<not> w)"

lemma phase_step_ok:
  "phase_step p q \<Longrightarrow> phase_ok p \<Longrightarrow> (case q of None \<Rightarrow> True | Some p' \<Rightarrow> phase_ok p')"
proof (induction rule: phase_step.induct)
  case (accept s h r w)
  then show ?case by (cases s) auto
qed auto

lemma reachable_phase_ok: "reachable_phase p \<Longrightarrow> phase_ok p"
proof (induction rule: reachable_phase.induct)
  case (progress p q)
  from phase_step_ok [OF progress.hyps(2) progress.IH] show ?case by simp
qed simp

lemma applied_final: "\<not> phase_step (AttemptApplied, h, r, w) q"
  using phase_step_applied by blast

fun attempt_outcome :: "attempt_change \<Rightarrow> exact_attempt \<Rightarrow> exact_attempt option" where
  "attempt_outcome KeepAttempt a = Some a"
| "attempt_outcome DeleteAttempt a = None"
| "attempt_outcome (PutAttempt b) a = Some b"

definition same_terms :: "exact_attempt \<Rightarrow> exact_attempt \<Rightarrow> bool" where
  \<comment> \<open>the same payment; committing drops the signed transaction\<close>
  "same_terms a b = (immutable_terms a = immutable_terms b
     \<or> immutable_terms (a\<lparr>at_transaction := []\<rparr>) = immutable_terms b)"

lemma only_result_simps [simp]:
  "ch_result (only_result r) = r" "ch_transactionId (only_result r) = None"
  "ch_attempt (only_result r) = KeepAttempt" "ch_head (only_result r) = None"
  "ch_payment (only_result r) = None" "ch_identifier (only_result r) = None"
  "ch_reservation (only_result r) = None" "ch_budget (only_result r) = None"
  by (simp_all add: only_result_def)

lemma unchanged_simps [simp]:
  "ch_attempt unchanged = KeepAttempt" "ch_head unchanged = None" "ch_payment unchanged = None"
  "ch_identifier unchanged = None" "ch_reservation unchanged = None" "ch_budget unchanged = None"
  by (simp_all add: unchanged_def)

lemma pending_change_Inr:
  assumes "pending_change a sn b s w res = Inr ch"
  shows "ch_attempt ch = PutAttempt b" "ch_head ch = None" "ch_payment ch = None"
    "ch_identifier ch = None" "ch_budget ch = None" "ch_transactionId ch = Some (at_transactionId a)"
    "ch_result ch = res"
    "transitionPaymentIdentifierReservation (val_of (at_paymentIdentifier a)) (sn_reservation sn)
       (Update s (at_updatedAt b) w) = Inr (ch_reservation ch)"
  using assms by (auto simp: pending_change_def bindE_Inr)

definition follows_lifecycle :: "exact_attempt \<Rightarrow> attempt_change \<Rightarrow> bool" where
  "follows_lifecycle a c = (c = KeepAttempt
     \<or> (c = DeleteAttempt \<and> phase_step (phase a) None)
     \<or> (\<exists>b. c = PutAttempt b \<and> phase_step (phase a) (Some (phase b)) \<and> same_terms a b))"

lemma follows_put:
  "phase_step (phase a) (Some (phase b)) \<Longrightarrow> immutable_terms a = immutable_terms b
     \<Longrightarrow> follows_lifecycle a (PutAttempt b)"
  by (simp add: follows_lifecycle_def same_terms_def)

lemma immutable_terms_update [simp]:
  "immutable_terms (a\<lparr>at_status := s\<rparr>) = immutable_terms a"
  "immutable_terms (a\<lparr>at_updatedAt := t\<rparr>) = immutable_terms a"
  "immutable_terms (a\<lparr>at_finality := f\<rparr>) = immutable_terms a"
  "immutable_terms (a\<lparr>at_handlerStartedAt := h\<rparr>) = immutable_terms a"
  "immutable_terms (a\<lparr>at_handlerResult := r\<rparr>) = immutable_terms a"
  "immutable_terms (a\<lparr>at_handlerCompletedAt := c\<rparr>) = immutable_terms a"
  "immutable_terms (a\<lparr>at_recoveryReason := w\<rparr>) = immutable_terms a"
  by (simp_all add: immutable_terms_def attempt_network_def)

lemma accept_follows:
  assumes "acceptTransition a sn f t = Inr ch"
  shows "follows_lifecycle a (ch_attempt ch)"
proof (cases "at_status a = AttemptApplied")
  case True
  with assms show ?thesis by (simp add: acceptTransition_def follows_lifecycle_def)
next
  case False
  let ?b = "a\<lparr>at_status := AttemptAccepted, at_finality := Val f, at_updatedAt := t\<rparr>"
  from False assms obtain ch' where "pending_change a sn ?b ReservationPending Absent ResultUndefined = Inr ch'"
    "ch_attempt ch = ch_attempt ch'"
    by (auto simp: acceptTransition_def bindE_Inr)
  then have "ch_attempt ch = PutAttempt ?b" by (simp add: pending_change_Inr)
  moreover have "phase_step (phase a) (Some (phase ?b))"
    using False by (auto simp: phase_def intro: phase_step.accept)
  ultimately show ?thesis by (simp add: follows_put)
qed

lemma abandon_follows:
  assumes "abandonTransition a sn r t = Inr ch"
  shows "follows_lifecycle a (ch_attempt ch)"
proof -
  from assms have "ch_attempt ch = DeleteAttempt" "at_status a \<noteq> AttemptAccepted" "at_status a \<noteq> AttemptApplied"
    "\<not> truthy_str (at_handlerStartedAt a)" "\<not> truthy_value (at_handlerResult a)"
    "\<not> truthy_str (at_recoveryReason a)"
    by (auto simp: abandonTransition_def bindE_Inr Let_def split: if_splits)
  moreover from this have "at_status a \<in> {AttemptPending, AttemptBroadcast}" by (cases "at_status a") auto
  ultimately show ?thesis by (auto simp: follows_lifecycle_def phase_def intro: phase_step.abandon)
qed

lemma truthy_value_Val [simp]:
  "truthy_value (Val v) = js_truthy v" "truthy_value Absent = False" "truthy_value Undef = False"
  by (simp_all add: truthy_value_def)

lemma record_follows:
  assumes "attemptTransition env (RecordResult t r w) a sn = Inr ch"
  shows "follows_lifecycle a (ch_attempt ch)"
proof -
  let ?b = "a\<lparr>at_handlerResult := Val r, at_handlerCompletedAt := Val w, at_recoveryReason := Undef,
              at_updatedAt := w\<rparr>"
  from assms have h: "assertHandlerResult env a r w = Inr ()"
    by (auto simp: attemptTransition_def bindE_Inr)
  then have st: "at_status a = AttemptAccepted" "truthy_str (at_handlerStartedAt a)"
    by (auto simp: assertHandlerResult_def split: if_splits)
  show ?thesis
  proof (cases "truthy_value (at_handlerResult a)")
    case True
    then obtain v where v: "at_handlerResult a = Val v" "js_truthy v"
      by (cases "at_handlerResult a") auto
    have "(if stableJson v \<noteq> stableJson r then Inl (JsError ''exact handler result conflicts with durable state'')
        else Inr unchanged) = Inr ch"
      using assms by (simp add: attemptTransition_def h v)
    then have "ch = unchanged" by (simp split: if_splits)
    then show ?thesis by (simp add: follows_lifecycle_def)
  next
    case False
    then have "pending_change a sn ?b ReservationPending Undef ResultUndefined = Inr ch"
      using assms by (cases "at_handlerResult a") (simp_all add: attemptTransition_def h)
    then have "ch_attempt ch = PutAttempt ?b" by (rule pending_change_Inr)
    moreover have "phase_step (phase a) (Some (phase ?b))"
      using False st by (auto simp: phase_def intro: phase_step.record_result)
    ultimately show ?thesis by (simp add: follows_put)
  qed
qed

lemma attempt_follows:
  assumes "attemptTransition env cmd a sn = Inr ch"
  shows "follows_lifecycle a (ch_attempt ch)"
proof (cases cmd)
  case (Accept t f w)
  then show ?thesis using assms accept_follows by (simp add: attemptTransition_def)
next
  case (Abandon t r w)
  then show ?thesis using assms abandon_follows by (simp add: attemptTransition_def)
next
  case (RecordResult t r w)
  then show ?thesis using assms record_follows by simp
next
  case (Broadcast t f w)
  let ?b = "a\<lparr>at_status := AttemptBroadcast, at_finality := Val f, at_updatedAt := w\<rparr>"
  show ?thesis
  proof (cases "at_status a = AttemptAccepted \<or> at_status a = AttemptApplied")
    case False
    then have "pending_change a sn ?b ReservationPending Absent ResultUndefined = Inr ch"
      using assms Broadcast by (simp add: attemptTransition_def)
    then have "ch_attempt ch = PutAttempt ?b" by (rule pending_change_Inr)
    moreover have "at_status a \<in> {AttemptPending, AttemptBroadcast}" using False by (cases "at_status a") auto
    then have "phase_step (phase a) (Some (phase ?b))" by (auto simp: phase_def intro: phase_step.broadcast)
    ultimately show ?thesis by (simp add: follows_put)
  qed (use assms Broadcast in \<open>auto simp: attemptTransition_def follows_lifecycle_def\<close>)
next
  case (BeginHandler t w)
  let ?b = "a\<lparr>at_handlerStartedAt := Val w, at_updatedAt := w\<rparr>"
  show ?thesis
  proof (cases "at_status a \<noteq> AttemptAccepted \<or> truthy_str (at_handlerStartedAt a) \<or> env_dateParse env w = None")
    case False
    then have "pending_change a sn ?b ReservationPending Absent (ResultBool True) = Inr ch"
      using assms BeginHandler by (auto simp: attemptTransition_def)
    then have "ch_attempt ch = PutAttempt ?b" by (rule pending_change_Inr)
    moreover have "phase_step (phase a) (Some (phase ?b))"
    proof (cases "w = []")
      case True
      with False show ?thesis by (auto simp: phase_def intro: phase_step.accept)
    next
      case w: False
      with False show ?thesis by (auto simp: phase_def intro: phase_step.begin_handler)
    qed
    ultimately show ?thesis by (simp add: follows_put)
  qed (use assms BeginHandler in \<open>auto simp: attemptTransition_def follows_lifecycle_def split: if_splits\<close>)
next
  case (ResetHandler t w)
  let ?b = "a\<lparr>at_handlerStartedAt := Undef, at_updatedAt := sn_now sn\<rparr>"
  show ?thesis
  proof (cases "at_status a \<noteq> AttemptAccepted \<or> val_of (at_handlerStartedAt a) \<noteq> Some w
      \<or> truthy_value (at_handlerResult a) \<or> truthy_str (at_recoveryReason a)")
    case False
    then have "pending_change a sn ?b ReservationPending Absent (ResultBool True) = Inr ch"
      using assms ResetHandler by (simp add: attemptTransition_def)
    then have ch: "ch_attempt ch = PutAttempt ?b" by (rule pending_change_Inr)
    have "phase_step (phase a) (Some (phase ?b))"
    proof (cases "w = []")
      case True
      with False show ?thesis by (auto simp: phase_def intro: phase_step.accept)
    next
      case w: False
      with False show ?thesis by (auto simp: phase_def intro: phase_step.reset_handler)
    qed
    with ch show ?thesis by (simp add: follows_put)
  qed (use assms ResetHandler in \<open>auto simp: attemptTransition_def follows_lifecycle_def\<close>)
next
  case (Recovery t r w)
  let ?b = "a\<lparr>at_recoveryReason := Val r, at_updatedAt := w\<rparr>"
  from assms Recovery have c: "\<not> (at_status a \<noteq> AttemptAccepted \<or> \<not> truthy_str (at_handlerStartedAt a)
      \<or> truthy_value (at_handlerResult a))"
    and p: "pending_change a sn ?b RecoveryRequired (Val r) ResultUndefined = Inr ch"
    by (auto simp: attemptTransition_def split: if_splits)
  have "phase_step (phase a) (Some (phase ?b))"
    using c by (auto simp: phase_def intro: phase_step.recovery)
  moreover have "ch_attempt ch = PutAttempt ?b" using p by (rule pending_change_Inr)
  ultimately show ?thesis by (simp add: follows_put)
qed (use assms in \<open>auto simp: attemptTransition_def follows_lifecycle_def\<close>)

lemma commit_follows:
  assumes "commitTransition p i sn = Inr ch" "sn_attempt sn = Some a"
  shows "follows_lifecycle a (ch_attempt ch)"
proof (cases "sn_payment sn")
  case (Some q)
  with assms have "ch = unchanged" by (auto simp: commitTransition_def split: if_splits)
  then show ?thesis by (simp add: follows_lifecycle_def)
next
  case None
  let ?b = "applied_attempt a (sn_now sn)"
  from assms None have st: "at_status a = AttemptAccepted" "truthy_str (at_handlerStartedAt a)"
    "truthy_value (at_handlerResult a)" and ch: "ch_attempt ch = PutAttempt ?b"
    by (auto simp: commitTransition_def bindE_Inr split: if_splits)
  have "phase_step (phase a) (Some (phase ?b))"
    using st by (auto simp: phase_def applied_attempt_def intro: phase_step.commit)
  moreover have "same_terms a ?b"
    by (simp add: same_terms_def applied_attempt_def immutable_terms_def attempt_network_def)
  ultimately show ?thesis using ch by (simp add: follows_lifecycle_def)
qed

lemma prepare_follows:
  assumes "prepareExactTransition env cmd sn = Inr ch" "sn_attempt sn = Some a"
  shows "follows_lifecycle a (ch_attempt ch)"
proof (cases cmd)
  case (RegisterHead h)
  with assms show ?thesis
    by (auto simp: prepareExactTransition_def registerHead_def bindE_Inr follows_lifecycle_def
        split: option.splits if_splits)
next
  case (UnavailableHead u)
  with assms show ?thesis
    by (auto simp: prepareExactTransition_def unavailableHead_def follows_lifecycle_def Let_def
        split: option.splits if_splits)
next
  case (Lineage l)
  with assms show ?thesis
    by (auto simp: prepareExactTransition_def bindE_Inr follows_lifecycle_def split: option.splits)
next
  case (Claim x)
  with assms show ?thesis
    by (auto simp: prepareExactTransition_def claimTransition_def bindE_Inr follows_lifecycle_def
        split: if_splits)
next
  case (Commit p i)
  with assms show ?thesis using commit_follows by (simp add: prepareExactTransition_def)
qed (use assms attempt_follows in \<open>auto simp: prepareExactTransition_def\<close>)

text \<open>C2: every change of an attempt follows the life cycle. Whatever command is decided on a
  snapshot that holds an attempt, the attempt is kept, or it takes one step of the phase machine
  (to a successor with the same payment terms, or to deletion). In particular a handler starts
  only on an accepted attempt that has not started one, a result is recorded only for a started
  handler, a commit needs acceptance and a recorded result, and an attempt is deleted only
  before acceptance and before any handler started.\<close>

theorem attempt_life_cycle:
  assumes "prepareExactTransition env cmd sn = Inr ch" "sn_attempt sn = Some a"
  shows "ch_attempt ch = KeepAttempt
     \<or> (ch_attempt ch = DeleteAttempt \<and> phase_step (phase a) None)
     \<or> (\<exists>b. ch_attempt ch = PutAttempt b \<and> phase_step (phase a) (Some (phase b)) \<and> same_terms a b)"
  using prepare_follows [OF assms] by (simp add: follows_lifecycle_def)

definition accepted_example :: exact_attempt where
  "accepted_example = attempt_example\<lparr>at_status := AttemptAccepted, at_head := Absent, at_paymentIdentifier := Absent\<rparr>"

definition snapshot_example :: transition_snapshot where
  "snapshot_example = \<lparr>sn_now = example_time, sn_attempt = Some accepted_example, sn_head = None,
     sn_payment = None, sn_identifier = None, sn_reservation = None, sn_heads = None, sn_maxHeads = None\<rparr>"

definition started_example :: exact_attempt where
  "started_example = accepted_example\<lparr>at_handlerStartedAt := Val example_deadline, at_updatedAt := example_deadline\<rparr>"

lemma begin_handler_example:
  "prepareExactTransition example_env (BeginHandler (replicate 64 (CHR ''d'')) example_deadline) snapshot_example
     = Inr ((only_result (ResultBool True))\<lparr>ch_transactionId := Some (replicate 64 (CHR ''d'')),
              ch_attempt := PutAttempt started_example\<rparr>)"
  by (simp add: prepareExactTransition_def attemptTransition_def snapshot_example_def accepted_example_def
      started_example_def attempt_example_def example_env_def pending_change_def
      transitionPaymentIdentifierReservation_def example_time_def example_deadline_def)

theorem attempt_life_cycle_witness:
  "phase_step (phase accepted_example) (Some (phase started_example)) \<and> same_terms accepted_example started_example"
proof -
  have "sn_attempt snapshot_example = Some accepted_example" by (simp add: snapshot_example_def)
  from attempt_life_cycle [OF begin_handler_example this] show ?thesis by simp
qed

text \<open>The phases an attempt can reach from admission are consistent: before acceptance no
  handler has started and nothing is uncertain; a result or a recovery flag implies a started
  handler on an accepted attempt; an applied attempt has run its handler; and from the applied
  phase no step leads anywhere, so a committed attempt is final.\<close>

theorem attempt_phases_consistent:
  assumes "reachable_phase p"
  shows "phase_ok p \<and> (fst p = AttemptApplied \<longrightarrow> (\<forall>q. \<not> phase_step p q))"
proof (cases p)
  case (fields s h r w)
  then show ?thesis using reachable_phase_ok [OF assms] applied_final [of h r w] by simp
qed

theorem attempt_phases_consistent_witness:
  "phase_ok (AttemptApplied, True, False, False) \<and> \<not> phase_step (AttemptApplied, True, False, False) None"
proof -
  have "reachable_phase (AttemptAccepted, False, False, False)"
    using reachable_phase.admitted by (rule reachable_phase.progress) (rule phase_step.accept, simp)
  then have "reachable_phase (AttemptAccepted, True, False, False)"
    using phase_step.begin_handler by (rule reachable_phase.progress)
  then have "reachable_phase (AttemptAccepted, True, True, False)"
    using phase_step.record_result by (rule reachable_phase.progress)
  then have "reachable_phase (AttemptApplied, True, False, False)"
    using phase_step.commit by (rule reachable_phase.progress)
  from attempt_phases_consistent [OF this] show ?thesis by simp
qed

end
