(* ===== verification/Batch_Attempts.thy ===== *)
theory Batch_Attempts
  imports Server_Channel Exact_Transitions
begin

text \<open>
  Batch settlement attempts: \<^verbatim>\<open>server/src/batch-settlement-attempts.ts\<close> with the records of
  \<^verbatim>\<open>types.ts\<close> it works on. An attempt is the durable evidence of one batch payment: it fixes the
  channel snapshot the payment was verified against, and for a deposit or a top-up it carries the
  channel transition that its claim installs.
\<close>

section \<open>Records\<close>

datatype batch_status = BatchPending | BatchApplied | BatchReleased

record channel_transition =
  ct_previous :: "server_channel option"
  ct_next :: server_channel

record batch_attempt =
  ba_attemptId :: string
  ba_channelId :: string
  ba_covenantId :: string
  ba_requestFingerprint :: string
  ba_paymentRequirementsHash :: string
  ba_paymentPayloadHash :: string
  ba_maximumCharge :: string
  ba_expected :: server_channel
  ba_status :: batch_status
  ba_createdAt :: string
  ba_updatedAt :: string
  ba_handlerStartedAt :: "string opt_field"
  ba_handlerResult :: "js_value opt_field"
  ba_handlerCompletedAt :: "string opt_field"
  ba_recoveryReason :: "string opt_field"
  ba_operationKind :: string
  ba_payerId :: string
  ba_paymentIdentifier :: "reservation_claim opt_field"
  ba_channelTransition :: "channel_transition opt_field"
  ba_commitmentId :: "string opt_field"
  ba_completedPaymentIdentifier :: "string opt_field"

record batch_commitment =
  bc_commitmentId :: string
  bc_channelId :: string
  bc_covenantId :: string
  bc_requestFingerprint :: string
  bc_paymentRequirementsHash :: string
  bc_paymentPayloadHash :: string
  bc_activeOutpoint :: funding_outpoint
  bc_activeScriptPublicKey :: string
  bc_voucher :: voucher
  bc_chargedAmount :: string
  bc_chargedCumulativeBefore :: string
  bc_chargedCumulativeAfter :: string
  bc_claimedCumulativeAmount :: string
  bc_paymentIdentifier :: "string opt_field"
  bc_settlement :: js_value
  bc_response :: js_value

record settlement_commit =
  se_batchAttemptId :: string
  se_channel :: server_channel
  se_commitment :: batch_commitment
  se_paymentIdentifier :: "identifier_record opt_field"
  se_expected :: server_channel

section \<open>Records as JSON\<close>

definition claim_json :: "reservation_claim \<Rightarrow> js_value" where
  "claim_json c = JObj (claim_members c)"

definition channel_transition_json :: "channel_transition \<Rightarrow> js_value" where
  "channel_transition_json t = JObj [(''previous'', nullable channel_json (ct_previous t)),
     (''next'', channel_json (ct_next t))]"

definition batch_status_text :: "batch_status \<Rightarrow> string" where
  "batch_status_text s = (case s of BatchPending \<Rightarrow> ''pending'' | BatchApplied \<Rightarrow> ''applied''
     | BatchReleased \<Rightarrow> ''safely-released'')"

definition batch_attempt_json :: "batch_attempt \<Rightarrow> js_value" where
  "batch_attempt_json a = JObj ([(''attemptId'', JStr (ba_attemptId a)), (''channelId'', JStr (ba_channelId a)),
     (''covenantId'', JStr (ba_covenantId a)), (''requestFingerprint'', JStr (ba_requestFingerprint a)),
     (''paymentRequirementsHash'', JStr (ba_paymentRequirementsHash a)),
     (''paymentPayloadHash'', JStr (ba_paymentPayloadHash a)), (''maximumCharge'', JStr (ba_maximumCharge a)),
     (''expected'', channel_json (ba_expected a)), (''status'', JStr (batch_status_text (ba_status a))),
     (''createdAt'', JStr (ba_createdAt a)), (''updatedAt'', JStr (ba_updatedAt a))]
     @ opt_member ''handlerStartedAt'' JStr (ba_handlerStartedAt a)
     @ opt_member ''handlerResult'' id (ba_handlerResult a)
     @ opt_member ''handlerCompletedAt'' JStr (ba_handlerCompletedAt a)
     @ opt_member ''recoveryReason'' JStr (ba_recoveryReason a)
     @ [(''operationKind'', JStr (ba_operationKind a)), (''payerId'', JStr (ba_payerId a))]
     @ opt_member ''paymentIdentifier'' claim_json (ba_paymentIdentifier a)
     @ opt_member ''channelTransition'' channel_transition_json (ba_channelTransition a)
     @ opt_member ''commitmentId'' JStr (ba_commitmentId a)
     @ opt_member ''completedPaymentIdentifier'' JStr (ba_completedPaymentIdentifier a))"

definition voucher_json :: "voucher \<Rightarrow> js_value" where
  "voucher_json v = JObj [(''covenantId'', JStr (v_covenantId v)),
     (''authorizedCumulativeAmount'', JStr (v_authorizedCumulativeAmount v)), (''signature'', JStr (v_signature v))]"

definition commitment_json :: "batch_commitment \<Rightarrow> js_value" where
  "commitment_json c = JObj ([(''commitmentId'', JStr (bc_commitmentId c)), (''channelId'', JStr (bc_channelId c)),
     (''covenantId'', JStr (bc_covenantId c)), (''requestFingerprint'', JStr (bc_requestFingerprint c)),
     (''paymentRequirementsHash'', JStr (bc_paymentRequirementsHash c)),
     (''paymentPayloadHash'', JStr (bc_paymentPayloadHash c)),
     (''activeOutpoint'', outpoint_json (bc_activeOutpoint c)),
     (''activeScriptPublicKey'', JStr (bc_activeScriptPublicKey c)), (''voucher'', voucher_json (bc_voucher c)),
     (''chargedAmount'', JStr (bc_chargedAmount c)),
     (''chargedCumulativeBefore'', JStr (bc_chargedCumulativeBefore c)),
     (''chargedCumulativeAfter'', JStr (bc_chargedCumulativeAfter c)),
     (''claimedCumulativeAmount'', JStr (bc_claimedCumulativeAmount c))]
     @ opt_member ''paymentIdentifier'' JStr (bc_paymentIdentifier c)
     @ [(''settlement'', bc_settlement c), (''response'', bc_response c)])"

definition stable_opt :: "('a \<Rightarrow> js_value) \<Rightarrow> 'a opt_field \<Rightarrow> string option" where
  \<comment> \<open>\<open>stableJson(record.property)\<close>, which is \<open>undefined\<close> when the property is\<close>
  "stable_opt enc f = map_option (\<lambda>x. stableJson (enc x)) (val_of f)"

section \<open>batch-settlement-attempts.ts\<close>

definition assertIsoDate :: "environment \<Rightarrow> string \<Rightarrow> string \<Rightarrow> unit res" where
  "assertIsoDate env value label =
     (if env_dateParse env value = None then Inl (JsError (label @ '' must be an ISO date string'')) else Inr ())"

definition isNonzeroLowerHash32 :: "string \<Rightarrow> bool" where
  "isNonzeroLowerHash32 value = (is_lower_hash32 value \<and> \<not> is_zero_hash32 value)"

definition assert_lower_hashes :: "(string \<times> string) list \<Rightarrow> unit res" where
  "assert_lower_hashes = forE (\<lambda>(value, label).
     if is_lower_hash32 value then Inr ()
     else Inl (JsError (label @ '' must be canonical lowercase hash hex'')))"

definition transition_checked :: "batch_attempt \<Rightarrow> unit res" where
  \<comment> \<open>the transition belongs to the attempt exactly when the kind installs one\<close>
  "transition_checked input =
     (case ba_channelTransition input of
        Val t \<Rightarrow>
          if ba_operationKind input = ''payment''
          then Inl (JsError ''ordinary payment cannot install a channel transition'')
          else if sc_channelId (ct_next t) \<noteq> ba_channelId input \<or> sc_covenantId (ct_next t) \<noteq> ba_covenantId input
                  \<or> stableJson (channel_json (ct_next t)) \<noteq> stableJson (channel_json (ba_expected input))
          then Inl (JsError ''batch channel transition is inconsistent'')
          else Inr ()
      | _ \<Rightarrow>
          if ba_operationKind input \<noteq> ''payment''
          then Inl (JsError ''deposit and top-up attempts require an atomic channel transition'')
          else Inr ())"

definition normalizeBatchSettlementAttempt :: "environment \<Rightarrow> batch_attempt \<Rightarrow> batch_attempt res" where
  "normalizeBatchSettlementAttempt env input =
     (if ba_status input \<noteq> BatchPending then Inl (JsError ''new batch settlement attempt must be pending'')
      else if \<not> is_lower_hash32 (ba_attemptId input) \<or> \<not> is_lower_hash32 (ba_channelId input)
              \<or> \<not> isNonzeroLowerHash32 (ba_covenantId input)
      then Inl (JsError ''batch settlement identifiers must be canonical lowercase'')
      else if ba_operationKind input \<noteq> ''payment'' \<and> ba_operationKind input \<noteq> ''deposit''
              \<and> ba_operationKind input \<noteq> ''top-up''
      then Inl (JsError ''batch settlement operation kind is invalid'')
      else if ba_payerId input = [] \<or> 256 < length (ba_payerId input)
      then Inl (JsError ''batch settlement payer identity is invalid'')
      else bindE (transition_checked input) (\<lambda>_.
      if (case ba_paymentIdentifier input of Val c \<Rightarrow> rc_ownerId c \<noteq> ba_attemptId input | _ \<Rightarrow> False)
      then Inl (JsError ''batch payment identifier owner does not match its attempt'')
      else if ba_channelId input \<noteq> sc_channelId (ba_expected input)
              \<or> ba_covenantId input \<noteq> sc_covenantId (ba_expected input)
      then Inl (JsError ''batch settlement attempt identity is inconsistent'')
      else bindE (assert_lower_hashes [(ba_requestFingerprint input, ''request fingerprint''),
             (ba_paymentRequirementsHash input, ''payment requirements hash''),
             (ba_paymentPayloadHash input, ''payment payload hash''),
             (op_txid (sc_activeOutpoint (ba_expected input)), ''active outpoint transaction id'')]) (\<lambda>_.
      bindE (parseBatchLaneAmount (ba_maximumCharge input) ''maximum batch charge'') (\<lambda>_.
      bindE (batchLaneAccounting (lane_of (ba_expected input))) (\<lambda>_.
      bindE (assertIsoDate env (ba_createdAt input) ''batch settlement creation time'') (\<lambda>_.
      bindE (assertIsoDate env (ba_updatedAt input) ''batch settlement update time'') (\<lambda>_.
      Inr input)))))))"

definition batchSettlementAttemptsMatch :: "batch_attempt \<Rightarrow> batch_attempt \<Rightarrow> bool" where
  "batchSettlementAttemptsMatch left right =
     (ba_attemptId left = ba_attemptId right \<and> ba_channelId left = ba_channelId right
      \<and> ba_covenantId left = ba_covenantId right
      \<and> ba_requestFingerprint left = ba_requestFingerprint right
      \<and> ba_paymentRequirementsHash left = ba_paymentRequirementsHash right
      \<and> ba_paymentPayloadHash left = ba_paymentPayloadHash right
      \<and> ba_maximumCharge left = ba_maximumCharge right \<and> ba_operationKind left = ba_operationKind right
      \<and> ba_payerId left = ba_payerId right
      \<and> stable_opt claim_json (ba_paymentIdentifier left) = stable_opt claim_json (ba_paymentIdentifier right)
      \<and> stable_opt channel_transition_json (ba_channelTransition left)
         = stable_opt channel_transition_json (ba_channelTransition right)
      \<and> stableJson (channel_json (ba_expected left)) = stableJson (channel_json (ba_expected right)))"

definition assertImmutableChannelIdentity :: "server_channel \<Rightarrow> server_channel \<Rightarrow> unit res" where
  "assertImmutableChannelIdentity previous next =
     (if sc_channelId previous \<noteq> sc_channelId next
         \<or> to_lower (sc_covenantId previous) \<noteq> to_lower (sc_covenantId next)
         \<or> stableJson (genesis_evidence_json (sc_genesisEvidence previous))
              \<noteq> stableJson (genesis_evidence_json (sc_genesisEvidence next))
         \<or> stableJson (channel_config_json (sc_channelConfig previous))
              \<noteq> stableJson (channel_config_json (sc_channelConfig next))
      then Inl (JsError ''channel immutable identity cannot change'') else Inr ())"

definition incrementVersion :: "string \<Rightarrow> string res" where
  "incrementVersion version =
     bindE (parseBatchLaneAmount version ''channel version'') (\<lambda>v. Inr (int_to_string (v + 1)))"

definition amount_below :: "string \<Rightarrow> string \<Rightarrow> string \<Rightarrow> string \<Rightarrow> bool res" where
  \<comment> \<open>\<open>parseBatchLaneAmount(a) < parseBatchLaneAmount(b)\<close>\<close>
  "amount_below a la b lb =
     bindE (parseBatchLaneAmount a la) (\<lambda>x. bindE (parseBatchLaneAmount b lb) (\<lambda>y. Inr (x < y)))"

definition deposit_rolls_back :: "server_channel \<Rightarrow> server_channel \<Rightarrow> bool res" where
  "deposit_rolls_back previous next =
     orE (Inr (chargedCumulativeAmount next \<noteq> chargedCumulativeAmount previous
             \<or> claimedCumulativeAmount next \<noteq> claimedCumulativeAmount previous
             \<or> val_of (sc_lastCommitmentId next) \<noteq> val_of (sc_lastCommitmentId previous)))
    (orE (bindE (incrementVersion (sc_version previous)) (\<lambda>v. Inr (sc_version next \<noteq> v)))
    (orE (amount_below (signedMaxClaimable next) ''next signed ceiling''
            (signedMaxClaimable previous) ''previous signed ceiling'')
    (amount_below (fundingAmount next) ''next funding amount'' (fundingAmount previous) ''previous funding amount'')))"

definition assert_deposit_successor ::
  "(byte list \<Rightarrow> byte list) \<Rightarrow> launch_identity \<Rightarrow> server_channel \<Rightarrow> server_channel \<Rightarrow> string \<Rightarrow> unit res" where
  "assert_deposit_successor sha escrow previous next kind =
     bindE (assertImmutableChannelIdentity previous next) (\<lambda>_.
     if sc_status previous \<noteq> ChannelActive \<or> sc_status next \<noteq> ChannelActive
     then Inl (JsError ''deposit transition requires an active channel'')
     else bindE (deposit_rolls_back previous next) (\<lambda>rollsBack.
     if rollsBack then Inl (JsError ''deposit transition would roll back monotonic channel state'')
     else let outpointChanged = \<not> sameOutpoint (sc_activeOutpoint previous) (sc_activeOutpoint next) in
     if outpointChanged \<and> kind \<noteq> ''top-up''
     then Inl (JsError ''only a verified top-up may replace the active outpoint'')
     else if \<not> outpointChanged \<and> kind = ''top-up''
     then Inl (JsError ''top-up must replace the active outpoint'')
     else if \<not> outpointChanged
             \<and> (fundingAmount next \<noteq> fundingAmount previous
                \<or> to_lower (sc_activeScriptPublicKey next) \<noteq> to_lower (sc_activeScriptPublicKey previous)
                \<or> sc_escrowAddress next \<noteq> sc_escrowAddress previous)
     then Inl (JsError ''same-outpoint deposit state is inconsistent'')
     else bindE (if outpointChanged then Inr True else sameCovenantLineage (sc_lineage previous) (sc_lineage next))
       (\<lambda>lineageKept.
     if \<not> lineageKept then Inl (JsError ''same-outpoint deposit cannot replace covenant lineage'')
     else bindE (assertServerCovenantJournalExtension sha escrow previous next) (\<lambda>_.
     if \<not> outpointChanged then Inr ()
     else bindE (amount_below (fundingAmount previous) ''previous funding amount''
                   (fundingAmount next) ''top-up funding amount'') (\<lambda>increases.
     if increases then Inr () else Inl (JsError ''top-up funding must increase''))))))"

definition assertBatchDepositTransition ::
  "(byte list \<Rightarrow> byte list) \<Rightarrow> launch_identity \<Rightarrow> server_channel option \<Rightarrow> server_channel \<Rightarrow> string \<Rightarrow> unit res" where
  "assertBatchDepositTransition sha escrow previous next kind =
     bindE (batchLaneAccounting (lane_of next)) (\<lambda>_.
     case previous of
       None \<Rightarrow>
         bindE (assertServerChannelLineageConsistency sha escrow next) (\<lambda>_.
         if kind \<noteq> ''deposit'' then Inl (JsError ''new channel requires a deposit operation'')
         else if sc_version next \<noteq> ''0'' then Inl (JsError ''new channel must begin at version zero'')
         else if sc_status next \<noteq> ChannelActive then Inl (JsError ''new channel must begin active'')
         else Inr ())
     | Some p \<Rightarrow> assert_deposit_successor sha escrow p next kind)"

definition charged_by :: "batch_attempt \<Rightarrow> js_value" where
  \<comment> \<open>\<open>attempt.handlerResult.chargedAmount ?? attempt.maximumCharge\<close> on a result that is truthy\<close>
  "charged_by attempt =
     (case ba_handlerResult attempt of
        Val r \<Rightarrow> (case get_prop ''chargedAmount'' r of
                    Inr JUndefined \<Rightarrow> JStr (ba_maximumCharge attempt)
                  | Inr JNull \<Rightarrow> JStr (ba_maximumCharge attempt)
                  | Inr v \<Rightarrow> v
                  | Inl _ \<Rightarrow> JStr (ba_maximumCharge attempt))
      | _ \<Rightarrow> JStr (ba_maximumCharge attempt))"

definition batchSettlementAttemptIsReadyToCommit :: "batch_attempt option \<Rightarrow> settlement_commit \<Rightarrow> bool" where
  "batchSettlementAttemptIsReadyToCommit attempt record =
     (case attempt of
        None \<Rightarrow> False
      | Some a \<Rightarrow>
          ba_status a = BatchPending \<and> truthy_str (ba_handlerStartedAt a) \<and> truthy_value (ba_handlerResult a)
          \<and> ba_channelId a = sc_channelId (se_channel record)
          \<and> ba_covenantId a = sc_covenantId (se_channel record)
          \<and> ba_requestFingerprint a = bc_requestFingerprint (se_commitment record)
          \<and> ba_paymentRequirementsHash a = bc_paymentRequirementsHash (se_commitment record)
          \<and> ba_paymentPayloadHash a = bc_paymentPayloadHash (se_commitment record)
          \<and> charged_by a = JStr (bc_chargedAmount (se_commitment record))
          \<and> stableJson (channel_json (ba_expected a)) = stableJson (channel_json (se_expected record)))"

definition assertDurableHandlerResult :: "environment \<Rightarrow> js_value \<Rightarrow> string \<Rightarrow> unit res" where
  \<comment> \<open>serialising plain data cannot fail\<close>
  "assertDurableHandlerResult env result completedAt =
     bindE (assertIsoDate env completedAt ''batch handler completion time'') (\<lambda>_.
     bindE (get_prop ''status'' result) (\<lambda>status.
     if bad_handler_status status then Inl (JsError ''batch handler status is invalid'')
     else bindE (get_prop ''headers'' result) (\<lambda>headers.
     if js_truthy headers \<and> list_ex (\<lambda>v. case v of JStr _ \<Rightarrow> False | _ \<Rightarrow> True) (object_values headers)
     then Inl (JsError ''batch handler headers are invalid'')
     else if js_truthy headers \<and> 64 < length (object_values headers)
     then Inl (JsError ''batch handler has too many response headers'')
     else if 256 * 1024 < durableByteLength result
     then Inl (JsError ''batch handler result exceeds the durable size limit'')
     else Inr ())))"

definition assertBatchHandlerResultTransition ::
  "environment \<Rightarrow> batch_attempt \<Rightarrow> js_value \<Rightarrow> string \<Rightarrow> unit res" where
  "assertBatchHandlerResultTransition env attempt result completedAt =
     (if ba_status attempt \<noteq> BatchPending \<or> \<not> truthy_str (ba_handlerStartedAt attempt)
      then Inl (JsError ''batch handler has not started on a pending settlement'')
      else bindE (assertDurableHandlerResult env result completedAt) (\<lambda>_.
      bindE (get_prop ''chargedAmount'' result) (\<lambda>charged.
      bindE (if charged = JUndefined then Inr False
             else bindE (parseBatchLaneValue charged ''batch handler charge'') (\<lambda>x.
                  bindE (parseBatchLaneAmount (ba_maximumCharge attempt) ''accepted batch charge'') (\<lambda>y.
                  Inr (x \<noteq> y)))) (\<lambda>differs.
      if differs then Inl (JsError ''batch handler charge must equal the accepted fixed charge'')
      else case ba_handlerResult attempt of
             Val current \<Rightarrow>
               if js_truthy current \<and> stableJson current \<noteq> stableJson result
               then Inl (JsError ''batch handler result conflicts with durable state'') else Inr ()
           | _ \<Rightarrow> Inr ()))))"

end
