(* ===== verification/Claim_Attempts.thy ===== *)
theory Claim_Attempts
  imports Batch_Attempts Chain_Evidence
begin

text \<open>
  Channel operation leases and claim attempts: the checks of \<^verbatim>\<open>server/src/stores.ts\<close> on one record.
  A lease makes one operation the owner of a channel; a claim attempt is the durable evidence of one
  on-chain claim, from the prepared transaction to its confirmed acceptance.
\<close>

section \<open>Records\<close>

datatype lease_status = LeaseReserved | LeasePending | LeaseRecoveryRequired

record channel_lease =
  cl_leaseId :: string
  cl_channelId :: string
  cl_covenantId :: string
  cl_kind :: string
  cl_expected :: "server_channel option"
  cl_status :: lease_status
  cl_createdAt :: string
  cl_updatedAt :: string
  cl_recoveryReason :: "string opt_field"

datatype claim_status = ClaimPending | ClaimBroadcast | ClaimAccepted | ClaimApplied

record claim_attempt = batch_lane_state +
  ca_attemptId :: string
  ca_channelId :: string
  ca_covenantId :: string
  ca_activeOutpoint :: funding_outpoint
  ca_activeScriptPublicKey :: string
  ca_claimAmount :: string
  ca_voucherSignature :: "string opt_field"
  ca_channelStatus :: channel_status
  ca_transaction :: string
  ca_transactionId :: string
  ca_requiredConfirmations :: js_number
  ca_status :: claim_status
  ca_finality :: "string opt_field"
  ca_acceptance :: "accepted_evidence opt_field"
  ca_continuationOutpoint :: "funding_outpoint opt_field"
  ca_continuationScriptPublicKey :: "string opt_field"
  ca_continuationFundingAmount :: "string opt_field"
  ca_operationLeaseId :: string
  ca_expected :: server_channel

definition claim_status_text :: "claim_status \<Rightarrow> string" where
  "claim_status_text s = (case s of ClaimPending \<Rightarrow> ''pending'' | ClaimBroadcast \<Rightarrow> ''broadcast''
     | ClaimAccepted \<Rightarrow> ''accepted'' | ClaimApplied \<Rightarrow> ''applied'')"

definition claim_artifact_members :: "claim_attempt \<Rightarrow> (string \<times> js_value) list" where
  "claim_artifact_members a = [(''attemptId'', JStr (ca_attemptId a)), (''channelId'', JStr (ca_channelId a)),
     (''covenantId'', JStr (ca_covenantId a)), (''activeOutpoint'', outpoint_json (ca_activeOutpoint a)),
     (''activeScriptPublicKey'', JStr (ca_activeScriptPublicKey a)), (''fundingAmount'', JStr (fundingAmount a)),
     (''claimAmount'', JStr (ca_claimAmount a)), (''chargedCumulativeAmount'', JStr (chargedCumulativeAmount a)),
     (''claimedCumulativeAmount'', JStr (claimedCumulativeAmount a)),
     (''signedMaxClaimable'', JStr (signedMaxClaimable a))]
     @ opt_member ''voucherSignature'' JStr (ca_voucherSignature a)
     @ [(''channelStatus'', JStr (channel_status_text (ca_channelStatus a))),
        (''transaction'', JStr (ca_transaction a)), (''transactionId'', JStr (ca_transactionId a)),
        (''requiredConfirmations'', JNum (ca_requiredConfirmations a))]
     @ opt_member ''continuationOutpoint'' outpoint_json (ca_continuationOutpoint a)
     @ opt_member ''continuationScriptPublicKey'' JStr (ca_continuationScriptPublicKey a)
     @ opt_member ''continuationFundingAmount'' JStr (ca_continuationFundingAmount a)
     @ [(''operationLeaseId'', JStr (ca_operationLeaseId a)), (''expected'', channel_json (ca_expected a))]"

definition claim_attempt_json :: "claim_attempt \<Rightarrow> js_value" where
  "claim_attempt_json a = JObj (claim_artifact_members a @ [(''status'', JStr (claim_status_text (ca_status a)))]
     @ opt_member ''finality'' JStr (ca_finality a) @ opt_member ''acceptance'' accepted_json (ca_acceptance a))"

section \<open>Snapshots and leases\<close>

definition sameChannelSnapshot :: "server_channel option \<Rightarrow> server_channel option \<Rightarrow> bool" where
  "sameChannelSnapshot left right =
     (case (left, right) of
        (Some l, Some r) \<Rightarrow> stableJson (channel_json l) = stableJson (channel_json r)
      | (None, None) \<Rightarrow> True
      | _ \<Rightarrow> False)"

definition normalizeChannelOperationLease :: "environment \<Rightarrow> channel_lease \<Rightarrow> channel_lease res" where
  "normalizeChannelOperationLease env input =
     (if \<not> is_lower_hash32 (cl_leaseId input) \<or> \<not> is_lower_hash32 (cl_channelId input)
         \<or> \<not> isNonzeroLowerHash32 (cl_covenantId input)
      then Inl (JsError ''channel operation identifiers must be canonical lowercase'')
      else if cl_status input \<noteq> LeaseReserved then Inl (JsError ''new channel operation must be reserved'')
      else if cl_kind input \<notin> {''payment'', ''deposit'', ''top-up'', ''claim'', ''refund'', ''recovery'', ''retirement''}
      then Inl (JsError ''channel operation kind is invalid'')
      else if (case cl_expected input of None \<Rightarrow> False
                 | Some e \<Rightarrow> sc_channelId e \<noteq> cl_channelId input \<or> sc_covenantId e \<noteq> cl_covenantId input)
      then Inl (JsError ''channel operation snapshot identity is inconsistent'')
      else bindE (assertIsoDate env (cl_createdAt input) ''channel operation creation time'') (\<lambda>_.
      bindE (assertIsoDate env (cl_updatedAt input) ''channel operation update time'') (\<lambda>_.
      Inr input)))"

definition channelOperationLeasesMatch :: "channel_lease \<Rightarrow> channel_lease \<Rightarrow> bool" where
  "channelOperationLeasesMatch existing input =
     (cl_leaseId existing = cl_leaseId input \<and> cl_channelId existing = cl_channelId input
      \<and> cl_covenantId existing = cl_covenantId input \<and> cl_kind existing = cl_kind input
      \<and> sameChannelSnapshot (cl_expected existing) (cl_expected input))"

section \<open>Claim attempts\<close>

definition claimAttemptsMatch :: "claim_attempt \<Rightarrow> claim_attempt \<Rightarrow> bool" where
  "claimAttemptsMatch left right = (stableJson (claim_attempt_json left) = stableJson (claim_attempt_json right))"

definition claimAttemptArtifactsMatch :: "claim_attempt \<Rightarrow> claim_attempt \<Rightarrow> bool" where
  "claimAttemptArtifactsMatch left right =
     (stableJson (JObj (claim_artifact_members left)) = stableJson (JObj (claim_artifact_members right)))"

definition claim_snapshot_inconsistent :: "claim_attempt \<Rightarrow> bool" where
  "claim_snapshot_inconsistent a = (let e = ca_expected a in
     sc_channelId e \<noteq> ca_channelId a \<or> sc_covenantId e \<noteq> ca_covenantId a
     \<or> fundingAmount e \<noteq> fundingAmount a \<or> chargedCumulativeAmount e \<noteq> chargedCumulativeAmount a
     \<or> claimedCumulativeAmount e \<noteq> claimedCumulativeAmount a \<or> signedMaxClaimable e \<noteq> signedMaxClaimable a
     \<or> val_of (sc_voucherSignature e) \<noteq> val_of (ca_voucherSignature a) \<or> sc_status e \<noteq> ca_channelStatus a
     \<or> \<not> sameOutpoint (sc_activeOutpoint e) (ca_activeOutpoint a)
     \<or> to_lower (sc_activeScriptPublicKey e) \<noteq> to_lower (ca_activeScriptPublicKey a))"

definition assert_continuation :: "claim_attempt \<Rightarrow> unit res" where
  "assert_continuation a =
     (let fields = length (filter id [val_of (ca_continuationOutpoint a) \<noteq> None,
                     val_of (ca_continuationScriptPublicKey a) \<noteq> None, val_of (ca_continuationFundingAmount a) \<noteq> None])
      in if fields \<noteq> 0 \<and> fields \<noteq> 3 then Inl (JsError ''claim continuation state must be complete'')
         else case val_of (ca_continuationOutpoint a) of
           None \<Rightarrow> Inr ()
         | Some outpoint \<Rightarrow>
             if \<not> is_lower_hash32 (op_txid outpoint) \<or> op_txid outpoint \<noteq> ca_transactionId a
                \<or> \<not> safe_index (op_index outpoint)
             then Inl (JsError ''claim continuation outpoint is invalid'')
             else case val_of (ca_continuationFundingAmount a) of
               None \<Rightarrow> Inr ()
             | Some amount \<Rightarrow>
                 bindE (parseBatchLaneAmount amount ''claim continuation funding amount'') (\<lambda>_. Inr ()))"

definition assert_claim_evidence :: "claim_attempt \<Rightarrow> unit res" where
  "assert_claim_evidence a =
     (let finality = val_of (ca_finality a); acceptance = val_of (ca_acceptance a);
          matching = (case acceptance of None \<Rightarrow> False | Some e \<Rightarrow> ae_transactionId e = ca_transactionId a)
      in case ca_status a of
        ClaimPending \<Rightarrow>
          if finality \<noteq> None \<or> acceptance \<noteq> None
          then Inl (JsError ''pending claim attempt cannot have chain evidence'') else Inr ()
      | ClaimBroadcast \<Rightarrow>
          if finality \<notin> {Some ''broadcast'', Some ''accepted'', Some ''confirmed''}
          then Inl (JsError ''broadcast claim attempt requires observed finality'')
          else if finality = Some ''broadcast'' \<and> acceptance \<noteq> None
          then Inl (JsError ''broadcast-only claim attempt cannot have acceptance evidence'')
          else if finality \<noteq> Some ''broadcast'' \<and> \<not> matching
          then Inl (JsError ''accepted claim observation requires matching evidence'') else Inr ()
      | _ \<Rightarrow>
          if finality \<noteq> Some ''confirmed'' \<or> \<not> matching
          then Inl (JsError ''accepted claim attempt lacks confirmed chain evidence'')
          else (case acceptance of
                  None \<Rightarrow> Inl (JsError ''accepted claim attempt lacks confirmed chain evidence'')
                | Some e \<Rightarrow>
                    bindE (decideChainEvidence (AcceptedEvidence e) (ca_requiredConfirmations a)) (\<lambda>decision.
                    case decision of
                      DecidedConfirmed _ \<Rightarrow> Inr ()
                    | _ \<Rightarrow> Inl (JsError ''accepted claim attempt lacks confirmed chain evidence''))))"

definition assertClaimAttemptShape :: "claim_attempt \<Rightarrow> unit res" where
  "assertClaimAttemptShape a =
     (if \<not> positive_safe (ca_requiredConfirmations a)
      then Inl (JsError ''claim attempt confirmation threshold is invalid'')
      else if \<not> is_lower_hash32 (ca_attemptId a) \<or> \<not> is_lower_hash32 (ca_channelId a)
              \<or> \<not> isNonzeroLowerHash32 (ca_covenantId a) \<or> \<not> is_lower_hash32 (op_txid (ca_activeOutpoint a))
              \<or> \<not> is_lower_hash32 (ca_transactionId a) \<or> \<not> is_lower_hash32 (ca_operationLeaseId a)
      then Inl (JsError ''claim attempt identifiers must be canonical lowercase'')
      else if \<not> safe_index (op_index (ca_activeOutpoint a))
      then Inl (JsError ''claim attempt active outpoint index is invalid'')
      else if ca_transaction a = [] then Inl (JsError ''claim attempt transaction artifact is required'')
      else bindE (parseBatchLaneAmount (ca_claimAmount a) ''claim amount'') (\<lambda>claim.
      if claim = 0 then Inl (JsError ''claim amount must be positive'')
      else bindE (batchLaneAccounting (batch_lane_state.truncate a)) (\<lambda>_.
      if claim_snapshot_inconsistent a then Inl (JsError ''claim attempt snapshot is inconsistent'')
      else bindE (assert_continuation a) (\<lambda>_. assert_claim_evidence a))))"

definition normalizeClaimAttempt :: "claim_attempt \<Rightarrow> claim_attempt option \<Rightarrow> claim_attempt res" where
  "normalizeClaimAttempt input existing =
     bindE (assertClaimAttemptShape input) (\<lambda>_.
     if ca_status input = ClaimApplied then Inl (JsError ''claim attempts can only be applied atomically'')
     else case existing of
       None \<Rightarrow>
         if ca_status input \<noteq> ClaimPending then Inl (JsError ''new claim attempt must be pending'')
         else Inr input
     | Some e \<Rightarrow>
         bindE (assertClaimAttemptShape e) (\<lambda>_.
         if \<not> claimAttemptArtifactsMatch e input
         then Inl (JsError ''claim attempt immutable artifact conflicts with durable state'')
         else if ca_status e = ca_status input then
           (if \<not> claimAttemptsMatch e input
            then Inl (JsError ''claim attempt same-state update conflicts with durable state'') else Inr input)
         else if \<not> (ca_status e = ClaimPending \<and> ca_status input = ClaimBroadcast
                     \<or> ca_status e = ClaimBroadcast \<and> ca_status input = ClaimAccepted)
         then Inl (JsError ''invalid claim attempt status transition'')
         else Inr input))"

section \<open>Channel transitions\<close>

definition assertSettlementTransition ::
  "(byte list \<Rightarrow> byte list) \<Rightarrow> launch_identity \<Rightarrow> server_channel \<Rightarrow> server_channel \<Rightarrow> batch_commitment \<Rightarrow> unit res" where
  "assertSettlementTransition sha escrow previous next commitment =
     bindE (assertImmutableChannelIdentity previous next) (\<lambda>_.
     bindE (orE (Inr (fundingAmount next \<noteq> fundingAmount previous
               \<or> claimedCumulativeAmount next \<noteq> claimedCumulativeAmount previous
               \<or> \<not> sameOutpoint (sc_activeOutpoint next) (sc_activeOutpoint previous)
               \<or> to_lower (sc_activeScriptPublicKey next) \<noteq> to_lower (sc_activeScriptPublicKey previous)))
           (orE (amount_below (chargedCumulativeAmount next) ''next charged amount''
                   (chargedCumulativeAmount previous) ''previous charged amount'')
           (orE (amount_below (signedMaxClaimable next) ''next signed ceiling''
                   (signedMaxClaimable previous) ''previous signed ceiling'')
           (orE (Inr (val_of (sc_lastCommitmentId next) \<noteq> Some (bc_commitmentId commitment)))
           (orE (bindE (incrementVersion (sc_version previous)) (\<lambda>v. Inr (sc_version next \<noteq> v)))
           (bindE (sameCovenantLineage (sc_lineage previous) (sc_lineage next)) (\<lambda>same. Inr (\<not> same)))))))) (\<lambda>bad.
     if bad then Inl (JsError ''settlement would roll back or replace channel state'')
     else bindE (batchLaneAccounting (lane_of next)) (\<lambda>_.
     assertServerChannelLineageConsistency sha escrow next)))"

definition assertClaimTransition ::
  "(byte list \<Rightarrow> byte list) \<Rightarrow> launch_identity \<Rightarrow> server_channel \<Rightarrow> server_channel \<Rightarrow> claim_attempt \<Rightarrow> unit res" where
  "assertClaimTransition sha escrow previous next attempt =
     bindE (assertImmutableChannelIdentity previous next) (\<lambda>_.
     bindE (applyBatchClaimAccounting (lane_of previous) (ca_claimAmount attempt)) (\<lambda>expected.
     bindE (orE (Inr (fundingAmount next \<noteq> fundingAmount expected
               \<or> claimedCumulativeAmount next \<noteq> claimedCumulativeAmount expected
               \<or> chargedCumulativeAmount next \<noteq> chargedCumulativeAmount previous
               \<or> signedMaxClaimable next \<noteq> signedMaxClaimable previous
               \<or> val_of (sc_lastCommitmentId next) \<noteq> val_of (sc_lastCommitmentId previous)
               \<or> val_of (sc_voucherSignature next) \<noteq> val_of (sc_voucherSignature previous)))
           (orE (bindE (incrementVersion (sc_version previous)) (\<lambda>v. Inr (sc_version next \<noteq> v)))
           (Inr (case val_of (ca_continuationOutpoint attempt) of
                   None \<Rightarrow> True
                 | Some outpoint \<Rightarrow> \<not> sameOutpoint (sc_activeOutpoint next) outpoint
                     \<or> Some (to_lower (sc_activeScriptPublicKey next))
                         \<noteq> map_option to_lower (val_of (ca_continuationScriptPublicKey attempt)))))) (\<lambda>bad.
     if bad then Inl (JsError ''claim transition is not the reserved monotonic successor'')
     else bindE (batchLaneAccounting (lane_of next)) (\<lambda>_.
     assertServerCovenantJournalExtension sha escrow previous next))))"

end
