(* ===== verification/Exact_Store.thy ===== *)
theory Exact_Store
  imports Batch_Attempts "HOL-Library.AList"
begin

text \<open>
  The payment part of the in-memory store of \<^verbatim>\<open>server/src/stores.ts\<close>: the maps for heads, exact
  and batch attempts, payments, commitments, identifiers and reservations, the durable record budget
  with its expiry queue, and \<open>#applyExactTransition\<close>. A \<open>Map\<close> whose order or size matters is an
  association list updated with \<open>AList.update\<close>, which keeps the position of a key as
  \<open>Map.prototype.set\<close> does; the other maps are partial functions. One synchronous call reads
  the two clocks once: \<open>nowIso\<close> and \<open>nowMs\<close>. An operation always returns a state, since a call
  that throws may already have expired old records.
\<close>

section \<open>State\<close>

datatype budget_kind = BatchRecord | ExactRecord

record budget_record =
  br_key :: string
  br_kind :: budget_kind
  br_attemptId :: string
  br_payerId :: string
  br_bytes :: nat
  br_terminalAt :: "int option"
  br_commitmentId :: "string option"
  br_paymentIdentifier :: "string option"
  br_safelyReleased :: bool

record durable_limits =
  lim_maxRecords :: nat
  lim_maxBytes :: nat
  lim_maxRecordsPerPayer :: nat
  lim_maxExactHeads :: nat
  lim_terminalRetentionMs :: nat

record budget_state =
  bs_records :: "(string \<times> budget_record) list"
  bs_payerCounts :: "string \<rightharpoonup> nat"
  bs_queue :: "(string \<times> int) list"
  bs_bytes :: int

record exact_store =
  xs_heads :: "(string \<times> exact_head) list"
  xs_attempts :: "string \<rightharpoonup> exact_attempt"
  xs_payments :: "string \<rightharpoonup> exact_payment"
  xs_batchAttempts :: "string \<rightharpoonup> batch_attempt"
  xs_commitments :: "string \<rightharpoonup> batch_commitment"
  xs_identifiers :: "string \<rightharpoonup> identifier_record"
  xs_reservations :: "string \<rightharpoonup> reservation"
  xs_budget :: budget_state

section \<open>Budget records\<close>

definition deleteBudgetRecord :: "string \<Rightarrow> budget_state \<Rightarrow> budget_state" where
  "deleteBudgetRecord key b =
     (case map_of (bs_records b) key of
        None \<Rightarrow> b
      | Some r \<Rightarrow>
          let payerRecords = (case bs_payerCounts b (br_payerId r) of None \<Rightarrow> 0 | Some n \<Rightarrow> n)
          in b\<lparr>bs_queue := AList.delete key (bs_queue b),
               bs_records := AList.delete key (bs_records b),
               bs_bytes := bs_bytes b - int (br_bytes r),
               bs_payerCounts := (bs_payerCounts b)(br_payerId r :=
                 (if payerRecords \<le> 1 then None else Some (payerRecords - 1)))\<rparr>)"

definition expiredReplayResponse :: js_value where
  "expiredReplayResponse = JObj [(''status'', JNum (JsInt 409)), (''headers'', JObj []),
     (''body'', JObj [(''error'', JStr ''replay_record_retained'')])]"

definition expire_released :: "budget_record \<Rightarrow> exact_store \<Rightarrow> exact_store" where
  "expire_released r st =
     (case br_paymentIdentifier r of
        Some i \<Rightarrow>
          if i \<noteq> [] \<and> (case xs_reservations st i of
                Some v \<Rightarrow> rs_status v = SafelyReleased \<and> rc_ownerId v = br_attemptId r
              | None \<Rightarrow> False)
          then st\<lparr>xs_reservations := (xs_reservations st)(i := None)\<rparr> else st
      | None \<Rightarrow> st)"

definition expire_terminal :: "budget_record \<Rightarrow> exact_store \<Rightarrow> exact_store" where
  \<comment> \<open>an expired record leaves compact tombstones\<close>
  "expire_terminal r st =
     (let st1 = (case br_kind r of
                   BatchRecord \<Rightarrow>
                     st\<lparr>xs_batchAttempts := (xs_batchAttempts st)(br_attemptId r := None),
                        xs_commitments :=
                          (case br_commitmentId r of
                             Some c \<Rightarrow> if c = [] then xs_commitments st
                               else (xs_commitments st)(c := map_option
                                 (\<lambda>p. p\<lparr>bc_response := expiredReplayResponse\<rparr>) (xs_commitments st c))
                           | None \<Rightarrow> xs_commitments st)\<rparr>
                 | ExactRecord \<Rightarrow>
                     st\<lparr>xs_attempts := (xs_attempts st)(br_attemptId r := None),
                        xs_payments := (xs_payments st)(to_lower (br_attemptId r) :=
                          map_option (\<lambda>p. p\<lparr>ep_response := expiredReplayResponse\<rparr>)
                            (xs_payments st (to_lower (br_attemptId r))))\<rparr>)
      in case br_paymentIdentifier r of
           Some i \<Rightarrow>
             if i = [] then st1
             else st1\<lparr>xs_identifiers := (xs_identifiers st1)(i :=
               map_option (\<lambda>d. d\<lparr>pi_response := expiredReplayResponse\<rparr>) (xs_identifiers st1 i))\<rparr>
         | None \<Rightarrow> st1)"

fun prune_loop :: "int \<Rightarrow> (string \<times> int) list \<Rightarrow> exact_store \<Rightarrow> exact_store" where
  "prune_loop cutoff [] st = st\<lparr>xs_budget := (xs_budget st)\<lparr>bs_queue := []\<rparr>\<rparr>"
| "prune_loop cutoff ((key, at) # rest) st =
     (case map_of (bs_records (xs_budget st)) key of
        None \<Rightarrow> prune_loop cutoff rest st
      | Some r \<Rightarrow>
         (case br_terminalAt r of
            None \<Rightarrow> prune_loop cutoff rest st
          | Some terminalAt \<Rightarrow>
              if cutoff < terminalAt
              then st\<lparr>xs_budget := (xs_budget st)\<lparr>bs_queue := (key, at) # rest\<rparr>\<rparr>
              else let st1 = (if br_safelyReleased r then expire_released r st else expire_terminal r st)
                   in prune_loop cutoff rest
                        (st1\<lparr>xs_budget := deleteBudgetRecord key (xs_budget st1)\<rparr>)))"

definition pruneTerminalBudgetRecords :: "durable_limits \<Rightarrow> int \<Rightarrow> exact_store \<Rightarrow> exact_store" where
  "pruneTerminalBudgetRecords limits nowMs st =
     prune_loop (nowMs - int (lim_terminalRetentionMs limits)) (bs_queue (xs_budget st)) st"

definition budget_key :: "budget_kind \<Rightarrow> string \<Rightarrow> string" where
  "budget_key kind i = (case kind of ExactRecord \<Rightarrow> ''exact:'' | BatchRecord \<Rightarrow> ''batch:'') @ i"

definition safelyReleasedPaymentIdentifierReclaim ::
  "reservation_claim option \<Rightarrow> exact_store \<Rightarrow> (string \<times> string \<times> budget_record) option res" where
  \<comment> \<open>the reservation id, and the key and value of the budget record it may replace\<close>
  "safelyReleasedPaymentIdentifierReclaim claim st =
     (case claim of
        None \<Rightarrow> Inr None
      | Some c \<Rightarrow>
         (case xs_reservations st (rc_id c) of
            None \<Rightarrow> Inr None
          | Some released \<Rightarrow>
              if rs_status released \<noteq> SafelyReleased then Inr None
              else let key = budget_key (if rc_paymentKind released = ''exact'' then ExactRecord else BatchRecord)
                               (rc_ownerId released)
                   in (case map_of (bs_records (xs_budget st)) key of
                         None \<Rightarrow> Inl (JsError ''safely released payment identifier budget is inconsistent'')
                       | Some b \<Rightarrow>
                           if \<not> br_safelyReleased b \<or> br_attemptId b \<noteq> rc_ownerId released
                              \<or> br_paymentIdentifier b \<noteq> Some (rc_id c)
                           then Inl (JsError ''safely released payment identifier budget is inconsistent'')
                           else Inr (Some (rc_id c, key, b)))))"

definition payer_count :: "budget_state \<Rightarrow> string \<Rightarrow> nat" where
  "payer_count b payer = (case bs_payerCounts b payer of None \<Rightarrow> 0 | Some n \<Rightarrow> n)"

definition insert_budget_record :: "string \<Rightarrow> budget_record \<Rightarrow> budget_state \<Rightarrow> budget_state" where
  "insert_budget_record key r b =
     b\<lparr>bs_records := AList.update key r (bs_records b), bs_bytes := bs_bytes b + int (br_bytes r),
       bs_payerCounts := (bs_payerCounts b)(br_payerId r \<mapsto> payer_count b (br_payerId r) + 1)\<rparr>"

definition admit_checked ::
  "durable_limits \<Rightarrow> string \<Rightarrow> budget_record \<Rightarrow> (string \<times> string \<times> budget_record) option
     \<Rightarrow> exact_store \<Rightarrow> exact_store \<times> unit res" where
  \<comment> \<open>the quota checks against the projected totals, then the writes\<close>
  "admit_checked limits key r replacement st =
     (let b = xs_budget st;
          replacedRecordCount = (case replacement of None \<Rightarrow> 0 | Some _ \<Rightarrow> 1);
          replacedBytes = (case replacement of None \<Rightarrow> 0 | Some (i, k, old) \<Rightarrow> int (br_bytes old));
          replacedPayerRecordCount =
            (case replacement of None \<Rightarrow> 0 | Some (i, k, old) \<Rightarrow> if br_payerId old = br_payerId r then 1 else 0)
      in if int (lim_maxRecords limits) < int (length (bs_records b)) - replacedRecordCount + 1
         then (st, Inl (JsError ''durable protected-payment record limit exceeded''))
         else if int (lim_maxBytes limits) < bs_bytes b - replacedBytes + int (br_bytes r)
         then (st, Inl (JsError ''durable protected-payment byte limit exceeded''))
         else if int (lim_maxRecordsPerPayer limits)
                   < int (payer_count b (br_payerId r)) - replacedPayerRecordCount + 1
         then (st, Inl (JsError ''durable protected-payment per-payer limit exceeded''))
         else let st1 = (case replacement of
                           None \<Rightarrow> st
                         | Some (i, k, old) \<Rightarrow>
                             st\<lparr>xs_budget := deleteBudgetRecord (br_key old) b,
                                xs_reservations := (xs_reservations st)(i := None)\<rparr>)
              in (st1\<lparr>xs_budget := insert_budget_record key r (xs_budget st1)\<rparr>, Inr ()))"

definition admitBudgetRecord ::
  "durable_limits \<Rightarrow> int \<Rightarrow> string \<Rightarrow> budget_kind \<Rightarrow> string \<Rightarrow> string \<Rightarrow> string option \<Rightarrow> nat
     \<Rightarrow> reservation_claim option \<Rightarrow> exact_store \<Rightarrow> exact_store \<times> unit res" where
  "admitBudgetRecord limits nowMs key kind attemptId payerId paymentIdentifier bytes replacementClaim st0 =
     (let st = pruneTerminalBudgetRecords limits nowMs st0;
          r = \<lparr>br_key = key, br_kind = kind, br_attemptId = attemptId, br_payerId = payerId,
               br_bytes = bytes, br_terminalAt = None, br_commitmentId = None,
               br_paymentIdentifier = (if paymentIdentifier = Some [] then None else paymentIdentifier),
               br_safelyReleased = False\<rparr>
      in case safelyReleasedPaymentIdentifierReclaim replacementClaim st of
           Inl e \<Rightarrow> (st, Inl e)
         | Inr replacement \<Rightarrow>
             if map_of (bs_records (xs_budget st)) key \<noteq> None
                \<and> map_option (fst \<circ> snd) replacement \<noteq> Some key
             then (st, Inl (JsError ''durable budget reservation already exists''))
             else admit_checked limits key r replacement st)"

definition assertTerminalBudgetFits :: "string \<Rightarrow> nat \<Rightarrow> exact_store \<Rightarrow> unit res" where
  "assertTerminalBudgetFits key bytes st =
     (case map_of (bs_records (xs_budget st)) key of
        None \<Rightarrow> Inl (JsError ''durable budget reservation is missing'')
      | Some current \<Rightarrow>
          if br_bytes current < bytes
          then Inl (JsError ''durable terminal bundle exceeded its reserved byte quota'')
          else Inr ())"

definition terminalizeBudgetRecord ::
  "durable_limits \<Rightarrow> int \<Rightarrow> string \<Rightarrow> nat \<Rightarrow> string option \<Rightarrow> string option \<Rightarrow> bool \<Rightarrow> exact_store
     \<Rightarrow> exact_store res" where
  "terminalizeBudgetRecord limits nowMs key bytes commitmentId paymentIdentifier safelyReleased st =
     (case map_of (bs_records (xs_budget st)) key of
        None \<Rightarrow> Inl (JsError ''durable budget reservation is missing'')
      | Some current \<Rightarrow>
          if br_bytes current < bytes
          then Inl (JsError ''durable terminal bundle exceeded its reserved byte quota'')
          else let b = xs_budget st;
                   r = current\<lparr>br_bytes := bytes, br_terminalAt := Some nowMs,
                         br_commitmentId := (case commitmentId of
                            Some i \<Rightarrow> if i = [] then br_commitmentId current else Some i
                          | None \<Rightarrow> br_commitmentId current),
                         br_paymentIdentifier := (case paymentIdentifier of
                            Some i \<Rightarrow> if i = [] then br_paymentIdentifier current else Some i
                          | None \<Rightarrow> br_paymentIdentifier current),
                         br_safelyReleased := (safelyReleased \<or> br_safelyReleased current)\<rparr>
               in Inr (pruneTerminalBudgetRecords limits nowMs
                    (st\<lparr>xs_budget := b\<lparr>bs_bytes := bs_bytes b + (int bytes - int (br_bytes current)),
                          bs_records := AList.update key r (bs_records b),
                          bs_queue := AList.update key nowMs (bs_queue b)\<rparr>\<rparr>)))"

section \<open>Applying a transition\<close>

record clock =
  nowIso :: string
  nowMs :: int

definition snapshot_of ::
  "durable_limits \<Rightarrow> clock \<Rightarrow> exact_command \<Rightarrow> transition_scope \<Rightarrow> exact_attempt option \<Rightarrow> exact_store
     \<Rightarrow> transition_snapshot" where
  "snapshot_of limits time command scope attempt st =
     (let head = Option.bind (sc_headId scope) (\<lambda>i. if i = [] then None else map_of (xs_heads st) i);
          admission = (case command of RegisterHead _ \<Rightarrow> head = None | _ \<Rightarrow> False)
      in \<lparr>sn_now = nowIso time, sn_attempt = attempt, sn_head = head,
          sn_payment = Option.bind (sc_transactionId scope)
             (\<lambda>t. if t = [] then None else xs_payments st (to_lower t)),
          sn_identifier = Option.bind (sc_identifierId scope)
             (\<lambda>i. if i = [] then None else xs_identifiers st i),
          sn_reservation = Option.bind (sc_identifierId scope)
             (\<lambda>i. if i = [] then None else xs_reservations st i),
          sn_heads = (if admission then Some (map snd (xs_heads st)) else None),
          sn_maxHeads = (if admission then Some (lim_maxExactHeads limits) else None)\<rparr>)"

definition write_changes :: "transition_changes \<Rightarrow> exact_store \<Rightarrow> exact_store" where
  "write_changes ch st =
     st\<lparr>xs_heads := (case ch_head ch of None \<Rightarrow> xs_heads st
                      | Some h \<Rightarrow> AList.update (eh_headId h) h (xs_heads st)),
        xs_reservations := (case ch_reservation ch of None \<Rightarrow> xs_reservations st
                             | Some r \<Rightarrow> (xs_reservations st)(rc_id r \<mapsto> r)),
        xs_identifiers := (case ch_identifier ch of None \<Rightarrow> xs_identifiers st
                             | Some i \<Rightarrow> (xs_identifiers st)(pi_id i \<mapsto> i)),
        xs_payments := (case ch_payment ch of None \<Rightarrow> xs_payments st
                         | Some p \<Rightarrow> (xs_payments st)(to_lower (ep_transactionId p) \<mapsto> p)),
        xs_attempts := (case ch_attempt ch of KeepAttempt \<Rightarrow> xs_attempts st
                         | DeleteAttempt \<Rightarrow> (case ch_transactionId ch of
                              None \<Rightarrow> xs_attempts st | Some t \<Rightarrow> (xs_attempts st)(t := None))
                         | PutAttempt a \<Rightarrow> (xs_attempts st)(at_transactionId a \<mapsto> a))\<rparr>"

definition check_budget ::
  "durable_limits \<Rightarrow> clock \<Rightarrow> transition_budget option \<Rightarrow> exact_store \<Rightarrow> exact_store \<times> unit res" where
  \<comment> \<open>the quota checks that precede every record write\<close>
  "check_budget limits time budget st =
     (case budget of
        Some (AdmitBudget next bytes) \<Rightarrow>
          admitBudgetRecord limits (nowMs time) (''exact:'' @ at_transactionId next) ExactRecord
            (at_transactionId next) (at_payerId next)
            (map_option rc_id (val_of (at_paymentIdentifier next))) bytes
            (val_of (at_paymentIdentifier next)) st
      | Some (TerminalBudget t bytes i released) \<Rightarrow> (st, assertTerminalBudgetFits (''exact:'' @ t) bytes st)
      | _ \<Rightarrow> (st, Inr ()))"

definition settle_budget ::
  "durable_limits \<Rightarrow> clock \<Rightarrow> transition_budget option \<Rightarrow> exact_store \<Rightarrow> exact_store res" where
  "settle_budget limits time budget st =
     (case budget of
        Some (TerminalBudget t bytes i released) \<Rightarrow>
          terminalizeBudgetRecord limits (nowMs time) (''exact:'' @ t) bytes None i released st
      | Some (DeleteBudget t) \<Rightarrow> Inr (st\<lparr>xs_budget := deleteBudgetRecord (''exact:'' @ t) (xs_budget st)\<rparr>)
      | _ \<Rightarrow> Inr st)"

definition applyExactTransition ::
  "environment \<Rightarrow> durable_limits \<Rightarrow> clock \<Rightarrow> exact_command \<Rightarrow> exact_store
     \<Rightarrow> exact_store \<times> exact_result res" where
  "applyExactTransition env limits time command st =
     (case exactTransitionScope env command None of
        Inl e \<Rightarrow> (st, Inl e)
      | Inr initial \<Rightarrow>
         (let attempt = Option.bind (sc_transactionId initial) (\<lambda>t. if t = [] then None else xs_attempts st t)
          in case exactTransitionScope env command attempt of
               Inl e \<Rightarrow> (st, Inl e)
             | Inr scope \<Rightarrow>
                (case prepareExactTransition env command (snapshot_of limits time command scope attempt st) of
                   Inl e \<Rightarrow> (st, Inl e)
                 | Inr changes \<Rightarrow>
                    (case check_budget limits time (ch_budget changes) st of
                       (st1, Inl e) \<Rightarrow> (st1, Inl e)
                     | (st1, Inr _) \<Rightarrow>
                        (let st2 = write_changes changes st1
                         in case settle_budget limits time (ch_budget changes) st2 of
                              Inl e \<Rightarrow> (st2, Inl e)
                            | Inr st3 \<Rightarrow> (st3, Inr (ch_result changes)))))))"

end
