(* ===== verification/Store_Programs.thy ===== *)
theory Store_Programs
  imports X402_Prelude
begin

text \<open>
  Programs of the stores. The in-memory stores of the server and of the client mutate maps and throw;
  an operation that throws keeps the writes it has already made. A program takes a state to the state
  it leaves and a result. \<open>wp m Q E s\<close> holds when running \<open>m\<close> on \<open>s\<close> ends normally in a state of
  \<open>Q\<close> or throws in a state of \<open>E\<close>, so an invariant has to be established on both exits; the equations
  of \<open>wp_simps\<close> compute it statement by statement. \<open>guarded_machine\<close> carries invariants and orders
  from one admissible command to whole command sequences.
\<close>

section \<open>Programs\<close>

type_synonym ('s, 'a) program = "'s \<Rightarrow> 's \<times> 'a res"

definition ret :: "'a \<Rightarrow> ('s, 'a) program" where
  "ret x s = (s, Inr x)"

definition bindS :: "('s, 'a) program \<Rightarrow> ('a \<Rightarrow> ('s, 'b) program) \<Rightarrow> ('s, 'b) program" where
  "bindS m f s = (case m s of (s', Inl e) \<Rightarrow> (s', Inl e) | (s', Inr x) \<Rightarrow> f x s')"

definition assertS :: "'a res \<Rightarrow> ('s, 'a) program" where
  \<comment> \<open>a check that reads no state\<close>
  "assertS r s = (s, r)"

definition readS :: "('s \<Rightarrow> 'a) \<Rightarrow> ('s, 'a) program" where
  "readS f s = (s, Inr (f s))"

definition writeS :: "('s \<Rightarrow> 's) \<Rightarrow> ('s, unit) program" where
  "writeS f s = (f s, Inr ())"

definition failS :: "string \<Rightarrow> ('s, 'a) program" where
  "failS message s = (s, Inl (JsError message))"

definition unlessS :: "bool \<Rightarrow> string \<Rightarrow> ('s, unit) program" where
  "unlessS ok message = (if ok then ret () else failS message)"

definition doneS :: "('s, 'a) program \<Rightarrow> ('s, unit) program" where
  "doneS m = bindS m (\<lambda>_. ret ())"

section \<open>Weakest preconditions\<close>

named_theorems wp_simps \<open>weakest preconditions of the statements of a store program\<close>

definition wp :: "('s, 'a) program \<Rightarrow> ('a \<Rightarrow> 's \<Rightarrow> bool) \<Rightarrow> ('s \<Rightarrow> bool) \<Rightarrow> 's \<Rightarrow> bool" where
  "wp m Q E s = (case m s of (s', Inl e) \<Rightarrow> E s' | (s', Inr x) \<Rightarrow> Q x s')"

abbreviation keeps :: "('s \<Rightarrow> bool) \<Rightarrow> ('s, 'a) program \<Rightarrow> 's \<Rightarrow> bool" where
  "keeps P m s \<equiv> wp m (\<lambda>_. P) P s"

lemma wp_basic [wp_simps]:
  "wp (ret x) Q E = Q x"
  "wp (assertS r) Q E = (\<lambda>s. case r of Inl e \<Rightarrow> E s | Inr x \<Rightarrow> Q x s)"
  "wp (readS f) Q3 E = (\<lambda>s. Q3 (f s) s)"
  "wp (writeS g) Q1 E = (\<lambda>s. Q1 () (g s))"
  "wp (failS t) Q2 E = E"
  "wp (unlessS b t) Q1 E = (\<lambda>s. if b then Q1 () s else E s)"
  by (simp_all add: fun_eq_iff wp_def ret_def assertS_def readS_def writeS_def failS_def unlessS_def split: sum.splits)

lemma wp_bind [wp_simps]: "wp (bindS m f) Q E = wp m (\<lambda>x. wp (f x) Q E) E"
  by (simp add: fun_eq_iff wp_def bindS_def split: prod.splits sum.splits)

lemma wp_done [wp_simps]: "wp (doneS m) Q E = wp m (\<lambda>_. Q ()) E"
  by (simp add: doneS_def wp_simps)

lemma wp_mono: "wp m Q E s \<Longrightarrow> (\<And>x t. Q x t \<Longrightarrow> Q' x t) \<Longrightarrow> (\<And>t. E t \<Longrightarrow> E' t) \<Longrightarrow> wp m Q' E' s"
  by (auto simp: wp_def split: prod.splits sum.splits)

lemma keeps_run: "keeps P m s \<Longrightarrow> P (fst (m s))"
  by (auto simp: wp_def split: prod.splits sum.splits)

text \<open>A program that leaves a part of the store alone keeps what depends on that part only.\<close>

definition frames :: "('s \<Rightarrow> 'b) \<Rightarrow> ('s, 'a) program \<Rightarrow> bool" where
  "frames part m = (\<forall>s. part (fst (m s)) = part s)"

lemma frames_wp: "frames part m \<Longrightarrow> keeps (\<lambda>t. part t = part s) m s"
  by (auto simp: frames_def wp_def split: prod.splits sum.splits) (metis fst_conv)+

section \<open>Machines with admissible commands\<close>

locale guarded_machine =
  fixes step :: "'s \<Rightarrow> 'c \<Rightarrow> 's res"
    and admissible :: "'c \<Rightarrow> bool"
    and inv :: "'s \<Rightarrow> bool"
    and below :: "'s \<Rightarrow> 's \<Rightarrow> bool"
  assumes step_inv: "inv s \<Longrightarrow> admissible c \<Longrightarrow> step s c = Inr s' \<Longrightarrow> inv s'"
    and below_refl: "below s s"
    and below_trans: "below s t \<Longrightarrow> below t u \<Longrightarrow> below s u"
    and step_below: "inv s \<Longrightarrow> admissible c \<Longrightarrow> step s c = Inr s' \<Longrightarrow> below s s'"
begin

lemma run_inv: "inv s \<Longrightarrow> list_all admissible cs \<Longrightarrow> inv (run_cmds step s cs)"
  by (induction cs arbitrary: s) (auto split: sum.splits intro: step_inv)

lemma run_below: "inv s \<Longrightarrow> list_all admissible cs \<Longrightarrow> below s (run_cmds step s cs)"
proof (induction cs arbitrary: s)
  case Nil
  show ?case by (simp add: below_refl)
next
  case (Cons c cs)
  then show ?case by (auto split: sum.splits) (metis below_trans step_below step_inv)
qed

lemma run_append: "run_cmds step s (cs @ ds) = run_cmds step (run_cmds step s cs) ds"
  by (induction cs arbitrary: s) auto

lemma run_prefix_below:
  "inv s \<Longrightarrow> list_all admissible (cs @ ds) \<Longrightarrow> below (run_cmds step s cs) (run_cmds step s (cs @ ds))"
  using run_inv [of s cs] run_below [of "run_cmds step s cs" ds] by (simp add: run_append)

end

sublocale monotone_machine \<subseteq> guarded: guarded_machine step "\<lambda>_. True" inv below
  by unfold_locales (auto intro: step_inv below_refl step_below elim: below_trans)

end
