(* ===== verification/Channel_Store.thy ===== *)
theory Channel_Store
  imports Claim_Attempts Exact_Store Store_Programs
begin

text \<open>
  The in-memory store of \<^verbatim>\<open>server/src/stores.ts\<close>, the whole class: channels and their covenant
  index, operation leases, batch settlement attempts and claim attempts, beside the payment part of
  \<^verbatim>\<open>Exact_Store\<close>. Each operation is a program of \<^verbatim>\<open>Store_Programs\<close>: an
  operation that throws keeps the writes it has already made, as the class does.
\<close>

section \<open>State and programs\<close>

record server_store =
  sv_channels :: "string \<rightharpoonup> server_channel"
  sv_channelByCovenantId :: "string \<rightharpoonup> string"
  sv_claimAttempts :: "string \<rightharpoonup> claim_attempt"
  sv_operations :: "string \<rightharpoonup> channel_lease"
  sv_channelByLeaseId :: "string \<rightharpoonup> string"
  sv_openBatch :: "string \<rightharpoonup> string"
  sv_openClaim :: "string \<rightharpoonup> string"
  sv_payments :: exact_store

record server_config =
  cf_sha :: "byte list \<Rightarrow> byte list"
  cf_escrow :: launch_identity
  cf_env :: environment
  cf_limits :: durable_limits

type_synonym 'a op = "(server_store, 'a) program"

fun truthy_id :: "string option \<Rightarrow> string option" where
  \<comment> \<open>an id that a JavaScript condition takes as present\<close>
  "truthy_id None = None"
| "truthy_id (Some i) = (if i = [] then None else Some i)"

section \<open>Helpers\<close>

definition requireBatchAttempt :: "string \<Rightarrow> batch_attempt op" where
  "requireBatchAttempt attemptId =
     bindS (readS (\<lambda>s. xs_batchAttempts (sv_payments s) (to_lower attemptId))) (\<lambda>found.
     case found of None \<Rightarrow> failS ''batch settlement attempt was not found'' | Some a \<Rightarrow> ret a)"

definition requireChannelOperation :: "string \<Rightarrow> string \<Rightarrow> channel_lease op" where
  "requireChannelOperation channel_id leaseId =
     bindS (readS (\<lambda>s. sv_operations s channel_id)) (\<lambda>found.
     case found of
       None \<Rightarrow> failS ''channel operation lease was not found''
     | Some lease \<Rightarrow> if cl_leaseId lease = leaseId then ret lease
         else failS ''channel operation lease was not found'')"

definition updateChannelOperation ::
  "string \<Rightarrow> string \<Rightarrow> lease_status \<Rightarrow> string \<Rightarrow> string opt_field \<Rightarrow> unit op" where
  "updateChannelOperation channel_id leaseId status updatedAt recoveryReason =
     bindS (requireChannelOperation channel_id leaseId) (\<lambda>lease.
     writeS (\<lambda>s. s\<lparr>sv_operations := (sv_operations s)(channel_id \<mapsto>
       lease\<lparr>cl_status := status, cl_updatedAt := updatedAt,
             cl_recoveryReason := spread (cl_recoveryReason lease) recoveryReason\<rparr>)\<rparr>))"

definition put_reservation :: "reservation option \<Rightarrow> unit op" where
  "put_reservation r = (case r of None \<Rightarrow> ret ()
     | Some v \<Rightarrow> writeS (\<lambda>s. s\<lparr>sv_payments := (sv_payments s)\<lparr>xs_reservations :=
         (xs_reservations (sv_payments s))(rc_id v \<mapsto> v)\<rparr>\<rparr>))"

definition applyPaymentIdentifierTransition :: "reservation_claim option \<Rightarrow> reservation_transition \<Rightarrow> unit op" where
  "applyPaymentIdentifierTransition claim transition =
     bindS (readS (\<lambda>s. Option.bind claim (\<lambda>c. xs_reservations (sv_payments s) (rc_id c)))) (\<lambda>current.
     bindS (assertS (transitionPaymentIdentifierReservation claim current transition)) put_reservation)"

definition assertPaymentIdentifierClaimAvailable :: "reservation_claim option \<Rightarrow> unit op" where
  "assertPaymentIdentifierClaimAvailable claim =
     bindS (readS (\<lambda>s. (Option.bind claim (\<lambda>c. xs_reservations (sv_payments s) (rc_id c)),
                         Option.bind claim (\<lambda>c. xs_identifiers (sv_payments s) (rc_id c))))) (\<lambda>(reservation, completed).
     assertS (assertPaymentIdentifierAvailable claim reservation completed))"

definition assertCompletedPaymentIdentifier :: "batch_attempt \<Rightarrow> identifier_record option \<Rightarrow> unit op" where
  "assertCompletedPaymentIdentifier attempt completed =
     (let claim = val_of (ba_paymentIdentifier attempt) in
      bindS (readS (\<lambda>s. (Option.bind claim (\<lambda>c. xs_reservations (sv_payments s) (rc_id c)),
                          Option.bind claim (\<lambda>c. xs_identifiers (sv_payments s) (rc_id c))))) (\<lambda>(reservation, retained).
      assertS (assertPaymentIdentifierCompletion claim completed reservation retained)))"

definition assertChannelBinding :: "server_channel \<Rightarrow> (string \<times> string) op" where
  "assertChannelBinding channel =
     (let channel_id = to_lower (sc_channelId channel); covenantId = to_lower (sc_covenantId channel) in
      bindS (readS (\<lambda>s. (sv_channels s channel_id, sv_channelByCovenantId s covenantId))) (\<lambda>(current, registered).
      if (case current of None \<Rightarrow> False | Some c \<Rightarrow> to_lower (sc_covenantId c) \<noteq> covenantId)
      then failS ''channel covenant lineage cannot change''
      else if (case truthy_id registered of None \<Rightarrow> False | Some i \<Rightarrow> i \<noteq> channel_id)
      then failS ''covenant lineage is already registered to another channel''
      else ret (channel_id, covenantId)))"

definition setChannel :: "server_config \<Rightarrow> server_channel \<Rightarrow> unit op" where
  "setChannel cf channel =
     bindS (assertS (assertServerChannelLineageConsistency (cf_sha cf) (cf_escrow cf) channel)) (\<lambda>_.
     bindS (assertChannelBinding channel) (\<lambda>(channel_id, covenantId).
     writeS (\<lambda>s. s\<lparr>sv_channelByCovenantId := (sv_channelByCovenantId s)(covenantId \<mapsto> channel_id),
                    sv_channels := (sv_channels s)(channel_id \<mapsto> channel)\<rparr>)))"

definition dropChannelOperation :: "string \<Rightarrow> string \<Rightarrow> unit op" where
  \<comment> \<open>the two deletions that end a lease\<close>
  "dropChannelOperation channel_id leaseId =
     writeS (\<lambda>s. s\<lparr>sv_operations := (sv_operations s)(channel_id := None),
                    sv_channelByLeaseId := (sv_channelByLeaseId s)(leaseId := None)\<rparr>)"

definition closeBatch :: "string \<Rightarrow> unit op" where
  "closeBatch channel_id = writeS (\<lambda>s. s\<lparr>sv_openBatch := (sv_openBatch s)(channel_id := None)\<rparr>)"

definition closeClaim :: "string \<Rightarrow> unit op" where
  "closeClaim channel_id = writeS (\<lambda>s. s\<lparr>sv_openClaim := (sv_openClaim s)(channel_id := None)\<rparr>)"

definition putBatchAttempt :: "batch_attempt \<Rightarrow> unit op" where
  "putBatchAttempt a = writeS (\<lambda>s. s\<lparr>sv_payments := (sv_payments s)\<lparr>xs_batchAttempts :=
     (xs_batchAttempts (sv_payments s))(ba_attemptId a \<mapsto> a)\<rparr>\<rparr>)"

definition paymentsS :: "(exact_store \<Rightarrow> exact_store \<times> 'a res) \<Rightarrow> 'a op" where
  \<comment> \<open>an operation of the payment part\<close>
  "paymentsS f s = (case f (sv_payments s) of (p, r) \<Rightarrow> (s\<lparr>sv_payments := p\<rparr>, r))"

definition settleS :: "(exact_store \<Rightarrow> exact_store res) \<Rightarrow> unit op" where
  "settleS f s = (case f (sv_payments s) of Inl e \<Rightarrow> (s, Inl e) | Inr p \<Rightarrow> (s\<lparr>sv_payments := p\<rparr>, Inr ()))"

section \<open>Channels and leases\<close>

definition registerChannel :: "server_config \<Rightarrow> server_channel \<Rightarrow> unit op" where
  "registerChannel cf channel =
     bindS (readS (\<lambda>s. sv_channels s (sc_channelId channel))) (\<lambda>existing.
     case existing of
       Some c \<Rightarrow> unlessS (stableJson (channel_json c) = stableJson (channel_json channel))
                   ''existing channel state cannot be replaced''
     | None \<Rightarrow> setChannel cf channel)"

definition retireChannel :: "server_config \<Rightarrow> string \<Rightarrow> string \<Rightarrow> server_channel \<Rightarrow> unit op" where
  "retireChannel cf channel_id leaseId expected =
     bindS (readS (\<lambda>s. sv_channels s channel_id)) (\<lambda>found.
     case found of
       None \<Rightarrow> ret ()
     | Some channel \<Rightarrow>
         bindS (requireChannelOperation channel_id leaseId) (\<lambda>lease.
         bindS (unlessS (cl_kind lease = ''retirement'') ''channel operation lease is not a retirement'') (\<lambda>_.
         bindS (unlessS (sameChannelSnapshot (Some channel) (Some expected)
                         \<and> sameChannelSnapshot (Some channel) (cl_expected lease))
                  ''channel state changed before retirement'') (\<lambda>_.
         bindS (unlessS (sc_status channel \<noteq> ChannelRefunded \<and> ln_currentHead (sc_lineage channel) \<noteq> None)
                  ''terminal refunded channel cannot be retired'') (\<lambda>_.
         bindS (assertS (incrementVersion (sc_version channel))) (\<lambda>version.
         let retired = channel\<lparr>sc_version := version, sc_status := ChannelRetired\<rparr> in
         bindS (assertS (assertServerChannelLineageConsistency (cf_sha cf) (cf_escrow cf) retired)) (\<lambda>_.
         bindS (writeS (\<lambda>s. s\<lparr>sv_channels := (sv_channels s)(channel_id \<mapsto> retired)\<rparr>)) (\<lambda>_.
         dropChannelOperation channel_id leaseId))))))))"

definition applyCovenantLineage :: "server_config \<Rightarrow> server_channel \<Rightarrow> server_channel \<Rightarrow> string \<Rightarrow> unit op" where
  "applyCovenantLineage cf expected channel leaseId =
     bindS (readS (\<lambda>s. sv_channels s (sc_channelId expected))) (\<lambda>current.
     bindS (unlessS (sameChannelSnapshot current (Some expected))
              ''channel state changed before covenant lineage apply'') (\<lambda>_.
     bindS (requireChannelOperation (sc_channelId expected) leaseId) (\<lambda>lease.
     bindS (unlessS ((cl_kind lease = ''refund'' \<or> cl_kind lease = ''recovery'')
                     \<and> sameChannelSnapshot (cl_expected lease) (Some expected))
              ''covenant lineage apply does not own the channel snapshot'') (\<lambda>_.
     bindS (readS (\<lambda>s. sv_openBatch s (sc_channelId expected) = None \<and> sv_openClaim s (sc_channelId expected) = None))
       (\<lambda>closed.
     bindS (unlessS closed ''channel has an open attempt during covenant lineage apply'') (\<lambda>_.
     bindS (assertS (assertServerCovenantLineageExtension (cf_sha cf) (cf_escrow cf) expected channel)) (\<lambda>_.
     bindS (setChannel cf channel) (\<lambda>_.
     dropChannelOperation (sc_channelId expected) leaseId))))))))"

definition claimChannelOperation :: "server_config \<Rightarrow> channel_lease \<Rightarrow> (channel_lease \<times> bool) op" where
  "claimChannelOperation cf input =
     bindS (assertS (normalizeChannelOperationLease (cf_env cf) input)) (\<lambda>lease.
     bindS (readS (\<lambda>s. (sv_operations s (cl_channelId lease), sv_channels s (cl_channelId lease)))) (\<lambda>(existing, channel).
     case existing of
       Some e \<Rightarrow>
         bindS (unlessS (channelOperationLeasesMatch e lease) ''channel already has a conflicting durable operation'') (\<lambda>_.
         ret (e, False))
     | None \<Rightarrow>
         bindS (unlessS (sameChannelSnapshot channel (cl_expected lease))
                  ''channel state changed before operation claim'') (\<lambda>_.
         bindS (writeS (\<lambda>s. s\<lparr>sv_operations := (sv_operations s)(cl_channelId lease \<mapsto> lease),
                  sv_channelByLeaseId := (sv_channelByLeaseId s)(cl_leaseId lease \<mapsto> cl_channelId lease)\<rparr>)) (\<lambda>_.
         ret (lease, True)))))"

definition findChannelOperationByLeaseId :: "string \<Rightarrow> channel_lease option op" where
  "findChannelOperationByLeaseId leaseId =
     readS (\<lambda>s. Option.bind (truthy_id (sv_channelByLeaseId s leaseId)) (sv_operations s))"

definition abandonChannelOperation :: "server_config \<Rightarrow> string \<Rightarrow> string \<Rightarrow> unit op" where
  "abandonChannelOperation cf leaseId observedAt =
     bindS (assertS (assertIsoDate (cf_env cf) observedAt ''channel operation abandonment time'')) (\<lambda>_.
     bindS (findChannelOperationByLeaseId leaseId) (\<lambda>found.
     case found of
       None \<Rightarrow> ret ()
     | Some lease \<Rightarrow>
         bindS (unlessS (cl_status lease = LeaseReserved) ''uncertain channel operation cannot be abandoned'') (\<lambda>_.
         bindS (readS (\<lambda>s. sv_openBatch s (cl_channelId lease) \<noteq> Some (cl_leaseId lease)
                            \<and> sv_openClaim s (cl_channelId lease) = None)) (\<lambda>free.
         bindS (unlessS free ''attempt-owned channel operation must use its safe abandon path'') (\<lambda>_.
         dropChannelOperation (cl_channelId lease) (cl_leaseId lease))))))"

section \<open>Batch settlements\<close>

definition claim_transition :: "server_config \<Rightarrow> batch_attempt \<Rightarrow> server_channel option \<Rightarrow> unit op" where
  "claim_transition cf attempt current =
     (case ba_channelTransition attempt of
        Val t \<Rightarrow>
          bindS (unlessS (sameChannelSnapshot current (ct_previous t))
                   ''channel state changed before deposit transition'') (\<lambda>_.
          bindS (unlessS (sameChannelSnapshot (Some (ct_next t)) (Some (ba_expected attempt)))
                   ''deposit transition does not match attempt snapshot'') (\<lambda>_.
          bindS (assertS (assertBatchDepositTransition (cf_sha cf) (cf_escrow cf) (ct_previous t) (ct_next t)
                   (ba_operationKind attempt))) (\<lambda>_.
          bindS (assertChannelBinding (ct_next t)) (\<lambda>_. ret ()))))
      | _ \<Rightarrow> unlessS (sameChannelSnapshot current (Some (ba_expected attempt)))
               ''channel state changed before batch settlement claim'')"

definition batch_lease :: "batch_attempt \<Rightarrow> channel_lease" where
  "batch_lease a = \<lparr>cl_leaseId = ba_attemptId a, cl_channelId = ba_channelId a, cl_covenantId = ba_covenantId a,
     cl_kind = ba_operationKind a, cl_expected = Some (ba_expected a), cl_status = LeaseReserved,
     cl_createdAt = ba_createdAt a, cl_updatedAt = ba_updatedAt a, cl_recoveryReason = Absent\<rparr>"

definition install_batch :: "server_config \<Rightarrow> clock \<Rightarrow> batch_attempt \<Rightarrow> unit op" where
  \<comment> \<open>the writes of a new claim\<close>
  "install_batch cf time attempt =
     bindS (paymentsS (admitBudgetRecord (cf_limits cf) (nowMs time) (''batch:'' @ ba_attemptId attempt) BatchRecord
              (ba_attemptId attempt) (ba_payerId attempt) (map_option rc_id (val_of (ba_paymentIdentifier attempt)))
              (durableOpenRecordBytes (batch_attempt_json attempt)) (val_of (ba_paymentIdentifier attempt)))) (\<lambda>_.
     bindS (case ba_channelTransition attempt of Val t \<Rightarrow> setChannel cf (ct_next t) | _ \<Rightarrow> ret ()) (\<lambda>_.
     bindS (applyPaymentIdentifierTransition (val_of (ba_paymentIdentifier attempt))
              (Reserve (ba_createdAt attempt))) (\<lambda>_.
     bindS (putBatchAttempt attempt) (\<lambda>_.
     writeS (\<lambda>s. s\<lparr>sv_openBatch := (sv_openBatch s)(ba_channelId attempt \<mapsto> ba_attemptId attempt),
                    sv_operations := (sv_operations s)(ba_channelId attempt \<mapsto> batch_lease attempt),
                    sv_channelByLeaseId := (sv_channelByLeaseId s)(ba_attemptId attempt \<mapsto> ba_channelId attempt)\<rparr>)))))"

definition claimBatchSettlement ::
  "server_config \<Rightarrow> clock \<Rightarrow> batch_attempt \<Rightarrow> (batch_attempt \<times> bool) op" where
  "claimBatchSettlement cf time input =
     bindS (assertS (normalizeBatchSettlementAttempt (cf_env cf) input)) (\<lambda>attempt.
     bindS (readS (\<lambda>s. xs_batchAttempts (sv_payments s) (ba_attemptId attempt))) (\<lambda>existing.
     case existing of
       Some e \<Rightarrow>
         bindS (unlessS (batchSettlementAttemptsMatch e attempt)
                  ''batch payment is already claimed for a different request'') (\<lambda>_. ret (e, False))
     | None \<Rightarrow>
         bindS (readS (\<lambda>s. sv_channels s (ba_channelId attempt))) (\<lambda>current.
         bindS (claim_transition cf attempt current) (\<lambda>_.
         bindS (readS (\<lambda>s. truthy_id (sv_openBatch s (ba_channelId attempt)) = None)) (\<lambda>free.
         bindS (unlessS free ''channel already has a pending batch settlement'') (\<lambda>_.
         bindS (readS (\<lambda>s. sv_operations s (ba_channelId attempt) = None)) (\<lambda>unleased.
         bindS (unlessS unleased ''channel already has a conflicting durable operation'') (\<lambda>_.
         bindS (assertPaymentIdentifierClaimAvailable (val_of (ba_paymentIdentifier attempt))) (\<lambda>_.
         bindS (install_batch cf time attempt) (\<lambda>_.
         ret (attempt, True)))))))))))"

definition beginBatchHandler :: "server_config \<Rightarrow> string \<Rightarrow> string \<Rightarrow> bool op" where
  "beginBatchHandler cf attemptId startedAt =
     bindS (requireBatchAttempt attemptId) (\<lambda>attempt.
     if ba_status attempt \<noteq> BatchPending \<or> truthy_str (ba_handlerStartedAt attempt) then ret False
     else bindS (assertS (assertIsoDate (cf_env cf) startedAt ''batch handler start time'')) (\<lambda>_.
     bindS (putBatchAttempt (attempt\<lparr>ba_handlerStartedAt := Val startedAt, ba_updatedAt := startedAt\<rparr>)) (\<lambda>_.
     bindS (updateChannelOperation (ba_channelId attempt) (ba_attemptId attempt) LeasePending startedAt Absent) (\<lambda>_.
     bindS (applyPaymentIdentifierTransition (val_of (ba_paymentIdentifier attempt))
              (Update ReservationPending startedAt Absent)) (\<lambda>_.
     ret True)))))"

definition resetBatchHandlerBeforeExecution :: "clock \<Rightarrow> string \<Rightarrow> string \<Rightarrow> bool op" where
  "resetBatchHandlerBeforeExecution time attemptId startedAt =
     bindS (requireBatchAttempt attemptId) (\<lambda>attempt.
     if ba_status attempt \<noteq> BatchPending \<or> val_of (ba_handlerStartedAt attempt) \<noteq> Some startedAt
        \<or> truthy_value (ba_handlerResult attempt) \<or> truthy_str (ba_recoveryReason attempt) then ret False
     else let updatedAt = nowIso time in
     bindS (putBatchAttempt (attempt\<lparr>ba_handlerStartedAt := Undef, ba_updatedAt := updatedAt\<rparr>)) (\<lambda>_.
     bindS (updateChannelOperation (ba_channelId attempt) (ba_attemptId attempt) LeaseReserved updatedAt Undef) (\<lambda>_.
     bindS (applyPaymentIdentifierTransition (val_of (ba_paymentIdentifier attempt))
              (Update Reserved updatedAt Undef)) (\<lambda>_.
     ret True))))"

definition recordBatchHandlerResult :: "server_config \<Rightarrow> string \<Rightarrow> js_value \<Rightarrow> string \<Rightarrow> unit op" where
  "recordBatchHandlerResult cf attemptId result completedAt =
     bindS (requireBatchAttempt attemptId) (\<lambda>attempt.
     bindS (assertS (assertBatchHandlerResultTransition (cf_env cf) attempt result completedAt)) (\<lambda>_.
     if truthy_value (ba_handlerResult attempt) then ret ()
     else
     bindS (putBatchAttempt (attempt\<lparr>ba_handlerResult := Val result, ba_handlerCompletedAt := Val completedAt,
              ba_recoveryReason := Undef, ba_updatedAt := completedAt\<rparr>)) (\<lambda>_.
     bindS (updateChannelOperation (ba_channelId attempt) (ba_attemptId attempt) LeasePending completedAt Undef) (\<lambda>_.
     applyPaymentIdentifierTransition (val_of (ba_paymentIdentifier attempt))
       (Update ReservationPending completedAt Undef)))))"

definition markBatchHandlerRecoveryRequired :: "server_config \<Rightarrow> string \<Rightarrow> string \<Rightarrow> string \<Rightarrow> unit op" where
  "markBatchHandlerRecoveryRequired cf attemptId reason observedAt =
     bindS (requireBatchAttempt attemptId) (\<lambda>attempt.
     bindS (unlessS (ba_status attempt = BatchPending \<and> truthy_str (ba_handlerStartedAt attempt)
                     \<and> \<not> truthy_value (ba_handlerResult attempt)) ''batch handler is not awaiting recovery'') (\<lambda>_.
     bindS (assertS (assertIsoDate (cf_env cf) observedAt ''batch handler recovery time'')) (\<lambda>_.
     bindS (putBatchAttempt (attempt\<lparr>ba_recoveryReason := Val reason, ba_updatedAt := observedAt\<rparr>)) (\<lambda>_.
     bindS (updateChannelOperation (ba_channelId attempt) (ba_attemptId attempt) LeaseRecoveryRequired observedAt
              (Val reason)) (\<lambda>_.
     applyPaymentIdentifierTransition (val_of (ba_paymentIdentifier attempt))
       (Update RecoveryRequired observedAt (Val reason)))))))"

definition release_budget :: "server_config \<Rightarrow> clock \<Rightarrow> batch_attempt \<Rightarrow> unit op" where
  "release_budget cf time attempt =
     (case val_of (ba_paymentIdentifier attempt) of
        Some claim \<Rightarrow>
          settleS (\<lambda>p. terminalizeBudgetRecord (cf_limits cf) (nowMs time) (''batch:'' @ ba_attemptId attempt)
            (durableByteLength (JObj [(''paymentIdentifierReservation'',
               case xs_reservations p (rc_id claim) of None \<Rightarrow> JUndefined | Some r \<Rightarrow> reservation_json r)]))
            None (Some (rc_id claim)) True p)
      | None \<Rightarrow> settleS (\<lambda>p. Inr (p\<lparr>xs_budget := deleteBudgetRecord (''batch:'' @ ba_attemptId attempt) (xs_budget p)\<rparr>)))"

definition abandonBatchSettlement :: "server_config \<Rightarrow> clock \<Rightarrow> string \<Rightarrow> string \<Rightarrow> string \<Rightarrow> unit op" where
  "abandonBatchSettlement cf time attemptId reason observedAt =
     bindS (requireBatchAttempt attemptId) (\<lambda>attempt.
     bindS (assertS (assertIsoDate (cf_env cf) observedAt ''batch settlement abandonment time'')) (\<lambda>_.
     bindS (unlessS (ba_status attempt = BatchPending \<and> \<not> truthy_str (ba_handlerStartedAt attempt)
                     \<and> \<not> truthy_value (ba_handlerResult attempt) \<and> \<not> truthy_str (ba_recoveryReason attempt))
              ''uncertain or completed batch settlement cannot be abandoned'') (\<lambda>_.
     bindS (requireChannelOperation (ba_channelId attempt) (ba_attemptId attempt)) (\<lambda>_.
     bindS (applyPaymentIdentifierTransition (val_of (ba_paymentIdentifier attempt))
              (Release reason observedAt False)) (\<lambda>_.
     bindS (writeS (\<lambda>s. s\<lparr>sv_payments := (sv_payments s)\<lparr>xs_batchAttempts :=
              (xs_batchAttempts (sv_payments s))(ba_attemptId attempt := None)\<rparr>\<rparr>)) (\<lambda>_.
     bindS (closeBatch (ba_channelId attempt)) (\<lambda>_.
     bindS (dropChannelOperation (ba_channelId attempt) (ba_attemptId attempt)) (\<lambda>_.
     release_budget cf time attempt))))))))"

definition applied_batch :: "clock \<Rightarrow> batch_attempt \<Rightarrow> batch_commitment \<Rightarrow> identifier_record option \<Rightarrow> batch_attempt" where
  "applied_batch time attempt commitment completed =
     attempt\<lparr>ba_handlerResult := Absent, ba_handlerCompletedAt := Absent, ba_channelTransition := Absent,
       ba_status := BatchApplied, ba_recoveryReason := Undef, ba_commitmentId := Val (bc_commitmentId commitment),
       ba_completedPaymentIdentifier := (case completed of None \<Rightarrow> Undef | Some d \<Rightarrow> Val (pi_id d)),
       ba_updatedAt := nowIso time\<rparr>"

definition terminal_bundle :: "batch_attempt \<Rightarrow> batch_commitment \<Rightarrow> identifier_record option \<Rightarrow> js_value" where
  "terminal_bundle a commitment completed = JObj [(''attempt'', batch_attempt_json a),
     (''commitment'', commitment_json commitment),
     (''paymentIdentifier'', case completed of None \<Rightarrow> JUndefined | Some d \<Rightarrow> identifier_json d)]"

definition write_settlement ::
  "server_config \<Rightarrow> clock \<Rightarrow> batch_attempt \<Rightarrow> settlement_commit \<Rightarrow> identifier_record option \<Rightarrow> unit op" where
  "write_settlement cf time attempt record completed =
     (let commitment = se_commitment record; applied = applied_batch time attempt commitment completed;
          bytes = durableByteLength (terminal_bundle applied commitment completed); key = ''batch:'' @ ba_attemptId attempt in
      bindS (paymentsS (\<lambda>p. (p, assertTerminalBudgetFits key bytes p))) (\<lambda>_.
      bindS (writeS (\<lambda>s. s\<lparr>sv_payments := (sv_payments s)\<lparr>xs_commitments :=
               (xs_commitments (sv_payments s))(bc_commitmentId commitment \<mapsto> commitment)\<rparr>\<rparr>)) (\<lambda>_.
      bindS (case completed of
               None \<Rightarrow> ret ()
             | Some d \<Rightarrow>
                bindS (writeS (\<lambda>s. s\<lparr>sv_payments := (sv_payments s)\<lparr>xs_identifiers :=
                         (xs_identifiers (sv_payments s))(pi_id d \<mapsto> d)\<rparr>\<rparr>)) (\<lambda>_.
                applyPaymentIdentifierTransition (val_of (ba_paymentIdentifier attempt))
                  (Complete (ba_updatedAt attempt)))) (\<lambda>_.
      bindS (setChannel cf (se_channel record)) (\<lambda>_.
      bindS (putBatchAttempt applied) (\<lambda>_.
      bindS (closeBatch (ba_channelId attempt)) (\<lambda>_.
      bindS (dropChannelOperation (ba_channelId attempt) (ba_attemptId attempt)) (\<lambda>_.
      settleS (terminalizeBudgetRecord (cf_limits cf) (nowMs time) key bytes (Some (bc_commitmentId commitment))
        (map_option pi_id completed) False)))))))))"

definition commitSettlement :: "server_config \<Rightarrow> clock \<Rightarrow> settlement_commit \<Rightarrow> unit op" where
  "commitSettlement cf time record =
     bindS (readS (\<lambda>s. (sv_channels s (sc_channelId (se_expected record)),
                         xs_batchAttempts (sv_payments s) (se_batchAttemptId record)))) (\<lambda>(current, found).
     bindS (unlessS (sameChannelSnapshot current (Some (se_expected record)))
              ''channel state changed before settlement commit'') (\<lambda>_.
     bindS (unlessS (batchSettlementAttemptIsReadyToCommit found record)
              ''batch settlement attempt is not ready to apply'') (\<lambda>_.
     case (found, current) of
       (Some attempt, Some previous) \<Rightarrow>
         bindS (requireChannelOperation (ba_channelId attempt) (ba_attemptId attempt)) (\<lambda>lease.
         bindS (unlessS (cl_kind lease = ba_operationKind attempt
                         \<and> (cl_status lease = LeasePending \<or> cl_status lease = LeaseRecoveryRequired))
                  ''batch settlement does not own the channel operation'') (\<lambda>_.
         bindS (assertS (assertSettlementTransition (cf_sha cf) (cf_escrow cf) previous (se_channel record)
                  (se_commitment record))) (\<lambda>_.
         bindS (assertCompletedPaymentIdentifier attempt (val_of (se_paymentIdentifier record))) (\<lambda>_.
         bindS (assertChannelBinding (se_channel record)) (\<lambda>_.
         write_settlement cf time attempt record (val_of (se_paymentIdentifier record)))))))
     | _ \<Rightarrow> failS ''batch settlement attempt is not ready to apply'')))"

section \<open>Claims\<close>

definition loadOpenClaimAttempt :: "string \<Rightarrow> claim_attempt option op" where
  "loadOpenClaimAttempt channel_id =
     readS (\<lambda>s. Option.bind (Option.bind (truthy_id (sv_openClaim s channel_id)) (sv_claimAttempts s))
              (\<lambda>a. if ca_status a = ClaimApplied then None else Some a))"

definition saveClaimAttempt :: "clock \<Rightarrow> claim_attempt \<Rightarrow> unit op" where
  "saveClaimAttempt time record =
     bindS (readS (\<lambda>s. sv_claimAttempts s (ca_attemptId record))) (\<lambda>existing.
     bindS (assertS (normalizeClaimAttempt record existing)) (\<lambda>attempt.
     bindS (readS (\<lambda>s. truthy_id (sv_openClaim s (ca_channelId attempt)))) (\<lambda>openAttemptId.
     bindS (unlessS (openAttemptId \<in> {None, Some (ca_attemptId attempt)}) ''claim attempt is already pending'') (\<lambda>_.
     bindS (requireChannelOperation (ca_channelId attempt) (ca_operationLeaseId attempt)) (\<lambda>lease.
     bindS (unlessS (cl_kind lease = ''claim'' \<and> sameChannelSnapshot (cl_expected lease) (Some (ca_expected attempt)))
              ''claim attempt does not own the channel snapshot'') (\<lambda>_.
     bindS (writeS (\<lambda>s. s\<lparr>sv_claimAttempts := (sv_claimAttempts s)(ca_attemptId attempt \<mapsto> attempt),
                           sv_openClaim := (sv_openClaim s)(ca_channelId attempt \<mapsto> ca_attemptId attempt)\<rparr>)) (\<lambda>_.
     updateChannelOperation (ca_channelId attempt) (ca_operationLeaseId attempt) LeasePending (nowIso time) Absent)))))))"

definition claim_matches_channel :: "server_channel \<Rightarrow> claim_attempt \<Rightarrow> bool" where
  "claim_matches_channel c a =
     (sc_channelId c = ca_channelId a \<and> to_lower (sc_covenantId c) = to_lower (ca_covenantId a)
      \<and> to_lower (op_txid (sc_activeOutpoint c)) = to_lower (op_txid (ca_activeOutpoint a))
      \<and> num_eq (op_index (sc_activeOutpoint c)) (op_index (ca_activeOutpoint a))
      \<and> to_lower (sc_activeScriptPublicKey c) = to_lower (ca_activeScriptPublicKey a)
      \<and> fundingAmount c = fundingAmount a \<and> chargedCumulativeAmount c = chargedCumulativeAmount a
      \<and> claimedCumulativeAmount c = claimedCumulativeAmount a \<and> signedMaxClaimable c = signedMaxClaimable a
      \<and> val_of (sc_voucherSignature c) = val_of (ca_voucherSignature a) \<and> sc_status c = ca_channelStatus a)"

definition applyClaimAttempt :: "server_config \<Rightarrow> server_channel \<Rightarrow> claim_attempt \<Rightarrow> unit op" where
  "applyClaimAttempt cf channel attempt =
     bindS (readS (\<lambda>s. (sv_claimAttempts s (ca_attemptId attempt), sv_channels s (sc_channelId channel)))) (\<lambda>(found, stored).
     case found of
       None \<Rightarrow> failS ''claim apply must match the persisted accepted attempt''
     | Some currentAttempt \<Rightarrow>
         bindS (unlessS (ca_status currentAttempt = ClaimAccepted \<and> ca_status attempt = ClaimAccepted
                         \<and> claimAttemptsMatch currentAttempt attempt)
                  ''claim apply must match the persisted accepted attempt'') (\<lambda>_.
         bindS (requireChannelOperation (ca_channelId currentAttempt) (ca_operationLeaseId currentAttempt)) (\<lambda>lease.
         bindS (unlessS (cl_kind lease = ''claim'') ''claim apply does not own the channel operation'') (\<lambda>_.
         case stored of
           None \<Rightarrow> failS ''channel state changed before claim apply''
         | Some currentChannel \<Rightarrow>
             bindS (unlessS (claim_matches_channel currentChannel currentAttempt)
                      ''channel state changed before claim apply'') (\<lambda>_.
             bindS (assertS (assertClaimTransition (cf_sha cf) (cf_escrow cf) currentChannel channel currentAttempt)) (\<lambda>_.
             bindS (setChannel cf channel) (\<lambda>_.
             bindS (writeS (\<lambda>s. s\<lparr>sv_claimAttempts := (sv_claimAttempts s)(ca_attemptId currentAttempt \<mapsto>
                      currentAttempt\<lparr>ca_status := ClaimApplied\<rparr>)\<rparr>)) (\<lambda>_.
             bindS (closeClaim (ca_channelId currentAttempt)) (\<lambda>_.
             dropChannelOperation (ca_channelId currentAttempt) (ca_operationLeaseId currentAttempt))))))))))"

definition abandonClaimAttempt :: "string \<Rightarrow> unit op" where
  "abandonClaimAttempt attemptId =
     bindS (readS (\<lambda>s. sv_claimAttempts s attemptId)) (\<lambda>found.
     case found of
       None \<Rightarrow> ret ()
     | Some a \<Rightarrow>
         if ca_status a = ClaimApplied then ret ()
         else bindS (unlessS (ca_status a \<noteq> ClaimAccepted) ''accepted claim attempt cannot be abandoned'') (\<lambda>_.
         bindS (requireChannelOperation (ca_channelId a) (ca_operationLeaseId a)) (\<lambda>_.
         bindS (writeS (\<lambda>s. s\<lparr>sv_claimAttempts := (sv_claimAttempts s)(attemptId := None)\<rparr>)) (\<lambda>_.
         bindS (closeClaim (ca_channelId a)) (\<lambda>_.
         dropChannelOperation (ca_channelId a) (ca_operationLeaseId a))))))"

section \<open>The store as a machine\<close>

datatype store_command =
    RegisterChannel server_channel
  | RetireChannel string string server_channel
  | ApplyCovenantLineage server_channel server_channel string
  | ClaimChannelOperation channel_lease
  | AbandonChannelOperation string string
  | ClaimBatch batch_attempt
  | BeginBatchHandler string string
  | ResetBatchHandler string string
  | RecordBatchResult string js_value string
  | MarkBatchRecovery string string string
  | AbandonBatch string string string
  | CommitSettlement settlement_commit
  | SaveClaim claim_attempt
  | ApplyClaim server_channel claim_attempt
  | AbandonClaim string
  | ExactCall exact_command

fun store_call :: "server_config \<Rightarrow> clock \<Rightarrow> store_command \<Rightarrow> unit op" where
  "store_call cf time (RegisterChannel c) = registerChannel cf c"
| "store_call cf time (RetireChannel i l e) = retireChannel cf i l e"
| "store_call cf time (ApplyCovenantLineage e c l) = applyCovenantLineage cf e c l"
| "store_call cf time (ClaimChannelOperation l) = doneS (claimChannelOperation cf l)"
| "store_call cf time (AbandonChannelOperation l at) = abandonChannelOperation cf l at"
| "store_call cf time (ClaimBatch a) = doneS (claimBatchSettlement cf time a)"
| "store_call cf time (BeginBatchHandler i at) = doneS (beginBatchHandler cf i at)"
| "store_call cf time (ResetBatchHandler i at) = doneS (resetBatchHandlerBeforeExecution time i at)"
| "store_call cf time (RecordBatchResult i r at) = recordBatchHandlerResult cf i r at"
| "store_call cf time (MarkBatchRecovery i r at) = markBatchHandlerRecoveryRequired cf i r at"
| "store_call cf time (AbandonBatch i r at) = abandonBatchSettlement cf time i r at"
| "store_call cf time (CommitSettlement r) = commitSettlement cf time r"
| "store_call cf time (SaveClaim a) = saveClaimAttempt time a"
| "store_call cf time (ApplyClaim c a) = applyClaimAttempt cf c a"
| "store_call cf time (AbandonClaim i) = abandonClaimAttempt i"
| "store_call cf time (ExactCall c) =
     doneS (paymentsS (applyExactTransition (cf_env cf) (cf_limits cf) time c))"

end
