(* ===== verification/Store_Budget.thy ===== *)
theory Store_Budget
  imports Exact_Store
begin

text \<open>
  The durable record budget of \<^verbatim>\<open>stores.ts\<close>. Its counters are kept incrementally; here they
  are shown to equal what they count after every operation, and to stay within the limits.
\<close>

section \<open>Sums over association lists\<close>

lemma sum_delete:
  fixes f :: "_ \<Rightarrow> 'b :: comm_monoid_add"
  assumes "distinct (map fst xs)" "map_of xs k = Some v"
  shows "sum_list (map f xs) = f (k, v) + sum_list (map f (AList.delete k xs))"
  using assms
proof (induction xs)
  case (Cons x xs)
  show ?case
  proof (cases "fst x = k")
    case True
    with Cons.prems(1) have "AList.delete k xs = xs"
      by (auto simp: AList.delete_eq filter_id_conv rev_image_eqI)
    moreover have "x = (k, v)" using True Cons.prems(2) by (cases x) simp
    ultimately show ?thesis by (simp add: AList.delete_eq)
  next
    case False
    then have "map_of xs k = Some v" using Cons.prems(2) by (cases x) simp
    with Cons False show ?thesis by (cases x) (simp add: add.left_commute)
  qed
qed simp

lemma update_new: "map_of xs k = None \<Longrightarrow> AList.update k v xs = xs @ [(k, v)]"
  by (induction xs) (auto split: if_splits)

lemma sum_update:
  fixes f :: "_ \<Rightarrow> 'b :: comm_monoid_add"
  assumes "map_of xs k = Some u"
  shows "f (k, u) + sum_list (map f (AList.update k v xs)) = f (k, v) + sum_list (map f xs)"
  using assms
proof (induction xs)
  case (Cons x xs)
  show ?case
  proof (cases "fst x = k")
    case True
    then have "x = (k, u)" using Cons.prems by (cases x) simp
    then show ?thesis by (simp add: add.left_commute)
  next
    case False
    then have "map_of xs k = Some u" using Cons.prems by (cases x) simp
    from Cons.IH [OF this] False show ?thesis by (cases x) (simp add: add.left_commute [of "f (k, _)"])
  qed
qed simp

lemma sum_list_member_le: "x \<in> set xs \<Longrightarrow> f x \<le> sum_list (map f xs)" for f :: "_ \<Rightarrow> nat"
  by (induction xs) auto

section \<open>Counters\<close>

definition payer_records :: "(string \<times> budget_record) list \<Rightarrow> string \<Rightarrow> nat" where
  "payer_records rs p = sum_list (map (\<lambda>(k, r). if br_payerId r = p then 1 else 0) rs)"

definition record_bytes :: "(string \<times> budget_record) list \<Rightarrow> int" where
  "record_bytes rs = sum_list (map (\<lambda>(k, r). int (br_bytes r)) rs)"

definition budget_ok :: "budget_state \<Rightarrow> bool" where
  \<comment> \<open>one record per key, stored under its own key, and exact counters\<close>
  "budget_ok b = (distinct (map fst (bs_records b)) \<and> list_all (\<lambda>(k, r). br_key r = k) (bs_records b)
     \<and> bs_bytes b = record_bytes (bs_records b)
     \<and> bs_payerCounts b = (\<lambda>p. if payer_records (bs_records b) p = 0 then None
                               else Some (payer_records (bs_records b) p)))"

definition budget_within :: "durable_limits \<Rightarrow> budget_state \<Rightarrow> bool" where
  "budget_within limits b = (length (bs_records b) \<le> lim_maxRecords limits
     \<and> bs_bytes b \<le> int (lim_maxBytes limits)
     \<and> (\<forall>p. payer_records (bs_records b) p \<le> lim_maxRecordsPerPayer limits))"

lemma budget_ok_count: "budget_ok b \<Longrightarrow> payer_count b p = payer_records (bs_records b) p"
  by (simp add: budget_ok_def payer_count_def)

lemma budget_ok_key: "budget_ok b \<Longrightarrow> map_of (bs_records b) k = Some r \<Longrightarrow> br_key r = k"
  by (auto simp: budget_ok_def list_all_iff dest!: map_of_SomeD)

lemma delete_sums:
  assumes "budget_ok b" "map_of (bs_records b) k = Some r"
  shows "length (bs_records b) = Suc (length (AList.delete k (bs_records b)))"
    and "record_bytes (bs_records b) = int (br_bytes r) + record_bytes (AList.delete k (bs_records b))"
    and "payer_records (bs_records b) p
       = (if br_payerId r = p then 1 else 0) + payer_records (AList.delete k (bs_records b)) p"
proof -
  have d: "distinct (map fst (bs_records b))" using assms(1) by (simp add: budget_ok_def)
  have l: "sum_list (map (\<lambda>_. Suc 0) xs) = length xs" for xs :: "(string \<times> budget_record) list"
    by (induction xs) auto
  show "length (bs_records b) = Suc (length (AList.delete k (bs_records b)))"
    using sum_delete [OF d assms(2), of "\<lambda>_. Suc 0"] by (simp add: l)
  show "record_bytes (bs_records b) = int (br_bytes r) + record_bytes (AList.delete k (bs_records b))"
    using sum_delete [OF d assms(2), of "\<lambda>(k, r). int (br_bytes r)"] by (simp add: record_bytes_def)
  show "payer_records (bs_records b) p
       = (if br_payerId r = p then 1 else 0) + payer_records (AList.delete k (bs_records b)) p"
    using sum_delete [OF d assms(2), of "\<lambda>(k, r). if br_payerId r = p then 1 else 0 :: nat"]
    by (simp add: payer_records_def)
qed

lemma delete_records:
  "map_of (bs_records b) k = Some r \<Longrightarrow> bs_records (deleteBudgetRecord k b) = AList.delete k (bs_records b)"
  "map_of (bs_records b) k = Some r \<Longrightarrow> bs_bytes (deleteBudgetRecord k b) = bs_bytes b - int (br_bytes r)"
  by (simp_all add: deleteBudgetRecord_def Let_def)

lemma delete_keeps_ok:
  assumes "budget_ok b"
  shows "budget_ok (deleteBudgetRecord k b)"
proof (cases "map_of (bs_records b) k")
  case (Some r)
  note s = delete_sums [OF assms Some]
  let ?d = "AList.delete k (bs_records b)"
  have "bs_payerCounts (deleteBudgetRecord k b) p
      = (if payer_records ?d p = 0 then None else Some (payer_records ?d p))" for p
    using s(3) [of p] s(3) [of "br_payerId r"] assms Some
    by (auto simp: deleteBudgetRecord_def Let_def budget_ok_def)
  moreover have "distinct (map fst ?d)" "list_all (\<lambda>(k, r). br_key r = k) ?d"
    using assms by (auto simp: budget_ok_def list_all_iff AList.delete_eq distinct_map_filter)
  moreover have "bs_bytes b = record_bytes (bs_records b)" using assms by (simp add: budget_ok_def)
  ultimately show ?thesis using s(2) by (simp add: budget_ok_def delete_records [OF Some] fun_eq_iff)
qed (use assms in \<open>simp add: deleteBudgetRecord_def\<close>)

lemma delete_keeps_within:
  assumes "budget_ok b" "budget_within limits b"
  shows "budget_within limits (deleteBudgetRecord k b)"
proof (cases "map_of (bs_records b) k")
  case (Some r)
  have "payer_records (AList.delete k (bs_records b)) p \<le> lim_maxRecordsPerPayer limits" for p
    using delete_sums(3) [OF assms(1) Some, of p] assms(2) by (simp add: budget_within_def) (metis le_add2 order_trans)
  then show ?thesis using delete_sums(1) [OF assms(1) Some] assms(2)
    by (simp add: budget_within_def delete_records [OF Some])
qed (use assms in \<open>simp add: deleteBudgetRecord_def\<close>)

lemma insert_keeps_ok:
  assumes "budget_ok b" "map_of (bs_records b) (br_key r) = None"
  shows "budget_ok (insert_budget_record (br_key r) r b)"
    and "bs_records (insert_budget_record (br_key r) r b) = bs_records b @ [(br_key r, r)]"
proof -
  have "br_key r \<notin> set (map fst (bs_records b))" using assms(2) by (metis map_of_eq_None_iff image_set)
  then show "budget_ok (insert_budget_record (br_key r) r b)"
    using assms by (auto simp: budget_ok_def insert_budget_record_def update_new record_bytes_def
        payer_records_def payer_count_def fun_eq_iff list_all_iff)
  show "bs_records (insert_budget_record (br_key r) r b) = bs_records b @ [(br_key r, r)]"
    using assms(2) by (simp add: insert_budget_record_def update_new)
qed

section \<open>Expiry\<close>

lemma expire_budget [simp]:
  "xs_budget (expire_released r st) = xs_budget st" "xs_heads (expire_released r st) = xs_heads st"
  "xs_attempts (expire_released r st) = xs_attempts st" "xs_payments (expire_released r st) = xs_payments st"
  "xs_budget (expire_terminal r st) = xs_budget st" "xs_heads (expire_terminal r st) = xs_heads st"
  by (auto simp: expire_released_def expire_terminal_def Let_def split: option.splits budget_kind.splits)

lemma budget_ok_queue [simp]:
  "budget_ok (b\<lparr>bs_queue := q\<rparr>) = budget_ok b" "budget_within limits (b\<lparr>bs_queue := q\<rparr>) = budget_within limits b"
  by (simp_all add: budget_ok_def budget_within_def cong: if_cong)

lemma prune_loop_rule:
  \<comment> \<open>what the queue, the expiry of a record and its deletion keep, the loop keeps\<close>
  assumes "P st"
    and "\<And>st q. P st \<Longrightarrow> P (st\<lparr>xs_budget := (xs_budget st)\<lparr>bs_queue := q\<rparr>\<rparr>)"
    and "\<And>st key r. P st \<Longrightarrow> map_of (bs_records (xs_budget st)) key = Some r \<Longrightarrow> br_terminalAt r \<noteq> None
          \<Longrightarrow> P ((if br_safelyReleased r then expire_released r st else expire_terminal r st)
                \<lparr>xs_budget := deleteBudgetRecord key (xs_budget st)\<rparr>)"
  shows "P (prune_loop cutoff q st)"
  using assms(1)
proof (induction cutoff q st rule: prune_loop.induct)
  case (1 cutoff st)
  then show ?case using assms(2) by simp
next
  case (2 cutoff key at rest st)
  show ?case
  proof (cases "map_of (bs_records (xs_budget st)) key")
    case None
    then show ?thesis using "2.IH"(1) "2.prems" by simp
  next
    case (Some r)
    show ?thesis
    proof (cases "br_terminalAt r")
      case None
      then show ?thesis using "2.IH"(2) [OF Some] "2.prems" Some by simp
    next
      case at: (Some t)
      let ?st = "(if br_safelyReleased r then expire_released r st else expire_terminal r st)
                \<lparr>xs_budget := deleteBudgetRecord key (xs_budget st)\<rparr>"
      have "P ?st" using assms(3) [OF "2.prems" Some] at by simp
      then show ?thesis
        using "2.IH"(3) [OF Some at _ refl] assms(2) [OF "2.prems"] Some at by (auto simp: Let_def)
    qed
  qed
qed

lemma prune_keeps_budget:
  assumes "budget_ok (xs_budget st)" "budget_within limits (xs_budget st)"
  shows "budget_ok (xs_budget (prune_loop cutoff q st)) \<and> budget_within limits (xs_budget (prune_loop cutoff q st))"
  by (rule prune_loop_rule)
    (use assms in \<open>auto simp: delete_keeps_ok delete_keeps_within\<close>)

lemma prune_keeps_heads: "xs_heads (prune_loop cutoff q st) = xs_heads st"
  by (rule prune_loop_rule [where P = "\<lambda>s. xs_heads s = xs_heads st"]) auto

section \<open>Admission and completion\<close>

lemma reclaim_Inr:
  assumes "safelyReleasedPaymentIdentifierReclaim claim st = Inr (Some (i, k, old))"
  shows "map_of (bs_records (xs_budget st)) k = Some old" "br_safelyReleased old"
  using assms
  by (auto simp: safelyReleasedPaymentIdentifierReclaim_def Let_def split: option.splits if_splits)

lemma admit_checked_budget:
  assumes "budget_ok (xs_budget st)" "budget_within limits (xs_budget st)"
    and "\<And>i k old. replacement = Some (i, k, old) \<Longrightarrow> map_of (bs_records (xs_budget st)) k = Some old"
    and "map_of (bs_records (xs_budget st)) (br_key r) \<noteq> None \<Longrightarrow> map_option (fst \<circ> snd) replacement = Some (br_key r)"
    and "admit_checked limits (br_key r) r replacement st = (st', res)"
  shows "budget_ok (xs_budget st') \<and> budget_within limits (xs_budget st')"
proof (cases res)
  case (Inl e)
  with assms(5) have "st' = st" by (auto simp: admit_checked_def Let_def split: if_splits option.splits)
  with assms(1,2) show ?thesis by simp
next
  case (Inr u)
  let ?b = "xs_budget st"
  show ?thesis
  proof (cases replacement)
    case None
    then have new: "map_of (bs_records ?b) (br_key r) = None"
      using assms(4) by (cases "map_of (bs_records ?b) (br_key r)") auto
    from assms(5) Inr None have st': "xs_budget st' = insert_budget_record (br_key r) r ?b"
      and lim: "length (bs_records ?b) + 1 \<le> lim_maxRecords limits"
        "bs_bytes ?b + int (br_bytes r) \<le> int (lim_maxBytes limits)"
        "payer_count ?b (br_payerId r) + 1 \<le> lim_maxRecordsPerPayer limits"
      by (auto simp: admit_checked_def Let_def split: if_splits)
    note ins = insert_keeps_ok [OF assms(1) new]
    have "payer_records (bs_records ?b @ [(br_key r, r)]) p \<le> lim_maxRecordsPerPayer limits" for p
      using lim(3) assms(1,2) by (auto simp: budget_ok_count payer_records_def budget_within_def)
    then show ?thesis using ins lim st' by (simp add: budget_within_def) (simp add: insert_budget_record_def)
  next
    case (Some rep)
    obtain i k old where rep: "replacement = Some (i, k, old)" using Some by (cases rep) auto
    note old = assms(3) [OF rep]
    have key: "br_key old = k" using budget_ok_key [OF assms(1) old] .
    let ?d = "deleteBudgetRecord k ?b"
    from assms(5) Inr rep have st': "xs_budget st' = insert_budget_record (br_key r) r ?d"
      and lim: "length (bs_records ?b) \<le> lim_maxRecords limits"
        "bs_bytes ?b - int (br_bytes old) + int (br_bytes r) \<le> int (lim_maxBytes limits)"
        "int (payer_count ?b (br_payerId r)) - (if br_payerId old = br_payerId r then 1 else 0) + 1
           \<le> int (lim_maxRecordsPerPayer limits)"
      by (auto simp: admit_checked_def Let_def key split: if_splits)
    have ok: "budget_ok ?d" using assms(1) by (rule delete_keeps_ok)
    have "map_of (bs_records ?b) (br_key r) = None" if "k \<noteq> br_key r"
      using assms(4) rep that by (cases "map_of (bs_records ?b) (br_key r)") auto
    then have new: "map_of (bs_records ?d) (br_key r) = None"
      by (simp add: delete_records(1) [OF old] AList.delete_conv')
    note ins = insert_keeps_ok [OF ok new]
    note s = delete_sums [OF assms(1) old]
    have "payer_records (bs_records ?d @ [(br_key r, r)]) p \<le> lim_maxRecordsPerPayer limits" for p
    proof (cases "p = br_payerId r")
      case True
      then show ?thesis using lim(3) s(3) [of p] budget_ok_count [OF assms(1), of p]
        by (auto simp: payer_records_def delete_records [OF old] split: if_splits)
    next
      case False
      have "payer_records (bs_records ?d) p \<le> lim_maxRecordsPerPayer limits"
        using delete_keeps_within [OF assms(1,2)] by (simp add: budget_within_def)
      then show ?thesis using False by (simp add: payer_records_def)
    qed
    then show ?thesis using ins lim s st'
      by (simp add: budget_within_def delete_records [OF old])
        (simp add: insert_budget_record_def delete_records [OF old])
  qed
qed

lemma admit_keeps_budget:
  assumes "budget_ok (xs_budget st)" "budget_within limits (xs_budget st)"
    and "admitBudgetRecord limits now key kind a p i bytes claim st = (st', res)"
  shows "budget_ok (xs_budget st') \<and> budget_within limits (xs_budget st')"
proof -
  let ?st = "pruneTerminalBudgetRecords limits now st"
  have p: "budget_ok (xs_budget ?st)" "budget_within limits (xs_budget ?st)"
    using prune_keeps_budget [OF assms(1,2)] by (auto simp: pruneTerminalBudgetRecords_def)
  show ?thesis
  proof (cases "safelyReleasedPaymentIdentifierReclaim claim ?st")
    case (Inl e)
    with assms(3) p show ?thesis by (auto simp: admitBudgetRecord_def Let_def)
  next
    case (Inr rep)
    let ?r = "\<lparr>br_key = key, br_kind = kind, br_attemptId = a, br_payerId = p,
               br_bytes = bytes, br_terminalAt = None, br_commitmentId = None,
               br_paymentIdentifier = (if i = Some [] then None else i), br_safelyReleased = False\<rparr>"
    have rep: "map_of (bs_records (xs_budget ?st)) k = Some old" if "rep = Some (j, k, old)" for j k old
      using reclaim_Inr(1) Inr that by simp
    show ?thesis
    proof (cases "map_of (bs_records (xs_budget ?st)) key \<noteq> None \<and> map_option (fst \<circ> snd) rep \<noteq> Some key")
      case True
      with assms(3) p Inr show ?thesis by (auto simp: admitBudgetRecord_def Let_def)
    next
      case False
      with assms(3) Inr have "admit_checked limits (br_key ?r) ?r rep ?st = (st', res)"
        by (auto simp: admitBudgetRecord_def Let_def)
      from admit_checked_budget [OF p rep _ this] False show ?thesis by auto
    qed
  qed
qed

lemma update_keeps_budget:
  fixes q :: "(string \<times> int) list"
  assumes "budget_ok b" "map_of (bs_records b) key = Some cur"
    and r: "br_key r = br_key cur" "br_payerId r = br_payerId cur"
  defines "b' \<equiv> b\<lparr>bs_bytes := bs_bytes b + (int (br_bytes r) - int (br_bytes cur)),
          bs_records := AList.update key r (bs_records b), bs_queue := q\<rparr>"
  shows "budget_ok b'" "br_bytes r \<le> br_bytes cur \<Longrightarrow> budget_within limits b \<Longrightarrow> budget_within limits b'"
proof -
  let ?rs = "AList.update key r (bs_records b)"
  have key: "key \<in> fst ` set (bs_records b)" using assms(2) by (force dest: map_of_SomeD)
  have keys: "map fst ?rs = map fst (bs_records b)" using key by (simp add: AList.update_keys)
  have own: "br_key v = k" if "(k, v) \<in> set ?rs" for k v
  proof -
    have "distinct (map fst ?rs)" using keys assms(1) by (simp add: budget_ok_def)
    then have "map_of ?rs k = Some v" using that by simp
    then show ?thesis using r(1) budget_ok_key [OF assms(1)] assms(2)
      by (auto simp: AList.update_conv' split: if_splits)
  qed
  have pr: "payer_records ?rs p = payer_records (bs_records b) p" for p
    using sum_update [OF assms(2), of "\<lambda>(k, r). if br_payerId r = p then 1 else 0 :: nat" r] r(2)
    by (simp add: payer_records_def)
  have rb: "record_bytes ?rs = record_bytes (bs_records b) + (int (br_bytes r) - int (br_bytes cur))"
    using sum_update [OF assms(2), of "\<lambda>(k, r). int (br_bytes r)" r] by (simp add: record_bytes_def)
  show "budget_ok b'" using assms(1) keys own pr rb by (auto simp: b'_def budget_ok_def list_all_iff)
  have "length ?rs = length (bs_records b)" using keys by (metis length_map)
  then show "budget_within limits b'" if "br_bytes r \<le> br_bytes cur" "budget_within limits b"
    using that pr by (simp add: b'_def budget_within_def)
qed

lemma terminalize_Inr:
  assumes "terminalizeBudgetRecord limits now key bytes c i released st = Inr st'"
  obtains cur r where "map_of (bs_records (xs_budget st)) key = Some cur" "br_bytes r \<le> br_bytes cur"
    "br_key r = br_key cur" "br_payerId r = br_payerId cur" "br_kind r = br_kind cur"
    "br_attemptId r = br_attemptId cur" "br_terminalAt r = Some now"
    "st' = pruneTerminalBudgetRecords limits now (st\<lparr>xs_budget := (xs_budget st)
        \<lparr>bs_bytes := bs_bytes (xs_budget st) + (int (br_bytes r) - int (br_bytes cur)),
         bs_records := AList.update key r (bs_records (xs_budget st)),
         bs_queue := AList.update key now (bs_queue (xs_budget st))\<rparr>\<rparr>)"
proof -
  obtain cur where cur: "map_of (bs_records (xs_budget st)) key = Some cur" and fits: "bytes \<le> br_bytes cur"
    using assms by (auto simp: terminalizeBudgetRecord_def split: option.splits if_splits)
  define r where "r = cur\<lparr>br_bytes := bytes, br_terminalAt := Some now,
       br_commitmentId := (case c of Some i \<Rightarrow> if i = [] then br_commitmentId cur else Some i
          | None \<Rightarrow> br_commitmentId cur),
       br_paymentIdentifier := (case i of Some i \<Rightarrow> if i = [] then br_paymentIdentifier cur else Some i
          | None \<Rightarrow> br_paymentIdentifier cur),
       br_safelyReleased := (released \<or> br_safelyReleased cur)\<rparr>"
  show thesis
    by (rule that [of cur r]) (use assms cur fits in \<open>simp_all add: terminalizeBudgetRecord_def Let_def r_def\<close>)
qed

lemma terminalize_keeps_budget:
  assumes "budget_ok (xs_budget st)" "budget_within limits (xs_budget st)"
    and "terminalizeBudgetRecord limits now key bytes c i released st = Inr st'"
  shows "budget_ok (xs_budget st') \<and> budget_within limits (xs_budget st')"
  using assms(3)
proof (rule terminalize_Inr)
  fix cur r
  assume t: "map_of (bs_records (xs_budget st)) key = Some cur" "br_bytes r \<le> br_bytes cur"
    "br_key r = br_key cur" "br_payerId r = br_payerId cur"
    and st': "st' = pruneTerminalBudgetRecords limits now (st\<lparr>xs_budget := (xs_budget st)
        \<lparr>bs_bytes := bs_bytes (xs_budget st) + (int (br_bytes r) - int (br_bytes cur)),
         bs_records := AList.update key r (bs_records (xs_budget st)),
         bs_queue := AList.update key now (bs_queue (xs_budget st))\<rparr>\<rparr>)"
  note u = update_keeps_budget [OF assms(1) t(1,3,4)]
  show ?thesis using prune_keeps_budget u(1) u(2) [OF t(2) assms(2)]
    by (simp add: st' pruneTerminalBudgetRecords_def)
qed

section \<open>Whole transitions\<close>

lemma write_changes_budget [simp]: "xs_budget (write_changes ch st) = xs_budget st"
  by (simp add: write_changes_def)

lemma check_keeps_budget:
  assumes "budget_ok (xs_budget st)" "budget_within limits (xs_budget st)"
    and "check_budget limits time budget st = (st', res)"
  shows "budget_ok (xs_budget st') \<and> budget_within limits (xs_budget st')"
proof (cases budget)
  case (Some t)
  show ?thesis
  proof (cases t)
    case (AdmitBudget a bytes)
    show ?thesis
      by (rule admit_keeps_budget [OF assms(1,2)]) (use assms(3) Some AdmitBudget in \<open>simp add: check_budget_def\<close>)
  qed (use assms Some in \<open>auto simp: check_budget_def\<close>)
qed (use assms in \<open>auto simp: check_budget_def\<close>)

lemma settle_keeps_budget:
  assumes "budget_ok (xs_budget st)" "budget_within limits (xs_budget st)"
    and "settle_budget limits time budget st = Inr st'"
  shows "budget_ok (xs_budget st') \<and> budget_within limits (xs_budget st')"
proof (cases budget)
  case (Some t)
  show ?thesis
  proof (cases t)
    case (TerminalBudget x bytes i released)
    with assms(3) Some have "terminalizeBudgetRecord limits (nowMs time) (''exact:'' @ x) bytes None i released st = Inr st'"
      by (simp add: settle_budget_def)
    then show ?thesis by (rule terminalize_keeps_budget [OF assms(1,2)])
  qed (use assms Some in \<open>auto simp: settle_budget_def delete_keeps_ok delete_keeps_within\<close>)
qed (use assms in \<open>auto simp: settle_budget_def\<close>)

lemma settle_succeeds:
  assumes "check_budget limits time budget st = (st', Inr u)" "xs_budget st2 = xs_budget st'"
  shows "succeeds (settle_budget limits time budget st2)"
proof (cases budget)
  case (Some t)
  show ?thesis
  proof (cases t)
    case (TerminalBudget x bytes i released)
    with Some assms have "assertTerminalBudgetFits (''exact:'' @ x) bytes st2 = Inr ()"
      by (auto simp: check_budget_def assertTerminalBudgetFits_def)
    then show ?thesis using Some TerminalBudget
      by (auto simp: settle_budget_def assertTerminalBudgetFits_def terminalizeBudgetRecord_def Let_def
          split: option.splits if_splits)
  qed (use Some in \<open>simp_all add: settle_budget_def\<close>)
qed (simp add: settle_budget_def)

lemma admit_error:
  "admitBudgetRecord limits now key kind a p i bytes claim st = (st', Inl e) \<Longrightarrow>
     st' = pruneTerminalBudgetRecords limits now st"
  by (auto simp: admitBudgetRecord_def admit_checked_def Let_def split: sum.splits if_splits option.splits)

lemma check_error:
  "check_budget limits time budget st = (st', Inl e) \<Longrightarrow>
     st' = st \<or> st' = pruneTerminalBudgetRecords limits (nowMs time) st"
  by (auto simp: check_budget_def split: option.splits transition_budget.splits dest: admit_error)

inductive transition_run ::
  "environment \<Rightarrow> durable_limits \<Rightarrow> clock \<Rightarrow> exact_command \<Rightarrow> exact_store \<Rightarrow> exact_store \<Rightarrow> exact_result res \<Rightarrow> bool"
  for env limits time command st where
    \<comment> \<open>the two ways a call can end\<close>
  rejected: "st' = st \<or> st' = pruneTerminalBudgetRecords limits (nowMs time) st \<Longrightarrow>
     transition_run env limits time command st st' (Inl e)"
| written: "exactTransitionScope env command None = Inr initial \<Longrightarrow>
     attempt = Option.bind (sc_transactionId initial) (\<lambda>t. if t = [] then None else xs_attempts st t) \<Longrightarrow>
     exactTransitionScope env command attempt = Inr scope \<Longrightarrow>
     prepareExactTransition env command (snapshot_of limits time command scope attempt st) = Inr changes \<Longrightarrow>
     check_budget limits time (ch_budget changes) st = (st1, Inr u) \<Longrightarrow>
     settle_budget limits time (ch_budget changes) (write_changes changes st1) = Inr st' \<Longrightarrow>
     transition_run env limits time command st st' (Inr (ch_result changes))"

lemma apply_runs:
  assumes "applyExactTransition env limits time command st = (st', res)"
  shows "transition_run env limits time command st st' res"
proof (cases "exactTransitionScope env command None")
  case (Inl e)
  with assms show ?thesis by (auto simp: applyExactTransition_def intro: rejected)
next
  case (Inr initial)
  define attempt where
    "attempt = Option.bind (sc_transactionId initial) (\<lambda>t. if t = [] then None else xs_attempts st t)"
  show ?thesis
  proof (cases "exactTransitionScope env command attempt")
    case (Inl e)
    with assms Inr show ?thesis
      by (auto simp: applyExactTransition_def Let_def attempt_def [symmetric] intro: rejected)
  next
    case scope: (Inr scope)
    show ?thesis
    proof (cases "prepareExactTransition env command (snapshot_of limits time command scope attempt st)")
      case (Inl e)
      with assms Inr scope show ?thesis
        by (auto simp: applyExactTransition_def Let_def attempt_def [symmetric] intro: rejected)
    next
      case ch: (Inr changes)
      obtain st1 r where check: "check_budget limits time (ch_budget changes) st = (st1, r)" by fastforce
      show ?thesis
      proof (cases r)
        case (Inl e)
        with check check_error have "st1 = st \<or> st1 = pruneTerminalBudgetRecords limits (nowMs time) st" by simp
        moreover have "st' = st1" "res = Inl e"
          using assms Inr scope ch check Inl
          by (auto simp: applyExactTransition_def Let_def attempt_def [symmetric])
        ultimately show ?thesis by (simp add: rejected)
      next
        case ok: (Inr u)
        obtain st3 where "settle_budget limits time (ch_budget changes) (write_changes changes st1) = Inr st3"
          using settle_succeeds [of limits time "ch_budget changes" st st1 u "write_changes changes st1"] check ok
          by (auto simp: succeeds_iff)
        with assms Inr scope ch check ok written [OF Inr attempt_def scope ch] show ?thesis
          by (simp add: applyExactTransition_def Let_def attempt_def [symmetric])
      qed
    qed
  qed
qed

definition store_step ::
  "environment \<Rightarrow> durable_limits \<Rightarrow> exact_store \<Rightarrow> clock \<times> exact_command \<Rightarrow> exact_store res" where
  "store_step env limits st c = Inr (fst (applyExactTransition env limits (fst c) (snd c) st))"

definition empty_store :: exact_store where
  "empty_store = \<lparr>xs_heads = [], xs_attempts = Map.empty, xs_payments = Map.empty, xs_batchAttempts = Map.empty,
     xs_commitments = Map.empty,
     xs_identifiers = Map.empty, xs_reservations = Map.empty,
     xs_budget = \<lparr>bs_records = [], bs_payerCounts = Map.empty, bs_queue = [], bs_bytes = 0\<rparr>\<rparr>"

lemma store_step_run:
  "store_step env limits st c = Inr st' \<Longrightarrow> \<exists>res. transition_run env limits (fst c) (snd c) st st' res"
  by (cases "applyExactTransition env limits (fst c) (snd c) st") (auto simp: store_step_def dest: apply_runs)

interpretation store_budget: fallible_machine "store_step env limits"
  "\<lambda>st. budget_ok (xs_budget st) \<and> budget_within limits (xs_budget st)" for env limits
proof
  fix st c st'
  assume inv: "budget_ok (xs_budget st) \<and> budget_within limits (xs_budget st)"
    and "store_step env limits st c = Inr st'"
  then obtain res where "transition_run env limits (fst c) (snd c) st st' res" using store_step_run by blast
  then show "budget_ok (xs_budget st') \<and> budget_within limits (xs_budget st')"
  proof cases
    case rejected
    then show ?thesis using inv prune_keeps_budget by (auto simp: pruneTerminalBudgetRecords_def)
  next
    case (written initial attempt scope changes st1 u)
    have "budget_ok (xs_budget st1) \<and> budget_within limits (xs_budget st1)"
      using check_keeps_budget [OF _ _ written(6)] inv by blast
    then show ?thesis using settle_keeps_budget [OF _ _ written(7)] by simp
  qed
qed

lemma empty_store_budget:
  "budget_ok (xs_budget empty_store) \<and> budget_within limits (xs_budget empty_store)"
  by (simp add: budget_ok_def budget_within_def empty_store_def record_bytes_def payer_records_def)

end
