(* ===== verification/Store_Ledger.thy ===== *)
theory Store_Ledger
  imports Store_Budget
begin

text \<open>
  The ledger of the exact store: every attempt that is not applied owns an open budget record.
  Expiry and the quota checks of \<^verbatim>\<open>stores.ts\<close> keep it, and never touch heads, open attempts or
  the identity of payments and identifiers (\<open>quiet_below\<close>).
\<close>

section \<open>The ledger of open attempts\<close>

definition record_ok :: "budget_record \<Rightarrow> bool" where
  "record_ok r = (br_key r = budget_key (br_kind r) (br_attemptId r)
     \<and> (br_safelyReleased r \<longrightarrow> br_terminalAt r \<noteq> None))"

definition open_record :: "exact_store \<Rightarrow> string \<Rightarrow> bool" where
  "open_record st t = (\<exists>r. map_of (bs_records (xs_budget st)) (''exact:'' @ t) = Some r \<and> br_terminalAt r = None)"

definition ledger_ok :: "exact_store \<Rightarrow> bool" where
  \<comment> \<open>every attempt that is not yet applied holds an open budget record\<close>
  "ledger_ok st = (budget_ok (xs_budget st)
     \<and> (\<forall>k r. map_of (bs_records (xs_budget st)) k = Some r \<longrightarrow> record_ok r)
     \<and> (\<forall>t a. xs_attempts st t = Some a \<longrightarrow> at_status a \<noteq> AttemptApplied \<longrightarrow> open_record st t))"

definition payments_below :: "exact_store \<Rightarrow> exact_store \<Rightarrow> bool" where
  \<comment> \<open>only the stored response may be replaced, by the expiry notice\<close>
  "payments_below st st' = (\<forall>t p. t \<noteq> [] \<longrightarrow> xs_payments st t = Some p \<longrightarrow>
     (\<exists>v. v \<in> {ep_response p, expiredReplayResponse} \<and> xs_payments st' t = Some (p\<lparr>ep_response := v\<rparr>)))"

definition same_identifier :: "identifier_record \<Rightarrow> identifier_record \<Rightarrow> bool" where
  "same_identifier d e = (pi_fingerprint d = pi_fingerprint e
     \<and> pi_paymentPayloadHash d = pi_paymentPayloadHash e \<and> pi_paymentScopeId d = pi_paymentScopeId e)"

definition identifiers_below :: "exact_store \<Rightarrow> exact_store \<Rightarrow> bool" where
  "identifiers_below st st' = (\<forall>i d. xs_identifiers st i = Some d \<longrightarrow>
     (\<exists>e. xs_identifiers st' i = Some e \<and> same_identifier d e))"

definition quiet_below :: "exact_store \<Rightarrow> exact_store \<Rightarrow> bool" where
  \<comment> \<open>what expiry leaves alone\<close>
  "quiet_below st st' = (xs_heads st' = xs_heads st
     \<and> (\<forall>t a. xs_attempts st t = Some a \<longrightarrow> at_status a \<noteq> AttemptApplied \<longrightarrow> xs_attempts st' t = Some a)
     \<and> xs_attempts st' \<subseteq>\<^sub>m xs_attempts st
     \<and> payments_below st st' \<and> (\<forall>t. xs_payments st t = None \<longrightarrow> xs_payments st' t = None)
     \<and> identifiers_below st st')"

lemma payments_below_refl: "payments_below st st' " if "xs_payments st' = xs_payments st"
  using that unfolding payments_below_def by (metis (no_types, lifting) exact_payment.surjective exact_payment.update_convs(12) insertCI)

lemma payments_below_trans: "payments_below st s2 \<Longrightarrow> payments_below s2 s3 \<Longrightarrow> payments_below st s3"
  unfolding payments_below_def by (fastforce)

lemma identifiers_below_refl: "identifiers_below st st'" if "xs_identifiers st' = xs_identifiers st"
  using that by (auto simp: identifiers_below_def same_identifier_def)

lemma identifiers_below_trans: "identifiers_below st s2 \<Longrightarrow> identifiers_below s2 s3 \<Longrightarrow> identifiers_below st s3"
  unfolding identifiers_below_def same_identifier_def by metis

lemma quiet_below_refl:
  "xs_heads st' = xs_heads st \<Longrightarrow> xs_attempts st' = xs_attempts st \<Longrightarrow> xs_payments st' = xs_payments st
     \<Longrightarrow> xs_identifiers st' = xs_identifiers st \<Longrightarrow> quiet_below st st'"
  by (simp add: quiet_below_def payments_below_refl identifiers_below_refl)

lemma quiet_below_trans: "quiet_below st s2 \<Longrightarrow> quiet_below s2 s3 \<Longrightarrow> quiet_below st s3"
  unfolding quiet_below_def by (metis payments_below_trans identifiers_below_trans map_le_trans)

section \<open>Expiry\<close>

lemma exact_key_inject: "''exact:'' @ s = budget_key k t \<longleftrightarrow> k = ExactRecord \<and> s = t"
  by (cases k) (auto simp: budget_key_def)

lemma ledger_record:
  assumes "ledger_ok st" "map_of (bs_records (xs_budget st)) k = Some r"
  shows "k = budget_key (br_kind r) (br_attemptId r)" "br_safelyReleased r \<Longrightarrow> br_terminalAt r \<noteq> None"
  using assms budget_ok_key [of "xs_budget st" k r] by (auto simp: ledger_ok_def record_ok_def)

lemma ledger_open:
  "ledger_ok st \<Longrightarrow> xs_attempts st t = Some a \<Longrightarrow> at_status a \<noteq> AttemptApplied \<Longrightarrow> open_record st t"
  by (simp add: ledger_ok_def)

lemma open_recordE:
  assumes "open_record st t"
  obtains r where "map_of (bs_records (xs_budget st)) (''exact:'' @ t) = Some r" "br_terminalAt r = None"
  using assms unfolding open_record_def by blast

lemma open_recordI:
  "map_of (bs_records (xs_budget st)) (''exact:'' @ t) = Some r \<Longrightarrow> br_terminalAt r = None \<Longrightarrow> open_record st t"
  unfolding open_record_def by blast

lemma expire_quiet:
  assumes "ledger_ok st" "map_of (bs_records (xs_budget st)) key = Some r" "br_terminalAt r \<noteq> None"
  shows "quiet_below st ((if br_safelyReleased r then expire_released r st else expire_terminal r st)
            \<lparr>xs_budget := b\<rparr>)"
proof (cases "br_safelyReleased r")
  case True
  then show ?thesis
    by (auto intro!: quiet_below_refl simp: expire_released_def split: option.splits)
next
  case False
  let ?st = "expire_terminal r st\<lparr>xs_budget := b\<rparr>"
  have open_kept: "xs_attempts ?st t = Some a" if "xs_attempts st t = Some a" "at_status a \<noteq> AttemptApplied" for t a
  proof -
    have "open_record st t" using ledger_open [OF assms(1) that] .
    then obtain r' where r': "map_of (bs_records (xs_budget st)) (''exact:'' @ t) = Some r'" "br_terminalAt r' = None"
      by (rule open_recordE)
    then have "br_kind r = ExactRecord \<Longrightarrow> t \<noteq> br_attemptId r"
      using ledger_record(1) [OF assms(1,2)] assms(2,3) by (auto simp: budget_key_def)
    then show ?thesis using that
      by (auto simp: expire_terminal_def Let_def split: option.splits budget_kind.splits)
  qed
  have "xs_attempts ?st \<subseteq>\<^sub>m xs_attempts st"
    by (auto simp: expire_terminal_def Let_def map_le_def split: option.splits budget_kind.splits if_splits)
  moreover have "payments_below st ?st \<and> (\<forall>t. xs_payments st t = None \<longrightarrow> xs_payments ?st t = None)"
  proof (cases "br_kind r")
    case BatchRecord
    then have "xs_payments ?st = xs_payments st"
      by (auto simp: expire_terminal_def Let_def split: option.splits)
    then show ?thesis by (simp add: payments_below_refl)
  next
    case ExactRecord
    let ?t = "to_lower (br_attemptId r)"
    have pay: "xs_payments ?st = (xs_payments st)(?t :=
        map_option (\<lambda>p. p\<lparr>ep_response := expiredReplayResponse\<rparr>) (xs_payments st ?t))"
      using ExactRecord by (auto simp: expire_terminal_def Let_def split: option.splits)
    have "\<exists>v. v \<in> {ep_response p, expiredReplayResponse} \<and> xs_payments ?st t = Some (p\<lparr>ep_response := v\<rparr>)"
      if "xs_payments st t = Some p" for t p
      using that by (cases "t = ?t") (auto simp: pay intro: exI [of _ "ep_response p"])
    then show ?thesis by (auto simp: payments_below_def pay)
  qed
  moreover have "identifiers_below st ?st"
    by (auto simp: expire_terminal_def Let_def identifiers_below_def same_identifier_def
        split: option.splits budget_kind.splits)
  ultimately show ?thesis using False open_kept by (simp add: quiet_below_def)
qed

lemma expire_ledger:
  assumes "ledger_ok st" "map_of (bs_records (xs_budget st)) key = Some r" "br_terminalAt r \<noteq> None"
  shows "ledger_ok ((if br_safelyReleased r then expire_released r st else expire_terminal r st)
            \<lparr>xs_budget := deleteBudgetRecord key (xs_budget st)\<rparr>)" (is "ledger_ok ?st")
proof -
  have recs: "map_of (bs_records (xs_budget ?st)) = (map_of (bs_records (xs_budget st)))(key := None)"
    by (simp add: delete_records(1) [OF assms(2)] AList.delete_conv')
  have "open_record ?st t" if "xs_attempts ?st t = Some a" "at_status a \<noteq> AttemptApplied" for t a
  proof -
    have "xs_attempts st t = Some a"
      using expire_quiet [OF assms, of "deleteBudgetRecord key (xs_budget st)"] that(1)
      unfolding quiet_below_def by (metis domI map_le_def)
    then have "open_record st t" using ledger_open [OF assms(1)] that(2) by blast
    then obtain r' where r': "map_of (bs_records (xs_budget st)) (''exact:'' @ t) = Some r'" "br_terminalAt r' = None"
      by (rule open_recordE)
    then have "''exact:'' @ t \<noteq> key" using assms(2,3) by fastforce
    with r' recs show ?thesis by (intro open_recordI) auto
  qed
  moreover have "budget_ok (xs_budget ?st)" using assms(1) by (simp add: ledger_ok_def delete_keeps_ok)
  moreover have "record_ok r'" if "map_of (bs_records (xs_budget ?st)) k = Some r'" for k r'
    using that assms(1) unfolding recs by (auto simp: ledger_ok_def split: if_splits)
  ultimately show ?thesis by (simp add: ledger_ok_def)
qed

lemma ledger_queue: "ledger_ok st \<Longrightarrow> ledger_ok (st\<lparr>xs_budget := (xs_budget st)\<lparr>bs_queue := q\<rparr>\<rparr>)"
  by (simp add: ledger_ok_def open_record_def)

lemma prune_quiet:
  assumes "ledger_ok st"
  shows "ledger_ok (pruneTerminalBudgetRecords limits now st)
    \<and> quiet_below st (pruneTerminalBudgetRecords limits now st)"
  unfolding pruneTerminalBudgetRecords_def
proof (rule prune_loop_rule [where P = "\<lambda>s. ledger_ok s \<and> quiet_below st s"])
  show "ledger_ok st \<and> quiet_below st st" using assms by (simp add: quiet_below_refl)
next
  fix s q assume "ledger_ok s \<and> quiet_below st s"
  then show "ledger_ok (s\<lparr>xs_budget := (xs_budget s)\<lparr>bs_queue := q\<rparr>\<rparr>)
      \<and> quiet_below st (s\<lparr>xs_budget := (xs_budget s)\<lparr>bs_queue := q\<rparr>\<rparr>)"
    using ledger_queue [of s q] quiet_below_trans [of st s] quiet_below_refl [of _ s] by simp
next
  fix s key r
  assume s: "ledger_ok s \<and> quiet_below st s" "map_of (bs_records (xs_budget s)) key = Some r" "br_terminalAt r \<noteq> None"
  show "ledger_ok ((if br_safelyReleased r then expire_released r s else expire_terminal r s)
            \<lparr>xs_budget := deleteBudgetRecord key (xs_budget s)\<rparr>)
      \<and> quiet_below st ((if br_safelyReleased r then expire_released r s else expire_terminal r s)
            \<lparr>xs_budget := deleteBudgetRecord key (xs_budget s)\<rparr>)"
    using s expire_ledger [of s key r] expire_quiet [of s key r "deleteBudgetRecord key (xs_budget s)"]
      quiet_below_trans by blast
qed

section \<open>The budget around a write\<close>

lemma record_ok_fresh: "record_ok \<lparr>br_key = ''exact:'' @ t, br_kind = ExactRecord, br_attemptId = t, br_payerId = p,
    br_bytes = n, br_terminalAt = None, br_commitmentId = None, br_paymentIdentifier = i, br_safelyReleased = False\<rparr>"
  by (simp add: record_ok_def budget_key_def)

lemma ledger_okI:
  assumes "budget_ok (xs_budget st)"
    and "\<And>k r. map_of (bs_records (xs_budget st)) k = Some r \<Longrightarrow> record_ok r"
    and "\<And>t a. xs_attempts st t = Some a \<Longrightarrow> at_status a \<noteq> AttemptApplied \<Longrightarrow> open_record st t"
  shows "ledger_ok st"
  using assms by (auto simp: ledger_ok_def)

lemma admit_checked_ledger:
  assumes "ledger_ok st" "admit_checked limits (br_key r) r replacement st = (st', Inr u)"
    and "\<And>i k old. replacement = Some (i, k, old) \<Longrightarrow>
           map_of (bs_records (xs_budget st)) k = Some old \<and> br_safelyReleased old"
    and "map_of (bs_records (xs_budget st)) (br_key r) \<noteq> None \<Longrightarrow> map_option (fst \<circ> snd) replacement = Some (br_key r)"
    and "record_ok r" "br_terminalAt r = None" "br_key r = ''exact:'' @ t"
  shows "quiet_below st st' \<and> ledger_ok st' \<and> open_record st' t"
proof -
  let ?b = "xs_budget st"
  have ok: "budget_ok ?b" using assms(1) by (simp add: ledger_ok_def)
  obtain b where b: "b = ?b \<or> (\<exists>i k old. replacement = Some (i, k, old) \<and> b = deleteBudgetRecord k ?b)"
    and st': "xs_budget st' = insert_budget_record (br_key r) r b" "xs_heads st' = xs_heads st"
      "xs_attempts st' = xs_attempts st" "xs_payments st' = xs_payments st" "xs_identifiers st' = xs_identifiers st"
    and new: "map_of (bs_records b) (br_key r) = None"
  proof (cases replacement)
    case None
    then have "map_of (bs_records ?b) (br_key r) = None"
      using assms(4) by (cases "map_of (bs_records ?b) (br_key r)") auto
    then show thesis using that [of ?b] assms(2) None
      by (auto simp: admit_checked_def Let_def split: if_splits)
  next
    case (Some rep)
    obtain i k old where rep: "replacement = Some (i, k, old)" using Some by (cases rep) auto
    from assms(3) [OF rep] have old: "map_of (bs_records ?b) k = Some old" by simp
    have "map_of (bs_records ?b) (br_key r) = None" if "k \<noteq> br_key r"
      using assms(4) rep that by (cases "map_of (bs_records ?b) (br_key r)") auto
    then have "map_of (bs_records (deleteBudgetRecord k ?b)) (br_key r) = None"
      by (simp add: delete_records(1) [OF old] AList.delete_conv')
    then show thesis using that [of "deleteBudgetRecord k ?b"] assms(2) rep budget_ok_key [OF ok old]
      by (auto simp: admit_checked_def Let_def split: if_splits)
  qed
  have bok: "budget_ok b" using b ok delete_keeps_ok by auto
  have recs: "map_of (bs_records (xs_budget st')) = (map_of (bs_records b))(br_key r \<mapsto> r)"
    using insert_keeps_ok(2) [OF bok new] new by (auto simp: st' fun_eq_iff map_add_def split: option.splits)
  have sub: "map_of (bs_records ?b) k = Some v" if "map_of (bs_records b) k = Some v" for k v
    using b that assms(3) by (auto simp: delete_records(1) AList.delete_conv' split: if_splits)
  have keep: "map_of (bs_records b) k = Some v" if "map_of (bs_records ?b) k = Some v" "br_terminalAt v = None" for k v
  proof -
    have "k \<noteq> k'" if "replacement = Some (i, k', old)" for i k' old
      using assms(3) [OF that] ledger_record(2) [OF assms(1)] \<open>map_of (bs_records ?b) k = Some v\<close>
        \<open>br_terminalAt v = None\<close> by fastforce
    then show ?thesis using b that(1) assms(3) by (auto simp: delete_records(1) AList.delete_conv')
  qed
  have "quiet_below st st'" using st' by (intro quiet_below_refl) auto
  moreover have "open_record st' t" using recs assms(6,7) by (intro open_recordI [of st' t r]) simp_all
  moreover have "ledger_ok st'"
  proof (rule ledger_okI)
    show "budget_ok (xs_budget st')" using insert_keeps_ok(1) [OF bok new] st' by simp
    show "record_ok v" if "map_of (bs_records (xs_budget st')) k = Some v" for k v
      using that recs sub assms(1,5) by (auto simp: ledger_ok_def split: if_splits)
  next
    fix t' a assume "xs_attempts st' t' = Some a" "at_status a \<noteq> AttemptApplied"
    then have "open_record st t'" using ledger_open [OF assms(1)] st' by simp
    then obtain v where v: "map_of (bs_records ?b) (''exact:'' @ t') = Some v" "br_terminalAt v = None"
      by (rule open_recordE)
    show "open_record st' t'"
    proof (cases "''exact:'' @ t' = br_key r")
      case True
      then have "t' = t" using assms(7) by simp
      then show ?thesis using \<open>open_record st' t\<close> by simp
    next
      case False
      then have "map_of (bs_records (xs_budget st')) (''exact:'' @ t') = Some v" using keep [OF v] by (simp only: recs fun_upd_apply if_False)
      then show ?thesis using v(2) by (rule open_recordI)
    qed
  qed
  ultimately show ?thesis by blast
qed

lemma check_quiet:
  assumes "ledger_ok st" "check_budget limits time budget st = (st', Inr u)"
  shows "quiet_below st st' \<and> ledger_ok st' \<and> (\<forall>b n. budget = Some (AdmitBudget b n) \<longrightarrow> open_record st' (at_transactionId b))"
proof (cases "\<exists>b n. budget = Some (AdmitBudget b n)")
  case True
  then obtain b n where budget: "budget = Some (AdmitBudget b n)" by blast
  let ?t = "at_transactionId b" and ?claim = "val_of (at_paymentIdentifier b)"
  let ?st = "pruneTerminalBudgetRecords limits (nowMs time) st" and ?i = "map_option rc_id ?claim"
  let ?r = "\<lparr>br_key = ''exact:'' @ ?t, br_kind = ExactRecord, br_attemptId = ?t, br_payerId = at_payerId b,
               br_bytes = n, br_terminalAt = None, br_commitmentId = None,
               br_paymentIdentifier = (if ?i = Some [] then None else ?i), br_safelyReleased = False\<rparr>"
  note p = prune_quiet [OF assms(1), of limits "nowMs time"]
  have adm: "admitBudgetRecord limits (nowMs time) (''exact:'' @ ?t) ExactRecord ?t (at_payerId b) ?i n ?claim st = (st', Inr u)"
    using assms(2) unfolding budget check_budget_def by simp
  then obtain rep where rep: "safelyReleasedPaymentIdentifierReclaim ?claim ?st = Inr rep"
    unfolding admitBudgetRecord_def Let_def by (cases "safelyReleasedPaymentIdentifierReclaim ?claim ?st") auto
  from adm rep have old: "\<not> (map_of (bs_records (xs_budget ?st)) (br_key ?r) \<noteq> None
        \<and> map_option (fst \<circ> snd) rep \<noteq> Some (br_key ?r))"
    and chk: "admit_checked limits (br_key ?r) ?r rep ?st = (st', Inr u)"
    unfolding admitBudgetRecord_def Let_def by (auto simp del: append.simps split: if_splits)
  have "quiet_below ?st st' \<and> ledger_ok st' \<and> open_record st' ?t"
    using admit_checked_ledger [OF _ chk _ _ record_ok_fresh, of ?t] p old reclaim_Inr [of ?claim ?st] rep by auto
  then show ?thesis using p budget quiet_below_trans by auto
next
  case False
  then have "st' = st" using assms(2) by (auto simp: check_budget_def split: option.splits transition_budget.splits)
  then show ?thesis using assms(1) False quiet_below_refl [of st st] by auto
qed

end
