(* ===== verification/Store_Decisions.thy ===== *)
theory Store_Decisions
  imports Store_Ledger
begin

text \<open>
  What the decisions of \<^verbatim>\<open>exact-payment-transitions.ts\<close> may contain: \<open>attempt_effect\<close> lists the
  five ways a change touches an attempt and its budget, \<open>head_below\<close> how it moves a head, and
  payments and identifiers are written only where none of another owner is stored.
\<close>

section \<open>What a decided change does to the attempt\<close>

lemma attempt_ok_terms:
  assumes "same_terms a b"
  shows "attempt_ok env b = attempt_ok env a" "at_transactionId b = at_transactionId a"
proof -
  have net: "attempt_network (immutable_terms x) = attempt_network x" for x
    by (simp add: immutable_terms_def attempt_network_def)
  have imm: "attempt_ok env (immutable_terms x) = attempt_ok env x" for x
    using net [of x] by (simp add: attempt_ok_def) (simp add: immutable_terms_def)
  have drop: "attempt_ok env (x\<lparr>at_transaction := []\<rparr>) = attempt_ok env x" for x
    by (simp add: attempt_ok_def attempt_network_def)
  show "attempt_ok env b = attempt_ok env a"
    using assms imm [of a] imm [of b] imm [of "a\<lparr>at_transaction := []\<rparr>"] drop [of a]
    by (auto simp: same_terms_def)
  have tx: "at_transactionId (immutable_terms x) = at_transactionId x" for x by (simp add: immutable_terms_def)
  from assms consider "immutable_terms a = immutable_terms b"
    | "immutable_terms (a\<lparr>at_transaction := []\<rparr>) = immutable_terms b" by (auto simp: same_terms_def)
  then show "at_transactionId b = at_transactionId a"
  proof cases
    case 1
    from arg_cong [OF this, of at_transactionId] show ?thesis by (simp add: tx)
  next
    case 2
    from arg_cong [OF this, of at_transactionId] show ?thesis by (simp add: tx)
  qed
qed

inductive attempt_effect :: "environment \<Rightarrow> exact_attempt option \<Rightarrow> transition_changes \<Rightarrow> bool" for env where
  idle: "ch_attempt ch = KeepAttempt \<Longrightarrow> ch_budget ch = None \<Longrightarrow> attempt_effect env sa ch"
| admit: "ch_attempt ch = PutAttempt b \<Longrightarrow> ch_budget ch = Some (AdmitBudget b n) \<Longrightarrow> attempt_ok env b
    \<Longrightarrow> at_status b = AttemptPending \<Longrightarrow> attempt_effect env None ch"
| progress: "ch_attempt ch = PutAttempt b \<Longrightarrow> ch_budget ch = None \<Longrightarrow> same_terms a b
    \<Longrightarrow> at_status a \<noteq> AttemptApplied \<Longrightarrow> at_status b \<noteq> AttemptApplied
    \<Longrightarrow> (at_status a = AttemptAccepted \<Longrightarrow> at_status b = AttemptAccepted \<and> immutable_terms a = immutable_terms b)
    \<Longrightarrow> attempt_effect env (Some a) ch"
| finish: "ch_attempt ch = PutAttempt b \<Longrightarrow> ch_budget ch = Some (TerminalBudget (at_transactionId a) n i w)
    \<Longrightarrow> same_terms a b \<Longrightarrow> at_status b = AttemptApplied \<Longrightarrow> ch_payment ch = Some p
    \<Longrightarrow> attempt_effect env (Some a) ch"
| dropped: "ch_attempt ch = DeleteAttempt \<Longrightarrow> ch_transactionId ch = Some (at_transactionId a)
    \<Longrightarrow> ch_budget ch \<in> {Some (TerminalBudget (at_transactionId a) n i w), Some (DeleteBudget (at_transactionId a))}
    \<Longrightarrow> at_status a \<noteq> AttemptAccepted \<Longrightarrow> at_status a \<noteq> AttemptApplied
    \<Longrightarrow> attempt_effect env (Some a) ch"

lemma phase_status: "fst (phase a) = at_status a"
  by (simp add: phase_def)

lemma progress_effect:
  assumes "ch_attempt ch = PutAttempt b" "ch_budget ch = None" "phase_step (phase a) (Some (phase b))"
    "immutable_terms a = immutable_terms b" "at_status b \<noteq> AttemptApplied"
  shows "attempt_effect env (Some a) ch"
proof (rule progress [OF assms(1,2)])
  show "same_terms a b" using assms(4) by (simp add: same_terms_def)
  show "at_status a \<noteq> AttemptApplied" using assms(3) by cases (auto simp: phase_def)
  show "at_status b = AttemptAccepted \<and> immutable_terms a = immutable_terms b" if "at_status a = AttemptAccepted"
    using assms(3) that assms(4,5) by cases (auto simp: phase_def)
qed (use assms in auto)

lemma pending_put:
  assumes "pending_change a sn b s w res = Inr ch" "at_status b \<noteq> AttemptApplied" "at_transaction b = at_transaction a"
  shows "ch_budget ch = None \<and> (\<forall>c. ch_attempt ch = PutAttempt c \<longrightarrow>
           at_status c \<noteq> AttemptApplied \<and> at_transaction c = at_transaction a)"
  using pending_change_Inr [OF assms(1)] assms(2,3) by simp

lemma attempt_put:
  assumes "attemptTransition env cmd a sn = Inr ch" "\<forall>t r w. cmd \<noteq> Abandon t r w"
  shows "ch_budget ch = None \<and> (\<forall>b. ch_attempt ch = PutAttempt b \<longrightarrow>
           at_status b \<noteq> AttemptApplied \<and> at_transaction b = at_transaction a)"
proof (cases cmd)
  case (Accept t f w)
  with assms(1) show ?thesis
    by (auto simp: attemptTransition_def acceptTransition_def bindE_Inr split: if_splits dest: pending_put)
next
  case (RecordResult t r w)
  with assms(1) have "at_status a = AttemptAccepted"
    by (auto simp: attemptTransition_def bindE_Inr assertHandlerResult_def split: if_splits)
  with assms(1) RecordResult show ?thesis
    by (auto simp: attemptTransition_def bindE_Inr split: if_splits opt_field.splits dest: pending_put)
qed (use assms in \<open>auto simp: attemptTransition_def split: if_splits dest: pending_put\<close>)

lemma same_terms_immutable:
  assumes "same_terms a b" "at_transaction b = at_transaction a"
  shows "immutable_terms a = immutable_terms b"
proof (cases "immutable_terms a = immutable_terms b")
  case False
  with assms(1) have eq: "immutable_terms (a\<lparr>at_transaction := []\<rparr>) = immutable_terms b"
    by (simp add: same_terms_def)
  have "at_transaction (immutable_terms x) = at_transaction x" for x by (simp add: immutable_terms_def)
  with arg_cong [OF eq, of at_transaction] assms(2) have "a\<lparr>at_transaction := []\<rparr> = a" by simp
  with eq show ?thesis by simp
qed simp

lemma abandon_effect:
  assumes "abandonTransition a sn r w = Inr ch"
  shows "attempt_effect env (Some a) ch"
proof -
  from assms have st: "at_status a \<noteq> AttemptAccepted" "at_status a \<noteq> AttemptApplied"
    "ch_attempt ch = DeleteAttempt" "ch_transactionId ch = Some (at_transactionId a)"
    and "\<exists>n i s. ch_budget ch \<in> {Some (TerminalBudget (at_transactionId a) n i s), Some (DeleteBudget (at_transactionId a))}"
    by (auto simp: abandonTransition_def bindE_Inr Let_def ex_bool_eq split: if_splits option.splits)
  then show ?thesis using dropped by blast
qed

lemma attempt_transition_effect:
  assumes "attemptTransition env cmd a sn = Inr ch"
  shows "attempt_effect env (Some a) ch"
proof (cases "\<exists>t r w. cmd = Abandon t r w")
  case True
  then show ?thesis using assms abandon_effect by (auto simp: attemptTransition_def)
next
  case False
  then have put: "ch_budget ch = None" "\<And>b. ch_attempt ch = PutAttempt b \<Longrightarrow>
      at_status b \<noteq> AttemptApplied \<and> at_transaction b = at_transaction a"
    using attempt_put [OF assms] by auto
  from attempt_follows [OF assms] consider "ch_attempt ch = KeepAttempt" | "ch_attempt ch = DeleteAttempt"
    | b where "ch_attempt ch = PutAttempt b" "phase_step (phase a) (Some (phase b))" "same_terms a b"
    by (auto simp: follows_lifecycle_def)
  then show ?thesis
  proof cases
    case 1
    then show ?thesis using put(1) idle by blast
  next
    case 2
    with assms False have False
      by (cases cmd) (auto simp: attemptTransition_def acceptTransition_def pending_change_def bindE_Inr
          split: if_splits opt_field.splits)
    then show ?thesis ..
  next
    case 3
    then show ?thesis using put progress_effect same_terms_immutable by blast
  qed
qed

lemma prepare_effect:
  assumes "prepareExactTransition env cmd sn = Inr ch"
  shows "attempt_effect env (sn_attempt sn) ch"
proof (cases cmd)
  case (Claim x)
  show ?thesis
  proof (cases "sn_attempt sn")
    case None
    from assms Claim None obtain b where n: "normalizeExactSettlementAttempt env x = Inr b"
      and ch: "ch_attempt ch = PutAttempt b" "ch_budget ch = Some (AdmitBudget b (durableOpenRecordBytes (attempt_json b)))"
      by (auto simp: prepareExactTransition_def claimTransition_def bindE_Inr split: if_splits)
    show ?thesis unfolding None
      by (rule admit [OF ch]) (use normalizeExactSettlementAttempt_Inr [OF n] in auto)
  next
    case (Some a)
    with assms Claim show ?thesis
      by (auto simp: prepareExactTransition_def claimTransition_def bindE_Inr split: if_splits intro: idle)
  qed
next
  case (Commit p i)
  show ?thesis
  proof (cases "sn_payment sn")
    case (Some q)
    with assms Commit show ?thesis
      by (auto simp: prepareExactTransition_def commitTransition_def split: if_splits intro: idle)
  next
    case None
    note pay = None
    show ?thesis
    proof (cases "sn_attempt sn")
      case None
      with assms Commit pay show ?thesis
        by (auto simp: prepareExactTransition_def commitTransition_def bindE_Inr split: if_splits option.splits intro!: idle)
    next
      case (Some a)
      let ?b = "applied_attempt a (sn_now sn)"
      from assms Commit pay Some have "ch_attempt ch = PutAttempt ?b" "ch_payment ch = Some p"
        "\<exists>n. ch_budget ch = Some (TerminalBudget (at_transactionId a) n (map_option pi_id i) False)"
        by (auto simp: prepareExactTransition_def commitTransition_def bindE_Inr applied_attempt_def split: if_splits)
      moreover have "same_terms a ?b" "at_status ?b = AttemptApplied"
        by (simp_all add: same_terms_def applied_attempt_def immutable_terms_def attempt_network_def)
      ultimately show ?thesis unfolding Some using finish by blast
    qed
  qed
next
  case (RegisterHead h)
  with assms show ?thesis
    by (auto simp: prepareExactTransition_def registerHead_def bindE_Inr intro!: idle
        split: option.splits if_splits)
next
  case (UnavailableHead u)
  with assms show ?thesis
    by (auto simp: prepareExactTransition_def unavailableHead_def Let_def intro!: idle
        split: option.splits if_splits)
next
  case (Lineage l)
  with assms show ?thesis
    by (auto simp: prepareExactTransition_def bindE_Inr intro!: idle split: option.splits)
qed (use assms attempt_transition_effect in \<open>auto simp: prepareExactTransition_def split: option.splits\<close>)

section \<open>What a decided change does to the head\<close>

definition head_core :: "environment \<Rightarrow> exact_head \<Rightarrow> bool" where
  \<comment> \<open>what every stored head keeps: its template, its normal form and canonical numbers\<close>
  "head_core env h = (head_terms_ok env h \<and> to_lower (eh_headId h) = eh_headId h
     \<and> to_lower (eh_scriptPublicKey h) = eh_scriptPublicKey h \<and> to_lower (eh_redeemScript h) = eh_redeemScript h
     \<and> (\<exists>v>0. eh_currentAmount h = int_to_string v) \<and> (\<exists>v\<ge>0. eh_version h = int_to_string v))"

definition same_head_terms :: "exact_head \<Rightarrow> exact_head \<Rightarrow> bool" where
  "same_head_terms h h' = (eh_headId h' = eh_headId h \<and> eh_network h' = eh_network h \<and> eh_payTo h' = eh_payTo h
     \<and> eh_templateId h' = eh_templateId h \<and> eh_transactionEncoding h' = eh_transactionEncoding h
     \<and> eh_scriptPublicKey h' = eh_scriptPublicKey h \<and> eh_redeemScript h' = eh_redeemScript h
     \<and> eh_additiveThresholdSompi h' = eh_additiveThresholdSompi h \<and> eh_createdAt h' = eh_createdAt h)"

definition head_below :: "exact_head \<Rightarrow> exact_head \<Rightarrow> bool" where
  \<comment> \<open>the same head at the same or a later version, never with less value\<close>
  "head_below h h' = (same_head_terms h h' \<and> dec_val (eh_version h) \<le> dec_val (eh_version h')
     \<and> dec_val (eh_currentAmount h) \<le> dec_val (eh_currentAmount h')
     \<and> (dec_val (eh_version h') = dec_val (eh_version h) \<longrightarrow> eh_currentAmount h' = eh_currentAmount h
          \<and> eh_currentOutpoint h' = eh_currentOutpoint h))"

lemma head_below_refl: "head_below h h"
  by (simp add: head_below_def same_head_terms_def)

lemma head_below_same:
  "same_head_terms h h' \<Longrightarrow> eh_version h' = eh_version h \<Longrightarrow> eh_currentAmount h' = eh_currentAmount h
     \<Longrightarrow> eh_currentOutpoint h' = eh_currentOutpoint h \<Longrightarrow> head_below h h'"
  by (simp add: head_below_def)

lemma head_ok_core: "head_ok env h \<Longrightarrow> head_core env h"
  by (auto simp: head_core_def head_ok_iff head_position_ok_def lower_head_id)

lemma terms_ok_same: "same_head_terms h h' \<Longrightarrow> head_terms_ok env h' = head_terms_ok env h"
  by (simp add: same_head_terms_def head_terms_ok_def)

lemma head_core_same:
  "head_core env h \<Longrightarrow> same_head_terms h h' \<Longrightarrow> \<exists>v>0. eh_currentAmount h' = int_to_string v
     \<Longrightarrow> \<exists>v\<ge>0. eh_version h' = int_to_string v \<Longrightarrow> head_core env h'"
  using terms_ok_same [of h h' env] unfolding head_core_def same_head_terms_def by simp

lemma head_core_step:
  assumes "head_core env h" "same_head_terms h h'" "eh_version h' = eh_version h"
    "eh_currentAmount h' = eh_currentAmount h" "eh_currentOutpoint h' = eh_currentOutpoint h"
  shows "head_core env h' \<and> head_below h h'"
proof
  have "\<exists>v>0. eh_currentAmount h' = int_to_string v" "\<exists>v\<ge>0. eh_version h' = int_to_string v"
    using assms(1,3,4) by (simp_all add: head_core_def)
  then show "head_core env h'" by (rule head_core_same [OF assms(1,2)])
  show "head_below h h'" using assms(2-5) by (rule head_below_same)
qed

lemma head_below_trans: "head_below h1 h2 \<Longrightarrow> head_below h2 h3 \<Longrightarrow> head_below h1 h3"
  by (auto simp: head_below_def same_head_terms_def)

lemma accept_step:
  assumes "acceptExactHead h a t = Inr h'" "attempt_ok env a" "head_core env h"
  shows "head_core env h' \<and> head_below h h'"
proof -
  from assms(1) obtain c where c: "at_head a = Val c" by (auto simp: acceptExactHead_def split: opt_field.splits)
  show ?thesis
  proof (cases "already_advanced h a c")
    case True
    with assms(1,3) c show ?thesis by (simp add: acceptExactHead_def head_below_refl)
  next
    case False
    from assms(2) c have claim: "head_claim_ok (at_profile a) (at_transactionId a) (at_amount a) c"
      and "\<exists>v>0. at_amount a = int_to_string v" by (auto simp: attempt_ok_def)
    then obtain e d where ed: "0 \<le> e" "0 < d" "cl_expectedAmount c = int_to_string e"
      "hc_amount (cl_successor c) = int_to_string (e + d)"
      by (auto simp: head_claim_ok_def)
    from False assms(1) c obtain n where n: "0 \<le> n" "eh_version h = int_to_string n"
      and cur: "eh_currentAmount h = cl_expectedAmount c"
      and h': "h' = h\<lparr>eh_currentOutpoint := hc_outpoint (cl_successor c),
       eh_currentAmount := hc_amount (cl_successor c), eh_version := int_to_string (n + 1),
       eh_status := HeadAvailable, eh_updatedAt := t, eh_lastTransactionId := Val (at_transactionId a),
       eh_claimTransactionId := Undef, eh_unavailableReason := Undef\<rparr>"
      by (auto simp: acceptExactHead_def bindE_Inr parseSompiString_Inr split: if_splits)
    have amt: "\<exists>v>0. int_to_string (e + d) = int_to_string v" using ed(1,2) by (intro exI [of _ "e + d"]) simp
    have ver: "\<exists>v\<ge>0. int_to_string (n + 1) = int_to_string v" using n(1) by (intro exI [of _ "n + 1"]) simp
    have "same_head_terms h h'" by (simp add: h' same_head_terms_def)
    moreover from this have "head_core env h'"
      using head_core_same [OF assms(3)] amt ver by (simp add: h' ed(4))
    moreover have "nat n \<le> nat (n + 1)" "nat e \<le> nat (e + d)" "nat (n + 1) \<noteq> nat n" using ed(2) n(1) by auto
    ultimately show ?thesis using ed n cur by (simp add: head_below_def h')
  qed
qed

lemma lineage_step_core:
  assumes "applyExactHeadLineage env h l = Inr h'" "head_core env h"
  shows "head_core env h' \<and> head_below h h'"
proof -
  note l = lineage_effect [OF assms(1)]
  obtain h2 where norm: "h' = lower_head h2" "same_head_terms h h2"
    using assms(1) by (auto simp: applyExactHeadLineage_def bindE_Inr if_throw_Inr normalizeExactHeadRecord_Inr
        same_head_terms_def)
  have "same_head_terms h h'"
    using norm assms(2) by (simp add: same_head_terms_def lower_head_def head_core_def)
  moreover from l have "head_core env h'" using head_ok_core by blast
  moreover from l have "dec_val (eh_version h) < dec_val (eh_version h')" by auto
  moreover have "0 \<le> int (length (la_steps l)) * int (dec_val (eh_additiveThresholdSompi h))" by simp
  with l have "dec_val (eh_currentAmount h) \<le> dec_val (eh_currentAmount h')" by linarith
  ultimately show ?thesis by (auto simp: head_below_def)
qed

lemma release_step: "head_core env h \<Longrightarrow> head_core env (releaseExactHeadClaim h a t) \<and> head_below h (releaseExactHeadClaim h a t)"
  by (rule head_core_step) (auto simp: releaseExactHeadClaim_def same_head_terms_def)

lemma claim_step: "claimExactHead h a = Inr h' \<Longrightarrow> head_core env h \<Longrightarrow> head_core env h' \<and> head_below h h'"
  by (rule head_core_step) (auto simp: claimExactHead_Inr same_head_terms_def)

lemma pending_head: "pending_change a sn b s w res = Inr ch \<Longrightarrow> ch_head ch = None"
  by (rule pending_change_Inr)

lemma attempt_head:
  assumes "attemptTransition env cmd a sn = Inr ch" "ch_head ch = Some h'" "attempt_ok env a"
    and "\<And>h. sn_head sn = Some h \<Longrightarrow> head_core env h"
  shows "\<exists>h. sn_head sn = Some h \<and> head_core env h' \<and> head_below h h'"
proof (cases cmd)
  case (Accept t f w)
  then have "acceptTransition a sn f w = Inr ch" using assms(1) by (simp add: attemptTransition_def)
  then obtain h where "sn_head sn = Some h" "acceptExactHead h a w = Inr h'"
    using assms(2) by (auto simp: acceptTransition_def bindE_Inr split: if_splits opt_field.splits option.splits
        dest: pending_head)
  then show ?thesis using accept_step assms(3,4) by blast
next
  case (Abandon t r w)
  then have "abandonTransition a sn r w = Inr ch" using assms(1) by (simp add: attemptTransition_def)
  then obtain h where "sn_head sn = Some h" "h' = releaseExactHeadClaim h a w"
    using assms(2) by (auto simp: abandonTransition_def bindE_Inr Let_def split: if_splits opt_field.splits option.splits)
  then show ?thesis using release_step assms(4) by blast
next
  case (RecordResult t r w)
  with assms(1,2) show ?thesis
    by (auto simp: attemptTransition_def bindE_Inr split: if_splits opt_field.splits dest: pending_head)
qed (use assms(1,2) in \<open>auto simp: attemptTransition_def split: if_splits dest: pending_head\<close>)

section \<open>The decisions of one call\<close>

lemma prepare_head:
  assumes "prepareExactTransition env cmd sn = Inr ch" "ch_head ch = Some h'"
    and "\<And>a. sn_attempt sn = Some a \<Longrightarrow> attempt_ok env a" "\<And>h. sn_head sn = Some h \<Longrightarrow> head_core env h"
  shows "head_core env h' \<and> (\<forall>h. sn_head sn = Some h \<longrightarrow> head_below h h')
    \<and> (sn_head sn = None \<longrightarrow> (\<exists>x. cmd = RegisterHead x \<and> normalizeExactHeadRecord env x = Inr h'))"
proof -
  have att: ?thesis if "\<exists>a. sn_attempt sn = Some a \<and> attemptTransition env cmd a sn = Inr ch"
  proof -
    from that obtain a where "sn_attempt sn = Some a" "attemptTransition env cmd a sn = Inr ch" by blast
    then show ?thesis using attempt_head [OF _ assms(2)] assms(3,4) by fastforce
  qed
  show ?thesis
proof (cases cmd)
  case (RegisterHead x)
  show ?thesis
  proof (cases "sn_head sn")
    case None
    with assms(1,2) RegisterHead have "normalizeExactHeadRecord env x = Inr h'"
      by (auto simp: prepareExactTransition_def registerHead_def bindE_Inr split: option.splits if_splits)
    moreover from this have "head_core env h'" by (rule head_ok_core [OF normalized_head_ok])
    ultimately show ?thesis using None RegisterHead by simp
  next
    case (Some h)
    with assms(1,2) RegisterHead have "h' = h"
      by (auto simp: prepareExactTransition_def registerHead_def bindE_Inr split: if_splits)
    then show ?thesis using Some assms(4) head_below_refl by simp
  qed
next
  case (UnavailableHead u)
  then obtain h where h: "sn_head sn = Some h" "unavailableHead u h = Inr ch"
    using assms(1) by (auto simp: prepareExactTransition_def split: option.splits)
  then have "h' = h\<lparr>eh_status := HeadUnavailable, eh_unavailableReason := Val (ua_reason u), eh_updatedAt := ua_observedAt u\<rparr>"
    using assms(2) by (auto simp: unavailableHead_def Let_def split: if_splits)
  then have "head_core env h' \<and> head_below h h'"
    using head_core_step [OF assms(4) [OF h(1)], of h'] by (simp add: same_head_terms_def)
  then show ?thesis using h by simp
next
  case (Lineage l)
  then obtain h where h: "sn_head sn = Some h" "applyExactHeadLineage env h l = Inr h'"
    using assms(1,2) by (auto simp: prepareExactTransition_def bindE_Inr split: option.splits)
  then show ?thesis using lineage_step_core assms(4) by simp
next
  case (Claim x)
  then have "\<exists>a h. sn_head sn = Some h \<and> claimExactHead h a = Inr h'"
    using assms(1,2) by (auto simp: prepareExactTransition_def claimTransition_def claim_head_successor_def bindE_Inr
        split: if_splits option.splits opt_field.splits)
  then show ?thesis using claim_step assms(4) by auto
next
  case (Commit p i)
  with assms(1,2) show ?thesis
    by (auto simp: prepareExactTransition_def commitTransition_def bindE_Inr split: option.splits if_splits)
qed (rule att, use assms(1) in \<open>simp add: prepareExactTransition_def split: option.splits\<close>)+
qed

lemma prepare_payment:
  assumes "prepareExactTransition env cmd sn = Inr ch" "ch_payment ch = Some p"
  shows "sn_payment sn = None \<and> (\<exists>i. cmd = Commit p i)"
proof (cases cmd)
  case (Commit q i)
  with assms show ?thesis
    by (auto simp: prepareExactTransition_def commitTransition_def bindE_Inr split: option.splits if_splits)
next
  case (RegisterHead h)
  with assms show ?thesis
    by (auto simp: prepareExactTransition_def registerHead_def bindE_Inr split: option.splits if_splits)
next
  case (UnavailableHead u)
  with assms show ?thesis
    by (auto simp: prepareExactTransition_def unavailableHead_def Let_def split: option.splits if_splits)
next
  case (Claim a)
  with assms show ?thesis
    by (auto simp: prepareExactTransition_def claimTransition_def bindE_Inr split: option.splits if_splits)
qed (use assms in \<open>auto simp: prepareExactTransition_def attemptTransition_def acceptTransition_def
       abandonTransition_def bindE_Inr Let_def split: option.splits if_splits opt_field.splits
       dest: pending_change_Inr(3)\<close>)

lemma prepare_identifier:
  assumes "prepareExactTransition env cmd sn = Inr ch" "ch_identifier ch = Some d"
  shows "\<exists>a c. sn_attempt sn = Some a \<and> at_paymentIdentifier a = Val c \<and> rc_id c = pi_id d \<and> rc_id c \<noteq> []
    \<and> (\<forall>e. sn_identifier sn = Some e \<longrightarrow> same_identifier e d) \<and> (\<exists>p. cmd = Commit p (Some d))"
proof (cases cmd)
  case (Commit q i)
  with assms obtain a where i: "i = Some d" and a: "sn_attempt sn = Some a"
    and "assertPaymentIdentifierCompletion (val_of (at_paymentIdentifier a)) (Some d) (sn_reservation sn)
           (sn_identifier sn) = Inr ()"
    by (auto simp: prepareExactTransition_def commitTransition_def bindE_Inr split: option.splits if_splits)
  then obtain c where c: "at_paymentIdentifier a = Val c" "rc_id c = pi_id d" "rc_fingerprint c = pi_fingerprint d"
      "rc_paymentPayloadHash c = pi_paymentPayloadHash d" "rc_paymentScopeId c = pi_paymentScopeId d"
    and "assertPaymentIdentifierAvailable (Some c) (sn_reservation sn) (sn_identifier sn) = Inr ()"
    by (auto simp: assertPaymentIdentifierCompletion_def split: option.splits if_splits)
  then have "rc_id c \<noteq> []" "\<forall>e. sn_identifier sn = Some e \<longrightarrow> same_identifier e d"
    by (auto simp: assertPaymentIdentifierAvailable_def assertPaymentIdentifierReservationClaim_def bindE_Inr
        same_identifier_def split: if_splits)
  then show ?thesis using a c Commit i by blast
next
  case (RegisterHead h)
  with assms show ?thesis
    by (auto simp: prepareExactTransition_def registerHead_def bindE_Inr split: option.splits if_splits)
next
  case (UnavailableHead u)
  with assms show ?thesis
    by (auto simp: prepareExactTransition_def unavailableHead_def Let_def split: option.splits if_splits)
next
  case (Claim a)
  with assms show ?thesis
    by (auto simp: prepareExactTransition_def claimTransition_def bindE_Inr split: option.splits if_splits)
qed (use assms in \<open>auto simp: prepareExactTransition_def attemptTransition_def acceptTransition_def
       abandonTransition_def bindE_Inr Let_def split: option.splits if_splits opt_field.splits
       dest: pending_change_Inr(4)\<close>)

end
