(* ===== verification/Store_Safety.thy ===== *)
theory Store_Safety
  imports Store_Decisions
begin

text \<open>
  What the exact store never loses. Heads only move forward, a committed payment is never
  forgotten or reassigned, a payment identifier keeps its owner, and an accepted attempt stays
  until its payment is committed, whatever sequence of commands and expiries runs
  (interpretation \<open>exact_store\<close> of \<open>monotone_machine\<close>).
\<close>

section \<open>One transition\<close>

definition attempts_ok :: "environment \<Rightarrow> exact_store \<Rightarrow> bool" where
  "attempts_ok env st = (\<forall>t a. xs_attempts st t = Some a \<longrightarrow> attempt_ok env a \<and> at_transactionId a = t)"

definition heads_ok :: "environment \<Rightarrow> exact_store \<Rightarrow> bool" where
  "heads_ok env st = (\<forall>k h. map_of (xs_heads st) k = Some h \<longrightarrow> head_core env h \<and> eh_headId h = k)"

definition store_ok :: "environment \<Rightarrow> exact_store \<Rightarrow> bool" where
  "store_ok env st = (ledger_ok st \<and> attempts_ok env st \<and> heads_ok env st)"

definition heads_below :: "exact_store \<Rightarrow> exact_store \<Rightarrow> bool" where
  "heads_below st st' = (\<forall>k h. map_of (xs_heads st) k = Some h \<longrightarrow>
     (\<exists>h'. map_of (xs_heads st') k = Some h' \<and> head_below h h'))"

definition accepted_below :: "exact_store \<Rightarrow> exact_store \<Rightarrow> bool" where
  \<comment> \<open>an accepted attempt is still there on the same terms, or its payment is committed\<close>
  "accepted_below st st' = (\<forall>t a. xs_attempts st t = Some a \<longrightarrow> at_status a = AttemptAccepted \<longrightarrow>
     (\<exists>b. xs_attempts st' t = Some b \<and> at_status b = AttemptAccepted \<and> immutable_terms b = immutable_terms a)
     \<or> (t \<noteq> [] \<and> xs_payments st' t \<noteq> None))"

definition store_below :: "exact_store \<Rightarrow> exact_store \<Rightarrow> bool" where
  "store_below st st' = (heads_below st st' \<and> payments_below st st' \<and> identifiers_below st st' \<and> accepted_below st st')"

lemma attempts_okD:
  "attempts_ok env st \<Longrightarrow> xs_attempts st t = Some a \<Longrightarrow> attempt_ok env a"
  "attempts_ok env st \<Longrightarrow> xs_attempts st t = Some a \<Longrightarrow> at_transactionId a = t"
  by (auto simp: attempts_ok_def)

lemma payments_belowE:
  assumes "payments_below st st'" "xs_payments st t = Some p" "t \<noteq> []"
  shows "xs_payments st' t \<noteq> None"
  using assms by (auto simp: payments_below_def)

lemma store_below_refl: "store_below st st"
  by (auto simp: store_below_def heads_below_def head_below_refl payments_below_refl identifiers_below_refl
      accepted_below_def)

lemma accepted_below_trans:
  assumes "accepted_below st s2" "accepted_below s2 s3" "payments_below s2 s3"
  shows "accepted_below st s3"
  unfolding accepted_below_def
proof (intro allI impI)
  fix t a assume a: "xs_attempts st t = Some a" "at_status a = AttemptAccepted"
  with assms(1) consider b where "xs_attempts s2 t = Some b" "at_status b = AttemptAccepted"
      "immutable_terms b = immutable_terms a"
    | p where "t \<noteq> []" "xs_payments s2 t = Some p" unfolding accepted_below_def not_None_eq by blast
  then show "(\<exists>b. xs_attempts s3 t = Some b \<and> at_status b = AttemptAccepted \<and> immutable_terms b = immutable_terms a)
     \<or> (t \<noteq> [] \<and> xs_payments s3 t \<noteq> None)"
  proof cases
    case 1
    then show ?thesis using assms(2) by (force simp: accepted_below_def)
  next
    case 2
    then show ?thesis using payments_belowE [OF assms(3)] by blast
  qed
qed

lemma store_below_trans: "store_below st s2 \<Longrightarrow> store_below s2 s3 \<Longrightarrow> store_below st s3"
  unfolding store_below_def heads_below_def
  by (meson accepted_below_trans head_below_trans identifiers_below_trans payments_below_trans)

lemma quiet_step:
  assumes "store_ok env st" "quiet_below st st'" "ledger_ok st'"
  shows "store_ok env st'" "store_below st st'"
proof -
  have "attempts_ok env st'"
    using assms(1,2) unfolding attempts_ok_def store_ok_def quiet_below_def by (metis domI map_le_def)
  then show "store_ok env st'" using assms by (simp add: store_ok_def heads_ok_def quiet_below_def)
  show "store_below st st'"
    using assms(2) by (auto simp: store_below_def quiet_below_def heads_below_def head_below_refl accepted_below_def)
qed

lemma write_changes_simps [simp]:
  "xs_heads (write_changes ch st) = (case ch_head ch of None \<Rightarrow> xs_heads st
     | Some h \<Rightarrow> AList.update (eh_headId h) h (xs_heads st))"
  "xs_payments (write_changes ch st) = (case ch_payment ch of None \<Rightarrow> xs_payments st
     | Some p \<Rightarrow> (xs_payments st)(to_lower (ep_transactionId p) \<mapsto> p))"
  "xs_identifiers (write_changes ch st) = (case ch_identifier ch of None \<Rightarrow> xs_identifiers st
     | Some i \<Rightarrow> (xs_identifiers st)(pi_id i \<mapsto> i))"
  "xs_attempts (write_changes ch st) = (case ch_attempt ch of KeepAttempt \<Rightarrow> xs_attempts st
     | DeleteAttempt \<Rightarrow> (case ch_transactionId ch of None \<Rightarrow> xs_attempts st | Some t \<Rightarrow> (xs_attempts st)(t := None))
     | PutAttempt a \<Rightarrow> (xs_attempts st)(at_transactionId a \<mapsto> a))"
  by (simp_all add: write_changes_def)

lemma open_record_cong: "xs_budget st' = xs_budget st \<Longrightarrow> open_record st' t = open_record st t"
  by (simp add: open_record_def)

lemma settle_after:
  \<comment> \<open>closing the record of an attempt that is no longer open\<close>
  assumes "budget_ok (xs_budget st)" "\<And>k r. map_of (bs_records (xs_budget st)) k = Some r \<Longrightarrow> record_ok r"
    and "\<And>t' a. xs_attempts st t' = Some a \<Longrightarrow> at_status a \<noteq> AttemptApplied \<Longrightarrow> t' \<noteq> t \<and> open_record st t'"
    and "budget \<in> {Some (TerminalBudget t n i w), Some (DeleteBudget t)}"
    and "settle_budget limits time budget st = Inr st'"
  shows "ledger_ok st' \<and> quiet_below st st'"
proof -
  have other: "open_record (st\<lparr>xs_budget := b\<rparr>) t'"
    if "\<And>k. k \<noteq> ''exact:'' @ t \<Longrightarrow> map_of (bs_records b) k = map_of (bs_records (xs_budget st)) k"
      and a: "xs_attempts st t' = Some a" "at_status a \<noteq> AttemptApplied" for b t' a
    using that(1) [of "''exact:'' @ t'"] assms(3) [OF a] unfolding open_record_def by auto
  from assms(4) consider "budget = Some (TerminalBudget t n i w)" | "budget = Some (DeleteBudget t)" by blast
  then show ?thesis
  proof cases
    case 1
    then have "terminalizeBudgetRecord limits (nowMs time) (''exact:'' @ t) n None i w st = Inr st'"
      using assms(5) by (simp add: settle_budget_def)
    then show ?thesis
    proof (rule terminalize_Inr)
      fix cur r :: budget_record
      assume r: "map_of (bs_records (xs_budget st)) (''exact:'' @ t) = Some cur" "br_bytes r \<le> br_bytes cur"
        "br_key r = br_key cur" "br_payerId r = br_payerId cur" "br_kind r = br_kind cur"
        "br_attemptId r = br_attemptId cur" "br_terminalAt r = Some (nowMs time)"
      let ?b = "(xs_budget st)\<lparr>bs_bytes := bs_bytes (xs_budget st) + (int (br_bytes r) - int (br_bytes cur)),
         bs_records := AList.update (''exact:'' @ t) r (bs_records (xs_budget st)),
         bs_queue := AList.update (''exact:'' @ t) (nowMs time) (bs_queue (xs_budget st))\<rparr>"
      assume st': "st' = pruneTerminalBudgetRecords limits (nowMs time) (st\<lparr>xs_budget := ?b\<rparr>)"
      have "record_ok r" using assms(2) [OF r(1)] r by (simp add: record_ok_def)
      have "ledger_ok (st\<lparr>xs_budget := ?b\<rparr>)"
      proof (rule ledger_okI)
        show "budget_ok (xs_budget (st\<lparr>xs_budget := ?b\<rparr>))"
          using update_keeps_budget(1) [OF assms(1) r(1,3,4)] by simp
        show "record_ok v" if "map_of (bs_records (xs_budget (st\<lparr>xs_budget := ?b\<rparr>))) k = Some v" for k v
          using that assms(2) [of k v] \<open>record_ok r\<close> by (auto simp: AList.update_conv' split: if_splits)
        show "open_record (st\<lparr>xs_budget := ?b\<rparr>) t'"
          if "xs_attempts (st\<lparr>xs_budget := ?b\<rparr>) t' = Some a" "at_status a \<noteq> AttemptApplied" for t' a
          by (rule other) (use that in \<open>simp_all add: AList.update_conv'\<close>)
      qed
      from prune_quiet [OF this, of limits "nowMs time"] show ?thesis
        using quiet_below_trans [of st "st\<lparr>xs_budget := ?b\<rparr>"] quiet_below_refl [of "st\<lparr>xs_budget := ?b\<rparr>" st]
        unfolding st' by simp
    qed
  next
    case 2
    let ?b = "deleteBudgetRecord (''exact:'' @ t) (xs_budget st)"
    have st': "st' = st\<lparr>xs_budget := ?b\<rparr>" using 2 assms(5) by (simp add: settle_budget_def)
    have recs: "map_of (bs_records ?b) = (map_of (bs_records (xs_budget st)))(''exact:'' @ t := None)"
      by (cases "map_of (bs_records (xs_budget st)) (''exact:'' @ t)")
        (auto simp: deleteBudgetRecord_def Let_def AList.delete_conv' fun_eq_iff)
    have "ledger_ok st'" unfolding st'
    proof (rule ledger_okI)
      show "budget_ok (xs_budget (st\<lparr>xs_budget := ?b\<rparr>))" using assms(1) delete_keeps_ok by simp
      show "record_ok v" if "map_of (bs_records (xs_budget (st\<lparr>xs_budget := ?b\<rparr>))) k = Some v" for k v
        using that assms(2) [of k v] by (simp add: recs [simplified] split: if_splits)
      show "open_record (st\<lparr>xs_budget := ?b\<rparr>) t'"
        if "xs_attempts (st\<lparr>xs_budget := ?b\<rparr>) t' = Some a" "at_status a \<noteq> AttemptApplied" for t' a
        by (rule other) (use that in \<open>simp_all add: recs [simplified]\<close>)
    qed
    then show ?thesis unfolding st' using quiet_below_refl [of "st\<lparr>xs_budget := ?b\<rparr>" st] by simp
  qed
qed

definition decided_change ::
  "environment \<Rightarrow> exact_store \<Rightarrow> exact_attempt option \<Rightarrow> transition_changes \<Rightarrow> bool" where
  \<comment> \<open>what a decision that is about to be written promises about the store it was read from\<close>
  "decided_change env st sa ch = (store_ok env st \<and> attempt_effect env sa ch
     \<and> (\<forall>a. sa = Some a \<longrightarrow> xs_attempts st (at_transactionId a) = Some a)
     \<and> (\<forall>b. sa = None \<longrightarrow> ch_attempt ch = PutAttempt b \<longrightarrow> xs_attempts st (at_transactionId b) = None)
     \<and> (\<forall>p. ch_payment ch = Some p \<longrightarrow> to_lower (ep_transactionId p) \<noteq> []
          \<longrightarrow> xs_payments st (to_lower (ep_transactionId p)) = None)
     \<and> (\<forall>p a. ch_payment ch = Some p \<longrightarrow> sa = Some a \<longrightarrow> to_lower (ep_transactionId p) = at_transactionId a)
     \<and> (\<forall>d e. ch_identifier ch = Some d \<longrightarrow> xs_identifiers st (pi_id d) = Some e \<longrightarrow> same_identifier e d)
     \<and> (\<forall>h'. ch_head ch = Some h' \<longrightarrow> head_core env h'
          \<and> (\<forall>h. map_of (xs_heads st) (eh_headId h') = Some h \<longrightarrow> head_below h h')))"

lemma decided_changeD:
  assumes "decided_change env st sa ch"
  shows "ledger_ok st" "attempts_ok env st" "heads_ok env st" "attempt_effect env sa ch"
    "\<And>a. sa = Some a \<Longrightarrow> xs_attempts st (at_transactionId a) = Some a"
    "\<And>b. sa = None \<Longrightarrow> ch_attempt ch = PutAttempt b \<Longrightarrow> xs_attempts st (at_transactionId b) = None"
    "\<And>p. ch_payment ch = Some p \<Longrightarrow> to_lower (ep_transactionId p) \<noteq> []
          \<Longrightarrow> xs_payments st (to_lower (ep_transactionId p)) = None"
    "\<And>p a. ch_payment ch = Some p \<Longrightarrow> sa = Some a \<Longrightarrow> to_lower (ep_transactionId p) = at_transactionId a"
    "\<And>d e. ch_identifier ch = Some d \<Longrightarrow> xs_identifiers st (pi_id d) = Some e \<Longrightarrow> same_identifier e d"
    "\<And>h'. ch_head ch = Some h' \<Longrightarrow> head_core env h'
          \<and> (\<forall>h. map_of (xs_heads st) (eh_headId h') = Some h \<longrightarrow> head_below h h')"
  using assms unfolding decided_change_def store_ok_def by blast+

lemmas decided_effect = decided_changeD(4) and decided_stored = decided_changeD(5)
  and decided_fresh = decided_changeD(6) and decided_payment = decided_changeD(7,8)
  and decided_identifier = decided_changeD(9) and decided_head = decided_changeD(10)

lemma stored_txid:
  assumes "decided_change env st sa ch" "sa = Some a"
  shows "attempt_ok env a \<and> at_transactionId a \<noteq> []"
  using attempts_okD(1) [OF decided_changeD(2) [OF assms(1)] decided_stored [OF assms]] hash32_txid [of env a]
  by (auto simp: is_hash32_def)

lemma write_heads:
  assumes d: "decided_change env st sa ch" and "xs_heads s1 = xs_heads st"
  shows "heads_below st (write_changes ch s1)" "heads_ok env (write_changes ch s1)"
proof -
  have upd: "map_of (AList.update k h hs) = (map_of hs)(k \<mapsto> h)" for k h and hs :: "(string \<times> exact_head) list"
    by (simp add: AList.update_conv')
  show "heads_below st (write_changes ch s1)"
    using decided_head [OF d] by (cases "ch_head ch") (auto simp: heads_below_def head_below_refl upd assms(2))
  show "heads_ok env (write_changes ch s1)"
    using decided_head [OF d] decided_changeD(3) [OF d] by (cases "ch_head ch") (auto simp: heads_ok_def upd assms(2) split: if_splits)
qed

lemma write_payments:
  assumes d: "decided_change env st sa ch" and below: "payments_below st s1" "\<forall>t. xs_payments st t = None \<longrightarrow> xs_payments s1 t = None"
  shows "payments_below st (write_changes ch s1)"
proof (cases "ch_payment ch")
  case None
  then show ?thesis using below(1) by (simp add: payments_below_def)
next
  case (Some p)
  have "t \<noteq> to_lower (ep_transactionId p)" if "t \<noteq> []" "xs_payments st t = Some q" for t q
    using decided_payment(1) [OF d Some] that by auto
  then show ?thesis using below(1) Some by (auto simp: payments_below_def)
qed

lemma write_identifiers:
  assumes d: "decided_change env st sa ch" and "identifiers_below st s1"
  shows "identifiers_below st (write_changes ch s1)"
  using assms(2) decided_identifier [OF d] by (cases "ch_identifier ch") (auto simp: identifiers_below_def)

lemma changed_attempt:
  assumes "decided_change env st sa ch" "sa = Some a" "same_terms a b"
  shows "at_transactionId b = at_transactionId a \<and> attempt_ok env b"
  using attempt_ok_terms(1) [OF assms(3), of env] attempt_ok_terms(2) [OF assms(3)] stored_txid [OF assms(1,2)] by simp

lemma write_attempts:
  assumes d: "decided_change env st sa ch"
    and check: "check_budget limits time (ch_budget ch) st = (s1, Inr u)"
    and settle: "settle_budget limits time (ch_budget ch) (write_changes ch s1) = Inr st'"
  shows "ledger_ok st' \<and> quiet_below (write_changes ch s1) st' \<and> attempts_ok env (write_changes ch s1)
    \<and> accepted_below st (write_changes ch s1)"
proof -
  note ledger = decided_changeD(1) [OF d] and attempts = decided_changeD(2) [OF d]
  note q = check_quiet [OF ledger check]
  let ?s2 = "write_changes ch s1"
  have same: "s1 = st" if "\<And>b n. ch_budget ch \<noteq> Some (AdmitBudget b n)"
    using check that by (auto simp: check_budget_def split: option.splits transition_budget.splits)
  have none: "st' = ?s2" if "ch_budget ch = None \<or> (\<exists>b n. ch_budget ch = Some (AdmitBudget b n))"
    using settle that by (auto simp: settle_budget_def)
  have keep: "xs_attempts s1 t = Some a" if "xs_attempts st t = Some a" "at_status a \<noteq> AttemptApplied" for t a
    using q that by (auto simp: quiet_below_def)
  have ok1: "attempts_ok env s1"
    using q attempts unfolding quiet_below_def attempts_ok_def by (metis domI map_le_def)
  have b2: "budget_ok (xs_budget ?s2)" "\<And>k r. map_of (bs_records (xs_budget ?s2)) k = Some r \<Longrightarrow> record_ok r"
    using q by (auto simp: ledger_ok_def)
  have opn: "open_record ?s2 t" if "xs_attempts s1 t = Some a" "at_status a \<noteq> AttemptApplied" for t a
    using q ledger_open [OF _ that] open_record_cong [of ?s2 s1 t] by simp
  from decided_effect [OF d] show ?thesis
  proof cases
    case idle
    then have at: "xs_attempts ?s2 = xs_attempts s1" by simp
    have "ledger_ok ?s2" using b2 opn at by (intro ledger_okI) simp_all
    then show ?thesis using none idle ok1 at keep quiet_below_refl [of ?s2 ?s2]
      by (auto simp: attempts_ok_def accepted_below_def)
  next
    case (admit b n)
    then have at: "xs_attempts ?s2 = (xs_attempts s1)(at_transactionId b \<mapsto> b)" by simp
    have fresh: "xs_attempts st (at_transactionId b) = None" using decided_fresh [OF d] admit by blast
    have "open_record ?s2 (at_transactionId b)"
      using q admit open_record_cong [of ?s2 s1 "at_transactionId b"] by simp
    then have "ledger_ok ?s2" using b2 opn at by (intro ledger_okI) (simp_all split: if_splits)
    moreover have "attempts_ok env ?s2" using ok1 admit at by (auto simp: attempts_ok_def)
    moreover have "accepted_below st ?s2" using keep fresh at by (auto simp: accepted_below_def)
    ultimately show ?thesis using none admit quiet_below_refl [of ?s2 ?s2] by auto
  next
    case (progress b a)
    then have s1: "s1 = st" using same by simp
    have b: "at_transactionId b = at_transactionId a" "attempt_ok env b" using changed_attempt [OF d progress(1,4)] by auto
    have at: "xs_attempts ?s2 = (xs_attempts st)(at_transactionId a \<mapsto> b)" using progress b s1 by simp
    have old: "xs_attempts st (at_transactionId a) = Some a" using decided_stored [OF d] progress by blast
    have "open_record ?s2 (at_transactionId a)" using opn [of "at_transactionId a" a] old progress s1 by simp
    then have "ledger_ok ?s2" using b2 opn at s1 by (intro ledger_okI) (simp_all split: if_splits)
    moreover have "attempts_ok env ?s2" using attempts b at by (auto simp: attempts_ok_def)
    moreover have "accepted_below st ?s2" using old progress at by (auto simp: accepted_below_def)
    ultimately show ?thesis using none progress quiet_below_refl [of ?s2 ?s2] by auto
  next
    case (finish b a n i w p)
    then have s1: "s1 = st" using same by simp
    have b: "at_transactionId b = at_transactionId a" "attempt_ok env b" using changed_attempt [OF d finish(1,4)] by auto
    have at: "xs_attempts ?s2 = (xs_attempts st)(at_transactionId a \<mapsto> b)" using finish b s1 by simp
    have old: "xs_attempts st (at_transactionId a) = Some a" using decided_stored [OF d] finish by blast
    have pay: "xs_payments ?s2 (at_transactionId a) = Some p" using finish decided_payment(2) [OF d, of p a] by simp
    have "ledger_ok st' \<and> quiet_below ?s2 st'"
      by (rule settle_after [OF _ _ _ _ settle, where t = "at_transactionId a" and n = n and i = i and w = w])
        (use b2 opn b(1) finish s1 in \<open>auto split: if_splits\<close>)
    moreover have "attempts_ok env ?s2" using attempts b at by (auto simp: attempts_ok_def)
    moreover have "accepted_below st ?s2"
      using pay stored_txid [OF d, of a] finish at by (auto simp: accepted_below_def)
    ultimately show ?thesis by blast
  next
    case (dropped a n i w)
    then have s1: "s1 = st" using same by auto
    have at: "xs_attempts ?s2 = (xs_attempts st)(at_transactionId a := None)" using dropped s1 by simp
    have old: "xs_attempts st (at_transactionId a) = Some a" using decided_stored [OF d] dropped by blast
    have "ledger_ok st' \<and> quiet_below ?s2 st'"
      by (rule settle_after [OF _ _ _ _ settle, where t = "at_transactionId a" and n = n and i = i and w = w])
        (use b2 opn at dropped s1 in \<open>auto split: if_splits\<close>)
    moreover have "attempts_ok env ?s2" using attempts at by (auto simp: attempts_ok_def)
    moreover have "accepted_below st ?s2" using old dropped at by (auto simp: accepted_below_def)
    ultimately show ?thesis by blast
  qed
qed

lemma write_step:
  assumes d: "decided_change env st sa ch"
    and check: "check_budget limits time (ch_budget ch) st = (s1, Inr u)"
    and settle: "settle_budget limits time (ch_budget ch) (write_changes ch s1) = Inr st'"
  shows "store_ok env st' \<and> store_below st st'"
proof -
  note q = check_quiet [OF decided_changeD(1) [OF d] check] and w = write_attempts [OF d check settle]
  let ?s2 = "write_changes ch s1"
  have "store_below st ?s2"
    using w q write_heads(1) [OF d] write_payments [OF d] write_identifiers [OF d] by (simp add: store_below_def quiet_below_def)
  moreover have "heads_ok env ?s2" using q write_heads(2) [OF d] by (simp add: quiet_below_def)
  moreover have "store_below ?s2 st'"
    using w by (auto simp: store_below_def quiet_below_def heads_below_def head_below_refl accepted_below_def)
  moreover have "attempts_ok env st'"
    using w unfolding quiet_below_def attempts_ok_def by (metis domI map_le_def)
  ultimately show ?thesis
    using w store_below_trans by (auto simp: store_ok_def heads_ok_def quiet_below_def)
qed

section \<open>Whole runs\<close>

lemma scope_attempt:
  assumes "exactTransitionScope env cmd None = Inr initial" "exactTransitionScope env cmd attempt = Inr scope"
  shows "sc_transactionId scope = sc_transactionId initial"
  using assms by (cases cmd) (auto simp: exactTransitionScope_def bindE_Inr)

lemma snapshot_of_simps [simp]:
  "sn_attempt (snapshot_of limits time command scope attempt st) = attempt"
  "sn_head (snapshot_of limits time command scope attempt st)
     = Option.bind (sc_headId scope) (\<lambda>i. if i = [] then None else map_of (xs_heads st) i)"
  "sn_payment (snapshot_of limits time command scope attempt st)
     = Option.bind (sc_transactionId scope) (\<lambda>t. if t = [] then None else xs_payments st (to_lower t))"
  "sn_identifier (snapshot_of limits time command scope attempt st)
     = Option.bind (sc_identifierId scope) (\<lambda>i. if i = [] then None else xs_identifiers st i)"
  by (simp_all add: snapshot_of_def Let_def)

lemma prepare_admits:
  assumes "prepareExactTransition env cmd sn = Inr ch" "sn_attempt sn = None" "ch_attempt ch = PutAttempt b"
  shows "\<exists>x. cmd = Claim x \<and> normalizeExactSettlementAttempt env x = Inr b"
  using assms
  by (cases cmd) (auto simp: prepareExactTransition_def registerHead_def unavailableHead_def Let_def
      bindE_Inr claimTransition_def commitTransition_def split: option.splits if_splits)

lemma transition_decides:
  assumes ok: "store_ok env st" and run: "exactTransitionScope env command None = Inr initial"
    and attempt: "attempt = Option.bind (sc_transactionId initial) (\<lambda>t. if t = [] then None else xs_attempts st t)"
    and scope: "exactTransitionScope env command attempt = Inr scope"
    and prep: "prepareExactTransition env command (snapshot_of limits time command scope attempt st) = Inr ch"
  shows "decided_change env st attempt ch"
proof -
  let ?sn = "snapshot_of limits time command scope attempt st"
  have aok: "attempts_ok env st" and hok: "heads_ok env st" using ok by (simp_all add: store_ok_def)
  have stored: "xs_attempts st (at_transactionId a) = Some a \<and> attempt_ok env a
      \<and> sc_transactionId initial = Some (at_transactionId a)" if "attempt = Some a" for a
    using that attempt attempts_okD [OF aok] by (cases "sc_transactionId initial") (auto split: if_splits)
  have hd: "head_core env h \<and> eh_headId h = i" if "sn_head ?sn = Some h" "sc_headId scope = Some i" for h i
    using that hok by (auto simp: heads_ok_def split: if_splits)
  have hd': "\<exists>i. sc_headId scope = Some i" if "sn_head ?sn = Some h" for h
    using that by (cases "sc_headId scope") auto
  have att: "attempt_ok env a" if "sn_attempt ?sn = Some a" for a using stored that by simp
  have hd'': "head_core env h" if "sn_head ?sn = Some h" for h using hd [OF that] hd' [OF that] by blast
  have advance: "head_core env h' \<and> (\<forall>h. map_of (xs_heads st) (eh_headId h') = Some h \<longrightarrow> head_below h h')"
    if h': "ch_head ch = Some h'" for h'
  proof -
    have pre: "head_core env h'" "\<And>h. sn_head ?sn = Some h \<Longrightarrow> head_below h h'"
      "sn_head ?sn = None \<Longrightarrow> \<exists>x. command = RegisterHead x \<and> normalizeExactHeadRecord env x = Inr h'"
      using prepare_head [OF prep h' att hd''] by blast+
    have "head_below h h'" if old: "map_of (xs_heads st) (eh_headId h') = Some h" for h
    proof (cases "sn_head ?sn")
      case None
      then obtain x where x: "command = RegisterHead x" "normalizeExactHeadRecord env x = Inr h'" using pre(3) by blast
      have "eh_headId h' \<noteq> []" using pre(1) by (auto simp: head_core_def head_terms_ok_def is_hash32_def)
      moreover have "sc_headId scope = Some (eh_headId h')"
        using scope x by (auto simp: exactTransitionScope_def bindE_Inr)
      ultimately show ?thesis using None old by simp
    next
      case (Some h0)
      obtain i where i: "sc_headId scope = Some i" using hd' [OF Some] by blast
      have "eh_headId h0 = i" using hd [OF Some i] by blast
      moreover have "eh_headId h' = eh_headId h0" using pre(2) [OF Some] by (simp add: head_below_def same_head_terms_def)
      ultimately have "h = h0" using Some old i by (auto split: if_splits)
      then show ?thesis using pre(2) Some by simp
    qed
    with pre(1) show ?thesis by blast
  qed
  show ?thesis
    unfolding decided_change_def
  proof (intro conjI allI impI)
    show "store_ok env st" by (rule ok)
    show "xs_attempts st (at_transactionId a) = Some a" if "attempt = Some a" for a using stored [OF that] by blast
    show "attempt_effect env attempt ch" using prepare_effect [OF prep] by simp
  next
    fix b assume none: "attempt = None" and put: "ch_attempt ch = PutAttempt b"
    from prepare_admits [OF prep _ put] none have "\<exists>x. command = Claim x \<and> normalizeExactSettlementAttempt env x = Inr b"
      by simp
    then obtain x where x: "command = Claim x" "normalizeExactSettlementAttempt env x = Inr b" by blast
    note n = normalizeExactSettlementAttempt_Inr [OF x(2)]
    have "sc_transactionId initial = Some (at_transactionId b)"
      using run x n(6) by (auto simp: exactTransitionScope_def bindE_Inr command_transaction_def)
    moreover have "at_transactionId b \<noteq> []" using hash32_txid [OF n(1)] by (auto simp: is_hash32_def)
    ultimately show "xs_attempts st (at_transactionId b) = None" using attempt none by simp
  next
    fix p assume "ch_payment ch = Some p" and ne: "to_lower (ep_transactionId p) \<noteq> []"
    from prepare_payment [OF prep this(1)] obtain i where "sn_payment ?sn = None" "command = Commit p i" by blast
    then show "xs_payments st (to_lower (ep_transactionId p)) = None"
      using scope ne by (auto simp: exactTransitionScope_def command_transaction_def split: if_splits)
  next
    fix p a assume "ch_payment ch = Some p" and a: "attempt = Some a"
    from prepare_payment [OF prep this(1)] obtain i where "command = Commit p i" by blast
    then show "to_lower (ep_transactionId p) = at_transactionId a"
      using run stored [OF a] by (auto simp: exactTransitionScope_def command_transaction_def)
  next
    fix d e assume "ch_identifier ch = Some d" and e: "xs_identifiers st (pi_id d) = Some e"
    from prepare_identifier [OF prep this(1)] obtain a c p where i: "attempt = Some a" "at_paymentIdentifier a = Val c"
      "rc_id c = pi_id d" "rc_id c \<noteq> []" "\<forall>e. sn_identifier ?sn = Some e \<longrightarrow> same_identifier e d"
      "command = Commit p (Some d)" by auto
    have "sc_identifierId scope = Some (pi_id d)"
      using scope i by (auto simp: exactTransitionScope_def)
    then show "same_identifier e d" using i(3-5) e by simp
  qed (use advance in blast)+
qed

lemma step_ok:
  assumes "transition_run env limits time command st st' res" "store_ok env st"
  shows "store_ok env st' \<and> store_below st st'"
  using assms(1)
proof cases
  case rejected
  have "ledger_ok st" using assms(2) by (simp add: store_ok_def)
  note p = prune_quiet [OF this, of limits "nowMs time"]
  show ?thesis using rejected quiet_step [OF assms(2)] p assms(2) store_below_refl by auto
next
  case (written initial attempt scope changes st1 u)
  show ?thesis using write_step [OF transition_decides [OF assms(2) written(2-5)] written(6,7)] .
qed

interpretation exact_store: monotone_machine "store_step env limits" "store_ok env" store_below for env limits
proof
  fix st c st' assume inv: "store_ok env st" and step: "store_step env limits st c = Inr st'"
  obtain res where "transition_run env limits (fst c) (snd c) st st' res" using store_step_run [OF step] ..
  from step_ok [OF this inv] show "store_ok env st'" "store_below st st'" by simp_all
qed (fact store_below_refl store_below_trans)+

definition store_after :: "environment \<Rightarrow> durable_limits \<Rightarrow> (clock \<times> exact_command) list \<Rightarrow> exact_store" where
  \<comment> \<open>the store after a sequence of timed commands, those that throw included\<close>
  "store_after env limits cs = run_cmds (store_step env limits) empty_store cs"

lemma empty_store_ok: "store_ok env empty_store"
  using empty_store_budget by (auto simp: store_ok_def ledger_ok_def attempts_ok_def heads_ok_def empty_store_def)

lemma reachable_ok: "store_ok env (store_after env limits cs)"
  unfolding store_after_def by (rule exact_store.run_inv) (rule empty_store_ok)

lemma reachable_below: "store_below (store_after env limits cs) (store_after env limits (cs @ ds))"
  unfolding store_after_def by (rule exact_store.run_prefix_below) (rule empty_store_ok)




text \<open>Every attempt in the store is valid, is stored under its transaction id, and as long as
  it is not applied owns an open budget record, so that its commit or release never fails for
  want of a reservation.\<close>

theorem open_attempts_budgeted:
  assumes "xs_attempts (store_after env limits cs) t = Some a"
  shows "attempt_ok env a \<and> at_transactionId a = t
    \<and> (at_status a \<noteq> AttemptApplied \<longrightarrow> open_record (store_after env limits cs) t)"
  using reachable_ok [of env limits cs] assms by (simp add: store_ok_def attempts_ok_def ledger_ok_def)


text \<open>A call that throws has written nothing: the store is unchanged, or only expired records
  were pruned from it; in particular no record write is followed by a failing quota check.\<close>

theorem failed_call_writes_nothing:
  assumes "applyExactTransition env limits time command st = (st', Inl e)"
  shows "st' = st \<or> st' = pruneTerminalBudgetRecords limits (nowMs time) st"
  using apply_runs [OF assms] by cases

section \<open>A concrete run\<close>

definition native_example :: exact_attempt where
  "native_example = attempt_example\<lparr>at_profile := ''standard-native'', at_head := Absent, at_paymentIdentifier := Absent\<rparr>"

definition limits_example :: durable_limits where
  "limits_example = \<lparr>lim_maxRecords = 1, lim_maxBytes = durableOpenRecordBytes (attempt_json native_example),
     lim_maxRecordsPerPayer = 1, lim_maxExactHeads = 1, lim_terminalRetentionMs = 86400000\<rparr>"

definition clock_example :: clock where
  "clock_example = \<lparr>nowIso = example_time, nowMs = 1767225600000\<rparr>"

definition example_commands :: "(clock \<times> exact_command) list" where
  "example_commands = [(clock_example, Claim native_example),
     (clock_example, Accept (replicate 64 (CHR ''d'')) ''accepted'' example_deadline)]"

lemma native_example_normal: "normalizeExactSettlementAttempt example_env native_example = Inr native_example"
proof -
  have "normalizeExactSettlementAttempt example_env attempt_example = Inr attempt_example"
    by (rule attempt_example_normal)
  then show ?thesis
    unfolding native_example_def
    by (auto simp: normalizeExactSettlementAttempt_def bindE_Inr Let_def attempt_example_def split: if_splits)
qed

lemma native_claim:
  "prepareExactTransition example_env (Claim native_example)
     (snapshot_of limits_example clock_example (Claim native_example)
        \<lparr>sc_transactionId = Some (replicate 64 (CHR ''d'')), sc_headId = None, sc_identifierId = None\<rparr> None empty_store)
   = Inr ((only_result (ResultClaim native_example True))
            \<lparr>ch_transactionId := Some (replicate 64 (CHR ''d'')), ch_attempt := PutAttempt native_example,
             ch_budget := Some (AdmitBudget native_example (durableOpenRecordBytes (attempt_json native_example)))\<rparr>)"
proof -
  have "\<not> claim_expired example_env example_time native_example"
    by (simp add: claim_expired_def deadline_passed_def native_example_def attempt_example_def example_env_def
        example_time_def example_deadline_def)
  then have c: "claim_expired example_env (sn_now (snapshot_of limits_example clock_example (Claim native_example)
        \<lparr>sc_transactionId = Some (replicate 64 (CHR ''d'')), sc_headId = None, sc_identifierId = None\<rparr> None empty_store))
        native_example = False"
    by (simp add: snapshot_of_def clock_example_def Let_def)
  show ?thesis
    unfolding prepareExactTransition_def exact_command.case claimTransition_def native_example_normal bindE_simps
      snapshot_of_simps option.case c if_False
    by (simp add: native_example_def attempt_example_def claim_head_successor_def only_result_def
        assertPaymentIdentifierAvailable_def transitionPaymentIdentifierReservation_def)
qed

lemma native_fields:
  "at_transactionId native_example = replicate 64 (CHR ''d'')" "at_head native_example = Absent"
  "at_paymentIdentifier native_example = Absent" "at_status native_example = AttemptPending"
  "at_profile native_example = ''standard-native''"
  by (simp_all add: native_example_def attempt_example_def)

lemma native_scope:
  "exactTransitionScope example_env (Claim native_example) x = Inr
     \<lparr>sc_transactionId = Some (replicate 64 (CHR ''d'')), sc_headId = None, sc_identifierId = None\<rparr>"
  by (simp add: exactTransitionScope_def native_example_normal native_fields command_transaction_def lower_replicate
      example_digits)

definition claimed_store :: exact_store where
  "claimed_store = fst (applyExactTransition example_env limits_example clock_example (Claim native_example) empty_store)"

lemma empty_store_simps:
  "xs_attempts empty_store = Map.empty" "xs_payments empty_store = Map.empty" "xs_heads empty_store = []"
  "xs_budget empty_store = \<lparr>bs_records = [], bs_payerCounts = Map.empty, bs_queue = [], bs_bytes = 0\<rparr>"
  "empty_store\<lparr>xs_budget := xs_budget empty_store\<rparr> = empty_store"
  by (simp_all add: empty_store_def)

lemma native_admitted:
  "\<exists>b. check_budget limits_example clock_example
     (Some (AdmitBudget native_example (durableOpenRecordBytes (attempt_json native_example)))) empty_store
   = (empty_store\<lparr>xs_budget := b\<rparr>, Inr ())"
  by (simp add: check_budget_def admitBudgetRecord_def native_fields pruneTerminalBudgetRecords_def empty_store_simps
      safelyReleasedPaymentIdentifierReclaim_def admit_checked_def limits_example_def payer_count_def Let_def) blast

lemma claimed_store_attempts:
  "xs_attempts claimed_store = [replicate 64 (CHR ''d'') \<mapsto> native_example]"
proof -
  obtain b where b: "check_budget limits_example clock_example
     (Some (AdmitBudget native_example (durableOpenRecordBytes (attempt_json native_example)))) empty_store
   = (empty_store\<lparr>xs_budget := b\<rparr>, Inr ())" using native_admitted by blast
  show ?thesis
    unfolding claimed_store_def applyExactTransition_def native_scope
    by (simp add: Let_def native_claim [simplified] empty_store_simps b settle_budget_def native_fields)
qed

lemma accepted_after:
  "xs_attempts (store_after example_env limits_example example_commands) (replicate 64 (CHR ''d''))
   = Some (native_example\<lparr>at_status := AttemptAccepted, at_finality := Val ''accepted'', at_updatedAt := example_deadline\<rparr>)"
  (is "_ = Some ?b")
proof -
  let ?c = "Accept (replicate 64 (CHR ''d'')) ''accepted'' example_deadline"
  have sc: "exactTransitionScope example_env ?c x = Inr \<lparr>sc_transactionId = Some (replicate 64 (CHR ''d'')),
      sc_headId = Option.bind x (\<lambda>a. map_option cl_headId (val_of (at_head a))),
      sc_identifierId = Option.bind x (\<lambda>a. map_option rc_id (val_of (at_paymentIdentifier a)))\<rparr>" for x
    by (cases x) (simp_all add: exactTransitionScope_def command_transaction_def lower_replicate example_digits
        split: option.splits)
  have "fst (applyExactTransition example_env limits_example clock_example ?c claimed_store)
      = write_changes ((only_result ResultUndefined)\<lparr>ch_transactionId := Some (replicate 64 (CHR ''d'')),
            ch_attempt := PutAttempt ?b\<rparr>) claimed_store"
    by (simp add: applyExactTransition_def sc Let_def claimed_store_attempts prepareExactTransition_def
        attemptTransition_def acceptTransition_def pending_change_def native_fields check_budget_def settle_budget_def
        transitionPaymentIdentifierReservation_def only_result_def)
  then show ?thesis
    by (simp add: store_after_def example_commands_def store_step_def claimed_store_def [symmetric] native_fields)
qed


theorem open_attempts_budgeted_witness:
  "open_record (store_after example_env limits_example example_commands) (replicate 64 (CHR ''d''))"
  using open_attempts_budgeted [OF accepted_after] by simp

theorem failed_call_writes_nothing_witness:
  "fst (applyExactTransition example_env limits_example clock_example (Recovery [] [] []) empty_store) \<in>
     {empty_store, pruneTerminalBudgetRecords limits_example (nowMs clock_example) empty_store}"
proof -
  have "\<exists>st' e. applyExactTransition example_env limits_example clock_example (Recovery [] [] []) empty_store = (st', Inl e)"
    by (simp add: applyExactTransition_def exactTransitionScope_def command_transaction_def Let_def
        prepareExactTransition_def)
  then obtain st' e where
    e: "applyExactTransition example_env limits_example clock_example (Recovery [] [] []) empty_store = (st', Inl e)"
    by blast
  then show ?thesis using failed_call_writes_nothing [OF e] by simp
qed

end
