(* ===== verification/Store_Logic.thy ===== *)
theory Store_Logic
  imports Channel_Store Store_Safety
begin

text \<open>
  The statements by which programs of the whole server store run the payment part of
  \<^verbatim>\<open>Exact_Store\<close>, in the weakest-precondition calculus of \<^verbatim>\<open>Store_Programs\<close>.
\<close>

lemma wp_settle [wp_simps]:
  "wp (settleS f) Q E = (\<lambda>s.
     case f (sv_payments s) of Inl e \<Rightarrow> E s | Inr p \<Rightarrow> Q () (s\<lparr>sv_payments := p\<rparr>))"
  by (simp add: fun_eq_iff wp_def settleS_def split: sum.splits)

lemma wp_payments [wp_simps]:
  "wp (paymentsS f) Q E = (\<lambda>s. case f (sv_payments s) of
      (p, Inl e) \<Rightarrow> E (s\<lparr>sv_payments := p\<rparr>) | (p, Inr x) \<Rightarrow> Q x (s\<lparr>sv_payments := p\<rparr>))"
  by (simp add: fun_eq_iff wp_def paymentsS_def split: sum.splits prod.splits)

end
