(* ===== verification/Batch_Ledger.thy ===== *)
theory Batch_Ledger
  imports Store_Logic
begin

text \<open>
  The batch side of the durable budget: a pending batch attempt owns an open budget record, and
  neither expiry nor the admission, completion or release of other records removes it.
\<close>

section \<open>Open budget records\<close>

definition records_ok :: "exact_store \<Rightarrow> bool" where
  "records_ok p = (budget_ok (xs_budget p)
     \<and> (\<forall>k r. map_of (bs_records (xs_budget p)) k = Some r \<longrightarrow> record_ok r))"

definition open_key :: "exact_store \<Rightarrow> string \<Rightarrow> bool" where
  "open_key p k = (\<exists>r. map_of (bs_records (xs_budget p)) k = Some r \<and> br_terminalAt r = None)"

definition holds_batch :: "exact_store \<Rightarrow> string \<Rightarrow> batch_attempt \<Rightarrow> bool" where
  \<comment> \<open>the attempt is stored and its budget record is open\<close>
  "holds_batch p i a = (xs_batchAttempts p i = Some a \<and> open_key p (''batch:'' @ i))"

definition batch_below :: "exact_store \<Rightarrow> exact_store \<Rightarrow> bool" where
  \<comment> \<open>what the rest of the store leaves of the batch attempts\<close>
  "batch_below p p' = (records_ok p' \<and> (\<forall>k. open_key p k \<longrightarrow> open_key p' k)
     \<and> (\<forall>i a. holds_batch p i a \<longrightarrow> holds_batch p' i a)
     \<and> (\<forall>i a. xs_batchAttempts p' i = Some a \<longrightarrow> xs_batchAttempts p i = Some a))"

lemma batch_belowD:
  assumes "batch_below p q"
  shows "records_ok q" "open_key p k \<Longrightarrow> open_key q k" "holds_batch p i a \<Longrightarrow> holds_batch q i a"
    "xs_batchAttempts q i = Some a \<Longrightarrow> xs_batchAttempts p i = Some a"
  using assms unfolding batch_below_def by blast+

lemma batch_below_refl: "records_ok p \<Longrightarrow> batch_below p p"
  by (simp add: batch_below_def)

lemma batch_below_trans: "batch_below p q \<Longrightarrow> batch_below q r \<Longrightarrow> batch_below p r"
  by (auto simp: batch_below_def)

lemma records_congs:
  assumes "bs_records (xs_budget q') = bs_records (xs_budget q)"
  shows "open_key q' = open_key q" "budget_ok (xs_budget q') = budget_ok (xs_budget q) \<Longrightarrow> records_ok q' = records_ok q"
    "xs_batchAttempts q' = xs_batchAttempts q \<Longrightarrow> holds_batch q' = holds_batch q"
  using assms by (simp_all add: fun_eq_iff open_key_def records_ok_def holds_batch_def)

lemma batch_below_same:
  assumes "batch_below p q" "xs_batchAttempts q' = xs_batchAttempts q"
    and "bs_records (xs_budget q') = bs_records (xs_budget q)" "budget_ok (xs_budget q') = budget_ok (xs_budget q)"
  shows "batch_below p q'"
  using assms(1) records_congs [OF assms(3)] assms(2,4) by (simp add: batch_below_def)

lemma record_key:
  "records_ok p \<Longrightarrow> map_of (bs_records (xs_budget p)) k = Some r \<Longrightarrow> k = budget_key (br_kind r) (br_attemptId r)"
  using budget_ok_key [of "xs_budget p" k r] by (auto simp: records_ok_def record_ok_def)

lemma released_not_open:
  "records_ok p \<Longrightarrow> map_of (bs_records (xs_budget p)) k = Some r \<Longrightarrow> br_safelyReleased r \<Longrightarrow> \<not> open_key p k"
  by (auto simp: records_ok_def record_ok_def open_key_def)

section \<open>Expiry\<close>

lemma delete_record_map:
  "map_of (bs_records b) k = Some r \<Longrightarrow> map_of (bs_records (deleteBudgetRecord k b)) = (map_of (bs_records b))(k := None)"
  by (simp add: delete_records(1) AList.delete_conv')

lemma delete_keeps_records:
  assumes "records_ok p" "\<not> open_key p k" "xs_budget q = deleteBudgetRecord k (xs_budget p)"
  shows "records_ok q \<and> (\<forall>j. open_key p j \<longrightarrow> open_key q j)"
proof (cases "map_of (bs_records (xs_budget p)) k")
  case None
  then have "xs_budget q = xs_budget p" using assms(3) by (simp add: deleteBudgetRecord_def)
  then show ?thesis using assms(1) by (simp add: records_ok_def open_key_def)
next
  case (Some r)
  then have "map_of (bs_records (xs_budget q)) = (map_of (bs_records (xs_budget p)))(k := None)"
    using assms(3) by (simp add: delete_record_map)
  then show ?thesis using assms by (auto simp: records_ok_def open_key_def delete_keeps_ok)
qed

lemma expire_batch_attempts:
  "xs_batchAttempts (expire_released r p) = xs_batchAttempts p"
  "xs_batchAttempts (expire_terminal r p) = (case br_kind r of ExactRecord \<Rightarrow> xs_batchAttempts p
     | BatchRecord \<Rightarrow> (xs_batchAttempts p)(br_attemptId r := None))"
  by (auto simp: expire_released_def expire_terminal_def Let_def split: option.splits budget_kind.splits)

lemma expire_below:
  assumes "records_ok p" "map_of (bs_records (xs_budget p)) k = Some r" "br_terminalAt r \<noteq> None"
  shows "batch_below p ((if br_safelyReleased r then expire_released r p else expire_terminal r p)
            \<lparr>xs_budget := deleteBudgetRecord k (xs_budget p)\<rparr>)" (is "batch_below p ?q")
proof -
  have closed: "\<not> open_key p k" using assms(2,3) by (simp add: open_key_def)
  note kept = delete_keeps_records [OF assms(1) closed, of ?q]
  have "i \<noteq> br_attemptId r" if "open_key p (''batch:'' @ i)" "br_kind r = BatchRecord" for i
    using that closed record_key [OF assms(1,2)] by (auto simp: budget_key_def)
  then show ?thesis using kept
    by (auto simp: batch_below_def holds_batch_def expire_batch_attempts split: if_splits budget_kind.splits)
qed

lemma prune_below:
  assumes "records_ok p"
  shows "batch_below p (pruneTerminalBudgetRecords limits now p)"
  unfolding pruneTerminalBudgetRecords_def
proof (rule prune_loop_rule [where P = "batch_below p"])
  show "batch_below p p" using assms by (rule batch_below_refl)
next
  fix s q assume "batch_below p s"
  then show "batch_below p (s\<lparr>xs_budget := (xs_budget s)\<lparr>bs_queue := q\<rparr>\<rparr>)"
    by (rule batch_below_same) simp_all
next
  fix s k r
  assume s: "batch_below p s" "map_of (bs_records (xs_budget s)) k = Some r" "br_terminalAt r \<noteq> None"
  show "batch_below p ((if br_safelyReleased r then expire_released r s else expire_terminal r s)
            \<lparr>xs_budget := deleteBudgetRecord k (xs_budget s)\<rparr>)"
    by (rule batch_below_trans [OF s(1) expire_below [OF batch_belowD(1) [OF s(1)] s(2,3)]])
qed

section \<open>Admission, completion and deletion of a record\<close>

lemma insert_below:
  assumes "records_ok p" "map_of (bs_records (xs_budget p)) (br_key r) = None" "record_ok r" "br_terminalAt r = None"
    and "xs_budget q = insert_budget_record (br_key r) r (xs_budget p)" "xs_batchAttempts q = xs_batchAttempts p"
  shows "batch_below p q \<and> open_key q (br_key r)"
proof -
  have ok: "budget_ok (xs_budget p)" using assms(1) by (simp add: records_ok_def)
  have recs: "map_of (bs_records (xs_budget q)) = (map_of (bs_records (xs_budget p)))(br_key r \<mapsto> r)"
    using insert_keeps_ok(2) [OF ok assms(2)] assms(2,5)
    by (auto simp: fun_eq_iff map_add_def split: option.splits)
  then have "records_ok q" using insert_keeps_ok(1) [OF ok assms(2)] assms(1,3,5) by (simp add: records_ok_def)
  moreover have "open_key q k" if "open_key p k" for k
    using that recs assms(2) by (auto simp: open_key_def)
  moreover have "open_key q (br_key r)" using recs assms(4) by (simp add: open_key_def)
  ultimately show ?thesis using assms(6) by (simp add: batch_below_def holds_batch_def)
qed

lemma admit_checked_below:
  assumes "records_ok p" "admit_checked limits (br_key r) r replacement p = (q, Inr u)"
    and rep: "\<And>i k old. replacement = Some (i, k, old) \<Longrightarrow>
           map_of (bs_records (xs_budget p)) k = Some old \<and> br_safelyReleased old"
    and fresh: "map_of (bs_records (xs_budget p)) (br_key r) \<noteq> None \<Longrightarrow> map_option (fst \<circ> snd) replacement = Some (br_key r)"
    and "record_ok r" "br_terminalAt r = None"
  shows "batch_below p q \<and> open_key q (br_key r)"
proof (cases replacement)
  case None
  then have "map_of (bs_records (xs_budget p)) (br_key r) = None" using fresh by fastforce
  moreover have "xs_budget q = insert_budget_record (br_key r) r (xs_budget p)" "xs_batchAttempts q = xs_batchAttempts p"
    using assms(2) None by (auto simp: admit_checked_def Let_def split: if_splits)
  ultimately show ?thesis using insert_below assms(1,5,6) by blast
next
  case (Some v)
  obtain i k old where v: "replacement = Some (i, k, old)" using Some by (cases v) auto
  from rep [OF v] have old: "map_of (bs_records (xs_budget p)) k = Some old" "br_safelyReleased old" by simp_all
  have key: "br_key old = k" using budget_ok_key [OF _ old(1)] assms(1) by (simp add: records_ok_def)
  let ?p = "p\<lparr>xs_budget := deleteBudgetRecord k (xs_budget p), xs_reservations := (xs_reservations p)(i := None)\<rparr>"
  have "records_ok ?p \<and> (\<forall>j. open_key p j \<longrightarrow> open_key ?p j)"
    using delete_keeps_records [OF assms(1) released_not_open [OF assms(1) old]] by simp
  then have p: "batch_below p ?p" by (simp add: batch_below_def holds_batch_def)
  have "map_of (bs_records (xs_budget ?p)) (br_key r) = None"
    using delete_record_map [OF old(1)] fresh v by (cases "map_of (bs_records (xs_budget p)) (br_key r)") auto
  moreover have "xs_budget q = insert_budget_record (br_key r) r (xs_budget ?p)" "xs_batchAttempts q = xs_batchAttempts ?p"
    using assms(2) v key by (auto simp: admit_checked_def Let_def split: if_splits)
  ultimately have "batch_below ?p q \<and> open_key q (br_key r)"
    using insert_below [of ?p r q] p assms(5,6) by (simp add: batch_below_def)
  then show ?thesis using p batch_below_trans by blast
qed

lemma admit_below:
  assumes "records_ok p" "admitBudgetRecord limits now (budget_key kind a) kind a payer i bytes claim p = (q, res)"
  shows "batch_below p q \<and> (succeeds res \<longrightarrow> open_key q (budget_key kind a))"
proof (cases res)
  case (Inl e)
  then have "q = pruneTerminalBudgetRecords limits now p" using assms(2) admit_error by blast
  then show ?thesis using prune_below [OF assms(1)] Inl by simp
next
  case (Inr u)
  let ?p = "pruneTerminalBudgetRecords limits now p"
  let ?r = "\<lparr>br_key = budget_key kind a, br_kind = kind, br_attemptId = a, br_payerId = payer,
               br_bytes = bytes, br_terminalAt = None, br_commitmentId = None,
               br_paymentIdentifier = (if i = Some [] then None else i), br_safelyReleased = False\<rparr>"
  have p: "batch_below p ?p" using prune_below [OF assms(1)] .
  then have ok: "records_ok ?p" by (simp add: batch_below_def)
  from assms(2) Inr obtain rep where rep: "safelyReleasedPaymentIdentifierReclaim claim ?p = Inr rep"
    unfolding admitBudgetRecord_def Let_def by (cases "safelyReleasedPaymentIdentifierReclaim claim ?p") auto
  from assms(2) Inr rep have old: "\<not> (map_of (bs_records (xs_budget ?p)) (br_key ?r) \<noteq> None
        \<and> map_option (fst \<circ> snd) rep \<noteq> Some (br_key ?r))"
    and chk: "admit_checked limits (br_key ?r) ?r rep ?p = (q, Inr u)"
    unfolding admitBudgetRecord_def Let_def by (auto split: if_splits)
  have "record_ok ?r" by (simp add: record_ok_def)
  then have "batch_below ?p q \<and> open_key q (br_key ?r)"
    using old reclaim_Inr [of claim ?p] rep by (intro admit_checked_below [OF ok chk]) auto
  then show ?thesis using p Inr batch_below_trans by auto
qed

lemma terminalize_below:
  assumes "records_ok p" "terminalizeBudgetRecord limits now key bytes c i released p = Inr q"
  shows "records_ok q" "open_key p k \<Longrightarrow> k \<noteq> key \<Longrightarrow> open_key q k"
    "holds_batch p j a \<Longrightarrow> ''batch:'' @ j \<noteq> key \<Longrightarrow> holds_batch q j a"
    "xs_batchAttempts q j = Some a \<Longrightarrow> xs_batchAttempts p j = Some a"
proof -
  let ?upd = "\<lambda>cur r. p\<lparr>xs_budget := (xs_budget p)
        \<lparr>bs_bytes := bs_bytes (xs_budget p) + (int (br_bytes r) - int (br_bytes cur)),
         bs_records := AList.update key r (bs_records (xs_budget p)),
         bs_queue := AList.update key now (bs_queue (xs_budget p))\<rparr>\<rparr>"
  obtain cur r where t: "map_of (bs_records (xs_budget p)) key = Some cur" "br_bytes r \<le> br_bytes cur"
    "br_key r = br_key cur" "br_payerId r = br_payerId cur" "br_kind r = br_kind cur"
    "br_attemptId r = br_attemptId cur" "br_terminalAt r = Some now"
    and q: "q = pruneTerminalBudgetRecords limits now (?upd cur r)"
    using assms(2) by (rule terminalize_Inr)
  let ?p = "?upd cur r"
  have ok: "budget_ok (xs_budget p)" using assms(1) by (simp add: records_ok_def)
  have recs: "map_of (bs_records (xs_budget ?p)) = (map_of (bs_records (xs_budget p)))(key \<mapsto> r)"
    by (simp add: update_conv')
  have "record_ok cur" using t(1) assms(1) unfolding records_ok_def by blast
  then have "record_ok r" using t by (simp add: record_ok_def)
  then have "records_ok ?p" using update_keeps_budget(1) [OF ok t(1,3,4)] assms(1) recs
    unfolding records_ok_def by (auto split: if_splits)
  then have b: "batch_below ?p q" unfolding q by (rule prune_below)
  have key: "open_key ?p k" if "open_key p k" "k \<noteq> key" for k
    using that recs by (simp add: open_key_def)
  have keep: "holds_batch ?p j a" if "holds_batch p j a" "''batch:'' @ j \<noteq> key"
    using that(1) key [OF _ that(2)] unfolding holds_batch_def by simp
  show "records_ok q" using batch_belowD(1) [OF b] .
  show "open_key q k" if "open_key p k" "k \<noteq> key" using batch_belowD(2) [OF b key [OF that]] .
  show "holds_batch q j a" if "holds_batch p j a" "''batch:'' @ j \<noteq> key"
    using batch_belowD(3) [OF b keep [OF that]] .
  show "xs_batchAttempts p j = Some a" if "xs_batchAttempts q j = Some a"
    using batch_belowD(4) [OF b that] by simp
qed

lemma delete_other_below:
  assumes "records_ok p" "q = p\<lparr>xs_budget := deleteBudgetRecord key (xs_budget p)\<rparr>"
  shows "records_ok q" "open_key p k \<Longrightarrow> k \<noteq> key \<Longrightarrow> open_key q k"
proof -
  have "records_ok q \<and> (open_key p k \<longrightarrow> k \<noteq> key \<longrightarrow> open_key q k)"
  proof (cases "map_of (bs_records (xs_budget p)) key")
    case None
    then have "xs_budget q = xs_budget p" using assms(2) by (simp add: deleteBudgetRecord_def)
    then show ?thesis using assms(1) by (simp add: records_ok_def open_key_def)
  next
    case (Some r)
    then have "map_of (bs_records (xs_budget q)) = (map_of (bs_records (xs_budget p)))(key := None)"
      using assms(2) by (simp add: delete_record_map)
    then show ?thesis using assms by (auto simp: records_ok_def open_key_def delete_keeps_ok)
  qed
  then show "records_ok q" "open_key p k \<Longrightarrow> k \<noteq> key \<Longrightarrow> open_key q k" by simp_all
qed

section \<open>Exact calls\<close>

lemma exact_key_not_batch: "''exact:'' @ t \<noteq> ''batch:'' @ i"
  by simp

lemma check_below:
  assumes "records_ok p" "check_budget limits time budget p = (q, res)"
  shows "batch_below p q"
proof (cases "\<exists>b n. budget = Some (AdmitBudget b n)")
  case True
  then obtain b n where budget: "budget = Some (AdmitBudget b n)" by blast
  with assms(2) have "admitBudgetRecord limits (nowMs time) (budget_key ExactRecord (at_transactionId b)) ExactRecord
      (at_transactionId b) (at_payerId b) (map_option rc_id (val_of (at_paymentIdentifier b))) n
      (val_of (at_paymentIdentifier b)) p = (q, res)"
    by (simp add: check_budget_def budget_key_def)
  from admit_below [OF assms(1) this] show ?thesis by simp
next
  case False
  then have "q = p" using assms(2) by (auto simp: check_budget_def split: option.splits transition_budget.splits)
  then show ?thesis using assms(1) by (simp add: batch_below_refl)
qed

definition batch_keeps :: "exact_store \<Rightarrow> exact_store \<Rightarrow> bool" where
  "batch_keeps p p' = (records_ok p' \<and> (\<forall>i a. holds_batch p i a \<longrightarrow> holds_batch p' i a)
     \<and> (\<forall>i a. xs_batchAttempts p' i = Some a \<longrightarrow> xs_batchAttempts p i = Some a))"

lemma batch_below_keeps: "batch_below p q \<Longrightarrow> batch_keeps p q"
  by (simp add: batch_below_def batch_keeps_def)

lemma batch_keeps_trans: "batch_keeps p q \<Longrightarrow> batch_keeps q r \<Longrightarrow> batch_keeps p r"
  by (auto simp: batch_keeps_def)

lemma settle_keeps_batch:
  assumes "records_ok p" "settle_budget limits time budget p = Inr q"
  shows "batch_keeps p q"
proof (cases budget)
  case None
  then show ?thesis using assms by (simp add: settle_budget_def batch_keeps_def)
next
  case (Some b)
  show ?thesis
  proof (cases b)
    case (AdmitBudget x n)
    then show ?thesis using assms Some by (simp add: settle_budget_def batch_keeps_def)
  next
    case (TerminalBudget t n i w)
    then have "terminalizeBudgetRecord limits (nowMs time) (''exact:'' @ t) n None i w p = Inr q"
      using assms(2) Some by (simp add: settle_budget_def)
    from terminalize_below [OF assms(1) this] show ?thesis by (auto simp: batch_keeps_def)
  next
    case (DeleteBudget t)
    then have q: "q = p\<lparr>xs_budget := deleteBudgetRecord (''exact:'' @ t) (xs_budget p)\<rparr>"
      using assms(2) Some by (simp add: settle_budget_def)
    from delete_other_below [OF assms(1) this] show ?thesis
      by (simp add: batch_keeps_def holds_batch_def) (simp add: q)
  qed
qed

lemma exact_call_keeps_batch:
  assumes "records_ok p" "applyExactTransition env limits time command p = (q, res)"
  shows "batch_keeps p q"
  using apply_runs [OF assms(2)]
proof cases
  case (rejected e)
  then show ?thesis using assms(1) batch_below_keeps prune_below batch_below_refl by metis
next
  case (written initial attempt scope changes st1 u)
  have b: "batch_below p st1" using check_below [OF assms(1) written(6)] .
  then have "batch_below p (write_changes changes st1)"
    by (rule batch_below_same) (simp_all add: write_changes_def)
  moreover have "records_ok (write_changes changes st1)" using b by (simp add: batch_below_def records_ok_def)
  ultimately show ?thesis using settle_keeps_batch [OF _ written(7)] batch_below_keeps batch_keeps_trans by blast
qed

end
