(* ===== verification/Channel_Ownership.thy ===== *)
theory Channel_Ownership
  imports Batch_Ledger
begin

text \<open>
  Who owns a channel. In every reachable store an open batch settlement and an open claim of one
  channel exclude each other, and each is owned by the channel's operation lease.
\<close>

section \<open>The ownership invariant\<close>

definition batch_attempt_ok :: "string \<Rightarrow> batch_attempt \<Rightarrow> bool" where
  "batch_attempt_ok i a = (ba_attemptId a = i \<and> is_lower_hash32 i
     \<and> ba_operationKind a \<in> {''payment'', ''deposit'', ''top-up''})"

definition claim_record_ok :: "string \<Rightarrow> claim_attempt \<Rightarrow> bool" where
  "claim_record_ok i a = (ca_attemptId a = i \<and> assertClaimAttemptShape a = Inr ()
     \<and> wf_js (channel_json (ca_expected a)))"

definition owns_batch :: "server_store \<Rightarrow> string \<Rightarrow> string \<Rightarrow> bool" where
  "owns_batch s ch i = (\<exists>a l. holds_batch (sv_payments s) i a \<and> ba_status a = BatchPending \<and> ba_channelId a = ch
     \<and> sv_operations s ch = Some l \<and> cl_leaseId l = i \<and> cl_kind l = ba_operationKind a)"

definition owns_claim :: "server_store \<Rightarrow> string \<Rightarrow> string \<Rightarrow> bool" where
  "owns_claim s ch i = (\<exists>a l. sv_claimAttempts s i = Some a \<and> ca_status a \<noteq> ClaimApplied \<and> ca_channelId a = ch
     \<and> sv_operations s ch = Some l \<and> cl_leaseId l = ca_operationLeaseId a \<and> cl_kind l = ''claim'')"

definition batch_index_ok :: "server_store \<Rightarrow> bool" where
  "batch_index_ok s = (\<forall>i a. xs_batchAttempts (sv_payments s) i = Some a \<longrightarrow> batch_attempt_ok i a
     \<and> (ba_status a = BatchPending \<longrightarrow> sv_openBatch s (ba_channelId a) = Some i))"

definition claim_index_ok :: "server_store \<Rightarrow> bool" where
  "claim_index_ok s = (\<forall>i a. sv_claimAttempts s i = Some a \<longrightarrow> claim_record_ok i a
     \<and> (ca_status a \<noteq> ClaimApplied \<longrightarrow> sv_openClaim s (ca_channelId a) = Some i))"

definition owner_ok :: "server_store \<Rightarrow> bool" where
  "owner_ok s = (records_ok (sv_payments s) \<and> batch_index_ok s \<and> claim_index_ok s
     \<and> (\<forall>ch i. sv_openBatch s ch = Some i \<longrightarrow> owns_batch s ch i)
     \<and> (\<forall>ch i. sv_openClaim s ch = Some i \<longrightarrow> owns_claim s ch i)
     \<and> (\<forall>ch l. sv_operations s ch = Some l \<longrightarrow> cl_channelId l = ch))"

lemma owner_okD:
  assumes "owner_ok s"
  shows "records_ok (sv_payments s)"
    "xs_batchAttempts (sv_payments s) i = Some a \<Longrightarrow> batch_attempt_ok i a"
    "xs_batchAttempts (sv_payments s) i = Some a \<Longrightarrow> ba_status a = BatchPending \<Longrightarrow> sv_openBatch s (ba_channelId a) = Some i"
    "sv_claimAttempts s i = Some c \<Longrightarrow> claim_record_ok i c"
    "sv_claimAttempts s i = Some c \<Longrightarrow> ca_status c \<noteq> ClaimApplied \<Longrightarrow> sv_openClaim s (ca_channelId c) = Some i"
    "sv_openBatch s ch = Some i \<Longrightarrow> owns_batch s ch i"
    "sv_openClaim s ch = Some i \<Longrightarrow> owns_claim s ch i"
    "sv_operations s ch = Some l \<Longrightarrow> cl_channelId l = ch"
  using assms unfolding owner_ok_def batch_index_ok_def claim_index_ok_def by blast+

lemma owner_okI:
  assumes "records_ok (sv_payments s)"
    "\<And>i a. xs_batchAttempts (sv_payments s) i = Some a \<Longrightarrow> batch_attempt_ok i a"
    "\<And>i a. xs_batchAttempts (sv_payments s) i = Some a \<Longrightarrow> ba_status a = BatchPending \<Longrightarrow> sv_openBatch s (ba_channelId a) = Some i"
    "\<And>i c. sv_claimAttempts s i = Some c \<Longrightarrow> claim_record_ok i c"
    "\<And>i c. sv_claimAttempts s i = Some c \<Longrightarrow> ca_status c \<noteq> ClaimApplied \<Longrightarrow> sv_openClaim s (ca_channelId c) = Some i"
    "\<And>ch i. sv_openBatch s ch = Some i \<Longrightarrow> owns_batch s ch i"
    "\<And>ch i. sv_openClaim s ch = Some i \<Longrightarrow> owns_claim s ch i"
    "\<And>ch l. sv_operations s ch = Some l \<Longrightarrow> cl_channelId l = ch"
  shows "owner_ok s"
  using assms unfolding owner_ok_def batch_index_ok_def claim_index_ok_def by blast

lemma owns_batchE:
  assumes "owns_batch s ch i"
  obtains a l where "holds_batch (sv_payments s) i a" "ba_status a = BatchPending" "ba_channelId a = ch"
    "sv_operations s ch = Some l" "cl_leaseId l = i" "cl_kind l = ba_operationKind a"
  using assms unfolding owns_batch_def by blast

lemma owns_claimE:
  assumes "owns_claim s ch i"
  obtains a l where "sv_claimAttempts s i = Some a" "ca_status a \<noteq> ClaimApplied" "ca_channelId a = ch"
    "sv_operations s ch = Some l" "cl_leaseId l = ca_operationLeaseId a" "cl_kind l = ''claim''"
  using assms unfolding owns_claim_def by blast

text \<open>The lease of a channel tells which attempt may be open on it.\<close>

lemma open_batch_lease:
  assumes "owner_ok s" "sv_openBatch s ch = Some i"
  obtains a l where "holds_batch (sv_payments s) i a" "ba_status a = BatchPending" "ba_channelId a = ch"
    "ba_attemptId a = i" "i \<noteq> []" "sv_operations s ch = Some l" "cl_leaseId l = i"
    "cl_kind l \<in> {''payment'', ''deposit'', ''top-up''}"
proof -
  obtain a l where a: "holds_batch (sv_payments s) i a" "ba_status a = BatchPending" "ba_channelId a = ch"
    "sv_operations s ch = Some l" "cl_leaseId l = i" "cl_kind l = ba_operationKind a"
    using owner_okD(6) [OF assms] by (rule owns_batchE)
  then have "batch_attempt_ok i a" using owner_okD(2) [OF assms(1)] by (simp add: holds_batch_def)
  moreover from this have "i \<noteq> []" by (auto simp: batch_attempt_ok_def is_lower_hash32_def)
  ultimately show thesis using a that [of a l] by (auto simp: batch_attempt_ok_def)
qed

lemma free_without_lease:
  assumes "owner_ok s" "sv_operations s ch = None"
  shows "sv_openBatch s ch = None" "sv_openClaim s ch = None"
  using owner_okD(6,7) [OF assms(1), of ch] assms(2)
  by (cases "sv_openBatch s ch"; cases "sv_openClaim s ch"; auto elim!: owns_batchE owns_claimE)+

lemma no_batch_under:
  assumes "owner_ok s" "sv_operations s ch = Some l" "cl_kind l \<notin> {''payment'', ''deposit'', ''top-up''}"
  shows "sv_openBatch s ch = None"
proof (cases "sv_openBatch s ch")
  case (Some i)
  then show ?thesis using assms by (elim open_batch_lease [OF assms(1)]) auto
qed

lemma no_claim_under:
  assumes "owner_ok s" "sv_operations s ch = Some l" "cl_kind l \<noteq> ''claim''"
  shows "sv_openClaim s ch = None"
  using owner_okD(7) [OF assms(1), of ch] assms(2,3)
  by (cases "sv_openClaim s ch") (auto elim!: owns_claimE)

section \<open>Changes that keep the invariant\<close>

lemma owner_frame [simp]:
  "owner_ok (s\<lparr>sv_channels := x\<rparr>) = owner_ok s" "owner_ok (s\<lparr>sv_channelByCovenantId := y\<rparr>) = owner_ok s"
  "owner_ok (s\<lparr>sv_channelByLeaseId := y\<rparr>) = owner_ok s"
  "owner_ok (s\<lparr>sv_channels := x, sv_operations := z\<rparr>) = owner_ok (s\<lparr>sv_operations := z\<rparr>)"
  by (simp_all add: owner_ok_def batch_index_ok_def claim_index_ok_def owns_batch_def owns_claim_def)

lemma owner_payments:
  assumes "owner_ok s" "batch_keeps (sv_payments s) p"
  shows "owner_ok (s\<lparr>sv_payments := p\<rparr>)"
proof (rule owner_okI)
  note b = assms(2) [unfolded batch_keeps_def]
  show "records_ok (sv_payments (s\<lparr>sv_payments := p\<rparr>))" using b by simp
  fix i a assume "xs_batchAttempts (sv_payments (s\<lparr>sv_payments := p\<rparr>)) i = Some a"
  then have a: "xs_batchAttempts (sv_payments s) i = Some a" using b by simp
  show "batch_attempt_ok i a" using owner_okD(2) [OF assms(1) a] .
  show "sv_openBatch (s\<lparr>sv_payments := p\<rparr>) (ba_channelId a) = Some i" if "ba_status a = BatchPending"
    using owner_okD(3) [OF assms(1) a that] by simp
next
  fix ch i assume "sv_openBatch (s\<lparr>sv_payments := p\<rparr>) ch = Some i"
  then have "owns_batch s ch i" using owner_okD(6) [OF assms(1)] by simp
  then show "owns_batch (s\<lparr>sv_payments := p\<rparr>) ch i"
    using assms(2) unfolding owns_batch_def batch_keeps_def by auto
qed (use owner_okD(4,5,7,8) [OF assms(1)] in \<open>auto simp: owns_claim_def\<close>)

lemma owner_drop_lease:
  assumes "owner_ok s" "sv_openBatch s ch = None" "sv_openClaim s ch = None"
  shows "owner_ok (s\<lparr>sv_operations := (sv_operations s)(ch := None)\<rparr>)"
  by (rule owner_okI) (use owner_okD [OF assms(1)] assms(2,3) in
    \<open>auto simp: owns_batch_def owns_claim_def split: if_splits\<close>)

lemma owner_put_lease:
  assumes "owner_ok s" "sv_openBatch s ch = None" "sv_openClaim s ch = None" "cl_channelId l = ch"
  shows "owner_ok (s\<lparr>sv_operations := (sv_operations s)(ch \<mapsto> l)\<rparr>)"
  by (rule owner_okI) (use owner_okD [OF assms(1)] assms(2,3,4) in
    \<open>auto simp: owns_batch_def owns_claim_def split: if_splits\<close>)

lemma owner_update_lease:
  assumes "owner_ok s" "sv_operations s ch = Some l"
    and "cl_leaseId l' = cl_leaseId l" "cl_kind l' = cl_kind l" "cl_channelId l' = cl_channelId l"
  shows "owner_ok (s\<lparr>sv_operations := (sv_operations s)(ch \<mapsto> l')\<rparr>)"
proof (rule owner_okI)
  fix c i assume "sv_openBatch (s\<lparr>sv_operations := (sv_operations s)(ch \<mapsto> l')\<rparr>) c = Some i"
  then have "owns_batch s c i" using owner_okD(6) [OF assms(1)] by simp
  then show "owns_batch (s\<lparr>sv_operations := (sv_operations s)(ch \<mapsto> l')\<rparr>) c i"
    using assms(2-4) by (auto simp: owns_batch_def)
next
  fix c i assume "sv_openClaim (s\<lparr>sv_operations := (sv_operations s)(ch \<mapsto> l')\<rparr>) c = Some i"
  then have "owns_claim s c i" using owner_okD(7) [OF assms(1)] by simp
  then show "owns_claim (s\<lparr>sv_operations := (sv_operations s)(ch \<mapsto> l')\<rparr>) c i"
    using assms(2-4) by (auto simp: owns_claim_def)
qed (use owner_okD(1-5,8) [OF assms(1)] assms(2,5) in \<open>auto split: if_splits\<close>)


definition put_attempt :: "batch_attempt \<Rightarrow> server_store \<Rightarrow> server_store" where
  "put_attempt a s = s\<lparr>sv_payments := (sv_payments s)\<lparr>xs_batchAttempts :=
     (xs_batchAttempts (sv_payments s))(ba_attemptId a \<mapsto> a)\<rparr>\<rparr>"

lemma records_batch_update [simp]: "records_ok (p\<lparr>xs_batchAttempts := m\<rparr>) = records_ok p"
  "open_key (p\<lparr>xs_batchAttempts := m\<rparr>) = open_key p"
  by (simp_all add: records_ok_def open_key_def fun_eq_iff)

lemma owner_put_attempt:
  assumes "owner_ok s" "xs_batchAttempts (sv_payments s) (ba_attemptId a') = Some a"
    and "ba_channelId a' = ba_channelId a" "ba_status a' = ba_status a" "ba_operationKind a' = ba_operationKind a"
  shows "owner_ok (put_attempt a' s)"
proof (rule owner_okI)
  have ok: "batch_attempt_ok (ba_attemptId a') a" using owner_okD(2) [OF assms(1,2)] .
  fix ch i assume "sv_openBatch (put_attempt a' s) ch = Some i"
  then have "owns_batch s ch i" using owner_okD(6) [OF assms(1)] by (simp add: put_attempt_def)
  then show "owns_batch (put_attempt a' s) ch i"
    using assms(2-5) by (auto simp: owns_batch_def put_attempt_def holds_batch_def)
qed (use owner_okD [OF assms(1)] assms(2-5) in \<open>auto simp: put_attempt_def owns_claim_def batch_attempt_ok_def
        split: if_splits\<close>)

lemma owner_install_batch:
  assumes "owner_ok s" "sv_operations s ch = None" "xs_batchAttempts (sv_payments s) i = None"
    and "batch_attempt_ok i a" "ba_status a = BatchPending" "ba_channelId a = ch" "open_key (sv_payments s) (''batch:'' @ i)"
    and "cl_leaseId l = i" "cl_kind l = ba_operationKind a" "cl_channelId l = ch"
  shows "owner_ok ((put_attempt a s)\<lparr>sv_openBatch := (sv_openBatch s)(ch \<mapsto> i),
           sv_operations := (sv_operations s)(ch \<mapsto> l)\<rparr>)" (is "owner_ok ?s")
proof (rule owner_okI)
  note free = free_without_lease [OF assms(1,2)]
  fix c j assume "sv_openBatch ?s c = Some j"
  then consider "c = ch" "j = i" | "c \<noteq> ch" "owns_batch s c j"
    using owner_okD(6) [OF assms(1)] by (auto split: if_splits)
  then show "owns_batch ?s c j"
    using assms(3-10) by cases (auto simp: owns_batch_def put_attempt_def holds_batch_def batch_attempt_ok_def)
next
  note free = free_without_lease [OF assms(1,2)]
  fix c j assume "sv_openClaim ?s c = Some j"
  then have "c \<noteq> ch" "owns_claim s c j" using owner_okD(7) [OF assms(1)] free by (auto simp: put_attempt_def)
  then show "owns_claim ?s c j" by (simp add: owns_claim_def put_attempt_def)
next
  note free = free_without_lease [OF assms(1,2)]
  fix j b assume b: "xs_batchAttempts (sv_payments ?s) j = Some b" "ba_status b = BatchPending"
  show "sv_openBatch ?s (ba_channelId b) = Some j"
  proof (cases "j = i")
    case True
    then show ?thesis using b assms(4,6) by (simp add: put_attempt_def batch_attempt_ok_def)
  next
    case False
    then have "sv_openBatch s (ba_channelId b) = Some j"
      using b assms(4) owner_okD(3) [OF assms(1)] by (simp add: put_attempt_def batch_attempt_ok_def)
    then show ?thesis using free by auto
  qed
qed (use owner_okD [OF assms(1)] assms(4,10) in \<open>auto simp: put_attempt_def batch_attempt_ok_def split: if_splits\<close>)

lemma owner_close_batch:
  assumes "owner_ok s" "sv_openBatch s ch = Some i" "sv_openClaim s ch = None"
    and "case r of None \<Rightarrow> True | Some a \<Rightarrow> batch_attempt_ok i a \<and> ba_status a \<noteq> BatchPending"
  shows "owner_ok (s\<lparr>sv_payments := (sv_payments s)\<lparr>xs_batchAttempts := (xs_batchAttempts (sv_payments s))(i := r)\<rparr>,
           sv_openBatch := (sv_openBatch s)(ch := None), sv_operations := (sv_operations s)(ch := None)\<rparr>)" (is "owner_ok ?s")
proof (rule owner_okI)
  obtain a l where a: "holds_batch (sv_payments s) i a" "ba_channelId a = ch"
    using open_batch_lease [OF assms(1,2)] by blast
  fix c j assume "sv_openBatch ?s c = Some j"
  then have c: "c \<noteq> ch" "owns_batch s c j" using owner_okD(6) [OF assms(1)] by (auto split: if_splits)
  then have "j \<noteq> i" using a by (auto simp: owns_batch_def holds_batch_def)
  then show "owns_batch ?s c j" using c by (auto simp: owns_batch_def holds_batch_def)
next
  fix c j assume "sv_openClaim ?s c = Some j"
  then have "c \<noteq> ch" "owns_claim s c j" using owner_okD(7) [OF assms(1)] assms(3) by auto
  then show "owns_claim ?s c j" by (simp add: owns_claim_def)
next
  fix j b assume b: "xs_batchAttempts (sv_payments ?s) j = Some b" "ba_status b = BatchPending"
  then have "j \<noteq> i" using assms(4) by (auto split: if_splits)
  then have "sv_openBatch s (ba_channelId b) = Some j" using b owner_okD(3) [OF assms(1)] by simp
  then show "sv_openBatch ?s (ba_channelId b) = Some j" using assms(2) \<open>j \<noteq> i\<close> by auto
qed (use owner_okD [OF assms(1)] assms(4) in \<open>auto split: if_splits option.splits\<close>)

lemma owner_save_claim:
  assumes "owner_ok s" "claim_record_ok i a" "ca_status a \<noteq> ClaimApplied" "ca_channelId a = ch"
    and "sv_openClaim s ch \<in> {None, Some i}" "sv_operations s ch = Some l" "cl_leaseId l = ca_operationLeaseId a"
    and "cl_kind l = ''claim''" "\<And>e. sv_claimAttempts s i = Some e \<Longrightarrow> ca_channelId e = ch \<and> ca_status e \<noteq> ClaimApplied"
  shows "owner_ok (s\<lparr>sv_claimAttempts := (sv_claimAttempts s)(i \<mapsto> a), sv_openClaim := (sv_openClaim s)(ch \<mapsto> i)\<rparr>)"
    (is "owner_ok ?s")
proof (rule owner_okI)
  fix c j assume "sv_openClaim ?s c = Some j"
  then consider "c = ch" "j = i" | "c \<noteq> ch" "owns_claim s c j"
    using owner_okD(7) [OF assms(1)] by (auto split: if_splits)
  then show "owns_claim ?s c j"
  proof cases
    case 1
    then show ?thesis using assms(3,4,6-8) by (auto simp: owns_claim_def)
  next
    case 2
    then have "j \<noteq> i" using assms(9) by (auto simp: owns_claim_def)
    then show ?thesis using 2 by (auto simp: owns_claim_def)
  qed
next
  fix j b assume b: "sv_claimAttempts ?s j = Some b" "ca_status b \<noteq> ClaimApplied"
  show "sv_openClaim ?s (ca_channelId b) = Some j"
  proof (cases "j = i")
    case False
    then have "sv_openClaim s (ca_channelId b) = Some j" using b owner_okD(5) [OF assms(1)] by simp
    then show ?thesis using assms(5) False by auto
  qed (use b assms(4) in simp)
qed (use owner_okD [OF assms(1)] assms(2) in \<open>auto simp: owns_batch_def split: if_splits\<close>)

lemma owner_close_claim:
  assumes "owner_ok s" "sv_openClaim s ch = Some i" "sv_openBatch s ch = None"
    and "case r of None \<Rightarrow> True | Some a \<Rightarrow> claim_record_ok i a \<and> ca_status a = ClaimApplied"
  shows "owner_ok (s\<lparr>sv_claimAttempts := (sv_claimAttempts s)(i := r), sv_openClaim := (sv_openClaim s)(ch := None),
           sv_operations := (sv_operations s)(ch := None)\<rparr>)" (is "owner_ok ?s")
proof (rule owner_okI)
  obtain a l where a: "sv_claimAttempts s i = Some a" "ca_channelId a = ch"
    using owner_okD(7) [OF assms(1,2)] by (rule owns_claimE)
  fix c j assume "sv_openClaim ?s c = Some j"
  then have c: "c \<noteq> ch" "owns_claim s c j" using owner_okD(7) [OF assms(1)] by (auto split: if_splits)
  then have "j \<noteq> i" using a by (auto simp: owns_claim_def)
  then show "owns_claim ?s c j" using c by (auto simp: owns_claim_def)
next
  fix c j assume "sv_openBatch ?s c = Some j"
  then have "c \<noteq> ch" "owns_batch s c j" using owner_okD(6) [OF assms(1)] assms(3) by auto
  then show "owns_batch ?s c j" by (simp add: owns_batch_def)
next
  fix j b assume b: "sv_claimAttempts ?s j = Some b" "ca_status b \<noteq> ClaimApplied"
  then have "j \<noteq> i" using assms(4) by (auto split: if_splits)
  then have "sv_openClaim s (ca_channelId b) = Some j" using b owner_okD(5) [OF assms(1)] by simp
  then show "sv_openClaim ?s (ca_channelId b) = Some j" using assms(2) \<open>j \<noteq> i\<close> by auto
qed (use owner_okD [OF assms(1)] assms(4) in \<open>auto split: if_splits option.splits\<close>)

end
