(* ===== verification/Channel_Steps.thy ===== *)
theory Channel_Steps
  imports Channel_Ownership
begin

text \<open>
  Every operation of the store keeps the ownership invariant, whether it ends normally or throws.
\<close>

section \<open>Weakest preconditions of the helpers\<close>

lemma wp_require [wp_simps]:
  "wp (requireChannelOperation ch i) Q E = (\<lambda>s. case sv_operations s ch of None \<Rightarrow> E s
     | Some l \<Rightarrow> if cl_leaseId l = i then Q l s else E s)"
  by (auto simp: fun_eq_iff requireChannelOperation_def wp_simps split: option.splits)

lemma wp_update_operation [wp_simps]:
  "wp (updateChannelOperation ch i st t r) Q E = (\<lambda>s. case sv_operations s ch of None \<Rightarrow> E s
     | Some l \<Rightarrow> if cl_leaseId l = i then Q () (s\<lparr>sv_operations := (sv_operations s)(ch \<mapsto>
         l\<lparr>cl_status := st, cl_updatedAt := t, cl_recoveryReason := spread (cl_recoveryReason l) r\<rparr>)\<rparr>) else E s)"
  by (auto simp: fun_eq_iff updateChannelOperation_def wp_simps split: option.splits)

lemma wp_require_batch [wp_simps]:
  "wp (requireBatchAttempt i) Q E = (\<lambda>s. case xs_batchAttempts (sv_payments s) (to_lower i) of None \<Rightarrow> E s
     | Some a \<Rightarrow> Q a s)"
  by (auto simp: fun_eq_iff requireBatchAttempt_def wp_simps split: option.splits)

lemma wp_put_attempt [wp_simps]: "wp (putBatchAttempt a) Q E = (\<lambda>s. Q () (put_attempt a s))"
  by (simp add: putBatchAttempt_def put_attempt_def wp_simps)

lemmas wp_drops [wp_simps] = dropChannelOperation_def closeBatch_def closeClaim_def
  assertPaymentIdentifierClaimAvailable_def assertCompletedPaymentIdentifier_def

lemma wp_binding [wp_simps]:
  "wp (assertChannelBinding c) Q E = (\<lambda>s.
     if (\<exists>d. sv_channels s (to_lower (sc_channelId c)) = Some d \<and> to_lower (sc_covenantId d) \<noteq> to_lower (sc_covenantId c))
        \<or> (\<exists>i. truthy_id (sv_channelByCovenantId s (to_lower (sc_covenantId c))) = Some i \<and> i \<noteq> to_lower (sc_channelId c))
     then E s else Q (to_lower (sc_channelId c), to_lower (sc_covenantId c)) s)"
  by (auto simp: fun_eq_iff assertChannelBinding_def wp_simps Let_def split: option.splits)

lemma wp_set_channelI:
  assumes "E s" "\<And>b c. Q () (s\<lparr>sv_channelByCovenantId := b, sv_channels := c\<rparr>)"
  shows "wp (setChannel cf channel) Q E s"
  using assms by (auto simp: setChannel_def wp_simps split: sum.splits)

lemma wp_reservationI:
  assumes "E s" "\<And>r. Q () (s\<lparr>sv_payments := (sv_payments s)\<lparr>xs_reservations := r\<rparr>\<rparr>)"
  shows "wp (applyPaymentIdentifierTransition claim t) Q E s"
  using assms(1) assms(2) [of "xs_reservations (sv_payments s)"] assms(2)
  by (auto simp: applyPaymentIdentifierTransition_def put_reservation_def wp_simps split: sum.splits option.splits)

lemma batch_keeps_same:
  "records_ok p \<Longrightarrow> xs_batchAttempts q = xs_batchAttempts p \<Longrightarrow> xs_budget q = xs_budget p \<Longrightarrow> batch_keeps p q"
  using records_congs [of q p] by (simp add: batch_keeps_def)

lemma owner_payment_part:
  "owner_ok s \<Longrightarrow> xs_batchAttempts p = xs_batchAttempts (sv_payments s) \<Longrightarrow> xs_budget p = xs_budget (sv_payments s)
     \<Longrightarrow> owner_ok (s\<lparr>sv_payments := p\<rparr>)"
  by (intro owner_payments batch_keeps_same) (simp_all add: owner_okD(1))

lemma records_reservation_update [simp]: "records_ok (p\<lparr>xs_reservations := m\<rparr>) = records_ok p"
  "open_key (p\<lparr>xs_reservations := m\<rparr>) = open_key p"
  by (simp_all add: records_ok_def open_key_def fun_eq_iff)

section \<open>Channels and leases\<close>

lemma register_keeps: "owner_ok s \<Longrightarrow> keeps owner_ok (registerChannel cf c) s"
  by (auto simp: registerChannel_def wp_simps split: option.splits intro!: wp_set_channelI)

lemma retire_keeps:
  assumes "owner_ok s"
  shows "keeps owner_ok (retireChannel cf ch i e) s"
  using assms no_batch_under [OF assms, of ch] no_claim_under [OF assms, of ch]
  by (auto simp: retireChannel_def wp_simps Let_def owner_drop_lease split: option.splits sum.splits)

lemma apply_lineage_keeps:
  assumes "owner_ok s"
  shows "keeps owner_ok (applyCovenantLineage cf e c i) s"
  using assms
  by (auto simp: applyCovenantLineage_def wp_simps split: option.splits sum.splits
      intro!: wp_set_channelI owner_drop_lease [of "_\<lparr>sv_channelByCovenantId := _, sv_channels := _\<rparr>", simplified])

lemma claim_operation_keeps:
  assumes "owner_ok s"
  shows "keeps owner_ok (claimChannelOperation cf input) s"
  using assms free_without_lease [OF assms]
  by (auto simp: claimChannelOperation_def wp_simps owner_put_lease split: option.splits sum.splits)

lemma abandon_operation_keeps:
  assumes "owner_ok s"
  shows "keeps owner_ok (abandonChannelOperation cf i t) s"
proof -
  have "owner_ok (s\<lparr>sv_operations := (sv_operations s)(cl_channelId l := None)\<rparr>)"
    if "sv_operations s ch = Some l" "sv_openBatch s (cl_channelId l) \<noteq> Some (cl_leaseId l)"
      "sv_openClaim s (cl_channelId l) = None" for ch l
  proof -
    have ch: "cl_channelId l = ch" using owner_okD(8) [OF assms that(1)] .
    have "sv_openBatch s ch = None"
    proof (cases "sv_openBatch s ch")
      case (Some j)
      obtain k where "sv_operations s ch = Some k" "cl_leaseId k = j" using open_batch_lease [OF assms Some] by metis
      then show ?thesis using that(1,2) ch Some by simp
    qed
    then show ?thesis using owner_drop_lease [OF assms] that(3) ch by simp
  qed
  then show ?thesis using assms
    by (auto simp: abandonChannelOperation_def findChannelOperationByLeaseId_def wp_simps
        split: option.splits sum.splits bind_splits)
qed


section \<open>Batch settlements\<close>

lemma normalize_batch:
  assumes "normalizeBatchSettlementAttempt env input = Inr a"
  shows "a = input" "batch_attempt_ok (ba_attemptId a) a" "ba_status a = BatchPending"
  using assms by (auto simp: normalizeBatchSettlementAttempt_def batch_attempt_ok_def run_simps split: if_splits)

lemma owner_open_key:
  assumes "owner_ok s" "admitBudgetRecord limits now (''batch:'' @ i) BatchRecord i payer j bytes claim (sv_payments s) = (p, r)"
  shows "owner_ok (s\<lparr>sv_payments := p\<rparr>)" "succeeds r \<Longrightarrow> open_key p (''batch:'' @ i)"
    "xs_batchAttempts (sv_payments s) k = None \<Longrightarrow> xs_batchAttempts p k = None"
proof -
  have b: "batch_below (sv_payments s) p \<and> (succeeds r \<longrightarrow> open_key p (''batch:'' @ i))"
    using admit_below [of "sv_payments s" limits now BatchRecord i payer j bytes claim p r] assms
    by (simp add: budget_key_def owner_okD(1))
  show "owner_ok (s\<lparr>sv_payments := p\<rparr>)" using owner_payments [OF assms(1)] b batch_below_keeps by blast
  show "succeeds r \<Longrightarrow> open_key p (''batch:'' @ i)" using b by blast
  show "xs_batchAttempts (sv_payments s) k = None \<Longrightarrow> xs_batchAttempts p k = None"
    using b batch_belowD(4) [of "sv_payments s" p k] by (cases "xs_batchAttempts p k") auto
qed

lemma install_keeps:
  assumes "owner_ok s" "xs_batchAttempts (sv_payments s) (ba_attemptId a) = None" "sv_operations s (ba_channelId a) = None"
    and "batch_attempt_ok (ba_attemptId a) a" "ba_status a = BatchPending"
  shows "keeps owner_ok (install_batch cf time a) s"
proof -
  define installed where "installed t = owner_ok ((put_attempt a t)
      \<lparr>sv_openBatch := (sv_openBatch (put_attempt a t))(ba_channelId a \<mapsto> ba_attemptId a),
      sv_operations := (sv_operations (put_attempt a t))(ba_channelId a \<mapsto> batch_lease a),
      sv_channelByLeaseId := (sv_channelByLeaseId (put_attempt a t))(ba_attemptId a \<mapsto> ba_channelId a)\<rparr>)" for t
  define ready where "ready t \<longleftrightarrow> owner_ok t \<and> open_key (sv_payments t) (''batch:'' @ ba_attemptId a)
      \<and> xs_batchAttempts (sv_payments t) (ba_attemptId a) = None \<and> sv_operations t (ba_channelId a) = None" for t
  have final: "installed t" if "ready t" for t
    using owner_install_batch [of t "ba_channelId a" "ba_attemptId a" a "batch_lease a"] that assms(4,5)
    by (simp add: installed_def ready_def batch_lease_def put_attempt_def)
  have reserve: "wp (applyPaymentIdentifierTransition c v) (\<lambda>_. installed) owner_ok t" if "ready t" for t c v
    by (rule wp_reservationI) (use that in \<open>auto simp: ready_def owner_payment_part intro!: final\<close>)
  have rest: "wp (case ba_channelTransition a of Val t \<Rightarrow> setChannel cf (ct_next t) | _ \<Rightarrow> ret ())
      (\<lambda>_. wp (applyPaymentIdentifierTransition c v) (\<lambda>_. installed) owner_ok) owner_ok t" if "ready t" for t c v
    using that by (auto simp: wp_simps ready_def split: opt_field.splits intro!: wp_set_channelI reserve)
  show ?thesis
    unfolding install_batch_def wp_simps installed_def [symmetric]
    using owner_open_key [OF assms(1)] assms(2,3) by (auto simp: ready_def split: prod.splits sum.splits intro!: rest)
qed

lemma claim_batch_keeps:
  assumes "owner_ok s"
  shows "keeps owner_ok (claimBatchSettlement cf time input) s"
proof -
  have *: "wp (claim_transition cf a c) Q owner_ok s" if "Q () s" for a c Q
    using that assms by (auto simp: claim_transition_def wp_simps split: opt_field.splits sum.splits)
  show ?thesis
    using assms install_keeps [OF assms] normalize_batch [of "cf_env cf" input]
    by (auto simp: claimBatchSettlement_def wp_simps split: option.splits sum.splits intro!: *)
qed


lemma handler_keeps:
  assumes "owner_ok s" "xs_batchAttempts (sv_payments s) (ba_attemptId a') = Some a"
    and "ba_channelId a' = ba_channelId a" "ba_status a' = ba_status a" "ba_operationKind a' = ba_operationKind a"
  shows "wp (putBatchAttempt a') (\<lambda>_. wp (updateChannelOperation ch i st t r)
           (\<lambda>_. wp (applyPaymentIdentifierTransition c v) (\<lambda>_. owner_ok) owner_ok) owner_ok) owner_ok s"
proof -
  have put: "owner_ok (put_attempt a' s)" using owner_put_attempt [OF assms] .
  have "wp (applyPaymentIdentifierTransition c v) (\<lambda>_. owner_ok) owner_ok u" if "owner_ok u" for u
    by (rule wp_reservationI) (simp_all add: that owner_payment_part)
  then show ?thesis using put owner_update_lease [OF put, of ch] by (auto simp: wp_simps split: option.splits)
qed

lemma begin_keeps:
  assumes "owner_ok s"
  shows "keeps owner_ok (beginBatchHandler cf i t) s"
  unfolding beginBatchHandler_def wp_bind wp_require_batch
  using assms owner_okD(2) [OF assms] handler_keeps [OF assms]
  by (auto simp: wp_bind wp_basic batch_attempt_ok_def split: option.splits sum.splits)

lemma reset_keeps:
  assumes "owner_ok s"
  shows "keeps owner_ok (resetBatchHandlerBeforeExecution time i t) s"
  unfolding resetBatchHandlerBeforeExecution_def wp_bind wp_require_batch
  using assms owner_okD(2) [OF assms] handler_keeps [OF assms]
  by (auto simp: wp_bind wp_basic Let_def batch_attempt_ok_def split: option.splits sum.splits)

lemma record_keeps:
  assumes "owner_ok s"
  shows "keeps owner_ok (recordBatchHandlerResult cf i v t) s"
  unfolding recordBatchHandlerResult_def wp_bind wp_require_batch
  using assms owner_okD(2) [OF assms] handler_keeps [OF assms]
  by (auto simp: wp_bind wp_basic batch_attempt_ok_def split: option.splits sum.splits)

lemma mark_keeps:
  assumes "owner_ok s"
  shows "keeps owner_ok (markBatchHandlerRecoveryRequired cf i v t) s"
  unfolding markBatchHandlerRecoveryRequired_def wp_bind wp_require_batch
  using assms owner_okD(2) [OF assms] handler_keeps [OF assms]
  by (auto simp: wp_bind wp_basic batch_attempt_ok_def split: option.splits sum.splits)

lemma pending_owner:
  assumes "owner_ok s" "xs_batchAttempts (sv_payments s) i = Some a" "ba_status a = BatchPending"
  shows "ba_attemptId a = i" "sv_openBatch s (ba_channelId a) = Some i" "sv_openClaim s (ba_channelId a) = None"
proof -
  have "batch_attempt_ok i a" using owner_okD(2) [OF assms(1,2)] .
  then show "ba_attemptId a = i" by (simp add: batch_attempt_ok_def)
  show o: "sv_openBatch s (ba_channelId a) = Some i" using owner_okD(3) [OF assms] .
  obtain l where "sv_operations s (ba_channelId a) = Some l" "cl_kind l \<in> {''payment'', ''deposit'', ''top-up''}"
    using open_batch_lease [OF assms(1) o] by metis
  then show "sv_openClaim s (ba_channelId a) = None" using no_claim_under [OF assms(1)] by auto
qed

lemma owner_settled:
  \<comment> \<open>the record of an attempt that is not pending may be completed or deleted\<close>
  assumes "owner_ok s" "\<And>a. xs_batchAttempts (sv_payments s) i = Some a \<Longrightarrow> ba_status a \<noteq> BatchPending"
    and "records_ok q" "\<And>j a. holds_batch (sv_payments s) j a \<Longrightarrow> j \<noteq> i \<Longrightarrow> holds_batch q j a"
    and "\<And>j a. xs_batchAttempts q j = Some a \<Longrightarrow> xs_batchAttempts (sv_payments s) j = Some a"
  shows "owner_ok (s\<lparr>sv_payments := q\<rparr>)"
proof (rule owner_okI)
  fix ch j assume "sv_openBatch (s\<lparr>sv_payments := q\<rparr>) ch = Some j"
  then have o: "owns_batch s ch j" using owner_okD(6) [OF assms(1)] by simp
  then have "j \<noteq> i" using assms(2) by (auto simp: owns_batch_def holds_batch_def)
  then show "owns_batch (s\<lparr>sv_payments := q\<rparr>) ch j" using o assms(4) by (fastforce simp: owns_batch_def)
qed (use owner_okD [OF assms(1)] assms(3,5) in \<open>auto simp: owns_claim_def\<close>)

lemma terminalize_owner:
  assumes "owner_ok s" "\<And>a. xs_batchAttempts (sv_payments s) i = Some a \<Longrightarrow> ba_status a \<noteq> BatchPending"
    and "terminalizeBudgetRecord limits now (''batch:'' @ i) bytes c j w (sv_payments s) = Inr q"
  shows "owner_ok (s\<lparr>sv_payments := q\<rparr>)"
  using owner_settled [OF assms(1,2), where q = q] terminalize_below [OF owner_okD(1) [OF assms(1)] assms(3)] by simp

lemma delete_record_owner:
  assumes "owner_ok s" "\<And>a. xs_batchAttempts (sv_payments s) i = Some a \<Longrightarrow> ba_status a \<noteq> BatchPending"
  shows "owner_ok (s\<lparr>sv_payments := (sv_payments s)\<lparr>xs_budget := deleteBudgetRecord (''batch:'' @ i) (xs_budget (sv_payments s))\<rparr>\<rparr>)"
    (is "owner_ok (s\<lparr>sv_payments := ?q\<rparr>)")
proof (rule owner_settled [OF assms])
  note d = delete_other_below [OF owner_okD(1) [OF assms(1)] refl, where key = "''batch:'' @ i"]
  show "records_ok ?q" by (rule d(1))
  show "holds_batch ?q j a" if "holds_batch (sv_payments s) j a" "j \<noteq> i" for j a
    using that d(2) [of "''batch:'' @ j"] unfolding holds_batch_def by simp
  show "xs_batchAttempts (sv_payments s) j = Some a" if "xs_batchAttempts ?q j = Some a" for j a
    using that by simp
qed

lemma release_keeps:
  assumes "owner_ok s" "\<And>b. xs_batchAttempts (sv_payments s) (ba_attemptId a) = Some b \<Longrightarrow> ba_status b \<noteq> BatchPending"
  shows "keeps owner_ok (release_budget cf time a) s"
  using assms terminalize_owner [OF assms] delete_record_owner [OF assms]
  by (auto simp: release_budget_def wp_simps split: option.splits sum.splits)

definition closed_batch :: "string \<Rightarrow> string \<Rightarrow> batch_attempt option \<Rightarrow> server_store \<Rightarrow> server_store" where
  "closed_batch ch i r s = s\<lparr>sv_payments := (sv_payments s)\<lparr>xs_batchAttempts := (xs_batchAttempts (sv_payments s))(i := r)\<rparr>,
     sv_openBatch := (sv_openBatch s)(ch := None), sv_operations := (sv_operations s)(ch := None),
     sv_channelByLeaseId := (sv_channelByLeaseId s)(i := None)\<rparr>"

lemma owner_closed:
  assumes "owner_ok s" "sv_openBatch s ch = Some i" "sv_openClaim s ch = None"
    and "case r of None \<Rightarrow> True | Some a \<Rightarrow> batch_attempt_ok i a \<and> ba_status a \<noteq> BatchPending"
  shows "owner_ok (closed_batch ch i r s)"
  using owner_close_batch [OF assms] by (simp add: closed_batch_def)

lemma abandon_batch_keeps:
  assumes "owner_ok s"
  shows "keeps owner_ok (abandonBatchSettlement cf time i r t) s"
proof -
  define fin where "fin a j u = wp (release_budget cf time a) (\<lambda>_. owner_ok) owner_ok
      (closed_batch (ba_channelId a) j None u)" for a j u
  have fin: "fin a j u" if "owner_ok u" "sv_openBatch u (ba_channelId a) = Some j" "sv_openClaim u (ba_channelId a) = None"
      "ba_attemptId a = j" for a j u
    unfolding fin_def by (rule release_keeps) (use owner_closed [OF that(1-3), of None] that(4) in \<open>auto simp: closed_batch_def\<close>)
  have *: "wp (applyPaymentIdentifierTransition c v) (\<lambda>_. fin a j) owner_ok s"
    if "sv_openBatch s (ba_channelId a) = Some j" "sv_openClaim s (ba_channelId a) = None" "ba_attemptId a = j" for a j c v
    by (rule wp_reservationI) (use that assms in \<open>auto simp: owner_payment_part intro!: fin\<close>)
  show ?thesis
    unfolding abandonBatchSettlement_def wp_simps
    using assms * [unfolded fin_def closed_batch_def] pending_owner [OF assms]
    by (auto split: option.splits sum.splits)
qed


lemma write_settlement_keeps:
  assumes "owner_ok s" "xs_batchAttempts (sv_payments s) i = Some a" "ba_status a = BatchPending"
  shows "keeps owner_ok (write_settlement cf time a record completed) s"
proof -
  let ?c = "se_commitment record" and ?ch = "ba_channelId a"
  define applied where "applied = applied_batch time a ?c completed"
  have i: "ba_attemptId a = i" and o: "sv_openBatch s ?ch = Some i" "sv_openClaim s ?ch = None"
    using pending_owner [OF assms] by simp_all
  have app: "batch_attempt_ok i applied" "ba_status applied = BatchApplied" "ba_attemptId applied = i"
    using owner_okD(2) [OF assms(1,2)] by (simp_all add: applied_def applied_batch_def batch_attempt_ok_def)
  define ready where "ready u \<longleftrightarrow> owner_ok u \<and> sv_openBatch u ?ch = Some i \<and> sv_openClaim u ?ch = None" for u
  define fin where "fin n = wp (putBatchAttempt applied) (\<lambda>_. wp (closeBatch ?ch) (\<lambda>_. wp (dropChannelOperation ?ch i)
      (\<lambda>_. wp (settleS (terminalizeBudgetRecord (cf_limits cf) (nowMs time) (''batch:'' @ i) n
      (Some (bc_commitmentId ?c)) (map_option pi_id completed) False)) (\<lambda>_. owner_ok) owner_ok)
      owner_ok) owner_ok) owner_ok" for n
  have fin: "fin n u" if "ready u" for n u
  proof -
    have ok: "owner_ok (closed_batch ?ch i (Some applied) u)"
      using that app by (intro owner_closed) (auto simp: ready_def)
    have "fin n u = wp (settleS (terminalizeBudgetRecord (cf_limits cf) (nowMs time) (''batch:'' @ i) n
      (Some (bc_commitmentId ?c)) (map_option pi_id completed) False)) (\<lambda>_. owner_ok) owner_ok
      (closed_batch ?ch i (Some applied) u)"
      unfolding fin_def closeBatch_def dropChannelOperation_def wp_basic wp_put_attempt put_attempt_def closed_batch_def app(3)
      by simp
    then show ?thesis using ok app(2) terminalize_owner [OF ok, of i]
      by (auto simp: wp_settle closed_batch_def split: sum.splits)
  qed
  have chan: "wp (setChannel cf c) (\<lambda>_. fin n) owner_ok u" if "ready u" for u c n
    by (rule wp_set_channelI) (use that in \<open>auto simp: ready_def intro!: fin\<close>)
  have res: "wp (applyPaymentIdentifierTransition c v) (\<lambda>_. wp (setChannel cf ch) (\<lambda>_. fin n) owner_ok) owner_ok u"
    if "ready u" for u c v n ch
    by (rule wp_reservationI) (use that in \<open>auto simp: ready_def owner_payment_part intro!: chan\<close>)
  have start: "ready (s\<lparr>sv_payments := p\<rparr>)" if "xs_batchAttempts p = xs_batchAttempts (sv_payments s)"
      "xs_budget p = xs_budget (sv_payments s)" for p
    using that o assms(1) by (auto simp: ready_def owner_payment_part)
  have rest: "wp (case completed of None \<Rightarrow> ret () | Some d \<Rightarrow>
        bindS (writeS (\<lambda>s. s\<lparr>sv_payments := (sv_payments s)\<lparr>xs_identifiers := (xs_identifiers (sv_payments s))(pi_id d \<mapsto> d)\<rparr>\<rparr>))
          (\<lambda>_. applyPaymentIdentifierTransition c v))
      (\<lambda>_. wp (setChannel cf ch) (\<lambda>_. fin n) owner_ok) owner_ok
      (s\<lparr>sv_payments := (sv_payments s)\<lparr>xs_commitments := m\<rparr>\<rparr>)" for m c v n ch
    by (cases completed) (auto simp: wp_simps intro!: chan res start)
  show ?thesis
    unfolding write_settlement_def Let_def wp_bind i applied_def [symmetric] fin_def [symmetric]
    using assms(1) rest by (simp add: wp_payments wp_basic split: sum.splits)
qed


lemma commit_keeps:
  assumes "owner_ok s"
  shows "keeps owner_ok (commitSettlement cf time record) s"
  using assms write_settlement_keeps [OF assms]
  by (auto simp: commitSettlement_def wp_simps Let_def batchSettlementAttemptIsReadyToCommit_def
      split: option.splits sum.splits)

section \<open>Claims\<close>

lemma safe_index_wf: "safe_index n \<Longrightarrow> wf_number n" "positive_safe n \<Longrightarrow> wf_number n"
  by (auto simp: safe_index_def in_range_iff positive_safe_def wf_number_def split: js_number.splits)

lemma wf_claim_artifacts:
  assumes "assertClaimAttemptShape a = Inr ()" "wf_js (channel_json (ca_expected a))"
  shows "wf_js (JObj (claim_artifact_members a))"
proof -
  have n: "positive_safe (ca_requiredConfirmations a)" "safe_index (op_index (ca_activeOutpoint a))" "assert_continuation a = Inr ()"
    using assms(1) by (auto simp: assertClaimAttemptShape_def run_simps split: if_splits)
  then have "case ca_continuationOutpoint a of Val out \<Rightarrow> safe_index (op_index out) | _ \<Rightarrow> True"
    by (auto simp: assert_continuation_def Let_def split: opt_field.splits if_splits)
  then show ?thesis using assms(2) n(1,2)
    by (auto simp: claim_artifact_members_def wf_opt_member outpoint_json_def safe_index_wf split: opt_field.splits)
qed

lemma opt_member_keys: "map fst (opt_member k enc f) = (if f = Absent then [] else [k])"
  by (cases f) simp_all

lemma distinct_claim_artifacts: "distinct (map fst (claim_artifact_members a))"
  by (simp add: claim_artifact_members_def opt_member_keys)

lemma artifacts_channel:
  assumes "claimAttemptArtifactsMatch a b" "wf_js (JObj (claim_artifact_members a))" "wf_js (JObj (claim_artifact_members b))"
  shows "ca_channelId a = ca_channelId b"
proof -
  have "canon (JObj (claim_artifact_members a)) = canon (JObj (claim_artifact_members b))"
    using assms(1) canonical_text_iff [OF assms(2,3)] unfolding claimAttemptArtifactsMatch_def by blast
  from canon_object_lookup [OF this distinct_claim_artifacts distinct_claim_artifacts, of "''channelId''"]
  show ?thesis by (simp add: claim_artifact_members_def)
qed

lemma normalize_claim:
  assumes "normalizeClaimAttempt input existing = Inr a"
  shows "a = input" "assertClaimAttemptShape a = Inr ()" "ca_status a \<noteq> ClaimApplied"
    "existing = Some e \<Longrightarrow> claimAttemptArtifactsMatch e input \<and> ca_status e \<noteq> ClaimApplied"
  using assms by (auto simp: normalizeClaimAttempt_def run_simps split: option.splits if_splits)

lemma save_claim_keeps:
  assumes "owner_ok s" "wf_js (channel_json (ca_expected record))"
  shows "keeps owner_ok (saveClaimAttempt time record) s"
proof -
  let ?i = "ca_attemptId record" and ?ch = "ca_channelId record"
  have *: "owner_ok (s\<lparr>sv_claimAttempts := (sv_claimAttempts s)(?i \<mapsto> record), sv_openClaim := (sv_openClaim s)(?ch \<mapsto> ?i),
        sv_operations := (sv_operations s)(?ch \<mapsto> l')\<rparr>)"
    if n: "normalizeClaimAttempt record (sv_claimAttempts s ?i) = Inr record"
      and free: "truthy_id (sv_openClaim s ?ch) \<in> {None, Some ?i}"
      and l: "sv_operations s ?ch = Some l" "cl_leaseId l = ca_operationLeaseId record" "cl_kind l = ''claim''"
      and l': "cl_leaseId l' = cl_leaseId l" "cl_kind l' = cl_kind l" "cl_channelId l' = cl_channelId l" for l l'
  proof -
    have shape: "assertClaimAttemptShape record = Inr ()" using normalize_claim(2) [OF n] .
    have ok: "claim_record_ok ?i record" using shape assms(2) by (simp add: claim_record_ok_def)
    have old: "ca_channelId e = ?ch \<and> ca_status e \<noteq> ClaimApplied" if e: "sv_claimAttempts s ?i = Some e" for e
    proof -
      have "claim_record_ok ?i e" using owner_okD(4) [OF assms(1) e] .
      then have "wf_js (JObj (claim_artifact_members e))" unfolding claim_record_ok_def by (intro wf_claim_artifacts) blast+
      then show ?thesis
        using normalize_claim(4) [OF n e] artifacts_channel [OF _ _ wf_claim_artifacts [OF shape assms(2)]] by blast
    qed
    have "sv_openClaim s ?ch \<noteq> Some []"
    proof
      assume "sv_openClaim s ?ch = Some []"
      then obtain e where "sv_claimAttempts s [] = Some e" using owner_okD(7) [OF assms(1)] by (auto elim!: owns_claimE)
      then have "claim_record_ok [] e" using owner_okD(4) [OF assms(1)] by blast
      then show False
        by (auto simp: claim_record_ok_def assertClaimAttemptShape_def is_lower_hash32_def split: if_splits)
    qed
    then have "sv_openClaim s ?ch \<in> {None, Some ?i}" using free by (cases "sv_openClaim s ?ch") (auto split: if_splits)
    from owner_save_claim [OF assms(1) ok normalize_claim(3) [OF n] refl this l old]
    have "owner_ok (s\<lparr>sv_claimAttempts := (sv_claimAttempts s)(?i \<mapsto> record), sv_openClaim := (sv_openClaim s)(?ch \<mapsto> ?i)\<rparr>)" .
    from owner_update_lease [OF this, of ?ch l l'] show ?thesis using l(1) l' by simp
  qed
  show ?thesis unfolding saveClaimAttempt_def wp_simps
    using assms(1) normalize_claim(1) [of "record" "sv_claimAttempts s ?i"] *
    by (auto split: sum.splits option.splits if_splits)
qed

lemma applied_shape:
  assumes "ca_status a = ClaimAccepted"
  shows "assertClaimAttemptShape (a\<lparr>ca_status := ClaimApplied\<rparr>) = assertClaimAttemptShape a"
proof -
  let ?b = "a\<lparr>ca_status := ClaimApplied\<rparr>"
  have "claim_snapshot_inconsistent ?b = claim_snapshot_inconsistent a" by (simp add: claim_snapshot_inconsistent_def)
  moreover have "assert_continuation ?b = assert_continuation a" by (simp add: assert_continuation_def cong: option.case_cong if_cong)
  moreover have "assert_claim_evidence ?b = assert_claim_evidence a" using assms by (simp add: assert_claim_evidence_def Let_def cong: option.case_cong if_cong)
  moreover have "batch_lane_state.truncate ?b = batch_lane_state.truncate a" by (simp add: batch_lane_state.truncate_def)
  ultimately show ?thesis unfolding assertClaimAttemptShape_def by (simp cong: if_cong)
qed

lemma apply_claim_keeps:
  assumes "owner_ok s"
  shows "keeps owner_ok (applyClaimAttempt cf channel attempt) s"
proof -
  have *: "owner_ok (u\<lparr>sv_claimAttempts := (sv_claimAttempts u)(ca_attemptId a \<mapsto> a\<lparr>ca_status := ClaimApplied\<rparr>),
       sv_openClaim := (sv_openClaim u)(ca_channelId a := None), sv_operations := (sv_operations u)(ca_channelId a := None)\<rparr>)"
    if u: "owner_ok u" and a: "sv_claimAttempts u i = Some a" "ca_status a = ClaimAccepted"
      and l: "sv_operations u (ca_channelId a) = Some l" "cl_kind l = ''claim''" for u a l i
  proof -
    have ok: "claim_record_ok i a" using owner_okD(4) [OF u a(1)] .
    moreover have "assertClaimAttemptShape (a\<lparr>ca_status := ClaimApplied\<rparr>) = assertClaimAttemptShape a"
      using applied_shape a(2) .
    ultimately have "claim_record_ok i (a\<lparr>ca_status := ClaimApplied\<rparr>)" by (simp add: claim_record_ok_def)
    moreover have "sv_openClaim u (ca_channelId a) = Some i" using owner_okD(5) [OF u a(1)] a(2) by simp
    ultimately show ?thesis
      using owner_close_claim [OF u, of "ca_channelId a" i "Some (a\<lparr>ca_status := ClaimApplied\<rparr>)"] no_batch_under [OF u l(1)] l(2) ok
      by (simp add: claim_record_ok_def)
  qed
  show ?thesis unfolding applyClaimAttempt_def wp_simps
    using assms
    by (auto simp: wp_simps split: sum.splits option.splits if_splits intro!: wp_set_channelI *)
qed

lemma abandon_claim_keeps:
  assumes "owner_ok s"
  shows "keeps owner_ok (abandonClaimAttempt i) s"
proof -
  have *: "owner_ok (s\<lparr>sv_claimAttempts := (sv_claimAttempts s)(i := None),
       sv_openClaim := (sv_openClaim s)(ca_channelId a := None), sv_operations := (sv_operations s)(ca_channelId a := None)\<rparr>)"
    if a: "sv_claimAttempts s i = Some a" "ca_status a \<noteq> ClaimApplied" for a
  proof -
    have cur: "sv_openClaim s (ca_channelId a) = Some i" using owner_okD(5) [OF assms a] .
    then obtain l where "sv_operations s (ca_channelId a) = Some l" "cl_kind l = ''claim''"
      using owner_okD(7) [OF assms] by (blast elim: owns_claimE)
    then have "sv_openBatch s (ca_channelId a) = None" using no_batch_under [OF assms] by simp
    then show ?thesis using owner_close_claim [OF assms cur, of None] by simp
  qed
  show ?thesis unfolding abandonClaimAttempt_def wp_simps
    using assms * by (auto simp: wp_simps split: option.splits)
qed

section \<open>All calls\<close>

lemma exact_keeps:
  assumes "owner_ok s"
  shows "keeps owner_ok (paymentsS (applyExactTransition env limits time c)) s"
  using exact_call_keeps_batch [OF owner_okD(1) [OF assms]] owner_payments [OF assms]
  by (auto simp: wp_simps split: prod.splits sum.splits)


definition claims_plain :: "store_command \<Rightarrow> bool" where
  \<comment> \<open>a claim attempt carries a snapshot whose numbers JavaScript can print\<close>
  "claims_plain c = (case c of SaveClaim a \<Rightarrow> wf_js (channel_json (ca_expected a)) | _ \<Rightarrow> True)"

lemma call_keeps:
  assumes "owner_ok s" "claims_plain c"
  shows "keeps owner_ok (store_call cf time c) s"
  using assms
  by (cases c) (simp_all add: wp_done register_keeps retire_keeps apply_lineage_keeps claim_operation_keeps
      abandon_operation_keeps claim_batch_keeps begin_keeps reset_keeps record_keeps mark_keeps abandon_batch_keeps
      commit_keeps save_claim_keeps apply_claim_keeps abandon_claim_keeps exact_keeps claims_plain_def)

definition server_step :: "server_config \<Rightarrow> server_store \<Rightarrow> clock \<times> store_command \<Rightarrow> server_store res" where
  \<comment> \<open>one call; what it wrote stays, also when it throws\<close>
  "server_step cf s c = Inr (fst (store_call cf (fst c) (snd c) s))"

definition empty_server :: server_store where
  "empty_server = \<lparr>sv_channels = Map.empty, sv_channelByCovenantId = Map.empty, sv_claimAttempts = Map.empty,
     sv_operations = Map.empty, sv_channelByLeaseId = Map.empty, sv_openBatch = Map.empty, sv_openClaim = Map.empty,
     sv_payments = empty_store\<rparr>"

definition server_after :: "server_config \<Rightarrow> (clock \<times> store_command) list \<Rightarrow> server_store" where
  \<comment> \<open>the store after a sequence of timed calls, those that throw included\<close>
  "server_after cf cs = run_cmds (server_step cf) empty_server cs"

lemma empty_server_owner: "owner_ok empty_server"
  by (rule owner_okI) (simp_all add: empty_server_def empty_store_def records_ok_def budget_ok_def record_bytes_def
      payer_records_def)

interpretation owners: guarded_machine "server_step cf" "\<lambda>c. claims_plain (snd c)" owner_ok "\<lambda>s s'. True" for cf
  by unfold_locales (auto simp: server_step_def intro: keeps_run call_keeps)

lemma reachable_owner: "list_all (\<lambda>c. claims_plain (snd c)) cs \<Longrightarrow> owner_ok (server_after cf cs)"
  unfolding server_after_def by (rule owners.run_inv) (rule empty_server_owner)

text \<open>C6: one owner per channel. In every store reached by any sequence of calls, those that throw
  included, a channel with an open batch settlement has no open claim; the settlement is pending,
  belongs to that channel, holds an open budget record and is owned by the channel's lease; an
  open claim is not applied, belongs to that channel and is owned by the channel's claim lease.
  Claim attempts are plain data.\<close>

theorem channel_single_owner:
  assumes "list_all (\<lambda>c. claims_plain (snd c)) cs" "s = server_after cf cs"
  shows "(\<forall>ch i. sv_openBatch s ch = Some i \<longrightarrow> sv_openClaim s ch = None \<and> owns_batch s ch i)
    \<and> (\<forall>ch i. sv_openClaim s ch = Some i \<longrightarrow> sv_openBatch s ch = None \<and> owns_claim s ch i)"
proof (intro conjI allI impI)
  have ok: "owner_ok s" using reachable_owner [OF assms(1)] by (simp add: assms(2))
  fix ch i
  { assume open_batch: "sv_openBatch s ch = Some i"
    obtain l where "sv_operations s ch = Some l" "cl_kind l \<in> {''payment'', ''deposit'', ''top-up''}"
      using open_batch_lease [OF ok open_batch] by metis
    then show "sv_openClaim s ch = None" using no_claim_under [OF ok] by auto
    show "owns_batch s ch i" using owner_okD(6) [OF ok open_batch] . }
  { assume "sv_openClaim s ch = Some i"
    then show own: "owns_claim s ch i" using owner_okD(7) [OF ok] by blast
    then show "sv_openBatch s ch = None" using no_batch_under [OF ok] by (auto elim!: owns_claimE) }
qed

lemma confirmed_only:
  "(case x of DecidedConfirmed d \<Rightarrow> Inr () | _ \<Rightarrow> Inl m) = (Inr () :: unit res) \<longleftrightarrow> (\<exists>d. x = DecidedConfirmed d)"
  by (cases x) auto

text \<open>C9: a claim counts as accepted or applied only on chain evidence. Every accepted or applied claim of
  a reachable store is final, carries the acceptance evidence of its own transaction, and that
  evidence is confirmed at the threshold the claim was prepared with.\<close>

theorem applied_claims_confirmed:
  assumes "list_all (\<lambda>c. claims_plain (snd c)) cs" "sv_claimAttempts (server_after cf cs) i = Some a"
    and "ca_status a = ClaimAccepted \<or> ca_status a = ClaimApplied"
  shows "ca_finality a = Val ''confirmed'' \<and> (\<exists>e d. ca_acceptance a = Val e \<and> ae_transactionId e = ca_transactionId a
    \<and> decideChainEvidence (AcceptedEvidence e) (ca_requiredConfirmations a) = Inr (DecidedConfirmed d))"
proof -
  have "claim_record_ok i a" using owner_okD(4) [OF reachable_owner [OF assms(1)] assms(2)] .
  then have "assert_claim_evidence a = Inr ()"
    by (auto simp: claim_record_ok_def assertClaimAttemptShape_def run_simps split: if_splits)
  then show ?thesis using assms(3)
    by (auto simp: assert_claim_evidence_def Let_def run_simps confirmed_only split: option.splits if_splits)
qed

end
