(* ===== verification/Channel_History.thy ===== *)
theory Channel_History
  imports Channel_Steps
begin

text \<open>
  The history of the stored channels: a channel is never forgotten, its identity never changes, every
  replacement raises its version and lowers neither what has been charged nor what has been signed,
  and the stored record always agrees with the head that its covenant lineage derives.
\<close>

section \<open>Channel successors\<close>

definition same_identity :: "server_channel \<Rightarrow> server_channel \<Rightarrow> bool" where
  "same_identity c d = (sc_channelId d = sc_channelId c \<and> to_lower (sc_covenantId d) = to_lower (sc_covenantId c)
     \<and> stableJson (genesis_evidence_json (sc_genesisEvidence d)) = stableJson (genesis_evidence_json (sc_genesisEvidence c))
     \<and> stableJson (channel_config_json (sc_channelConfig d)) = stableJson (channel_config_json (sc_channelConfig c)))"

definition channel_below :: "server_channel \<Rightarrow> server_channel \<Rightarrow> bool" where
  "channel_below c d = (same_identity c d \<and> dec_val (sc_version c) < dec_val (sc_version d)
     \<and> dec_val (chargedCumulativeAmount c) \<le> dec_val (chargedCumulativeAmount d)
     \<and> dec_val (signedMaxClaimable c) \<le> dec_val (signedMaxClaimable d))"

lemma channel_below_trans: "channel_below c d \<Longrightarrow> channel_below d e \<Longrightarrow> channel_below c e"
  by (auto simp: channel_below_def same_identity_def)

lemma dec_val_amount: "0 \<le> v \<Longrightarrow> dec_val (int_to_string v) = nat v"
  by (simp add: int_to_string_nonneg)

lemma increment_val: "incrementVersion v = Inr w \<Longrightarrow> dec_val w = dec_val v + 1"
  by (auto simp: incrementVersion_def run_simps dec_val_amount nat_add_distrib)

lemma not_amount_below: "amount_below a la b lb = Inr False \<Longrightarrow> dec_val b \<le> dec_val a"
  by (auto simp: amount_below_def run_simps dec_val_amount)

lemma immutable_identity: "assertImmutableChannelIdentity c d = Inr () \<Longrightarrow> same_identity c d"
  by (auto simp: assertImmutableChannelIdentity_def same_identity_def split: if_splits)

lemma settlement_below:
  "assertSettlementTransition sha escrow c d m = Inr () \<Longrightarrow> channel_below c d"
  by (auto simp: assertSettlementTransition_def run_simps channel_below_def
      dest!: immutable_identity increment_val not_amount_below)

lemma claim_below:
  "assertClaimTransition sha escrow c d a = Inr () \<Longrightarrow> channel_below c d"
  by (auto simp: assertClaimTransition_def run_simps channel_below_def
      dest!: immutable_identity increment_val)

lemma deposit_below:
  "assertBatchDepositTransition sha escrow (Some c) d k = Inr () \<Longrightarrow> channel_below c d"
  by (auto simp: assertBatchDepositTransition_def assert_deposit_successor_def deposit_rolls_back_def run_simps
      channel_below_def Let_def dest!: immutable_identity increment_val not_amount_below split: if_splits)

lemma text_same: "textDiffers a b = Inr False \<Longrightarrow> stableJson a = stableJson b"
  by (auto simp: textDiffers_def run_simps dest: stableStringify_Inr)

lemma lineage_below:
  "assertServerCovenantLineageExtension sha escrow c d = Inr () \<Longrightarrow> channel_below c d"
  by (auto simp: assertServerCovenantLineageExtension_def off_chain_changed_def run_simps channel_below_def
      same_identity_def Let_def dec_val_amount dest!: text_same split: if_splits)

lemma retired_below:
  "incrementVersion (sc_version c) = Inr v \<Longrightarrow> channel_below c (c\<lparr>sc_version := v, sc_status := t\<rparr>)"
  by (simp add: channel_below_def same_identity_def increment_val)

section \<open>Snapshots\<close>

lemma distinct_channel_members: "channel_json c = JObj ms \<Longrightarrow> distinct (map fst ms)"
  by (cases "sc_voucherSignature c"; cases "sc_lastCommitmentId c") (auto simp: channel_json_def)

lemma same_snapshot_below:
  assumes "sameChannelSnapshot (Some a) (Some b)" "wf_js (channel_json a)" "wf_js (channel_json b)" "channel_below b d"
  shows "channel_below a d" "sc_channelId a = sc_channelId b"
proof -
  obtain as bs where ms: "channel_json a = JObj as" "channel_json b = JObj bs" by (simp add: channel_json_def)
  have "canon (channel_json a) = canon (channel_json b)"
    using assms(1-3) canonical_text_iff by (simp add: sameChannelSnapshot_def)
  then have look: "map_option canon (map_of as k) = map_option canon (map_of bs k)" for k
    using canon_object_lookup [of as bs k] distinct_channel_members ms by metis
  note defs = ms [symmetric, unfolded channel_json_def js_value.inject]
  have "sc_channelId a = sc_channelId b" "sc_covenantId a = sc_covenantId b" "sc_version a = sc_version b"
    "chargedCumulativeAmount a = chargedCumulativeAmount b" "signedMaxClaimable a = signedMaxClaimable b"
    using look [of "''channelId''"] look [of "''covenantId''"] look [of "''version''"]
      look [of "''chargedCumulativeAmount''"] look [of "''signedMaxClaimable''"] by (simp_all add: defs)
  moreover have "canon (genesis_evidence_json (sc_genesisEvidence a)) = canon (genesis_evidence_json (sc_genesisEvidence b))"
    "canon (channel_config_json (sc_channelConfig a)) = canon (channel_config_json (sc_channelConfig b))"
    using look [of "''genesisEvidence''"] look [of "''channelConfig''"] by (simp_all add: defs)
  then have "stableJson (genesis_evidence_json (sc_genesisEvidence a)) = stableJson (genesis_evidence_json (sc_genesisEvidence b))"
    "stableJson (channel_config_json (sc_channelConfig a)) = stableJson (channel_config_json (sc_channelConfig b))"
    by (simp_all add: stableJson_plain_text)
  ultimately show "channel_below a d" "sc_channelId a = sc_channelId b"
    using assms(4) by (simp_all add: channel_below_def same_identity_def)
qed


section \<open>The history invariant\<close>

definition channel_ok :: "server_config \<Rightarrow> string \<Rightarrow> server_channel \<Rightarrow> bool" where
  "channel_ok cf k c = (sc_channelId c = k \<and> is_lower_hash32 k \<and> wf_js (channel_json c)
     \<and> assertServerChannelLineageConsistency (cf_sha cf) (cf_escrow cf) c = Inr ())"

definition history :: "server_config \<Rightarrow> (string \<rightharpoonup> server_channel) \<Rightarrow> server_store \<Rightarrow> bool" where
  \<comment> \<open>every channel is sound and indexed by its covenant, and the channels \<open>old\<close> are still there\<close>
  "history cf old s = ((\<forall>k c. sv_channels s k = Some c \<longrightarrow> channel_ok cf k c
       \<and> sv_channelByCovenantId s (to_lower (sc_covenantId c)) = Some k)
     \<and> (\<forall>k c. old k = Some c \<longrightarrow> (\<exists>d. sv_channels s k = Some d \<and> (d = c \<or> channel_below c d))))"

lemma history_frame [simp]:
  "history cf old (s\<lparr>sv_operations := a\<rparr>) = history cf old s" "history cf old (s\<lparr>sv_channelByLeaseId := b\<rparr>) = history cf old s"
  "history cf old (s\<lparr>sv_claimAttempts := c\<rparr>) = history cf old s" "history cf old (s\<lparr>sv_openBatch := b\<rparr>) = history cf old s"
  "history cf old (s\<lparr>sv_openClaim := b\<rparr>) = history cf old s" "history cf old (s\<lparr>sv_payments := p\<rparr>) = history cf old s"
  by (simp_all add: history_def)

lemma history_put [simp]: "history cf old (put_attempt a s) = history cf old s"
  by (simp add: put_attempt_def)

lemma historyD:
  "history cf old s \<Longrightarrow> sv_channels s k = Some c \<Longrightarrow> channel_ok cf k c"
  "history cf old s \<Longrightarrow> sv_channels s k = Some c \<Longrightarrow> sv_channelByCovenantId s (to_lower (sc_covenantId c)) = Some k"
  unfolding history_def by blast+

lemma lower_id: "is_lower_hash32 i \<Longrightarrow> to_lower i = i" "is_lower_hash32 i \<Longrightarrow> i \<noteq> []"
  by (auto simp: to_lower_lower_hash32 is_lower_hash32_def)

lemma history_set:
  assumes h: "history cf old s" and ok: "channel_ok cf k c"
    and suc: "\<And>d. sv_channels s k = Some d \<Longrightarrow> channel_below d c"
    and cov: "\<And>i. sv_channelByCovenantId s (to_lower (sc_covenantId c)) = Some i \<Longrightarrow> i \<noteq> [] \<Longrightarrow> i = k"
  shows "history cf old (s\<lparr>sv_channelByCovenantId := (sv_channelByCovenantId s)(to_lower (sc_covenantId c) \<mapsto> k),
            sv_channels := (sv_channels s)(k \<mapsto> c)\<rparr>)"
proof -
  have "j = k" if "sv_channels s j = Some d" "to_lower (sc_covenantId d) = to_lower (sc_covenantId c)" for j d
    using historyD [OF h that(1)] cov [of j] that(2) lower_id(2) by (simp add: channel_ok_def)
  moreover have "\<exists>d'. ((sv_channels s)(k \<mapsto> c)) j = Some d' \<and> (d' = d \<or> channel_below d d')" if j: "old j = Some d" for j d
  proof -
    obtain e where e: "sv_channels s j = Some e" "e = d \<or> channel_below d e" using h j unfolding history_def by blast
    show ?thesis using e suc [of e] channel_below_trans by (cases "j = k") auto
  qed
  ultimately show ?thesis using h ok unfolding history_def by auto
qed

lemma wp_set_history:
  assumes "history cf old s" "wf_js (channel_json c)" "is_lower_hash32 (sc_channelId c)"
    and "\<And>d. sv_channels s (sc_channelId c) = Some d \<Longrightarrow> channel_below d c"
    and "\<And>u. history cf old u \<Longrightarrow> Q () u" "E s"
  shows "wp (setChannel cf c) Q E s"
proof -
  have "Q () (s\<lparr>sv_channelByCovenantId := (sv_channelByCovenantId s)(to_lower (sc_covenantId c) \<mapsto> sc_channelId c),
            sv_channels := (sv_channels s)(sc_channelId c \<mapsto> c)\<rparr>)"
    if "assertServerChannelLineageConsistency (cf_sha cf) (cf_escrow cf) c = Inr ()"
      "\<nexists>i. truthy_id (sv_channelByCovenantId s (to_lower (sc_covenantId c))) = Some i \<and> i \<noteq> sc_channelId c"
    using that assms(1-4) by (intro assms(5) history_set) (auto simp: channel_ok_def)
  then show ?thesis using assms(3,6)
    by (auto simp: setChannel_def wp_simps lower_id split: sum.splits)
qed

lemma wp_reservation_history:
  assumes "history cf old s" "\<And>u. history cf old u \<Longrightarrow> sv_channels u = sv_channels s \<Longrightarrow> Q () u" "E s"
  shows "wp (applyPaymentIdentifierTransition c t) Q E s"
  by (rule wp_reservationI) (use assms in auto)


section \<open>Every call keeps the history\<close>

definition plain_command :: "store_command \<Rightarrow> bool" where
  \<comment> \<open>the records of a call hold numbers that JavaScript can print; a registered channel has a lower-case id\<close>
  "plain_command c = (case c of
       RegisterChannel d \<Rightarrow> wf_js (channel_json d) \<and> is_lower_hash32 (sc_channelId d)
     | ApplyCovenantLineage e d l \<Rightarrow> wf_js (channel_json e) \<and> wf_js (channel_json d)
     | ClaimBatch a \<Rightarrow> (case ba_channelTransition a of
           Val t \<Rightarrow> wf_js (channel_json (ct_next t)) \<and> (case ct_previous t of None \<Rightarrow> True | Some p \<Rightarrow> wf_js (channel_json p))
         | _ \<Rightarrow> True)
     | CommitSettlement r \<Rightarrow> wf_js (channel_json (se_channel r))
     | SaveClaim a \<Rightarrow> wf_js (channel_json (ca_expected a))
     | ApplyClaim d a \<Rightarrow> wf_js (channel_json d)
     | _ \<Rightarrow> True)"

lemma plain_claims: "plain_command c \<Longrightarrow> claims_plain c"
  by (cases c) (simp_all add: plain_command_def claims_plain_def)

lemma same_identity_id: "channel_below c d \<Longrightarrow> sc_channelId d = sc_channelId c"
  by (simp add: channel_below_def same_identity_def)

lemma register_history:
  assumes "history cf old s" "plain_command (RegisterChannel c)"
  shows "keeps (history cf old) (registerChannel cf c) s"
  using assms
  by (auto simp: registerChannel_def wp_simps plain_command_def split: option.splits intro!: wp_set_history)

lemma retire_history:
  assumes "history cf old s"
  shows "keeps (history cf old) (retireChannel cf ch i e) s"
proof -
  have "history cf old (s\<lparr>sv_channels := (sv_channels s)(ch \<mapsto> c\<lparr>sc_version := v, sc_status := ChannelRetired\<rparr>)\<rparr>)"
    if c: "sv_channels s ch = Some c" "incrementVersion (sc_version c) = Inr v"
      "assertServerChannelLineageConsistency (cf_sha cf) (cf_escrow cf) (c\<lparr>sc_version := v, sc_status := ChannelRetired\<rparr>) = Inr ()" for c v
  proof -
    let ?c = "c\<lparr>sc_version := v, sc_status := ChannelRetired\<rparr>"
    have ok: "channel_ok cf ch c" "sv_channelByCovenantId s (to_lower (sc_covenantId c)) = Some ch"
      using historyD [OF assms c(1)] by simp_all
    have "wf_js (channel_json ?c) = wf_js (channel_json c)" by (simp add: channel_json_def)
    then have new: "channel_ok cf ch ?c" using c(3) ok(1) unfolding channel_ok_def by simp
    have "history cf old (s\<lparr>sv_channelByCovenantId := (sv_channelByCovenantId s)(to_lower (sc_covenantId ?c) \<mapsto> ch),
            sv_channels := (sv_channels s)(ch \<mapsto> ?c)\<rparr>)"
    proof (rule history_set [OF assms new])
      show "channel_below d ?c" if "sv_channels s ch = Some d" for d
        using that c(1) retired_below [OF c(2)] by simp
      show "i = ch" if "sv_channelByCovenantId s (to_lower (sc_covenantId ?c)) = Some i" for i
        using that ok(2) by simp
    qed
    then have "history cf old (s\<lparr>sv_channelByCovenantId := (sv_channelByCovenantId s)(to_lower (sc_covenantId c) \<mapsto> ch),
            sv_channels := (sv_channels s)(ch \<mapsto> ?c)\<rparr>)" by simp
    moreover have "(sv_channelByCovenantId s)(to_lower (sc_covenantId c) \<mapsto> ch) = sv_channelByCovenantId s"
      using ok(2) by (simp add: fun_upd_idem)
    ultimately show ?thesis by simp
  qed
  then show ?thesis using assms
    by (auto simp: retireChannel_def wp_simps Let_def split: option.splits sum.splits)
qed

lemma apply_lineage_history:
  assumes "history cf old s" "plain_command (ApplyCovenantLineage e c i)"
  shows "keeps (history cf old) (applyCovenantLineage cf e c i) s"
proof -
  have wf: "wf_js (channel_json e)" "wf_js (channel_json c)" using assms(2) by (simp_all add: plain_command_def)
  have "wp (setChannel cf c) (\<lambda>_ u. history cf old u) (history cf old) s"
    if snap: "sameChannelSnapshot (sv_channels s (sc_channelId e)) (Some e)"
      and ext: "assertServerCovenantLineageExtension (cf_sha cf) (cf_escrow cf) e c = Inr ()"
  proof -
    obtain d where d: "sv_channels s (sc_channelId e) = Some d"
      using snap by (cases "sv_channels s (sc_channelId e)") (auto simp: sameChannelSnapshot_def)
    have ok: "channel_ok cf (sc_channelId e) d" using historyD(1) [OF assms(1) d] .
    have b: "channel_below d c" using same_snapshot_below(1) [of d e c] snap d ok wf lineage_below [OF ext] by (simp add: channel_ok_def)
    have "sc_channelId c = sc_channelId e" using same_identity_id [OF b] ok by (simp add: channel_ok_def)
    then show ?thesis using assms(1) wf(2) b d ok by (intro wp_set_history) (auto simp: channel_ok_def)
  qed
  then show ?thesis using assms(1)
    by (auto simp: applyCovenantLineage_def wp_simps split: option.splits sum.splits)
qed

lemma claim_operation_history: "history cf old s \<Longrightarrow> keeps (history cf old) (claimChannelOperation cf l) s"
  by (auto simp: claimChannelOperation_def wp_simps split: option.splits sum.splits)

lemma abandon_operation_history: "history cf old s \<Longrightarrow> keeps (history cf old) (abandonChannelOperation cf l t) s"
  by (auto simp: abandonChannelOperation_def findChannelOperationByLeaseId_def wp_simps split: option.splits sum.splits)

lemma deposit_set:
  assumes "history cf old s" "plain_command (ClaimBatch a)" "ba_channelTransition a = Val t"
    and "normalizeBatchSettlementAttempt env a = Inr a" "sameChannelSnapshot (sv_channels s (ba_channelId a)) (ct_previous t)"
    and "assertBatchDepositTransition (cf_sha cf) (cf_escrow cf) (ct_previous t) (ct_next t) k = Inr ()"
  shows "wf_js (channel_json (ct_next t))" "is_lower_hash32 (sc_channelId (ct_next t))"
    "sv_channels s (sc_channelId (ct_next t)) = Some d \<Longrightarrow> channel_below d (ct_next t)"
proof -
  have id: "sc_channelId (ct_next t) = ba_channelId a" "is_lower_hash32 (ba_channelId a)"
    using assms(3,4) by (auto simp: normalizeBatchSettlementAttempt_def transition_checked_def run_simps split: if_splits)
  then show "is_lower_hash32 (sc_channelId (ct_next t))" by simp
  show "wf_js (channel_json (ct_next t))" using assms(2,3) by (simp add: plain_command_def)
  assume d: "sv_channels s (sc_channelId (ct_next t)) = Some d"
  then obtain p where p: "ct_previous t = Some p" "sameChannelSnapshot (Some d) (Some p)"
    using assms(5) id by (cases "ct_previous t") (auto simp: sameChannelSnapshot_def)
  then show "channel_below d (ct_next t)"
    using same_snapshot_below(1) [OF p(2) _ _ deposit_below] historyD(1) [OF assms(1) d] assms(2,3,6)
    by (auto simp: plain_command_def channel_ok_def)
qed


lemma claim_batch_history:
  assumes "history cf old s" "plain_command (ClaimBatch input)"
  shows "keeps (history cf old) (claimBatchSettlement cf time input) s"
proof -
  have reserve: "wp (applyPaymentIdentifierTransition c v) (\<lambda>_ u. history cf old (put_attempt a u)) (history cf old) u"
    if "history cf old u" for c v a u
    by (rule wp_reservation_history [OF that]) (use that in simp_all)
  have install: "keeps (history cf old) (install_batch cf time a) s"
    if "\<And>t. ba_channelTransition a = Val t \<Longrightarrow> wf_js (channel_json (ct_next t)) \<and> is_lower_hash32 (sc_channelId (ct_next t))
          \<and> (\<forall>d. sv_channels s (sc_channelId (ct_next t)) = Some d \<longrightarrow> channel_below d (ct_next t))" for a
    using assms(1) that reserve
    by (auto simp: install_batch_def wp_simps split: prod.splits sum.splits opt_field.splits intro!: wp_set_history)
  have claim: "wp (claim_transition cf input (sv_channels s (ba_channelId input))) Q (history cf old) s"
    if "(\<And>t. ba_channelTransition input = Val t \<Longrightarrow> sameChannelSnapshot (sv_channels s (ba_channelId input)) (ct_previous t)
          \<and> assertBatchDepositTransition (cf_sha cf) (cf_escrow cf) (ct_previous t) (ct_next t) (ba_operationKind input) = Inr ()) \<Longrightarrow> Q () s" for Q
    using that assms(1) by (auto simp: claim_transition_def wp_simps split: opt_field.splits sum.splits)
  have new: "keeps (history cf old) (install_batch cf time input) s"
    if "normalizeBatchSettlementAttempt (cf_env cf) input = Inr input"
      "\<And>t. ba_channelTransition input = Val t \<Longrightarrow> sameChannelSnapshot (sv_channels s (ba_channelId input)) (ct_previous t)
          \<and> assertBatchDepositTransition (cf_sha cf) (cf_escrow cf) (ct_previous t) (ct_next t) (ba_operationKind input) = Inr ()"
    by (rule install) (use that deposit_set [OF assms _ that(1)] in blast)
  show ?thesis
    using assms(1) new normalize_batch(1) [of "cf_env cf" input]
    by (auto simp: claimBatchSettlement_def wp_simps split: option.splits sum.splits intro!: claim)
qed

lemma handler_history:
  assumes "history cf old s"
  shows "wp (putBatchAttempt a') (\<lambda>_. wp (updateChannelOperation ch i st t r)
           (\<lambda>_. wp (applyPaymentIdentifierTransition c v) (\<lambda>_. history cf old) (history cf old)) (history cf old)) (history cf old) s"
proof -
  have "keeps (history cf old) (applyPaymentIdentifierTransition c v) u" if "history cf old u" for u
    by (rule wp_reservation_history [OF that]) (use that in simp_all)
  then show ?thesis using assms by (auto simp: wp_simps split: option.splits)
qed

lemma begin_history: "history cf old s \<Longrightarrow> keeps (history cf old) (beginBatchHandler cf i t) s"
  unfolding beginBatchHandler_def wp_bind wp_require_batch
  by (auto simp: wp_bind wp_basic handler_history split: option.splits sum.splits)

lemma reset_history: "history cf old s \<Longrightarrow> keeps (history cf old) (resetBatchHandlerBeforeExecution time i t) s"
  unfolding resetBatchHandlerBeforeExecution_def wp_bind wp_require_batch
  by (auto simp: wp_bind wp_basic Let_def handler_history split: option.splits sum.splits)

lemma record_history: "history cf old s \<Longrightarrow> keeps (history cf old) (recordBatchHandlerResult cf i v t) s"
  unfolding recordBatchHandlerResult_def wp_bind wp_require_batch
  by (auto simp: wp_bind wp_basic handler_history split: option.splits sum.splits)

lemma mark_history: "history cf old s \<Longrightarrow> keeps (history cf old) (markBatchHandlerRecoveryRequired cf i v t) s"
  unfolding markBatchHandlerRecoveryRequired_def wp_bind wp_require_batch
  by (auto simp: wp_bind wp_basic handler_history split: option.splits sum.splits)

lemma release_history: "history cf old s \<Longrightarrow> keeps (history cf old) (release_budget cf time a) s"
  by (auto simp: release_budget_def wp_simps split: option.splits sum.splits)

lemma abandon_batch_history:
  assumes "history cf old s"
  shows "keeps (history cf old) (abandonBatchSettlement cf time i r t) s"
  using assms
  by (auto simp: abandonBatchSettlement_def wp_simps release_history split: option.splits sum.splits
      intro!: wp_reservation_history)

lemma write_settlement_history:
  assumes "history cf old s" "wf_js (channel_json (se_channel record))" "is_lower_hash32 (sc_channelId (se_channel record))"
    and "\<And>d. sv_channels s (sc_channelId (se_channel record)) = Some d \<Longrightarrow> channel_below d (se_channel record)"
  shows "keeps (history cf old) (write_settlement cf time a record completed) s"
proof -
  have fin: "wp (setChannel cf (se_channel record)) Q (history cf old) u"
    if "history cf old u" "sv_channels u = sv_channels s" "\<And>u. history cf old u \<Longrightarrow> Q () u" for u Q
    by (rule wp_set_history [where cf = cf and old = old]) (use that assms(2-4) in auto)
  show ?thesis using assms(1)
    by (auto simp: write_settlement_def wp_simps Let_def split: prod.splits sum.splits option.splits
        intro!: fin wp_reservation_history [where cf = cf and old = old])
qed


lemma commit_history:
  assumes "history cf old s" "plain_command (CommitSettlement record)"
  shows "keeps (history cf old) (commitSettlement cf time record) s"
proof -
  let ?new = "se_channel record"
  have written: "keeps (history cf old) (write_settlement cf time a record m) s"
    if d: "sv_channels s (sc_channelId (se_expected record)) = Some d"
      and t: "assertSettlementTransition (cf_sha cf) (cf_escrow cf) d ?new c = Inr ()" for a m d c
  proof (rule write_settlement_history)
    have ok: "channel_ok cf (sc_channelId (se_expected record)) d" using historyD(1) [OF assms(1) d] .
    have id: "sc_channelId ?new = sc_channelId (se_expected record)"
      using same_identity_id [OF settlement_below [OF t]] ok by (simp add: channel_ok_def)
    show "is_lower_hash32 (sc_channelId ?new)" using ok id by (simp add: channel_ok_def)
    show "channel_below e ?new" if "sv_channels s (sc_channelId ?new) = Some e" for e
      using that d id settlement_below [OF t] by simp
  qed (use assms in \<open>simp_all add: plain_command_def\<close>)
  show ?thesis using assms(1) written
    by (auto simp: commitSettlement_def wp_simps Let_def split: option.splits sum.splits)
qed

lemma save_claim_history: "history cf old s \<Longrightarrow> keeps (history cf old) (saveClaimAttempt time a) s"
  by (auto simp: saveClaimAttempt_def wp_simps split: option.splits sum.splits)

lemma apply_claim_history:
  assumes "history cf old s" "plain_command (ApplyClaim c a)"
  shows "keeps (history cf old) (applyClaimAttempt cf c a) s"
proof -
  have chan: "wp (setChannel cf c) (\<lambda>_ u. history cf old u) (history cf old) s"
    if d: "sv_channels s (sc_channelId c) = Some d" and t: "assertClaimTransition (cf_sha cf) (cf_escrow cf) d c b = Inr ()" for d b
    by (rule wp_set_history [where cf = cf and old = old])
      (use assms d claim_below [OF t] historyD(1) [OF assms(1) d] in \<open>auto simp: plain_command_def channel_ok_def\<close>)
  show ?thesis using assms(1) chan
    by (auto simp: applyClaimAttempt_def wp_simps split: option.splits sum.splits)
qed

lemma abandon_claim_history: "history cf old s \<Longrightarrow> keeps (history cf old) (abandonClaimAttempt i) s"
  by (auto simp: abandonClaimAttempt_def wp_simps split: option.splits)

lemma exact_history: "history cf old s \<Longrightarrow> keeps (history cf old) (paymentsS f) s"
  by (auto simp: wp_simps split: prod.splits sum.splits)

lemma call_history:
  assumes "history cf old s" "plain_command c"
  shows "keeps (history cf old) (store_call cf time c) s"
  using assms
  by (cases c) (simp_all add: wp_done register_history retire_history apply_lineage_history claim_operation_history
      abandon_operation_history claim_batch_history begin_history reset_history record_history mark_history
      abandon_batch_history commit_history save_claim_history apply_claim_history abandon_claim_history exact_history)

section \<open>Reachable stores\<close>

definition channels_below :: "server_store \<Rightarrow> server_store \<Rightarrow> bool" where
  "channels_below s t = (\<forall>k c. sv_channels s k = Some c \<longrightarrow>
     (\<exists>d. sv_channels t k = Some d \<and> (d = c \<or> channel_below c d)))"

lemma history_start: "history cf (\<lambda>_. None) s \<Longrightarrow> history cf (sv_channels s) s"
  unfolding history_def by blast

lemma history_forget: "history cf old s \<Longrightarrow> history cf (\<lambda>_. None) s"
  unfolding history_def by blast

interpretation channel_history: guarded_machine "server_step cf" "\<lambda>c. plain_command (snd c)" "history cf (\<lambda>_. None)" channels_below for cf
proof
  fix s c s' assume s: "history cf (\<lambda>_. None) s" "plain_command (snd c)" "server_step cf s c = Inr s'"
  then have h: "history cf (sv_channels s) s'"
    using keeps_run [OF call_history [OF history_start]] by (auto simp: server_step_def)
  then show "history cf (\<lambda>_. None) s'" by (rule history_forget)
  show "channels_below s s'" using h by (simp add: history_def channels_below_def)
next
  fix s t u assume "channels_below s t" "channels_below t u"
  show "channels_below s u" unfolding channels_below_def
  proof (intro allI impI)
    fix k c assume "sv_channels s k = Some c"
    then obtain d where d: "sv_channels t k = Some d" "d = c \<or> channel_below c d"
      using \<open>channels_below s t\<close> unfolding channels_below_def by blast
    then obtain e where "sv_channels u k = Some e" "e = d \<or> channel_below d e"
      using \<open>channels_below t u\<close> unfolding channels_below_def by blast
    then show "\<exists>e. sv_channels u k = Some e \<and> (e = c \<or> channel_below c e)"
      using d(2) channel_below_trans by blast
  qed
qed (simp add: channels_below_def)

lemma empty_history: "history cf (\<lambda>_. None) empty_server"
  by (simp add: history_def empty_server_def)



end
