(* ===== verification/Chain_Journal.thy ===== *)
theory Chain_Journal
  imports Chain_Update
begin

text \<open>
  What a lineage journal means. The canonical transitions are those accepted and not removed; a
  selected-chain update removes the transitions of the removed blocks and appends those of the
  added ones. The lemmas of the first sections describe each loop of the update on its own.
\<close>

section \<open>Journals\<close>

lemma canonical_loop_append:
  "canonical_loop active (xs @ ys) = bindE (canonical_loop active xs) (\<lambda>active'. canonical_loop active' ys)"
  by (induction active xs rule: canonical_loop.induct) auto

lemma genesis_loop_append:
  "genesis_loop tx active (xs @ ys) = genesis_loop tx (genesis_loop tx active xs) ys"
  by (induction tx active xs rule: genesis_loop.induct) auto

definition keyed :: "(string \<times> lineage_transition) list \<Rightarrow> bool" where
  \<comment> \<open>the map of active events: distinct keys, each the transaction's\<close>
  "keyed active = (distinct (map fst active) \<and> (\<forall>(k, t) \<in> set active. k = to_lower (lt_transactionId t)))"

lemma keyed_Nil [simp]: "keyed []"
  by (simp add: keyed_def)

lemma keyed_filter: "keyed active \<Longrightarrow> keyed (filter P active)"
  by (auto simp: keyed_def distinct_map_filter)

lemma keyed_map_of: "keyed active \<Longrightarrow> map_of active k = Some t \<longleftrightarrow> (k, t) \<in> set active"
  by (auto simp: keyed_def)

lemma keyed_snoc:
  "keyed active \<Longrightarrow> map_of active (to_lower (lt_transactionId t)) = None \<Longrightarrow>
     keyed (active @ [(to_lower (lt_transactionId t), t)])"
  by (auto simp: keyed_def map_of_eq_None_iff)

definition accepted_in_block :: "string \<Rightarrow> lineage_transition \<Rightarrow> bool" where
  "accepted_in_block block t = (to_lower (ae_acceptingBlockHash (lt_acceptance t)) = to_lower block)"

lemma drop_removed_filter:
  assumes "keyed active"
  shows "drop_removed block ids active =
     filter (\<lambda>(k, t). \<not> (k \<in> to_lower ` set ids \<and> accepted_in_block block t)) active"
  using assms
proof (induction block ids active rule: drop_removed.induct)
  case (2 block i ids active)
  define kept where "kept = (case map_of active (to_lower i) of
     Some t \<Rightarrow> if accepted_in_block block t then filter (\<lambda>p. fst p \<noteq> to_lower i) active else active
   | None \<Rightarrow> active)"
  have kept: "kept = filter (\<lambda>(k, t). \<not> (k = to_lower i \<and> accepted_in_block block t)) active"
  proof (cases "map_of active (to_lower i)")
    case None
    then have "(\<lambda>(k, t). \<not> (k = to_lower i \<and> accepted_in_block block t)) p" if "p \<in> set active" for p
      using that by (force simp: map_of_eq_None_iff)
    with None show ?thesis by (simp add: kept_def)
  next
    case (Some t)
    then have "p = (to_lower i, t)" if "p \<in> set active" "fst p = to_lower i" for p
      using that 2(2) by (metis keyed_map_of option.inject prod.collapse)
    with Some show ?thesis
      by (auto simp: kept_def intro!: filter_cong filter_True [symmetric])
  qed
  have "drop_removed block (i # ids) active = drop_removed block ids kept"
    unfolding kept_def accepted_in_block_def by simp
  also have "\<dots> = filter (\<lambda>(k, t). \<not> (k \<in> to_lower ` set ids \<and> accepted_in_block block t)) kept"
    using 2(2) kept keyed_filter 2(1) unfolding kept_def accepted_in_block_def by simp
  finally show ?case
    by (auto simp: kept intro!: filter_cong)
qed simp

lemma keyed_drop_removed: "keyed active \<Longrightarrow> keyed (drop_removed block ids active)"
  by (simp add: drop_removed_filter keyed_filter)

lemma canonical_loop_keyed:
  "canonical_loop active events = Inr active' \<Longrightarrow> keyed active \<Longrightarrow> keyed active'"
proof (induction active events rule: canonical_loop.induct)
  case (2 active n t rest)
  then show ?case by (auto simp: keyed_snoc split: if_splits)
qed (auto simp: keyed_drop_removed)

lemma canonicalAcceptedEvents_Inr:
  "canonicalAcceptedEvents journal = Inr ts \<longleftrightarrow>
     (\<exists>active. canonical_loop [] journal = Inr active \<and> ts = map snd active)"
  by (auto simp: canonicalAcceptedEvents_def run_simps)


section \<open>Removed blocks\<close>

lemma removal_ids_hit:
  assumes "keyed active" "(k, t) \<in> set active"
  shows "k \<in> to_lower ` set (removed_transactions m (map snd active) genesis (to_lower hash))
     \<and> accepted_in_block (to_lower hash) t \<longleftrightarrow> accepted_in_block hash t"
proof -
  have "k = to_lower (lt_transactionId t)" "t \<in> set (map snd active)"
    using assms by (force simp: keyed_def)+
  then have "to_lower (lt_transactionId t)
      \<in> set (removed_transactions m (map snd active) genesis (to_lower hash))" if "accepted_in_block hash t"
    using that by (simp add: removed_transactions_def accepted_in_block_def)
  then have "k \<in> to_lower ` set (removed_transactions m (map snd active) genesis (to_lower hash))"
    if "accepted_in_block hash t"
    using that \<open>k = _\<close> by (metis image_eqI to_lower_idem)
  then show ?thesis by (auto simp: accepted_in_block_def)
qed

lemma drop_removed_block:
  assumes "keyed all" "active = filter P all"
  shows "drop_removed (to_lower hash) (removed_transactions m (map snd all) genesis (to_lower hash)) active =
     filter (\<lambda>(k, t). \<not> accepted_in_block hash t) active"
proof -
  have "keyed active" using assms by (simp add: keyed_filter)
  then show ?thesis
    using removal_ids_hit [OF assms(1), of _ _ m genesis hash] assms(2)
    by (auto simp add: drop_removed_filter simp del: image_iff intro!: filter_cong)
qed

definition in_blocks :: "string list \<Rightarrow> lineage_transition \<Rightarrow> bool" where
  "in_blocks hashes t = (\<exists>hash \<in> set hashes. accepted_in_block hash t)"

lemma no_transactions_in_block:
  "removed_transactions m (map snd all) genesis (to_lower hash) = [] \<Longrightarrow> (k, t) \<in> set all \<Longrightarrow>
     \<not> accepted_in_block hash t"
  by (auto simp: removed_transactions_def accepted_in_block_def filter_empty_conv)

lemma removal_loop_canonical:
  assumes "removal_loop sha m a (map snd all) genesis removed journal hashes = Inr (Journaled journal')"
    and "keyed all" "canonical_loop [] journal = Inr (filter P all)"
  shows "canonical_loop [] journal' = Inr (filter (\<lambda>(k, t). P (k, t) \<and> \<not> in_blocks hashes t) all)"
  using assms
proof (induction hashes arbitrary: removed journal P)
  case Nil
  then show ?case by (simp add: in_blocks_def)
next
  case (Cons hash hashes)
  let ?ids = "removed_transactions m (map snd all) genesis (to_lower hash)"
  have split: "(\<lambda>(k, t). P (k, t) \<and> \<not> in_blocks (hash # hashes) t) =
      (\<lambda>(k, t). (\<lambda>(k, t). P (k, t) \<and> \<not> accepted_in_block hash t) (k, t) \<and> \<not> in_blocks hashes t)"
    by (auto simp: in_blocks_def fun_eq_iff)
  show ?case
  proof (cases "?ids = []")
    case True
    have "filter P all = filter (\<lambda>(k, t). P (k, t) \<and> \<not> accepted_in_block hash t) all"
      using no_transactions_in_block [OF True] by (auto intro!: filter_cong)
    with Cons.prems(3) have "canonical_loop [] journal =
        Inr (filter (\<lambda>(k, t). P (k, t) \<and> \<not> accepted_in_block hash t) all)" by simp
    moreover from True Cons.prems(1) have
      "removal_loop sha m a (map snd all) genesis (to_lower hash # removed) journal hashes = Inr (Journaled journal')"
      by (simp add: run_simps Let_def split: if_splits)
    ultimately show ?thesis
      unfolding split by (intro Cons.IH Cons.prems(2))
  next
    case False
    let ?journal = "journal @ [RemovedEvent (JsInt (int (length journal))) (to_lower hash) ?ids]"
    have "canonical_loop [] ?journal = Inr (filter (\<lambda>(k, t). P (k, t) \<and> \<not> accepted_in_block hash t) all)"
      using Cons.prems drop_removed_block [OF Cons.prems(2) refl]
      by (auto simp: canonical_loop_append intro!: filter_cong)
    moreover from False Cons.prems(1) have
      "removal_loop sha m a (map snd all) genesis (to_lower hash # removed) ?journal hashes = Inr (Journaled journal')"
      by (simp add: run_simps Let_def split: if_splits)
    ultimately show ?thesis
      unfolding split by (intro Cons.IH Cons.prems(2))
  qed
qed

lemma removal_canonical:
  assumes "canonicalAcceptedEvents journal = Inr canonical"
    and "removal_loop sha m a canonical genesis [] journal hashes = Inr (Journaled journal')"
  shows "canonicalAcceptedEvents journal' = Inr (filter (\<lambda>t. \<not> in_blocks hashes t) canonical)"
proof -
  obtain all where all: "canonical_loop [] journal = Inr all" "canonical = map snd all"
    using assms(1) by (auto simp: canonicalAcceptedEvents_Inr)
  then have "canonical_loop [] journal' = Inr (filter (\<lambda>(k, t). \<not> in_blocks hashes t) all)"
    using removal_loop_canonical [of sha m a all genesis "[]" journal hashes journal' "\<lambda>_. True"] assms(2)
      canonical_loop_keyed [OF all(1)] by simp
  then show ?thesis
    by (simp add: canonicalAcceptedEvents_def all(2) filter_map comp_def case_prod_unfold)
qed

section \<open>Added blocks\<close>

fun journaled :: "lineage_event \<Rightarrow> lineage_transition list" where
  "journaled (AcceptedEvent n t) = [t]"
| "journaled _ = []"

lemma add_transitions_journal:
  "add_transitions m c b spends journal ts = Inr (spends', journal') \<Longrightarrow>
     \<exists>new. journal' = journal @ new \<and> concat (map journaled new) = ts \<and> concat (map removed_ids new) = []
       \<and> genesis_loop tx g new = g \<and> (\<forall>t\<in>set ts. assertLineageTransition m t = Inr ())"
proof (induction ts arbitrary: spends journal)
  case (Cons t ts)
  then obtain new where "journal' = (journal @ [AcceptedEvent (JsInt (int (length journal))) t]) @ new"
    "concat (map journaled new) = ts" "concat (map removed_ids new) = []" "genesis_loop tx g new = g"
    "\<forall>t\<in>set ts. assertLineageTransition m t = Inr ()"
    by (fastforce simp: run_simps split: if_splits)
  with Cons.prems show ?case
    by (intro exI [of _ "AcceptedEvent (JsInt (int (length journal))) t # new"]) (auto simp: run_simps)
qed simp

lemma reaccept_genesis_journal:
  "reaccept_genesis m a c b journal g = Inr journal' \<Longrightarrow>
     \<exists>new. journal' = journal @ new \<and> concat (map journaled new) = [] \<and> concat (map removed_ids new) = []"
  by (auto simp: reaccept_genesis_def run_simps split: option.splits if_splits)

lemma add_blocks_journal:
  "add_blocks m a c added spends journal blocks = Inr journal' \<Longrightarrow>
     \<exists>new. journal' = journal @ new \<and> concat (map journaled new) = concat (map sb_transitions blocks)
       \<and> concat (map removed_ids new) = []"
proof (induction blocks arbitrary: added spends journal)
  case (Cons block blocks)
  from Cons.prems obtain j1 spends' j2 where steps:
    "reaccept_genesis m a c (to_lower (sb_blockHash block)) journal (sb_genesisAcceptance block) = Inr j1"
    "add_transitions m c (to_lower (sb_blockHash block)) spends j1 (sb_transitions block) = Inr (spends', j2)"
    "add_blocks m a c (to_lower (sb_blockHash block) # added) spends' j2 blocks = Inr journal'"
    by (auto simp: run_simps Let_def split: if_splits)
  from reaccept_genesis_journal [OF steps(1)] add_transitions_journal [OF steps(2)] Cons.IH [OF steps(3)]
  obtain n1 n2 n3 where "j1 = journal @ n1" "j2 = j1 @ n2" "journal' = j2 @ n3"
    "concat (map journaled n1) = []" "concat (map journaled n2) = sb_transitions block"
    "concat (map journaled n3) = concat (map sb_transitions blocks)"
    "concat (map removed_ids n1) = []" "concat (map removed_ids n2) = []" "concat (map removed_ids n3) = []"
    by metis
  then show ?case by (intro exI [of _ "n1 @ n2 @ n3"]) auto
qed simp

lemma canonical_loop_adds:
  "canonical_loop active new = Inr active' \<Longrightarrow> concat (map removed_ids new) = [] \<Longrightarrow>
     map snd active' = map snd active @ concat (map journaled new)"
  by (induction active new rule: canonical_loop.induct) (auto split: if_splits)

section \<open>The effect of an update\<close>

lemma compact_cutoff_le: "compact_cutoff journal \<le> length journal - 64"
  using length_takeWhile_le [of _ "take (length journal - 64) journal"]
  by (auto simp: compact_cutoff_def Let_def intro: order_trans)

lemma compactLineage_Inr:
  assumes "compactLineage sha state = Inr state'"
  shows "state' = state \<or>
    (\<exists>k anchor. 0 < k \<and> k \<le> length (ln_journal state) - 64
       \<and> compactedLineageAnchor sha (ln_manifest state) (ln_anchor state) (take k (ln_journal state))
           (cp_blockHash (ln_checkpoint state)) = Inr anchor
       \<and> state' = state\<lparr>ln_anchor := anchor, ln_journal := resequenced (drop k (ln_journal state))\<rparr>)"
  using assms compact_cutoff_le [of "ln_journal state"]
  by (auto simp: compactLineage_def Let_def run_simps split: if_splits intro!: exI [of _ "compact_cutoff (ln_journal state)"])

lemma finish_update_Inr:
  assumes "finish_update sha state = Inr state'"
  obtains compacted head where "compactLineage sha state = Inr compacted"
    "derive_head (ln_manifest compacted) (ln_anchor compacted) (ln_journal compacted) = Inr head"
    "assertLineageBudget (compacted\<lparr>ln_currentHead := head\<rparr>) = Inr ()"
    "ln_manifest state' = ln_manifest compacted" "ln_anchor state' = ln_anchor compacted"
    "ln_journal state' = ln_journal compacted" "ln_checkpoint state' = ln_checkpoint compacted"
    "ln_currentHead state' = head"
    "ln_availability state' = (if canonicalGenesisAcceptance compacted \<noteq> None then ''available'' else ''unknown'')"
proof -
  from assms obtain compacted head where
    "compactLineage sha state = Inr compacted"
    "derive_head (ln_manifest compacted) (ln_anchor compacted) (ln_journal compacted) = Inr head"
    "assertLineageBudget (compacted\<lparr>ln_currentHead := head\<rparr>) = Inr ()"
    and result: "state' = (if canonicalGenesisAcceptance (compacted\<lparr>ln_currentHead := head\<rparr>) \<noteq> None
       then compacted\<lparr>ln_currentHead := head, ln_availability := ''available'', ln_unavailableReason := None\<rparr>
       else unavailable (compacted\<lparr>ln_currentHead := head\<rparr>) (''covenant genesis was removed from the selected chain and ''
                 @ ''has not been authoritatively reaccepted''))"
    by (auto simp: finish_update_def deriveCanonicalLineage_def run_simps)
  then show thesis
    by (intro that [of compacted head]) (auto simp: canonicalGenesisAcceptance_def unavailable_def)
qed

text \<open>The two ways an update ends: the durable state unchanged but for its availability, or the
  journal extended by the removals and the added events, compacted and derived again.\<close>

lemma update_cases:
  assumes "applyCovenantSelectedChainUpdate sha current update = Inr state'"
  obtains (unknown) reason where "state' = unavailable current reason"
  | (moved) canonical journal journal' where
      "cu_continuity update = ''complete''"
      "canonicalAcceptedEvents (ln_journal current) = Inr canonical"
      "removal_loop sha (ln_manifest current) (ln_anchor current) canonical (canonicalGenesisAcceptance current) []
         (ln_journal current) (cu_removedChainBlockHashes update) = Inr (Journaled journal)"
      "add_blocks (ln_manifest current) (ln_anchor current) (cu_checkpoint update) [] [] journal
         (cu_addedChainBlocks update) = Inr journal'"
      "finish_update sha (current\<lparr>ln_journal := journal', ln_checkpoint := cu_checkpoint update\<rparr>) = Inr state'"
proof (cases "cu_continuity update = ''pruned''")
  case True
  with assms show thesis
    by (intro unknown) (auto simp: applyCovenantSelectedChainUpdate_def run_simps split: if_splits)
next
  case False
  with assms have complete: "cu_continuity update = ''complete''" "apply_delta sha current update = Inr state'"
    by (auto simp: applyCovenantSelectedChainUpdate_def run_simps split: if_splits)
  then obtain canonical removals where "canonicalAcceptedEvents (ln_journal current) = Inr canonical"
    "removal_loop sha (ln_manifest current) (ln_anchor current) canonical (canonicalGenesisAcceptance current) []
       (ln_journal current) (cu_removedChainBlockHashes update) = Inr removals"
    by (auto simp: apply_delta_def run_simps)
  with complete show thesis
    by (cases removals) (auto simp: apply_delta_def run_simps intro: unknown moved)
qed

lemma update_checked:
  assumes "applyCovenantSelectedChainUpdate sha current update = Inr state'"
  shows "assert_update_budget current update = Inr ()" "assertLineageState sha current = Inr ()"
    "assertCheckpoint (cu_checkpoint update) = Inr ()" "sameCheckpoint (ln_checkpoint current) (cu_fromCheckpoint update)"
  using assms by (auto simp: applyCovenantSelectedChainUpdate_def run_simps split: if_splits)

lemma assertLineageState_Inr:
  "assertLineageState sha state = Inr () \<longleftrightarrow>
     assertLineageBudget state = Inr () \<and> assertLaunchManifest sha (ln_manifest state) = Inr ()
     \<and> assert_anchor sha (ln_manifest state) (ln_anchor state) = Inr ()
     \<and> assertCheckpoint (ln_checkpoint state) = Inr ()
     \<and> ln_availability state \<in> {''available'', ''unknown''}
     \<and> assert_journal (ln_manifest state) 0 (ln_journal state) = Inr ()
     \<and> (\<exists>head. derive_head (ln_manifest state) (ln_anchor state) (ln_journal state) = Inr head
          \<and> sameLineageHead head (ln_currentHead state))
     \<and> (ln_availability state = ''available'' \<longrightarrow> canonicalGenesisAcceptance state \<noteq> None)"
  by (auto simp: assertLineageState_def deriveCanonicalLineage_def run_simps canonicalGenesisAcceptance_def)

lemma checked_counter:
  assumes "assertLineageState sha state = Inr ()"
  obtains n where "an_compactedEvents (ln_anchor state) = JsInt (int n)" "int n \<le> MAX_SAFE_INTEGER"
proof -
  from assms have "in_range (an_compactedEvents (ln_anchor state)) 0 MAX_SAFE_INTEGER"
    by (auto simp: assertLineageState_Inr assert_anchor_def run_simps)
  then obtain i where "an_compactedEvents (ln_anchor state) = JsInt i" "0 \<le> i" "i \<le> MAX_SAFE_INTEGER"
    by (auto simp: in_range_iff)
  then show thesis using that [of "nat i"] by simp
qed

lemma anchor_members_snapshot [simp]: "anchor_members (a\<lparr>an_snapshotHash := h\<rparr>) = anchor_members a"
  by (simp add: anchor_members_def)

lemma makeLineageAnchor_Inr:
  "makeLineageAnchor sha input = Inr anchor \<longleftrightarrow>
     (\<exists>data. stableStringify (JObj (anchor_members input)) = Inr data
        \<and> anchor = input\<lparr>an_snapshotHash := sha256Hex sha (utf8Bytes data)\<rparr>)"
  by (auto simp: makeLineageAnchor_def run_simps)

lemma makeLineageAnchor_again: "makeLineageAnchor sha input = Inr anchor \<Longrightarrow> makeLineageAnchor sha anchor = Inr anchor"
  by (auto simp: makeLineageAnchor_Inr)

lemma compacted_anchor_Inr:
  assumes "compactedLineageAnchor sha m a prefix block = Inr anchor"
  obtains head ts history hash where "derive_head m a prefix = Inr head" "canonicalAcceptedEvents prefix = Inr ts"
    "anchor = \<lparr>an_compactedEvents = num_plus (an_compactedEvents a) (length prefix), an_head = head,
        an_genesisAcceptance = genesis_of m a prefix,
        an_tipTransition = (if ts = [] then an_tipTransition a else Some (last ts)),
        an_manifestIdentitySha256 = lm_identitySha256 m, an_checkpointBlockHash = block,
        an_historyHash = history, an_snapshotHash = hash,
        an_relevantBlocksBloom = add_events sha (an_relevantBlocksBloom a) prefix\<rparr>"
    "makeLineageAnchor sha anchor = Inr anchor"
proof -
  from assms obtain head ts data where
    "derive_head m a prefix = Inr head" "canonicalAcceptedEvents prefix = Inr ts"
    and made: "makeLineageAnchor sha
       \<lparr>an_compactedEvents = num_plus (an_compactedEvents a) (length prefix), an_head = head,
        an_genesisAcceptance = genesis_of m a prefix,
        an_tipTransition = (if ts = [] then an_tipTransition a else Some (last ts)),
        an_manifestIdentitySha256 = lm_identitySha256 m, an_checkpointBlockHash = block,
        an_historyHash = sha256Hex sha (utf8Bytes data), an_snapshotHash = [],
        an_relevantBlocksBloom = add_events sha (an_relevantBlocksBloom a) prefix\<rparr> = Inr anchor"
    unfolding compactedLineageAnchor_def bindE_Inr by blast
  moreover from made have "makeLineageAnchor sha anchor = Inr anchor"
    by (rule makeLineageAnchor_again)
  moreover from made obtain text' where "anchor = \<lparr>an_compactedEvents = num_plus (an_compactedEvents a) (length prefix),
        an_head = head, an_genesisAcceptance = genesis_of m a prefix,
        an_tipTransition = (if ts = [] then an_tipTransition a else Some (last ts)),
        an_manifestIdentitySha256 = lm_identitySha256 m, an_checkpointBlockHash = block,
        an_historyHash = sha256Hex sha (utf8Bytes data), an_snapshotHash = sha256Hex sha (utf8Bytes text'),
        an_relevantBlocksBloom = add_events sha (an_relevantBlocksBloom a) prefix\<rparr>"
    unfolding makeLineageAnchor_Inr lineage_anchor.update_convs by blast
  ultimately show thesis by - (rule that)
qed


end
