(* ===== verification/Chain_Extension.thy ===== *)
theory Chain_Extension
  imports Chain_Journal
begin

text \<open>
  Updates against the durable store: an updated lineage is an extension of the stored one in the
  sense of \<open>assertCovenantLineageExtension\<close>, and the release of a lineage to settlement means that
  every piece of its evidence is confirmed.
\<close>

section \<open>Updates extend the durable lineage\<close>

lemma resequence_same: "event_sequence e = JsInt (int n) \<Longrightarrow> resequence n e = e"
  by (cases e) auto

lemma assert_journal_sequence:
  "assert_journal m k journal = Inr () \<Longrightarrow> i < length journal \<Longrightarrow> event_sequence (journal ! i) = JsInt (int (k + i))"
proof (induction journal arbitrary: k i)
  case (Cons e journal)
  then show ?case by (cases i) (auto simp: run_simps dest: Cons.IH)
qed simp

lemma length_resequenced [simp]: "length (resequenced events) = length events"
  by (simp add: resequenced_def)

lemma nth_resequenced: "i < length events \<Longrightarrow> resequenced events ! i = resequence i (events ! i)"
  by (simp add: resequenced_def)

lemma retained_events_same:
  assumes "length old \<le> length new"
    and "\<And>i. i < length old \<Longrightarrow> new ! i = resequence (k + i) (old ! i)"
    and "\<And>e. e \<in> set new \<Longrightarrow> succeeds (stableStringify (event_json e))"
  shows "retained_events k old new = Inr ()"
  using assms
proof (induction old arbitrary: k new)
  case (Cons e old)
  then obtain f rest where new: "new = f # rest" by (cases new) auto
  with Cons.prems(2) [of 0] have "f = resequence k e" by simp
  moreover have "succeeds (stableStringify (event_json f))" using Cons.prems(3) new by simp
  moreover have "retained_events (Suc k) old rest = Inr ()"
  proof (rule Cons.IH)
    fix i assume "i < length old"
    with Cons.prems(2) [of "Suc i"] new show "rest ! i = resequence (Suc k + i) (old ! i)" by simp
  qed (use Cons.prems new in auto)
  ultimately show ?case
    by (auto simp: new same_text_def succeeds_iff)
qed simp

lemma removal_loop_extends:
  "removal_loop sha m a canonical g removed journal hashes = Inr (Journaled journal') \<Longrightarrow>
     \<exists>new. journal' = journal @ new \<and> length new \<le> length hashes"
proof (induction hashes arbitrary: removed journal)
  case (Cons hash hashes)
  then show ?case
    by (auto simp: run_simps Let_def split: if_splits dest!: Cons.IH)
qed simp

lemma add_transitions_length:
  "add_transitions m c b spends journal ts = Inr (spends', journal') \<Longrightarrow> length journal' = length journal + length ts"
  by (induction ts arbitrary: spends journal) (auto simp: run_simps split: if_splits)

lemma reaccept_genesis_length:
  "reaccept_genesis m a c b journal g = Inr journal' \<Longrightarrow>
     length journal' = length journal + (if g \<noteq> None then 1 else 0)"
  by (auto simp: reaccept_genesis_def run_simps split: option.splits if_splits)

lemma add_blocks_length:
  "add_blocks m a c added spends journal blocks = Inr journal' \<Longrightarrow>
     length journal' = length journal + sum_list (map (\<lambda>b. length (sb_transitions b)
       + (if sb_genesisAcceptance b \<noteq> None then 1 else 0)) blocks)"
proof (induction blocks arbitrary: added spends journal)
  case (Cons block blocks)
  from Cons.prems obtain j1 spends' j2 where
    "reaccept_genesis m a c (to_lower (sb_blockHash block)) journal (sb_genesisAcceptance block) = Inr j1"
    "add_transitions m c (to_lower (sb_blockHash block)) spends j1 (sb_transitions block) = Inr (spends', j2)"
    "add_blocks m a c (to_lower (sb_blockHash block) # added) spends' j2 blocks = Inr journal'"
    by (auto simp: run_simps Let_def split: if_splits)
  with Cons.IH reaccept_genesis_length add_transitions_length show ?case by fastforce
qed simp

lemma assert_update_budget_Inr:
  "assert_update_budget current update = Inr () \<Longrightarrow>
     update_additions update + length (cu_removedChainBlockHashes update) \<le> 64"
  by (auto simp: assert_update_budget_def MAX_LINEAGE_UPDATE_EVENTS_def split: if_splits)

lemma compactLineage_split:
  assumes "compactLineage sha state = Inr state'"
  shows "\<exists>k \<le> length (ln_journal state) - 64.
    if k = 0 then ln_anchor state' = ln_anchor state \<and> ln_journal state' = ln_journal state
    else compactedLineageAnchor sha (ln_manifest state) (ln_anchor state) (take k (ln_journal state))
           (cp_blockHash (ln_checkpoint state')) = Inr (ln_anchor state')
         \<and> ln_journal state' = resequenced (drop k (ln_journal state))"
  using compactLineage_Inr [OF assms]
proof (elim disjE exE conjE)
  assume "state' = state"
  then show ?thesis by (intro exI [of _ 0]) simp
next
  fix k anchor
  assume "0 < k" "k \<le> length (ln_journal state) - 64"
    "compactedLineageAnchor sha (ln_manifest state) (ln_anchor state) (take k (ln_journal state))
       (cp_blockHash (ln_checkpoint state)) = Inr anchor"
    "state' = state\<lparr>ln_anchor := anchor, ln_journal := resequenced (drop k (ln_journal state))\<rparr>"
  then show ?thesis by (intro exI [of _ k]) simp
qed

lemma extension_of:
  assumes "assert_journal (ln_manifest previous) 0 (ln_journal previous) = Inr ()"
    and counter: "an_compactedEvents (ln_anchor previous) = JsInt n"
    and journal: "journal = ln_journal previous @ new" "k \<le> length (ln_journal previous)"
      "length (ln_journal previous) \<le> 128"
    and anchored: "if k = 0 then ln_anchor state' = ln_anchor previous \<and> ln_journal state' = journal
      else compactedLineageAnchor sha (ln_manifest previous) (ln_anchor previous) (take k journal)
             (cp_blockHash (ln_checkpoint state')) = Inr (ln_anchor state')
           \<and> ln_journal state' = resequenced (drop k journal)"
    and texts: "\<And>e. e \<in> set (ln_journal state') \<Longrightarrow> succeeds (stableStringify (event_json e))"
      "succeeds (stableStringify (anchor_json (ln_anchor state')))"
  shows "assertCovenantLineageExtension sha previous state' = Inr ()"
proof -
  have same: "same_text (anchor_json (ln_anchor state')) (anchor_json (ln_anchor state')) = Inr ()"
    using texts(2) by (auto simp: same_text_def succeeds_iff)
  have count: "an_compactedEvents (ln_anchor state') = num_plus (JsInt n) k"
  proof (cases "k = 0")
    case False
    with anchored have "compactedLineageAnchor sha (ln_manifest previous) (ln_anchor previous) (take k journal)
        (cp_blockHash (ln_checkpoint state')) = Inr (ln_anchor state')" by simp
    then show ?thesis by (rule compacted_anchor_Inr) (simp add: counter journal)
  qed (use anchored counter in simp)
  have between: "is_safe_integer (JsInt (int k))"
    using journal(2,3) by (simp add: is_safe_integer_def MAX_SAFE_INTEGER_def)
  have "retained_events 0 (drop k (ln_journal previous)) (ln_journal state') = Inr ()"
  proof (rule retained_events_same)
    fix i assume i: "i < length (drop k (ln_journal previous))"
    show "ln_journal state' ! i = resequence (0 + i) (drop k (ln_journal previous) ! i)"
    proof (cases "k = 0")
      case True
      with i anchored journal(1) assert_journal_sequence [OF assms(1), of i] show ?thesis
        by (simp add: nth_append resequence_same)
    next
      case False
      with i anchored journal(1) show ?thesis
        by (auto simp: nth_resequenced nth_append)
    qed
  qed (use anchored journal texts in \<open>auto split: if_splits\<close>)
  moreover have "length (drop k (ln_journal previous)) \<le> length (ln_journal state')"
    using anchored journal by (auto split: if_splits)
  ultimately show ?thesis
    using anchored same journal
    by (auto simp: assertCovenantLineageExtension_def counter count between Let_def split: if_splits)
qed


section \<open>Confirmed lineages\<close>

text \<open>A lineage is released to settlement exactly when its state is valid and available and the
  genesis and every canonical transition are each confirmed: valid acceptance evidence with at least
  the required number of confirmations.\<close>

theorem lineage_confirmed_exact:
  "assertCovenantLineageConfirmed sha s (JsInt required) = Inr () \<longleftrightarrow>
     assertLineageState sha s = Inr () \<and> ln_availability s = ''available''
     \<and> 1 \<le> required \<and> required \<le> MAX_SAFE_INTEGER
     \<and> (\<exists>g ts. canonicalGenesisAcceptance s = Some g \<and> canonicalAcceptedEvents (ln_journal s) = Inr ts
          \<and> list_all (\<lambda>e. is_hash32 (ae_transactionId e) \<and> assertAcceptedEvidence e = Inr ()
               \<and> (\<exists>count. ae_confirmationCount e = JsInt count \<and> required \<le> count)) (g # map lt_acceptance ts))"
proof -
  let ?check = "\<lambda>e. bindE (decideChainEvidence (AcceptedEvidence e) (JsInt required)) (\<lambda>decision.
      if (case decision of DecidedConfirmed _ \<Rightarrow> True | _ \<Rightarrow> False) then Inr ()
      else Inl (JsError (''covenant lineage has not reached the configured '' @ ''confirmation threshold'')))"
  have check: "?check e = Inr () \<longleftrightarrow> decideChainEvidence (AcceptedEvidence e) (JsInt required) = Inr (DecidedConfirmed e)" for e
  proof -
    have "decideChainEvidence (AcceptedEvidence e) (JsInt required) = Inr (DecidedConfirmed e') \<Longrightarrow> e' = e" for e'
      by (simp add: confirmed_decision)
    then show ?thesis
      by (cases "decideChainEvidence (AcceptedEvidence e) (JsInt required)")
        (auto split: evidence_decision.splits)
  qed
  have "assertCovenantLineageConfirmed sha s (JsInt required) = Inr () \<longleftrightarrow>
     assertLineageState sha s = Inr () \<and> ln_availability s = ''available''
     \<and> (\<exists>g ts. canonicalGenesisAcceptance s = Some g \<and> canonicalAcceptedEvents (ln_journal s) = Inr ts
          \<and> (\<forall>e\<in>set (g # map lt_acceptance ts). ?check e = Inr ()))"
    unfolding assertCovenantLineageConfirmed_def
    by (cases "canonicalGenesisAcceptance s") (auto simp: bindE_Inr if_throw_Inr forE_Inr)
  then show ?thesis unfolding check confirmed_decision by (auto simp: list_all_iff)
qed


end
