(* ===== verification/Chain_Compaction.thy ===== *)
theory Chain_Compaction
  imports Chain_Extension
begin

text \<open>
  Value along a lineage, the filter of compacted blocks, and the meaning of a compacted journal.
\<close>

section \<open>Value along a lineage\<close>

fun head_value :: "lineage_head \<Rightarrow> int" where
  "head_value h = (case parseSompiString (lh_value h) of Inr v \<Rightarrow> v | Inl _ \<Rightarrow> 0)"

fun head_claimed :: "lineage_head \<Rightarrow> int" where
  "head_claimed h = (case parseSompiString (lh_claimedCumulativeAmount h) of Inr v \<Rightarrow> v | Inl _ \<Rightarrow> 0)"

lemma advance_head_Inr:
  assumes "advance_head head t = Inr (Some h')"
  obtains h where "head = Some h" "sameOutpoint (lh_outpoint h) (lt_consumedOutpoint t)"
    "lt_kind t = ''claim'' \<Longrightarrow> head_claimed h < head_claimed h'
       \<and> head_value h' + head_claimed h' = head_value h + head_claimed h"
    "lt_kind t \<noteq> ''claim'' \<Longrightarrow> head_claimed h' = head_claimed h \<and> head_value h < head_value h'"
proof -
  from assms obtain h s where h: "head = Some h" "sameOutpoint (lh_outpoint h) (lt_consumedOutpoint t)"
    and s: "lt_kind t \<noteq> ''refund''" "lt_successor t = Some s" "h' = successor_head s"
    by (auto simp: advance_head_def run_simps split: option.splits if_splits)
  from assms h s obtain pv nv pc nc where
    "parseSompiString (lh_value h) = Inr pv" "parseSompiString (lh_value s) = Inr nv"
    "parseSompiString (lh_claimedCumulativeAmount h) = Inr pc"
    "parseSompiString (lh_claimedCumulativeAmount s) = Inr nc"
    "if lt_kind t = ''claim'' then nv < pv \<and> pc < nc \<and> pv - nv = nc - pc else pv < nv \<and> nc = pc"
    by (auto simp: advance_head_def run_simps split: option.splits if_splits)
  with h s show thesis
    by (intro that [of h]) (auto simp: successor_head_def split: if_splits)
qed

lemma derive_loop_None: "derive_loop seen None ts = Inr head \<Longrightarrow> ts = [] \<and> head = None"
  by (cases ts) (auto simp: advance_head_def split: if_splits)

lemma derive_loop_value:
  assumes "derive_loop seen (Some h) ts = Inr (Some h')"
  shows "head_claimed h \<le> head_claimed h'" "head_value h + head_claimed h \<le> head_value h' + head_claimed h'"
    "list_all (\<lambda>t. lt_kind t = ''claim'') ts \<Longrightarrow> head_value h' + head_claimed h' = head_value h + head_claimed h"
    "list_all (\<lambda>t. lt_kind t \<noteq> ''claim'') ts \<Longrightarrow> head_claimed h' = head_claimed h"
proof -
  have "head_claimed h \<le> head_claimed h' \<and> head_value h + head_claimed h \<le> head_value h' + head_claimed h'
    \<and> (list_all (\<lambda>t. lt_kind t = ''claim'') ts \<longrightarrow> head_value h' + head_claimed h' = head_value h + head_claimed h)
    \<and> (list_all (\<lambda>t. lt_kind t \<noteq> ''claim'') ts \<longrightarrow> head_claimed h' = head_claimed h)"
    using assms
  proof (induction ts arbitrary: seen h)
    case (Cons t ts)
    then obtain mid where mid: "advance_head (Some h) t = Inr mid"
      "derive_loop (to_lower (lt_transactionId t) # seen) mid ts = Inr (Some h')"
      by (auto simp: run_simps split: if_splits)
    then obtain g where g: "mid = Some g" by (cases mid) (auto dest: derive_loop_None)
    note tail = Cons.IH [OF mid(2) [unfolded g]]
    from mid(1) [unfolded g] show ?case
    proof (rule advance_head_Inr)
      fix h0 assume "Some h = Some h0"
        "lt_kind t = ''claim'' \<Longrightarrow> head_claimed h0 < head_claimed g
           \<and> head_value g + head_claimed g = head_value h0 + head_claimed h0"
        "lt_kind t \<noteq> ''claim'' \<Longrightarrow> head_claimed g = head_claimed h0 \<and> head_value h0 < head_value g"
      then show ?thesis
        using tail by (cases "lt_kind t = ''claim''") (auto simp del: head_value.simps head_claimed.simps)
    qed
  qed simp
  then show "head_claimed h \<le> head_claimed h'" "head_value h + head_claimed h \<le> head_value h' + head_claimed h'"
    "list_all (\<lambda>t. lt_kind t = ''claim'') ts \<Longrightarrow> head_value h' + head_claimed h' = head_value h + head_claimed h"
    "list_all (\<lambda>t. lt_kind t \<noteq> ''claim'') ts \<Longrightarrow> head_claimed h' = head_claimed h"
    by blast+
qed

text \<open>C32. No accepted chain of covenant transitions creates or destroys value: along the canonical
  transitions from any starting head the amount claimed never falls, the sum of locked value and
  claimed amount never falls and is unchanged when every transition is a claim, and the claimed amount
  is unchanged when none is.\<close>

theorem lineage_conserves_value:
  assumes "derive_head m a journal = Inr (Some h')"
  shows "\<exists>h ts. start_head m a journal = Some h \<and> canonicalAcceptedEvents journal = Inr ts
    \<and> head_claimed h \<le> head_claimed h' \<and> head_value h + head_claimed h \<le> head_value h' + head_claimed h'
    \<and> (list_all (\<lambda>t. lt_kind t = ''claim'') ts \<longrightarrow> head_value h' + head_claimed h' = head_value h + head_claimed h)
    \<and> (list_all (\<lambda>t. lt_kind t \<noteq> ''claim'') ts \<longrightarrow> head_claimed h' = head_claimed h)"
proof -
  from assms obtain ts where ts: "canonicalAcceptedEvents journal = Inr ts"
    "derive_loop [] (start_head m a journal) ts = Inr (Some h')"
    by (auto simp: derive_head_def run_simps)
  moreover from ts(2) obtain h where "start_head m a journal = Some h"
    by (cases "start_head m a journal") (auto dest: derive_loop_None)
  ultimately show ?thesis using derive_loop_value by fastforce
qed

section \<open>The block filter\<close>

lemma is_bloom_decode: "is_bloom bloom \<Longrightarrow> length (hex_decode bloom) = 256"
  by (simp add: is_bloom_def length_hex_decode)

lemma bloomIndexes_less: "i \<in> set (bloomIndexes sha block) \<Longrightarrow> i div 8 < 256"
  by (auto simp: bloomIndexes_def)

definition mark :: "byte list \<Rightarrow> nat \<Rightarrow> byte list" where
  "mark bytes index = bytes[index div 8 := set_bit (index mod 8) (bytes ! (index div 8))]"

lemma length_mark [simp]: "length (mark bytes i) = length bytes"
  by (simp add: mark_def)

lemma length_marks [simp]: "length (foldl mark bytes is) = length bytes"
  by (induction "is" arbitrary: bytes) auto

lemma bloom_bit_mark:
  "i div 8 < length bytes \<Longrightarrow> bloom_bit (mark bytes i) j \<longleftrightarrow> bloom_bit bytes j \<or> j = i"
proof -
  assume i: "i div 8 < length bytes"
  have split: "j = i \<longleftrightarrow> j div 8 = i div 8 \<and> j mod 8 = i mod 8"
    by (metis div_mult_mod_eq)
  show ?thesis
    using i unfolding split by (auto simp: bloom_bit_def mark_def bit_set_bit_iff nth_list_update)
qed

lemma bloom_bit_marks:
  "list_all (\<lambda>i. i div 8 < length bytes) is \<Longrightarrow> bloom_bit (foldl mark bytes is) j \<longleftrightarrow> bloom_bit bytes j \<or> j \<in> set is"
  by (induction "is" arbitrary: bytes) (auto simp: bloom_bit_mark)

lemma bloomAdd_marks: "bloomAdd sha bloom block = bytesToHex (foldl mark (hex_decode bloom) (bloomIndexes sha block))"
  by (simp add: bloomAdd_def mark_def [abs_def])

lemma is_bloom_bytes: "length bytes = 256 \<Longrightarrow> is_bloom (bytesToHex bytes)"
  by (simp add: is_bloom_def bytesToHex_lower)

lemma bloomAdd_contains:
  assumes "is_bloom bloom"
  shows "is_bloom (bloomAdd sha bloom block)"
    "bloomContains sha (bloomAdd sha bloom block) other \<longleftrightarrow>
       list_all (\<lambda>i. bloom_bit (hex_decode bloom) i \<or> i \<in> set (bloomIndexes sha block)) (bloomIndexes sha other)"
proof -
  have ok: "list_all (\<lambda>i. i div 8 < length (hex_decode bloom)) (bloomIndexes sha block)"
    using is_bloom_decode [OF assms] bloomIndexes_less by (auto simp: list_all_iff)
  show "is_bloom (bloomAdd sha bloom block)"
    using is_bloom_decode [OF assms] by (simp add: bloomAdd_marks is_bloom_bytes)
  show "bloomContains sha (bloomAdd sha bloom block) other \<longleftrightarrow>
       list_all (\<lambda>i. bloom_bit (hex_decode bloom) i \<or> i \<in> set (bloomIndexes sha block)) (bloomIndexes sha other)"
    by (simp add: bloomContains_def bloomAdd_marks bloom_bit_marks [OF ok] list_all_iff)
qed

lemma bloomIndexes_lower [simp]: "bloomIndexes sha (to_lower block) = bloomIndexes sha block"
  by (simp add: bloomIndexes_def)

lemma bloomContains_lower [simp]: "bloomContains sha bloom (to_lower block) = bloomContains sha bloom block"
  by (simp add: bloomContains_def)

lemma add_events_contains:
  assumes "is_bloom bloom"
  shows "is_bloom (add_events sha bloom events)"
    "bloomContains sha bloom block \<Longrightarrow> bloomContains sha (add_events sha bloom events) block"
    "AcceptedEvent n t \<in> set events \<Longrightarrow>
       bloomContains sha (add_events sha bloom events) (ae_acceptingBlockHash (lt_acceptance t))"
proof -
  have "is_bloom (add_events sha bloom events)
    \<and> (\<forall>block. bloomContains sha bloom block \<longrightarrow> bloomContains sha (add_events sha bloom events) block)
    \<and> (\<forall>n t. AcceptedEvent n t \<in> set events \<longrightarrow>
         bloomContains sha (add_events sha bloom events) (ae_acceptingBlockHash (lt_acceptance t)))"
    using assms
  proof (induction sha bloom events rule: add_events.induct)
    case (2 sha bloom n t rest)
    let ?block = "ae_acceptingBlockHash (lt_acceptance t)"
    have "bloomContains sha (bloomAdd sha bloom ?block) ?block"
      "bloomContains sha bloom b \<Longrightarrow> bloomContains sha (bloomAdd sha bloom ?block) b" for b
      using bloomAdd_contains [OF 2(2)] by (auto simp: list_all_iff bloomContains_def)
    with 2 bloomAdd_contains(1) [OF 2(2)] show ?case by auto
  qed auto
  then show "is_bloom (add_events sha bloom events)"
    "bloomContains sha bloom block \<Longrightarrow> bloomContains sha (add_events sha bloom events) block"
    "AcceptedEvent n t \<in> set events \<Longrightarrow>
       bloomContains sha (add_events sha bloom events) (ae_acceptingBlockHash (lt_acceptance t))"
    by blast+
qed



section \<open>Compaction\<close>

lemma drop_removed_append:
  assumes "keyed (xs @ ys)" "\<And>k t. (k, t) \<in> set xs \<Longrightarrow> k \<notin> to_lower ` set ids"
  shows "drop_removed b ids (xs @ ys) = xs @ drop_removed b ids ys"
proof -
  have "keyed ys" using assms(1) by (auto simp: keyed_def)
  moreover have "filter (\<lambda>(k, t). \<not> (k \<in> to_lower ` set ids \<and> accepted_in_block b t)) xs = xs"
    using assms(2) by (intro filter_True) auto
  ultimately show ?thesis using assms(1) by (simp add: drop_removed_filter)
qed

lemma canonical_loop_split:
  assumes "canonical_loop (xs @ ys) events = Inr active" "keyed (xs @ ys)"
    and "\<And>k t. (k, t) \<in> set xs \<Longrightarrow> k \<notin> set (concat (map removed_ids events))"
  shows "\<exists>active'. canonical_loop ys events = Inr active' \<and> active = xs @ active'"
  using assms
proof (induction events arbitrary: ys)
  case (Cons e events)
  show ?case
  proof (cases e)
    case (AcceptedEvent n t)
    let ?entry = "(to_lower (lt_transactionId t), t)"
    from AcceptedEvent Cons.prems(1) have fresh: "map_of (xs @ ys) (fst ?entry) = None"
      "canonical_loop (xs @ (ys @ [?entry])) events = Inr active"
      by (auto split: if_splits)
    from fresh(1) Cons.prems(2) have "keyed (xs @ (ys @ [?entry]))"
      using keyed_snoc [of "xs @ ys" t] by simp
    with Cons.IH [OF fresh(2)] Cons.prems(3) fresh(1) show ?thesis
      by (auto simp: AcceptedEvent map_add_def split: option.splits)
  next
    case (RemovedEvent n b ids)
    have split: "drop_removed b ids (xs @ ys) = xs @ drop_removed b ids ys"
      using Cons.prems by (intro drop_removed_append) (auto simp: RemovedEvent)
    from Cons.prems(2) have "keyed (xs @ drop_removed b ids ys)"
      using keyed_drop_removed [of "xs @ ys" b ids] split by simp
    with Cons.IH [of "drop_removed b ids ys"] Cons.prems(1,3) split show ?thesis
      by (auto simp: RemovedEvent)
  qed (use Cons in auto)
qed simp

lemma derive_loop_append:
  "derive_loop seen head (xs @ ys) =
     bindE (derive_loop seen head xs) (\<lambda>mid. derive_loop (rev (map (\<lambda>t. to_lower (lt_transactionId t)) xs) @ seen) mid ys)"
proof (induction xs arbitrary: seen head)
  case (Cons t xs)
  then show ?case by (cases "advance_head head t") auto
qed simp

lemma derive_loop_seen: "derive_loop seen head ts = Inr h \<Longrightarrow> set seen' \<subseteq> set seen \<Longrightarrow> derive_loop seen' head ts = Inr h"
proof (induction ts arbitrary: seen seen' head)
  case (Cons t ts)
  from Cons.prems(1) obtain mid where mid: "to_lower (lt_transactionId t) \<notin> set seen" "advance_head head t = Inr mid"
    "derive_loop (to_lower (lt_transactionId t) # seen) mid ts = Inr h"
    by (auto simp: run_simps split: if_splits)
  have "derive_loop (to_lower (lt_transactionId t) # seen') mid ts = Inr h"
    by (rule Cons.IH [OF mid(3)]) (use Cons.prems(2) in auto)
  with mid Cons.prems(2) show ?case by auto
qed simp

lemma canonical_loop_resequence:
  "list_all2 (\<lambda>e e'. \<exists>n. e' = resequence n e) events events' \<Longrightarrow> canonical_loop active events' = canonical_loop active events"
proof (induction arbitrary: active rule: list_all2_induct)
  case (Cons e events e' events')
  then show ?case by (cases e) auto
qed simp

lemma genesis_loop_resequence:
  "list_all2 (\<lambda>e e'. \<exists>n. e' = resequence n e) events events' \<Longrightarrow> genesis_loop tx g events' = genesis_loop tx g events"
proof (induction arbitrary: g rule: list_all2_induct)
  case (Cons e events e' events')
  then show ?case by (cases e) auto
qed simp

lemma resequenced_events: "list_all2 (\<lambda>e e'. \<exists>n. e' = resequence n e) events (resequenced events)"
  by (auto simp: list_all2_conv_all_nth nth_resequenced)

lemma canonical_resequenced [simp]: "canonicalAcceptedEvents (resequenced events) = canonicalAcceptedEvents events"
  by (simp add: canonicalAcceptedEvents_def canonical_loop_resequence [OF resequenced_events])

lemma genesis_resequenced [simp]: "genesis_of m a (resequenced events) = genesis_of m a events"
  by (simp add: genesis_of_def genesis_loop_resequence [OF resequenced_events])

lemma start_head_resequenced [simp]: "start_head m a (resequenced events) = start_head m a events"
  by (simp add: start_head_def)

lemma derive_head_resequenced [simp]: "derive_head m a (resequenced events) = derive_head m a events"
  by (simp add: derive_head_def)

lemma canonical_append:
  assumes "canonicalAcceptedEvents (prefix @ suffix) = Inr ts" "canonicalAcceptedEvents prefix = Inr older"
    and "\<forall>t\<in>set older. to_lower (lt_transactionId t) \<notin> set (concat (map removed_ids suffix))"
  shows "\<exists>newer. canonicalAcceptedEvents suffix = Inr newer \<and> ts = older @ newer"
proof -
  obtain xs where xs: "canonical_loop [] prefix = Inr xs" "older = map snd xs"
    using assms(2) by (auto simp: canonicalAcceptedEvents_Inr)
  obtain active where active: "canonical_loop ([] @ xs) suffix = Inr active" "ts = map snd active"
    using assms(1) xs by (auto simp: canonicalAcceptedEvents_Inr canonical_loop_append)
  have keyed: "keyed xs" using canonical_loop_keyed [OF xs(1)] by simp
  have "k \<notin> set (concat (map removed_ids suffix))" if "(k, t) \<in> set xs" for k t
  proof -
    from that keyed have "k = to_lower (lt_transactionId t)" by (auto simp: keyed_def)
    moreover from that have "t \<in> set older" unfolding xs(2) by force
    ultimately show ?thesis using assms(3) by blast
  qed
  with canonical_loop_split [of xs "[]" suffix active] active keyed show ?thesis
    by (auto simp: canonicalAcceptedEvents_Inr xs(2))
qed

text \<open>Folding a journal prefix into the anchor does not change what the lineage means: as long as
  the retained events do not remove a transaction that is canonical in the prefix, and the genesis is
  accepted there, the head and the genesis acceptance derived from the anchor and the retained
  events are those derived from the whole journal.\<close>

theorem compaction_keeps_head:
  assumes "compactedLineageAnchor sha m a prefix checkpoint = Inr anchor"
    and "derive_head m a (prefix @ suffix) = Inr head" "genesis_of m a prefix \<noteq> None"
    and "canonicalAcceptedEvents prefix = Inr older"
    and "\<forall>t\<in>set older. to_lower (lt_transactionId t) \<notin> set (concat (map removed_ids suffix))"
  shows "derive_head m anchor (resequenced suffix) = Inr head
    \<and> genesis_of m anchor (resequenced suffix) = genesis_of m a (prefix @ suffix)"
proof -
  obtain mid where anchor: "derive_head m a prefix = Inr mid" "an_head anchor = mid"
    "an_genesisAcceptance anchor = genesis_of m a prefix"
    using assms(1) by (rule compacted_anchor_Inr) simp
  have genesis: "genesis_of m anchor suffix = genesis_of m a (prefix @ suffix)"
    by (simp add: genesis_loop_append genesis_of_def anchor(3))
  obtain ts where ts: "canonicalAcceptedEvents (prefix @ suffix) = Inr ts"
    "derive_loop [] (start_head m a (prefix @ suffix)) ts = Inr head"
    using assms(2) by (auto simp: derive_head_def run_simps)
  obtain newer where newer: "canonicalAcceptedEvents suffix = Inr newer" "ts = older @ newer"
    using canonical_append [OF ts(1) assms(4,5)] by blast
  have "derive_loop [] (start_head m anchor suffix) newer = Inr head"
  proof (cases "genesis_of m a (prefix @ suffix)")
    case None
    with ts(2) have "ts = []" "head = None" by (auto simp: start_head_def dest: derive_loop_None)
    with None newer(2) genesis show ?thesis by (simp add: start_head_def)
  next
    case (Some g)
    have "start_head m a (prefix @ suffix) = start_head m a prefix"
      using Some assms(3) by (auto simp: start_head_def)
    with anchor(1) assms(4) have "derive_loop [] (start_head m a (prefix @ suffix)) older = Inr mid"
      by (simp add: derive_head_def)
    with ts(2) newer(2) have "derive_loop (rev (map (\<lambda>t. to_lower (lt_transactionId t)) older)) mid newer = Inr head"
      by (simp add: derive_loop_append)
    then have "derive_loop [] mid newer = Inr head" by (rule derive_loop_seen) simp
    moreover have "start_head m anchor suffix = mid"
      using Some genesis assms(3) anchor by (simp add: start_head_def)
    ultimately show ?thesis by simp
  qed
  with newer(1) genesis show ?thesis by (simp add: derive_head_def)
qed

end
