(* ===== verification/Chain_Invariant.thy ===== *)
theory Chain_Invariant
  imports Chain_Compaction
begin

text \<open>
  The state invariant of a covenant lineage: \<open>assertLineageState\<close> holds of every state created from a
  manifest and is kept by every selected-chain update that leaves the genesis block alone.
  \<open>lineage_reachable\<close> is the transition system of creation and updates.
\<close>

section \<open>Updates preserve checked states\<close>

lemma assert_journal_Inr:
  "assert_journal m k journal = Inr () \<longleftrightarrow>
     (\<forall>i < length journal. event_sequence (journal ! i) = JsInt (int (k + i)) \<and> assert_event m (journal ! i) = Inr ())"
proof (induction journal arbitrary: k)
  case (Cons e journal)
  then show ?case by (simp add: run_simps All_less_Suc2 add_ac)
qed simp

lemma assert_journal_append:
  "assert_journal m k (xs @ ys) = Inr () \<longleftrightarrow>
     assert_journal m k xs = Inr () \<and> assert_journal m (k + length xs) ys = Inr ()"
  by (induction xs arbitrary: k) (auto simp: run_simps)

lemma assert_event_resequence [simp]: "assert_event m (resequence n e) = assert_event m e"
  by (cases e) auto

lemma event_sequence_resequence [simp]: "event_sequence (resequence n e) = JsInt (int n)"
  by (cases e) auto

lemma assert_journal_resequenced:
  assumes "assert_journal m 0 journal = Inr ()"
  shows "assert_journal m 0 (resequenced (drop k journal)) = Inr ()"
  using assms by (auto simp: assert_journal_Inr nth_resequenced)

lemma assertHash32_label: "assertHash32 h l b = Inr () \<Longrightarrow> assertHash32 h l' b = Inr ()"
  by (auto simp: assertHash32_def split: if_splits)

lemma assertLineageTransition_Inr:
  assumes "assertLineageTransition m t = Inr ()"
  shows "is_hash32 (lt_transactionId t)"
    "lt_kind t = ''refund'' \<Longrightarrow> lt_successor t = None"
    "lt_kind t \<noteq> ''refund'' \<Longrightarrow> \<exists>s. lt_successor t = Some s \<and> safe_index (op_index (lh_outpoint s))"
  using assms
  by (auto simp: assertLineageTransition_def run_simps assertHash32_def assert_successor_def assertOutpoint_def
      split: if_splits option.splits)

lemma canonical_loop_journaled:
  "canonical_loop active events = Inr active' \<Longrightarrow> keyed active \<Longrightarrow>
     snd ` set active' \<subseteq> snd ` set active \<union> set (concat (map journaled events))"
proof (induction active events rule: canonical_loop.induct)
  case (2 active n t rest)
  then show ?case by (auto simp: keyed_snoc split: if_splits)
next
  case (4 active n b ids rest)
  have "set (drop_removed b ids active) \<subseteq> set active" using 4(3) by (auto simp: drop_removed_filter)
  then have "snd ` set (drop_removed b ids active) \<subseteq> snd ` set active" by (rule image_mono)
  with 4(1) [OF _ keyed_drop_removed [OF 4(3)]] 4(2) show ?case by auto
qed auto

lemma canonical_journaled:
  assumes "canonicalAcceptedEvents journal = Inr ts" "t \<in> set ts"
  shows "\<exists>n. AcceptedEvent n t \<in> set journal"
proof -
  from assms have "t \<in> set (concat (map journaled journal))"
    using canonical_loop_journaled [of "[]" journal] by (fastforce simp: canonicalAcceptedEvents_Inr)
  then obtain e where "e \<in> set journal" "t \<in> set (journaled e)" by auto
  then show ?thesis by - (cases e; auto)
qed

lemma canonical_asserted:
  assumes "canonicalAcceptedEvents journal = Inr ts" "assert_journal m k journal = Inr ()" "t \<in> set ts"
  shows "assertLineageTransition m t = Inr ()"
proof -
  obtain n where "AcceptedEvent n t \<in> set journal" using canonical_journaled assms by blast
  then obtain i where "i < length journal" "journal ! i = AcceptedEvent n t" by (auto simp: in_set_conv_nth)
  with assms(2) show ?thesis by (auto simp: assert_journal_Inr dest: spec [of _ i])
qed

lemma removal_loop_asserted:
  assumes "removal_loop sha m a canonical g removed journal hashes = Inr (Journaled journal')"
    and "assert_journal m 0 journal = Inr ()" "\<forall>t\<in>set canonical. is_hash32 (lt_transactionId t)"
    and "is_hash32 (mg_transactionId (lm_genesis m))"
  shows "assert_journal m 0 journal' = Inr ()"
  using assms(1,2)
proof (induction hashes arbitrary: removed journal)
  case (Cons hash hashes)
  have "forE (\<lambda>i. assertHash32 i ''removed transaction id'' False)
      (removed_transactions m canonical g (to_lower hash)) = Inr ()"
    using assms(3,4) by (auto simp: forE_Inr removed_transactions_def assertHash32_def)
  with Cons show ?case
    by (auto simp: run_simps Let_def assert_journal_append assertHash32_def split: if_splits)
qed simp

lemma add_transitions_asserted:
  "add_transitions m c b spends journal ts = Inr (spends', journal') \<Longrightarrow> assert_journal m 0 journal = Inr () \<Longrightarrow>
     assert_journal m 0 journal' = Inr ()"
  by (induction ts arbitrary: spends journal) (auto simp: run_simps assert_journal_append split: if_splits)

lemma reaccept_genesis_asserted:
  "reaccept_genesis m a c b journal g = Inr journal' \<Longrightarrow> assert_journal m 0 journal = Inr () \<Longrightarrow>
     assert_journal m 0 journal' = Inr ()"
  by (auto simp: reaccept_genesis_def run_simps assert_journal_append split: option.splits if_splits)

lemma add_blocks_asserted:
  "add_blocks m a c added spends journal blocks = Inr journal' \<Longrightarrow> assert_journal m 0 journal = Inr () \<Longrightarrow>
     assert_journal m 0 journal' = Inr ()"
proof (induction blocks arbitrary: added spends journal)
  case (Cons block blocks)
  then show ?case
    by (auto simp: run_simps Let_def split: if_splits dest!: reaccept_genesis_asserted add_transitions_asserted)
qed simp

section \<open>Heads are comparable\<close>

fun comparable :: "lineage_head option \<Rightarrow> bool" where
  "comparable None = True"
| "comparable (Some h) = num_eq (op_index (lh_outpoint h)) (op_index (lh_outpoint h))"

lemma sameLineageHead_refl: "sameLineageHead h h \<longleftrightarrow> comparable h"
  by (cases h) (auto simp: sameOutpoint_def)

lemma num_eq_refl_left: "num_eq x y \<Longrightarrow> num_eq x x \<and> num_eq y y"
  by (cases x; cases y) auto

lemma sameLineageHead_comparable: "sameLineageHead h h' \<Longrightarrow> comparable h'"
  by (cases h; cases h') (auto simp: sameOutpoint_def dest: num_eq_refl_left)

lemma safe_index_num_eq: "safe_index x \<Longrightarrow> num_eq x x"
  by (cases x) (auto simp: safe_index_def in_range_def)

lemma advance_head_tip:
  assumes "advance_head head t = Inr head'" "assertLineageTransition m t = Inr ()"
  shows "sameLineageHead (tip_head t) head'" "comparable head'"
proof -
  show same: "sameLineageHead (tip_head t) head'"
  proof (cases "lt_kind t = ''refund''")
    case True
    with assms assertLineageTransition_Inr(2) [OF assms(2)] show ?thesis
      by (auto simp: advance_head_def tip_head_def run_simps split: option.splits if_splits)
  next
    case False
    obtain s where s: "lt_successor t = Some s" "safe_index (op_index (lh_outpoint s))"
      using assertLineageTransition_Inr(3) [OF assms(2) False] by blast
    with False assms(1) have "head' = Some (successor_head s)"
      by (auto simp: advance_head_def run_simps split: option.splits if_splits)
    with s show ?thesis
      by (auto simp: tip_head_def successor_head_def sameOutpoint_def safe_index_num_eq)
  qed
  then show "comparable head'" by (rule sameLineageHead_comparable)
qed

lemma derive_loop_tip:
  assumes "derive_loop seen head ts = Inr head'" "\<forall>t\<in>set ts. assertLineageTransition m t = Inr ()"
  shows "if ts = [] then head' = head else sameLineageHead (tip_head (last ts)) head'"
  using assms
proof (cases ts rule: rev_cases)
  case (snoc ys t)
  with assms obtain mid where "advance_head mid t = Inr head'"
    by (auto simp: derive_loop_append run_simps split: if_splits)
  with snoc assms(2) advance_head_tip(1) show ?thesis by auto
qed auto


section \<open>The genesis stays accepted\<close>

definition genesis_settled :: "lineage_state \<Rightarrow> bool" where
  \<comment> \<open>no prefix of the journal leaves the genesis unaccepted\<close>
  "genesis_settled s = list_all (\<lambda>k. genesis_of (ln_manifest s) (ln_anchor s) (take k (ln_journal s)) \<noteq> None)
     [0..<Suc (length (ln_journal s))]"

lemma genesis_settled_iff:
  "genesis_settled s \<longleftrightarrow> (\<forall>k. genesis_of (ln_manifest s) (ln_anchor s) (take k (ln_journal s)) \<noteq> None)"
proof -
  have "take k (ln_journal s) = take (min k (length (ln_journal s))) (ln_journal s)" for k
    by (metis min.cobounded2 min_def nat_le_linear take_all)
  then show ?thesis
    unfolding genesis_settled_def list_all_iff by (metis atLeastLessThan_upt atLeastLessThan_iff bot_nat_0.extremum
        le_imp_less_Suc less_Suc_eq_le min.cobounded2 set_upt)
qed

lemma genesis_loop_take_append:
  assumes "\<And>k. genesis_loop tx g (take k xs) \<noteq> None" "\<And>k. genesis_loop tx (genesis_loop tx g xs) (take k ys) \<noteq> None"
  shows "genesis_loop tx g (take k (xs @ ys)) \<noteq> None"
  using assms(1) [of k] assms(2) [of "k - length xs"]
  by (cases "k \<le> length xs") (auto simp: genesis_loop_append)

lemma removal_loop_genesis:
  assumes "removal_loop sha m a canonical (Some g) removed journal hashes = Inr (Journaled journal')"
    and "list_all (\<lambda>h. to_lower h \<noteq> to_lower (ae_acceptingBlockHash g)) hashes"
    and "genesis_loop tx g0 journal = Some g" "\<And>k. genesis_loop tx g0 (take k journal) \<noteq> None"
  shows "genesis_loop tx g0 journal' = Some g \<and> (\<forall>k. genesis_loop tx g0 (take k journal') \<noteq> None)"
  using assms
proof (induction hashes arbitrary: removed journal)
  case (Cons hash hashes)
  let ?event = "RemovedEvent (JsInt (int (length journal))) (to_lower hash)
    (removed_transactions m canonical (Some g) (to_lower hash))"
  from Cons.prems(2) have kept: "genesis_loop tx (Some g) (take k [?event]) = Some g" for k
    by (cases k) auto
  show ?case
  proof (cases "removed_transactions m canonical (Some g) (to_lower hash) = []")
    case True
    with Cons show ?thesis by (auto simp: run_simps Let_def split: if_splits)
  next
    case False
    have "genesis_loop tx g0 (journal @ [?event]) = Some g"
      using kept [of 1] Cons.prems(3) by (simp add: genesis_loop_append)
    moreover have "genesis_loop tx g0 (take k (journal @ [?event])) \<noteq> None" for k
      by (rule genesis_loop_take_append) (use Cons.prems kept in auto)
    ultimately show ?thesis
      using False Cons.prems(1,2) by (intro Cons.IH) (auto simp: run_simps Let_def split: if_splits)
  qed
qed simp

lemma add_transitions_genesis:
  "add_transitions m c b spends journal ts = Inr (spends', journal') \<Longrightarrow>
     genesis_loop tx g0 journal = Some g \<Longrightarrow> (\<And>k. genesis_loop tx g0 (take k journal) \<noteq> None) \<Longrightarrow>
     genesis_loop tx g0 journal' = Some g \<and> (\<forall>k. genesis_loop tx g0 (take k journal') \<noteq> None)"
proof (induction ts arbitrary: spends journal)
  case (Cons t ts)
  let ?event = "AcceptedEvent (JsInt (int (length journal))) t"
  have kept: "genesis_loop tx (Some g) (take k [?event]) = Some g" for k by (cases k) auto
  have "genesis_loop tx g0 (take k (journal @ [?event])) \<noteq> None" for k
    by (rule genesis_loop_take_append) (use Cons.prems kept in auto)
  moreover have "add_transitions m c b (outpointKey (lt_consumedOutpoint t) # spends) (journal @ [?event]) ts
      = Inr (spends', journal')"
    using Cons.prems(1) by (auto simp: run_simps split: if_splits)
  moreover have "genesis_loop tx g0 (journal @ [?event]) = Some g"
    using Cons.prems(2) by (simp add: genesis_loop_append)
  ultimately show ?case by (intro Cons.IH)
qed simp

lemma add_blocks_genesis:
  assumes "add_blocks m a c added spends journal blocks = Inr journal'"
    and "genesis_of m a journal = Some g" "\<And>k. genesis_of m a (take k journal) \<noteq> None"
  shows "genesis_of m a journal' = Some g \<and> (\<forall>k. genesis_of m a (take k journal') \<noteq> None)"
  using assms
proof (induction blocks arbitrary: added spends journal)
  case (Cons block blocks)
  from Cons.prems(1) obtain j1 spends' j2 where steps:
    "reaccept_genesis m a c (to_lower (sb_blockHash block)) journal (sb_genesisAcceptance block) = Inr j1"
    "add_transitions m c (to_lower (sb_blockHash block)) spends j1 (sb_transitions block) = Inr (spends', j2)"
    "add_blocks m a c (to_lower (sb_blockHash block) # added) spends' j2 blocks = Inr journal'"
    by (auto simp: run_simps Let_def split: if_splits)
  from steps(1) Cons.prems(2) have "j1 = journal"
    by (auto simp: reaccept_genesis_def run_simps split: option.splits if_splits)
  with add_transitions_genesis [OF steps(2)] Cons.prems(2,3) Cons.IH [OF steps(3)] show ?case
    unfolding genesis_of_def by blast
qed simp

lemma assert_anchor_Inr:
  "assert_anchor sha m a = Inr () \<longleftrightarrow>
     in_range (an_compactedEvents a) 0 MAX_SAFE_INTEGER \<and> is_bloom (an_relevantBlocksBloom a)
     \<and> (\<exists>made. makeLineageAnchor sha a = Inr made \<and> an_snapshotHash a = an_snapshotHash made)
     \<and> an_manifestIdentitySha256 a = lm_identitySha256 m \<and> is_lower_hash32 (an_checkpointBlockHash a)
     \<and> assert_anchor_tip m a = Inr ()"
proof -
  have "in_range n 0 MAX_SAFE_INTEGER \<Longrightarrow> is_safe_integer n" for n
    by (auto simp: in_range_iff is_safe_integer_def MAX_SAFE_INTEGER_def)
  then show ?thesis by (auto simp: assert_anchor_def run_simps)
qed

lemma assert_anchor_tip_comparable: "assert_anchor_tip m a = Inr () \<Longrightarrow> comparable (an_head a)"
  by (auto simp: assert_anchor_tip_def run_simps split: option.splits if_splits dest: sameLineageHead_comparable)

lemma genesis_head_comparable:
  assumes "assertLaunchManifest sha m = Inr ()"
  shows "comparable (Some (genesis_head m))" "is_hash32 (mg_transactionId (lm_genesis m))"
  using assms
  by (auto simp: assertLaunchManifest_def assert_genesis_def run_simps assertOutpoint_def assertHash32_def
      genesis_head_def Let_def safe_index_num_eq split: if_splits)

lemma derive_head_comparable:
  assumes "derive_head m a journal = Inr head" "assert_journal m k journal = Inr ()"
    and "comparable (an_head a)" "comparable (Some (genesis_head m))"
  shows "comparable head"
proof -
  obtain ts where ts: "canonicalAcceptedEvents journal = Inr ts"
    "derive_loop [] (start_head m a journal) ts = Inr head"
    using assms(1) by (auto simp: derive_head_def run_simps)
  have "\<forall>t\<in>set ts. assertLineageTransition m t = Inr ()"
    using canonical_asserted [OF ts(1) assms(2)] by blast
  from derive_loop_tip [OF ts(2) this] show ?thesis
    using assms(3,4) by (auto simp: start_head_def split: if_splits option.splits dest: sameLineageHead_comparable)
qed

lemma compacted_anchor_asserted:
  assumes anchor: "compactedLineageAnchor sha m a prefix block = Inr anchor"
    and old: "assert_anchor sha m a = Inr ()" "an_genesisAcceptance a \<noteq> None" "genesis_of m a prefix \<noteq> None"
    and "assert_journal m 0 prefix = Inr ()" "is_lower_hash32 block" "is_safe_integer (an_compactedEvents anchor)"
  shows "assert_anchor sha m anchor = Inr ()"
  using anchor
proof (rule compacted_anchor_Inr)
  fix head ts history hash
  assume head: "derive_head m a prefix = Inr head" and ts: "canonicalAcceptedEvents prefix = Inr ts"
    and fields: "anchor = \<lparr>an_compactedEvents = num_plus (an_compactedEvents a) (length prefix), an_head = head,
        an_genesisAcceptance = genesis_of m a prefix,
        an_tipTransition = (if ts = [] then an_tipTransition a else Some (last ts)),
        an_manifestIdentitySha256 = lm_identitySha256 m, an_checkpointBlockHash = block,
        an_historyHash = history, an_snapshotHash = hash,
        an_relevantBlocksBloom = add_events sha (an_relevantBlocksBloom a) prefix\<rparr>"
    and made: "makeLineageAnchor sha anchor = Inr anchor"
  have asserted: "\<forall>t\<in>set ts. assertLineageTransition m t = Inr ()"
    using canonical_asserted [OF ts assms(5)] by blast
  from head ts have "derive_loop [] (start_head m a prefix) ts = Inr head" by (simp add: derive_head_def)
  then have tip: "if ts = [] then head = an_head a else sameLineageHead (tip_head (last ts)) head"
    using derive_loop_tip [OF _ asserted] old(2,3) by (fastforce simp: start_head_def split: if_splits)
  have "assert_anchor_tip m anchor = Inr ()"
  proof (cases "ts = []")
    case True
    with tip fields old show ?thesis
      by (auto simp: assert_anchor_Inr assert_anchor_tip_def split: option.splits if_splits)
  next
    case False
    then have "assertLineageTransition m (last ts) = Inr ()" using asserted by simp
    with False tip fields show ?thesis by (simp add: assert_anchor_tip_def)
  qed
  moreover have "is_bloom (an_relevantBlocksBloom anchor)"
    using fields old(1) add_events_contains(1) by (simp add: assert_anchor_Inr)
  moreover have "in_range (an_compactedEvents anchor) 0 MAX_SAFE_INTEGER"
    using fields old(1) assms(7) by (auto simp: assert_anchor_Inr in_range_iff is_safe_integer_def)
  ultimately show ?thesis
    using made fields assms(6) unfolding assert_anchor_Inr by (metis lineage_anchor.select_convs(5,6))
qed

lemma compacted_genesis:
  assumes "compactedLineageAnchor sha m a (take k journal) block = Inr anchor" "k \<le> length journal"
  shows "genesis_of m anchor (take j (resequenced (drop k journal))) = genesis_of m a (take (k + j) journal)"
proof -
  have "take j (resequenced (drop k journal)) = resequenced (take j (drop k journal))"
    by (rule nth_equalityI) (auto simp: nth_resequenced)
  moreover from assms(1) have "an_genesisAcceptance anchor = genesis_of m a (take k journal)"
    by (rule compacted_anchor_Inr) simp
  moreover have "take (k + j) journal = take k journal @ take j (drop k journal)"
    by (simp add: take_add)
  ultimately show ?thesis
    by (simp add: genesis_of_def genesis_loop_append genesis_loop_resequence [OF resequenced_events])
qed

lemma finish_update_checked:
  assumes fin: "finish_update sha s = Inr s'"
    and m: "assertLaunchManifest sha (ln_manifest s) = Inr ()"
    and a: "assert_anchor sha (ln_manifest s) (ln_anchor s) = Inr ()"
    and j: "assert_journal (ln_manifest s) 0 (ln_journal s) = Inr ()"
    and g: "genesis_settled s" and c: "assertCheckpoint (ln_checkpoint s) = Inr ()"
    and lower: "is_lower_hash32 (cp_blockHash (ln_checkpoint s))"
    and counter: "is_safe_integer (an_compactedEvents (ln_anchor s'))"
    and budget: "assertLineageBudget s' = Inr ()"
  shows "assertLineageState sha s' = Inr () \<and> genesis_settled s'"
proof -
  obtain compacted head where steps: "compactLineage sha s = Inr compacted"
    "derive_head (ln_manifest compacted) (ln_anchor compacted) (ln_journal compacted) = Inr head"
    "ln_manifest s' = ln_manifest compacted" "ln_anchor s' = ln_anchor compacted"
    "ln_journal s' = ln_journal compacted" "ln_checkpoint s' = ln_checkpoint compacted" "ln_currentHead s' = head"
    "ln_availability s' = (if canonicalGenesisAcceptance compacted \<noteq> None then ''available'' else ''unknown'')"
    using fin by (elim finish_update_Inr)
  have kept: "ln_manifest compacted = ln_manifest s" "ln_checkpoint compacted = ln_checkpoint s"
    using compactLineage_Inr [OF steps(1)] by auto
  have gen: "genesis_of (ln_manifest s) (ln_anchor s) (take k (ln_journal s)) \<noteq> None" for k
    using g by (simp add: genesis_settled_iff)
  have "assert_anchor sha (ln_manifest s) (ln_anchor s') = Inr ()
    \<and> assert_journal (ln_manifest s) 0 (ln_journal s') = Inr () \<and> genesis_settled s'"
    using compactLineage_Inr [OF steps(1)]
  proof (elim disjE exE conjE)
    assume "compacted = s"
    with steps a j g show ?thesis by (simp add: genesis_settled_def)
  next
    fix k anchor
    assume k: "0 < k" "k \<le> length (ln_journal s) - 64" "compactedLineageAnchor sha (ln_manifest s) (ln_anchor s)
        (take k (ln_journal s)) (cp_blockHash (ln_checkpoint s)) = Inr anchor"
      "compacted = s\<lparr>ln_anchor := anchor, ln_journal := resequenced (drop k (ln_journal s))\<rparr>"
    have "assert_journal (ln_manifest s) 0 (take k (ln_journal s)) = Inr ()"
      using j by (auto simp: assert_journal_Inr)
    then have "assert_anchor sha (ln_manifest s) anchor = Inr ()"
      using k(3) a gen [of 0] gen [of k] lower counter k(4) steps(4)
      by (intro compacted_anchor_asserted [OF k(3)]) (auto simp: genesis_of_def)
    with k steps kept j gen compacted_genesis [OF k(3)] assert_journal_resequenced show ?thesis
      by (auto simp: genesis_settled_iff)
  qed
  moreover have "comparable head"
    using derive_head_comparable [OF steps(2)] calculation steps kept genesis_head_comparable(1) [OF m]
      assert_anchor_tip_comparable by (auto simp: assert_anchor_Inr)
  moreover have "canonicalGenesisAcceptance s' \<noteq> None"
    using calculation(1) by (simp add: genesis_settled_iff canonicalGenesisAcceptance_def)
      (metis order_refl take_all)
  ultimately show ?thesis
    using steps kept m c budget by (auto simp: assertLineageState_Inr sameLineageHead_refl canonicalGenesisAcceptance_def)
qed

text \<open>Selected-chain updates keep a lineage state valid: when no removed block is the one that
  accepted the genesis, every update of a checked state gives a state that passes the same check and
  whose genesis stays accepted. What the update itself leaves to its caller is assumed: the new
  checkpoint names its block in lower case, the counter of compacted events stays a safe integer and
  the new state fits the byte limit.\<close>

lemma update_preserves_state:
  assumes upd: "applyCovenantSelectedChainUpdate sha current update = Inr s'"
    and g: "genesis_settled current"
    and kept: "list_all (\<lambda>h. map_option (\<lambda>e. to_lower (ae_acceptingBlockHash e)) (canonicalGenesisAcceptance current)
                 \<noteq> Some (to_lower h)) (cu_removedChainBlockHashes update)"
    and lower: "is_lower_hash32 (cp_blockHash (cu_checkpoint update))"
    and counter: "is_safe_integer (an_compactedEvents (ln_anchor s'))"
    and budget: "assertLineageBudget s' = Inr ()"
  shows "assertLineageState sha s' = Inr () \<and> genesis_settled s'"
  using upd
proof (cases rule: update_cases)
  case (unknown reason)
  with update_checked(2) [OF upd] g budget show ?thesis
    by (auto simp: assertLineageState_Inr unavailable_def genesis_settled_def)
next
  case (moved canonical journal journal')
  let ?m = "ln_manifest current" and ?a = "ln_anchor current"
  have state: "assertLaunchManifest sha ?m = Inr ()" "assert_anchor sha ?m ?a = Inr ()"
    "assert_journal ?m 0 (ln_journal current) = Inr ()"
    using update_checked(2) [OF upd] by (auto simp: assertLineageState_Inr)
  have gen: "genesis_of ?m ?a (take k (ln_journal current)) \<noteq> None" for k
    using g by (simp add: genesis_settled_iff)
  obtain e where e: "canonicalGenesisAcceptance current = Some e" "genesis_of ?m ?a (ln_journal current) = Some e"
    using gen [of "length (ln_journal current)"] by (auto simp: canonicalGenesisAcceptance_def)
  have "\<forall>t\<in>set canonical. is_hash32 (lt_transactionId t)"
    using canonical_asserted [OF moved(2) state(3)] assertLineageTransition_Inr(1) by blast
  then have "assert_journal ?m 0 journal' = Inr ()"
    using removal_loop_asserted [OF moved(3) state(3)] genesis_head_comparable(2) [OF state(1)]
      add_blocks_asserted [OF moved(4)] by blast
  moreover have "list_all (\<lambda>h. to_lower h \<noteq> to_lower (ae_acceptingBlockHash e)) (cu_removedChainBlockHashes update)"
    using kept e(1) by (auto simp: list_all_iff)
  then have "genesis_of ?m ?a journal = Some e \<and> (\<forall>k. genesis_of ?m ?a (take k journal) \<noteq> None)"
    using e(2) gen removal_loop_genesis [OF moved(3) [unfolded e(1)]] unfolding genesis_of_def by blast
  then have "genesis_of ?m ?a journal' = Some e \<and> (\<forall>k. genesis_of ?m ?a (take k journal') \<noteq> None)"
    using add_blocks_genesis [OF moved(4)] by blast
  ultimately show ?thesis
    using finish_update_checked [OF moved(5)] state lower counter budget update_checked(3) [OF upd]
    by (simp add: genesis_settled_iff)
qed

section \<open>Created states\<close>

lemma is_bloom_zero: "is_bloom (replicate 512 (CHR ''0''))"
  by (simp add: is_bloom_def is_lower_hex_def code_def list_all_iff)

lemma manifest_parts:
  assumes "assertLaunchManifest sha m = Inr ()"
  shows "assertAcceptedEvidence (mg_acceptance (lm_genesis m)) = Inr ()"
    "safe_index (op_index (mg_outpoint (lm_genesis m)))"
  using assms
  by (auto simp: assertLaunchManifest_def assert_genesis_def run_simps assertOutpoint_def split: if_splits)

text \<open>A created lineage starts at the genesis output and passes the state check, provided that the
  genesis checkpoint names its block in lower case.\<close>

lemma created_state_checked:
  assumes created: "createCovenantLineageState sha m = Inr s"
    and lower: "is_lower_hash32 (cp_blockHash (ae_checkpoint (mg_acceptance (lm_genesis m))))"
  shows "assertLineageState sha s = Inr () \<and> genesis_settled s
    \<and> ln_currentHead s = Some (genesis_head m) \<and> an_head (ln_anchor s) = Some (genesis_head m)
    \<and> ln_manifest s = m"
proof -
  from created obtain history anchor input where
    m: "assertLaunchManifest sha m = Inr ()" and budget: "assertLineageBudget s = Inr ()"
    and made: "makeLineageAnchor sha input = Inr anchor"
    and input: "input = \<lparr>an_compactedEvents = JsInt 0, an_head = Some (genesis_head m),
         an_genesisAcceptance = Some (mg_acceptance (lm_genesis m)), an_tipTransition = None,
         an_manifestIdentitySha256 = lm_identitySha256 m,
         an_checkpointBlockHash = cp_blockHash (ae_checkpoint (mg_acceptance (lm_genesis m))),
         an_historyHash = history, an_snapshotHash = [],
         an_relevantBlocksBloom = replicate 512 (CHR ''0'')\<rparr>"
    and s: "s = \<lparr>ln_manifest = m, ln_anchor = anchor, ln_journal = [],
                   ln_currentHead = Some (genesis_head m),
                   ln_checkpoint = ae_checkpoint (mg_acceptance (lm_genesis m)),
                   ln_availability = ''available'', ln_unavailableReason = None\<rparr>"
    unfolding createCovenantLineageState_def by (auto simp: run_simps Let_def)
  from made obtain hash where anchor: "anchor = input\<lparr>an_snapshotHash := hash\<rparr>"
    by (auto simp: makeLineageAnchor_Inr)
  have same: "sameLineageHead (Some (manifest_head m)) (Some (genesis_head m))"
    using safe_index_num_eq [OF manifest_parts(2) [OF m]]
    by (simp add: manifest_head_def genesis_head_def Let_def sameOutpoint_def)
  then have "assert_anchor sha m anchor = Inr ()"
    using makeLineageAnchor_again [OF made] lower is_bloom_zero unfolding assert_anchor_Inr
    by (auto simp: anchor input in_range_def MAX_SAFE_INTEGER_def assert_anchor_tip_def)
  moreover have "assertCheckpoint (ln_checkpoint s) = Inr ()"
    using manifest_parts(1) [OF m] s by (auto simp: assertAcceptedEvidence_def run_simps)
  moreover have "derive_head m anchor [] = Inr (Some (genesis_head m))"
    by (simp add: derive_head_def canonicalAcceptedEvents_def start_head_def genesis_of_def anchor input)
  moreover have "sameLineageHead (Some (genesis_head m)) (Some (genesis_head m))"
    using sameLineageHead_comparable [OF same] by (simp add: sameLineageHead_refl del: sameLineageHead.simps)
  moreover have "genesis_settled s" "canonicalGenesisAcceptance s \<noteq> None"
    by (simp_all add: genesis_settled_def canonicalGenesisAcceptance_def genesis_of_def s anchor input)
  ultimately show ?thesis
    using m budget by (auto simp: assertLineageState_Inr s anchor input simp del: sameLineageHead.simps)
qed

text \<open>The proviso is needed: \<open>assertLaunchManifest\<close> admits a checkpoint hash with upper-case digits,
  and the state created from it does not pass its own check.\<close>

lemma created_mixed_case_rejected:
  assumes "createCovenantLineageState sha m = Inr s"
    and "\<not> is_lower_hash32 (cp_blockHash (ae_checkpoint (mg_acceptance (lm_genesis m))))"
  shows "\<not> succeeds (assertLineageState sha s)"
proof -
  have "an_checkpointBlockHash (ln_anchor s) = cp_blockHash (ae_checkpoint (mg_acceptance (lm_genesis m)))"
    using assms(1) unfolding createCovenantLineageState_def by (auto simp: run_simps Let_def makeLineageAnchor_Inr)
  with assms(2) have "assert_anchor sha (ln_manifest s) (ln_anchor s) \<noteq> Inr ()"
    unfolding assert_anchor_Inr by simp
  then show ?thesis by (auto simp: succeeds_iff assertLineageState_Inr)
qed

section \<open>Reachable states\<close>

definition orderly :: "lineage_state \<Rightarrow> chain_update \<Rightarrow> lineage_state \<Rightarrow> bool" where
  \<comment> \<open>the update leaves the genesis block alone and the new state fits the limits\<close>
  "orderly current update s' \<longleftrightarrow>
     list_all (\<lambda>h. map_option (\<lambda>e. to_lower (ae_acceptingBlockHash e)) (canonicalGenesisAcceptance current)
                 \<noteq> Some (to_lower h)) (cu_removedChainBlockHashes update)
     \<and> is_lower_hash32 (cp_blockHash (cu_checkpoint update))
     \<and> is_safe_integer (an_compactedEvents (ln_anchor s')) \<and> assertLineageBudget s' = Inr ()"

inductive lineage_reachable :: "(byte list \<Rightarrow> byte list) \<Rightarrow> launch_manifest \<Rightarrow> lineage_state \<Rightarrow> bool"
  for sha m where
  created: "createCovenantLineageState sha m = Inr s \<Longrightarrow>
     is_lower_hash32 (cp_blockHash (ae_checkpoint (mg_acceptance (lm_genesis m)))) \<Longrightarrow> lineage_reachable sha m s"
| updated: "lineage_reachable sha m s \<Longrightarrow> applyCovenantSelectedChainUpdate sha s update = Inr s' \<Longrightarrow>
     orderly s update s' \<Longrightarrow> lineage_reachable sha m s'"

inductive_cases lineage_reachable_cases: "lineage_reachable sha m s"

definition backed :: "launch_manifest \<Rightarrow> lineage_head option \<Rightarrow> bool" where
  \<comment> \<open>a live head holds, with what was claimed, at least the genesis value\<close>
  "backed m head = (case head of None \<Rightarrow> True | Some h \<Rightarrow>
     head_claimed (genesis_head m) \<le> head_claimed h
     \<and> head_value (genesis_head m) + head_claimed (genesis_head m) \<le> head_value h + head_claimed h)"

lemma derive_backed:
  assumes "derive_head m a journal = Inr head" "backed m (an_head a)"
  shows "backed m head"
proof (cases head)
  case (Some h')
  with assms(1) obtain ts where ts: "derive_loop [] (start_head m a journal) ts = Inr (Some h')"
    by (auto simp: derive_head_def run_simps)
  then obtain h where h: "start_head m a journal = Some h"
    by (cases "start_head m a journal") (auto dest: derive_loop_None)
  with assms(2) have "backed m (Some h)"
    by (auto simp: start_head_def backed_def split: option.splits if_splits)
  with derive_loop_value(1,2) [OF ts [unfolded h]] Some show ?thesis
    by (simp add: backed_def del: head_value.simps head_claimed.simps)
qed (simp add: backed_def)

lemma update_backed:
  assumes "applyCovenantSelectedChainUpdate sha s update = Inr s'" "ln_manifest s = m"
    and "backed m (an_head (ln_anchor s))" "backed m (ln_currentHead s)"
  shows "ln_manifest s' = m \<and> backed m (an_head (ln_anchor s')) \<and> backed m (ln_currentHead s')"
  using assms(1)
proof (cases rule: update_cases)
  case (unknown reason)
  with assms show ?thesis by (simp add: unavailable_def)
next
  case (moved canonical journal journal')
  obtain compacted head where steps:
    "compactLineage sha (s\<lparr>ln_journal := journal', ln_checkpoint := cu_checkpoint update\<rparr>) = Inr compacted"
    "derive_head (ln_manifest compacted) (ln_anchor compacted) (ln_journal compacted) = Inr head"
    "ln_manifest s' = ln_manifest compacted" "ln_anchor s' = ln_anchor compacted" "ln_currentHead s' = head"
    using moved(5) by (elim finish_update_Inr)
  have "ln_manifest compacted = m \<and> backed m (an_head (ln_anchor compacted))"
    using compactLineage_Inr [OF steps(1)]
  proof (elim disjE exE conjE)
    fix k anchor
    assume k: "compactedLineageAnchor sha (ln_manifest (s\<lparr>ln_journal := journal', ln_checkpoint := cu_checkpoint update\<rparr>))
        (ln_anchor (s\<lparr>ln_journal := journal', ln_checkpoint := cu_checkpoint update\<rparr>))
        (take k (ln_journal (s\<lparr>ln_journal := journal', ln_checkpoint := cu_checkpoint update\<rparr>)))
        (cp_blockHash (ln_checkpoint (s\<lparr>ln_journal := journal', ln_checkpoint := cu_checkpoint update\<rparr>))) = Inr anchor"
      "compacted = (s\<lparr>ln_journal := journal', ln_checkpoint := cu_checkpoint update\<rparr>)
         \<lparr>ln_anchor := anchor, ln_journal := resequenced (drop k (ln_journal (s\<lparr>ln_journal := journal', ln_checkpoint := cu_checkpoint update\<rparr>)))\<rparr>"
    from k(1) have "derive_head m (ln_anchor s) (take k journal') = Inr (an_head anchor)"
      by (rule compacted_anchor_Inr) (simp add: assms(2))
    with derive_backed assms k(2) show ?thesis by simp
  qed (use assms in simp)
  with steps derive_backed show ?thesis by auto
qed

text \<open>C26. In every state that a lineage reaches from its launch manifest through orderly selected-chain
  updates, the state check passes, the genesis is accepted, and a live head still accounts for the
  whole genesis value: what it locks and what has been claimed never sum to less than at the start,
  and the claimed amount never falls below its start.\<close>

theorem reachable_lineage_sound:
  assumes "lineage_reachable sha m s"
  shows "assertLineageState sha s = Inr () \<and> genesis_settled s \<and> ln_manifest s = m \<and> backed m (ln_currentHead s)"
proof -
  from assms have "assertLineageState sha s = Inr () \<and> genesis_settled s \<and> ln_manifest s = m
    \<and> backed m (an_head (ln_anchor s)) \<and> backed m (ln_currentHead s)"
  proof (induction rule: lineage_reachable.induct)
    case (created s)
    with created_state_checked [OF created] show ?case by (simp add: backed_def)
  next
    case (updated s update s')
    with update_backed [OF updated(2)] update_preserves_state [OF updated(2)] show ?case
      by (simp add: orderly_def)
  qed
  then show ?thesis by blast
qed


end
