(* ===== verification/Chain_Examples.thy ===== *)
theory Chain_Examples
  imports Chain_Invariant
begin

text \<open>
  A concrete lineage, with a constant digest in place of SHA-256, on which the theorems of the chain
  theories are applied; and a journal on which compaction loses a removal.
\<close>

lemma json_stringify_length: "utf8ByteLength (json_stringify v) \<le> size_bound v"
proof (induction v)
  case (JArr xs)
  then have "sum_list (map (\<lambda>x. utf8ByteLength (if x = JUndefined then ''null'' else json_stringify x)) xs)
      \<le> sum_list (map size_bound xs)"
    by (intro sum_list_mono) (auto simp: utf8ByteLength_Cons code_def)
  then show ?case by (simp add: json_array_length comp_def)
next
  case (JObj kvs)
  let ?kept = "filter (\<lambda>(k, v). v \<noteq> JUndefined) kvs"
  have item: "utf8ByteLength (json_string k) + 1 + utf8ByteLength (json_stringify v) \<le> 12 * length k + 3 + size_bound v"
    if "(k, v) \<in> set kvs" for k v
    using that JObj [of "(k, v)" v] json_string_length_le [of k] by simp
  have "sum_list (map (\<lambda>(k, v). utf8ByteLength (json_string k) + 1 + utf8ByteLength (json_stringify v)) ?kept)
     \<le> sum_list (map (\<lambda>(k, v). 12 * length k + 3 + size_bound v) ?kept)"
    using item by (intro sum_list_mono) auto
  also have "\<dots> \<le> sum_list (map (\<lambda>(k, v). 12 * length k + 3 + size_bound v) kvs)"
    by (induction kvs) auto
  finally have "length ?kept - 1
      + sum_list (map (\<lambda>(k, v). utf8ByteLength (json_string k) + 1 + utf8ByteLength (json_stringify v)) ?kept)
     \<le> length kvs + sum_list (map (\<lambda>(k, v). 12 * length k + 3 + size_bound v) kvs)"
    using length_filter_le [of "\<lambda>(k, v). v \<noteq> JUndefined" kvs] by linarith
  then show ?case
    by (simp add: json_object_length comp_def case_prod_unfold)
next
  case (JStr s)
  then show ?case using json_string_length_le [of s] by simp
qed (auto simp: utf8ByteLength_Cons code_def)

lemma serializedBytes_le: "size_bound v \<le> n \<Longrightarrow> serializedBytes v \<le> n"
  using json_stringify_length [of v] by (simp add: serializedBytes_def)

definition small :: "js_value \<Rightarrow> bool" where
  "small v = (fits KASPA_X402_RESOURCE_BUDGET 0 None v \<and> value_nodes v \<le> 4096 \<and> value_work v \<le> 8191
     \<and> size_bound v \<le> 98304)"

lemma stableStringify_of_small: "small v \<Longrightarrow> stableStringify v = Inr (stableJson v)"
  by (simp add: small_def stableStringify_small)


section \<open>A concrete lineage\<close>

definition zero_sha :: "byte list \<Rightarrow> byte list" where
  "zero_sha bs = replicate 32 0"

definition id64 :: "char \<Rightarrow> string" where "id64 c = replicate 64 c"

definition example_genesis :: manifest_genesis where
  "example_genesis = \<lparr>mg_derivation = ''kip20-covenant-id-v1'', mg_covenantId = id64 (CHR ''c''),
     mg_authorizingInput = \<lparr>op_txid = id64 (CHR ''e''), op_index = JsInt 0\<rparr>,
     mg_transactionId = id64 (CHR ''1''), mg_outpoint = \<lparr>op_txid = id64 (CHR ''1''), op_index = JsInt 0\<rparr>,
     mg_scriptPublicKey = ''aa'', mg_value = ''1000'', mg_claimedCumulativeAmount = ''0'',
     mg_acceptance = example_acceptance (CHR ''1'') (CHR ''b'')\<rparr>"

definition example_manifest :: launch_manifest where
  "example_manifest = \<lparr>lm_format = ''kaspa-x402-covenant-launch-v1'', lm_network = ''kaspa:mainnet'',
     lm_compiler_name = ''c'', lm_compiler_checkedCommit = replicate 40 (CHR ''0''), lm_compiler_command = ''c'',
     lm_source_path = ''s'', lm_source_sha256 = id64 (CHR ''0''), lm_bytecode_templateId = ''t'',
     lm_bytecode_compiledBaseSha256 = id64 (CHR ''0''), lm_constructorSlots = JObj [(''a'', JNull)],
     lm_abi = JObj [(''a'', JNull)], lm_selectors = JObj [(''a'', JStr ''00'')],
     lm_identitySha256 = id64 (CHR ''0''), lm_genesis = example_genesis\<rparr>"

definition example_lineage :: lineage_state where
  "example_lineage = \<lparr>ln_manifest = example_manifest,
     ln_anchor = \<lparr>an_compactedEvents = JsInt 0, an_head = Some (genesis_head example_manifest),
       an_genesisAcceptance = Some (example_acceptance (CHR ''1'') (CHR ''b'')), an_tipTransition = None,
       an_manifestIdentitySha256 = id64 (CHR ''0''), an_checkpointBlockHash = id64 (CHR ''a''),
       an_historyHash = id64 (CHR ''0''), an_snapshotHash = id64 (CHR ''0''),
       an_relevantBlocksBloom = replicate 512 (CHR ''0'')\<rparr>,
     ln_journal = [], ln_currentHead = Some (genesis_head example_manifest),
     ln_checkpoint = example_checkpoint, ln_availability = ''available'', ln_unavailableReason = None\<rparr>"

definition example_claim :: lineage_transition where
  "example_claim = \<lparr>lt_kind = ''claim'', lt_covenantId = id64 (CHR ''c''), lt_templateId = ''t'',
     lt_consumedOutpoint = \<lparr>op_txid = id64 (CHR ''1''), op_index = JsInt 0\<rparr>, lt_transactionId = id64 (CHR ''2''),
     lt_authorizedSuccessorCount = JsInt 1,
     lt_successor = Some \<lparr>lh_outpoint = \<lparr>op_txid = id64 (CHR ''2''), op_index = JsInt 0\<rparr>,
       lh_scriptPublicKey = ''aa'', lh_value = ''900'', lh_claimedCumulativeAmount = ''100'',
       su_covenantId = id64 (CHR ''c''), su_authorizingInput = JsInt 0\<rparr>,
     lt_terminalOutput = None, lt_acceptance = example_acceptance (CHR ''2'') (CHR ''d'')\<rparr>"

definition example_update :: chain_update where
  "example_update = \<lparr>cu_fromCheckpoint = example_checkpoint, cu_checkpoint = example_checkpoint,
     cu_continuity = ''complete'', cu_removedChainBlockHashes = [],
     cu_addedChainBlocks = [\<lparr>sb_blockHash = id64 (CHR ''d''), sb_genesisAcceptance = None,
       sb_transitions = [example_claim]\<rparr>]\<rparr>"

definition example_next :: lineage_state where
  "example_next = example_lineage\<lparr>ln_journal := [AcceptedEvent (JsInt 0) example_claim],
     ln_currentHead := tip_head example_claim\<rparr>"

lemmas example_records = example_genesis_def example_manifest_def example_lineage_def example_claim_def
  example_update_def example_next_def example_acceptance_def example_checkpoint_def id64_def

lemmas lineage_texts = lineage_json_def manifest_json_def identity_members_def genesis_json_def accepted_json_def
  checkpoint_json_def outpoint_json_def anchor_json_def anchor_members_def lineage_head_json_def
  lineage_head_members_def transition_json_def successor_json_def genesis_head_def tip_head_def Let_def
  update_json_def block_json_def

lemma example_number_lengths:
  "utf8ByteLength (json_number (JsInt 0)) = 1" "utf8ByteLength (json_number (JsInt 1)) = 1"
  "utf8ByteLength (json_number (JsInt 10)) = 2"
  by (simp_all add: json_number_def int_to_string_def nat_to_string.simps utf8ByteLength_Cons)

lemmas small_text = small_def KASPA_X402_RESOURCE_BUDGET_def object_limit_def string_limit_def array_limit_def
  is_finite_num_def ARTIFACT_FIELDS_def utf8ByteLength_le [THEN le_trans] example_number_lengths

lemma zero_sha_hex: "sha256Hex zero_sha bs = id64 (CHR ''0'')"
  by (simp add: sha256Hex_def zero_sha_def, code_simp)

lemma example_texts:
  "small (JObj (identity_members example_manifest))"
  "small (JObj (anchor_members (ln_anchor example_lineage)))"
  "small (anchor_json (ln_anchor example_lineage))"
  "small (event_json (AcceptedEvent (JsInt 0) example_claim))"
  by (simp_all add: example_records lineage_texts small_text)

lemma example_sizes:
  "size_bound (lineage_json example_lineage) \<le> 100000"
  "size_bound (lineage_json example_next) \<le> 100000"
  "size_bound (update_json example_update) \<le> 100000"
  by (simp_all add: example_records lineage_texts small_text)


lemma example_budget:
  assumes "size_bound (lineage_json s) \<le> 100000" "length (ln_journal s) \<le> 128"
  shows "assertLineageBudget s = Inr ()"
  using assms serializedBytes_le [OF assms(1)]
  by (simp add: assertLineageBudget_def MAX_LINEAGE_JOURNAL_EVENTS_def MAX_LINEAGE_STATE_BYTES_def)

lemma example_manifest_ok: "assertLaunchManifest zero_sha example_manifest = Inr ()"
proof -
  have "assertHash32 (id64 (CHR ''0'')) l False = Inr ()" "to_lower (id64 (CHR ''0'')) = id64 (CHR ''0'')"
    "is_commit_id (replicate 40 (CHR ''0''))" for l
    by (simp add: assertHash32_def, code_simp, code_simp, code_simp)
  moreover have "forE assert_selector [(''a'', JStr ''00'')] = Inr ()" by code_simp
  moreover have "assert_genesis example_genesis = Inr ()" by code_simp
  moreover have "\<not> blank ''c''" "\<not> blank ''s''" "\<not> blank ''t''" by code_simp+
  ultimately show ?thesis
    using stableStringify_of_small [OF example_texts(1)] zero_sha_hex
    by (simp add: assertLaunchManifest_def example_manifest_def object_entries_def isRecord_def)
qed

lemma example_anchor_ok: "assert_anchor zero_sha example_manifest (ln_anchor example_lineage) = Inr ()"
proof -
  have "is_bloom (an_relevantBlocksBloom (ln_anchor example_lineage))"
    "is_lower_hash32 (an_checkpointBlockHash (ln_anchor example_lineage))"
    "assert_anchor_tip example_manifest (ln_anchor example_lineage) = Inr ()" by code_simp+
  moreover have "makeLineageAnchor zero_sha (ln_anchor example_lineage) = Inr (ln_anchor example_lineage)"
    using stableStringify_of_small [OF example_texts(2)]
    by (simp add: makeLineageAnchor_def zero_sha_hex example_lineage_def)
  moreover have "an_compactedEvents (ln_anchor example_lineage) = JsInt 0"
    "an_manifestIdentitySha256 (ln_anchor example_lineage) = lm_identitySha256 example_manifest"
    by (simp_all add: example_lineage_def example_manifest_def)
  ultimately show ?thesis
    by (simp add: assert_anchor_def is_safe_integer_def in_range_def MAX_SAFE_INTEGER_def)
qed

lemma example_checked: "assertLineageState zero_sha example_lineage = Inr ()"
proof -
  have "derive_head example_manifest (ln_anchor example_lineage) [] = Inr (ln_currentHead example_lineage)"
    "sameLineageHead (ln_currentHead example_lineage) (ln_currentHead example_lineage)"
    "assertCheckpoint (ln_checkpoint example_lineage) = Inr ()" by code_simp+
  moreover have "canonicalGenesisAcceptance example_lineage \<noteq> None"
    by (simp add: canonicalGenesisAcceptance_def genesis_of_def example_lineage_def)
  ultimately show ?thesis
    using example_budget [OF example_sizes(1)] example_manifest_ok example_anchor_ok
    unfolding assertLineageState_Inr by (auto simp: example_lineage_def)
qed

lemma example_delta: "apply_delta zero_sha example_lineage example_update = Inr example_next"
proof -
  have "removal_loop zero_sha m a c g [] [] [] = Inr (Journaled [])" for m a c g by simp
  moreover have "add_blocks example_manifest (ln_anchor example_lineage) example_checkpoint [] [] []
      (cu_addedChainBlocks example_update) = Inr [AcceptedEvent (JsInt 0) example_claim]" by code_simp
  moreover have "derive_head example_manifest (ln_anchor example_lineage) [AcceptedEvent (JsInt 0) example_claim]
      = Inr (ln_currentHead example_next)" by code_simp
  moreover have "genesis_of example_manifest (ln_anchor example_lineage) [AcceptedEvent (JsInt 0) example_claim] \<noteq> None"
    by code_simp
  ultimately show ?thesis
    using example_budget [OF example_sizes(2)]
    by (simp add: apply_delta_def finish_update_def compactLineage_def deriveCanonicalLineage_def
        canonicalAcceptedEvents_def canonicalGenesisAcceptance_def) (simp add: example_next_def example_lineage_def example_update_def)
qed

lemma example_applied: "applyCovenantSelectedChainUpdate zero_sha example_lineage example_update = Inr example_next"
proof -
  have "assertCheckpoint example_checkpoint = Inr ()" "sameCheckpoint example_checkpoint example_checkpoint" by code_simp+
  moreover have "assert_update_budget example_lineage example_update = Inr ()"
    using serializedBytes_le [OF example_sizes(1)] serializedBytes_le [OF example_sizes(3)]
      example_budget [OF example_sizes(1)]
    by (simp add: assert_update_budget_def update_additions_def MAX_LINEAGE_REMOVED_BLOCKS_def
        MAX_LINEAGE_UPDATE_EVENTS_def MAX_LINEAGE_UPDATE_BYTES_def MAX_LINEAGE_STATE_BYTES_def MAX_LINEAGE_JOURNAL_EVENTS_def)
     (simp add: example_update_def example_lineage_def)
  ultimately show ?thesis
    using example_checked example_delta
    by (simp add: applyCovenantSelectedChainUpdate_def) (simp add: example_update_def example_lineage_def)
qed

section \<open>A limit of compaction\<close>

definition brief :: "string \<Rightarrow> string \<Rightarrow> string \<Rightarrow> string \<Rightarrow> string \<Rightarrow> lineage_transition" where
  \<comment> \<open>a claim: transaction, block, the transaction it spends, the value left and the amount claimed\<close>
  "brief tx block spent left taken = \<lparr>lt_kind = ''claim'', lt_covenantId = ''c'', lt_templateId = ''t'',
     lt_consumedOutpoint = \<lparr>op_txid = spent, op_index = JsInt 0\<rparr>, lt_transactionId = tx,
     lt_authorizedSuccessorCount = JsInt 1,
     lt_successor = Some \<lparr>lh_outpoint = \<lparr>op_txid = tx, op_index = JsInt 0\<rparr>, lh_scriptPublicKey = ''aa'',
       lh_value = left, lh_claimedCumulativeAmount = taken,
       su_covenantId = ''c'', su_authorizingInput = JsInt 0\<rparr>,
     lt_terminalOutput = None,
     lt_acceptance = (example_acceptance (CHR ''0'') (CHR ''0''))\<lparr>ae_transactionId := tx, ae_acceptingBlockHash := block\<rparr>\<rparr>"

definition reorganised :: "lineage_event list" where
  \<comment> \<open>two claims, both undone and accepted again in other blocks, a third claim accepted and undone
     31 times, and the second claim undone once more\<close>
  "reorganised = [AcceptedEvent (JsInt 0) (brief ''a1'' ''b1'' ''g'' ''90'' ''10''),
     AcceptedEvent (JsInt 1) (brief ''a2'' ''b2'' ''a1'' ''80'' ''20''),
     RemovedEvent (JsInt 2) ''b2'' [''a2''], RemovedEvent (JsInt 3) ''b1'' [''a1''],
     AcceptedEvent (JsInt 4) (brief ''a1'' ''b3'' ''g'' ''90'' ''10''),
     AcceptedEvent (JsInt 5) (brief ''a2'' ''b4'' ''a1'' ''80'' ''20'')]
     @ concat (replicate 31 [AcceptedEvent (JsInt 6) (brief ''a3'' ''b5'' ''a2'' ''70'' ''30''), RemovedEvent (JsInt 7) ''b5'' [''a3'']])
     @ [RemovedEvent (JsInt 68) ''b4'' [''a2'']]"

definition brief_head :: "string \<Rightarrow> string \<Rightarrow> string \<Rightarrow> lineage_head" where
  "brief_head tx v c = \<lparr>lh_outpoint = \<lparr>op_txid = tx, op_index = JsInt 0\<rparr>, lh_scriptPublicKey = ''aa'',
     lh_value = v, lh_claimedCumulativeAmount = c\<rparr>"

lemma reorganised_length: "length reorganised = 69" by code_simp
lemma reorganised_cutoff: "compact_cutoff reorganised = 1" by code_simp

lemma reorganised_canonical:
  "canonicalAcceptedEvents reorganised = Inr [brief ''a1'' ''b3'' ''g'' ''90'' ''10'']"
  "canonicalAcceptedEvents (drop 1 reorganised) = Inr [brief ''a1'' ''b3'' ''g'' ''90'' ''10'']"
  by code_simp+

lemma reorganised_derived:
  "derive_loop [] (Some (brief_head ''g'' ''100'' ''0'')) [brief ''a1'' ''b3'' ''g'' ''90'' ''10'']
     = Inr (Some (brief_head ''a1'' ''90'' ''10''))"
  "derive_loop [] (Some (brief_head ''a1'' ''90'' ''10'')) [brief ''a1'' ''b3'' ''g'' ''90'' ''10'']
     = Inl (JsError ''covenant lineage is missing a unique predecessor'')"
  by code_simp+

section \<open>Compaction of the concrete lineage\<close>

definition compacted_example :: "lineage_anchor \<Rightarrow> lineage_transition \<Rightarrow> lineage_head \<Rightarrow> lineage_anchor" where
  "compacted_example a t h = a\<lparr>an_compactedEvents := JsInt 1, an_head := Some h, an_tipTransition := Some t,
     an_relevantBlocksBloom := bloomAdd zero_sha (an_relevantBlocksBloom a) (ae_acceptingBlockHash (lt_acceptance t))\<rparr>"

lemma compact_one:
  assumes "a = (ln_anchor example_lineage)\<lparr>an_head := head\<rparr>"
    and "advance_head head t = Inr (Some h)"
    and "small (JObj [(''prior'', JStr (id64 (CHR ''0''))), (''events'', JArr [event_json (AcceptedEvent (JsInt 0) t)])])"
    and "small (JObj (anchor_members (compacted_example a t h)))"
  shows "compactedLineageAnchor zero_sha example_manifest a [AcceptedEvent (JsInt 0) t] (id64 (CHR ''a''))
     = Inr (compacted_example a t h)"
proof -
  have "derive_head example_manifest a [AcceptedEvent (JsInt 0) t] = Inr (Some h)"
    using assms(1,2)
    by (simp add: derive_head_def canonicalAcceptedEvents_def start_head_def genesis_of_def example_lineage_def)
  moreover have "canonicalAcceptedEvents [AcceptedEvent (JsInt 0) t] = Inr [t]"
    by (simp add: canonicalAcceptedEvents_def)
  moreover have "makeLineageAnchor zero_sha ((compacted_example a t h)\<lparr>an_snapshotHash := []\<rparr>) = Inr (compacted_example a t h)"
    using stableStringify_of_small [OF assms(4)] assms(1)
    by (simp add: makeLineageAnchor_def zero_sha_hex) (simp add: compacted_example_def example_lineage_def)
  moreover have "(compacted_example a t h)\<lparr>an_snapshotHash := []\<rparr> =
      \<lparr>an_compactedEvents = num_plus (an_compactedEvents a) 1, an_head = Some h,
        an_genesisAcceptance = genesis_of example_manifest a [AcceptedEvent (JsInt 0) t],
        an_tipTransition = Some t, an_manifestIdentitySha256 = lm_identitySha256 example_manifest,
        an_checkpointBlockHash = id64 (CHR ''a''), an_historyHash = id64 (CHR ''0''), an_snapshotHash = [],
        an_relevantBlocksBloom = add_events zero_sha (an_relevantBlocksBloom a) [AcceptedEvent (JsInt 0) t]\<rparr>"
    by (simp add: compacted_example_def assms(1) example_lineage_def genesis_of_def example_manifest_def)
  moreover have "an_historyHash a = id64 (CHR ''0'')" by (simp add: assms(1) example_lineage_def)
  ultimately show ?thesis
    using stableStringify_of_small [OF assms(3)]
    by (simp add: compactedLineageAnchor_def zero_sha_hex)
qed

lemma example_bloom_length: "length (bloomAdd zero_sha (replicate 512 (CHR ''0'')) block) = 512"
  using bloomAdd_contains(1) [of "replicate 512 (CHR ''0'')"] 
  by (simp add: is_bloom_def is_lower_hex_def code_def list_all_iff)

lemma example_compacted:
  "compactedLineageAnchor zero_sha example_manifest (ln_anchor example_lineage) [AcceptedEvent (JsInt 0) example_claim]
     (id64 (CHR ''a'')) = Inr (compacted_example (ln_anchor example_lineage) example_claim (the (tip_head example_claim)))"
proof (rule compact_one [where head = "an_head (ln_anchor example_lineage)"])
  show "advance_head (an_head (ln_anchor example_lineage)) example_claim = Inr (Some (the (tip_head example_claim)))"
    by code_simp
  show "small (JObj [(''prior'', JStr (id64 (CHR ''0''))), (''events'', JArr [event_json (AcceptedEvent (JsInt 0) example_claim)])])"
    by (simp add: example_records lineage_texts small_text)
  show "small (JObj (anchor_members (compacted_example (ln_anchor example_lineage) example_claim (the (tip_head example_claim)))))"
    by (simp add: compacted_example_def example_records lineage_texts small_text example_bloom_length)
qed simp


theorem compaction_keeps_head_witness:
  "derive_head example_manifest (compacted_example (ln_anchor example_lineage) example_claim (the (tip_head example_claim)))
      (resequenced []) = Inr (tip_head example_claim)
    \<and> genesis_of example_manifest (compacted_example (ln_anchor example_lineage) example_claim (the (tip_head example_claim)))
      (resequenced []) = genesis_of example_manifest (ln_anchor example_lineage) ([AcceptedEvent (JsInt 0) example_claim] @ [])"
proof (rule compaction_keeps_head [OF example_compacted, where older = "[example_claim]"])
  show "derive_head example_manifest (ln_anchor example_lineage) ([AcceptedEvent (JsInt 0) example_claim] @ [])
      = Inr (tip_head example_claim)" by code_simp
  show "canonicalAcceptedEvents [AcceptedEvent (JsInt 0) example_claim] = Inr [example_claim]"
    by (simp add: canonicalAcceptedEvents_def)
qed (simp_all add: genesis_of_def example_lineage_def)

section \<open>A limit of compaction\<close>

definition reorganised_state :: lineage_state where
  "reorganised_state = example_lineage\<lparr>ln_journal := reorganised, ln_checkpoint := example_checkpoint,
     ln_anchor := (ln_anchor example_lineage)\<lparr>an_head := Some (brief_head ''g'' ''100'' ''0'')\<rparr>\<rparr>"

lemma genesis_loop_kept:
  "genesis_loop tx (Some g) events = None \<Longrightarrow> tx \<in> set (concat (map removed_ids events))"
proof (induction events arbitrary: g)
  case (Cons e events)
  then show ?case by (cases e) (auto simp: list_ex_iff split: if_splits)
qed simp

lemma reorganised_genesis:
  "\<exists>y. genesis_loop (to_lower (replicate 64 (CHR ''1''))) (Some g) reorganised = Some y"
  "\<exists>y. genesis_loop (to_lower (replicate 64 (CHR ''1''))) (Some g) (drop 1 reorganised) = Some y"
proof -
  have "to_lower (replicate 64 (CHR ''1'')) \<notin> set (concat (map removed_ids reorganised))"
    "to_lower (replicate 64 (CHR ''1'')) \<notin> set (concat (map removed_ids (drop 1 reorganised)))"
    by code_simp+
  then show "\<exists>y. genesis_loop (to_lower (replicate 64 (CHR ''1''))) (Some g) reorganised = Some y"
    "\<exists>y. genesis_loop (to_lower (replicate 64 (CHR ''1''))) (Some g) (drop 1 reorganised) = Some y"
    by (meson genesis_loop_kept not_Some_eq)+
qed


lemma example_created: "createCovenantLineageState zero_sha example_manifest = Inr example_lineage"
proof -
  have size: "size_bound (manifest_json example_manifest) \<le> 100000"
    by (simp add: example_records lineage_texts small_text)
  have history: "small (JObj [(''genesis'', JStr (lm_identitySha256 example_manifest))])"
    by (simp add: example_records small_text)
  have anchor: "makeLineageAnchor zero_sha ((ln_anchor example_lineage)\<lparr>an_snapshotHash := []\<rparr>) = Inr (ln_anchor example_lineage)"
    using stableStringify_of_small [OF example_texts(2)]
    by (simp add: makeLineageAnchor_def zero_sha_hex) (simp add: example_lineage_def)
  have fields: "(ln_anchor example_lineage)\<lparr>an_snapshotHash := []\<rparr> =
      \<lparr>an_compactedEvents = JsInt 0, an_head = Some (genesis_head example_manifest),
       an_genesisAcceptance = Some (mg_acceptance (lm_genesis example_manifest)), an_tipTransition = None,
       an_manifestIdentitySha256 = lm_identitySha256 example_manifest,
       an_checkpointBlockHash = cp_blockHash (ae_checkpoint (mg_acceptance (lm_genesis example_manifest))),
       an_historyHash = id64 (CHR ''0''), an_snapshotHash = [],
       an_relevantBlocksBloom = replicate 512 (CHR ''0'')\<rparr>"
    by (simp add: example_lineage_def example_manifest_def example_genesis_def example_acceptance_def
        example_checkpoint_def id64_def)
  have state: "example_lineage = \<lparr>ln_manifest = example_manifest, ln_anchor = ln_anchor example_lineage, ln_journal = [],
      ln_currentHead = Some (genesis_head example_manifest),
      ln_checkpoint = ae_checkpoint (mg_acceptance (lm_genesis example_manifest)),
      ln_availability = ''available'', ln_unavailableReason = None\<rparr>"
    by (simp add: example_lineage_def example_manifest_def example_genesis_def example_acceptance_def)
  show ?thesis
    using serializedBytes_le [OF size] example_manifest_ok stableStringify_of_small [OF history]
      anchor [unfolded fields] example_budget [OF example_sizes(1)]
    by (simp add: createCovenantLineageState_def zero_sha_hex MAX_LINEAGE_STATE_BYTES_def Let_def state [symmetric])
      (simp add: example_lineage_def)
qed

lemma example_reached: "lineage_reachable zero_sha example_manifest example_next"
proof (rule lineage_reachable.updated [OF _ example_applied])
  show "lineage_reachable zero_sha example_manifest example_lineage"
    by (rule lineage_reachable.created [OF example_created]) code_simp
  have "is_lower_hash32 (cp_blockHash (cu_checkpoint example_update))" by code_simp
  then show "orderly example_lineage example_update example_next"
    using example_budget [OF example_sizes(2)]
    by (simp add: orderly_def) (simp add: example_update_def example_next_def example_lineage_def is_safe_integer_def MAX_SAFE_INTEGER_def)
qed

theorem reachable_lineage_sound_witness:
  "assertLineageState zero_sha example_next = Inr () \<and> genesis_settled example_next
     \<and> ln_manifest example_next = example_manifest \<and> backed example_manifest (ln_currentHead example_next)"
  by (rule reachable_lineage_sound [OF example_reached])



theorem lineage_conserves_value_witness:
  "\<exists>h ts. start_head example_manifest (ln_anchor example_lineage) (ln_journal example_next) = Some h
    \<and> canonicalAcceptedEvents (ln_journal example_next) = Inr ts
    \<and> head_claimed h \<le> head_claimed (brief_head (id64 (CHR ''2'')) ''900'' ''100'')"
proof -
  have "derive_head example_manifest (ln_anchor example_lineage) (ln_journal example_next)
      = Inr (Some (brief_head (id64 (CHR ''2'')) ''900'' ''100''))" by code_simp
  from lineage_conserves_value [OF this] show ?thesis by blast
qed

end
