(* ===== verification/Launch_Examples.thy ===== *)
theory Launch_Examples
  imports Server_Channel Chain_Examples
begin

text \<open>The texts of the example manifest that the channels of the server and of the client are compared with.\<close>

lemma same_text: "small v \<Longrightarrow> textDiffers v v = Inr False"
  by (simp add: textDiffers_def stableStringify_of_small)

lemma example_small:
  "small (compiler_json example_manifest)" "small (source_json example_manifest)" "small (bytecode_json example_manifest)"
  "small (lm_constructorSlots example_manifest)" "small (lm_abi example_manifest)" "small (lm_selectors example_manifest)"
  "small (accepted_json (mg_acceptance example_genesis))"
  by (simp_all add: compiler_json_def source_json_def bytecode_json_def example_records lineage_texts small_text)

definition example_evidence :: genesis_verification where
  "example_evidence = \<lparr>gv_covenantId = id64 (CHR ''c''), gv_authorizingInput = mg_authorizingInput example_genesis,
     gv_genesisOutpoint = mg_outpoint example_genesis, gv_genesisScriptPublicKey = ''aa'', gv_genesisAmount = ''1000'',
     gv_totalOutputCount = JsInt 1, gv_authorizedOutputCount = JsInt 1, gv_acceptance = mg_acceptance example_genesis\<rparr>"

end
