(* ===== verification/Channel_Examples.thy ===== *)
theory Channel_Examples
  imports Channel_History Launch_Examples
begin

text \<open>
  A concrete channel on the lineage of \<^verbatim>\<open>Chain_Examples\<close>, and the store calls on which the theorems
  about channels are applied.
\<close>

section \<open>A channel\<close>

definition example_escrow :: launch_identity where
  "example_escrow = \<lparr>li_compiler = compiler_json example_manifest, li_source = source_json example_manifest,
     li_bytecode = bytecode_json example_manifest, li_constructorSlots = lm_constructorSlots example_manifest,
     li_abi = lm_abi example_manifest, li_selectors = lm_selectors example_manifest,
     li_identitySha256 = lm_identitySha256 example_manifest\<rparr>"

definition example_config :: server_config where
  "example_config = \<lparr>cf_sha = zero_sha, cf_escrow = example_escrow, cf_env = example_env,
     cf_limits = \<lparr>lim_maxRecords = 10000, lim_maxBytes = 536870912, lim_maxRecordsPerPayer = 1000,
       lim_maxExactHeads = 256, lim_terminalRetentionMs = 86400000\<rparr>\<rparr>"

definition example_channel :: "string \<Rightarrow> string \<Rightarrow> server_channel" where
  \<comment> \<open>a channel on the genesis output with a channel id and a charged amount\<close>
  "example_channel i paid = \<lparr>fundingAmount = ''1000'', chargedCumulativeAmount = paid,
     claimedCumulativeAmount = ''0'', signedMaxClaimable = paid,
     sc_channelId = i, sc_covenantId = id64 (CHR ''c''), sc_version = ''0'',
     sc_genesisEvidence = example_evidence,
     sc_channelConfig = \<lparr>cc_network = ''kaspa:mainnet'', cc_asset = ''KAS'', cc_templateId = ''t'',
       cc_clientPublicKey = ''k'', cc_serverPublicKey = ''s'', cc_payTo = ''p'', cc_refundAddress = ''r'',
       cc_refundTimeoutDaa = ''1'', cc_salt = ''0''\<rparr>,
     sc_escrowAddress = ''e'', sc_activeOutpoint = mg_outpoint example_genesis, sc_activeScriptPublicKey = ''aa'',
     sc_voucherSignature = Absent, sc_lastCommitmentId = Absent, sc_lineage = example_lineage, sc_status = ChannelActive\<rparr>"

abbreviation "example_id \<equiv> id64 (CHR ''d'')"
abbreviation "paid_channel \<equiv> example_channel example_id ''100''"

lemma example_consistent:
  "assertServerChannelLineageConsistency zero_sha example_escrow (example_channel i paid) = Inr ()"
proof -
  have "canonicalCovenantTransitions zero_sha example_lineage = Inr []"
    by (simp add: canonicalCovenantTransitions_def example_checked) (simp add: example_lineage_def canonicalAcceptedEvents_def)
  moreover have "manifest_mismatch example_escrow (example_channel i paid) = Inr False"
    using example_small [THEN same_text]
    by (simp add: manifest_mismatch_def example_channel_def example_escrow_def example_lineage_def orE_def)
      (simp add: example_manifest_def example_genesis_def example_evidence_def sameOutpoint_def)
  ultimately show ?thesis
    by (simp add: assertServerChannelLineageConsistency_def)
      (simp add: example_channel_def example_lineage_def genesis_head_def example_manifest_def example_genesis_def)
qed


lemma example_wf: "wf_js (channel_json (example_channel i paid))"
  by (simp add: channel_json_def genesis_evidence_json_def channel_config_json_def example_channel_def example_evidence_def example_records
      lineage_texts wf_number_def)

section \<open>Store calls\<close>

definition example_lease :: "string \<Rightarrow> channel_lease" where
  "example_lease kind = \<lparr>cl_leaseId = id64 (CHR ''f''), cl_channelId = example_id, cl_covenantId = id64 (CHR ''c''),
     cl_kind = kind, cl_expected = Some paid_channel, cl_status = LeaseReserved,
     cl_createdAt = example_time, cl_updatedAt = example_time, cl_recoveryReason = Absent\<rparr>"

definition example_clock :: clock where
  "example_clock = \<lparr>nowIso = example_time, nowMs = 1767225600000\<rparr>"

definition leased_calls :: "string \<Rightarrow> (clock \<times> store_command) list" where
  \<comment> \<open>the channel is registered and leased to an operation\<close>
  "leased_calls kind = [(example_clock, RegisterChannel paid_channel),
     (example_clock, ClaimChannelOperation (example_lease kind))]"

definition leased_store :: "string \<Rightarrow> server_store" where
  "leased_store kind = empty_server\<lparr>sv_channelByCovenantId := [id64 (CHR ''c'') \<mapsto> example_id],
     sv_channels := [example_id \<mapsto> paid_channel], sv_operations := [example_id \<mapsto> example_lease kind],
     sv_channelByLeaseId := [id64 (CHR ''f'') \<mapsto> example_id]\<rparr>"

lemma example_ids: "is_lower_hash32 (id64 (CHR ''d''))" "is_lower_hash32 (id64 (CHR ''f''))" "isNonzeroLowerHash32 (id64 (CHR ''c''))"
  "to_lower (id64 (CHR ''d'')) = id64 (CHR ''d'')" "to_lower (id64 (CHR ''c'')) = id64 (CHR ''c'')"
  "to_lower (id64 (CHR ''D'')) = id64 (CHR ''d'')" "id64 (CHR ''D'') \<noteq> id64 (CHR ''d'')" "id64 (CHR ''d'') \<noteq> []"
  by code_simp+

lemma registered:
  assumes "sv_channels s (sc_channelId c) = None" "c = example_channel i paid" "to_lower i = example_id"
    and "sv_channelByCovenantId s (id64 (CHR ''c'')) \<in> {None, Some example_id}"
    and "\<And>d. sv_channels s example_id = Some d \<Longrightarrow> sc_covenantId d = id64 (CHR ''c'')"
  shows "registerChannel example_config c s
     = (s\<lparr>sv_channelByCovenantId := (sv_channelByCovenantId s)(id64 (CHR ''c'') \<mapsto> example_id),
          sv_channels := (sv_channels s)(example_id \<mapsto> c)\<rparr>, Inr ())"
proof -
  have "sc_channelId c = i" "sc_covenantId c = id64 (CHR ''c'')" using assms(2) by (simp_all add: example_channel_def)
  moreover have "cf_sha example_config = zero_sha" "cf_escrow example_config = example_escrow"
    by (simp_all add: example_config_def)
  ultimately show ?thesis using assms example_consistent [of i paid]
    by (auto simp: registerChannel_def bindS_def readS_def setChannel_def assertS_def assertChannelBinding_def
        ret_def failS_def writeS_def Let_def example_ids split: option.splits)
qed

lemma leased: "server_after example_config (leased_calls kind) = leased_store kind"
  if "kind \<in> {''claim'', ''retirement''}"
proof -
  let ?s = "empty_server\<lparr>sv_channelByCovenantId := [id64 (CHR ''c'') \<mapsto> example_id], sv_channels := [example_id \<mapsto> paid_channel]\<rparr>"
  have one: "registerChannel example_config paid_channel empty_server = (?s, Inr ())"
    by (subst registered [where i = example_id and paid = "''100''"])
      (simp_all add: empty_server_def example_ids example_channel_def)
  have "normalizeChannelOperationLease example_env (example_lease kind) = Inr (example_lease kind)"
    using that example_ids by (auto simp: normalizeChannelOperationLease_def example_lease_def example_channel_def assertIsoDate_def
        example_env_def)
  then have "claimChannelOperation example_config (example_lease kind) ?s = (leased_store kind, Inr (example_lease kind, True))"
    by (simp add: claimChannelOperation_def bindS_def readS_def assertS_def unlessS_def ret_def writeS_def
        example_config_def sameChannelSnapshot_def example_lease_def leased_store_def empty_server_def)
  then show ?thesis using one
    by (simp add: server_after_def leased_calls_def server_step_def doneS_def bindS_def ret_def)
qed

definition retire_call :: "clock \<times> store_command" where
  "retire_call = (example_clock, RetireChannel example_id (id64 (CHR ''f'')) paid_channel)"

definition retired_channel :: server_channel where
  "retired_channel = paid_channel\<lparr>sc_version := ''1'', sc_status := ChannelRetired\<rparr>"

lemma retired: "sv_channels (server_after example_config (leased_calls ''retirement'' @ [retire_call])) example_id = Some retired_channel"
proof -
  have "assertServerChannelLineageConsistency zero_sha example_escrow retired_channel = Inr ()"
    using example_consistent [of example_id "''100''"]
    by (auto simp: assertServerChannelLineageConsistency_def retired_channel_def manifest_mismatch_def run_simps
        split: option.splits if_splits) (auto simp: example_channel_def)
  moreover have "incrementVersion ''0'' = Inr ''1''" by code_simp
  moreover have "sc_status paid_channel = ChannelActive" "sc_version paid_channel = ''0''" "\<exists>h. ln_currentHead (sc_lineage paid_channel) = Some h"
    by (simp_all add: example_channel_def example_lineage_def)
  ultimately have "sv_channels (fst (retireChannel example_config example_id (id64 (CHR ''f'')) paid_channel (leased_store ''retirement''))) example_id
      = Some retired_channel"
    by (simp add: retireChannel_def bindS_def readS_def requireChannelOperation_def unlessS_def ret_def assertS_def writeS_def
        dropChannelOperation_def leased_store_def example_lease_def sameChannelSnapshot_def example_config_def retired_channel_def)
  then show ?thesis
    using leased [of "''retirement''"]
    by (simp add: server_after_def owners.run_append [of example_config] retire_call_def server_step_def)
qed




section \<open>A claim\<close>

definition claim_example_attempt :: claim_attempt where
  "claim_example_attempt = \<lparr>fundingAmount = ''1000'', chargedCumulativeAmount = ''100'', claimedCumulativeAmount = ''0'',
     signedMaxClaimable = ''100'', ca_attemptId = id64 (CHR ''9''), ca_channelId = example_id, ca_covenantId = id64 (CHR ''c''),
     ca_activeOutpoint = mg_outpoint example_genesis, ca_activeScriptPublicKey = ''aa'', ca_claimAmount = ''100'',
     ca_voucherSignature = Absent, ca_channelStatus = ChannelActive, ca_transaction = ''tx'', ca_transactionId = id64 (CHR ''2''),
     ca_requiredConfirmations = JsInt 10, ca_status = ClaimPending, ca_finality = Absent, ca_acceptance = Absent,
     ca_continuationOutpoint = Absent, ca_continuationScriptPublicKey = Absent, ca_continuationFundingAmount = Absent,
     ca_operationLeaseId = id64 (CHR ''f''), ca_expected = paid_channel\<rparr>"

definition claim_call :: "clock \<times> store_command" where
  "claim_call = (example_clock, SaveClaim claim_example_attempt)"

lemma claim_shape: "normalizeClaimAttempt claim_example_attempt None = Inr claim_example_attempt"
  by code_simp

lemma claim_saved:
  "sv_openClaim (server_after example_config (leased_calls ''claim'' @ [claim_call])) example_id = Some (id64 (CHR ''9''))"
proof -
  have c: "ca_attemptId claim_example_attempt = id64 (CHR ''9'')" "ca_channelId claim_example_attempt = example_id"
    "ca_operationLeaseId claim_example_attempt = id64 (CHR ''f'')" "ca_expected claim_example_attempt = paid_channel"
    by (simp_all add: claim_example_attempt_def)
  have "sv_openClaim (fst (saveClaimAttempt example_clock claim_example_attempt (leased_store ''claim''))) example_id = Some (id64 (CHR ''9''))"
    using claim_shape c
    by (simp add: saveClaimAttempt_def bindS_def readS_def requireChannelOperation_def updateChannelOperation_def unlessS_def ret_def
        assertS_def writeS_def leased_store_def example_lease_def sameChannelSnapshot_def empty_server_def)
  then show ?thesis
    using leased [of "''claim''"]
    by (simp add: server_after_def owners.run_append [of example_config] claim_call_def server_step_def)
qed

theorem channel_single_owner_witness:
  "owns_claim (server_after example_config (leased_calls ''claim'' @ [claim_call])) example_id (id64 (CHR ''9''))
   \<and> sv_openBatch (server_after example_config (leased_calls ''claim'' @ [claim_call])) example_id = None"
proof -
  have "list_all (\<lambda>c. claims_plain (snd c)) (leased_calls ''claim'' @ [claim_call])"
    using example_wf [of example_id "''100''"]
    by (simp add: leased_calls_def claim_call_def claims_plain_def claim_example_attempt_def)
  from channel_single_owner [OF this refl] claim_saved show ?thesis by blast
qed

definition broadcast_claim :: claim_attempt where
  "broadcast_claim = claim_example_attempt\<lparr>ca_status := ClaimBroadcast, ca_finality := Val ''broadcast''\<rparr>"

definition accepted_claim :: claim_attempt where
  "accepted_claim = claim_example_attempt\<lparr>ca_status := ClaimAccepted, ca_finality := Val ''confirmed'',
     ca_acceptance := Val (example_acceptance (CHR ''2'') (CHR ''d''))\<rparr>"

definition claim_stages :: "claim_attempt list" where
  \<comment> \<open>the claim is prepared, broadcast and confirmed\<close>
  "claim_stages = [claim_example_attempt, broadcast_claim, accepted_claim]"

definition claim_calls :: "(clock \<times> store_command) list" where
  "claim_calls = map (\<lambda>a. (example_clock, SaveClaim a)) claim_stages"

definition claimed_store :: "claim_attempt \<Rightarrow> server_store" where
  \<comment> \<open>the leased store with the claim at one of its stages\<close>
  "claimed_store a = (leased_store ''claim'')\<lparr>sv_claimAttempts := [id64 (CHR ''9'') \<mapsto> a],
     sv_openClaim := [example_id \<mapsto> id64 (CHR ''9'')], sv_operations := [example_id \<mapsto> (example_lease ''claim'')\<lparr>cl_status := LeasePending\<rparr>]\<rparr>"

lemma stage_fields: "a \<in> set claim_stages \<Longrightarrow> ca_attemptId a = id64 (CHR ''9'') \<and> ca_channelId a = example_id
    \<and> ca_operationLeaseId a = id64 (CHR ''f'') \<and> ca_expected a = paid_channel
    \<and> claim_artifact_members a = claim_artifact_members claim_example_attempt"
  by (auto simp: claim_stages_def broadcast_claim_def accepted_claim_def claim_example_attempt_def claim_artifact_members_def)

lemma save_run:
  assumes "normalizeClaimAttempt a (sv_claimAttempts s (ca_attemptId a)) = Inr a"
    "truthy_id (sv_openClaim s (ca_channelId a)) \<in> {None, Some (ca_attemptId a)}"
    "sv_operations s (ca_channelId a) = Some l" "cl_leaseId l = ca_operationLeaseId a"
    "cl_kind l = ''claim''" "sameChannelSnapshot (cl_expected l) (Some (ca_expected a))"
  shows "fst (saveClaimAttempt t a s) = s\<lparr>sv_claimAttempts := (sv_claimAttempts s)(ca_attemptId a \<mapsto> a),
     sv_openClaim := (sv_openClaim s)(ca_channelId a \<mapsto> ca_attemptId a),
     sv_operations := (sv_operations s)(ca_channelId a \<mapsto> l\<lparr>cl_status := LeasePending, cl_updatedAt := nowIso t,
       cl_recoveryReason := spread (cl_recoveryReason l) Absent\<rparr>)\<rparr>"
  using assms by (simp add: saveClaimAttempt_def bindS_def readS_def requireChannelOperation_def updateChannelOperation_def
      unlessS_def ret_def assertS_def writeS_def)

lemma save_stage:
  assumes a: "a \<in> set claim_stages" and norm: "normalizeClaimAttempt a found = Inr a"
    and s: "s = leased_store ''claim'' \<and> found = None \<or> s = claimed_store e \<and> found = Some e"
  shows "fst (saveClaimAttempt example_clock a s) = claimed_store a"
proof -
  note f = stage_fields [OF a]
  obtain l where l: "sv_operations s = [example_id \<mapsto> l]" "l = (example_lease ''claim'')\<lparr>cl_status := cl_status l\<rparr>"
    using s by (auto simp: claimed_store_def leased_store_def)
  have "sv_claimAttempts s (ca_attemptId a) = found"
    using s f by (auto simp: claimed_store_def leased_store_def empty_server_def)
  moreover have "truthy_id (sv_openClaim s (ca_channelId a)) \<in> {None, Some (ca_attemptId a)}"
    using s f by (auto simp: claimed_store_def leased_store_def empty_server_def id64_def)
  moreover have "cl_leaseId l = ca_operationLeaseId a" "cl_kind l = ''claim''" "cl_expected l = Some (ca_expected a)"
    by (subst l(2), simp add: example_lease_def f)+
  ultimately have "fst (saveClaimAttempt example_clock a s) = s\<lparr>sv_claimAttempts := (sv_claimAttempts s)(ca_attemptId a \<mapsto> a),
     sv_openClaim := (sv_openClaim s)(ca_channelId a \<mapsto> ca_attemptId a),
     sv_operations := (sv_operations s)(ca_channelId a \<mapsto> l\<lparr>cl_status := LeasePending, cl_updatedAt := nowIso example_clock,
       cl_recoveryReason := spread (cl_recoveryReason l) Absent\<rparr>)\<rparr>"
    using norm l(1) f by (intro save_run) (simp_all add: sameChannelSnapshot_def)
  moreover have "l\<lparr>cl_status := LeasePending, cl_updatedAt := nowIso example_clock,
       cl_recoveryReason := spread (cl_recoveryReason l) Absent\<rparr> = (example_lease ''claim'')\<lparr>cl_status := LeasePending\<rparr>"
    by (subst l(2), subst (2) l(2)) (simp add: example_lease_def example_clock_def)
  ultimately show ?thesis using s l(1) f by (auto simp: claimed_store_def leased_store_def empty_server_def)
qed

lemma stages_normal:
  "normalizeClaimAttempt claim_example_attempt None = Inr claim_example_attempt"
  "normalizeClaimAttempt broadcast_claim (Some claim_example_attempt) = Inr broadcast_claim"
  "normalizeClaimAttempt accepted_claim (Some broadcast_claim) = Inr accepted_claim"
proof -
  have shape: "assertClaimAttemptShape claim_example_attempt = Inr ()" "assertClaimAttemptShape broadcast_claim = Inr ()"
    "assertClaimAttemptShape accepted_claim = Inr ()" by code_simp+
  have mem: "claim_example_attempt \<in> set claim_stages" "broadcast_claim \<in> set claim_stages" "accepted_claim \<in> set claim_stages"
    by (simp_all add: claim_stages_def)
  have "claimAttemptArtifactsMatch claim_example_attempt broadcast_claim" "claimAttemptArtifactsMatch broadcast_claim accepted_claim"
    using mem [THEN stage_fields] by (simp_all add: claimAttemptArtifactsMatch_def)
  moreover have "ca_status claim_example_attempt = ClaimPending" "ca_status broadcast_claim = ClaimBroadcast"
    "ca_status accepted_claim = ClaimAccepted" by (simp_all add: broadcast_claim_def accepted_claim_def claim_example_attempt_def)
  ultimately show "normalizeClaimAttempt claim_example_attempt None = Inr claim_example_attempt"
    "normalizeClaimAttempt broadcast_claim (Some claim_example_attempt) = Inr broadcast_claim"
    "normalizeClaimAttempt accepted_claim (Some broadcast_claim) = Inr accepted_claim"
    using shape by (simp_all add: normalizeClaimAttempt_def)
qed

lemma claim_confirmed: "server_after example_config (leased_calls ''claim'' @ claim_calls) = claimed_store accepted_claim"
proof -
  have mem: "claim_example_attempt \<in> set claim_stages" "broadcast_claim \<in> set claim_stages" "accepted_claim \<in> set claim_stages"
    by (simp_all add: claim_stages_def)
  have "fst (saveClaimAttempt example_clock claim_example_attempt (leased_store ''claim'')) = claimed_store claim_example_attempt"
    "fst (saveClaimAttempt example_clock broadcast_claim (claimed_store claim_example_attempt)) = claimed_store broadcast_claim"
    "fst (saveClaimAttempt example_clock accepted_claim (claimed_store broadcast_claim)) = claimed_store accepted_claim"
    using save_stage [OF mem(1) stages_normal(1)] save_stage [OF mem(2) stages_normal(2)] save_stage [OF mem(3) stages_normal(3)]
    by blast+
  then show ?thesis using leased [of "''claim''"]
    by (simp add: server_after_def owners.run_append [of example_config] claim_calls_def claim_stages_def server_step_def)
qed

theorem applied_claims_confirmed_witness:
  "ca_status accepted_claim = ClaimAccepted \<and> (\<exists>e d. ca_acceptance accepted_claim = Val e
     \<and> decideChainEvidence (AcceptedEvidence e) (ca_requiredConfirmations accepted_claim) = Inr (DecidedConfirmed d))"
proof -
  have "list_all (\<lambda>c. claims_plain (snd c)) (leased_calls ''claim'' @ claim_calls)"
    using example_wf [of example_id "''100''"]
    by (simp add: leased_calls_def claim_calls_def claim_stages_def claims_plain_def broadcast_claim_def accepted_claim_def claim_example_attempt_def)
  moreover have "sv_claimAttempts (server_after example_config (leased_calls ''claim'' @ claim_calls)) (id64 (CHR ''9''))
      = Some accepted_claim" by (simp add: claim_confirmed claimed_store_def)
  moreover have s: "ca_status accepted_claim = ClaimAccepted" by (simp add: accepted_claim_def)
  ultimately show ?thesis using applied_claims_confirmed by blast
qed

section \<open>Registration under another spelling of the id\<close>

text \<open>C10: registering a channel looks its id up as given and stores it in lower case: a channel
  whose id is spelled with upper-case digits replaces the stored channel, although existing channel
  state cannot be replaced by registration; what had been charged is forgotten.\<close>

theorem register_replaces_channel:
  "let cs = [(example_clock, RegisterChannel paid_channel)];
       again = example_channel (id64 (CHR ''D'')) ''0'';
       s = server_after example_config cs; t = server_after example_config (cs @ [(example_clock, RegisterChannel again)])
   in sv_channels s example_id = Some paid_channel \<and> chargedCumulativeAmount paid_channel = ''100''
    \<and> sv_channels t example_id = Some again \<and> chargedCumulativeAmount again = ''0''
    \<and> snd (registerChannel example_config again s) = Inr ()"
proof -
  let ?a = "example_channel (id64 (CHR ''D'')) ''0''"
  let ?s = "empty_server\<lparr>sv_channelByCovenantId := [id64 (CHR ''c'') \<mapsto> example_id], sv_channels := [example_id \<mapsto> paid_channel]\<rparr>"
  have one: "registerChannel example_config paid_channel empty_server = (?s, Inr ())"
    by (subst registered [where i = example_id and paid = "''100''"])
      (simp_all add: empty_server_def example_ids example_channel_def)
  have two: "registerChannel example_config ?a ?s = (?s\<lparr>sv_channels := [example_id \<mapsto> ?a]\<rparr>, Inr ())"
    by (subst registered [where i = "id64 (CHR ''D'')" and paid = "''0''"])
      (auto simp: example_ids example_channel_def fun_eq_iff split: if_splits)
  show ?thesis using one two
    by (simp add: server_after_def server_step_def Let_def) (simp add: example_channel_def)
qed

end
