(* ===== verification/Channel_Locks.thy ===== *)
theory Channel_Locks
  imports X402_Prelude
begin

text \<open>
  The per-channel lock of \<^verbatim>\<open>server/src/stores.ts\<close> (\<open>MemoryChannelLockManager.runExclusive\<close>) and the
  operation lease of the client store, which refines it. Concurrent
  calls interleave at the points where the source awaits: a call enters by chaining its promise
  behind the tail of the channel, runs its function once the previous tail has settled, and releases
  its own promise when the function has ended; a tail settles, in a microtask of its own, after the
  tail before it and after its own release. Calls are numbered in the order in which they enter.
\<close>

section \<open>State and steps\<close>

datatype lock_phase = Waiting | Running | Released

record lock_call =
  lk_channel :: string
  lk_previous :: "nat option"
  lk_phase :: lock_phase
  lk_settled :: bool

record lock_state =
  lk_tails :: "string \<rightharpoonup> nat"
  lk_calls :: "lock_call list"

definition previous_settled :: "lock_state \<Rightarrow> lock_call \<Rightarrow> bool" where
  \<comment> \<open>a missing tail is a resolved promise\<close>
  "previous_settled s c = (case lk_previous c of None \<Rightarrow> True
     | Some p \<Rightarrow> p < length (lk_calls s) \<and> lk_settled (lk_calls s ! p))"

definition lock_enter :: "string \<Rightarrow> lock_state \<Rightarrow> lock_state" where
  \<comment> \<open>up to the first \<open>await\<close>\<close>
  "lock_enter ch s = s\<lparr>lk_tails := (lk_tails s)(ch \<mapsto> length (lk_calls s)),
     lk_calls := lk_calls s @ [\<lparr>lk_channel = ch, lk_previous = lk_tails s ch, lk_phase = Waiting, lk_settled = False\<rparr>]\<rparr>"

definition lock_start :: "nat \<Rightarrow> lock_state \<Rightarrow> lock_state option" where
  \<comment> \<open>the previous tail has settled: \<open>fn()\<close> is called\<close>
  "lock_start n s =
     (if n < length (lk_calls s) \<and> lk_phase (lk_calls s ! n) = Waiting \<and> previous_settled s (lk_calls s ! n)
      then Some (s\<lparr>lk_calls := (lk_calls s)[n := (lk_calls s ! n)\<lparr>lk_phase := Running\<rparr>]\<rparr>) else None)"

definition lock_finish :: "nat \<Rightarrow> lock_state \<Rightarrow> lock_state option" where
  \<comment> \<open>the \<open>finally\<close> block, whether \<open>fn\<close> returned or threw\<close>
  "lock_finish n s =
     (if n < length (lk_calls s) \<and> lk_phase (lk_calls s ! n) = Running
      then let c = lk_calls s ! n in
           Some (s\<lparr>lk_calls := (lk_calls s)[n := c\<lparr>lk_phase := Released\<rparr>],
                   lk_tails := (if lk_tails s (lk_channel c) = Some n then (lk_tails s)(lk_channel c := None) else lk_tails s)\<rparr>)
      else None)"

definition lock_settle :: "nat \<Rightarrow> lock_state \<Rightarrow> lock_state option" where
  \<comment> \<open>\<open>previous.catch(...).then(() => next)\<close> resolves\<close>
  "lock_settle n s =
     (if n < length (lk_calls s) \<and> lk_phase (lk_calls s ! n) = Released \<and> previous_settled s (lk_calls s ! n)
         \<and> \<not> lk_settled (lk_calls s ! n)
      then Some (s\<lparr>lk_calls := (lk_calls s)[n := (lk_calls s ! n)\<lparr>lk_settled := True\<rparr>]\<rparr>) else None)"

definition no_locks :: lock_state where
  "no_locks = \<lparr>lk_tails = Map.empty, lk_calls = []\<rparr>"

inductive lock_progress :: "lock_state \<Rightarrow> lock_state \<Rightarrow> bool" where
  start: "lock_start n s = Some s' \<Longrightarrow> lock_progress s s'"
| finish: "lock_finish n s = Some s' \<Longrightarrow> lock_progress s s'"
| settle: "lock_settle n s = Some s' \<Longrightarrow> lock_progress s s'"

inductive lock_step :: "lock_state \<Rightarrow> lock_state \<Rightarrow> bool" where
  enter: "lock_step s (lock_enter ch s)"
| inner: "lock_progress s s' \<Longrightarrow> lock_step s s'"

text \<open>
  The lease of the client store (\<open>withChannelOperationLease\<close> of \<^verbatim>\<open>client/src/channel-store.ts\<close>) keeps the
  promise of the last caller itself in the table and waits for it directly: the call enters and starts
  in the same way, and releasing it settles what its successor waits for at once.
\<close>

definition lease_finish :: "nat \<Rightarrow> lock_state \<Rightarrow> lock_state option" where
  "lease_finish n s =
     (if n < length (lk_calls s) \<and> lk_phase (lk_calls s ! n) = Running
      then let c = lk_calls s ! n in
           Some (s\<lparr>lk_tails := (if lk_tails s (lk_channel c) = Some n then (lk_tails s)(lk_channel c := None) else lk_tails s),
                   lk_calls := (lk_calls s)[n := c\<lparr>lk_phase := Released, lk_settled := True\<rparr>]\<rparr>)
      else None)"

inductive lease_reachable :: "lock_state \<Rightarrow> bool" where
  none: "lease_reachable no_locks"
| enter: "lease_reachable s \<Longrightarrow> lease_reachable (lock_enter ch s)"
| start: "lease_reachable s \<Longrightarrow> lock_start n s = Some s' \<Longrightarrow> lease_reachable s'"
| finish: "lease_reachable s \<Longrightarrow> lease_finish n s = Some s' \<Longrightarrow> lease_reachable s'"

inductive lock_reachable :: "lock_state \<Rightarrow> bool" where
  initial: "lock_reachable no_locks"
| step: "lock_reachable s \<Longrightarrow> lock_step s s' \<Longrightarrow> lock_reachable s'"

section \<open>The queue invariant\<close>

definition on_channel :: "lock_state \<Rightarrow> string \<Rightarrow> nat \<Rightarrow> bool" where
  "on_channel s ch n = (n < length (lk_calls s) \<and> lk_channel (lk_calls s ! n) = ch)"

definition live :: "lock_state \<Rightarrow> string \<Rightarrow> nat \<Rightarrow> bool" where
  \<comment> \<open>a call that has entered and not yet released\<close>
  "live s ch n = (on_channel s ch n \<and> lk_phase (lk_calls s ! n) \<noteq> Released)"

definition queue_ok :: "lock_state \<Rightarrow> bool" where
  "queue_ok s = (
     (\<forall>ch t. lk_tails s ch = Some t \<longrightarrow> live s ch t)
     \<and> (\<forall>ch n. live s ch n \<longrightarrow> (\<exists>t. lk_tails s ch = Some t \<and> n \<le> t))
     \<and> (\<forall>ch m n. live s ch m \<longrightarrow> on_channel s ch n \<longrightarrow> m < n \<longrightarrow> (\<exists>p. lk_previous (lk_calls s ! n) = Some p \<and> m \<le> p))
     \<and> (\<forall>ch n p. on_channel s ch n \<longrightarrow> lk_previous (lk_calls s ! n) = Some p \<longrightarrow> p < n \<and> on_channel s ch p)
     \<and> (\<forall>n < length (lk_calls s). lk_phase (lk_calls s ! n) \<noteq> Waiting \<longrightarrow> previous_settled s (lk_calls s ! n))
     \<and> (\<forall>n < length (lk_calls s). lk_settled (lk_calls s ! n) \<longrightarrow> lk_phase (lk_calls s ! n) = Released))"

lemma queue_okD:
  assumes "queue_ok s"
  shows "lk_tails s ch = Some t \<Longrightarrow> live s ch t"
    "live s ch n \<Longrightarrow> \<exists>t. lk_tails s ch = Some t \<and> n \<le> t"
    "live s ch m \<Longrightarrow> on_channel s ch n \<Longrightarrow> m < n \<Longrightarrow> \<exists>p. lk_previous (lk_calls s ! n) = Some p \<and> m \<le> p"
    "on_channel s ch n \<Longrightarrow> lk_previous (lk_calls s ! n) = Some p \<Longrightarrow> p < n \<and> on_channel s ch p"
    "n < length (lk_calls s) \<Longrightarrow> lk_phase (lk_calls s ! n) \<noteq> Waiting \<Longrightarrow> previous_settled s (lk_calls s ! n)"
    "n < length (lk_calls s) \<Longrightarrow> lk_settled (lk_calls s ! n) \<Longrightarrow> lk_phase (lk_calls s ! n) = Released"
  using assms unfolding queue_ok_def by blast+

lemma queue_okI:
  assumes "\<And>ch t. lk_tails s ch = Some t \<Longrightarrow> live s ch t"
    "\<And>ch n. live s ch n \<Longrightarrow> \<exists>t. lk_tails s ch = Some t \<and> n \<le> t"
    "\<And>ch m n. live s ch m \<Longrightarrow> on_channel s ch n \<Longrightarrow> m < n \<Longrightarrow> \<exists>p. lk_previous (lk_calls s ! n) = Some p \<and> m \<le> p"
    "\<And>ch n p. on_channel s ch n \<Longrightarrow> lk_previous (lk_calls s ! n) = Some p \<Longrightarrow> p < n \<and> on_channel s ch p"
    "\<And>n. n < length (lk_calls s) \<Longrightarrow> lk_phase (lk_calls s ! n) \<noteq> Waiting \<Longrightarrow> previous_settled s (lk_calls s ! n)"
    "\<And>n. n < length (lk_calls s) \<Longrightarrow> lk_settled (lk_calls s ! n) \<Longrightarrow> lk_phase (lk_calls s ! n) = Released"
  shows "queue_ok s"
  using assms unfolding queue_ok_def by blast

text \<open>A call whose previous tail has settled has no live call before it.\<close>

lemma started_first:
  assumes ok: "queue_ok s" and m: "live s ch m"
  shows "on_channel s ch n \<Longrightarrow> previous_settled s (lk_calls s ! n) \<Longrightarrow> n \<le> m"
proof (induction n rule: less_induct)
  case (less n)
  show ?case
  proof (rule ccontr)
    assume "\<not> n \<le> m"
    then obtain p where p: "lk_previous (lk_calls s ! n) = Some p" "m \<le> p"
      using queue_okD(3) [OF ok m less.prems(1)] by auto
    have pn: "p < n" "on_channel s ch p" using queue_okD(4) [OF ok less.prems(1) p(1)] by simp_all
    have len: "p < length (lk_calls s)" and "lk_settled (lk_calls s ! p)"
      using less.prems(2) p(1) by (simp_all add: previous_settled_def)
    then have released: "lk_phase (lk_calls s ! p) = Released" by (rule queue_okD(6) [OF ok])
    then have "previous_settled s (lk_calls s ! p)" using queue_okD(5) [OF ok len] by simp
    then have "p \<le> m" by (rule less.IH [OF pn])
    then show False using p(2) released m by (simp add: live_def)
  qed
qed

lemma begun_first:
  assumes "queue_ok s" "on_channel s ch n" "lk_phase (lk_calls s ! n) \<noteq> Waiting" "live s ch m"
  shows "n \<le> m"
proof -
  have "previous_settled s (lk_calls s ! n)"
    using queue_okD(5) [OF assms(1)] assms(2,3) by (simp add: on_channel_def)
  then show ?thesis by (rule started_first [OF assms(1,4,2)])
qed

section \<open>Every step keeps the invariant\<close>

lemma queue_ok_initial: "queue_ok no_locks"
  by (rule queue_okI) (simp_all add: no_locks_def live_def on_channel_def)

lemma on_channel_enter:
  "on_channel (lock_enter c s) ch n \<longleftrightarrow> on_channel s ch n \<or> n = length (lk_calls s) \<and> ch = c"
  by (auto simp: on_channel_def lock_enter_def nth_append less_Suc_eq)

lemma live_enter:
  "live (lock_enter c s) ch n \<longleftrightarrow> live s ch n \<or> n = length (lk_calls s) \<and> ch = c"
  by (auto simp: live_def on_channel_def lock_enter_def nth_append less_Suc_eq)

lemma enter_tails: "lk_tails (lock_enter c s) = (lk_tails s)(c \<mapsto> length (lk_calls s))"
  by (simp add: lock_enter_def)

lemma enter_old: "n < length (lk_calls s) \<Longrightarrow> lk_calls (lock_enter c s) ! n = lk_calls s ! n"
  by (simp add: lock_enter_def nth_append)

lemma enter_new:
  "lk_calls (lock_enter c s) ! length (lk_calls s) =
     \<lparr>lk_channel = c, lk_previous = lk_tails s c, lk_phase = Waiting, lk_settled = False\<rparr>"
  by (simp add: lock_enter_def)

lemma enter_length: "length (lk_calls (lock_enter c s)) = Suc (length (lk_calls s))"
  by (simp add: lock_enter_def)

lemma on_channel_bound: "on_channel s ch n \<Longrightarrow> n < length (lk_calls s)"
  by (simp add: on_channel_def)

lemma live_bound: "live s ch n \<Longrightarrow> n < length (lk_calls s)"
  by (simp add: live_def on_channel_def)

lemma queue_ok_enter:
  assumes ok: "queue_ok s"
  shows "queue_ok (lock_enter c s)"
proof (rule queue_okI)
  fix ch t
  assume "lk_tails (lock_enter c s) ch = Some t"
  then show "live (lock_enter c s) ch t"
    using queue_okD(1) [OF ok, of ch t]
    by (auto simp: live_enter enter_tails split: if_splits)
next
  fix ch n
  assume "live (lock_enter c s) ch n"
  then show "\<exists>t. lk_tails (lock_enter c s) ch = Some t \<and> n \<le> t"
    using queue_okD(2) [OF ok, of ch n] live_bound [of s ch n]
    by (auto simp: live_enter enter_tails)
next
  fix ch m n
  assume m: "live (lock_enter c s) ch m" and n: "on_channel (lock_enter c s) ch n" and "m < n"
  show "\<exists>p. lk_previous (lk_calls (lock_enter c s) ! n) = Some p \<and> m \<le> p"
  proof (cases "n = length (lk_calls s)")
    case True
    then have "ch = c" "live s c m" using m n \<open>m < n\<close> by (auto simp: live_enter on_channel_enter dest: on_channel_bound)
    then obtain t where "lk_tails s c = Some t" "m \<le> t" using queue_okD(2) [OF ok] by blast
    then show ?thesis using True by (simp add: enter_new)
  next
    case False
    then have old: "on_channel s ch n" using n by (simp add: on_channel_enter)
    then have "n < length (lk_calls s)" by (simp add: on_channel_def)
    moreover from this have "live s ch m" using m \<open>m < n\<close> by (auto simp: live_enter)
    ultimately show ?thesis using queue_okD(3) [OF ok _ old \<open>m < n\<close>] by (simp add: enter_old)
  qed
next
  fix ch n p
  assume n: "on_channel (lock_enter c s) ch n" and p: "lk_previous (lk_calls (lock_enter c s) ! n) = Some p"
  show "p < n \<and> on_channel (lock_enter c s) ch p"
  proof (cases "n = length (lk_calls s)")
    case True
    then have "ch = c" "lk_tails s c = Some p"
      using n p by (auto simp: on_channel_enter enter_new on_channel_def)
    then show ?thesis using queue_okD(1) [OF ok, of c p] True
      by (simp add: on_channel_enter live_def) (simp add: on_channel_def)
  next
    case False
    then have "on_channel s ch n" using n by (simp add: on_channel_enter)
    moreover from this have "lk_previous (lk_calls s ! n) = Some p"
      using p by (simp add: enter_old on_channel_def)
    ultimately show ?thesis using queue_okD(4) [OF ok] by (simp add: on_channel_enter)
  qed
next
  fix n
  assume "n < length (lk_calls (lock_enter c s))" and ph: "lk_phase (lk_calls (lock_enter c s) ! n) \<noteq> Waiting"
  then have n: "n < length (lk_calls s)" by (auto simp: enter_length less_Suc_eq enter_new)
  then show "previous_settled (lock_enter c s) (lk_calls (lock_enter c s) ! n)"
    using queue_okD(5) [OF ok n] ph
    by (auto simp: previous_settled_def enter_old enter_length split: option.splits)
next
  fix n
  assume "n < length (lk_calls (lock_enter c s))" "lk_settled (lk_calls (lock_enter c s) ! n)"
  then show "lk_phase (lk_calls (lock_enter c s) ! n) = Released"
    using queue_okD(6) [OF ok, of n] by (auto simp: enter_length less_Suc_eq enter_new enter_old)
qed

text \<open>
  The other three steps rewrite one call in place and keep its channel and predecessor. What they
  leave of the invariant is settled by which calls are live afterwards.
\<close>

definition one_call_changed :: "nat \<Rightarrow> lock_state \<Rightarrow> lock_state \<Rightarrow> bool" where
  "one_call_changed n s s' =
     (length (lk_calls s') = length (lk_calls s)
      \<and> (\<forall>k. k \<noteq> n \<longrightarrow> lk_calls s' ! k = lk_calls s ! k)
      \<and> lk_channel (lk_calls s' ! n) = lk_channel (lk_calls s ! n)
      \<and> lk_previous (lk_calls s' ! n) = lk_previous (lk_calls s ! n)
      \<and> (lk_settled (lk_calls s ! n) \<longrightarrow> lk_settled (lk_calls s' ! n)))"

lemma changed_facts:
  assumes "one_call_changed n s s'"
  shows "length (lk_calls s') = length (lk_calls s)"
    "lk_channel (lk_calls s' ! k) = lk_channel (lk_calls s ! k)"
    "lk_previous (lk_calls s' ! k) = lk_previous (lk_calls s ! k)"
    "lk_settled (lk_calls s ! k) \<Longrightarrow> lk_settled (lk_calls s' ! k)"
    "on_channel s' ch k = on_channel s ch k"
    "k \<noteq> n \<Longrightarrow> lk_calls s' ! k = lk_calls s ! k"
  using assms unfolding one_call_changed_def on_channel_def by (cases "k = n"; simp)+

lemma changed_previous_settled:
  assumes "one_call_changed n s s'" "previous_settled s (lk_calls s ! k)"
  shows "previous_settled s' (lk_calls s' ! k)"
  using assms(2) changed_facts(1,3,4) [OF assms(1)]
  by (simp add: previous_settled_def split: option.splits)

lemma queue_ok_same_live:
  assumes ok: "queue_ok s" and ch: "one_call_changed n s s'"
    and same: "\<And>c k. live s' c k = live s c k" and tails: "lk_tails s' = lk_tails s"
    and phase: "lk_phase (lk_calls s' ! n) \<noteq> Waiting \<Longrightarrow> previous_settled s (lk_calls s ! n)"
    and settled: "lk_settled (lk_calls s' ! n) \<Longrightarrow> lk_phase (lk_calls s' ! n) = Released"
  shows "queue_ok s'"
proof (rule queue_okI)
  fix k
  assume k: "k < length (lk_calls s')"
  note facts = changed_facts [OF ch]
  show "previous_settled s' (lk_calls s' ! k)" if "lk_phase (lk_calls s' ! k) \<noteq> Waiting"
    using that k phase queue_okD(5) [OF ok, of k] changed_previous_settled [OF ch, of k]
    by (cases "k = n") (simp_all add: facts(1,6))
  show "lk_phase (lk_calls s' ! k) = Released" if "lk_settled (lk_calls s' ! k)"
    using that k settled queue_okD(6) [OF ok, of k] by (cases "k = n") (simp_all add: facts(1,6))
qed (use queue_okD(1-4) [OF ok] same tails changed_facts(3,5) [OF ch] in \<open>simp_all\<close>)

lemma queue_ok_start:
  assumes ok: "queue_ok s" and st: "lock_start n s = Some s'"
  shows "queue_ok s'"
proof -
  have n: "n < length (lk_calls s)" "lk_phase (lk_calls s ! n) = Waiting" "previous_settled s (lk_calls s ! n)"
    and s': "lk_calls s' = (lk_calls s)[n := (lk_calls s ! n)\<lparr>lk_phase := Running\<rparr>]" "lk_tails s' = lk_tails s"
    using st by (auto simp: lock_start_def split: if_splits)
  have ch: "one_call_changed n s s'" using n(1) by (simp add: one_call_changed_def s')
  show ?thesis
  proof (rule queue_ok_same_live [OF ok ch])
    show "live s' c k = live s c k" for c k
      using n by (cases "k = n") (simp_all add: live_def changed_facts(5) [OF ch] s')
    show "lk_settled (lk_calls s' ! n) \<Longrightarrow> lk_phase (lk_calls s' ! n) = Released"
      using n queue_okD(6) [OF ok n(1)] by (simp add: s')
  qed (use n in \<open>simp_all add: s'\<close>)
qed

lemma queue_ok_settle:
  assumes ok: "queue_ok s" and st: "lock_settle n s = Some s'"
  shows "queue_ok s'"
proof -
  have n: "n < length (lk_calls s)" "lk_phase (lk_calls s ! n) = Released" "previous_settled s (lk_calls s ! n)"
    and s': "lk_calls s' = (lk_calls s)[n := (lk_calls s ! n)\<lparr>lk_settled := True\<rparr>]" "lk_tails s' = lk_tails s"
    using st by (auto simp: lock_settle_def split: if_splits)
  have ch: "one_call_changed n s s'" using n(1) by (simp add: one_call_changed_def s')
  show ?thesis
  proof (rule queue_ok_same_live [OF ok ch])
    show "live s' c k = live s c k" for c k
      using n by (cases "k = n") (simp_all add: live_def changed_facts(5) [OF ch] s')
  qed (use n in \<open>simp_all add: s'\<close>)
qed

lemma queue_ok_finish:
  assumes ok: "queue_ok s" and st: "lock_finish n s = Some s'"
  shows "queue_ok s'"
proof -
  define c where "c = lk_channel (lk_calls s ! n)"
  have n: "n < length (lk_calls s)" "lk_phase (lk_calls s ! n) = Running"
    and calls: "lk_calls s' = (lk_calls s)[n := (lk_calls s ! n)\<lparr>lk_phase := Released\<rparr>]"
    and tails: "lk_tails s' = (if lk_tails s c = Some n then (lk_tails s)(c := None) else lk_tails s)"
    using st by (auto simp: lock_finish_def Let_def c_def split: if_splits)
  have ch: "one_call_changed n s s'" using n(1) by (simp add: one_call_changed_def calls)
  note facts = changed_facts [OF ch]
  have on: "on_channel s c n" using n(1) by (simp add: on_channel_def c_def)
  have first: "n \<le> m" if "live s c m" for m by (rule begun_first [OF ok on _ that]) (simp add: n)
  have live': "live s' d k \<longleftrightarrow> live s d k \<and> k \<noteq> n" for d k
    using n by (cases "k = n") (simp_all add: live_def facts(5) calls)
  have own: "d = c" if "live s d n" for d using that by (simp add: live_def on_channel_def c_def)
  show ?thesis
  proof (rule queue_okI)
    fix d t
    assume "lk_tails s' d = Some t"
    then have t: "lk_tails s d = Some t" and "d = c \<longrightarrow> t \<noteq> n" by (auto simp: tails split: if_splits)
    then show "live s' d t" using queue_okD(1) [OF ok t] own live' by blast
  next
    fix d k
    assume "live s' d k"
    then have k: "live s d k" "k \<noteq> n" by (simp_all add: live')
    obtain t where t: "lk_tails s d = Some t" "k \<le> t" using queue_okD(2) [OF ok k(1)] by blast
    have "\<not> (d = c \<and> t = n)" using first k t(2) by fastforce
    then show "\<exists>t. lk_tails s' d = Some t \<and> k \<le> t" using t by (auto simp: tails)
  next
    fix d m k
    assume "live s' d m" "on_channel s' d k" "m < k"
    then show "\<exists>p. lk_previous (lk_calls s' ! k) = Some p \<and> m \<le> p"
      using queue_okD(3) [OF ok, of d m k] by (simp add: live' facts(3,5))
  next
    fix k
    assume k: "k < length (lk_calls s')"
    show "previous_settled s' (lk_calls s' ! k)" if "lk_phase (lk_calls s' ! k) \<noteq> Waiting"
      using that k n queue_okD(5) [OF ok, of k] changed_previous_settled [OF ch, of k]
      by (cases "k = n") (simp_all add: facts(1,6))
    show "lk_phase (lk_calls s' ! k) = Released" if "lk_settled (lk_calls s' ! k)"
      using that k n queue_okD(6) [OF ok, of k] by (cases "k = n") (simp_all add: facts(1,6) calls)
  qed (use queue_okD(4) [OF ok] facts(3,5) in \<open>simp_all\<close>)
qed

lemma queue_ok_progress: "queue_ok s \<Longrightarrow> lock_progress s s' \<Longrightarrow> queue_ok s'"
  by (auto elim!: lock_progress.cases intro: queue_ok_start queue_ok_finish queue_ok_settle)

lemma reachable_queue_ok: "lock_reachable s \<Longrightarrow> queue_ok s"
proof (induction rule: lock_reachable.induct)
  case initial
  show ?case by (rule queue_ok_initial)
next
  case (step s s')
  from step.hyps(2) step.IH show ?case
    by (auto elim!: lock_step.cases intro: queue_ok_enter queue_ok_progress)
qed

section \<open>Progress\<close>

definition pending_work :: "lock_call \<Rightarrow> nat" where
  "pending_work c = (if lk_settled c then 0 else case lk_phase c of Waiting \<Rightarrow> 3 | Running \<Rightarrow> 2 | Released \<Rightarrow> 1)"

definition total_work :: "lock_state \<Rightarrow> nat" where
  "total_work s = sum_list (map pending_work (lk_calls s))"

lemma total_work_bound: "total_work s \<le> 3 * length (lk_calls s)"
proof -
  have "pending_work c \<le> 3" for c by (simp add: pending_work_def split: lock_phase.splits)
  then have "sum_list (map pending_work cs) \<le> 3 * length cs" for cs
    by (induction cs) (simp_all add: add_mono)
  then show ?thesis by (simp add: total_work_def)
qed

lemma progress_work:
  assumes ok: "queue_ok s" and st: "lock_progress s s'"
  shows "Suc (total_work s') = total_work s" "length (lk_calls s') = length (lk_calls s)"
proof -
  obtain n c where n: "n < length (lk_calls s)" and calls: "lk_calls s' = (lk_calls s)[n := c]"
    and work: "Suc (pending_work c) = pending_work (lk_calls s ! n)"
    using st queue_okD(6) [OF ok]
    by cases (fastforce simp: lock_start_def lock_finish_def lock_settle_def Let_def pending_work_def split: if_splits)+
  show "length (lk_calls s') = length (lk_calls s)" by (simp add: calls)
  have split: "sum_list (map pending_work xs) = sum_list (map pending_work (take n xs)) + pending_work (xs ! n) + sum_list (map pending_work (drop (Suc n) xs))"
    if "n < length xs" for xs
    by (subst id_take_nth_drop [OF that]) simp
  show "Suc (total_work s') = total_work s"
    using split [OF n] split [of "lk_calls s'"] n work by (simp add: total_work_def calls)
qed

lemma progress_runs:
  assumes "(lock_progress ^^ k) s s'" "queue_ok s"
  shows "queue_ok s' \<and> k + total_work s' = total_work s \<and> length (lk_calls s') = length (lk_calls s)"
  using assms(1)
proof (induction k arbitrary: s')
  case 0
  then show ?case using assms(2) by simp
next
  case (Suc k)
  then obtain t where t: "(lock_progress ^^ k) s t" "lock_progress t s'" by auto
  with Suc.IH have "queue_ok t" "k + total_work t = total_work s" "length (lk_calls t) = length (lk_calls s)"
    by blast+
  then show ?case using progress_work [OF _ t(2)] queue_ok_progress [OF _ t(2)] by simp
qed

text \<open>While a call of the queue has not released, or a released tail has not settled, some step is enabled.\<close>

lemma unsettled_progress:
  assumes ok: "queue_ok s" and n: "n < length (lk_calls s)" "lk_phase (lk_calls s ! n) \<noteq> Waiting" "\<not> lk_settled (lk_calls s ! n)"
  shows "\<exists>s'. lock_progress s s'"
proof (cases "lk_phase (lk_calls s ! n)")
  case Running
  then have "lock_finish n s \<noteq> None" using n by (simp add: lock_finish_def Let_def)
  then show ?thesis by (auto intro: lock_progress.finish)
next
  case Released
  then have "lock_settle n s \<noteq> None" using n queue_okD(5) [OF ok n(1,2)] by (simp add: lock_settle_def)
  then show ?thesis by (auto intro: lock_progress.settle)
qed (use n in simp)

lemma unfinished_progress:
  assumes ok: "queue_ok s" and n: "n < length (lk_calls s)" "\<not> lk_settled (lk_calls s ! n)"
  shows "\<exists>s'. lock_progress s s'"
  using n
proof (induction n rule: less_induct)
  case (less n)
  show ?case
  proof (cases "lk_phase (lk_calls s ! n) = Waiting \<and> previous_settled s (lk_calls s ! n)")
    case True
    then have "lock_start n s \<noteq> None" using less.prems by (simp add: lock_start_def)
    then show ?thesis by (auto intro: lock_progress.start)
  next
    case False
    show ?thesis
    proof (cases "lk_phase (lk_calls s ! n) = Waiting")
      case True
      with False obtain p where p: "lk_previous (lk_calls s ! n) = Some p" "\<not> (p < length (lk_calls s) \<and> lk_settled (lk_calls s ! p))"
        by (auto simp: previous_settled_def split: option.splits)
      have "p < n \<and> on_channel s (lk_channel (lk_calls s ! n)) p"
        using queue_okD(4) [OF ok _ p(1)] less.prems by (simp add: on_channel_def)
      then show ?thesis using less.IH [of p] p(2) less.prems by (auto simp: on_channel_def)
    qed (use unsettled_progress [OF ok] less.prems in blast)
  qed
qed

lemma settled_tails:
  assumes "queue_ok s" "\<forall>c \<in> set (lk_calls s). lk_phase c = Released"
  shows "lk_tails s = Map.empty"
proof
  fix ch
  show "lk_tails s ch = None"
  proof (cases "lk_tails s ch")
    case (Some t)
    then have "live s ch t" by (rule queue_okD(1) [OF assms(1)])
    then show ?thesis using assms(2) by (auto simp: live_def on_channel_def)
  qed
qed

section \<open>Mutual exclusion and service\<close>

text \<open>C16. While a call of \<open>runExclusive\<close> runs on a channel, every earlier call on that channel has
  released and every later one is still waiting: calls on one channel never overlap and run in the
  order in which they entered.\<close>

theorem lock_mutual_exclusion:
  assumes "lock_reachable s" "lk_phase (lk_calls s ! n) = Running"
    "n < length (lk_calls s)" "m < length (lk_calls s)" "m \<noteq> n"
    "lk_channel (lk_calls s ! m) = lk_channel (lk_calls s ! n)"
  shows "lk_phase (lk_calls s ! m) = (if m < n then Released else Waiting)"
proof -
  note ok = reachable_queue_ok [OF assms(1)]
  let ?c = "lk_channel (lk_calls s ! n)"
  have on: "on_channel s ?c n" "on_channel s ?c m" using assms(3,4,6) by (simp_all add: on_channel_def)
  have n: "live s ?c n" using on(1) assms(2) by (simp add: live_def)
  show ?thesis
  proof (cases "m < n")
    case True
    then have "\<not> live s ?c m" using begun_first [OF ok on(1), of m] assms(2) by auto
    then show ?thesis using True on(2) by (simp add: live_def)
  next
    case False
    then show ?thesis using begun_first [OF ok on(2) _ n] assms(5) by auto
  qed
qed

text \<open>The lease is an instance: its release is the release and the settling of the lock in one step.\<close>

lemma lease_finish_steps:
  assumes ok: "queue_ok s" and fin: "lease_finish n s = Some s'"
  shows "\<exists>m. lock_finish n s = Some m \<and> lock_settle n m = Some s'"
proof -
  have n: "n < length (lk_calls s)" "lk_phase (lk_calls s ! n) = Running" using fin by (auto simp: lease_finish_def split: if_splits)
  obtain m where m: "lock_finish n s = Some m" using n by (simp add: lock_finish_def Let_def)
  have ch: "one_call_changed n s m" using m n by (auto simp: lock_finish_def Let_def one_call_changed_def)
  have "previous_settled s (lk_calls s ! n)" using queue_okD(5) [OF ok n(1)] n(2) by simp
  then have "previous_settled m (lk_calls m ! n)" by (rule changed_previous_settled [OF ch])
  moreover have "\<not> lk_settled (lk_calls s ! n)" using queue_okD(6) [OF ok n(1)] n(2) by auto
  ultimately have "lock_settle n m = Some s'"
    using m fin n by (auto simp: lock_finish_def lease_finish_def lock_settle_def Let_def)
  then show ?thesis using m by blast
qed

lemma lease_lock: "lease_reachable s \<Longrightarrow> lock_reachable s"
proof (induction rule: lease_reachable.induct)
  case (finish s n s')
  obtain m where "lock_finish n s = Some m" "lock_settle n m = Some s'"
    using lease_finish_steps [OF reachable_queue_ok [OF finish.IH] finish.hyps(2)] by blast
  then show ?case using finish.IH by (meson lock_progress.intros lock_reachable.step lock_step.inner)
qed (auto intro: lock_reachable.intros lock_step.intros lock_progress.intros)

text \<open>C18. The operation lease of the client store refines the lock: every state it reaches is a state of
  the lock, so while an operation runs on a channel every earlier one has ended and every later one
  waits.\<close>

theorem lease_refines_lock:
  assumes "lease_reachable s"
  shows "lock_reachable s \<and> (\<forall>n < length (lk_calls s). \<forall>m < length (lk_calls s). m < n \<longrightarrow>
    lk_channel (lk_calls s ! m) = lk_channel (lk_calls s ! n) \<longrightarrow> lk_phase (lk_calls s ! n) = Running \<longrightarrow>
    lk_phase (lk_calls s ! m) = Released)"
proof -
  note lock = lease_lock [OF assms]
  have "lk_phase (lk_calls s ! m) = Released"
    if "n < length (lk_calls s)" "m < n" "lk_channel (lk_calls s ! m) = lk_channel (lk_calls s ! n)"
      "lk_phase (lk_calls s ! n) = Running" for n m
    using begun_first [OF reachable_queue_ok [OF lock], of "lk_channel (lk_calls s ! n)" n m] that
    by (auto simp: live_def on_channel_def)
  then show ?thesis using lock by blast
qed

text \<open>C17. Every entered call is served: in a reachable state at most three steps per call can happen
  before the next call enters, and when no further step is possible every call has run, released and
  settled and the table of tails is empty, so the manager keeps no state for idle channels.\<close>

theorem lock_calls_served:
  assumes "lock_reachable s" "(lock_progress ^^ k) s s'"
  shows "k \<le> 3 * length (lk_calls s)
    \<and> ((\<nexists>s''. lock_progress s' s'') \<longrightarrow>
      (\<forall>c \<in> set (lk_calls s'). lk_phase c = Released \<and> lk_settled c) \<and> lk_tails s' = Map.empty)"
proof (intro conjI impI)
  note run = progress_runs [OF assms(2) reachable_queue_ok [OF assms(1)]]
  show "k \<le> 3 * length (lk_calls s)" using run total_work_bound [of s] by simp
  assume none: "\<nexists>s''. lock_progress s' s''"
  have "lk_settled c \<and> lk_phase c = Released" if mem: "c \<in> set (lk_calls s')" for c
  proof -
    obtain n where n: "n < length (lk_calls s')" "c = lk_calls s' ! n" using mem by (auto simp: in_set_conv_nth)
    then have "lk_settled c" using none unfinished_progress [of s' n] run by blast
    then show ?thesis using queue_okD(6) [of s' n] run n by blast
  qed
  then show "\<forall>c \<in> set (lk_calls s'). lk_phase c = Released \<and> lk_settled c" by blast
  with run show "lk_tails s' = Map.empty" using settled_tails by blast
qed

section \<open>An interleaving\<close>

text \<open>Two calls on one channel and one on another; the first has finished and its tail has settled.\<close>

definition two_queues :: lock_state where
  "two_queues = lock_enter ''a'' (lock_enter ''b'' (lock_enter ''a'' no_locks))"

definition second_running :: lock_state where
  "second_running = \<lparr>lk_tails = [''b'' \<mapsto> 1, ''a'' \<mapsto> 2],
     lk_calls = [\<lparr>lk_channel = ''a'', lk_previous = None, lk_phase = Released, lk_settled = True\<rparr>,
                 \<lparr>lk_channel = ''b'', lk_previous = None, lk_phase = Waiting, lk_settled = False\<rparr>,
                 \<lparr>lk_channel = ''a'', lk_previous = Some 0, lk_phase = Running, lk_settled = False\<rparr>]\<rparr>"

lemmas lock_operations =
  lock_enter_def lock_start_def lock_finish_def lock_settle_def previous_settled_def no_locks_def

lemma two_queues_reachable: "lock_reachable two_queues"
  unfolding two_queues_def
  by (rule lock_reachable.step [OF lock_reachable.step [OF lock_reachable.step [OF lock_reachable.initial]]])
    (rule lock_step.enter)+

lemma interleaving:
  "Option.bind (Option.bind (Option.bind (lock_start 0 two_queues) (lock_finish 0)) (lock_settle 0)) (lock_start 2) = Some second_running"
  by (simp add: two_queues_def second_running_def lock_operations Let_def fun_upd_twist numeral_2_eq_2)

lemma interleaving_steps: "(lock_progress ^^ 4) two_queues second_running"
proof -
  obtain s1 s2 s3 where "lock_start 0 two_queues = Some s1" "lock_finish 0 s1 = Some s2"
    "lock_settle 0 s2 = Some s3" "lock_start 2 s3 = Some second_running"
    using interleaving by (auto simp: bind_eq_Some_conv)
  then have "lock_progress two_queues s1" "lock_progress s1 s2" "lock_progress s2 s3" "lock_progress s3 second_running"
    by (auto intro: lock_progress.intros)
  then show ?thesis by (simp add: numeral_eq_Suc) blast
qed

lemma progress_reachable: "(lock_progress ^^ k) s s' \<Longrightarrow> lock_reachable s \<Longrightarrow> lock_reachable s'"
  by (induction k arbitrary: s') (auto intro: lock_reachable.step lock_step.inner)

theorem lock_mutual_exclusion_witness:
  "lock_reachable second_running \<and> lk_phase (lk_calls second_running ! 0) = Released"
  using lock_mutual_exclusion [of second_running 2 0] progress_reachable [OF interleaving_steps two_queues_reachable]
  by (simp add: second_running_def)

theorem lease_refines_lock_witness: "lease_reachable two_queues \<and> lock_reachable two_queues"
proof -
  have "lease_reachable two_queues" unfolding two_queues_def by (intro lease_reachable.enter lease_reachable.none)
  then show ?thesis using lease_refines_lock by blast
qed

definition one_call :: lock_state where
  "one_call = lock_enter ''a'' no_locks"

definition one_served :: lock_state where
  "one_served = \<lparr>lk_tails = Map.empty,
     lk_calls = [\<lparr>lk_channel = ''a'', lk_previous = None, lk_phase = Released, lk_settled = True\<rparr>]\<rparr>"

lemma one_call_served: "(lock_progress ^^ 3) one_call one_served"
proof -
  have "Option.bind (Option.bind (lock_start 0 one_call) (lock_finish 0)) (lock_settle 0) = Some one_served"
    by (simp add: one_call_def one_served_def lock_operations Let_def)
  then obtain s1 s2 where "lock_start 0 one_call = Some s1" "lock_finish 0 s1 = Some s2" "lock_settle 0 s2 = Some one_served"
    by (auto simp: bind_eq_Some_conv)
  then have "lock_progress one_call s1" "lock_progress s1 s2" "lock_progress s2 one_served"
    by (auto intro: lock_progress.intros)
  then show ?thesis by (simp add: numeral_eq_Suc) blast
qed

lemma one_served_ended: "\<nexists>s. lock_progress one_served s"
  by (auto simp: one_served_def lock_start_def lock_finish_def lock_settle_def elim!: lock_progress.cases split: if_splits)

theorem lock_calls_served_witness:
  "(lock_progress ^^ 3) one_call one_served \<and> 3 \<le> 3 * length (lk_calls one_call) \<and> lk_tails one_served = Map.empty"
proof -
  have "lock_reachable one_call"
    unfolding one_call_def by (rule lock_reachable.step [OF lock_reachable.initial lock_step.enter])
  then show ?thesis using lock_calls_served [OF _ one_call_served] one_call_served one_served_ended by blast
qed

end
