(* ===== verification/Client_Channel.thy ===== *)
theory Client_Channel
  imports Server_Channel Batch_Commitment
begin

text \<open>
  Channels and attempts of the client: the records of \<^verbatim>\<open>client/src/types.ts\<close> and the comparison
  functions at the end of \<^verbatim>\<open>client/src/channel-store.ts\<close>. A client keeps one record per channel,
  the signed funding or refund transaction that is under way for it, and the exact payments it has
  signed. The build identity of the escrow template and SHA-256 are the fields of the parameter
  \<open>client_env\<close>, and so is the URL parser of the platform. Objects have the properties of their
  declared types in the declared order, which is what \<open>JSON.stringify\<close> prints.
\<close>

section \<open>Records\<close>

record topup_evidence =
  te_covenantId :: string
  te_spentOutpoint :: funding_outpoint
  te_successorOutpoint :: funding_outpoint
  te_successorScriptPublicKey :: string
  te_successorAmount :: string
  te_authorizedSuccessorCount :: js_number
  te_authorizingInput :: js_number
  te_acceptance :: accepted_evidence

datatype client_status = ClientActive | ClientRetired | ClientRefundable | ClientRefunded | ClientSuspicious

record direct_channel =
  dc_id :: string
  dc_covenantId :: string
  dc_genesisEvidence :: genesis_verification
  dc_lastTopUpEvidence :: "topup_evidence opt_field"
  dc_origin :: string
  dc_resourceUrl :: "string opt_field"
  dc_config :: channel_config
  dc_clientPrivateKey :: "string opt_field"
  dc_clientPublicKey :: string
  dc_serverPublicKey :: string
  dc_activeOutpoint :: funding_outpoint
  dc_activeScriptPublicKey :: string
  dc_escrowAddress :: string
  dc_fundingSource :: string
  dc_fundingAmount :: string
  dc_chargedCumulativeAmount :: string
  dc_claimedCumulativeAmount :: string
  dc_signedMaxClaimable :: string
  dc_latestVoucher :: "voucher opt_field"
  dc_requiresDepositVoucher :: bool
  dc_refundTimeoutDaa :: string
  dc_templateId :: string
  dc_lineage :: lineage_state
  dc_status :: client_status

record funding_successor =
  fs_outpoint :: funding_outpoint
  fs_covenantId :: string
  fs_amount :: string
  fs_scriptPublicKey :: string

record genesis_intent =
  gi_channelId :: string
  gi_origin :: string
  gi_resourceUrl :: "string opt_field"
  gi_config :: channel_config
  gi_clientPrivateKey :: "string opt_field"
  gi_escrowAddress :: string
  gi_fundingSource :: string

datatype funding_status = FundingPending | FundingBroadcast | FundingApplied

datatype funding_kind = GenesisKind genesis_intent | TopUpKind direct_channel
  \<comment> \<open>a genesis carries its intent, a top-up the channel that it expects\<close>

record funding_attempt =
  fa_kind :: funding_kind
  fa_channelId :: string
  fa_transaction :: string
  fa_transactionId :: string
  fa_inputOutpoints :: "funding_outpoint list"
  fa_intendedSuccessor :: funding_successor
  fa_fundingSource :: string
  fa_status :: funding_status
  fa_finality :: "string opt_field"
  fa_acceptance :: "accepted_evidence opt_field"
  fa_requiredConfirmations :: js_number

datatype funding_evidence = GenesisEvidence genesis_verification | TopUpEvidence topup_evidence

record funding_apply =
  fr_channelId :: string
  fr_transactionId :: string
  fr_acceptance :: accepted_evidence
  fr_evidence :: funding_evidence
    \<comment> \<open>its constructor is the \<open>kind\<close> of the request\<close>

record refund_attempt =
  ra_channelId :: string
  ra_covenantId :: string
  ra_activeOutpoint :: funding_outpoint
  ra_activeScriptPublicKey :: string
  ra_fundingAmount :: string
  ra_channelStatus :: client_status
  ra_refundAmount :: string
  ra_transaction :: string
  ra_transactionId :: string
  ra_status :: funding_status
  ra_finality :: "string opt_field"
  ra_acceptance :: "accepted_evidence opt_field"
  ra_requiredConfirmations :: js_number
  ra_refundScriptPublicKey :: string

record refund_apply =
  rr_channelId :: string
  rr_transactionId :: string
  rr_acceptance :: accepted_evidence

record client_payment =
  py_resourceUrl :: string
    \<comment> \<open>\<open>paymentRequired.resource.url\<close>, the part of the requirement that the store reads\<close>
  py_accepted :: js_value
  py_paymentPayload :: js_value
  py_scheme :: string
  py_channel :: "direct_channel opt_field"
  py_openedChannel :: bool
  py_transactionId :: "string opt_field"
  py_exactAttemptId :: "string opt_field"
  py_paymentOutputIndex :: "js_number opt_field"
  py_payerAddress :: "string opt_field"

record exact_output =
  eo_transactionId :: string
  eo_outputIndex :: js_number
  eo_scriptPublicKey :: string
  eo_amount :: string

datatype payment_status = PaymentPending | PaymentAccepted | PaymentAbsent

record payment_attempt =
  pa_attemptId :: string
  pa_intentHash :: string
  pa_requestHash :: string
  pa_origin :: string
  pa_resourceUrl :: string
  pa_paymentIdentifier :: string
  pa_transactionId :: string
  pa_inputOutpoints :: "funding_outpoint list"
  pa_payment :: client_payment
  pa_status :: payment_status
  pa_evidence :: "transaction_evidence opt_field"
  pa_output :: "exact_output opt_field"
  pa_providerFinalized :: bool

record lookup_scope =
  ls_origin :: "string opt_field"
  ls_resourceUrl :: "string opt_field"
  ls_network :: "string opt_field"
  ls_status :: "client_status opt_field"

record escrow_identity =
  ei_compiler_name :: string
  ei_compiler_checkedCommit :: string
  ei_compiler_command :: string
  ei_source_path :: string
  ei_source_sha256 :: string
  ei_bytecode_templateId :: string
  ei_bytecode_compiledBaseSha256 :: string
  ei_constructorSlots :: js_value
  ei_abi :: js_value
  ei_selectors :: js_value
  ei_identitySha256 :: string

record client_env =
  ce_sha :: "byte list \<Rightarrow> byte list"
  ce_escrow :: escrow_identity
  ce_href :: "string \<Rightarrow> string option"
    \<comment> \<open>\<open>new URL(text).href\<close>, nothing when the constructor throws\<close>

section \<open>Texts\<close>

fun json_text :: "js_value \<Rightarrow> string" where
  \<comment> \<open>\<open>JSON.stringify\<close> on an object: absent values are left out, and become \<open>null\<close> in an array\<close>
  "json_text (JArr xs) = json_array (map json_text xs)"
| "json_text (JObj kvs) =
     json_object (map (\<lambda>(k, v). (k, json_text v)) (filter (\<lambda>(k, v). v \<noteq> JUndefined) kvs))"
| "json_text JUndefined = ''null''"
| "json_text v = stableJson v"

definition client_status_text :: "client_status \<Rightarrow> string" where
  "client_status_text s = (case s of ClientActive \<Rightarrow> ''active'' | ClientRetired \<Rightarrow> ''retired''
     | ClientRefundable \<Rightarrow> ''refundable'' | ClientRefunded \<Rightarrow> ''refunded'' | ClientSuspicious \<Rightarrow> ''suspicious'')"

definition topup_evidence_json :: "topup_evidence \<Rightarrow> js_value" where
  "topup_evidence_json e = JObj [(''covenantId'', JStr (te_covenantId e)),
     (''spentOutpoint'', outpoint_json (te_spentOutpoint e)),
     (''successorOutpoint'', outpoint_json (te_successorOutpoint e)),
     (''successorScriptPublicKey'', JStr (te_successorScriptPublicKey e)),
     (''successorAmount'', JStr (te_successorAmount e)),
     (''authorizedSuccessorCount'', JNum (te_authorizedSuccessorCount e)),
     (''authorizingInput'', JNum (te_authorizingInput e)), (''acceptance'', accepted_json (te_acceptance e))]"

definition client_voucher_json :: "voucher \<Rightarrow> js_value" where
  "client_voucher_json v = JObj [(''covenantId'', JStr (v_covenantId v)),
     (''authorizedCumulativeAmount'', JStr (v_authorizedCumulativeAmount v)), (''signature'', JStr (v_signature v))]"

definition direct_channel_json :: "direct_channel \<Rightarrow> js_value" where
  "direct_channel_json c = JObj ([(''id'', JStr (dc_id c)), (''covenantId'', JStr (dc_covenantId c)),
     (''genesisEvidence'', genesis_evidence_json (dc_genesisEvidence c))]
     @ opt_member ''lastTopUpEvidence'' topup_evidence_json (dc_lastTopUpEvidence c)
     @ [(''origin'', JStr (dc_origin c))] @ opt_member ''resourceUrl'' JStr (dc_resourceUrl c)
     @ [(''config'', channel_config_json (dc_config c))] @ opt_member ''clientPrivateKey'' JStr (dc_clientPrivateKey c)
     @ [(''clientPublicKey'', JStr (dc_clientPublicKey c)), (''serverPublicKey'', JStr (dc_serverPublicKey c)),
        (''activeOutpoint'', outpoint_json (dc_activeOutpoint c)),
        (''activeScriptPublicKey'', JStr (dc_activeScriptPublicKey c)), (''escrowAddress'', JStr (dc_escrowAddress c)),
        (''fundingSource'', JStr (dc_fundingSource c)), (''fundingAmount'', JStr (dc_fundingAmount c)),
        (''chargedCumulativeAmount'', JStr (dc_chargedCumulativeAmount c)),
        (''claimedCumulativeAmount'', JStr (dc_claimedCumulativeAmount c)),
        (''signedMaxClaimable'', JStr (dc_signedMaxClaimable c))]
     @ opt_member ''latestVoucher'' client_voucher_json (dc_latestVoucher c)
     @ [(''requiresDepositVoucher'', JBool (dc_requiresDepositVoucher c)),
        (''refundTimeoutDaa'', JStr (dc_refundTimeoutDaa c)), (''templateId'', JStr (dc_templateId c)),
        (''lineage'', lineage_json (dc_lineage c)), (''status'', JStr (client_status_text (dc_status c)))])"

definition index_text :: "js_number \<Rightarrow> string" where
  \<comment> \<open>a number in a template literal\<close>
  "index_text n = (case n of JsInt i \<Rightarrow> int_to_string i | JsNonInt s \<Rightarrow> s)"

definition outpoint_key :: "funding_outpoint \<Rightarrow> string" where
  "outpoint_key p = to_lower (op_txid p) @ '':'' @ index_text (op_index p)"

definition andE :: "bool res \<Rightarrow> bool res \<Rightarrow> bool res" where
  \<comment> \<open>\<open>a && b\<close> where either side may throw\<close>
  "andE a b = bindE a (\<lambda>x. if x then b else Inr False)"

section \<open>Comparisons\<close>

abbreviation channelKey :: "string \<Rightarrow> string" where
  "channelKey \<equiv> to_lower"

definition sameHex :: "string \<Rightarrow> string \<Rightarrow> bool" where
  "sameHex left right = (to_lower left = to_lower right)"

definition sameManifest :: "launch_manifest \<Rightarrow> launch_manifest \<Rightarrow> bool" where
  "sameManifest left right = (json_text (manifest_json left) = json_text (manifest_json right))"

definition sameLineage :: "lineage_state \<Rightarrow> lineage_state \<Rightarrow> bool" where
  "sameLineage left right = (json_text (lineage_json left) = json_text (lineage_json right))"

definition sameVoucher :: "voucher opt_field \<Rightarrow> voucher opt_field \<Rightarrow> bool" where
  \<comment> \<open>the source also compares \<open>left.amount\<close> with \<open>right.amount\<close>; a voucher has no such property,
     both reads give \<open>undefined\<close> and the comparison always holds\<close>
  "sameVoucher left right =
     (case (left, right) of
        (Val l, Val r) \<Rightarrow> sameHex (v_covenantId l) (v_covenantId r) \<and> sameHex (v_signature l) (v_signature r)
      | _ \<Rightarrow> val_of left = val_of right)"

definition sameSuccessor :: "funding_successor \<Rightarrow> funding_successor \<Rightarrow> bool" where
  "sameSuccessor left right =
     (sameOutpoint (fs_outpoint left) (fs_outpoint right) \<and> sameHex (fs_covenantId left) (fs_covenantId right)
      \<and> fs_amount left = fs_amount right \<and> sameHex (fs_scriptPublicKey left) (fs_scriptPublicKey right))"

fun sameOutpoints :: "funding_outpoint list \<Rightarrow> funding_outpoint list \<Rightarrow> bool" where
  "sameOutpoints [] [] = True"
| "sameOutpoints (p # ps) (q # qs) = (sameOutpoint p q \<and> sameOutpoints ps qs)"
| "sameOutpoints _ _ = False"

definition sameChannelState :: "direct_channel \<Rightarrow> direct_channel \<Rightarrow> bool" where
  \<comment> \<open>\<open>sameChannelSnapshot\<close> of the client\<close>
  "sameChannelState left right =
     (sameHex (dc_id left) (dc_id right) \<and> sameHex (dc_covenantId left) (dc_covenantId right)
      \<and> sameOutpoint (dc_activeOutpoint left) (dc_activeOutpoint right)
      \<and> sameHex (dc_activeScriptPublicKey left) (dc_activeScriptPublicKey right)
      \<and> dc_fundingAmount left = dc_fundingAmount right
      \<and> dc_chargedCumulativeAmount left = dc_chargedCumulativeAmount right
      \<and> dc_claimedCumulativeAmount left = dc_claimedCumulativeAmount right
      \<and> dc_signedMaxClaimable left = dc_signedMaxClaimable right
      \<and> dc_status left = dc_status right
      \<and> sameLineage (dc_lineage left) (dc_lineage right)
      \<and> sameVoucher (dc_latestVoucher left) (dc_latestVoucher right))"

definition sameAcceptedEvidence :: "accepted_evidence \<Rightarrow> accepted_evidence \<Rightarrow> bool" where
  "sameAcceptedEvidence left right =
     (sameHex (ae_transactionId left) (ae_transactionId right)
      \<and> sameHex (ae_acceptingBlockHash left) (ae_acceptingBlockHash right)
      \<and> ae_acceptingBlockBlueScore left = ae_acceptingBlockBlueScore right
      \<and> num_eq (ae_confirmationCount left) (ae_confirmationCount right)
      \<and> sameCheckpoint (ae_checkpoint left) (ae_checkpoint right))"

definition sameGenesisLane :: "genesis_intent \<Rightarrow> genesis_intent \<Rightarrow> bool" where
  "sameGenesisLane left right =
     (gi_origin left = gi_origin right \<and> val_of (gi_resourceUrl left) = val_of (gi_resourceUrl right)
      \<and> cc_network (gi_config left) = cc_network (gi_config right)
      \<and> cc_payTo (gi_config left) = cc_payTo (gi_config right)
      \<and> sameHex (cc_serverPublicKey (gi_config left)) (cc_serverPublicKey (gi_config right)))"

definition sameGenesisIntent :: "genesis_intent \<Rightarrow> genesis_intent \<Rightarrow> bool" where
  "sameGenesisIntent left right =
     (sameHex (gi_channelId left) (gi_channelId right) \<and> gi_origin left = gi_origin right
      \<and> val_of (gi_resourceUrl left) = val_of (gi_resourceUrl right)
      \<and> json_text (channel_config_json (gi_config left)) = json_text (channel_config_json (gi_config right))
      \<and> val_of (gi_clientPrivateKey left) = val_of (gi_clientPrivateKey right)
      \<and> gi_escrowAddress left = gi_escrowAddress right \<and> gi_fundingSource left = gi_fundingSource right)"

definition sameFundingArtifact :: "funding_attempt \<Rightarrow> funding_attempt \<Rightarrow> bool" where
  "sameFundingArtifact left right =
     (sameHex (fa_channelId left) (fa_channelId right) \<and> sameHex (fa_transaction left) (fa_transaction right)
      \<and> sameHex (fa_transactionId left) (fa_transactionId right)
      \<and> sameOutpoints (fa_inputOutpoints left) (fa_inputOutpoints right)
      \<and> sameSuccessor (fa_intendedSuccessor left) (fa_intendedSuccessor right)
      \<and> fa_fundingSource left = fa_fundingSource right
      \<and> num_eq (fa_requiredConfirmations left) (fa_requiredConfirmations right)
      \<and> (case (fa_kind left, fa_kind right) of
           (GenesisKind l, GenesisKind r) \<Rightarrow> sameGenesisIntent l r
         | (TopUpKind l, TopUpKind r) \<Rightarrow> sameChannelState l r
         | _ \<Rightarrow> False))"

definition sameRefundArtifact :: "refund_attempt \<Rightarrow> refund_attempt \<Rightarrow> bool" where
  "sameRefundArtifact left right =
     (sameHex (ra_channelId left) (ra_channelId right) \<and> sameHex (ra_covenantId left) (ra_covenantId right)
      \<and> sameOutpoint (ra_activeOutpoint left) (ra_activeOutpoint right)
      \<and> sameHex (ra_activeScriptPublicKey left) (ra_activeScriptPublicKey right)
      \<and> ra_fundingAmount left = ra_fundingAmount right \<and> ra_channelStatus left = ra_channelStatus right
      \<and> ra_refundAmount left = ra_refundAmount right
      \<and> sameHex (ra_refundScriptPublicKey left) (ra_refundScriptPublicKey right)
      \<and> num_eq (ra_requiredConfirmations left) (ra_requiredConfirmations right)
      \<and> sameHex (ra_transaction left) (ra_transaction right)
      \<and> sameHex (ra_transactionId left) (ra_transactionId right))"

end
