(* ===== verification/Client_Attempts.thy ===== *)
theory Client_Attempts
  imports Client_Channel
begin

text \<open>
  What the client store demands of an attempt: the consistency of a signed artifact, its agreement
  with the channel it spends, and the evidence that lets it be applied; and the channels that an
  applied funding transaction produces. The functions follow
  \<^verbatim>\<open>client/src/channel-store.ts\<close> from \<open>matchesScope\<close> to \<open>assertChannelLineageConsistency\<close>.
\<close>

section \<open>Scopes and status\<close>

definition scope_allows :: "string opt_field \<Rightarrow> string \<Rightarrow> bool" where
  \<comment> \<open>\<open>scope.field && scope.field !== actual\<close> does not exclude the record\<close>
  "scope_allows wanted actual = (\<not> truthy_str wanted \<or> wanted = Val actual)"

definition status_allows :: "client_status opt_field \<Rightarrow> client_status \<Rightarrow> bool" where
  "status_allows wanted actual = (val_of wanted \<in> {None, Some actual})"

definition url_allows :: "string opt_field \<Rightarrow> string opt_field \<Rightarrow> bool" where
  "url_allows wanted actual = (\<not> truthy_str wanted \<or> val_of wanted = val_of actual)"

definition matchesScope :: "direct_channel \<Rightarrow> lookup_scope \<Rightarrow> bool" where
  "matchesScope channel scope =
     (scope_allows (ls_origin scope) (dc_origin channel) \<and> url_allows (ls_resourceUrl scope) (dc_resourceUrl channel)
      \<and> scope_allows (ls_network scope) (cc_network (dc_config channel))
      \<and> status_allows (ls_status scope) (dc_status channel))"

definition matchesFundingAttemptScope :: "funding_attempt \<Rightarrow> lookup_scope \<Rightarrow> bool" where
  "matchesFundingAttemptScope attempt scope =
     (case fa_kind attempt of
        GenesisKind i \<Rightarrow> scope_allows (ls_origin scope) (gi_origin i) \<and> url_allows (ls_resourceUrl scope) (gi_resourceUrl i)
          \<and> scope_allows (ls_network scope) (cc_network (gi_config i)) \<and> status_allows (ls_status scope) ClientActive
      | TopUpKind c \<Rightarrow> matchesScope c scope)"

definition isRefundable :: "direct_channel \<Rightarrow> string opt_field \<Rightarrow> bool res" where
  "isRefundable channel nowDaa =
     (if dc_status channel \<notin> {ClientActive, ClientRetired, ClientRefundable} then Inr False
      else case val_of nowDaa of
        None \<Rightarrow> Inr True
      | Some now \<Rightarrow> bindE (parseSompiString now) (\<lambda>n. bindE (parseSompiString (dc_refundTimeoutDaa channel)) (\<lambda>timeout.
          Inr (timeout < n))))"

definition isRefundOnlyStatus :: "client_status \<Rightarrow> bool" where
  "isRefundOnlyStatus status = (status \<in> {ClientSuspicious, ClientRefundable, ClientRefunded})"

section \<open>Exact payments\<close>

fun js_member :: "string \<Rightarrow> js_value \<Rightarrow> js_value" where
  \<comment> \<open>\<open>value[key]\<close> on an object\<close>
  "js_member k (JObj kvs) = (case map_of kvs k of Some v \<Rightarrow> v | None \<Rightarrow> JUndefined)"
| "js_member k _ = JUndefined"

definition hex_is :: "string opt_field \<Rightarrow> string \<Rightarrow> bool" where
  \<comment> \<open>present, non-empty and equal up to case\<close>
  "hex_is found expected = (case found of Val s \<Rightarrow> s \<noteq> [] \<and> sameHex s expected | _ \<Rightarrow> False)"

definition sameCanonicalUrl :: "client_env \<Rightarrow> string \<Rightarrow> string \<Rightarrow> bool" where
  "sameCanonicalUrl env left right =
     (case (ce_href env left, ce_href env right) of (Some l, Some r) \<Rightarrow> l = r | _ \<Rightarrow> False)"

definition exactIntentHash :: "client_env \<Rightarrow> payment_attempt \<Rightarrow> string res" where
  "exactIntentHash env attempt =
     bindE (stableStringify (JObj [(''scope'', JStr ''kaspa:x402:exact-intent:v1''), (''origin'', JStr (pa_origin attempt)),
       (''resourceUrl'', JStr (pa_resourceUrl attempt)), (''requestHash'', JStr (to_lower (pa_requestHash attempt))),
       (''paymentIdentifier'', JStr (pa_paymentIdentifier attempt)), (''accepted'', py_accepted (pa_payment attempt))]))
     (\<lambda>t. Inr (sha256Hex (ce_sha env) (utf8Bytes t)))"

definition natural_index :: "js_number \<Rightarrow> bool" where
  \<comment> \<open>\<open>Number.isSafeInteger(n) && n >= 0\<close>\<close>
  "natural_index n = in_range n 0 MAX_SAFE_INTEGER"

definition outpoints_consistent :: "funding_outpoint list \<Rightarrow> bool" where
  \<comment> \<open>at least one input, no input twice, every input well formed\<close>
  "outpoints_consistent inputs =
     (inputs \<noteq> [] \<and> distinct (map outpoint_key inputs)
      \<and> list_all (\<lambda>p. is_hash32 (op_txid p) \<and> natural_index (op_index p)) inputs)"

definition payment_artifact_consistent :: "client_env \<Rightarrow> payment_attempt \<Rightarrow> bool res" where
  "payment_artifact_consistent env attempt =
     (let payment = pa_payment attempt in
      andE (Inr (is_hash32 (pa_attemptId attempt) \<and> is_hash32 (pa_intentHash attempt)
          \<and> is_hash32 (pa_requestHash attempt) \<and> is_hash32 (pa_transactionId attempt)
          \<and> \<not> blank (pa_paymentIdentifier attempt) \<and> pa_origin attempt \<noteq> [] \<and> pa_resourceUrl attempt \<noteq> []
          \<and> outpoints_consistent (pa_inputOutpoints attempt)
          \<and> py_scheme payment = ''exact'' \<and> js_member ''scheme'' (py_accepted payment) = JStr ''exact''
          \<and> hex_is (py_transactionId payment) (pa_transactionId attempt)
          \<and> hex_is (py_exactAttemptId payment) (pa_attemptId attempt)
          \<and> sameCanonicalUrl env (py_resourceUrl payment) (pa_resourceUrl attempt)))
      (bindE (exactIntentHash env attempt) (\<lambda>h. Inr (h = to_lower (pa_intentHash attempt)))))"

fun evidence_is_accepted :: "transaction_evidence \<Rightarrow> bool" where
  "evidence_is_accepted (AcceptedEvidence _) = True"
| "evidence_is_accepted _ = False"

fun evidence_is_absent :: "transaction_evidence \<Rightarrow> bool" where
  "evidence_is_absent (AbsentEvidence _ _ _) = True"
| "evidence_is_absent _ = False"

definition payment_outcome_consistent :: "payment_attempt \<Rightarrow> bool" where
  "payment_outcome_consistent attempt =
     (if pa_status attempt = PaymentPending
      then val_of (pa_evidence attempt) = None \<and> val_of (pa_output attempt) = None \<and> \<not> pa_providerFinalized attempt
      else case pa_evidence attempt of
        Val e \<Rightarrow> sameHex (evidence_transaction e) (pa_transactionId attempt)
          \<and> (if pa_status attempt = PaymentAccepted
             then evidence_is_accepted e \<and> val_of (pa_output attempt) \<noteq> None
             else evidence_is_absent e \<and> val_of (pa_output attempt) = None)
      | _ \<Rightarrow> False)"

definition exactPaymentAttemptIsConsistent :: "client_env \<Rightarrow> payment_attempt \<Rightarrow> bool res" where
  "exactPaymentAttemptIsConsistent env attempt =
     andE (payment_artifact_consistent env attempt) (Inr (payment_outcome_consistent attempt))"

definition sameExactPaymentIntent :: "payment_attempt \<Rightarrow> payment_attempt \<Rightarrow> bool res" where
  "sameExactPaymentIntent left right =
     andE (Inr (sameHex (pa_attemptId left) (pa_attemptId right) \<and> sameHex (pa_intentHash left) (pa_intentHash right)
        \<and> pa_paymentIdentifier left = pa_paymentIdentifier right
        \<and> sameHex (pa_transactionId left) (pa_transactionId right)))
    (andE (bindE (textDiffers (py_paymentPayload (pa_payment left)) (py_paymentPayload (pa_payment right))) (\<lambda>d. Inr (\<not> d)))
    (bindE (textDiffers (JArr (map outpoint_json (pa_inputOutpoints left))) (JArr (map outpoint_json (pa_inputOutpoints right))))
      (\<lambda>d. Inr (\<not> d))))"

section \<open>Funding attempts\<close>

definition isOpenFundingAttempt :: "funding_attempt option \<Rightarrow> bool" where
  "isOpenFundingAttempt attempt = (case attempt of None \<Rightarrow> False | Some a \<Rightarrow> fa_status a \<noteq> FundingApplied)"

definition fundingAttemptChannelId :: "funding_attempt \<Rightarrow> string" where
  "fundingAttemptChannelId attempt = (case fa_kind attempt of GenesisKind i \<Rightarrow> gi_channelId i | TopUpKind c \<Rightarrow> dc_id c)"

definition config_has_id :: "client_env \<Rightarrow> channel_config \<Rightarrow> string \<Rightarrow> bool res" where
  \<comment> \<open>\<open>sameHex(channelId(config), id)\<close>\<close>
  "config_has_id env config expected = bindE (channelId (ce_sha env) config) (\<lambda>i. Inr (sameHex i expected))"

definition fundingAttemptArtifactIsConsistent :: "client_env \<Rightarrow> funding_attempt \<Rightarrow> bool res" where
  "fundingAttemptArtifactIsConsistent env attempt =
     andE (Inr (positive_safe (fa_requiredConfirmations attempt) \<and> outpoints_consistent (fa_inputOutpoints attempt)
        \<and> sameHex (fa_channelId attempt) (fundingAttemptChannelId attempt)
        \<and> sameHex (fa_transactionId attempt) (op_txid (fs_outpoint (fa_intendedSuccessor attempt)))
        \<and> \<not> is_zero_hash32 (fs_covenantId (fa_intendedSuccessor attempt))))
     (case fa_kind attempt of
        GenesisKind i \<Rightarrow> andE (Inr (gi_fundingSource i = fa_fundingSource attempt))
                             (config_has_id env (gi_config i) (fa_channelId attempt))
      | TopUpKind c \<Rightarrow> Inr (sameHex (fs_covenantId (fa_intendedSuccessor attempt)) (dc_covenantId c)
          \<and> sameHex (fs_scriptPublicKey (fa_intendedSuccessor attempt)) (dc_activeScriptPublicKey c)))"

definition isNewFundingAttempt :: "client_env \<Rightarrow> funding_attempt \<Rightarrow> bool res" where
  "isNewFundingAttempt env attempt =
     andE (Inr (fa_status attempt = FundingPending \<and> val_of (fa_finality attempt) = None))
       (fundingAttemptArtifactIsConsistent env attempt)"

definition newFundingAttemptMatchesChannel ::
  "client_env \<Rightarrow> direct_channel option \<Rightarrow> funding_attempt \<Rightarrow> bool res" where
  "newFundingAttemptMatchesChannel env channel attempt =
     (case fa_kind attempt of
        GenesisKind i \<Rightarrow> andE (Inr (channel = None)) (config_has_id env (gi_config i) (fa_channelId attempt))
      | TopUpKind expected \<Rightarrow>
         (case channel of
            None \<Rightarrow> Inr False
          | Some c \<Rightarrow>
              andE (Inr (dc_status c = ClientActive \<and> sameChannelState c expected
                 \<and> sameHex (fs_covenantId (fa_intendedSuccessor attempt)) (dc_covenantId c)
                 \<and> sameHex (fs_scriptPublicKey (fa_intendedSuccessor attempt)) (dc_activeScriptPublicKey c)))
              (bindE (parseSompiString (fs_amount (fa_intendedSuccessor attempt))) (\<lambda>successor.
               bindE (parseSompiString (dc_fundingAmount c)) (\<lambda>current. Inr (current < successor))))))"

definition openFundingAttemptMatchesChannel :: "direct_channel option \<Rightarrow> funding_attempt \<Rightarrow> bool" where
  "openFundingAttemptMatchesChannel channel attempt =
     (case fa_kind attempt of
        GenesisKind _ \<Rightarrow> channel = None
      | TopUpKind expected \<Rightarrow> (case channel of None \<Rightarrow> False | Some c \<Rightarrow> sameChannelState c expected))"

definition sameIntendedHead :: "direct_channel \<Rightarrow> funding_successor \<Rightarrow> bool" where
  "sameIntendedHead channel successor =
     (sameHex (dc_covenantId channel) (fs_covenantId successor)
      \<and> sameOutpoint (dc_activeOutpoint channel) (fs_outpoint successor)
      \<and> sameHex (dc_activeScriptPublicKey channel) (fs_scriptPublicKey successor)
      \<and> dc_fundingAmount channel = fs_amount successor)"

definition genesisEvidenceMatchesSuccessor :: "genesis_verification \<Rightarrow> funding_successor \<Rightarrow> bool" where
  "genesisEvidenceMatchesSuccessor evidence successor =
     (gv_totalOutputCount evidence = JsInt 1 \<and> gv_authorizedOutputCount evidence = JsInt 1
      \<and> sameHex (gv_covenantId evidence) (fs_covenantId successor)
      \<and> sameOutpoint (gv_genesisOutpoint evidence) (fs_outpoint successor)
      \<and> sameHex (gv_genesisScriptPublicKey evidence) (fs_scriptPublicKey successor)
      \<and> gv_genesisAmount evidence = fs_amount successor)"

definition topUpEvidenceMatches :: "topup_evidence \<Rightarrow> direct_channel \<Rightarrow> funding_successor \<Rightarrow> bool" where
  \<comment> \<open>\<open>topUpEvidenceMatchesAttempt\<close> on the expected channel and the successor of the attempt\<close>
  "topUpEvidenceMatches evidence expected successor =
     (te_authorizedSuccessorCount evidence = JsInt 1 \<and> natural_index (te_authorizingInput evidence)
      \<and> sameHex (te_covenantId evidence) (fs_covenantId successor)
      \<and> sameOutpoint (te_spentOutpoint evidence) (dc_activeOutpoint expected)
      \<and> sameOutpoint (te_successorOutpoint evidence) (fs_outpoint successor)
      \<and> sameHex (te_successorScriptPublicKey evidence) (fs_scriptPublicKey successor)
      \<and> te_successorAmount evidence = fs_amount successor)"

definition appliedFundingAttemptMatchesChannel :: "direct_channel option \<Rightarrow> funding_attempt \<Rightarrow> bool" where
  "appliedFundingAttemptMatchesChannel channel attempt =
     (case channel of
        None \<Rightarrow> False
      | Some c \<Rightarrow> sameIntendedHead c (fa_intendedSuccessor attempt)
         \<and> (case fa_kind attempt of
              GenesisKind i \<Rightarrow> sameHex (dc_id c) (gi_channelId i)
                \<and> sameHex (dc_covenantId c) (fs_covenantId (fa_intendedSuccessor attempt))
                \<and> dc_origin c = gi_origin i \<and> val_of (dc_resourceUrl c) = val_of (gi_resourceUrl i)
                \<and> json_text (channel_config_json (dc_config c)) = json_text (channel_config_json (gi_config i))
                \<and> val_of (dc_clientPrivateKey c) = val_of (gi_clientPrivateKey i)
                \<and> dc_escrowAddress c = gi_escrowAddress i \<and> dc_fundingSource c = fa_fundingSource attempt
                \<and> genesisEvidenceMatchesSuccessor (dc_genesisEvidence c) (fa_intendedSuccessor attempt)
                \<and> dc_status c = ClientActive
            | TopUpKind e \<Rightarrow> sameHex (dc_id c) (dc_id e) \<and> sameHex (dc_covenantId c) (dc_covenantId e)
                \<and> dc_chargedCumulativeAmount c = dc_chargedCumulativeAmount e
                \<and> dc_claimedCumulativeAmount c = dc_claimedCumulativeAmount e
                \<and> dc_signedMaxClaimable c = dc_signedMaxClaimable e \<and> dc_status c = dc_status e
                \<and> dc_requiresDepositVoucher c
                \<and> (case dc_lastTopUpEvidence c of
                     Val t \<Rightarrow> topUpEvidenceMatches t e (fa_intendedSuccessor attempt) | _ \<Rightarrow> False)))"

definition persistedFundingAttemptMatchesChannel ::
  "client_env \<Rightarrow> direct_channel option \<Rightarrow> funding_attempt \<Rightarrow> bool res" where
  "persistedFundingAttemptMatchesChannel env channel attempt =
     andE (fundingAttemptArtifactIsConsistent env attempt)
       (Inr (case fa_status attempt of
          FundingPending \<Rightarrow> val_of (fa_finality attempt) = None \<and> openFundingAttemptMatchesChannel channel attempt
        | FundingBroadcast \<Rightarrow> fa_finality attempt = Val ''broadcast'' \<and> openFundingAttemptMatchesChannel channel attempt
        | FundingApplied \<Rightarrow> fa_finality attempt \<in> {Val ''accepted'', Val ''confirmed''}
                             \<and> appliedFundingAttemptMatchesChannel channel attempt))"

definition evidenceMatchesFundingAttempt :: "funding_apply \<Rightarrow> funding_attempt \<Rightarrow> bool" where
  "evidenceMatchesFundingAttempt request attempt =
     (case (fr_evidence request, fa_kind attempt) of
        (GenesisEvidence e, GenesisKind _) \<Rightarrow>
          sameAcceptedEvidence (gv_acceptance e) (fr_acceptance request)
          \<and> genesisEvidenceMatchesSuccessor e (fa_intendedSuccessor attempt)
      | (TopUpEvidence e, TopUpKind expected) \<Rightarrow>
          sameAcceptedEvidence (te_acceptance e) (fr_acceptance request)
          \<and> topUpEvidenceMatches e expected (fa_intendedSuccessor attempt)
      | _ \<Rightarrow> False)"

section \<open>Channels from funding transactions\<close>

definition escrow_manifest :: "escrow_identity \<Rightarrow> string \<Rightarrow> manifest_genesis \<Rightarrow> launch_manifest" where
  "escrow_manifest escrow network genesis =
     \<lparr>lm_format = ''kaspa-x402-covenant-launch-v1'', lm_network = network,
      lm_compiler_name = ei_compiler_name escrow, lm_compiler_checkedCommit = ei_compiler_checkedCommit escrow,
      lm_compiler_command = ei_compiler_command escrow, lm_source_path = ei_source_path escrow,
      lm_source_sha256 = ei_source_sha256 escrow, lm_bytecode_templateId = ei_bytecode_templateId escrow,
      lm_bytecode_compiledBaseSha256 = ei_bytecode_compiledBaseSha256 escrow,
      lm_constructorSlots = ei_constructorSlots escrow, lm_abi = ei_abi escrow, lm_selectors = ei_selectors escrow,
      lm_identitySha256 = ei_identitySha256 escrow, lm_genesis = genesis\<rparr>"

definition genesis_of_evidence :: "string \<Rightarrow> genesis_verification \<Rightarrow> manifest_genesis" where
  "genesis_of_evidence transactionId evidence =
     \<lparr>mg_derivation = ''kip20-covenant-id-v1'', mg_covenantId = gv_covenantId evidence,
      mg_authorizingInput = gv_authorizingInput evidence, mg_transactionId = transactionId,
      mg_outpoint = gv_genesisOutpoint evidence, mg_scriptPublicKey = gv_genesisScriptPublicKey evidence,
      mg_value = gv_genesisAmount evidence, mg_claimedCumulativeAmount = ''0'',
      mg_acceptance = gv_acceptance evidence\<rparr>"

definition present_if :: "string opt_field \<Rightarrow> string opt_field" where
  \<comment> \<open>\<open>...(x ? {key: x} : {})\<close>\<close>
  "present_if f = (if truthy_str f then f else Absent)"

definition channelFromGenesisAttempt ::
  "client_env \<Rightarrow> funding_attempt \<Rightarrow> genesis_intent \<Rightarrow> funding_evidence \<Rightarrow> direct_channel res" where
  "channelFromGenesisAttempt env attempt intent found =
     (case found of
        TopUpEvidence _ \<Rightarrow> Inl (JsError ''genesis transition requires genesis evidence'')
      | GenesisEvidence evidence \<Rightarrow>
         let manifest = escrow_manifest (ce_escrow env) (cc_network (gi_config intent))
                          (genesis_of_evidence (fa_transactionId attempt) evidence);
             successor = fa_intendedSuccessor attempt
         in bindE (createCovenantLineageState (ce_sha env) manifest) (\<lambda>lineage.
         Inr \<lparr>dc_id = fa_channelId attempt, dc_covenantId = fs_covenantId successor, dc_genesisEvidence = evidence,
              dc_lastTopUpEvidence = Absent, dc_origin = gi_origin intent,
              dc_resourceUrl = present_if (gi_resourceUrl intent), dc_config = gi_config intent,
              dc_clientPrivateKey = present_if (gi_clientPrivateKey intent),
              dc_clientPublicKey = cc_clientPublicKey (gi_config intent),
              dc_serverPublicKey = cc_serverPublicKey (gi_config intent),
              dc_activeOutpoint = fs_outpoint successor, dc_activeScriptPublicKey = fs_scriptPublicKey successor,
              dc_escrowAddress = gi_escrowAddress intent, dc_fundingSource = fa_fundingSource attempt,
              dc_fundingAmount = fs_amount successor, dc_chargedCumulativeAmount = ''0'',
              dc_claimedCumulativeAmount = ''0'', dc_signedMaxClaimable = ''0'', dc_latestVoucher = Absent,
              dc_requiresDepositVoucher = True, dc_refundTimeoutDaa = cc_refundTimeoutDaa (gi_config intent),
              dc_templateId = cc_templateId (gi_config intent), dc_lineage = lineage, dc_status = ClientActive\<rparr>))"

definition single_transition :: "lineage_state \<Rightarrow> accepted_evidence \<Rightarrow> lineage_transition \<Rightarrow> chain_update" where
  \<comment> \<open>the update that appends one accepted transition to the lineage\<close>
  "single_transition lineage acceptance t =
     \<lparr>cu_fromCheckpoint = ln_checkpoint lineage, cu_checkpoint = ae_checkpoint acceptance,
      cu_continuity = ''complete'', cu_removedChainBlockHashes = [],
      cu_addedChainBlocks = [\<lparr>sb_blockHash = ae_acceptingBlockHash acceptance, sb_genesisAcceptance = None,
                              sb_transitions = [t]\<rparr>]\<rparr>"

definition topup_transition :: "funding_attempt \<Rightarrow> direct_channel \<Rightarrow> topup_evidence \<Rightarrow> lineage_transition" where
  "topup_transition attempt expected evidence =
     \<lparr>lt_kind = ''top-up'', lt_covenantId = te_covenantId evidence, lt_templateId = dc_templateId expected,
      lt_consumedOutpoint = te_spentOutpoint evidence, lt_transactionId = fa_transactionId attempt,
      lt_authorizedSuccessorCount = te_authorizedSuccessorCount evidence,
      lt_successor = Some \<lparr>lh_outpoint = te_successorOutpoint evidence,
        lh_scriptPublicKey = te_successorScriptPublicKey evidence, lh_value = te_successorAmount evidence,
        lh_claimedCumulativeAmount = dc_claimedCumulativeAmount expected,
        su_covenantId = te_covenantId evidence, su_authorizingInput = te_authorizingInput evidence\<rparr>,
      lt_terminalOutput = None, lt_acceptance = te_acceptance evidence\<rparr>"

definition channelFromTopUpAttempt ::
  "client_env \<Rightarrow> funding_attempt \<Rightarrow> direct_channel \<Rightarrow> funding_evidence \<Rightarrow> direct_channel res" where
  "channelFromTopUpAttempt env attempt expected found =
     (case found of
        GenesisEvidence _ \<Rightarrow> Inl (JsError ''top-up transition requires top-up evidence'')
      | TopUpEvidence evidence \<Rightarrow>
         bindE (applyCovenantSelectedChainUpdate (ce_sha env) (dc_lineage expected)
                  (single_transition (dc_lineage expected) (te_acceptance evidence)
                     (topup_transition attempt expected evidence))) (\<lambda>lineage.
         let successor = fa_intendedSuccessor attempt in
         Inr (expected\<lparr>dc_activeOutpoint := fs_outpoint successor, dc_activeScriptPublicKey := fs_scriptPublicKey successor,
                       dc_fundingAmount := fs_amount successor, dc_lastTopUpEvidence := Val evidence,
                       dc_lineage := lineage, dc_requiresDepositVoucher := True\<rparr>)))"

section \<open>Refund attempts\<close>

definition isOpenRefundAttempt :: "refund_attempt option \<Rightarrow> bool" where
  "isOpenRefundAttempt attempt = (case attempt of None \<Rightarrow> False | Some a \<Rightarrow> ra_status a \<noteq> FundingApplied)"

definition channelHeadMatchesRefundAttempt :: "direct_channel option \<Rightarrow> refund_attempt \<Rightarrow> bool" where
  "channelHeadMatchesRefundAttempt channel attempt =
     (case channel of
        None \<Rightarrow> False
      | Some c \<Rightarrow> sameHex (dc_id c) (ra_channelId attempt) \<and> sameHex (dc_covenantId c) (ra_covenantId attempt)
         \<and> sameOutpoint (dc_activeOutpoint c) (ra_activeOutpoint attempt)
         \<and> sameHex (dc_activeScriptPublicKey c) (ra_activeScriptPublicKey attempt)
         \<and> dc_fundingAmount c = ra_fundingAmount attempt \<and> ra_refundAmount attempt = ra_fundingAmount attempt)"

definition channelMatchesRefundAttempt :: "direct_channel option \<Rightarrow> refund_attempt \<Rightarrow> bool" where
  "channelMatchesRefundAttempt channel attempt =
     (channelHeadMatchesRefundAttempt channel attempt
      \<and> map_option dc_status channel = Some (ra_channelStatus attempt))"

definition refund_evidence_is :: "refund_attempt \<Rightarrow> bool" where
  "refund_evidence_is attempt =
     (case ra_acceptance attempt of Val e \<Rightarrow> sameHex (ae_transactionId e) (ra_transactionId attempt) | _ \<Rightarrow> False)"

definition persistedRefundAttemptMatchesChannel :: "direct_channel option \<Rightarrow> refund_attempt \<Rightarrow> bool" where
  "persistedRefundAttemptMatchesChannel channel attempt =
     (case ra_status attempt of
        FundingPending \<Rightarrow> val_of (ra_finality attempt) = None \<and> val_of (ra_acceptance attempt) = None
          \<and> channelMatchesRefundAttempt channel attempt
      | FundingBroadcast \<Rightarrow> ra_finality attempt = Val ''broadcast''
          \<and> (val_of (ra_acceptance attempt) = None \<or> refund_evidence_is attempt)
          \<and> channelMatchesRefundAttempt channel attempt
      | FundingApplied \<Rightarrow> channelHeadMatchesRefundAttempt channel attempt
          \<and> map_option dc_status channel = Some ClientRefunded
          \<and> ra_finality attempt = Val ''confirmed'' \<and> refund_evidence_is attempt)"

definition refund_transition :: "refund_attempt \<Rightarrow> direct_channel \<Rightarrow> accepted_evidence \<Rightarrow> lineage_transition" where
  "refund_transition attempt current acceptance =
     \<lparr>lt_kind = ''refund'', lt_covenantId = ra_covenantId attempt, lt_templateId = dc_templateId current,
      lt_consumedOutpoint = ra_activeOutpoint attempt, lt_transactionId = ra_transactionId attempt,
      lt_authorizedSuccessorCount = JsInt 0, lt_successor = None,
      lt_terminalOutput = Some \<lparr>to_index = JsInt 0, to_scriptPublicKey = ra_refundScriptPublicKey attempt,
                               to_value = ra_refundAmount attempt\<rparr>,
      lt_acceptance = acceptance\<rparr>"

section \<open>A channel and its lineage\<close>

definition channel_manifest_mismatch :: "escrow_identity \<Rightarrow> direct_channel \<Rightarrow> bool res" where
  "channel_manifest_mismatch escrow channel =
     (let m = ln_manifest (dc_lineage channel); g = lm_genesis m; e = dc_genesisEvidence channel;
          identity = escrow_manifest escrow [] g in
      orE (Inr (lm_network m \<noteq> cc_network (dc_config channel) \<or> lm_bytecode_templateId m \<noteq> dc_templateId channel))
     (orE (textDiffers (compiler_json m) (compiler_json identity))
     (orE (textDiffers (source_json m) (source_json identity))
     (orE (textDiffers (bytecode_json m) (bytecode_json identity))
     (orE (textDiffers (lm_constructorSlots m) (ei_constructorSlots escrow))
     (orE (textDiffers (lm_abi m) (ei_abi escrow))
     (orE (textDiffers (lm_selectors m) (ei_selectors escrow))
     (orE (Inr (to_lower (lm_identitySha256 m) \<noteq> to_lower (ei_identitySha256 escrow)
        \<or> \<not> sameHex (mg_covenantId g) (dc_covenantId channel)
        \<or> \<not> sameHex (mg_transactionId g) (op_txid (gv_genesisOutpoint e))
        \<or> \<not> sameOutpoint (mg_authorizingInput g) (gv_authorizingInput e)
        \<or> \<not> sameOutpoint (mg_outpoint g) (gv_genesisOutpoint e)
        \<or> \<not> sameHex (mg_scriptPublicKey g) (gv_genesisScriptPublicKey e)
        \<or> mg_value g \<noteq> gv_genesisAmount e))
     (textDiffers (accepted_json (mg_acceptance g)) (accepted_json (gv_acceptance e)))))))))))"

definition head_matches :: "lineage_head \<Rightarrow> direct_channel \<Rightarrow> bool" where
  "head_matches head channel =
     (sameOutpoint (lh_outpoint head) (dc_activeOutpoint channel)
      \<and> sameHex (lh_scriptPublicKey head) (dc_activeScriptPublicKey channel)
      \<and> lh_value head = dc_fundingAmount channel
      \<and> lh_claimedCumulativeAmount head = dc_claimedCumulativeAmount channel)"

definition assertChannelLineageConsistency :: "client_env \<Rightarrow> direct_channel \<Rightarrow> unit res" where
  "assertChannelLineageConsistency env channel =
     bindE (channel_manifest_mismatch (ce_escrow env) channel) (\<lambda>mismatch.
     if mismatch then Inl (JsError ''channel does not match its immutable covenant launch manifest'')
     else if dc_status channel = ClientRefunded then
       (if ln_currentHead (dc_lineage channel) \<noteq> None
        then Inl (JsError ''refunded channel still has a derived covenant head'') else Inr ())
     else case ln_currentHead (dc_lineage channel) of
       None \<Rightarrow> Inl (JsError ''channel head does not match its derived covenant lineage index'')
     | Some head \<Rightarrow>
         if \<not> head_matches head channel
         then Inl (JsError ''channel head does not match its derived covenant lineage index'') else Inr ())"

end
