(* ===== verification/Client_Store.thy ===== *)
theory Client_Store
  imports Client_Attempts Store_Programs "HOL-Library.AList"
begin

text \<open>
  The channel store of the client: the class \<open>MemoryChannelStore\<close> of
  \<^verbatim>\<open>client/src/channel-store.ts\<close>. Its maps keep insertion order, as \<open>Map\<close> does: \<open>AList.update\<close>
  replaces a value in place and appends a new key. No method awaits between reading and writing, so a
  call is one step; a call that throws keeps the writes it has made, which matters for
  \<open>applyCovenantLineage\<close>. Copies (\<open>structuredClone\<close>) are the values themselves.
\<close>

section \<open>State\<close>

record client_store =
  ks_channels :: "(string \<times> direct_channel) list"
  ks_funding :: "(string \<times> funding_attempt) list"
  ks_refunds :: "(string \<times> refund_attempt) list"
  ks_payments :: "(string \<times> payment_attempt) list"
  ks_identifiers :: "string \<rightharpoonup> string"

definition empty_client :: client_store where
  "empty_client = \<lparr>ks_channels = [], ks_funding = [], ks_refunds = [], ks_payments = [], ks_identifiers = Map.empty\<rparr>"

type_synonym 'a client_op = "(client_store, 'a) program"

definition client_channel :: "client_store \<Rightarrow> string \<Rightarrow> direct_channel option" where
  "client_channel s key = map_of (ks_channels s) key"

definition client_funding :: "client_store \<Rightarrow> string \<Rightarrow> funding_attempt option" where
  "client_funding s key = map_of (ks_funding s) key"

definition client_refund :: "client_store \<Rightarrow> string \<Rightarrow> refund_attempt option" where
  "client_refund s key = map_of (ks_refunds s) key"

definition client_payment_attempt :: "client_store \<Rightarrow> string \<Rightarrow> payment_attempt option" where
  "client_payment_attempt s key = map_of (ks_payments s) key"

definition put_channel :: "string \<Rightarrow> direct_channel \<Rightarrow> unit client_op" where
  "put_channel key c = writeS (\<lambda>s. s\<lparr>ks_channels := AList.update key c (ks_channels s)\<rparr>)"

definition put_funding :: "string \<Rightarrow> funding_attempt \<Rightarrow> unit client_op" where
  "put_funding key a = writeS (\<lambda>s. s\<lparr>ks_funding := AList.update key a (ks_funding s)\<rparr>)"

definition drop_funding :: "string \<Rightarrow> unit client_op" where
  "drop_funding key = writeS (\<lambda>s. s\<lparr>ks_funding := AList.delete key (ks_funding s)\<rparr>)"

definition put_refund :: "string \<Rightarrow> refund_attempt \<Rightarrow> unit client_op" where
  "put_refund key a = writeS (\<lambda>s. s\<lparr>ks_refunds := AList.update key a (ks_refunds s)\<rparr>)"

definition drop_refund :: "string \<Rightarrow> unit client_op" where
  "drop_refund key = writeS (\<lambda>s. s\<lparr>ks_refunds := AList.delete key (ks_refunds s)\<rparr>)"

definition put_payment :: "string \<Rightarrow> payment_attempt \<Rightarrow> unit client_op" where
  "put_payment key a = writeS (\<lambda>s. s\<lparr>ks_payments := AList.update key a (ks_payments s)\<rparr>)"

definition requireE :: "bool res \<Rightarrow> string \<Rightarrow> unit client_op" where
  \<comment> \<open>\<open>if (!condition) throw new Error(message)\<close> where the condition may throw\<close>
  "requireE r message = bindS (assertS r) (\<lambda>ok. unlessS ok message)"

section \<open>The constructor\<close>

definition load_channel :: "client_env \<Rightarrow> client_store \<Rightarrow> direct_channel \<Rightarrow> client_store res" where
  "load_channel env s channel =
     (let key = channelKey (dc_id channel) in
      if client_channel s key \<noteq> None then Inl (JsError ''persisted channels contain a duplicate channel id'')
      else bindE (assertChannelLineageConsistency env channel) (\<lambda>_.
        Inr (s\<lparr>ks_channels := AList.update key channel (ks_channels s)\<rparr>)))"

definition load_funding :: "client_env \<Rightarrow> client_store \<Rightarrow> funding_attempt \<Rightarrow> client_store res" where
  "load_funding env s attempt =
     (let key = channelKey (fa_channelId attempt) in
      if client_funding s key \<noteq> None then Inl (JsError ''persisted funding attempts contain a duplicate channel'')
      else bindE (persistedFundingAttemptMatchesChannel env (client_channel s key) attempt) (\<lambda>ok.
        if \<not> ok then Inl (JsError ''persisted funding attempt does not match channel state'')
        else Inr (s\<lparr>ks_funding := AList.update key attempt (ks_funding s)\<rparr>)))"

definition load_refund :: "client_store \<Rightarrow> refund_attempt \<Rightarrow> client_store res" where
  "load_refund s attempt =
     (let key = channelKey (ra_channelId attempt) in
      if client_refund s key \<noteq> None then Inl (JsError ''persisted refund attempts contain a duplicate channel'')
      else if \<not> persistedRefundAttemptMatchesChannel (client_channel s key) attempt
              \<or> (isOpenRefundAttempt (Some attempt) \<and> isOpenFundingAttempt (client_funding s key))
      then Inl (JsError ''persisted refund attempt does not match channel state'')
      else Inr (s\<lparr>ks_refunds := AList.update key attempt (ks_refunds s)\<rparr>))"

definition load_payment :: "client_env \<Rightarrow> client_store \<Rightarrow> payment_attempt \<Rightarrow> client_store res" where
  "load_payment env s attempt =
     (let key = channelKey (pa_attemptId attempt) in
      bindE (orE (Inr (client_payment_attempt s key \<noteq> None \<or> ks_identifiers s (pa_paymentIdentifier attempt) \<noteq> None))
               (bindE (exactPaymentAttemptIsConsistent env attempt) (\<lambda>ok. Inr (\<not> ok)))) (\<lambda>bad.
      if bad then Inl (JsError ''persisted exact payment attempt is invalid or duplicated'')
      else Inr (s\<lparr>ks_payments := AList.update key attempt (ks_payments s),
                  ks_identifiers := (ks_identifiers s)(pa_paymentIdentifier attempt \<mapsto> key)\<rparr>)))"

definition openClientStore ::
  "client_env \<Rightarrow> direct_channel list \<Rightarrow> refund_attempt list \<Rightarrow> funding_attempt list \<Rightarrow> payment_attempt list
     \<Rightarrow> client_store res" where
  "openClientStore env channels refundAttempts fundingAttempts exactPaymentAttempts =
     bindE (foldE (load_channel env) empty_client channels) (\<lambda>s1.
     bindE (foldE (load_funding env) s1 fundingAttempts) (\<lambda>s2.
     bindE (foldE load_refund s2 refundAttempts) (\<lambda>s3.
     foldE (load_payment env) s3 exactPaymentAttempts)))"

section \<open>Channels\<close>

definition loadChannels :: "lookup_scope \<Rightarrow> direct_channel list client_op" where
  "loadChannels scope = readS (\<lambda>s. filter (\<lambda>c. matchesScope c scope) (map snd (ks_channels s)))"

definition assertChannelMutable :: "string \<Rightarrow> unit client_op" where
  "assertChannelMutable channel_id =
     (let key = channelKey channel_id in
      bindS (readS (\<lambda>s. (client_funding s key, client_refund s key))) (\<lambda>(funding, refund).
      bindS (unlessS (\<not> isOpenFundingAttempt funding) ''channel has an open funding transition'') (\<lambda>_.
      bindS (unlessS (\<not> isOpenRefundAttempt refund) ''channel has an open refund attempt'') (\<lambda>_.
      unlessS (map_option ra_status refund \<noteq> Some FundingApplied) ''channel has a terminal refund attempt''))))"

definition lost_comparison :: "direct_channel option \<Rightarrow> direct_channel option \<Rightarrow> bool res" where
  \<comment> \<open>the stored channel is not the expected one\<close>
  "lost_comparison existing expected =
     (case existing of
        None \<Rightarrow> Inr (expected \<noteq> None)
      | Some e \<Rightarrow> (case expected of
           None \<Rightarrow> Inr True
         | Some x \<Rightarrow> textDiffers (direct_channel_json e) (direct_channel_json x)))"

definition amount_falls :: "string \<Rightarrow> string \<Rightarrow> bool res" where
  "amount_falls next previous =
     bindE (parseSompiString next) (\<lambda>n. bindE (parseSompiString previous) (\<lambda>p. Inr (n < p)))"

definition payment_state_regresses :: "direct_channel \<Rightarrow> direct_channel \<Rightarrow> bool res" where
  "payment_state_regresses existing channel =
     orE (amount_falls (dc_signedMaxClaimable channel) (dc_signedMaxClaimable existing))
    (orE (amount_falls (dc_chargedCumulativeAmount channel) (dc_chargedCumulativeAmount existing))
    (orE (amount_falls (dc_claimedCumulativeAmount channel) (dc_claimedCumulativeAmount existing))
    (case val_of (dc_latestVoucher existing) of
       None \<Rightarrow> Inr False
     | Some v \<Rightarrow> (case val_of (dc_latestVoucher channel) of
          None \<Rightarrow> Inr True
        | Some w \<Rightarrow> amount_falls (v_authorizedCumulativeAmount w) (v_authorizedCumulativeAmount v)))))"

definition saveChannel :: "client_env \<Rightarrow> direct_channel option \<Rightarrow> direct_channel \<Rightarrow> unit client_op" where
  "saveChannel env expected channel =
     (let key = channelKey (dc_id channel) in
      bindS (assertChannelMutable (dc_id channel)) (\<lambda>_.
      bindS (assertS (assertChannelLineageConsistency env channel)) (\<lambda>_.
      bindS (readS (\<lambda>s. client_channel s key)) (\<lambda>existing.
      bindS (assertS (lost_comparison existing expected)) (\<lambda>lost.
      bindS (unlessS (\<not> lost) ''channel changed before compare-and-set save'') (\<lambda>_.
      bindS (case existing of
               None \<Rightarrow> ret ()
             | Some e \<Rightarrow>
                 bindS (assertS (payment_state_regresses e channel)) (\<lambda>regresses.
                 bindS (unlessS (\<not> regresses) ''channel save would regress monotonic payment state'') (\<lambda>_.
                 bindS (unlessS (sameLineage (dc_lineage e) (dc_lineage channel))
                          ''generic channel save cannot replace authoritative covenant lineage'') (\<lambda>_.
                 unlessS (\<not> (isRefundOnlyStatus (dc_status e) \<and> dc_status channel \<noteq> dc_status e))
                   ''refund-only channel status requires authoritative lineage reconciliation'')))) (\<lambda>_.
      put_channel key channel)))))))"

definition applySettledChannel :: "client_env \<Rightarrow> direct_channel \<Rightarrow> direct_channel \<Rightarrow> direct_channel client_op" where
  "applySettledChannel env expected channel =
     (let key = channelKey (dc_id expected) in
      bindS (readS (\<lambda>s. client_channel s key)) (\<lambda>found.
      case found of
        None \<Rightarrow> failS ''channel changed before settlement apply''
      | Some current \<Rightarrow>
         bindS (unlessS (sameChannelState current expected) ''channel changed before settlement apply'') (\<lambda>_.
         bindS (unlessS (dc_status current = ClientActive \<and> dc_status channel = ClientActive)
                  ''refund-only channel cannot accept a delayed settlement'') (\<lambda>_.
         bindS (assertS (textDiffers
                  (direct_channel_json (channel\<lparr>dc_chargedCumulativeAmount := dc_chargedCumulativeAmount expected,
                     dc_signedMaxClaimable := dc_signedMaxClaimable expected,
                     dc_requiresDepositVoucher := dc_requiresDepositVoucher expected\<rparr>))
                  (direct_channel_json expected))) (\<lambda>changed.
         bindS (unlessS (\<not> changed) ''settlement changed fields outside channel accounting'') (\<lambda>_.
         bindS (assertS (assertChannelLineageConsistency env channel)) (\<lambda>_.
         bindS (put_channel key channel) (\<lambda>_. ret channel))))))))"

definition quarantineChannel :: "direct_channel \<Rightarrow> direct_channel client_op" where
  "quarantineChannel expected =
     (let key = channelKey (dc_id expected) in
      bindS (readS (\<lambda>s. client_channel s key)) (\<lambda>found.
      case found of
        None \<Rightarrow> failS ''channel identity changed before quarantine''
      | Some current \<Rightarrow>
         bindS (unlessS (sameHex (dc_covenantId current) (dc_covenantId expected)
                  \<and> sameManifest (ln_manifest (dc_lineage current)) (ln_manifest (dc_lineage expected)))
                  ''channel identity changed before quarantine'') (\<lambda>_.
         if dc_status current \<noteq> ClientActive then ret current
         else bindS (put_channel key (current\<lparr>dc_status := ClientSuspicious\<rparr>)) (\<lambda>_.
                ret (current\<lparr>dc_status := ClientSuspicious\<rparr>)))))"

definition client_retireChannel :: "string \<Rightarrow> unit client_op" where
  \<comment> \<open>\<open>retireChannel\<close>\<close>
  "client_retireChannel channel_id =
     (let key = channelKey channel_id in
      bindS (assertChannelMutable channel_id) (\<lambda>_.
      bindS (readS (\<lambda>s. client_channel s key)) (\<lambda>found.
      case found of None \<Rightarrow> ret () | Some c \<Rightarrow> put_channel key (c\<lparr>dc_status := ClientRetired\<rparr>))))"

definition deleteChannel :: "string \<Rightarrow> unit client_op" where
  "deleteChannel channel_id =
     (let key = channelKey channel_id in
      bindS (assertChannelMutable channel_id) (\<lambda>_.
      bindS (readS (\<lambda>s. map_option fa_status (client_funding s key) = Some FundingApplied)) (\<lambda>applied.
      bindS (if applied then drop_funding key else ret ()) (\<lambda>_.
      writeS (\<lambda>s. s\<lparr>ks_channels := AList.delete key (ks_channels s)\<rparr>)))))"

fun filterE :: "('a \<Rightarrow> bool res) \<Rightarrow> 'a list \<Rightarrow> 'a list res" where
  "filterE p [] = Inr []"
| "filterE p (x # xs) = bindE (p x) (\<lambda>b. bindE (filterE p xs) (\<lambda>ys. Inr (if b then x # ys else ys)))"

definition listRefundableChannels :: "string opt_field \<Rightarrow> direct_channel list client_op" where
  "listRefundableChannels nowDaa s =
     (s, filterE (\<lambda>c. andE (isRefundable c nowDaa)
            (Inr (\<not> isOpenFundingAttempt (client_funding s (channelKey (dc_id c)))
                  \<and> \<not> isOpenRefundAttempt (client_refund s (channelKey (dc_id c))))))
          (map snd (ks_channels s)))"

section \<open>Funding transitions\<close>

definition loadFundingTransitionAttempt :: "string \<Rightarrow> funding_attempt option client_op" where
  "loadFundingTransitionAttempt channel_id = readS (\<lambda>s. client_funding s (channelKey channel_id))"

definition loadOpenFundingTransitionAttempts :: "lookup_scope \<Rightarrow> funding_attempt list client_op" where
  "loadOpenFundingTransitionAttempts scope =
     readS (\<lambda>s. filter (\<lambda>a. isOpenFundingAttempt (Some a) \<and> matchesFundingAttemptScope a scope) (map snd (ks_funding s)))"

definition competes :: "funding_attempt \<Rightarrow> funding_attempt \<Rightarrow> bool" where
  \<comment> \<open>an open attempt on the same covenant or, for two geneses, on the same payment lane\<close>
  "competes candidate attempt =
     (isOpenFundingAttempt (Some candidate)
      \<and> (sameHex (fs_covenantId (fa_intendedSuccessor candidate)) (fs_covenantId (fa_intendedSuccessor attempt))
         \<or> (case (fa_kind candidate, fa_kind attempt) of
              (GenesisKind i, GenesisKind j) \<Rightarrow> sameGenesisLane i j | _ \<Rightarrow> False)))"

definition claimFundingTransitionAttempt :: "client_env \<Rightarrow> funding_attempt \<Rightarrow> unit client_op" where
  "claimFundingTransitionAttempt env attempt =
     (let key = channelKey (fa_channelId attempt) in
      bindS (requireE (isNewFundingAttempt env attempt) ''new funding transition attempt must be pending'') (\<lambda>_.
      bindS (readS (\<lambda>s. client_funding s key)) (\<lambda>existing.
      bindS (unlessS (\<not> isOpenFundingAttempt existing) ''funding transition attempt is already pending'') (\<lambda>_.
      bindS (readS (\<lambda>s. list_ex (\<lambda>c. competes c attempt) (map snd (ks_funding s)))) (\<lambda>taken.
      bindS (unlessS (\<not> taken) ''payment lane already has an open funding transition'') (\<lambda>_.
      bindS (readS (\<lambda>s. isOpenRefundAttempt (client_refund s key))) (\<lambda>refunding.
      bindS (unlessS (\<not> refunding) ''channel has an open refund attempt'') (\<lambda>_.
      bindS (readS (\<lambda>s. client_channel s key)) (\<lambda>channel.
      bindS (requireE (newFundingAttemptMatchesChannel env channel attempt)
               ''channel state changed before funding transition claim'') (\<lambda>_.
      put_funding key attempt))))))))))"

definition saveFundingTransitionAttempt :: "funding_attempt \<Rightarrow> unit client_op" where
  "saveFundingTransitionAttempt attempt =
     (let key = channelKey (fa_channelId attempt) in
      bindS (readS (\<lambda>s. client_funding s key)) (\<lambda>found.
      case found of
        None \<Rightarrow> failS ''funding transition attempt is not open''
      | Some existing \<Rightarrow>
         bindS (unlessS (fa_status existing \<noteq> FundingApplied) ''funding transition attempt is not open'') (\<lambda>_.
         bindS (unlessS (fa_status existing = FundingPending \<and> fa_status attempt = FundingBroadcast
                  \<and> fa_finality attempt = Val ''broadcast'' \<and> sameFundingArtifact existing attempt)
                  ''funding transition update does not match pending artifact'') (\<lambda>_.
         put_funding key attempt))))"

definition same_kind :: "funding_attempt \<Rightarrow> funding_apply \<Rightarrow> bool" where
  "same_kind attempt request = (case (fa_kind attempt, fr_evidence request) of
     (GenesisKind _, GenesisEvidence _) \<Rightarrow> True | (TopUpKind _, TopUpEvidence _) \<Rightarrow> True | _ \<Rightarrow> False)"

definition require_confirmed :: "accepted_evidence \<Rightarrow> js_number \<Rightarrow> string \<Rightarrow> string \<Rightarrow> unit client_op" where
  "require_confirmed acceptance required transactionId message =
     bindS (assertS (decideChainEvidence (AcceptedEvidence acceptance) required)) (\<lambda>decision.
     unlessS ((case decision of DecidedConfirmed _ \<Rightarrow> True | _ \<Rightarrow> False)
              \<and> sameHex (ae_transactionId acceptance) transactionId) message)"

definition funded_channel :: "client_env \<Rightarrow> funding_attempt \<Rightarrow> funding_evidence \<Rightarrow> direct_channel res" where
  "funded_channel env attempt evidence =
     (case fa_kind attempt of
        GenesisKind intent \<Rightarrow> channelFromGenesisAttempt env attempt intent evidence
      | TopUpKind expected \<Rightarrow> channelFromTopUpAttempt env attempt expected evidence)"

definition applyFundingTransitionAttempt ::
  "client_env \<Rightarrow> funding_apply \<Rightarrow> (direct_channel \<times> funding_attempt) client_op" where
  "applyFundingTransitionAttempt env request =
     (let key = channelKey (fr_channelId request) in
      bindS (readS (\<lambda>s. (client_funding s key, client_channel s key))) (\<lambda>(found, current).
      case found of
        None \<Rightarrow> failS ''funding transition attempt was not found''
      | Some attempt \<Rightarrow>
         bindS (unlessS (same_kind attempt request) ''funding transition kind does not match pending attempt'') (\<lambda>_.
         bindS (unlessS (sameHex (fa_transactionId attempt) (fr_transactionId request))
                  ''funding transaction id does not match pending attempt'') (\<lambda>_.
         bindS (require_confirmed (fr_acceptance request) (fa_requiredConfirmations attempt) (fa_transactionId attempt)
                  ''funding transition has not reached the configured confirmation threshold'') (\<lambda>_.
         if fa_status attempt = FundingApplied then
           (case current of
              Some c \<Rightarrow> bindS (unlessS (appliedFundingAttemptMatchesChannel current attempt)
                         ''applied funding attempt has inconsistent channel state'') (\<lambda>_. ret (c, attempt))
            | None \<Rightarrow> failS ''applied funding attempt has inconsistent channel state'')
         else
           bindS (unlessS (openFundingAttemptMatchesChannel current attempt)
                    ''channel state changed before funding transition apply'') (\<lambda>_.
           bindS (unlessS (evidenceMatchesFundingAttempt request attempt)
                    ''funding transition evidence does not match reserved successor'') (\<lambda>_.
           bindS (assertS (funded_channel env attempt (fr_evidence request))) (\<lambda>channel.
           let applied = attempt\<lparr>fa_status := FundingApplied, fa_finality := Val ''confirmed'',
                                 fa_acceptance := Val (fr_acceptance request)\<rparr>
           in bindS (put_channel key channel) (\<lambda>_.
              bindS (put_funding key applied) (\<lambda>_. ret (channel, applied)))))))))))"

definition releaseFundingTransitionAttempt :: "string \<Rightarrow> string \<Rightarrow> unit client_op" where
  "releaseFundingTransitionAttempt channel_id transactionId =
     (let key = channelKey channel_id in
      bindS (readS (\<lambda>s. (client_funding s key, client_channel s key))) (\<lambda>(found, current).
      case found of
        None \<Rightarrow> failS ''funding transition attempt is not open''
      | Some attempt \<Rightarrow>
         bindS (unlessS (fa_status attempt \<noteq> FundingApplied) ''funding transition attempt is not open'') (\<lambda>_.
         bindS (unlessS (sameHex (fa_transactionId attempt) transactionId)
                  ''funding transaction id does not match pending attempt'') (\<lambda>_.
         bindS (unlessS (openFundingAttemptMatchesChannel current attempt)
                  ''channel state changed before funding transition release'') (\<lambda>_.
         drop_funding key)))))"

section \<open>Refunds\<close>

definition loadRefundAttempt :: "string \<Rightarrow> refund_attempt option client_op" where
  "loadRefundAttempt channel_id = readS (\<lambda>s. client_refund s (channelKey channel_id))"

definition claimRefundAttempt :: "refund_attempt \<Rightarrow> unit client_op" where
  "claimRefundAttempt attempt =
     (let key = channelKey (ra_channelId attempt) in
      bindS (unlessS (ra_status attempt = FundingPending \<and> val_of (ra_finality attempt) = None
               \<and> val_of (ra_acceptance attempt) = None) ''new refund attempt must be pending'') (\<lambda>_.
      bindS (readS (\<lambda>s. client_refund s key)) (\<lambda>existing.
      bindS (unlessS (\<not> isOpenRefundAttempt existing) ''refund attempt is already pending'') (\<lambda>_.
      bindS (unlessS (existing = None) ''refund attempt is already applied'') (\<lambda>_.
      bindS (readS (\<lambda>s. (isOpenFundingAttempt (client_funding s key), client_channel s key))) (\<lambda>(funding, channel).
      bindS (unlessS (\<not> funding) ''channel has an open funding transition'') (\<lambda>_.
      bindS (unlessS (channelMatchesRefundAttempt channel attempt) ''channel state changed before refund claim'') (\<lambda>_.
      put_refund key attempt))))))))"

definition saveRefundAttempt :: "refund_attempt \<Rightarrow> unit client_op" where
  "saveRefundAttempt attempt =
     (let key = channelKey (ra_channelId attempt) in
      bindS (readS (\<lambda>s. client_refund s key)) (\<lambda>found.
      case found of
        None \<Rightarrow> failS ''refund attempt is not open''
      | Some existing \<Rightarrow>
         bindS (unlessS (ra_status existing \<noteq> FundingApplied) ''refund attempt is not open'') (\<lambda>_.
         bindS (unlessS (ra_status existing = FundingPending \<and> ra_status attempt = FundingBroadcast
                  \<and> ra_finality attempt = Val ''broadcast'' \<and> sameRefundArtifact existing attempt)
                  ''refund attempt update does not match pending artifact'') (\<lambda>_.
         put_refund key attempt))))"

definition applyRefundAttempt :: "client_env \<Rightarrow> refund_apply \<Rightarrow> (direct_channel \<times> refund_attempt) client_op" where
  "applyRefundAttempt env request =
     (let key = channelKey (rr_channelId request); acceptance = rr_acceptance request in
      bindS (readS (\<lambda>s. (client_refund s key, client_channel s key))) (\<lambda>(found, current).
      case found of
        None \<Rightarrow> failS ''refund attempt was not found''
      | Some attempt \<Rightarrow>
         bindS (unlessS (sameHex (ra_transactionId attempt) (rr_transactionId request))
                  ''refund transaction id does not match pending attempt'') (\<lambda>_.
         bindS (require_confirmed acceptance (ra_requiredConfirmations attempt) (ra_transactionId attempt)
                  ''refund has not reached the configured confirmation threshold'') (\<lambda>_.
         if ra_status attempt = FundingApplied then
           (case current of
              Some c \<Rightarrow> bindS (unlessS (channelHeadMatchesRefundAttempt current attempt \<and> dc_status c = ClientRefunded
                                  \<and> ra_finality attempt \<in> {Val ''accepted'', Val ''confirmed''})
                         ''applied refund attempt has inconsistent channel state'') (\<lambda>_. ret (c, attempt))
            | None \<Rightarrow> failS ''applied refund attempt has inconsistent channel state'')
         else (case current of
            None \<Rightarrow> failS ''channel state changed before refund apply''
          | Some c \<Rightarrow>
             bindS (unlessS (channelMatchesRefundAttempt current attempt) ''channel state changed before refund apply'') (\<lambda>_.
             bindS (assertS (applyCovenantSelectedChainUpdate (ce_sha env) (dc_lineage c)
                      (single_transition (dc_lineage c) acceptance (refund_transition attempt c acceptance)))) (\<lambda>lineage.
             let refunded = c\<lparr>dc_lineage := lineage, dc_status := ClientRefunded\<rparr>;
                 applied = attempt\<lparr>ra_status := FundingApplied, ra_finality := Val ''confirmed'',
                                   ra_acceptance := Val acceptance\<rparr>
             in bindS (put_channel key refunded) (\<lambda>_.
                bindS (put_refund key applied) (\<lambda>_. ret (refunded, applied))))))))))"

definition releaseRefundAttempt :: "string \<Rightarrow> string \<Rightarrow> unit client_op" where
  "releaseRefundAttempt channel_id transactionId =
     (let key = channelKey channel_id in
      bindS (readS (\<lambda>s. (client_refund s key, client_channel s key))) (\<lambda>(found, current).
      case found of
        None \<Rightarrow> failS ''refund attempt is not open''
      | Some attempt \<Rightarrow>
         bindS (unlessS (ra_status attempt \<noteq> FundingApplied) ''refund attempt is not open'') (\<lambda>_.
         bindS (unlessS (sameHex (ra_transactionId attempt) transactionId)
                  ''refund transaction id does not match pending attempt'') (\<lambda>_.
         bindS (unlessS (channelMatchesRefundAttempt current attempt) ''channel state changed before refund release'') (\<lambda>_.
         drop_refund key)))))"

section \<open>Covenant lineage\<close>

definition loadCovenantLineage :: "string \<Rightarrow> lineage_state option client_op" where
  "loadCovenantLineage channel_id = readS (\<lambda>s. map_option dc_lineage (client_channel s (channelKey channel_id)))"

fun removes :: "accepted_evidence \<Rightarrow> string \<Rightarrow> lineage_event \<Rightarrow> bool" where
  \<comment> \<open>the event removes the transaction together with the block that accepted it\<close>
  "removes acceptance transactionId (RemovedEvent n block ids) =
     (sameHex block (ae_acceptingBlockHash acceptance) \<and> list_ex (\<lambda>i. sameHex i transactionId) ids)"
| "removes _ _ _ = False"

definition removal_verified :: "accepted_evidence opt_field \<Rightarrow> string \<Rightarrow> lineage_event list \<Rightarrow> bool" where
  "removal_verified acceptance transactionId appended =
     (case acceptance of Val e \<Rightarrow> list_ex (removes e transactionId) appended | _ \<Rightarrow> False)"

definition compacted_events :: "lineage_state \<Rightarrow> lineage_state \<Rightarrow> nat" where
  "compacted_events previous next =
     num_diff (an_compactedEvents (ln_anchor next)) (an_compactedEvents (ln_anchor previous))"

definition appended_events :: "lineage_state \<Rightarrow> lineage_state \<Rightarrow> lineage_event list" where
  "appended_events previous next =
     drop (length (ln_journal previous) - compacted_events previous next) (ln_journal next)"

definition still_canonical ::
  "client_env \<Rightarrow> lineage_state \<Rightarrow> lineage_state \<Rightarrow> string \<Rightarrow> (lineage_transition \<Rightarrow> bool) \<Rightarrow> bool res" where
  "still_canonical env previous next transactionId wanted =
     orE (Inr (to_lower transactionId \<in> set (accepted_ids (take (compacted_events previous next) (ln_journal previous)))))
       (bindE (canonicalCovenantTransitions (ce_sha env) next) (\<lambda>ts. Inr (list_ex wanted ts)))"

definition reopen_topup ::
  "client_env \<Rightarrow> string \<Rightarrow> direct_channel \<Rightarrow> lineage_state \<Rightarrow> direct_channel \<Rightarrow> funding_attempt \<Rightarrow> unit client_op" where
  \<comment> \<open>an applied top-up whose transaction left the selected chain is open again\<close>
  "reopen_topup env key current lineage channel attempt =
     bindS (assertS (still_canonical env (dc_lineage current) lineage (fa_transactionId attempt)
              (\<lambda>t. sameHex (lt_transactionId t) (fa_transactionId attempt)))) (\<lambda>canonical.
     if canonical then ret ()
     else bindS (unlessS (dc_status channel = ClientRefundable
                   \<and> removal_verified (fa_acceptance attempt) (fa_transactionId attempt)
                       (appended_events (dc_lineage current) lineage))
                   ''applied top-up can only reopen after its selected-chain removal'') (\<lambda>_.
          put_funding key (attempt\<lparr>fa_kind := TopUpKind channel, fa_status := FundingBroadcast,
                                    fa_finality := Val ''broadcast'', fa_acceptance := Undef\<rparr>)))"

definition undo_refund ::
  "client_env \<Rightarrow> string \<Rightarrow> direct_channel \<Rightarrow> lineage_state \<Rightarrow> direct_channel \<Rightarrow> refund_attempt \<Rightarrow> unit client_op" where
  \<comment> \<open>an applied refund whose transaction left the selected chain is dropped\<close>
  "undo_refund env key current lineage channel attempt =
     bindS (assertS (still_canonical env (dc_lineage current) lineage (ra_transactionId attempt)
              (\<lambda>t. lt_kind t = ''refund'' \<and> sameHex (lt_transactionId t) (ra_transactionId attempt)
                   \<and> sameOutpoint (lt_consumedOutpoint t) (ra_activeOutpoint attempt)))) (\<lambda>canonical.
     if canonical then ret ()
     else bindS (unlessS (dc_status current = ClientRefunded \<and> ln_currentHead (dc_lineage current) = None
                   \<and> ln_currentHead lineage \<noteq> None \<and> dc_status channel = ClientRefundable
                   \<and> removal_verified (ra_acceptance attempt) (ra_transactionId attempt)
                       (appended_events (dc_lineage current) lineage))
                   (''applied refund can only roll back after its selected-chain removal '' @ ''restores a refund-only head'')) (\<lambda>_.
          drop_refund key))"

definition reconcile_funding ::
  "client_env \<Rightarrow> string \<Rightarrow> direct_channel \<Rightarrow> lineage_state \<Rightarrow> direct_channel \<Rightarrow> funding_attempt option \<Rightarrow> unit client_op" where
  "reconcile_funding env key current lineage channel funding =
     (case funding of
        Some attempt \<Rightarrow>
          (case fa_kind attempt of
             TopUpKind _ \<Rightarrow> if fa_status attempt = FundingApplied
                            then reopen_topup env key current lineage channel attempt else ret ()
           | GenesisKind _ \<Rightarrow> ret ())
      | None \<Rightarrow> ret ())"

definition reconcile_refund ::
  "client_env \<Rightarrow> string \<Rightarrow> direct_channel \<Rightarrow> lineage_state \<Rightarrow> direct_channel \<Rightarrow> refund_attempt option \<Rightarrow> unit client_op" where
  "reconcile_refund env key current lineage channel refund =
     (case refund of
        Some attempt \<Rightarrow> if ra_status attempt = FundingApplied
                        then undo_refund env key current lineage channel attempt else ret ()
      | None \<Rightarrow> ret ())"

definition client_applyCovenantLineage ::
  "client_env \<Rightarrow> direct_channel \<Rightarrow> lineage_state \<Rightarrow> direct_channel \<Rightarrow> direct_channel client_op" where
  \<comment> \<open>\<open>applyCovenantLineage\<close>\<close>
  "client_applyCovenantLineage env expectedChannel lineage channel =
     (let key = channelKey (dc_id expectedChannel) in
      bindS (readS (\<lambda>s. (client_channel s key, client_funding s key, client_refund s key))) (\<lambda>(found, funding, refund).
      case found of
        None \<Rightarrow> failS ''channel changed before covenant lineage reconciliation''
      | Some current \<Rightarrow>
         bindS (unlessS (sameChannelState current expectedChannel)
                  ''channel changed before covenant lineage reconciliation'') (\<lambda>_.
         bindS (unlessS (\<not> isOpenFundingAttempt funding) ''channel has an open funding transition'') (\<lambda>_.
         bindS (unlessS (\<not> isOpenRefundAttempt refund) ''channel has an open refund attempt'') (\<lambda>_.
         bindS (unlessS (sameManifest (ln_manifest (dc_lineage current)) (ln_manifest lineage))
                  ''covenant launch manifest is immutable'') (\<lambda>_.
         bindS (assertS (assertCovenantLineageExtension (ce_sha env) (dc_lineage current) lineage)) (\<lambda>_.
         bindS (unlessS (sameHex (dc_id channel) (dc_id current) \<and> sameLineage (dc_lineage channel) lineage)
                  ''reconciled channel does not own the supplied lineage'') (\<lambda>_.
         bindS (assertS (assertChannelLineageConsistency env channel)) (\<lambda>_.
         bindS (reconcile_funding env key current lineage channel funding) (\<lambda>_.
         bindS (reconcile_refund env key current lineage channel refund) (\<lambda>_.
         bindS (put_channel key channel) (\<lambda>_. ret channel))))))))))))"

section \<open>Exact payments\<close>

definition loadExactPaymentAttempt :: "string \<Rightarrow> payment_attempt option client_op" where
  "loadExactPaymentAttempt attemptId = readS (\<lambda>s. client_payment_attempt s (channelKey attemptId))"

definition owner_of_identifier :: "client_store \<Rightarrow> string \<Rightarrow> payment_attempt option" where
  \<comment> \<open>an empty key counts as none\<close>
  "owner_of_identifier s identifier =
     (case ks_identifiers s identifier of
        None \<Rightarrow> None | Some key \<Rightarrow> if key = [] then None else client_payment_attempt s key)"

definition loadExactPaymentAttemptByIdentifier :: "string \<Rightarrow> payment_attempt option client_op" where
  "loadExactPaymentAttemptByIdentifier paymentIdentifier = readS (\<lambda>s. owner_of_identifier s paymentIdentifier)"

definition claimExactPaymentAttempt :: "client_env \<Rightarrow> payment_attempt \<Rightarrow> payment_attempt client_op" where
  "claimExactPaymentAttempt env attempt =
     (let key = channelKey (pa_attemptId attempt) in
      bindS (requireE (andE (exactPaymentAttemptIsConsistent env attempt) (Inr (pa_status attempt = PaymentPending)))
               ''new exact payment attempt is inconsistent'') (\<lambda>_.
      bindS (readS (\<lambda>s. case client_payment_attempt s key of
               Some a \<Rightarrow> Some a | None \<Rightarrow> owner_of_identifier s (pa_paymentIdentifier attempt))) (\<lambda>existing.
      case existing of
        Some e \<Rightarrow>
          bindS (requireE (sameExactPaymentIntent e attempt)
                   ''exact payment attempt conflicts with an existing logical payment'') (\<lambda>_. ret e)
      | None \<Rightarrow>
          bindS (put_payment key attempt) (\<lambda>_.
          bindS (writeS (\<lambda>s. s\<lparr>ks_identifiers := (ks_identifiers s)(pa_paymentIdentifier attempt \<mapsto> key)\<rparr>)) (\<lambda>_.
          ret attempt)))))"

record payment_resolution =
  pr_attemptId :: string
  pr_transactionId :: string
  pr_accepted :: bool
    \<comment> \<open>the outcome: accepted or absent\<close>
  pr_evidence :: transaction_evidence
  pr_output :: "exact_output opt_field"

definition resolution_consistent :: "payment_resolution \<Rightarrow> payment_attempt \<Rightarrow> bool" where
  "resolution_consistent input attempt =
     (sameHex (evidence_transaction (pr_evidence input)) (pa_transactionId attempt)
      \<and> (if pr_accepted input
         then evidence_is_accepted (pr_evidence input) \<and> val_of (pr_output input) \<noteq> None
         else evidence_is_absent (pr_evidence input) \<and> val_of (pr_output input) = None))"

definition resolution_status :: "payment_resolution \<Rightarrow> payment_status" where
  "resolution_status input = (if pr_accepted input then PaymentAccepted else PaymentAbsent)"

definition resolveExactPaymentAttempt :: "client_env \<Rightarrow> payment_resolution \<Rightarrow> payment_attempt client_op" where
  "resolveExactPaymentAttempt env input =
     (let key = channelKey (pr_attemptId input) in
      bindS (readS (\<lambda>s. client_payment_attempt s key)) (\<lambda>found.
      case found of
        None \<Rightarrow> failS ''exact payment attempt was not found''
      | Some attempt \<Rightarrow>
         bindS (unlessS (sameHex (pa_transactionId attempt) (pr_transactionId input))
                  ''exact transaction id does not match pending attempt'') (\<lambda>_.
         if pa_status attempt \<noteq> PaymentPending
         then bindS (unlessS (pa_status attempt = resolution_status input)
                       ''exact payment terminal outcome cannot change'') (\<lambda>_. ret attempt)
         else bindS (unlessS (resolution_consistent input attempt)
                       ''exact payment resolution evidence is inconsistent'') (\<lambda>_.
           let resolved = attempt\<lparr>pa_status := resolution_status input, pa_evidence := Val (pr_evidence input),
                 pa_output := (case pr_output input of Val o' \<Rightarrow> Val o' | _ \<Rightarrow> pa_output attempt),
                 pa_providerFinalized := False\<rparr>
           in bindS (requireE (exactPaymentAttemptIsConsistent env resolved)
                       ''resolved exact payment attempt is inconsistent'') (\<lambda>_.
              bindS (put_payment key resolved) (\<lambda>_. ret resolved))))))"

definition markExactPaymentProviderFinalized :: "string \<Rightarrow> string \<Rightarrow> payment_attempt client_op" where
  "markExactPaymentProviderFinalized attemptId transactionId =
     (let key = channelKey attemptId in
      bindS (readS (\<lambda>s. client_payment_attempt s key)) (\<lambda>found.
      case found of
        None \<Rightarrow> failS ''exact payment attempt was not found''
      | Some attempt \<Rightarrow>
         bindS (unlessS (sameHex (pa_transactionId attempt) transactionId)
                  ''exact transaction id does not match pending attempt'') (\<lambda>_.
         bindS (unlessS (pa_status attempt \<noteq> PaymentPending)
                  ''pending exact payment cannot finalize provider state'') (\<lambda>_.
         bindS (put_payment key (attempt\<lparr>pa_providerFinalized := True\<rparr>)) (\<lambda>_.
         ret (attempt\<lparr>pa_providerFinalized := True\<rparr>))))))"

section \<open>Calls\<close>

datatype client_command =
    SaveChannel "direct_channel option" direct_channel
  | ApplySettled direct_channel direct_channel
  | Quarantine direct_channel
  | Retire string
  | Delete string
  | ClaimFunding funding_attempt
  | SaveFunding funding_attempt
  | ApplyFunding funding_apply
  | ReleaseFunding string string
  | ClaimRefund refund_attempt
  | SaveRefund refund_attempt
  | ApplyRefund refund_apply
  | ReleaseRefund string string
  | ApplyLineage direct_channel lineage_state direct_channel
  | ClaimPayment payment_attempt
  | ResolvePayment payment_resolution
  | FinalizePayment string string

fun client_call :: "client_env \<Rightarrow> client_command \<Rightarrow> unit client_op" where
  "client_call env (SaveChannel e c) = saveChannel env e c"
| "client_call env (ApplySettled e c) = doneS (applySettledChannel env e c)"
| "client_call env (Quarantine e) = doneS (quarantineChannel e)"
| "client_call env (Retire i) = client_retireChannel i"
| "client_call env (Delete i) = deleteChannel i"
| "client_call env (ClaimFunding a) = claimFundingTransitionAttempt env a"
| "client_call env (SaveFunding a) = saveFundingTransitionAttempt a"
| "client_call env (ApplyFunding r) = doneS (applyFundingTransitionAttempt env r)"
| "client_call env (ReleaseFunding i t) = releaseFundingTransitionAttempt i t"
| "client_call env (ClaimRefund a) = claimRefundAttempt a"
| "client_call env (SaveRefund a) = saveRefundAttempt a"
| "client_call env (ApplyRefund r) = doneS (applyRefundAttempt env r)"
| "client_call env (ReleaseRefund i t) = releaseRefundAttempt i t"
| "client_call env (ApplyLineage e l c) = doneS (client_applyCovenantLineage env e l c)"
| "client_call env (ClaimPayment a) = doneS (claimExactPaymentAttempt env a)"
| "client_call env (ResolvePayment i) = doneS (resolveExactPaymentAttempt env i)"
| "client_call env (FinalizePayment a t) = doneS (markExactPaymentProviderFinalized a t)"

end
