(* ===== verification/Client_Lineage.thy ===== *)
theory Client_Lineage
  imports Client_Attempts Chain_Compaction
begin

text \<open>
  The lineage that a funding or refund transaction leaves behind. Both extend the lineage of the
  channel by one accepted transition; whatever the update compacts, the new head is the one that this
  transition produces. So the channels that the client store derives agree with their lineages.
\<close>

section \<open>Appending one transition\<close>

lemma advance_topup:
  assumes "advance_head head t = Inr head'" "lt_successor t = Some s" "lt_kind t \<noteq> ''refund''"
  shows "head' = Some (successor_head s)"
  using assms by (auto simp: advance_head_def run_simps split: option.splits if_splits)

lemma advance_refund: "advance_head head t = Inr head' \<Longrightarrow> lt_kind t = ''refund'' \<Longrightarrow> head' = None"
  by (auto simp: advance_head_def run_simps split: option.splits if_splits)

lemma derive_last:
  assumes "derive_head m a (journal @ [AcceptedEvent n t]) = Inr head"
  shows "\<exists>h. advance_head h t = Inr head"
proof -
  obtain ts where ts: "canonicalAcceptedEvents (journal @ [AcceptedEvent n t]) = Inr ts"
    "derive_loop [] (start_head m a (journal @ [AcceptedEvent n t])) ts = Inr head"
    using assms by (auto simp: derive_head_def run_simps)
  obtain old where "ts = old @ [t]"
    using ts(1) by (auto simp: canonicalAcceptedEvents_Inr canonical_loop_append run_simps split: if_splits)
  then show ?thesis using ts(2) by (auto simp: derive_loop_append run_simps split: if_splits)
qed

lemma resequenced_snoc:
  "resequenced (xs @ [AcceptedEvent n t]) = resequenced xs @ [AcceptedEvent (JsInt (int (length xs))) t]"
  by (simp add: resequenced_def)

lemma single_transition_head:
  assumes "applyCovenantSelectedChainUpdate sha lineage (single_transition lineage acceptance t) = Inr lineage'"
  shows "\<exists>h. advance_head h t = Inr (ln_currentHead lineage')" and "ln_manifest lineage' = ln_manifest lineage"
proof -
  let ?journal = "ln_journal lineage @ [AcceptedEvent (JsInt (int (length (ln_journal lineage)))) t]"
  let ?block = "\<lparr>sb_blockHash = ae_acceptingBlockHash acceptance, sb_genesisAcceptance = None, sb_transitions = [t]\<rparr>"
  obtain journal' where added: "add_blocks (ln_manifest lineage) (ln_anchor lineage) (ae_checkpoint acceptance) [] []
      (ln_journal lineage) [?block] = Inr journal'"
    and fin: "finish_update sha (lineage\<lparr>ln_journal := journal', ln_checkpoint := ae_checkpoint acceptance\<rparr>) = Inr lineage'"
    using assms by (auto simp: applyCovenantSelectedChainUpdate_def single_transition_def apply_delta_def run_simps
        simp del: add_blocks.simps split: if_splits)
  have journal': "journal' = ?journal"
    using added by (auto simp: reaccept_genesis_def Let_def run_simps split: if_splits)
  obtain compacted head where c: "compactLineage sha (lineage\<lparr>ln_journal := journal', ln_checkpoint := ae_checkpoint acceptance\<rparr>) = Inr compacted"
    "derive_head (ln_manifest compacted) (ln_anchor compacted) (ln_journal compacted) = Inr head"
    "ln_manifest lineage' = ln_manifest compacted" "ln_currentHead lineage' = head"
    using finish_update_Inr [OF fin] by metis
  have same: "ln_manifest compacted = ln_manifest lineage"
    and "\<exists>old n. ln_journal compacted = old @ [AcceptedEvent n t]"
    using compactLineage_Inr [OF c(1)] by (auto simp: journal' resequenced_snoc)
  then obtain old n where "derive_head (ln_manifest compacted) (ln_anchor compacted) (old @ [AcceptedEvent n t]) = Inr head"
    using c(2) by auto
  from derive_last [OF this] show "\<exists>h. advance_head h t = Inr (ln_currentHead lineage')" by (simp add: c(4))
  show "ln_manifest lineage' = ln_manifest lineage" using c(3) same by simp
qed

section \<open>The index of a channel\<close>

definition index_ok :: "direct_channel \<Rightarrow> bool" where
  \<comment> \<open>the channel shows the head that its lineage derives, a refunded channel none\<close>
  "index_ok c = (case ln_currentHead (dc_lineage c) of
     None \<Rightarrow> dc_status c = ClientRefunded | Some h \<Rightarrow> dc_status c \<noteq> ClientRefunded \<and> head_matches h c)"

lemma consistent_index: "assertChannelLineageConsistency env c = Inr u \<Longrightarrow> index_ok c"
  by (auto simp: assertChannelLineageConsistency_def index_ok_def run_simps split: if_splits option.splits)

lemma created_head:
  "createCovenantLineageState sha manifest = Inr lineage \<Longrightarrow> ln_currentHead lineage = Some (genesis_head manifest)"
  by (auto simp: createCovenantLineageState_def Let_def run_simps split: if_splits)

lemma genesis_channel_index:
  assumes "channelFromGenesisAttempt env attempt intent evidence = Inr c"
    and "evidence = GenesisEvidence e" "genesisEvidenceMatchesSuccessor e (fa_intendedSuccessor attempt)"
  shows "index_ok c \<and> dc_id c = fa_channelId attempt"
proof -
  obtain lineage where l: "createCovenantLineageState (ce_sha env)
       (escrow_manifest (ce_escrow env) (cc_network (gi_config intent)) (genesis_of_evidence (fa_transactionId attempt) e)) = Inr lineage"
    and c: "dc_lineage c = lineage" "dc_status c = ClientActive" "dc_id c = fa_channelId attempt"
      "dc_activeOutpoint c = fs_outpoint (fa_intendedSuccessor attempt)"
      "dc_activeScriptPublicKey c = fs_scriptPublicKey (fa_intendedSuccessor attempt)"
      "dc_fundingAmount c = fs_amount (fa_intendedSuccessor attempt)" "dc_claimedCumulativeAmount c = ''0''"
    using assms(1,2) by (auto simp: channelFromGenesisAttempt_def Let_def run_simps)
  have "ln_currentHead lineage = Some (genesis_head
     (escrow_manifest (ce_escrow env) (cc_network (gi_config intent)) (genesis_of_evidence (fa_transactionId attempt) e)))"
    by (rule created_head [OF l])
  then show ?thesis using assms(3) c
    by (simp add: index_ok_def head_matches_def genesis_head_def escrow_manifest_def genesis_of_evidence_def
        genesisEvidenceMatchesSuccessor_def sameHex_def)
qed

lemma topup_channel_index:
  assumes "channelFromTopUpAttempt env attempt expected evidence = Inr c"
    and "evidence = TopUpEvidence e" "topUpEvidenceMatches e expected (fa_intendedSuccessor attempt)"
    and "dc_status expected \<noteq> ClientRefunded"
  shows "index_ok c \<and> dc_id c = dc_id expected \<and> dc_status c = dc_status expected"
proof -
  obtain lineage where l: "applyCovenantSelectedChainUpdate (ce_sha env) (dc_lineage expected)
       (single_transition (dc_lineage expected) (te_acceptance e) (topup_transition attempt expected e)) = Inr lineage"
    and c: "c = expected\<lparr>dc_activeOutpoint := fs_outpoint (fa_intendedSuccessor attempt),
       dc_activeScriptPublicKey := fs_scriptPublicKey (fa_intendedSuccessor attempt),
       dc_fundingAmount := fs_amount (fa_intendedSuccessor attempt), dc_lastTopUpEvidence := Val e,
       dc_lineage := lineage, dc_requiresDepositVoucher := True\<rparr>"
    using assms(1,2) by (auto simp: channelFromTopUpAttempt_def Let_def run_simps)
  obtain h where "advance_head h (topup_transition attempt expected e) = Inr (ln_currentHead lineage)"
    using single_transition_head(1) [OF l] by blast
  then have "ln_currentHead lineage = Some (successor_head (the (lt_successor (topup_transition attempt expected e))))"
    by (rule advance_topup) (simp_all add: topup_transition_def)
  then show ?thesis using assms(3,4) c
    by (simp add: index_ok_def head_matches_def successor_head_def topup_transition_def topUpEvidenceMatches_def sameHex_def)
qed

lemma refund_channel_index:
  assumes "applyCovenantSelectedChainUpdate sha (dc_lineage c) (single_transition (dc_lineage c) acceptance
     (refund_transition attempt c acceptance)) = Inr lineage"
  shows "index_ok (c\<lparr>dc_lineage := lineage, dc_status := ClientRefunded\<rparr>)"
proof -
  obtain h where "advance_head h (refund_transition attempt c acceptance) = Inr (ln_currentHead lineage)"
    using single_transition_head(1) [OF assms] by blast
  then have "ln_currentHead lineage = None" by (rule advance_refund) (simp add: refund_transition_def)
  then show ?thesis by (simp add: index_ok_def)
qed

end
