(* ===== verification/Client_Invariant.thy ===== *)
theory Client_Invariant
  imports Client_Store Client_Lineage
begin

text \<open>
  The invariant of the client store and its preservation by every call. A stored channel shows the
  head that its lineage derives; a channel never has an open funding transaction and an open refund
  at once; an applied transaction carries confirmed evidence of its own acceptance; payment
  identifiers and exact payments correspond one to one. Each call is verified in the calculus of
  \<^verbatim>\<open>Store_Programs\<close>, on its normal exit and on every throw.
\<close>

section \<open>The invariant\<close>

definition confirmed_by :: "accepted_evidence opt_field \<Rightarrow> js_number \<Rightarrow> string \<Rightarrow> bool" where
  "confirmed_by found required transactionId =
     (\<exists>e d. found = Val e \<and> decideChainEvidence (AcceptedEvidence e) required = Inr (DecidedConfirmed d)
        \<and> sameHex (ae_transactionId e) transactionId)"

definition client_channel_ok :: "string \<Rightarrow> direct_channel \<Rightarrow> bool" where
  "client_channel_ok k c = (to_lower (dc_id c) = k \<and> (dc_status c \<noteq> ClientRetired \<longrightarrow> index_ok c))"

fun kind_ok :: "string \<Rightarrow> funding_kind \<Rightarrow> bool" where
  "kind_ok k (GenesisKind i) = True"
| "kind_ok k (TopUpKind c) = (to_lower (dc_id c) = k \<and> dc_status c \<noteq> ClientRefunded)"

definition funding_ok :: "string \<Rightarrow> funding_attempt \<Rightarrow> bool" where
  "funding_ok k a = (to_lower (fa_channelId a) = k \<and> kind_ok k (fa_kind a)
     \<and> (fa_status a = FundingApplied \<longrightarrow> confirmed_by (fa_acceptance a) (fa_requiredConfirmations a) (fa_transactionId a)))"

definition refund_ok :: "string \<Rightarrow> refund_attempt \<Rightarrow> bool" where
  "refund_ok k a = (to_lower (ra_channelId a) = k
     \<and> (ra_status a = FundingApplied \<longrightarrow> confirmed_by (ra_acceptance a) (ra_requiredConfirmations a) (ra_transactionId a)))"

definition payment_ok :: "client_env \<Rightarrow> string \<Rightarrow> payment_attempt \<Rightarrow> bool" where
  "payment_ok env k a = (to_lower (pa_attemptId a) = k \<and> exactPaymentAttemptIsConsistent env a = Inr True)"

definition client_ok :: "client_env \<Rightarrow> client_store \<Rightarrow> bool" where
  "client_ok env s = (
     (\<forall>k c. client_channel s k = Some c \<longrightarrow> client_channel_ok k c)
     \<and> (\<forall>k a. client_funding s k = Some a \<longrightarrow> funding_ok k a)
     \<and> (\<forall>k a. client_refund s k = Some a \<longrightarrow> refund_ok k a)
     \<and> (\<forall>k. \<not> (isOpenFundingAttempt (client_funding s k) \<and> isOpenRefundAttempt (client_refund s k)))
     \<and> (\<forall>k a. client_payment_attempt s k = Some a \<longrightarrow> payment_ok env k a)
     \<and> (\<forall>i k. ks_identifiers s i = Some k \<longleftrightarrow> (\<exists>a. client_payment_attempt s k = Some a \<and> pa_paymentIdentifier a = i)))"

lemma client_okD:
  assumes "client_ok env s"
  shows "client_channel s k = Some c \<Longrightarrow> client_channel_ok k c"
    "client_funding s k = Some a \<Longrightarrow> funding_ok k a"
    "client_refund s k = Some r \<Longrightarrow> refund_ok k r"
    "\<not> (isOpenFundingAttempt (client_funding s k) \<and> isOpenRefundAttempt (client_refund s k))"
    "client_payment_attempt s k = Some p \<Longrightarrow> payment_ok env k p"
    "ks_identifiers s i = Some k \<longleftrightarrow> (\<exists>a. client_payment_attempt s k = Some a \<and> pa_paymentIdentifier a = i)"
  using assms unfolding client_ok_def by blast+

section \<open>Lookups and writes\<close>

lemmas client_lookups = client_channel_def client_funding_def client_refund_def client_payment_attempt_def

named_theorems client_writes \<open>lookups after a write\<close>

lemma client_write_channel [client_writes]:
  "client_channel (s\<lparr>ks_channels := AList.update k c (ks_channels s)\<rparr>) = (client_channel s)(k \<mapsto> c)"
  "client_channel (s\<lparr>ks_channels := AList.delete k (ks_channels s)\<rparr>) = (client_channel s)(k := None)"
  "client_channel (s\<lparr>ks_funding := f\<rparr>) = client_channel s" "client_channel (s\<lparr>ks_refunds := r\<rparr>) = client_channel s"
  "client_channel (s\<lparr>ks_payments := p\<rparr>) = client_channel s" "client_channel (s\<lparr>ks_identifiers := i\<rparr>) = client_channel s"
  by (auto simp: client_lookups fun_eq_iff update_conv delete_conv)

lemma client_write_funding [client_writes]:
  "client_funding (s\<lparr>ks_funding := AList.update k a (ks_funding s)\<rparr>) = (client_funding s)(k \<mapsto> a)"
  "client_funding (s\<lparr>ks_funding := AList.delete k (ks_funding s)\<rparr>) = (client_funding s)(k := None)"
  "client_funding (s\<lparr>ks_channels := c\<rparr>) = client_funding s" "client_funding (s\<lparr>ks_refunds := r\<rparr>) = client_funding s"
  "client_funding (s\<lparr>ks_payments := p\<rparr>) = client_funding s" "client_funding (s\<lparr>ks_identifiers := i\<rparr>) = client_funding s"
  by (auto simp: client_lookups fun_eq_iff update_conv delete_conv)

lemma client_write_refund [client_writes]:
  "client_refund (s\<lparr>ks_refunds := AList.update k a (ks_refunds s)\<rparr>) = (client_refund s)(k \<mapsto> a)"
  "client_refund (s\<lparr>ks_refunds := AList.delete k (ks_refunds s)\<rparr>) = (client_refund s)(k := None)"
  "client_refund (s\<lparr>ks_channels := c\<rparr>) = client_refund s" "client_refund (s\<lparr>ks_funding := f\<rparr>) = client_refund s"
  "client_refund (s\<lparr>ks_payments := p\<rparr>) = client_refund s" "client_refund (s\<lparr>ks_identifiers := i\<rparr>) = client_refund s"
  by (auto simp: client_lookups fun_eq_iff update_conv delete_conv)

lemma client_write_payment [client_writes]:
  "client_payment_attempt (s\<lparr>ks_payments := AList.update k a (ks_payments s)\<rparr>) = (client_payment_attempt s)(k \<mapsto> a)"
  "client_payment_attempt (s\<lparr>ks_channels := c\<rparr>) = client_payment_attempt s"
  "client_payment_attempt (s\<lparr>ks_funding := f\<rparr>) = client_payment_attempt s"
  "client_payment_attempt (s\<lparr>ks_refunds := r\<rparr>) = client_payment_attempt s"
  "client_payment_attempt (s\<lparr>ks_identifiers := i\<rparr>) = client_payment_attempt s"
  by (auto simp: client_lookups fun_eq_iff update_conv)

lemma wp_puts [wp_simps]:
  "wp (put_channel k c) Q E = (\<lambda>s. Q () (s\<lparr>ks_channels := AList.update k c (ks_channels s)\<rparr>))"
  "wp (put_funding k a) Q E = (\<lambda>s. Q () (s\<lparr>ks_funding := AList.update k a (ks_funding s)\<rparr>))"
  "wp (drop_funding k) Q E = (\<lambda>s. Q () (s\<lparr>ks_funding := AList.delete k (ks_funding s)\<rparr>))"
  "wp (put_refund k r) Q E = (\<lambda>s. Q () (s\<lparr>ks_refunds := AList.update k r (ks_refunds s)\<rparr>))"
  "wp (drop_refund k) Q E = (\<lambda>s. Q () (s\<lparr>ks_refunds := AList.delete k (ks_refunds s)\<rparr>))"
  "wp (put_payment k p) Q E = (\<lambda>s. Q () (s\<lparr>ks_payments := AList.update k p (ks_payments s)\<rparr>))"
  by (simp_all add: put_channel_def put_funding_def drop_funding_def put_refund_def drop_refund_def put_payment_def wp_simps)

lemma wp_requireE [wp_simps]:
  "wp (requireE r message) Q E = (\<lambda>s. if r = Inr True then Q () s else E s)"
  by (cases r) (auto simp: requireE_def wp_simps fun_eq_iff)

lemma wp_require_confirmed [wp_simps]:
  "wp (require_confirmed e n t message) Q E = (\<lambda>s. if confirmed_by (Val e) n t then Q () s else E s)"
  by (auto simp: require_confirmed_def confirmed_by_def wp_simps fun_eq_iff split: sum.splits evidence_decision.splits)

lemma open_attempt [simp]:
  "isOpenFundingAttempt None = False" "isOpenFundingAttempt (Some a) = (fa_status a \<noteq> FundingApplied)"
  "isOpenRefundAttempt None = False" "isOpenRefundAttempt (Some r) = (ra_status r \<noteq> FundingApplied)"
  by (simp_all add: isOpenFundingAttempt_def isOpenRefundAttempt_def)

lemma wp_mutable [wp_simps]:
  "wp (assertChannelMutable i) Q E = (\<lambda>s. if isOpenFundingAttempt (client_funding s (to_lower i)) \<or> client_refund s (to_lower i) \<noteq> None
     then E s else Q () s)"
  by (auto simp: assertChannelMutable_def wp_simps fun_eq_iff Let_def isOpenRefundAttempt_def split: option.splits)

section \<open>Writes that keep the invariant\<close>

lemma ok_put_channel:
  "client_ok env s \<Longrightarrow> client_channel_ok k c \<Longrightarrow> client_ok env (s\<lparr>ks_channels := AList.update k c (ks_channels s)\<rparr>)"
  by (simp add: client_ok_def client_writes)

lemma ok_drop_channel: "client_ok env s \<Longrightarrow> client_ok env (s\<lparr>ks_channels := AList.delete k (ks_channels s)\<rparr>)"
  by (simp add: client_ok_def client_writes)

lemma ok_put_funding:
  "client_ok env s \<Longrightarrow> funding_ok k a \<Longrightarrow> (fa_status a \<noteq> FundingApplied \<Longrightarrow> \<not> isOpenRefundAttempt (client_refund s k)) \<Longrightarrow>
     client_ok env (s\<lparr>ks_funding := AList.update k a (ks_funding s)\<rparr>)"
  by (simp add: client_ok_def client_writes)

lemma ok_drop_funding: "client_ok env s \<Longrightarrow> client_ok env (s\<lparr>ks_funding := AList.delete k (ks_funding s)\<rparr>)"
  by (simp add: client_ok_def client_writes)

lemma ok_put_refund:
  "client_ok env s \<Longrightarrow> refund_ok k a \<Longrightarrow> (ra_status a \<noteq> FundingApplied \<Longrightarrow> \<not> isOpenFundingAttempt (client_funding s k)) \<Longrightarrow>
     client_ok env (s\<lparr>ks_refunds := AList.update k a (ks_refunds s)\<rparr>)"
  by (simp add: client_ok_def client_writes) blast

lemma ok_drop_refund: "client_ok env s \<Longrightarrow> client_ok env (s\<lparr>ks_refunds := AList.delete k (ks_refunds s)\<rparr>)"
  by (simp add: client_ok_def client_writes)

lemma ok_put_payment:
  assumes "client_ok env s" "payment_ok env k p" "client_payment_attempt s k = Some q" "pa_paymentIdentifier p = pa_paymentIdentifier q"
  shows "client_ok env (s\<lparr>ks_payments := AList.update k p (ks_payments s)\<rparr>)"
  using assms by (simp add: client_ok_def client_writes)

lemma ok_new_payment:
  assumes "client_ok env s" "payment_ok env k p" "client_payment_attempt s k = None" "ks_identifiers s (pa_paymentIdentifier p) = None"
  shows "client_ok env (s\<lparr>ks_payments := AList.update k p (ks_payments s), ks_identifiers := (ks_identifiers s)(pa_paymentIdentifier p \<mapsto> k)\<rparr>)"
proof -
  have "\<not> (client_payment_attempt s j = Some a \<and> pa_paymentIdentifier a = pa_paymentIdentifier p)" for j a
    using client_okD(6) [OF assms(1), of "pa_paymentIdentifier p" j] assms(4) by auto
  then show ?thesis using assms by (auto simp: client_ok_def client_writes)
qed

lemmas ok_writes = ok_put_channel ok_drop_channel ok_put_funding ok_drop_funding ok_put_refund ok_drop_refund

section \<open>Every call keeps the invariant\<close>

lemma save_keeps:
  assumes "client_ok env s"
  shows "keeps (client_ok env) (saveChannel env expected c) s"
  using assms
  by (auto simp: saveChannel_def Let_def wp_simps client_channel_ok_def intro!: ok_put_channel dest: consistent_index
      split: sum.splits option.splits)

lemma distinct_optional:
  "distinct (xs @ [k] @ ys) \<Longrightarrow> distinct (xs @ map fst (opt_member k enc f) @ ys)"
  by (cases f) auto

lemma distinct_direct_members:
  assumes "direct_channel_json c = JObj ms"
  shows "distinct (map fst ms)"
proof -
  let ?a = "[''id'', ''covenantId'', ''genesisEvidence'']" and ?b = "[''origin'']" and ?c = "[''config'']"
  let ?d = "[''clientPublicKey'', ''serverPublicKey'', ''activeOutpoint'', ''activeScriptPublicKey'', ''escrowAddress'',
    ''fundingSource'', ''fundingAmount'', ''chargedCumulativeAmount'', ''claimedCumulativeAmount'', ''signedMaxClaimable'']"
  let ?e = "[''requiresDepositVoucher'', ''refundTimeoutDaa'', ''templateId'', ''lineage'', ''status'']"
  let ?k1 = "''lastTopUpEvidence''" and ?k2 = "''resourceUrl''" and ?k3 = "''clientPrivateKey''" and ?k4 = "''latestVoucher''"
  let ?o1 = "map fst (opt_member ?k1 topup_evidence_json (dc_lastTopUpEvidence c))"
  let ?o2 = "map fst (opt_member ?k2 JStr (dc_resourceUrl c))" and ?o3 = "map fst (opt_member ?k3 JStr (dc_clientPrivateKey c))"
  let ?o4 = "map fst (opt_member ?k4 client_voucher_json (dc_latestVoucher c))"
  have "distinct (?a @ [?k1] @ ?b @ [?k2] @ ?c @ [?k3] @ ?d @ [?k4] @ ?e)" by code_simp
  from distinct_optional [OF this] have "distinct ((?a @ ?o1 @ ?b) @ [?k2] @ ?c @ [?k3] @ ?d @ [?k4] @ ?e)"
    by (simp only: append_assoc)
  from distinct_optional [OF this] have "distinct ((?a @ ?o1 @ ?b @ ?o2 @ ?c) @ [?k3] @ ?d @ [?k4] @ ?e)"
    by (simp only: append_assoc)
  from distinct_optional [OF this] have "distinct ((?a @ ?o1 @ ?b @ ?o2 @ ?c @ ?o3 @ ?d) @ [?k4] @ ?e)"
    by (simp only: append_assoc)
  from distinct_optional [OF this] have "distinct (?a @ ?o1 @ ?b @ ?o2 @ ?c @ ?o3 @ ?d @ ?o4 @ ?e)"
    by (simp only: append_assoc)
  moreover have "map fst ms = ?a @ ?o1 @ ?b @ ?o2 @ ?c @ ?o3 @ ?d @ ?o4 @ ?e"
    using assms [symmetric] by (simp only: direct_channel_json_def js_value.inject) simp
  ultimately show ?thesis by (simp only:)
qed

lemma same_text_id:
  assumes "textDiffers (direct_channel_json a) (direct_channel_json b) = Inr False"
    and "wf_js (direct_channel_json a)" "wf_js (direct_channel_json b)"
  shows "dc_id a = dc_id b"
proof -
  obtain as bs where ms: "direct_channel_json a = JObj as" "direct_channel_json b = JObj bs" by (simp add: direct_channel_json_def)
  have "stableJson (direct_channel_json a) = stableJson (direct_channel_json b)"
    using assms(1) by (auto simp: textDiffers_def run_simps dest: stableStringify_Inr)
  then have "canon (direct_channel_json a) = canon (direct_channel_json b)" using assms(2,3) canonical_text_iff by blast
  then have "map_option canon (map_of as ''id'') = map_option canon (map_of bs ''id'')"
    using canon_object_lookup [of as bs "''id''"] distinct_direct_members ms by metis
  then show ?thesis by (simp add: ms [symmetric, unfolded direct_channel_json_def js_value.inject])
qed

definition client_plain :: "client_command \<Rightarrow> bool" where
  \<comment> \<open>the channels of a settlement hold numbers that JavaScript can print\<close>
  "client_plain c = (case c of ApplySettled e d \<Rightarrow> wf_js (direct_channel_json e) \<and> wf_js (direct_channel_json d) | _ \<Rightarrow> True)"

lemma settled_keeps:
  assumes "client_ok env s" "client_plain (ApplySettled expected c)"
  shows "keeps (client_ok env) (doneS (applySettledChannel env expected c)) s"
proof -
  let ?c = "c\<lparr>dc_chargedCumulativeAmount := dc_chargedCumulativeAmount expected,
     dc_signedMaxClaimable := dc_signedMaxClaimable expected, dc_requiresDepositVoucher := dc_requiresDepositVoucher expected\<rparr>"
  have "wf_js (direct_channel_json ?c)" using assms(2) by (simp add: client_plain_def direct_channel_json_def)
  then have "dc_id c = dc_id expected" if "textDiffers (direct_channel_json ?c) (direct_channel_json expected) = Inr False"
    using same_text_id [OF that] assms(2) by (simp add: client_plain_def)
  then show ?thesis using assms(1)
    by (auto simp: applySettledChannel_def Let_def wp_simps client_channel_ok_def intro!: ok_put_channel dest: consistent_index
        split: sum.splits option.splits)
qed

lemma quarantined_ok: "client_channel_ok k c \<Longrightarrow> dc_status c = ClientActive \<Longrightarrow> client_channel_ok k (c\<lparr>dc_status := ClientSuspicious\<rparr>)"
  by (auto simp: client_channel_ok_def index_ok_def head_matches_def split: option.splits)

lemma quarantine_keeps:
  assumes "client_ok env s"
  shows "keeps (client_ok env) (doneS (quarantineChannel expected)) s"
  using assms client_okD(1) [OF assms]
  by (auto simp: quarantineChannel_def Let_def wp_simps intro!: ok_put_channel quarantined_ok split: option.splits)

lemma client_retire_keeps:
  assumes "client_ok env s"
  shows "keeps (client_ok env) (client_retireChannel i) s"
  using assms client_okD(1) [OF assms]
  by (auto simp: client_retireChannel_def Let_def wp_simps client_channel_ok_def intro!: ok_put_channel split: option.splits)

lemma delete_keeps:
  assumes "client_ok env s"
  shows "keeps (client_ok env) (deleteChannel i) s"
  using assms ok_drop_channel [OF assms] ok_drop_channel [OF ok_drop_funding [OF assms]]
  by (auto simp: deleteChannel_def Let_def wp_simps)


lemma artifact_kind:
  "fundingAttemptArtifactIsConsistent env a = Inr True \<Longrightarrow>
     case fa_kind a of GenesisKind i \<Rightarrow> True | TopUpKind c \<Rightarrow> to_lower (dc_id c) = to_lower (fa_channelId a)"
  by (auto simp: fundingAttemptArtifactIsConsistent_def andE_def fundingAttemptChannelId_def sameHex_def
      split: funding_kind.splits if_splits)

lemma new_funding_kind:
  assumes "isNewFundingAttempt env a = Inr True" "newFundingAttemptMatchesChannel env found a = Inr True"
  shows "funding_ok (to_lower (fa_channelId a)) a"
proof -
  have new: "fundingAttemptArtifactIsConsistent env a = Inr True" "fa_status a = FundingPending"
    using assms(1) by (auto simp: isNewFundingAttempt_def andE_def split: if_splits)
  show ?thesis using artifact_kind [OF new(1)] new(2) assms(2)
    by (auto simp: funding_ok_def newFundingAttemptMatchesChannel_def andE_def sameChannelState_def
        split: funding_kind.splits option.splits if_splits)
qed

lemma claim_funding_keeps:
  assumes "client_ok env s"
  shows "keeps (client_ok env) (claimFundingTransitionAttempt env a) s"
  using assms by (auto simp: claimFundingTransitionAttempt_def Let_def wp_simps intro!: ok_put_funding new_funding_kind)

lemma same_artifact_ok:
  assumes "sameFundingArtifact a b" "funding_ok k a" "fa_status b \<noteq> FundingApplied"
  shows "funding_ok k b"
  using assms by (auto simp: sameFundingArtifact_def funding_ok_def sameHex_def sameChannelState_def split: funding_kind.splits)

lemma save_funding_keeps:
  assumes "client_ok env s"
  shows "keeps (client_ok env) (saveFundingTransitionAttempt a) s"
  using assms client_okD(2,4) [OF assms]
  by (auto simp: saveFundingTransitionAttempt_def Let_def wp_simps split: option.splits intro!: ok_put_funding
      intro: same_artifact_ok)

lemma funded_channel_ok:
  assumes "funding_ok k a" "funded_channel env a evidence = Inr c" "evidenceMatchesFundingAttempt r a" "evidence = fr_evidence r"
  shows "client_channel_ok k c"
proof (cases "fa_kind a")
  case (GenesisKind i)
  then obtain e where e: "fr_evidence r = GenesisEvidence e" "genesisEvidenceMatchesSuccessor e (fa_intendedSuccessor a)"
    using assms(3) by (auto simp: evidenceMatchesFundingAttempt_def split: funding_evidence.splits)
  then show ?thesis using genesis_channel_index [of env a i evidence c e] assms(1,2,4) GenesisKind
    by (simp add: funded_channel_def client_channel_ok_def funding_ok_def)
next
  case (TopUpKind x)
  then obtain e where e: "fr_evidence r = TopUpEvidence e" "topUpEvidenceMatches e x (fa_intendedSuccessor a)"
    using assms(3) by (auto simp: evidenceMatchesFundingAttempt_def split: funding_evidence.splits)
  then show ?thesis using topup_channel_index [of env a x evidence c e] assms(1,2,4) TopUpKind
    by (simp add: funded_channel_def client_channel_ok_def funding_ok_def)
qed

lemma apply_funding_keeps:
  assumes "client_ok env s"
  shows "keeps (client_ok env) (doneS (applyFundingTransitionAttempt env r)) s"
proof -
  let ?k = "to_lower (fr_channelId r)"
  have "client_ok env (s\<lparr>ks_channels := AList.update ?k c (ks_channels s),
      ks_funding := AList.update ?k (a\<lparr>fa_status := FundingApplied, fa_finality := f, fa_acceptance := Val (fr_acceptance r)\<rparr>) (ks_funding s)\<rparr>)"
    if a: "client_funding s ?k = Some a" and conf: "confirmed_by (Val (fr_acceptance r)) (fa_requiredConfirmations a) (fa_transactionId a)"
      and ev: "evidenceMatchesFundingAttempt r a" and c: "funded_channel env a (fr_evidence r) = Inr c" for a c f
  proof -
    have ok: "funding_ok ?k a" by (rule client_okD(2) [OF assms a])
    have "client_ok env (s\<lparr>ks_channels := AList.update ?k c (ks_channels s)\<rparr>)"
      by (rule ok_put_channel [OF assms funded_channel_ok [OF ok c ev refl]])
    from ok_put_funding [OF this, of ?k "a\<lparr>fa_status := FundingApplied, fa_finality := f, fa_acceptance := Val (fr_acceptance r)\<rparr>"]
    show ?thesis using ok conf by (simp add: funding_ok_def)
  qed
  then show ?thesis using assms
    by (auto simp: applyFundingTransitionAttempt_def Let_def wp_simps split: option.splits sum.splits)
qed

lemma release_funding_keeps:
  assumes "client_ok env s"
  shows "keeps (client_ok env) (releaseFundingTransitionAttempt i t) s"
  using assms by (auto simp: releaseFundingTransitionAttempt_def Let_def wp_simps split: option.splits intro: ok_drop_funding)

lemma claim_refund_keeps:
  assumes "client_ok env s"
  shows "keeps (client_ok env) (claimRefundAttempt a) s"
  using assms
  by (auto simp: claimRefundAttempt_def Let_def wp_simps refund_ok_def intro!: ok_put_refund)

lemma save_refund_keeps:
  assumes "client_ok env s"
  shows "keeps (client_ok env) (saveRefundAttempt a) s"
  using assms client_okD(3) [OF assms] client_okD(4) [OF assms, of "to_lower (ra_channelId a)"]
  by (auto simp: saveRefundAttempt_def Let_def wp_simps refund_ok_def split: option.splits intro!: ok_put_refund)

lemma apply_refund_keeps:
  assumes "client_ok env s"
  shows "keeps (client_ok env) (doneS (applyRefundAttempt env r)) s"
proof -
  let ?k = "to_lower (rr_channelId r)" and ?e = "rr_acceptance r"
  have "client_ok env (s\<lparr>ks_channels := AList.update ?k (c\<lparr>dc_lineage := l, dc_status := ClientRefunded\<rparr>) (ks_channels s),
      ks_refunds := AList.update ?k (a\<lparr>ra_status := FundingApplied, ra_finality := f, ra_acceptance := Val ?e\<rparr>) (ks_refunds s)\<rparr>)"
    if a: "client_refund s ?k = Some a" and c: "client_channel s ?k = Some c"
      and conf: "confirmed_by (Val ?e) (ra_requiredConfirmations a) (ra_transactionId a)"
      and l: "applyCovenantSelectedChainUpdate (ce_sha env) (dc_lineage c) (single_transition (dc_lineage c) ?e (refund_transition a c ?e)) = Inr l"
    for a c f l
  proof -
    have ok: "refund_ok ?k a" "client_channel_ok ?k c" using client_okD(1,3) [OF assms] a c by blast+
    have "client_channel_ok ?k (c\<lparr>dc_lineage := l, dc_status := ClientRefunded\<rparr>)"
      using ok(2) refund_channel_index [OF l] by (simp add: client_channel_ok_def)
    then have "client_ok env (s\<lparr>ks_channels := AList.update ?k (c\<lparr>dc_lineage := l, dc_status := ClientRefunded\<rparr>) (ks_channels s)\<rparr>)"
      by (rule ok_put_channel [OF assms])
    from ok_put_refund [OF this, of ?k "a\<lparr>ra_status := FundingApplied, ra_finality := f, ra_acceptance := Val ?e\<rparr>"]
    show ?thesis using ok(1) conf by (simp add: refund_ok_def)
  qed
  then show ?thesis using assms
    by (auto simp: applyRefundAttempt_def Let_def wp_simps split: option.splits sum.splits)
qed

lemma release_refund_keeps:
  assumes "client_ok env s"
  shows "keeps (client_ok env) (releaseRefundAttempt i t) s"
  using assms by (auto simp: releaseRefundAttempt_def Let_def wp_simps split: option.splits intro: ok_drop_refund)

lemma reopen_keeps:
  assumes "client_ok env s" "funding_ok k a" "\<not> isOpenRefundAttempt (client_refund s k)" "to_lower (dc_id c) = k"
  shows "keeps (client_ok env) (reopen_topup env k current l c a) s"
  using assms by (auto simp: reopen_topup_def wp_simps funding_ok_def split: sum.splits intro!: ok_put_funding)

lemma undo_refund_keeps:
  assumes "client_ok env s"
  shows "keeps (client_ok env) (undo_refund env k current l c a) s"
  using assms by (auto simp: undo_refund_def wp_simps split: sum.splits intro!: ok_drop_refund)

lemma reconcile_keeps:
  assumes "client_ok env s"
  shows "\<lbrakk>client_funding s k = funding; \<not> isOpenRefundAttempt (client_refund s k); to_lower (dc_id c) = k\<rbrakk> \<Longrightarrow>
      keeps (client_ok env) (reconcile_funding env k current l c funding) s"
    and "keeps (client_ok env) (reconcile_refund env k current l c refund) s"
  using assms client_okD(2) [OF assms]
  by (auto simp: reconcile_funding_def reconcile_refund_def wp_simps split: option.splits funding_kind.splits
      intro!: reopen_keeps undo_refund_keeps)

lemma client_lineage_keeps:
  assumes "client_ok env s"
  shows "keeps (client_ok env) (doneS (client_applyCovenantLineage env e l c)) s"
proof -
  let ?k = "to_lower (dc_id e)"
  have last: "keeps (client_ok env) (bindS (reconcile_refund env ?k current l c refund) (\<lambda>_. put_channel ?k c)) t"
    if "client_channel_ok ?k c" "client_ok env t" for current refund t
    unfolding wp_bind
    by (rule wp_mono [OF reconcile_keeps(2) [OF that(2)]]) (auto simp: wp_simps intro: ok_put_channel that(1))
  have both: "keeps (client_ok env) (bindS (reconcile_funding env ?k current l c (client_funding s ?k)) (\<lambda>_.
      bindS (reconcile_refund env ?k current l c refund) (\<lambda>_. put_channel ?k c))) s"
    if ok: "client_channel_ok ?k c" and closed: "\<not> isOpenRefundAttempt (client_refund s ?k)" for current refund
    using ok unfolding wp_bind [of "reconcile_funding env ?k current l c (client_funding s ?k)"]
    by (intro wp_mono [OF reconcile_keeps(1) [OF assms refl closed]] last) (auto simp: client_channel_ok_def)
  have "client_channel_ok ?k c"
    if "client_channel s ?k = Some d" "sameHex (dc_id c) (dc_id d)" "assertChannelLineageConsistency env c = Inr ()" for d
    using client_okD(1) [OF assms that(1)] that(2) consistent_index [OF that(3)]
    by (simp add: client_channel_ok_def sameHex_def)
  then show ?thesis using assms both
    by (auto simp: client_applyCovenantLineage_def Let_def wp_simps split: option.splits sum.splits)
qed

lemma exact_identifier:
  assumes "client_ok env s" "owner_of_identifier s i = None"
  shows "ks_identifiers s i = None"
proof (rule ccontr)
  assume "ks_identifiers s i \<noteq> None"
  then obtain k where k: "ks_identifiers s i = Some k" by blast
  then obtain a where a: "client_payment_attempt s k = Some a" using client_okD(6) [OF assms(1)] by blast
  then have "payment_ok env k a" by (rule client_okD(5) [OF assms(1)])
  then have "k \<noteq> []" by (auto simp: payment_ok_def exactPaymentAttemptIsConsistent_def payment_artifact_consistent_def andE_def
      is_hash32_def Let_def split: if_splits)
  then show False using assms(2) k a by (simp add: owner_of_identifier_def)
qed

lemma consistent_split: "exactPaymentAttemptIsConsistent env a = Inr True \<longleftrightarrow>
    payment_artifact_consistent env a = Inr True \<and> payment_outcome_consistent a"
  by (cases "payment_artifact_consistent env a") (auto simp: exactPaymentAttemptIsConsistent_def andE_def)

lemma claim_payment_keeps:
  assumes "client_ok env s"
  shows "keeps (client_ok env) (doneS (claimExactPaymentAttempt env a)) s"
proof -
  have new: "payment_ok env (to_lower (pa_attemptId a)) a"
    if "andE (exactPaymentAttemptIsConsistent env a) (Inr b) = Inr True" for b
    using that by (cases "exactPaymentAttemptIsConsistent env a") (auto simp: payment_ok_def andE_def split: if_splits)
  show ?thesis using assms exact_identifier [OF assms]
    by (auto simp: claimExactPaymentAttempt_def Let_def wp_simps split: option.splits intro!: ok_new_payment new)
qed

lemma artifact_update [simp]:
  "payment_artifact_consistent env (a\<lparr>pa_status := st\<rparr>) = payment_artifact_consistent env a"
  "payment_artifact_consistent env (a\<lparr>pa_evidence := ev\<rparr>) = payment_artifact_consistent env a"
  "payment_artifact_consistent env (a\<lparr>pa_output := out\<rparr>) = payment_artifact_consistent env a"
  "payment_artifact_consistent env (a\<lparr>pa_providerFinalized := f\<rparr>) = payment_artifact_consistent env a"
  by (simp_all add: payment_artifact_consistent_def exactIntentHash_def)

lemma resolve_payment_keeps:
  assumes "client_ok env s"
  shows "keeps (client_ok env) (doneS (resolveExactPaymentAttempt env i)) s"
proof -
  have key: "to_lower (pa_attemptId a) = k" if "client_payment_attempt s k = Some a" for k a
    using client_okD(5) [OF assms that] by (simp add: payment_ok_def)
  show ?thesis using assms
    by (auto simp: resolveExactPaymentAttempt_def Let_def wp_simps payment_ok_def split: option.splits
        intro!: ok_put_payment dest: key)
qed

lemma finalize_payment_keeps:
  assumes "client_ok env s"
  shows "keeps (client_ok env) (doneS (markExactPaymentProviderFinalized i t)) s"
proof -
  have "payment_ok env k (a\<lparr>pa_providerFinalized := True\<rparr>)"
    if "client_payment_attempt s k = Some a" "pa_status a \<noteq> PaymentPending" for k a
    using client_okD(5) [OF assms that(1)] that(2)
    by (auto simp: payment_ok_def consistent_split payment_outcome_consistent_def split: opt_field.splits)
  then show ?thesis using assms
    by (auto simp: markExactPaymentProviderFinalized_def Let_def wp_simps split: option.splits intro!: ok_put_payment)
qed

lemmas client_keeps = save_keeps settled_keeps quarantine_keeps client_retire_keeps delete_keeps claim_funding_keeps
  save_funding_keeps apply_funding_keeps release_funding_keeps claim_refund_keeps save_refund_keeps apply_refund_keeps
  release_refund_keeps client_lineage_keeps claim_payment_keeps resolve_payment_keeps finalize_payment_keeps

lemma client_call_keeps:
  assumes "client_ok env s" "client_plain c"
  shows "keeps (client_ok env) (client_call env c) s"
  using assms by (cases c) (simp_all add: client_keeps)

end
