(* ===== verification/Client_Safety.thy ===== *)
theory Client_Safety
  imports Client_Invariant
begin

text \<open>
  What the client store guarantees over any sequence of calls, from a store opened on persisted
  records. The steps of the store are an instance of the guarded machine of
  \<^verbatim>\<open>Store_Programs\<close>; the order says that recorded exact payments stay and only gain their outcome.
\<close>

section \<open>Calls as steps\<close>

definition client_step :: "client_env \<Rightarrow> client_store \<Rightarrow> client_command \<Rightarrow> client_store res" where
  \<comment> \<open>a call that throws leaves the writes that it made\<close>
  "client_step env s c = Inr (fst (client_call env c s))"

definition client_after :: "client_env \<Rightarrow> client_store \<Rightarrow> client_command list \<Rightarrow> client_store" where
  "client_after env s cs = run_cmds (client_step env) s cs"

section \<open>Opened stores\<close>

definition durable_funding :: "funding_attempt \<Rightarrow> bool" where
  \<comment> \<open>as the store leaves its records: a top-up expects a channel that is not refunded, an applied
     attempt holds its evidence\<close>
  "durable_funding a = ((case fa_kind a of TopUpKind c \<Rightarrow> dc_status c \<noteq> ClientRefunded | GenesisKind _ \<Rightarrow> True)
     \<and> (fa_status a = FundingApplied \<longrightarrow> confirmed_by (fa_acceptance a) (fa_requiredConfirmations a) (fa_transactionId a)))"

definition durable_refund :: "refund_attempt \<Rightarrow> bool" where
  "durable_refund a = (ra_status a = FundingApplied \<longrightarrow>
     confirmed_by (ra_acceptance a) (ra_requiredConfirmations a) (ra_transactionId a))"

lemma empty_client_ok: "client_ok env empty_client"
  by (simp add: client_ok_def client_lookups empty_client_def)

lemma ks_refunds_empty: "ks_refunds empty_client = []"
  by (simp add: empty_client_def)

lemma load_channel_ok:
  "load_channel env s c = Inr s' \<Longrightarrow> client_ok env s \<Longrightarrow> client_ok env s' \<and> ks_refunds s' = ks_refunds s"
  by (auto simp: load_channel_def Let_def run_simps client_channel_ok_def split: if_splits
      intro!: ok_put_channel dest: consistent_index)

lemma load_funding_ok:
  assumes "load_funding env s a = Inr s'" "client_ok env s" "ks_refunds s = []" "durable_funding a"
  shows "client_ok env s' \<and> ks_refunds s' = []"
proof -
  have m: "persistedFundingAttemptMatchesChannel env (client_channel s (to_lower (fa_channelId a))) a = Inr True"
    and s': "s' = s\<lparr>ks_funding := AList.update (to_lower (fa_channelId a)) a (ks_funding s)\<rparr>"
    using assms(1) by (auto simp: load_funding_def Let_def run_simps split: if_splits)
  from m have "fundingAttemptArtifactIsConsistent env a = Inr True"
    by (cases "fundingAttemptArtifactIsConsistent env a")
      (auto simp: persistedFundingAttemptMatchesChannel_def andE_def split: if_splits)
  from artifact_kind [OF this] have "funding_ok (to_lower (fa_channelId a)) a"
    using assms(4) by (auto simp: funding_ok_def durable_funding_def split: funding_kind.splits)
  then show ?thesis using assms(2,3) s' by (auto intro!: ok_put_funding simp: client_refund_def)
qed

lemma load_refund_ok:
  "load_refund s a = Inr s' \<Longrightarrow> client_ok env s \<Longrightarrow> durable_refund a \<Longrightarrow> client_ok env s'"
  by (auto simp: load_refund_def Let_def refund_ok_def durable_refund_def split: if_splits intro!: ok_put_refund)

lemma load_payment_ok:
  "load_payment env s a = Inr s' \<Longrightarrow> client_ok env s \<Longrightarrow> client_ok env s'"
  by (auto simp: load_payment_def Let_def run_simps payment_ok_def orE_def split: if_splits intro!: ok_new_payment)

lemma opened_ok:
  assumes "openClientStore env channels refunds fundings payments = Inr s"
    and "list_all durable_funding fundings" "list_all durable_refund refunds"
  shows "client_ok env s"
proof -
  obtain s1 s2 s3 where steps: "foldE (load_channel env) empty_client channels = Inr s1"
    "foldE (load_funding env) s1 fundings = Inr s2" "foldE load_refund s2 refunds = Inr s3"
    "foldE (load_payment env) s3 payments = Inr s"
    using assms(1) by (auto simp: openClientStore_def run_simps)
  have "client_ok env s1 \<and> ks_refunds s1 = []"
    by (rule foldE_inv [OF steps(1)]) (use empty_client_ok load_channel_ok in \<open>auto simp: ks_refunds_empty\<close>)
  then have "client_ok env s2 \<and> ks_refunds s2 = []"
    by (rule foldE_inv [OF steps(2)]) (use assms(2) load_funding_ok in \<open>auto simp: list_all_iff\<close>)
  then have "client_ok env s2" by blast
  then have "client_ok env s3"
    by (rule foldE_inv [OF steps(3)]) (use assms(3) load_refund_ok in \<open>auto simp: list_all_iff\<close>)
  then show ?thesis by (rule foldE_inv [OF steps(4)]) (auto intro: load_payment_ok)
qed

section \<open>Recorded payments\<close>

definition payment_artifact :: "payment_attempt \<Rightarrow> payment_attempt" where
  "payment_artifact a = a\<lparr>pa_status := PaymentPending, pa_evidence := Absent, pa_output := Absent, pa_providerFinalized := False\<rparr>"

definition payment_below :: "payment_attempt \<Rightarrow> payment_attempt \<Rightarrow> bool" where
  \<comment> \<open>the same signed artifact; a terminal outcome and its evidence are kept\<close>
  "payment_below a b = (payment_artifact b = payment_artifact a
     \<and> (pa_status a \<noteq> PaymentPending \<longrightarrow>
          pa_status b = pa_status a \<and> pa_evidence b = pa_evidence a \<and> pa_output b = pa_output a)
     \<and> (pa_providerFinalized a \<longrightarrow> pa_providerFinalized b))"

definition client_below :: "client_store \<Rightarrow> client_store \<Rightarrow> bool" where
  "client_below s t = ((\<forall>k a. client_payment_attempt s k = Some a \<longrightarrow>
       (\<exists>b. client_payment_attempt t k = Some b \<and> payment_below a b))
     \<and> (\<forall>i k. ks_identifiers s i = Some k \<longrightarrow> ks_identifiers t i = Some k))"

lemma payment_below_refl [simp]: "payment_below a a"
  by (simp add: payment_below_def)

lemma payment_below_trans: "payment_below a b \<Longrightarrow> payment_below b c \<Longrightarrow> payment_below a c"
  by (auto simp: payment_below_def)

lemma client_below_refl [simp]: "client_below s s"
  by (auto simp: client_below_def)

lemma client_below_trans: "client_below s t \<Longrightarrow> client_below t u \<Longrightarrow> client_below s u"
  unfolding client_below_def by (meson payment_below_trans)

definition same_payments :: "client_store \<Rightarrow> client_store \<Rightarrow> bool" where
  "same_payments s t = (ks_payments t = ks_payments s \<and> ks_identifiers t = ks_identifiers s)"

lemma same_payments_writes [simp]:
  "same_payments s (t\<lparr>ks_channels := c\<rparr>) = same_payments s t" "same_payments s (t\<lparr>ks_funding := f\<rparr>) = same_payments s t"
  "same_payments s (t\<lparr>ks_refunds := r\<rparr>) = same_payments s t" "same_payments s s"
  by (simp_all add: same_payments_def)

lemma same_payments_below: "same_payments s t \<Longrightarrow> client_below s t"
  by (auto simp: same_payments_def client_below_def client_payment_attempt_def)

lemma reconcile_payments:
  assumes "same_payments s t"
  shows "keeps (same_payments s) (reconcile_funding env k current l c funding) t"
    "keeps (same_payments s) (reconcile_refund env k current l c refund) t"
  using assms
  by (auto simp: reconcile_funding_def reconcile_refund_def reopen_topup_def undo_refund_def wp_simps
      split: option.splits sum.splits funding_kind.splits)

lemma lineage_payments: "keeps (same_payments s) (doneS (client_applyCovenantLineage env e l c)) s"
proof -
  have last: "keeps (same_payments s) (bindS (reconcile_refund env k current l c refund) (\<lambda>_. put_channel k c)) t"
    if "same_payments s t" for k current refund t
    unfolding wp_bind by (rule wp_mono [OF reconcile_payments(2) [OF that]]) (simp_all add: wp_simps)
  have "keeps (same_payments s) (bindS (reconcile_funding env k current l c funding) (\<lambda>_.
      bindS (reconcile_refund env k current l c refund) (\<lambda>_. put_channel k c))) s" for k current funding refund
    unfolding wp_bind [of "reconcile_funding env k current l c funding"]
    by (rule wp_mono [OF reconcile_payments(1)]) (simp_all add: last)
  then show ?thesis
    by (auto simp: client_applyCovenantLineage_def Let_def wp_simps split: option.splits sum.splits)
qed

lemma channel_payments:
  "keeps (same_payments s) (saveChannel env x c) s"
  "keeps (same_payments s) (doneS (applySettledChannel env e c)) s"
  "keeps (same_payments s) (doneS (quarantineChannel e)) s"
  "keeps (same_payments s) (client_retireChannel i) s"
  "keeps (same_payments s) (deleteChannel i) s"
  by (auto simp: saveChannel_def applySettledChannel_def quarantineChannel_def client_retireChannel_def deleteChannel_def
      Let_def wp_simps split: option.splits sum.splits)

lemma attempt_payments:
  "keeps (same_payments s) (claimFundingTransitionAttempt env a) s"
  "keeps (same_payments s) (saveFundingTransitionAttempt a) s"
  "keeps (same_payments s) (doneS (applyFundingTransitionAttempt env r)) s"
  "keeps (same_payments s) (releaseFundingTransitionAttempt i t) s"
  "keeps (same_payments s) (claimRefundAttempt b) s"
  "keeps (same_payments s) (saveRefundAttempt b) s"
  "keeps (same_payments s) (doneS (applyRefundAttempt env q)) s"
  "keeps (same_payments s) (releaseRefundAttempt i t) s"
  by (auto simp: claimFundingTransitionAttempt_def saveFundingTransitionAttempt_def applyFundingTransitionAttempt_def
      releaseFundingTransitionAttempt_def claimRefundAttempt_def saveRefundAttempt_def applyRefundAttempt_def
      releaseRefundAttempt_def Let_def wp_simps split: option.splits sum.splits)

lemma below_put:
  assumes "client_payment_attempt s k = Some a" "payment_below a b"
  shows "client_below s (s\<lparr>ks_payments := AList.update k b (ks_payments s)\<rparr>)"
  using assms by (auto simp: client_below_def client_writes)

lemma payment_calls_below:
  assumes "client_ok env s"
  shows "keeps (client_below s) (doneS (claimExactPaymentAttempt env a)) s"
    "keeps (client_below s) (doneS (resolveExactPaymentAttempt env i)) s"
    "keeps (client_below s) (doneS (markExactPaymentProviderFinalized x t)) s"
proof -
  show "keeps (client_below s) (doneS (claimExactPaymentAttempt env a)) s"
    using exact_identifier [OF assms]
    by (auto simp: claimExactPaymentAttempt_def Let_def wp_simps client_below_def client_writes split: option.splits)
  have pending: "\<not> pa_providerFinalized p" if "client_payment_attempt s k = Some p" "pa_status p = PaymentPending" for k p
    using client_okD(5) [OF assms that(1)] that(2) by (simp add: payment_ok_def consistent_split payment_outcome_consistent_def)
  show "keeps (client_below s) (doneS (resolveExactPaymentAttempt env i)) s"
    by (auto simp: resolveExactPaymentAttempt_def Let_def wp_simps payment_below_def payment_artifact_def
        split: option.splits intro!: below_put dest: pending)
  show "keeps (client_below s) (doneS (markExactPaymentProviderFinalized x t)) s"
    by (auto simp: markExactPaymentProviderFinalized_def Let_def wp_simps payment_below_def payment_artifact_def
        split: option.splits intro!: below_put)
qed

lemma client_call_below:
  assumes "client_ok env s"
  shows "keeps (client_below s) (client_call env c) s"
proof -
  have frame: "keeps (client_below s) m s" if "keeps (same_payments s) m s" for m :: "unit client_op"
    by (rule wp_mono [OF that]) (auto intro: same_payments_below)
  show ?thesis using frame [OF lineage_payments] frame [OF channel_payments(1)] frame [OF channel_payments(2)]
      frame [OF channel_payments(3)] frame [OF channel_payments(4)] frame [OF channel_payments(5)]
      frame [OF attempt_payments(1)] frame [OF attempt_payments(2)] frame [OF attempt_payments(3)] frame [OF attempt_payments(4)]
      frame [OF attempt_payments(5)] frame [OF attempt_payments(6)] frame [OF attempt_payments(7)] frame [OF attempt_payments(8)]
      payment_calls_below [OF assms]
    by (cases c) (simp_all only: client_call.simps)
qed

interpretation client_machine: guarded_machine "client_step env" client_plain "client_ok env" client_below for env
  by unfold_locales
    (auto simp: client_step_def intro: keeps_run client_call_keeps client_call_below client_below_trans)

section \<open>Guarantees\<close>

lemma reachable_client_ok:
  assumes "openClientStore env channels refunds fundings payments = Inr s"
    and "list_all durable_funding fundings" "list_all durable_refund refunds" "list_all client_plain cs"
  shows "client_ok env (client_after env s cs)"
  unfolding client_after_def by (rule client_machine.run_inv [OF opened_ok [OF assms(1-3)] assms(4)])


text \<open>C12. A channel of the client never has a funding transaction and a refund under way at once, so its
  covenant output is never spent by two competing transactions of the client.\<close>

theorem client_transitions_exclusive:
  assumes "openClientStore env channels refunds fundings payments = Inr s"
    and "list_all durable_funding fundings" "list_all durable_refund refunds" "list_all client_plain cs"
  shows "\<not> (isOpenFundingAttempt (client_funding (client_after env s cs) k)
           \<and> isOpenRefundAttempt (client_refund (client_after env s cs) k))"
  by (rule client_okD(4) [OF reachable_client_ok [OF assms]])

text \<open>A funding transaction or refund that the client store counts as applied carries acceptance
  evidence of that very transaction with the confirmations it was required to have.\<close>

theorem client_applied_confirmed:
  assumes "openClientStore env channels refunds fundings payments = Inr s"
    and "list_all durable_funding fundings" "list_all durable_refund refunds" "list_all client_plain cs"
  shows "(\<forall>k a. client_funding (client_after env s cs) k = Some a \<longrightarrow> fa_status a = FundingApplied \<longrightarrow>
            confirmed_by (fa_acceptance a) (fa_requiredConfirmations a) (fa_transactionId a))
    \<and> (\<forall>k a. client_refund (client_after env s cs) k = Some a \<longrightarrow> ra_status a = FundingApplied \<longrightarrow>
            confirmed_by (ra_acceptance a) (ra_requiredConfirmations a) (ra_transactionId a))"
  using client_okD(2,3) [OF reachable_client_ok [OF assms]] by (simp add: funding_ok_def refund_ok_def)

text \<open>C13. The client store never loses a signed exact payment: whatever calls follow, the attempt keeps
  its artifact and its payment identifier, and once it is accepted or absent its outcome, evidence
  and output never change.\<close>

theorem client_payments_kept:
  assumes "openClientStore env channels refunds fundings payments = Inr s"
    and "list_all durable_funding fundings" "list_all durable_refund refunds" "list_all client_plain (cs @ ds)"
    and "client_payment_attempt (client_after env s cs) k = Some a"
  shows "\<exists>b. client_payment_attempt (client_after env s (cs @ ds)) k = Some b \<and> payment_below a b
    \<and> ks_identifiers (client_after env s (cs @ ds)) (pa_paymentIdentifier a) = Some k"
proof -
  have plain: "list_all client_plain cs" using assms(4) by simp
  have below: "client_below (client_after env s cs) (client_after env s (cs @ ds))"
    unfolding client_after_def by (rule client_machine.run_prefix_below [OF opened_ok [OF assms(1-3)] assms(4)])
  have "ks_identifiers (client_after env s cs) (pa_paymentIdentifier a) = Some k"
    using client_okD(6) [OF reachable_client_ok [OF assms(1-3) plain]] assms(5) by blast
  then show ?thesis using below assms(5) unfolding client_below_def by blast
qed

section \<open>Saving a channel\<close>

lemma amount_kept: "amount_falls n p = Inr False \<Longrightarrow> dec_val p \<le> dec_val n"
  by (auto simp: amount_falls_def run_simps int_to_string_nonneg)

lemma save_outcome:
  assumes "saveChannel env expected c s = (t, r)"
  shows "case r of Inl e \<Rightarrow> t = s | Inr _ \<Rightarrow> t = s\<lparr>ks_channels := AList.update (to_lower (dc_id c)) c (ks_channels s)\<rparr>
    \<and> \<not> isOpenFundingAttempt (client_funding s (to_lower (dc_id c))) \<and> client_refund s (to_lower (dc_id c)) = None
    \<and> lost_comparison (client_channel s (to_lower (dc_id c))) expected = Inr False
    \<and> (\<forall>e. client_channel s (to_lower (dc_id c)) = Some e \<longrightarrow> payment_state_regresses e c = Inr False
         \<and> sameLineage (dc_lineage e) (dc_lineage c) \<and> (isRefundOnlyStatus (dc_status e) \<longrightarrow> dc_status c = dc_status e))"
proof -
  let ?k = "to_lower (dc_id c)"
  have "wp (saveChannel env expected c) (\<lambda>_ u. u = s\<lparr>ks_channels := AList.update ?k c (ks_channels s)\<rparr>
      \<and> \<not> isOpenFundingAttempt (client_funding s ?k) \<and> client_refund s ?k = None
      \<and> lost_comparison (client_channel s ?k) expected = Inr False
      \<and> (\<forall>e. client_channel s ?k = Some e \<longrightarrow> payment_state_regresses e c = Inr False
         \<and> sameLineage (dc_lineage e) (dc_lineage c) \<and> (isRefundOnlyStatus (dc_status e) \<longrightarrow> dc_status c = dc_status e))) (\<lambda>u. u = s) s"
    by (auto simp: saveChannel_def Let_def wp_simps split: option.splits sum.splits)
  then show ?thesis using assms by (simp add: wp_def split: sum.splits)
qed

text \<open>C14. \<open>saveChannel\<close> is a compare-and-set that never loses payment state. If it throws, nothing is
  written. If it succeeds, the channel is written, no funding or refund was under way, the replaced
  channel was the expected one up to the order of properties, the signed ceiling, the charged and the
  claimed amount do not fall, a voucher is only replaced by one for at least its amount, the lineage is
  the same, and a quarantined or refunded channel keeps its status.\<close>

theorem save_compares_and_sets:
  assumes "saveChannel env expected c s = (t, r)"
  shows "case r of Inl e \<Rightarrow> t = s | Inr _ \<Rightarrow>
    client_channel t = (client_channel s)(to_lower (dc_id c) \<mapsto> c)
    \<and> \<not> isOpenFundingAttempt (client_funding s (to_lower (dc_id c))) \<and> client_refund s (to_lower (dc_id c)) = None
    \<and> (case client_channel s (to_lower (dc_id c)) of
         None \<Rightarrow> expected = None
       | Some e \<Rightarrow> (\<exists>x. expected = Some x \<and> stableJson (direct_channel_json e) = stableJson (direct_channel_json x))
           \<and> dec_val (dc_signedMaxClaimable e) \<le> dec_val (dc_signedMaxClaimable c)
           \<and> dec_val (dc_chargedCumulativeAmount e) \<le> dec_val (dc_chargedCumulativeAmount c)
           \<and> dec_val (dc_claimedCumulativeAmount e) \<le> dec_val (dc_claimedCumulativeAmount c)
           \<and> (\<forall>v. dc_latestVoucher e = Val v \<longrightarrow> (\<exists>w. dc_latestVoucher c = Val w
                \<and> dec_val (v_authorizedCumulativeAmount v) \<le> dec_val (v_authorizedCumulativeAmount w)))
           \<and> sameLineage (dc_lineage e) (dc_lineage c)
           \<and> (isRefundOnlyStatus (dc_status e) \<longrightarrow> dc_status c = dc_status e))"
proof (cases r)
  case (Inl e)
  then show ?thesis using save_outcome [OF assms] by simp
next
  case (Inr u)
  let ?k = "to_lower (dc_id c)"
  note run = save_outcome [OF assms, unfolded Inr sum.case]
  have lost: "lost_comparison (client_channel s ?k) expected = Inr False" using run by blast
  have kept: "client_channel t = (client_channel s)(?k \<mapsto> c)" using run client_write_channel(1) by simp
  show ?thesis
  proof (cases "client_channel s ?k")
    case None
    then show ?thesis using Inr run kept lost by (simp add: lost_comparison_def)
  next
    case (Some e)
    then obtain x where x: "expected = Some x" "textDiffers (direct_channel_json e) (direct_channel_json x) = Inr False"
      using lost by (cases expected) (auto simp: lost_comparison_def)
    then have "stableJson (direct_channel_json e) = stableJson (direct_channel_json x)"
      by (auto simp: textDiffers_def run_simps dest: stableStringify_Inr)
    moreover have "payment_state_regresses e c = Inr False" using run Some by blast
    ultimately show ?thesis using Inr run kept Some x(1)
      by (auto simp: payment_state_regresses_def run_simps dest!: amount_kept split: option.splits)
  qed
qed

end
