(* ===== verification/Client_Stranded.thy ===== *)
theory Client_Stranded
  imports Client_Safety
begin

text \<open>
  An open top-up reserves the channel as it was, status included, but \<open>quarantineChannel\<close> does not
  look for an open attempt. Once a channel with an open top-up is quarantined, the attempt matches the
  channel no more: no call applies, releases or replaces it, and none changes the channel.
\<close>

section \<open>Stranded channels\<close>

definition stranded :: "string \<Rightarrow> direct_channel \<Rightarrow> client_store \<Rightarrow> bool" where
  "stranded k c s = (client_channel s k = Some c \<and> dc_status c = ClientSuspicious
     \<and> (\<exists>a x. client_funding s k = Some a \<and> fa_status a \<noteq> FundingApplied \<and> fa_kind a = TopUpKind x
          \<and> dc_status x \<noteq> ClientSuspicious))"

lemma stranded_writes [simp]:
  "stranded k c (s\<lparr>ks_payments := p\<rparr>) = stranded k c s" "stranded k c (s\<lparr>ks_identifiers := i\<rparr>) = stranded k c s"
  "stranded k c (s\<lparr>ks_refunds := r\<rparr>) = stranded k c s"
  "j \<noteq> k \<Longrightarrow> stranded k c (s\<lparr>ks_channels := AList.update j d (ks_channels s)\<rparr>) = stranded k c s"
  "j \<noteq> k \<Longrightarrow> stranded k c (s\<lparr>ks_channels := AList.delete j (ks_channels s)\<rparr>) = stranded k c s"
  "j \<noteq> k \<Longrightarrow> stranded k c (s\<lparr>ks_funding := AList.update j a (ks_funding s)\<rparr>) = stranded k c s"
  "j \<noteq> k \<Longrightarrow> stranded k c (s\<lparr>ks_funding := AList.delete j (ks_funding s)\<rparr>) = stranded k c s"
  by (simp_all add: stranded_def client_writes)

lemma strandedD:
  assumes "stranded k c s"
  shows "client_channel s k = Some c" "dc_status c = ClientSuspicious" "isOpenFundingAttempt (client_funding s k)"
    "client_funding s k = Some a \<Longrightarrow> \<not> openFundingAttemptMatchesChannel (Some c) a \<and> fa_status a \<noteq> FundingApplied"
  using assms by (auto simp: stranded_def openFundingAttemptMatchesChannel_def sameChannelState_def)

section \<open>Every call leaves a stranded channel stranded\<close>

lemma stranded_channel_calls:
  assumes "stranded k c s"
  shows "keeps (stranded k c) (saveChannel env x d) s"
    "keeps (stranded k c) (doneS (applySettledChannel env e d)) s"
    "keeps (stranded k c) (doneS (quarantineChannel e)) s"
    "keeps (stranded k c) (client_retireChannel i) s"
    "keeps (stranded k c) (deleteChannel i) s"
  using assms strandedD(1-3) [OF assms]
  by (cases "to_lower (dc_id d) = k"; cases "to_lower (dc_id e) = k"; cases "to_lower i = k";
      auto simp: saveChannel_def applySettledChannel_def quarantineChannel_def client_retireChannel_def deleteChannel_def
        Let_def wp_simps split: option.splits sum.splits)+

lemma stranded_put_funding:
  assumes "stranded k c s" "client_funding s k = Some a" "sameFundingArtifact a b" "fa_status b \<noteq> FundingApplied"
  shows "stranded k c (s\<lparr>ks_funding := AList.update k b (ks_funding s)\<rparr>)"
  using assms by (auto simp: stranded_def client_writes sameFundingArtifact_def sameChannelState_def split: funding_kind.splits)

lemma stranded_funding_calls:
  assumes "stranded k c s"
  shows "keeps (stranded k c) (claimFundingTransitionAttempt env a) s"
    "keeps (stranded k c) (saveFundingTransitionAttempt a) s"
    "keeps (stranded k c) (doneS (applyFundingTransitionAttempt env r)) s"
    "keeps (stranded k c) (releaseFundingTransitionAttempt i t) s"
proof -
  note facts = strandedD(1-3) [OF assms]
  show "keeps (stranded k c) (claimFundingTransitionAttempt env a) s"
    using assms facts by (cases "to_lower (fa_channelId a) = k") (auto simp: claimFundingTransitionAttempt_def Let_def wp_simps)
  show "keeps (stranded k c) (saveFundingTransitionAttempt a) s"
    using assms by (cases "to_lower (fa_channelId a) = k")
      (auto simp: saveFundingTransitionAttempt_def Let_def wp_simps split: option.splits intro: stranded_put_funding)
  show "keeps (stranded k c) (doneS (applyFundingTransitionAttempt env r)) s"
    using assms facts strandedD(4) [OF assms] by (cases "to_lower (fr_channelId r) = k")
      (auto simp: applyFundingTransitionAttempt_def Let_def wp_simps split: option.splits sum.splits)
  show "keeps (stranded k c) (releaseFundingTransitionAttempt i t) s"
    using assms facts strandedD(4) [OF assms] by (cases "to_lower i = k")
      (auto simp: releaseFundingTransitionAttempt_def Let_def wp_simps split: option.splits)
qed

lemma stranded_other_calls:
  assumes "stranded k c s" "client_ok env s"
  shows "keeps (stranded k c) (claimRefundAttempt b) s"
    "keeps (stranded k c) (saveRefundAttempt b) s"
    "keeps (stranded k c) (doneS (applyRefundAttempt env q)) s"
    "keeps (stranded k c) (releaseRefundAttempt i t) s"
    "keeps (stranded k c) (doneS (claimExactPaymentAttempt env p)) s"
    "keeps (stranded k c) (doneS (resolveExactPaymentAttempt env j)) s"
    "keeps (stranded k c) (doneS (markExactPaymentProviderFinalized x y)) s"
proof -
  have closed: "\<not> isOpenRefundAttempt (client_refund s k)"
    using client_okD(4) [OF assms(2), of k] strandedD(3) [OF assms(1)] by blast
  show "keeps (stranded k c) (doneS (applyRefundAttempt env q)) s"
    using assms(1) closed by (cases "to_lower (rr_channelId q) = k")
      (auto simp: applyRefundAttempt_def Let_def wp_simps split: option.splits sum.splits)
qed (use assms(1) in \<open>auto simp: claimRefundAttempt_def saveRefundAttempt_def releaseRefundAttempt_def
      claimExactPaymentAttempt_def resolveExactPaymentAttempt_def markExactPaymentProviderFinalized_def
      Let_def wp_simps split: option.splits\<close>)

lemma stranded_reconcile:
  assumes "stranded k c s" "j \<noteq> k"
  shows "keeps (stranded k c) (reconcile_funding env j current l d funding) s"
    "keeps (stranded k c) (reconcile_refund env j current l d refund) s"
  using assms
  by (auto simp: reconcile_funding_def reconcile_refund_def reopen_topup_def undo_refund_def wp_simps
      split: option.splits sum.splits funding_kind.splits)

lemma stranded_lineage_call:
  assumes "stranded k c s"
  shows "keeps (stranded k c) (doneS (client_applyCovenantLineage env e l d)) s"
proof (cases "to_lower (dc_id e) = k")
  case True
  then show ?thesis using assms strandedD(3) [OF assms]
    by (auto simp: client_applyCovenantLineage_def Let_def wp_simps split: option.splits)
next
  case False
  have last: "keeps (stranded k c) (bindS (reconcile_refund env (to_lower (dc_id e)) current l d refund) (\<lambda>_. put_channel (to_lower (dc_id e)) d)) t"
    if "stranded k c t" for current refund t
    unfolding wp_bind by (rule wp_mono [OF stranded_reconcile(2) [OF that False]]) (simp_all add: wp_simps False)
  have "keeps (stranded k c) (bindS (reconcile_funding env (to_lower (dc_id e)) current l d funding) (\<lambda>_.
      bindS (reconcile_refund env (to_lower (dc_id e)) current l d refund) (\<lambda>_. put_channel (to_lower (dc_id e)) d))) s"
    for current funding refund
    unfolding wp_bind [of "reconcile_funding env (to_lower (dc_id e)) current l d funding"]
    by (rule wp_mono [OF stranded_reconcile(1) [OF assms False]]) (simp_all add: last)
  then show ?thesis using assms
    by (auto simp: client_applyCovenantLineage_def Let_def wp_simps split: option.splits sum.splits)
qed

lemma stranded_call:
  assumes "stranded k c s" "client_ok env s"
  shows "keeps (stranded k c) (client_call env m) s"
  using stranded_channel_calls [OF assms(1)] stranded_funding_calls [OF assms(1)] stranded_other_calls [OF assms]
    stranded_lineage_call [OF assms(1)]
  by (cases m) (simp_all only: client_call.simps)

interpretation stranded_machine:
  guarded_machine "client_step env" client_plain "\<lambda>s. client_ok env s \<and> stranded k c s" "\<lambda>s t. True" for env k c
  by unfold_locales (auto simp: client_step_def intro: keeps_run client_call_keeps stranded_call)

lemma quarantine_strands:
  assumes "client_channel s k = Some c" "dc_status c = ClientActive" "k = to_lower (dc_id c)"
    and "client_funding s k = Some a" "fa_status a \<noteq> FundingApplied" "fa_kind a = TopUpKind x" "dc_status x = ClientActive"
  shows "stranded k (c\<lparr>dc_status := ClientSuspicious\<rparr>) (fst (client_call env (Quarantine c) s))"
proof -
  have "keeps (stranded k (c\<lparr>dc_status := ClientSuspicious\<rparr>)) (doneS (quarantineChannel c)) s"
    using assms by (auto simp: quarantineChannel_def Let_def wp_simps sameHex_def sameManifest_def stranded_def client_writes)
  from keeps_run [OF this] show ?thesis by simp
qed


section \<open>Retiring a refunded channel\<close>

text \<open>\<open>retireChannel\<close> overwrites every status. A channel that was found refunded by reconciliation, and so
  has no refund attempt of its own, becomes retired: it is listed as refundable again and no longer
  passes the check against its lineage.\<close>

lemma retire_revives_refunded:
  assumes "client_channel s (to_lower i) = Some c" "dc_status c = ClientRefunded" "ln_currentHead (dc_lineage c) = None"
    and "client_funding s (to_lower i) = None" "client_refund s (to_lower i) = None"
    and "assertChannelLineageConsistency env c = Inr ()"
  shows "client_channel (fst (client_retireChannel i s)) (to_lower i) = Some (c\<lparr>dc_status := ClientRetired\<rparr>)
    \<and> isRefundable (c\<lparr>dc_status := ClientRetired\<rparr>) Absent = Inr True
    \<and> assertChannelLineageConsistency env (c\<lparr>dc_status := ClientRetired\<rparr>) \<noteq> Inr ()"
proof -
  have "keeps (\<lambda>t. client_channel t (to_lower i) = Some (c\<lparr>dc_status := ClientRetired\<rparr>)) (client_retireChannel i) s"
    using assms by (simp add: client_retireChannel_def Let_def wp_simps client_writes)
  from keeps_run [OF this] show ?thesis using assms
    by (simp add: isRefundable_def assertChannelLineageConsistency_def channel_manifest_mismatch_def run_simps)
qed

end
