(* ===== verification/Client_Examples.thy ===== *)
theory Client_Examples
  imports Client_Stranded Launch_Examples
begin

text \<open>
  A client channel on the lineage of \<^verbatim>\<open>Chain_Examples\<close>, a top-up and a genesis for it and an exact
  payment, on which the theorems about the client store are applied.
\<close>

section \<open>A channel\<close>

definition client_example_env :: client_env where
  "client_example_env = \<lparr>ce_sha = zero_sha,
     ce_escrow = \<lparr>ei_compiler_name = lm_compiler_name example_manifest,
       ei_compiler_checkedCommit = lm_compiler_checkedCommit example_manifest,
       ei_compiler_command = lm_compiler_command example_manifest, ei_source_path = lm_source_path example_manifest,
       ei_source_sha256 = lm_source_sha256 example_manifest,
       ei_bytecode_templateId = lm_bytecode_templateId example_manifest,
       ei_bytecode_compiledBaseSha256 = lm_bytecode_compiledBaseSha256 example_manifest,
       ei_constructorSlots = lm_constructorSlots example_manifest, ei_abi = lm_abi example_manifest,
       ei_selectors = lm_selectors example_manifest, ei_identitySha256 = lm_identitySha256 example_manifest\<rparr>,
     ce_href = Some\<rparr>"

definition client_example_config :: channel_config where
  "client_example_config = \<lparr>cc_network = ''kaspa:mainnet'', cc_asset = ''KAS'', cc_templateId = ''kaspa-x402-escrow-v5'',
     cc_clientPublicKey = id64 (CHR ''1''), cc_serverPublicKey = id64 (CHR ''2''), cc_payTo = ''p'', cc_refundAddress = ''r'',
     cc_refundTimeoutDaa = ''1'', cc_salt = id64 (CHR ''3'')\<rparr>"

definition client_example :: direct_channel where
  "client_example = \<lparr>dc_id = id64 (CHR ''0''), dc_covenantId = id64 (CHR ''c''), dc_genesisEvidence = example_evidence,
     dc_lastTopUpEvidence = Absent, dc_origin = ''o'', dc_resourceUrl = Absent, dc_config = client_example_config,
     dc_clientPrivateKey = Absent, dc_clientPublicKey = id64 (CHR ''1''), dc_serverPublicKey = id64 (CHR ''2''),
     dc_activeOutpoint = mg_outpoint example_genesis, dc_activeScriptPublicKey = ''aa'', dc_escrowAddress = ''e'',
     dc_fundingSource = ''hot-wallet'', dc_fundingAmount = ''1000'', dc_chargedCumulativeAmount = ''0'',
     dc_claimedCumulativeAmount = ''0'', dc_signedMaxClaimable = ''0'', dc_latestVoucher = Absent,
     dc_requiresDepositVoucher = True, dc_refundTimeoutDaa = ''1'', dc_templateId = ''t'',
     dc_lineage = example_lineage, dc_status = ClientActive\<rparr>"

lemma client_example_consistent: "assertChannelLineageConsistency client_example_env client_example = Inr ()"
proof -
  have "compiler_json (escrow_manifest (ce_escrow client_example_env) [] g) = compiler_json example_manifest"
    "source_json (escrow_manifest (ce_escrow client_example_env) [] g) = source_json example_manifest"
    "bytecode_json (escrow_manifest (ce_escrow client_example_env) [] g) = bytecode_json example_manifest" for g
    by (simp_all add: compiler_json_def source_json_def bytecode_json_def escrow_manifest_def client_example_env_def)
  then have "channel_manifest_mismatch (ce_escrow client_example_env) client_example = Inr False"
    using example_small [THEN same_text]
    by (simp add: channel_manifest_mismatch_def client_example_def example_lineage_def orE_def client_example_config_def)
      (simp add: client_example_env_def example_manifest_def example_genesis_def example_evidence_def sameOutpoint_def sameHex_def)
  then show ?thesis
    by (simp add: assertChannelLineageConsistency_def)
      (simp add: client_example_def example_lineage_def genesis_head_def example_manifest_def example_genesis_def head_matches_def
        sameHex_def sameOutpoint_def)
qed

lemma client_example_ids: "is_hash32 (id64 (CHR ''e''))" "to_lower (id64 (CHR ''0'')) = id64 (CHR ''0'')"
  "\<not> is_zero_hash32 (id64 (CHR ''c''))" "id64 (CHR ''0'') \<noteq> []" "is_hash32 (id64 (CHR ''0''))"
  by code_simp+

lemma client_example_id: "channelId zero_sha client_example_config = Inr (id64 (CHR ''0''))"
  by code_simp

section \<open>A top-up and a genesis\<close>

definition example_successor :: "string \<Rightarrow> string \<Rightarrow> funding_successor" where
  "example_successor tx amount = \<lparr>fs_outpoint = \<lparr>op_txid = tx, op_index = JsInt 0\<rparr>, fs_covenantId = id64 (CHR ''c''),
     fs_amount = amount, fs_scriptPublicKey = ''aa''\<rparr>"

definition example_topup :: funding_attempt where
  "example_topup = \<lparr>fa_kind = TopUpKind client_example, fa_channelId = id64 (CHR ''0''), fa_transaction = ''00'',
     fa_transactionId = id64 (CHR ''2''), fa_inputOutpoints = [\<lparr>op_txid = id64 (CHR ''e''), op_index = JsInt 1\<rparr>],
     fa_intendedSuccessor = example_successor (id64 (CHR ''2'')) ''2000'', fa_fundingSource = ''hot-wallet'',
     fa_status = FundingPending, fa_finality = Absent, fa_acceptance = Absent, fa_requiredConfirmations = JsInt 1\<rparr>"

definition example_applied_genesis :: funding_attempt where
  "example_applied_genesis = \<lparr>fa_kind = GenesisKind \<lparr>gi_channelId = id64 (CHR ''0''), gi_origin = ''o'', gi_resourceUrl = Absent,
       gi_config = client_example_config, gi_clientPrivateKey = Absent, gi_escrowAddress = ''e'', gi_fundingSource = ''hot-wallet''\<rparr>,
     fa_channelId = id64 (CHR ''0''), fa_transaction = ''00'',
     fa_transactionId = id64 (CHR ''1''), fa_inputOutpoints = [\<lparr>op_txid = id64 (CHR ''e''), op_index = JsInt 0\<rparr>],
     fa_intendedSuccessor = example_successor (id64 (CHR ''1'')) ''1000'', fa_fundingSource = ''hot-wallet'',
     fa_status = FundingApplied, fa_finality = Val ''confirmed'', fa_acceptance = Val (mg_acceptance example_genesis),
     fa_requiredConfirmations = JsInt 1\<rparr>"

definition one_channel :: "funding_attempt \<Rightarrow> client_store" where
  "one_channel a = empty_client\<lparr>ks_channels := [(id64 (CHR ''0''), client_example)], ks_funding := [(id64 (CHR ''0''), a)]\<rparr>"

lemma example_attempts_match:
  "persistedFundingAttemptMatchesChannel client_example_env (Some client_example) example_topup = Inr True"
  "persistedFundingAttemptMatchesChannel client_example_env (Some client_example) example_applied_genesis = Inr True"
proof -
  have inputs: "outpoints_consistent [\<lparr>op_txid = id64 (CHR ''e''), op_index = JsInt i\<rparr>]" if "i \<in> {0, 1}" for i
    using that client_example_ids(1) by (auto simp: outpoints_consistent_def natural_index_def in_range_def MAX_SAFE_INTEGER_def)
  have sha: "ce_sha client_example_env = zero_sha" by (simp add: client_example_env_def)
  show "persistedFundingAttemptMatchesChannel client_example_env (Some client_example) example_topup = Inr True"
    using inputs client_example_ids(3)
    by (simp add: persistedFundingAttemptMatchesChannel_def fundingAttemptArtifactIsConsistent_def andE_def example_topup_def
        positive_safe_def MAX_SAFE_INTEGER_def fundingAttemptChannelId_def example_successor_def sameHex_def
        openFundingAttemptMatchesChannel_def sameChannelState_def sameOutpoint_def sameLineage_def sameVoucher_def)
      (simp add: client_example_def example_genesis_def)
  show "persistedFundingAttemptMatchesChannel client_example_env (Some client_example) example_applied_genesis = Inr True"
    using inputs client_example_ids(3) client_example_id
    by (simp add: persistedFundingAttemptMatchesChannel_def fundingAttemptArtifactIsConsistent_def andE_def example_applied_genesis_def
        positive_safe_def MAX_SAFE_INTEGER_def fundingAttemptChannelId_def example_successor_def sameHex_def sha config_has_id_def
        appliedFundingAttemptMatchesChannel_def sameIntendedHead_def genesisEvidenceMatchesSuccessor_def sameOutpoint_def)
      (simp add: client_example_def example_genesis_def example_evidence_def)
qed

lemma opened_example:
  assumes "a \<in> {example_topup, example_applied_genesis}"
  shows "openClientStore client_example_env [client_example] [] [a] [] = Inr (one_channel a)"
proof -
  have "dc_id client_example = id64 (CHR ''0'')" by (simp add: client_example_def)
  moreover have "fa_channelId a = id64 (CHR ''0'')" using assms by (auto simp: example_topup_def example_applied_genesis_def)
  moreover have "persistedFundingAttemptMatchesChannel client_example_env (Some client_example) a = Inr True"
    using assms example_attempts_match by auto
  ultimately show ?thesis using client_example_consistent client_example_ids(2)
    by (simp add: openClientStore_def load_channel_def load_funding_def Let_def client_lookups empty_client_def one_channel_def)
qed

lemma example_durable: "durable_funding example_topup" "durable_funding example_applied_genesis"
proof -
  have "decideChainEvidence (AcceptedEvidence (mg_acceptance example_genesis)) (JsInt 1) = Inr (DecidedConfirmed (mg_acceptance example_genesis))"
    by code_simp
  then show "durable_funding example_applied_genesis"
    by (simp add: durable_funding_def example_applied_genesis_def confirmed_by_def sameHex_def) (simp add: example_genesis_def example_acceptance_def id64_def)
  show "durable_funding example_topup" by (simp add: durable_funding_def example_topup_def client_example_def)
qed

lemma one_channel_lookups:
  "client_channel (one_channel a) (id64 (CHR ''0'')) = Some client_example"
  "client_funding (one_channel a) (id64 (CHR ''0'')) = Some a" "client_refund (one_channel a) k = None"
  by (simp_all add: one_channel_def client_lookups empty_client_def)

lemma no_calls: "client_after env s [] = s"
  by (simp add: client_after_def)


theorem client_transitions_exclusive_witness:
  "isOpenFundingAttempt (client_funding (client_after client_example_env (one_channel example_topup) []) (id64 (CHR ''0'')))
   \<and> \<not> isOpenRefundAttempt (client_refund (client_after client_example_env (one_channel example_topup) []) (id64 (CHR ''0'')))"
proof -
  have open_topup: "isOpenFundingAttempt (client_funding (client_after client_example_env (one_channel example_topup) []) (id64 (CHR ''0'')))"
    by (simp add: no_calls one_channel_lookups) (simp add: example_topup_def)
  moreover have "openClientStore client_example_env [client_example] [] [example_topup] [] = Inr (one_channel example_topup)"
    by (rule opened_example) simp
  ultimately show ?thesis using client_transitions_exclusive [of client_example_env "[client_example]" "[]" "[example_topup]" "[]"
      "one_channel example_topup" "[]" "id64 (CHR ''0'')"] example_durable by simp
qed

theorem client_applied_confirmed_witness:
  "fa_status example_applied_genesis = FundingApplied
   \<and> confirmed_by (fa_acceptance example_applied_genesis) (JsInt 1) (id64 (CHR ''1''))"
proof -
  have "openClientStore client_example_env [client_example] [] [example_applied_genesis] [] = Inr (one_channel example_applied_genesis)"
    by (rule opened_example) simp
  from client_applied_confirmed [OF this, of "[]"] have
    "client_funding (one_channel example_applied_genesis) k = Some a \<Longrightarrow> fa_status a = FundingApplied \<Longrightarrow>
       confirmed_by (fa_acceptance a) (fa_requiredConfirmations a) (fa_transactionId a)" for k a
    using example_durable by (simp add: no_calls)
  from this [OF one_channel_lookups(2)] show ?thesis by (simp add: example_applied_genesis_def)
qed

section \<open>Quarantine during a top-up\<close>

definition example_confirmation :: funding_apply where
  \<comment> \<open>the top-up transaction is confirmed\<close>
  "example_confirmation = \<lparr>fr_channelId = id64 (CHR ''0''), fr_transactionId = id64 (CHR ''2''),
     fr_acceptance = example_acceptance (CHR ''2'') (CHR ''d''),
     fr_evidence = TopUpEvidence \<lparr>te_covenantId = id64 (CHR ''c''), te_spentOutpoint = mg_outpoint example_genesis,
       te_successorOutpoint = \<lparr>op_txid = id64 (CHR ''2''), op_index = JsInt 0\<rparr>, te_successorScriptPublicKey = ''aa'',
       te_successorAmount = ''2000'', te_authorizedSuccessorCount = JsInt 1, te_authorizingInput = JsInt 0,
       te_acceptance = example_acceptance (CHR ''2'') (CHR ''d'')\<rparr>\<rparr>"


section \<open>An exact payment\<close>

definition example_payment :: payment_attempt where
  "example_payment = \<lparr>pa_attemptId = id64 (CHR ''0''), pa_intentHash = id64 (CHR ''0''), pa_requestHash = id64 (CHR ''0''),
     pa_origin = ''o'', pa_resourceUrl = ''u'', pa_paymentIdentifier = ''p'', pa_transactionId = id64 (CHR ''0''),
     pa_inputOutpoints = [\<lparr>op_txid = id64 (CHR ''e''), op_index = JsInt 0\<rparr>],
     pa_payment = \<lparr>py_resourceUrl = ''u'', py_accepted = JObj [(''scheme'', JStr ''exact'')], py_paymentPayload = JNull,
       py_scheme = ''exact'', py_channel = Absent, py_openedChannel = False, py_transactionId = Val (id64 (CHR ''0'')),
       py_exactAttemptId = Val (id64 (CHR ''0'')), py_paymentOutputIndex = Absent, py_payerAddress = Absent\<rparr>,
     pa_status = PaymentPending, pa_evidence = Absent, pa_output = Absent, pa_providerFinalized = False\<rparr>"

lemma example_payment_consistent: "exactPaymentAttemptIsConsistent client_example_env example_payment = Inr True"
proof -
  let ?v = "JObj [(''scope'', JStr ''kaspa:x402:exact-intent:v1''), (''origin'', JStr ''o''), (''resourceUrl'', JStr ''u''),
    (''requestHash'', JStr (id64 (CHR ''0''))), (''paymentIdentifier'', JStr ''p''), (''accepted'', JObj [(''scheme'', JStr ''exact'')])]"
  have "small ?v" by (simp add: small_text id64_def)
  from stableStringify_of_small [OF this] have "exactIntentHash client_example_env example_payment = Inr (id64 (CHR ''0''))"
    by (simp add: exactIntentHash_def example_payment_def client_example_env_def client_example_ids(2) zero_sha_hex)
  moreover have "natural_index (JsInt 0)" by (simp add: natural_index_def in_range_def MAX_SAFE_INTEGER_def)
  moreover have "\<not> blank ''p''" by code_simp
  ultimately show ?thesis using client_example_ids
    by (simp add: exactPaymentAttemptIsConsistent_def payment_artifact_consistent_def andE_def Let_def)
      (simp add: example_payment_def outpoints_consistent_def hex_is_def sameHex_def sameCanonicalUrl_def client_example_env_def
        payment_outcome_consistent_def)
qed

lemma example_payment_claimed:
  "client_after client_example_env empty_client [ClaimPayment example_payment]
     = empty_client\<lparr>ks_payments := [(id64 (CHR ''0''), example_payment)], ks_identifiers := [''p'' \<mapsto> id64 (CHR ''0'')]\<rparr>"
proof -
  have "pa_attemptId example_payment = id64 (CHR ''0'')" "pa_paymentIdentifier example_payment = ''p''" "pa_status example_payment = PaymentPending"
    by (simp_all add: example_payment_def)
  then show ?thesis using example_payment_consistent client_example_ids(2)
    by (simp add: client_after_def client_step_def claimExactPaymentAttempt_def Let_def doneS_def bindS_def requireE_def assertS_def
        andE_def unlessS_def ret_def readS_def client_payment_attempt_def owner_of_identifier_def empty_client_def put_payment_def writeS_def)
qed

theorem client_payments_kept_witness:
  "\<exists>b. client_payment_attempt (client_after client_example_env empty_client ([ClaimPayment example_payment]
         @ [FinalizePayment (id64 (CHR ''0'')) (id64 (CHR ''0''))])) (id64 (CHR ''0'')) = Some b
       \<and> payment_below example_payment b"
proof -
  have "openClientStore client_example_env [] [] [] [] = Inr empty_client" by (simp add: openClientStore_def)
  moreover have "client_payment_attempt (client_after client_example_env empty_client [ClaimPayment example_payment]) (id64 (CHR ''0'')) = Some example_payment"
    by (simp add: example_payment_claimed client_payment_attempt_def)
  ultimately show ?thesis
    using client_payments_kept [of client_example_env "[]" "[]" "[]" "[]" empty_client "[ClaimPayment example_payment]"
        "[FinalizePayment (id64 (CHR ''0'')) (id64 (CHR ''0''))]" "id64 (CHR ''0'')" example_payment]
    by (auto simp: client_plain_def)
qed

section \<open>A save\<close>

theorem save_compares_and_sets_witness:
  "client_channel (fst (saveChannel client_example_env None client_example empty_client)) (id64 (CHR ''0'')) = Some client_example"
proof -
  have "snd (saveChannel client_example_env None client_example empty_client) = Inr ()"
    using client_example_consistent
    by (simp add: saveChannel_def Let_def bindS_def assertChannelMutable_def readS_def unlessS_def ret_def assertS_def
        client_lookups empty_client_def lost_comparison_def put_channel_def writeS_def)
  then obtain t where t: "saveChannel client_example_env None client_example empty_client = (t, Inr ())" by (metis prod.collapse)
  have "dc_id client_example = id64 (CHR ''0'')" by (simp add: client_example_def)
  then show ?thesis using save_compares_and_sets [OF t] t client_example_ids(2) by simp
qed

text \<open>Two vouchers with one signature for different amounts are the same to the comparison of snapshots.\<close>

lemma snapshot_ignores_voucher_amount:
  "sameChannelState (c\<lparr>dc_latestVoucher := Val \<lparr>v_covenantId = i, v_authorizedCumulativeAmount = m, v_signature = g\<rparr>\<rparr>)
     (c\<lparr>dc_latestVoucher := Val \<lparr>v_covenantId = i, v_authorizedCumulativeAmount = n, v_signature = g\<rparr>\<rparr>)
   \<longleftrightarrow> num_eq (op_index (dc_activeOutpoint c)) (op_index (dc_activeOutpoint c))"
  by (simp add: sameChannelState_def sameHex_def sameOutpoint_def sameLineage_def sameVoucher_def)

end
