(* ===== verification/Hash_Chain_Script.thy ===== *)
theory Hash_Chain_Script
  imports Head_Lifecycle
begin

text \<open>
  Hash-chain heads: \<^verbatim>\<open>covenant/src/hash-chain.ts\<close>. A head is a covenant output whose script is one pinned
  compiled program with an owner key and a guard patched into fixed slots. The guard commits to the
  next link of a chain of one-time keys: a borrower reveals the link and the key and so fixes the
  guard of the successor. BLAKE3, BLAKE2b and the test whether a key lies on the curve are
  parameters.
\<close>

section \<open>Definitions\<close>

definition HASH_CHAIN_HEAD_V2_SAMPLE_OWNER :: string where
  "HASH_CHAIN_HEAD_V2_SAMPLE_OWNER = ''56b328b30c8bf5839e24058747879408bdb36241dc9c2e7c619faa12b2920967''"

definition HASH_CHAIN_HEAD_V2_SAMPLE_GUARD :: string where
  "HASH_CHAIN_HEAD_V2_SAMPLE_GUARD = ''2222222222222222222222222222222222222222222222222222222222222222''"

text \<open>The compiled program, with the sample guard and the sample owner key in their slots.\<close>

definition compiled_code1 :: string where
  "compiled_code1 =
     ''6c7604c6e1d70587637553798201209d7552798201209d75788201419d75537953797ed9788769b2519c69b5009c69b3'' @
     ''52a269b400a069b452a169b9009c6900bd0800000000000000008769785379ac6900cf76d0519c6976d2519c6900cb51'' @
     ''9c690000cc009c6900d578876900c200bea069b4529c6351d52000000000000000000000000000000000000000000000'' @
     ''00000000000000000000876951c200a0696854790120787eb976c902870294765193bc7c7eb976c976026582937cbc7e'' @
     ''aa02000001aa7e01207e7c7e01877e00c3887575757575755167760460104a2387637552798201209d75788201419d75'' @
     ''527978879169b2519c69b5009c69b352a269b400a069b452a169b9009c6900bd08000000000000000087697820''"

definition compiled_code2 :: string where
  "compiled_code2 =
     ''ac6900cf76d0519c6976d2519c6900cb519c690000cc009c6900d578876900c200bea269b4529c6351d5200000000000'' @
     ''000000000000000000000000000000000000000000000000000000876951c200a0696853790120787eb976c902870294'' @
     ''765193bc7c7eb976c976026582937cbc7eaa02000001aa7e01207e7c7e01877e00c38875757575755167760489d59c06'' @
     ''876375788201419d75b2519c69b5009c69b9009c69b3519c69b4519c6900bd08000000000000000087697820''"

definition compiled_code3 :: string where
  "compiled_code3 =
     ''ac6900cf76d0519c6976d2009c6900cb009c6900d5200000000000000000000000000000000000000000000000000000'' @
     ''000000000000876900c200a06900c200bea16975757551676a686868''"

definition HASH_CHAIN_HEAD_V2_COMPILED_BASE :: string where
  "HASH_CHAIN_HEAD_V2_COMPILED_BASE =
     ''6b20'' @ HASH_CHAIN_HEAD_V2_SAMPLE_GUARD @ compiled_code1 @ HASH_CHAIN_HEAD_V2_SAMPLE_OWNER
       @ compiled_code2 @ HASH_CHAIN_HEAD_V2_SAMPLE_OWNER @ compiled_code3"

definition guardOffset :: nat where "guardOffset = 2"

definition ownerOffsets :: "nat list" where "ownerOffsets = [319, 539]"

record head_params =
  hp_ownerPublicKey :: string
  hp_guard :: string

record chain_env =
  ce_blake3 :: "byte list \<Rightarrow> byte list"
  ce_blake2b :: "byte list \<Rightarrow> byte list"
  ce_onCurve :: "byte list \<Rightarrow> bool"

definition fixedBytes :: "string \<Rightarrow> string \<Rightarrow> byte list res" where
  "fixedBytes value label =
     (if \<not> is_hash32 value then Inl (JsError (label @ '' must be 32-byte hex'')) else Inr (hex_decode value))"

definition hashChainBorrowGuard :: "(byte list \<Rightarrow> byte list) \<Rightarrow> string \<Rightarrow> string \<Rightarrow> string res" where
  "hashChainBorrowGuard blake3 revealedGuard oneTimePublicKey =
     bindE (fixedBytes revealedGuard ''revealedGuard'') (\<lambda>link.
     bindE (fixedBytes oneTimePublicKey ''oneTimePublicKey'') (\<lambda>key.
     Inr (bytesToHex (blake3 (set_at (set_at (replicate 64 0) link 0) key 32)))))"

record chain_release =
  cr_revealedGuard :: string
  cr_oneTimePublicKey :: string

fun prepare_loop ::
  "(byte list \<Rightarrow> byte list) \<Rightarrow> string \<Rightarrow> chain_release list \<Rightarrow> string list \<Rightarrow> (string \<times> chain_release list) res" where
  "prepare_loop blake3 guard forward [] = Inr (guard, forward)"
| "prepare_loop blake3 guard forward (publicKey # rest) =
     bindE (hashChainBorrowGuard blake3 guard publicKey) (\<lambda>next.
       prepare_loop blake3 next
         (forward @ [\<lparr>cr_revealedGuard = guard, cr_oneTimePublicKey = to_lower publicKey\<rparr>]) rest)"

definition prepareHashChainBorrowGuards ::
  "(byte list \<Rightarrow> byte list) \<Rightarrow> string \<Rightarrow> string list \<Rightarrow> (string \<times> chain_release list) res" where
  "prepareHashChainBorrowGuards blake3 seed oneTimePublicKeys =
     (if oneTimePublicKeys = [] then Inl (JsError ''hash chain requires a one-time key'')
      else bindE (fixedBytes seed ''seed'') (\<lambda>bytes.
      bindE (prepare_loop blake3 (bytesToHex bytes) [] oneTimePublicKeys) (\<lambda>(guard, forward).
      Inr (guard, rev forward))))"

definition slot :: "nat \<Rightarrow> byte list \<Rightarrow> byte list" where
  "slot offset script = take 32 (drop offset script)"

fun patch_owner :: "byte list \<Rightarrow> byte list \<Rightarrow> nat list \<Rightarrow> byte list res" where
  "patch_owner owner script [] = Inr script"
| "patch_owner owner script (offset # rest) =
     (if slot offset script \<noteq> hex_decode HASH_CHAIN_HEAD_V2_SAMPLE_OWNER
      then Inl (JsError ''pinned owner constructor slot changed'')
      else patch_owner owner (set_at script owner offset) rest)"

definition buildHashChainHeadRedeemScript :: "chain_env \<Rightarrow> head_params \<Rightarrow> string res" where
  "buildHashChainHeadRedeemScript env params =
     bindE (fixedBytes (hp_ownerPublicKey params) ''ownerPublicKey'') (\<lambda>owner.
     \<comment> \<open>\<open>schnorr.utils.lift_x\<close> throws an error of the library\<close>
     if \<not> ce_onCurve env owner then Inl (JsError ''bad point'')
     else bindE (fixedBytes (hp_guard params) ''guard'') (\<lambda>guard.
     bindE (patch_owner owner (hex_decode HASH_CHAIN_HEAD_V2_COMPILED_BASE) ownerOffsets) (\<lambda>script.
     if slot guardOffset script \<noteq> hex_decode HASH_CHAIN_HEAD_V2_SAMPLE_GUARD
     then Inl (JsError ''pinned guard state slot changed'')
     else Inr (bytesToHex (set_at script guard guardOffset)))))"

definition hashChainHeadScriptPublicKey :: "chain_env \<Rightarrow> head_params \<Rightarrow> string res" where
  "hashChainHeadScriptPublicKey env params =
     bindE (buildHashChainHeadRedeemScript env params) (\<lambda>redeem.
     bindE (payToScriptHashScript (ce_blake2b env) redeem) serializedScriptPublicKey)"

definition parseHashChainHeadRedeemScript :: "chain_env \<Rightarrow> string \<Rightarrow> head_params res" where
  "parseHashChainHeadRedeemScript env redeemScript =
     (if redeemScript = [] \<or> \<not> HEX_BYTE_PATTERN_test redeemScript
      then Inl (JsError ''invalid hash-chain redeem script hex'')
      else let script = hex_decode redeemScript in
      if length script \<noteq> length (hex_decode HASH_CHAIN_HEAD_V2_COMPILED_BASE)
      then Inl (JsError ''hash-chain redeem script has the wrong length'')
      else let params = \<lparr>hp_ownerPublicKey = bytesToHex (slot (ownerOffsets ! 0) script),
                          hp_guard = bytesToHex (slot guardOffset script)\<rparr> in
      bindE (buildHashChainHeadRedeemScript env params) (\<lambda>rebuilt.
      if rebuilt \<noteq> to_lower redeemScript
      then Inl (JsError ''hash-chain redeem script does not match the pinned artifact'')
      else Inr params))"

definition borrow_pushData :: "byte list \<Rightarrow> byte list res" where
  "borrow_pushData data =
     (if length data \<le> 75 then Inr (concatBytes [[b8 (length data)], data])
      else if length data \<le> 255 then Inr (concatBytes [[0x4c, b8 (length data)], data])
      else if length data \<le> 65535
      then Inr (concatBytes [[0x4d, b8 (length data mod 256), b8 (length data div 256)], data])
      else Inl (JsError ''borrow witness item is too large''))"

definition KASPA_SIGHASH_NAMES :: "(int \<times> string) list" where
  "KASPA_SIGHASH_NAMES = [(1, ''all''), (2, ''none''), (4, ''single''), (129, ''all-anyonecanpay''),
     (130, ''none-anyonecanpay''), (132, ''single-anyonecanpay'')]"

definition kaspaSighashType :: "js_number \<Rightarrow> int res" where
  "kaspaSighashType value =
     (case value of
        JsInt v \<Rightarrow> if v \<in> set (map fst KASPA_SIGHASH_NAMES) then Inr v
                   else Inl (JsError ''invalid Kaspa sighash type'')
      | JsNonInt _ \<Rightarrow> Inl (JsError ''invalid Kaspa sighash type''))"

definition schnorr_hex :: "string \<Rightarrow> string \<Rightarrow> byte list res" where
  "schnorr_hex signature label =
     (if length signature \<noteq> 128 \<or> \<not> list_all is_hex signature
      then Inl (JsError (label @ '' must be 64-byte Schnorr hex'')) else Inr (hex_decode signature))"

definition concat_pushes :: "byte list list \<Rightarrow> string res" where
  "concat_pushes items = bindE (mapE borrow_pushData items) (\<lambda>parts. Inr (bytesToHex (concatBytes parts)))"

definition buildHashChainBorrowSignatureScript ::
  "chain_env \<Rightarrow> string \<Rightarrow> string \<Rightarrow> string \<Rightarrow> js_number option \<Rightarrow> string \<Rightarrow> string res" where
  "buildHashChainBorrowSignatureScript env revealedGuard oneTimePublicKey signature sighashType redeemScript =
     bindE (parseHashChainHeadRedeemScript env redeemScript) (\<lambda>_.
     bindE (schnorr_hex signature ''borrow signature'') (\<lambda>sig.
     bindE (fixedBytes revealedGuard ''revealedGuard'') (\<lambda>link.
     bindE (fixedBytes oneTimePublicKey ''oneTimePublicKey'') (\<lambda>key.
     bindE (kaspaSighashType (case sighashType of None \<Rightarrow> JsInt 1 | Some t \<Rightarrow> t)) (\<lambda>ty.
     concat_pushes [link, key, sig @ [b8 (nat ty)], hex_decode ''c6e1d705'', hex_decode redeemScript])))))"

definition buildHashChainOwnerRotationSignatureScript ::
  "chain_env \<Rightarrow> string \<Rightarrow> string \<Rightarrow> js_number option \<Rightarrow> string \<Rightarrow> string res" where
  "buildHashChainOwnerRotationSignatureScript env newGuard signature sighashType redeemScript =
     bindE (parseHashChainHeadRedeemScript env redeemScript) (\<lambda>_.
     bindE (schnorr_hex signature ''owner rotation signature'') (\<lambda>sig.
     bindE (fixedBytes newGuard ''newGuard'') (\<lambda>guard.
     bindE (kaspaSighashType (case sighashType of None \<Rightarrow> JsInt 1 | Some t \<Rightarrow> t)) (\<lambda>ty.
     concat_pushes [guard, sig @ [b8 (nat ty)], hex_decode ''60104a23'', hex_decode redeemScript]))))"

record borrow_grant =
  bg_revealedGuard :: string
  bg_oneTimePublicKey :: string
  bg_oneTimePrivateKey :: string

definition generateHashChainBorrowGrants ::
  "(byte list \<Rightarrow> byte list) \<Rightarrow> (byte list \<Rightarrow> byte list) \<Rightarrow> byte list \<Rightarrow> (nat \<Rightarrow> byte list)
     \<Rightarrow> js_number \<Rightarrow> (string \<times> borrow_grant list) res" where
  \<comment> \<open>\<open>seed\<close> and \<open>secret i\<close> are the random secret keys drawn in this order\<close>
  "generateHashChainBorrowGrants blake3 getPublicKey seed secret count =
     (case count of
        JsNonInt _ \<Rightarrow> Inl (JsError ''grant count must be an integer from 1 to 1024'')
      | JsInt n \<Rightarrow>
         if n < 1 \<or> 1024 < n then Inl (JsError ''grant count must be an integer from 1 to 1024'')
         else let privateKeys = map secret [0..<nat n];
                  publicKeys = map (\<lambda>key. bytesToHex (getPublicKey key)) privateKeys in
         bindE (prepareHashChainBorrowGuards blake3 (bytesToHex seed) publicKeys) (\<lambda>(initialGuard, releases).
         Inr (initialGuard,
              map (\<lambda>(release, key). \<lparr>bg_revealedGuard = cr_revealedGuard release,
                     bg_oneTimePublicKey = cr_oneTimePublicKey release, bg_oneTimePrivateKey = bytesToHex key\<rparr>)
                (zip releases (rev privateKeys)))))"

definition hashChainHeadTemplateHash :: "chain_env \<Rightarrow> string \<Rightarrow> string res" where
  \<comment> \<open>the state span is byte 1 to byte 33; lengths are written as 64-bit little-endian integers\<close>
  "hashChainHeadTemplateHash env ownerPublicKey =
     bindE (buildHashChainHeadRedeemScript env
              \<lparr>hp_ownerPublicKey = ownerPublicKey, hp_guard = HASH_CHAIN_HEAD_V2_SAMPLE_GUARD\<rparr>) (\<lambda>redeem.
     let script = hex_decode redeem; pre = take 1 script; post = drop 34 script in
     Inr (bytesToHex (ce_blake3 env (le_bytes 8 (length pre) @ pre @ le_bytes 8 (length post) @ post))))"

section \<open>The slots\<close>

lemma hex_decode_append: "even (length a) \<Longrightarrow> hex_decode (a @ b) = hex_decode a @ hex_decode b"
  by (induction a rule: hex_decode.induct) auto

lemma compiled_lengths [simp]:
  "length HASH_CHAIN_HEAD_V2_SAMPLE_OWNER = 64" "length HASH_CHAIN_HEAD_V2_SAMPLE_GUARD = 64"
  "length compiled_code1 = 570" "length compiled_code2 = 376" "length compiled_code3 = 152"
  by (simp_all add: HASH_CHAIN_HEAD_V2_SAMPLE_OWNER_def HASH_CHAIN_HEAD_V2_SAMPLE_GUARD_def
      compiled_code1_def compiled_code2_def compiled_code3_def)

definition program :: "byte list \<Rightarrow> byte list \<Rightarrow> byte list \<Rightarrow> byte list" where
  \<comment> \<open>the compiled program around a guard and two owner slots\<close>
  "program guard owner owner' = hex_decode ''6b20'' @ guard @ hex_decode compiled_code1 @ owner
     @ hex_decode compiled_code2 @ owner' @ hex_decode compiled_code3"

lemma compiled_base_program:
  "hex_decode HASH_CHAIN_HEAD_V2_COMPILED_BASE = program (hex_decode HASH_CHAIN_HEAD_V2_SAMPLE_GUARD)
     (hex_decode HASH_CHAIN_HEAD_V2_SAMPLE_OWNER) (hex_decode HASH_CHAIN_HEAD_V2_SAMPLE_OWNER)"
  by (simp add: HASH_CHAIN_HEAD_V2_COMPILED_BASE_def program_def hex_decode_append)

lemma program_slots:
  assumes "length g = 32" "length a = 32" "length b = 32"
  shows "slot 2 (program g a b) = g" "slot 319 (program g a b) = a" "slot 539 (program g a b) = b"
    and "length x = 32 \<Longrightarrow> set_at (program g a b) x 2 = program x a b"
    and "length x = 32 \<Longrightarrow> set_at (program g a b) x 319 = program g x b"
    and "length x = 32 \<Longrightarrow> set_at (program g a b) x 539 = program g a x"
    and "length (program g a b) = 647"
  using assms by (simp_all add: slot_def set_at_def program_def length_hex_decode)


lemma fixedBytes_Inr [run_simps]: "fixedBytes s l = Inr bs \<longleftrightarrow> is_hash32 s \<and> bs = hex_decode s"
  by (auto simp: fixedBytes_def)

lemma hash32_bytes: "is_hash32 s \<Longrightarrow> length (hex_decode s) = 32"
  by (simp add: is_hash32_def length_hex_decode)

lemma hash32_hex_decode: "is_hash32 s \<Longrightarrow> bytesToHex (hex_decode s) = to_lower s"
  by (simp add: is_hash32_def bytesToHex_hex_decode)

lemma sample_lengths [simp]:
  "length (hex_decode HASH_CHAIN_HEAD_V2_SAMPLE_OWNER) = 32" "length (hex_decode HASH_CHAIN_HEAD_V2_SAMPLE_GUARD) = 32"
  by (simp_all add: length_hex_decode)

lemma patch_owner_program:
  "length owner = 32 \<Longrightarrow>
     patch_owner owner (hex_decode HASH_CHAIN_HEAD_V2_COMPILED_BASE) ownerOffsets
       = Inr (program (hex_decode HASH_CHAIN_HEAD_V2_SAMPLE_GUARD) owner owner)"
  by (simp add: compiled_base_program ownerOffsets_def program_slots)

lemma build_head_Inr:
  "buildHashChainHeadRedeemScript env p = Inr s \<longleftrightarrow>
     is_hash32 (hp_ownerPublicKey p) \<and> is_hash32 (hp_guard p) \<and> ce_onCurve env (hex_decode (hp_ownerPublicKey p))
     \<and> s = bytesToHex (program (hex_decode (hp_guard p)) (hex_decode (hp_ownerPublicKey p))
             (hex_decode (hp_ownerPublicKey p)))"
  by (auto simp: buildHashChainHeadRedeemScript_def run_simps patch_owner_program program_slots hash32_bytes
      guardOffset_def)

lemma base_length [simp]: "length (hex_decode HASH_CHAIN_HEAD_V2_COMPILED_BASE) = 647"
  by (simp add: compiled_base_program program_slots)

lemma bytesToHex_lower_hash32:
  assumes "length bs = 32"
  shows "is_lower_hash32 (bytesToHex bs)"
proof -
  have "is_hash32 (bytesToHex bs)" using assms by (simp add: is_hash32_def bytesToHex_hex)
  then show ?thesis using is_lower_hash32_lower by fastforce
qed

text \<open>C25. Parsing a head script inverts building it: a script, in either case, is parsed to an owner key
  and a guard exactly when these are canonical and the script is the one built from them, so that no
  byte outside the two slots can differ from the pinned program.\<close>

theorem head_script_roundtrip:
  "parseHashChainHeadRedeemScript env s = Inr p \<longleftrightarrow>
     is_lower_hash32 (hp_ownerPublicKey p) \<and> is_lower_hash32 (hp_guard p)
     \<and> buildHashChainHeadRedeemScript env p = Inr (to_lower s)"
  (is "?L \<longleftrightarrow> ?R")
proof
  assume ?L
  then have len: "length (hex_decode s) = 647" and hex: "HEX_BYTE_PATTERN_test s"
    and p: "p = \<lparr>hp_ownerPublicKey = bytesToHex (slot (ownerOffsets ! 0) (hex_decode s)),
               hp_guard = bytesToHex (slot guardOffset (hex_decode s))\<rparr>"
    and b: "buildHashChainHeadRedeemScript env p = Inr (to_lower s)"
    by (auto simp: parseHashChainHeadRedeemScript_def Let_def run_simps split: if_splits)
  have "length (slot n (hex_decode s)) = 32" if "n \<le> 500" for n using that len by (simp add: slot_def)
  then show ?R using p b by (simp add: bytesToHex_lower_hash32 ownerOffsets_def guardOffset_def)
next
  assume R: ?R
  then have h: "is_hash32 (hp_ownerPublicKey p)" "is_hash32 (hp_guard p)" by (auto simp: build_head_Inr)
  let ?pr = "program (hex_decode (hp_guard p)) (hex_decode (hp_ownerPublicKey p)) (hex_decode (hp_ownerPublicKey p))"
  have s: "to_lower s = bytesToHex ?pr" using R by (simp add: build_head_Inr)
  have hex: "HEX_BYTE_PATTERN_test s" using s bytesToHex_hex(1) [of ?pr] HEX_BYTE_PATTERN_lower by metis
  have dec: "hex_decode s = ?pr" using s hex to_lower_append_hex by (metis hex_decode_bytesToHex)
  have "bytesToHex (hex_decode (hp_ownerPublicKey p)) = hp_ownerPublicKey p"
    "bytesToHex (hex_decode (hp_guard p)) = hp_guard p"
    using R h by (simp_all add: hash32_hex_decode to_lower_lower_hash32)
  then have p: "\<lparr>hp_ownerPublicKey = bytesToHex (slot (ownerOffsets ! 0) (hex_decode s)),
               hp_guard = bytesToHex (slot guardOffset (hex_decode s))\<rparr> = p"
    using h by (simp add: dec program_slots hash32_bytes ownerOffsets_def guardOffset_def)
  have "s \<noteq> []" "length (hex_decode s) = 647" using dec h program_slots(7) hash32_bytes by fastforce+
  then show ?L using hex R p by (simp add: parseHashChainHeadRedeemScript_def Let_def)
qed

lemma program_inject:
  assumes "length g = 32" "length g' = 32" "length a = 32" "length a' = 32"
  shows "program g a a = program g' a' a' \<longleftrightarrow> g = g' \<and> a = a'"
  using assms program_slots(1,2) by metis

section \<open>Chains of one-time keys\<close>

fun chain_links :: "(byte list \<Rightarrow> byte list) \<Rightarrow> string \<Rightarrow> chain_release list \<Rightarrow> bool" where
  \<comment> \<open>each release opens the guard that the one before it has revealed\<close>
  "chain_links blake3 guard [] = True"
| "chain_links blake3 guard (r # rs) =
     (hashChainBorrowGuard blake3 (cr_revealedGuard r) (cr_oneTimePublicKey r) = Inr guard
      \<and> chain_links blake3 (cr_revealedGuard r) rs)"

lemma borrowGuard_lower:
  assumes "hashChainBorrowGuard blake3 g k = Inr n"
  shows "hashChainBorrowGuard blake3 g (to_lower k) = Inr n"
proof -
  have k: "is_hash32 k" using assms by (auto simp: hashChainBorrowGuard_def run_simps)
  then have "HEX_BYTE_PATTERN_test k" by (simp add: is_hash32_def HEX_BYTE_PATTERN_test_def)
  then show ?thesis using assms k by (simp add: hashChainBorrowGuard_def fixedBytes_def to_lower_append_hex)
qed

lemma prepare_loop_links:
  assumes "prepare_loop blake3 guard forward keys = Inr (g, rs)" "chain_links blake3 guard (rev forward)"
  shows "chain_links blake3 g (rev rs) \<and> length rs = length forward + length keys"
  using assms
proof (induction keys arbitrary: guard forward)
  case (Cons k keys)
  then show ?case by (auto simp: bindE_Inr borrowGuard_lower dest!: Cons.IH)
qed simp

lemma prepared_chain_links:
  assumes "prepareHashChainBorrowGuards blake3 seed keys = Inr (guard, releases)"
  shows "chain_links blake3 guard releases \<and> length releases = length keys"
  using assms prepare_loop_links [of blake3 _ "[]" keys]
  by (auto simp: prepareHashChainBorrowGuards_def run_simps split: prod.splits)

end
