(* ===== verification/Issuer_Records.thy ===== *)
theory Issuer_Records
  imports Hash_Chain_Script "HOL-Library.AList"
begin

text \<open>
  The records of the hash-chain grant issuer (\<^verbatim>\<open>server/src/hash-chain-issuer.ts\<close>): heads with their
  chains of one-time keys, challenges, assignments, delivery records, accepted payments, and the
  tables of the database. The rows are sealed with AES-GCM; the model keeps the plain record, and
  the size of a sealed row is 29 bytes more than the JSON text of the record. The functions of this
  theory check and compare single records.
\<close>

section \<open>Data\<close>

datatype grant_phase = Ready | Assigned | NeedsRotation | Hold | Exhausted | Retired

record observed_head =
  oh_outpoint :: funding_outpoint
  oh_amount :: string
  oh_guard :: string
  oh_scriptPublicKey :: string
  oh_covenantId :: string

record grant_claim =
  gc_grantId :: string
  gc_challengeId :: string
  gc_requestHash :: string
  gc_payerPublicKey :: string
  gc_expiresAt :: string
  gc_signature :: string

record public_grant =
  pg_headId :: string
  pg_headVersion :: int
  pg_network :: string
  pg_ownerPublicKey :: string
  pg_head :: observed_head
  pg_grantId :: string
  pg_nextGuard :: string
  pg_oneTimePublicKey :: string
  pg_phase :: grant_phase

record grant_challenge =
  ch_headId :: string
  ch_headVersion :: int
  ch_grantId :: string
  ch_challengeId :: string
  ch_requestHash :: string
  ch_quotedAmount :: "string option"
  ch_issuedAt :: string
  ch_expiresAt :: string

record stored_challenge = grant_challenge +
  ch_admissionKey :: "string option"

record grant_delivery =
  gd_grantId :: string
  gd_headVersion :: int
  gd_nextGuard :: string
  gd_oneTimePublicKey :: string
  gd_oneTimePrivateKey :: string
  gd_expiresAt :: string
  gd_deliveryCommittedAt :: string

record delivery_record =
  dr_headId :: string
  dr_headVersion :: int
  dr_headOutpoint :: funding_outpoint
  dr_headAmount :: string
  dr_headGuard :: string
  dr_headScriptPublicKey :: string
  dr_covenantId :: string
  dr_ownerPublicKey :: string
  dr_grantId :: string
  dr_nextGuard :: string
  dr_oneTimePublicKey :: string
  dr_challengeId :: string
  dr_challengeIssuedAt :: string
  dr_challengeExpiresAt :: string
  dr_requestHash :: string
  dr_quotedAmount :: "string option"
  dr_payerPublicKey :: string
  dr_claimantId :: "string option"
  dr_qualifyingFundingOutpoint :: "funding_outpoint option"
  dr_expiresAt :: string
  dr_deliveryCommittedAt :: string

datatype hc_finality = Accepted | Confirmed | OtherFinality string

record accepted_payment =
  ap_transactionId :: string
  ap_grantId :: string
  ap_challengeId :: string
  ap_requestHash :: string
  ap_payerPublicKey :: string
  ap_requirementsHash :: string
  ap_paymentIdentifier :: string
  ap_amount :: string
  ap_finality :: hc_finality

record accepted_transition =
  tr_finality :: hc_finality
  tr_predecessor :: funding_outpoint
  tr_successor :: observed_head

record accepted_sweep =
  sw_finality :: hc_finality
  sw_predecessor :: funding_outpoint
  sw_transactionId :: string
  sw_sameIdOutputCount :: js_number

record stored_grant =
  sg_grantId :: string
  sg_revealedGuard :: string
  sg_oneTimePublicKey :: string
  sg_oneTimePrivateKey :: "string option"

record stored_assignment =
  sa_grantId :: string
  sa_challengeId :: string
  sa_requestHash :: string
  sa_quotedAmount :: "string option"
  sa_payerPublicKey :: string
  sa_claimantId :: "string option"
  sa_qualifyingFundingOutpoint :: "funding_outpoint option"
  sa_expiresAt :: string
  sa_deliveryCommittedAt :: string
  sa_candidateTransactionId :: "string option"

record history_entry =
  he_head :: observed_head
  he_grant :: "stored_grant option"
  he_exposed :: bool

record stored_head =
  sh_headId :: string
  sh_version :: int
  sh_network :: string
  sh_ownerPublicKey :: string
  sh_head :: observed_head
  sh_grants :: "stored_grant list"
  sh_nextIndex :: nat
  sh_phase :: grant_phase
  sh_challenges :: "stored_challenge list"
  sh_assignment :: "stored_assignment option"
  sh_phaseBeforeHold :: "grant_phase option"
  sh_history :: "history_entry list"

record storage_limits =
  sl_maxRecords :: js_number
  sl_maxBytes :: js_number

record storage_usage =
  su_limits :: storage_limits
  su_records :: nat
  su_bytes :: nat
  su_reservedRecords :: nat
  su_reservedBytes :: nat
  su_admissionAvailable :: bool

record admission_row =
  ad_claimant :: string
  ad_admission :: string
  ad_disclosedAt :: int

record issuer_db =
  db_schemaVersion :: int
  db_heads :: "(string \<times> stored_head) list"
  db_deliveries :: "((string \<times> string) \<times> delivery_record) list"
  db_payments :: "(string \<times> accepted_payment) list"
  db_seenKeys :: "(string \<times> string) list"
  db_admissions :: "(string \<times> admission_row) list"
  db_legacy :: "string list"
  db_meta :: bool
  db_limits :: "storage_limits option"

record issuer_env =
  iv_chain :: chain_env
  iv_sha :: "byte list \<Rightarrow> byte list"
  iv_hmac :: "byte list \<Rightarrow> byte list"
  iv_getPublicKey :: "byte list \<Rightarrow> byte list"
  iv_verify :: "byte list \<Rightarrow> byte list \<Rightarrow> byte list \<Rightarrow> bool"
  iv_dateParse :: "string \<Rightarrow> int option"
  iv_toISO :: "int \<Rightarrow> string"
  iv_allowMainnet :: bool
  iv_maxGrantsPerClaimant :: nat
  iv_windowSeconds :: int
  iv_maxLiveChallenges :: nat
  iv_preflight :: "grant_claim \<Rightarrow> public_grant \<Rightarrow> bool"

text \<open>
  The constructor demands a positive quota and window and one to eight challenges; the environment
  holds the values it has admitted. \<open>iv_hmac\<close> is HMAC-SHA-256 under the encryption key. A policy
  without a preflight answers true.
\<close>

definition throwE :: "string \<Rightarrow> 'a res" where
  "throwE message = Inl (JsError message)"

definition checkE :: "bool \<Rightarrow> string \<Rightarrow> unit res" where
  \<comment> \<open>\<open>if (!good) throw new Error(message)\<close>\<close>
  "checkE good message = (if good then Inr () else throwE message)"

definition item :: "'a list \<Rightarrow> nat \<Rightarrow> 'a option" where
  \<comment> \<open>\<open>xs[n]\<close>, \<open>undefined\<close> beyond the end\<close>
  "item xs n = (if n < length xs then Some (xs ! n) else None)"

definition parsed :: "issuer_env \<Rightarrow> string \<Rightarrow> (int \<Rightarrow> bool) \<Rightarrow> bool" where
  \<comment> \<open>a comparison with \<open>Date.parse(text)\<close>, which is false for \<open>NaN\<close>\<close>
  "parsed env text P = (case iv_dateParse env text of None \<Rightarrow> False | Some t \<Rightarrow> P t)"

section \<open>Checks on single values\<close>

definition hc_hex32 :: "string \<Rightarrow> string \<Rightarrow> string res" where
  "hc_hex32 value label =
     (if is_lower_hash32 value then Inr value else throwE (label @ '' must be lowercase 32-byte hex''))"

definition canonicalAmount :: "string \<Rightarrow> string res" where
  "canonicalAmount value =
     (if \<not> canonical_dec value \<or> dec_val value = 0 \<or> 0xffffffffffffffff < dec_val value
      then throwE ''head amount must be a positive canonical uint64 string'' else Inr value)"

definition canonicalVersion :: "string \<Rightarrow> string res" where
  "canonicalVersion value =
     (if \<not> canonical_dec value \<or> MAX_SAFE_INTEGER < int (dec_val value)
      then throwE ''head version must be a canonical safe-integer string'' else Inr value)"

definition assertSupportedGrantNetwork :: "issuer_env \<Rightarrow> string \<Rightarrow> unit res" where
  "assertSupportedGrantNetwork env network =
     checkE (network = ''kaspa:testnet-10'' \<or> iv_allowMainnet env \<and> network = ''kaspa:mainnet'')
       ''unsupported grant network; mainnet requires allowMainnet''"

definition hc_sameOutpoint :: "funding_outpoint \<Rightarrow> funding_outpoint \<Rightarrow> bool" where
  "hc_sameOutpoint a b = (op_txid a = op_txid b \<and> num_eq (op_index a) (op_index b))"

definition sameHead :: "observed_head \<Rightarrow> observed_head \<Rightarrow> bool" where
  "sameHead a b = (hc_sameOutpoint (oh_outpoint a) (oh_outpoint b) \<and> oh_amount a = oh_amount b
     \<and> oh_guard a = oh_guard b \<and> oh_scriptPublicKey a = oh_scriptPublicKey b \<and> oh_covenantId a = oh_covenantId b)"

record utxo_observation =
  uo_outpoint :: funding_outpoint
  uo_amount :: string
  uo_scriptPublicKey :: string
  uo_covenantId :: "string option"

definition currentUtxoMatches :: "utxo_observation option \<Rightarrow> observed_head \<Rightarrow> bool" where
  "currentUtxoMatches observed expected =
     (case observed of
        None \<Rightarrow> False
      | Some o' \<Rightarrow> to_lower (op_txid (uo_outpoint o')) = op_txid (oh_outpoint expected)
          \<and> num_eq (op_index (uo_outpoint o')) (op_index (oh_outpoint expected))
          \<and> uo_amount o' = oh_amount expected
          \<and> to_lower (uo_scriptPublicKey o') = oh_scriptPublicKey expected
          \<and> map_option to_lower (uo_covenantId o') = Some (oh_covenantId expected))"

definition hc_normalizeOutpoint :: "funding_outpoint \<Rightarrow> funding_outpoint res" where
  "hc_normalizeOutpoint outpoint =
     (if op_index outpoint \<noteq> JsInt 0 then throwE ''head outpoint must be output zero''
      else bindE (hc_hex32 (op_txid outpoint) ''head txid'') (\<lambda>txid. Inr \<lparr>op_txid = txid, op_index = JsInt 0\<rparr>))"

definition normalizeGrant :: "issuer_env \<Rightarrow> string \<Rightarrow> borrow_grant \<Rightarrow> stored_grant res" where
  \<comment> \<open>\<open>grantId\<close> is drawn at random\<close>
  "normalizeGrant env grantId grant =
     bindE (hc_hex32 (bg_revealedGuard grant) ''revealedGuard'') (\<lambda>revealedGuard.
     bindE (hc_hex32 (bg_oneTimePublicKey grant) ''oneTimePublicKey'') (\<lambda>oneTimePublicKey.
     bindE (hc_hex32 (bg_oneTimePrivateKey grant) ''oneTimePrivateKey'') (\<lambda>oneTimePrivateKey.
     if bytesToHex (iv_getPublicKey env (hex_decode oneTimePrivateKey)) \<noteq> oneTimePublicKey
     then throwE ''one-time private key does not match public key''
     else Inr \<lparr>sg_grantId = grantId, sg_revealedGuard = revealedGuard, sg_oneTimePublicKey = oneTimePublicKey,
               sg_oneTimePrivateKey = Some oneTimePrivateKey\<rparr>)))"

definition normalizeGrants :: "issuer_env \<Rightarrow> (nat \<Rightarrow> string) \<Rightarrow> borrow_grant list \<Rightarrow> stored_grant list res" where
  "normalizeGrants env grantId grants =
     mapE (\<lambda>(n, grant). normalizeGrant env (grantId n) grant) (zip [0..<length grants] grants)"

definition normalizeHead :: "issuer_env \<Rightarrow> observed_head \<Rightarrow> string \<Rightarrow> observed_head res" where
  "normalizeHead env head ownerPublicKey =
     bindE (hc_normalizeOutpoint (oh_outpoint head)) (\<lambda>outpoint.
     bindE (canonicalAmount (oh_amount head)) (\<lambda>amount.
     bindE (hc_hex32 (oh_guard head) ''guard'') (\<lambda>guard.
     bindE (hc_hex32 (oh_covenantId head) ''covenantId'') (\<lambda>covenantId.
     if list_all (\<lambda>c. c = CHR ''0'') covenantId then throwE ''covenantId must be nonzero''
     else bindE (hashChainHeadScriptPublicKey (iv_chain env)
                   \<lparr>hp_ownerPublicKey = ownerPublicKey, hp_guard = guard\<rparr>) (\<lambda>scriptPublicKey.
     if to_lower (oh_scriptPublicKey head) \<noteq> scriptPublicKey
     then throwE ''head script does not match pinned covenant and guard''
     else Inr \<lparr>oh_outpoint = outpoint, oh_amount = amount, oh_guard = guard,
               oh_scriptPublicKey = scriptPublicKey, oh_covenantId = covenantId\<rparr>)))))"

definition normalizeClaim :: "issuer_env \<Rightarrow> grant_claim \<Rightarrow> grant_claim res" where
  "normalizeClaim env claim =
     bindE (checkE (case iv_dateParse env (gc_expiresAt claim) of
                      None \<Rightarrow> False | Some t \<Rightarrow> iv_toISO env t = gc_expiresAt claim)
              ''grant claim expiry must be canonical UTC ISO time'') (\<lambda>_.
     bindE (checkE (length (gc_signature claim) = 128 \<and> list_all is_lower_hex (gc_signature claim))
              ''grant signature must be lowercase 64-byte hex'') (\<lambda>_.
     bindE (hc_hex32 (gc_grantId claim) ''grantId'') (\<lambda>_.
     bindE (hc_hex32 (gc_challengeId claim) ''challengeId'') (\<lambda>_.
     bindE (hc_hex32 (gc_requestHash claim) ''requestHash'') (\<lambda>_.
     bindE (hc_hex32 (gc_payerPublicKey claim) ''payerPublicKey'') (\<lambda>_.
     Inr claim))))))"

definition hashChainGrantClaimDigest :: "issuer_env \<Rightarrow> string \<Rightarrow> grant_claim \<Rightarrow> byte list res" where
  "hashChainGrantClaimDigest env network claim =
     bindE (stableStringify (JObj
       [(''scope'', JStr ''kaspa-x402-hash-chain-grant-claim-v1''), (''network'', JStr network),
        (''binding'', JStr ''kaspa-hash-chain-exact-v1''), (''grantId'', JStr (gc_grantId claim)),
        (''challengeId'', JStr (gc_challengeId claim)), (''requestHash'', JStr (gc_requestHash claim)),
        (''payerPublicKey'', JStr (gc_payerPublicKey claim)), (''expiresAt'', JStr (gc_expiresAt claim))]))
       (\<lambda>t. Inr (iv_sha env (utf8Bytes t)))"

definition publicGrant :: "stored_head \<Rightarrow> public_grant" where
  "publicGrant state =
     (let grant = item (sh_grants state) (sh_nextIndex state);
          of_grant = (\<lambda>f. case grant of None \<Rightarrow> [] | Some g \<Rightarrow> f g) in
      \<lparr>pg_headId = sh_headId state, pg_headVersion = sh_version state, pg_network = sh_network state,
       pg_ownerPublicKey = sh_ownerPublicKey state, pg_head = sh_head state,
       pg_grantId = of_grant sg_grantId, pg_nextGuard = of_grant sg_revealedGuard,
       pg_oneTimePublicKey = of_grant sg_oneTimePublicKey, pg_phase = sh_phase state\<rparr>)"

definition publicChallenge :: "stored_challenge \<Rightarrow> grant_challenge" where
  "publicChallenge c =
     \<lparr>ch_headId = ch_headId c, ch_headVersion = ch_headVersion c, ch_grantId = ch_grantId c,
      ch_challengeId = ch_challengeId c, ch_requestHash = ch_requestHash c,
      ch_quotedAmount = ch_quotedAmount c, ch_issuedAt = ch_issuedAt c, ch_expiresAt = ch_expiresAt c\<rparr>"

definition publicRecoveryGrant :: "stored_grant \<Rightarrow> stored_grant" where
  "publicRecoveryGrant grant = grant\<lparr>sg_oneTimePrivateKey := None\<rparr>"

definition falsy :: "string option \<Rightarrow> bool" where
  "falsy value = (value = None \<or> value = Some [])"

definition claim_live :: "issuer_env \<Rightarrow> stored_head \<Rightarrow> grant_claim \<Rightarrow> stored_grant \<Rightarrow> stored_challenge \<Rightarrow> int \<Rightarrow> bool" where
  "claim_live env state claim grant challenge now =
     (\<not> falsy (sg_oneTimePrivateKey grant)
      \<and> ch_headVersion challenge = sh_version state
      \<and> ch_grantId challenge = sg_grantId grant
      \<and> ch_requestHash challenge = gc_requestHash claim
      \<and> gc_grantId claim = sg_grantId grant
      \<and> \<not> (falsy (ch_quotedAmount challenge) \<and> sh_assignment state = None)
      \<and> \<not> parsed env (ch_expiresAt challenge) (\<lambda>t. t < now)
      \<and> \<not> parsed env (gc_expiresAt claim) (\<lambda>t. t < now)
      \<and> \<not> parsed env (gc_expiresAt claim) (\<lambda>t. parsed env (ch_expiresAt challenge) (\<lambda>u. u < t)))"

definition tupleMatches :: "stored_assignment \<Rightarrow> grant_claim \<Rightarrow> bool" where
  "tupleMatches assignment claim =
     (sa_grantId assignment = gc_grantId claim \<and> sa_challengeId assignment = gc_challengeId claim
      \<and> sa_requestHash assignment = gc_requestHash claim \<and> sa_payerPublicKey assignment = gc_payerPublicKey claim
      \<and> sa_expiresAt assignment = gc_expiresAt claim)"

definition inspectGrantClaim ::
  "issuer_env \<Rightarrow> stored_head \<Rightarrow> grant_claim \<Rightarrow> int \<Rightarrow> (stored_grant \<times> stored_challenge) res" where
  "inspectGrantClaim env state claim now =
     bindE (checkE (sh_phase state = Ready \<or> sh_phase state = Assigned) ''current grant is unavailable'') (\<lambda>_.
     case (item (sh_grants state) (sh_nextIndex state),
           find (\<lambda>c. ch_challengeId c = gc_challengeId claim) (sh_challenges state)) of
       (Some grant, Some challenge) \<Rightarrow>
         bindE (checkE (claim_live env state claim grant challenge now)
                  ''grant claim does not match a live challenge'') (\<lambda>_.
         bindE (hashChainGrantClaimDigest env (sh_network state) claim) (\<lambda>digest.
         bindE (checkE (iv_verify env (hex_decode (gc_signature claim)) digest (hex_decode (gc_payerPublicKey claim)))
                  ''invalid grant payer signature'') (\<lambda>_.
         bindE (checkE (case sh_assignment state of None \<Rightarrow> True | Some a \<Rightarrow> tupleMatches a claim)
                  ''grant is assigned to another payer or request'') (\<lambda>_.
         Inr (grant, challenge)))))
     | _ \<Rightarrow> throwE ''grant claim does not match a live challenge'')"

definition sha_text :: "issuer_env \<Rightarrow> js_value \<Rightarrow> string res" where
  "sha_text env v = bindE (stableStringify v) (\<lambda>t. Inr (bytesToHex (iv_sha env (utf8Bytes t))))"

definition challengeAdmissionKey :: "issuer_env \<Rightarrow> string \<Rightarrow> stored_challenge \<Rightarrow> string res" where
  "challengeAdmissionKey env headId challenge =
     (case ch_admissionKey challenge of
        Some k \<Rightarrow> Inr k
      | None \<Rightarrow> sha_text env (JObj [(''scope'', JStr ''kaspa:x402:legacy-hash-chain-claim-caller:v2''),
                  (''headId'', JStr headId), (''challengeId'', JStr (ch_challengeId challenge))]))"

definition invalidClaimAdmissionKey :: "issuer_env \<Rightarrow> string \<Rightarrow> string res" where
  "invalidClaimAdmissionKey env headId =
     sha_text env (JObj [(''scope'', JStr ''kaspa:x402:invalid-hash-chain-claim:v1''), (''headId'', JStr headId)])"

definition grantKeyFingerprint :: "issuer_env \<Rightarrow> string \<Rightarrow> string" where
  "grantKeyFingerprint env publicKey = bytesToHex (iv_hmac env (hex_decode publicKey))"

definition textFingerprint :: "issuer_env \<Rightarrow> string \<Rightarrow> string" where
  "textFingerprint env text = bytesToHex (iv_hmac env (utf8Bytes text))"

section \<open>Sizes\<close>

definition json_opt :: "string \<Rightarrow> ('a \<Rightarrow> js_value) \<Rightarrow> 'a option \<Rightarrow> (string \<times> js_value) list" where
  \<comment> \<open>\<open>JSON.stringify\<close> leaves out a property whose value is \<open>undefined\<close>\<close>
  "json_opt k f v = (case v of None \<Rightarrow> [] | Some x \<Rightarrow> [(k, f x)])"

fun phase_text :: "grant_phase \<Rightarrow> string" where
  "phase_text Ready = ''ready''" | "phase_text Assigned = ''assigned''"
| "phase_text NeedsRotation = ''needsRotation''" | "phase_text Hold = ''hold''"
| "phase_text Exhausted = ''exhausted''" | "phase_text Retired = ''retired''"

fun finality_text :: "hc_finality \<Rightarrow> string" where
  "finality_text Accepted = ''accepted''" | "finality_text Confirmed = ''confirmed''"
| "finality_text (OtherFinality t) = t"

definition observed_json :: "observed_head \<Rightarrow> js_value" where
  "observed_json h = JObj [(''outpoint'', outpoint_json (oh_outpoint h)), (''amount'', JStr (oh_amount h)),
     (''guard'', JStr (oh_guard h)), (''scriptPublicKey'', JStr (oh_scriptPublicKey h)),
     (''covenantId'', JStr (oh_covenantId h))]"

definition grant_json :: "stored_grant \<Rightarrow> js_value" where
  "grant_json g = JObj ([(''grantId'', JStr (sg_grantId g)), (''revealedGuard'', JStr (sg_revealedGuard g)),
     (''oneTimePublicKey'', JStr (sg_oneTimePublicKey g))] @ json_opt ''oneTimePrivateKey'' JStr (sg_oneTimePrivateKey g))"

definition challenge_json :: "stored_challenge \<Rightarrow> js_value" where
  "challenge_json c = JObj ([(''headId'', JStr (ch_headId c)), (''headVersion'', JNum (JsInt (ch_headVersion c))),
     (''grantId'', JStr (ch_grantId c)), (''challengeId'', JStr (ch_challengeId c)),
     (''requestHash'', JStr (ch_requestHash c))] @ json_opt ''quotedAmount'' JStr (ch_quotedAmount c)
     @ [(''issuedAt'', JStr (ch_issuedAt c)), (''expiresAt'', JStr (ch_expiresAt c))]
     @ json_opt ''admissionKey'' JStr (ch_admissionKey c))"

definition assignment_json :: "stored_assignment \<Rightarrow> js_value" where
  "assignment_json a = JObj ([(''grantId'', JStr (sa_grantId a)), (''challengeId'', JStr (sa_challengeId a)),
     (''requestHash'', JStr (sa_requestHash a))] @ json_opt ''quotedAmount'' JStr (sa_quotedAmount a)
     @ [(''payerPublicKey'', JStr (sa_payerPublicKey a))] @ json_opt ''claimantId'' JStr (sa_claimantId a)
     @ json_opt ''qualifyingFundingOutpoint'' outpoint_json (sa_qualifyingFundingOutpoint a)
     @ [(''expiresAt'', JStr (sa_expiresAt a)), (''deliveryCommittedAt'', JStr (sa_deliveryCommittedAt a))]
     @ json_opt ''candidateTransactionId'' JStr (sa_candidateTransactionId a))"

definition history_json :: "history_entry \<Rightarrow> js_value" where
  "history_json e = JObj ([(''head'', observed_json (he_head e))] @ json_opt ''grant'' grant_json (he_grant e)
     @ [(''exposed'', JBool (he_exposed e))])"

definition head_json :: "stored_head \<Rightarrow> js_value" where
  "head_json s = JObj ([(''headId'', JStr (sh_headId s)), (''version'', JNum (JsInt (sh_version s))),
     (''network'', JStr (sh_network s)), (''ownerPublicKey'', JStr (sh_ownerPublicKey s)),
     (''head'', observed_json (sh_head s)), (''grants'', JArr (map grant_json (sh_grants s))),
     (''nextIndex'', JNum (JsInt (int (sh_nextIndex s)))), (''phase'', JStr (phase_text (sh_phase s))),
     (''challenges'', JArr (map challenge_json (sh_challenges s)))]
     @ json_opt ''assignment'' assignment_json (sh_assignment s)
     @ json_opt ''phaseBeforeHold'' (\<lambda>p. JStr (phase_text p)) (sh_phaseBeforeHold s)
     @ [(''history'', JArr (map history_json (sh_history s)))])"

definition delivery_json :: "delivery_record \<Rightarrow> js_value" where
  "delivery_json r = JObj ([(''headId'', JStr (dr_headId r)), (''headVersion'', JNum (JsInt (dr_headVersion r))),
     (''headOutpoint'', outpoint_json (dr_headOutpoint r)), (''headAmount'', JStr (dr_headAmount r)),
     (''headGuard'', JStr (dr_headGuard r)), (''headScriptPublicKey'', JStr (dr_headScriptPublicKey r)),
     (''covenantId'', JStr (dr_covenantId r)), (''ownerPublicKey'', JStr (dr_ownerPublicKey r)),
     (''grantId'', JStr (dr_grantId r)), (''nextGuard'', JStr (dr_nextGuard r)),
     (''oneTimePublicKey'', JStr (dr_oneTimePublicKey r)), (''challengeId'', JStr (dr_challengeId r)),
     (''challengeIssuedAt'', JStr (dr_challengeIssuedAt r)), (''challengeExpiresAt'', JStr (dr_challengeExpiresAt r)),
     (''requestHash'', JStr (dr_requestHash r))] @ json_opt ''quotedAmount'' JStr (dr_quotedAmount r)
     @ [(''payerPublicKey'', JStr (dr_payerPublicKey r))] @ json_opt ''claimantId'' JStr (dr_claimantId r)
     @ json_opt ''qualifyingFundingOutpoint'' outpoint_json (dr_qualifyingFundingOutpoint r)
     @ [(''expiresAt'', JStr (dr_expiresAt r)), (''deliveryCommittedAt'', JStr (dr_deliveryCommittedAt r))])"

definition payment_json :: "accepted_payment \<Rightarrow> js_value" where
  "payment_json p = JObj [(''transactionId'', JStr (ap_transactionId p)), (''grantId'', JStr (ap_grantId p)),
     (''challengeId'', JStr (ap_challengeId p)), (''requestHash'', JStr (ap_requestHash p)),
     (''payerPublicKey'', JStr (ap_payerPublicKey p)), (''requirementsHash'', JStr (ap_requirementsHash p)),
     (''paymentIdentifier'', JStr (ap_paymentIdentifier p)), (''amount'', JStr (ap_amount p)),
     (''finality'', JStr (finality_text (ap_finality p)))]"

definition limits_json :: "storage_limits \<Rightarrow> js_value" where
  "limits_json l = JObj [(''maxRecords'', JNum (sl_maxRecords l)), (''maxBytes'', JNum (sl_maxBytes l))]"

definition sealedSize :: "js_value \<Rightarrow> nat" where
  \<comment> \<open>version byte, nonce, authentication tag and the encrypted text\<close>
  "sealedSize v = 1 + 12 + 16 + utf8ByteLength (json_stringify v)"

end
