(* ===== verification/Hash_Chain_Issuer.thy ===== *)
theory Hash_Chain_Issuer
  imports Issuer_Records
begin

text \<open>
  The grant issuer of \<^verbatim>\<open>server/src/hash-chain-issuer.ts\<close>, the class \<open>HashChainGrantIssuer\<close>. A call is a
  function from the database to a result and a new database, or to an error, in which case the
  enclosing transaction is rolled back and the database is unchanged. Random ids are arguments of the
  call, and \<open>clock\<close> gives its readings of the time in order. The asynchronous claim is split at its
  awaits: authorisation, the check of the observation, and the commit.
\<close>

type_synonym 'a issuer_op = "issuer_db \<Rightarrow> ('a \<times> issuer_db) res"

section \<open>Storage\<close>

definition DEFAULT_STORAGE_LIMITS :: storage_limits where
  "DEFAULT_STORAGE_LIMITS = \<lparr>sl_maxRecords = JsInt 100000, sl_maxBytes = JsInt (64 * 1024 * 1024)\<rparr>"

definition RECOVERY_BYTES_PER_HEAD :: nat where
  "RECOVERY_BYTES_PER_HEAD = 512 * 1024"

definition RECOVERY_RECORDS_PER_HEAD :: nat where
  "RECOVERY_RECORDS_PER_HEAD = 1025"

definition validateStorageLimits :: "storage_limits \<Rightarrow> unit res" where
  "validateStorageLimits limits =
     checkE (in_range (sl_maxRecords limits) 8 1000000 \<and> in_range (sl_maxBytes limits) (256 * 1024) (4 * 1024 * 1024 * 1024))
       ''grant storage limits require 8 to 1000000 records and 256 KiB to 4 GiB''"

definition readStorageLimits :: "issuer_db \<Rightarrow> storage_limits res" where
  "readStorageLimits db =
     (case db_limits db of
        None \<Rightarrow> Inl (JsTypeError ''Cannot read properties of undefined'')
      | Some limits \<Rightarrow> bindE (validateStorageLimits limits) (\<lambda>_. Inr limits))"

definition table_bytes :: "('a \<Rightarrow> nat) \<Rightarrow> 'a list \<Rightarrow> nat" where
  \<comment> \<open>\<open>SUM(payload + 128)\<close>\<close>
  "table_bytes payload rows = sum_list (map (\<lambda>r. payload r + 128) rows)"

definition used_records :: "issuer_db \<Rightarrow> nat" where
  "used_records db = length (db_heads db) + length (db_deliveries db) + length (db_payments db)
     + length (db_seenKeys db) + length (db_admissions db) + length (db_legacy db)
     + (if db_meta db then 1 else 0) + (if db_limits db = None then 0 else 1)"

definition used_bytes :: "issuer_db \<Rightarrow> nat" where
  "used_bytes db =
     table_bytes (\<lambda>(h, s). length h + sealedSize (head_json s)) (db_heads db)
     + table_bytes (\<lambda>((h, g), r). length h + length g + sealedSize (delivery_json r)) (db_deliveries db)
     + table_bytes (\<lambda>(t, p). length t + length (ap_grantId p) + sealedSize (payment_json p)) (db_payments db)
     + table_bytes (\<lambda>(f, h). length f + length h) (db_seenKeys db)
     + table_bytes (\<lambda>(f, a). length f + length (ad_claimant a) + length (ad_admission a) + 8) (db_admissions db)
     + table_bytes length (db_legacy db)
     + (if db_meta db then 1 + 12 + 16 + length ''hash-chain-store-v1'' + 8 + 128 else 0)
     + (case db_limits db of None \<Rightarrow> 0 | Some l \<Rightarrow> sealedSize (limits_json l) + 8 + 128)"

fun num_int :: "js_number \<Rightarrow> int" where
  "num_int (JsInt i) = i"
| "num_int (JsNonInt s) = 0"

definition storageUsage :: "issuer_db \<Rightarrow> storage_usage res" where
  "storageUsage db =
     bindE (readStorageLimits db) (\<lambda>limits.
     let records = used_records db; bytes = used_bytes db; heads = length (db_heads db);
         reservedRecords = heads * RECOVERY_RECORDS_PER_HEAD; reservedBytes = heads * RECOVERY_BYTES_PER_HEAD in
     Inr \<lparr>su_limits = limits, su_records = records, su_bytes = bytes, su_reservedRecords = reservedRecords,
          su_reservedBytes = reservedBytes,
          su_admissionAvailable = (int (records + reservedRecords) < num_int (sl_maxRecords limits)
            \<and> int (bytes + reservedBytes) < num_int (sl_maxBytes limits))\<rparr>)"

definition capacity_error :: "string \<Rightarrow> js_error" where
  \<comment> \<open>\<open>HashChainStorageCapacityError\<close>; no other error has this message\<close>
  "capacity_error scope = JsError (''hash-chain persistent '' @ scope @ '' capacity exhausted'')"

definition is_capacity_error :: "js_error \<Rightarrow> bool" where
  "is_capacity_error e = (e = capacity_error ''records'' \<or> e = capacity_error ''bytes'')"

definition assertStorageCapacity :: "storage_usage \<Rightarrow> bool \<Rightarrow> unit res" where
  "assertStorageCapacity usage reserve =
     (if num_int (sl_maxRecords (su_limits usage))
           < int (su_records usage + (if reserve then su_reservedRecords usage else 0))
      then Inl (capacity_error ''records'')
      else if num_int (sl_maxBytes (su_limits usage))
           < int (su_bytes usage + (if reserve then su_reservedBytes usage else 0))
      then Inl (capacity_error ''bytes'')
      else Inr ())"

definition check_capacity :: "issuer_db \<Rightarrow> bool \<Rightarrow> storage_usage res" where
  "check_capacity db reserve =
     bindE (storageUsage db) (\<lambda>usage. bindE (assertStorageCapacity usage reserve) (\<lambda>_. Inr usage))"

definition insert_row :: "'k \<Rightarrow> 'v \<Rightarrow> ('k \<times> 'v) list \<Rightarrow> ('k \<times> 'v) list res" where
  \<comment> \<open>\<open>INSERT\<close> into a table with a primary key\<close>
  "insert_row k v rows =
     (if map_of rows k = None then Inr (rows @ [(k, v)]) else throwE ''UNIQUE constraint failed'')"

definition insert_or_ignore :: "'k \<Rightarrow> 'v \<Rightarrow> ('k \<times> 'v) list \<Rightarrow> ('k \<times> 'v) list" where
  "insert_or_ignore k v rows = (if map_of rows k = None then rows @ [(k, v)] else rows)"

datatype mutate_mode = Allocate | Recover | Claim

definition mutate ::
  "issuer_env \<Rightarrow> mutate_mode \<Rightarrow> string \<Rightarrow> (stored_head option \<Rightarrow> (stored_head \<times> 'a) issuer_op) \<Rightarrow> 'a issuer_op" where
  "mutate env mode headId change db =
     bindE (readStorageLimits db) (\<lambda>_.
     let current = map_of (db_heads db) headId;
         wasAssigned = (case current of None \<Rightarrow> False | Some s \<Rightarrow> sh_assignment s \<noteq> None) in
     bindE (case current of None \<Rightarrow> Inr () | Some s \<Rightarrow> assertSupportedGrantNetwork env (sh_network s)) (\<lambda>_.
     bindE (change current db) (\<lambda>((next, result), db1).
     let db2 = db1\<lparr>db_heads := AList.update headId next (db_heads db1)\<rparr> in
     bindE (check_capacity db2 (mode = Allocate \<or> mode = Claim \<and> \<not> wasAssigned)) (\<lambda>_.
     Inr (result, db2)))))"

text \<open>A method of several transactions: what the earlier ones have committed stays when a later step throws.\<close>

definition andThen :: "'a issuer_op \<Rightarrow> ('a \<Rightarrow> issuer_db \<Rightarrow> 'b res \<times> issuer_db) \<Rightarrow> issuer_db \<Rightarrow> 'b res \<times> issuer_db" where
  "andThen transaction rest db =
     (case transaction db of Inl e \<Rightarrow> (Inl e, db) | Inr (x, db1) \<Rightarrow> rest x db1)"

definition finish :: "'a res \<Rightarrow> issuer_db \<Rightarrow> 'a res \<times> issuer_db" where
  "finish r db = (r, db)"

section \<open>Reads\<close>

definition issuer_read :: "issuer_env \<Rightarrow> string \<Rightarrow> issuer_db \<Rightarrow> stored_head res" where
  "issuer_read env headId db =
     (case map_of (db_heads db) headId of
        None \<Rightarrow> throwE ''grant head is missing''
      | Some state \<Rightarrow>
          bindE (assertSupportedGrantNetwork env (sh_network state)) (\<lambda>_.
          bindE (checkE (case sh_assignment state of None \<Rightarrow> True
                   | Some a \<Rightarrow> (sa_claimantId a = None) = (sa_qualifyingFundingOutpoint a = None))
                   ''grant state has incomplete admission qualification'') (\<lambda>_. Inr state)))"

definition getDeliveryRecord :: "string \<Rightarrow> string \<Rightarrow> issuer_db \<Rightarrow> delivery_record option res" where
  "getDeliveryRecord headId grantId db =
     bindE (hc_hex32 headId ''headId'') (\<lambda>h.
     bindE (hc_hex32 grantId ''grantId'') (\<lambda>g. Inr (map_of (db_deliveries db) (h, g))))"

definition getAcceptedPayment :: "string \<Rightarrow> issuer_db \<Rightarrow> accepted_payment option res" where
  "getAcceptedPayment transactionId db =
     bindE (hc_hex32 transactionId ''transactionId'') (\<lambda>t. Inr (map_of (db_payments db) t))"

definition getChallenge :: "issuer_env \<Rightarrow> string \<Rightarrow> string \<Rightarrow> issuer_db \<Rightarrow> grant_challenge option res" where
  "getChallenge env headId challengeId db =
     bindE (hc_hex32 headId ''headId'') (\<lambda>h.
     bindE (issuer_read env h db) (\<lambda>state.
     \<comment> \<open>the id is checked in the predicate, so that it is not when there are no challenges\<close>
     bindE (if sh_challenges state = [] then Inr challengeId else hc_hex32 challengeId ''challengeId'') (\<lambda>c.
     Inr (map_option publicChallenge (find (\<lambda>x. ch_challengeId x = c) (sh_challenges state))))))"

definition grantClaimAdmissionKey :: "issuer_env \<Rightarrow> string \<Rightarrow> grant_claim \<Rightarrow> issuer_db \<Rightarrow> string res" where
  "grantClaimAdmissionKey env headId claim db =
     bindE (hc_hex32 headId ''headId'') (\<lambda>h.
     case normalizeClaim env claim of
       Inl _ \<Rightarrow> invalidClaimAdmissionKey env h
     | Inr c \<Rightarrow>
         bindE (issuer_read env h db) (\<lambda>state.
         case find (\<lambda>x. ch_grantId x = gc_grantId c \<and> ch_challengeId x = gc_challengeId c
                      \<and> ch_requestHash x = gc_requestHash c) (sh_challenges state) of
           Some challenge \<Rightarrow> challengeAdmissionKey env h challenge
         | None \<Rightarrow> invalidClaimAdmissionKey env h))"

definition challenge_matches ::
  "stored_head \<Rightarrow> string \<Rightarrow> string \<Rightarrow> string \<Rightarrow> stored_challenge \<Rightarrow> bool" where
  "challenge_matches state admission request amount c =
     (ch_admissionKey c = Some admission \<and> ch_requestHash c = request \<and> ch_quotedAmount c = Some amount
      \<and> ch_headVersion c = sh_version state
      \<and> Some (ch_grantId c) = map_option sg_grantId (item (sh_grants state) (sh_nextIndex state)))"

definition getAdmittedChallenge ::
  "issuer_env \<Rightarrow> int \<Rightarrow> string \<Rightarrow> string \<Rightarrow> string \<Rightarrow> string \<Rightarrow> issuer_db \<Rightarrow> grant_challenge option res" where
  "getAdmittedChallenge env now headId requestHash quotedAmount admissionKey db =
     bindE (hc_hex32 headId ''headId'') (\<lambda>h.
     bindE (issuer_read env h db) (\<lambda>state.
     if sh_phase state \<noteq> Ready then Inr None
     else bindE (hc_hex32 requestHash ''requestHash'') (\<lambda>request.
     bindE (canonicalAmount quotedAmount) (\<lambda>amount.
     bindE (hc_hex32 admissionKey ''challenge admission key'') (\<lambda>admission.
     Inr (map_option publicChallenge
       (find (\<lambda>c. parsed env (ch_expiresAt c) (\<lambda>t. now \<le> t) \<and> challenge_matches state admission request amount c)
          (sh_challenges state))))))))"

section \<open>Heads and challenges\<close>

fun rememberGrantKeys :: "issuer_env \<Rightarrow> string \<Rightarrow> stored_grant list \<Rightarrow> (string \<times> string) list \<Rightarrow> bool \<times> (string \<times> string) list" where
  \<comment> \<open>whether a key was seen before, and the table afterwards\<close>
  "rememberGrantKeys env headId [] seen = (False, seen)"
| "rememberGrantKeys env headId (grant # grants) seen =
     (let fingerprint = grantKeyFingerprint env (sg_oneTimePublicKey grant) in
      if map_of seen fingerprint \<noteq> None
      then (True, snd (rememberGrantKeys env headId grants seen))
      else rememberGrantKeys env headId grants (seen @ [(fingerprint, headId)]))"

fun check_chain :: "issuer_env \<Rightarrow> string \<Rightarrow> stored_grant list \<Rightarrow> bool res" where
  \<comment> \<open>whether the grants form the hash chain that ends in the guard\<close>
  "check_chain env guard [] = Inr True"
| "check_chain env guard (grant # grants) =
     bindE (hashChainBorrowGuard (ce_blake3 (iv_chain env)) (sg_revealedGuard grant) (sg_oneTimePublicKey grant)) (\<lambda>g.
     if g \<noteq> guard then Inr False else check_chain env (sg_revealedGuard grant) grants)"

record install_input =
  in_headId :: string
  in_network :: string
  in_ownerPublicKey :: string
  in_head :: observed_head
  in_grants :: "borrow_grant list"

definition installHead ::
  "issuer_env \<Rightarrow> (nat \<Rightarrow> string) \<Rightarrow> install_input \<Rightarrow> js_number option \<Rightarrow> public_grant issuer_op" where
  "installHead env grantId input maxActiveHeads db =
     bindE (checkE (case maxActiveHeads of None \<Rightarrow> True | Some m \<Rightarrow> in_range m 1 1024) ''ready-head pool limit is invalid'') (\<lambda>_.
     bindE (hc_hex32 (in_headId input) ''headId'') (\<lambda>headId.
     bindE (hc_hex32 (in_ownerPublicKey input) ''ownerPublicKey'') (\<lambda>ownerPublicKey.
     bindE (assertSupportedGrantNetwork env (in_network input)) (\<lambda>_.
     bindE (normalizeHead env (in_head input) ownerPublicKey) (\<lambda>head.
     bindE (checkE (in_grants input \<noteq> [] \<and> length (in_grants input) \<le> 1024) ''grant chain length is invalid'') (\<lambda>_.
     bindE (normalizeGrants env grantId (in_grants input)) (\<lambda>grants.
     bindE (check_chain env (oh_guard head) grants) (\<lambda>matches.
     bindE (checkE matches ''grant chain does not match current head guard'') (\<lambda>_.
     let stored = \<lparr>sh_headId = headId, sh_version = 0, sh_network = in_network input,
           sh_ownerPublicKey = ownerPublicKey, sh_head = head, sh_grants = grants, sh_nextIndex = 0,
           sh_phase = Ready, sh_challenges = [], sh_assignment = None, sh_phaseBeforeHold = None, sh_history = []\<rparr> in
     mutate env Allocate headId (\<lambda>current db.
       bindE (checkE (current = None) ''grant head already exists'') (\<lambda>_.
       bindE (checkE (case maxActiveHeads of None \<Rightarrow> True
                | Some m \<Rightarrow> int (length (filter (\<lambda>(_, s). sh_phase s \<noteq> Retired) (db_heads db))) < num_int m)
                ''hash-chain ready-head pool is full'') (\<lambda>_.
       let (reused, seen) = rememberGrantKeys env headId grants (db_seenKeys db) in
       bindE (checkE (\<not> reused) ''one-time key has already been used'') (\<lambda>_.
       Inr ((stored, publicGrant stored), db\<lparr>db_seenKeys := seen\<rparr>))))) db)))))))))"

definition expired_assignment :: "issuer_env \<Rightarrow> int \<Rightarrow> stored_head \<Rightarrow> bool" where
  "expired_assignment env now state =
     (sh_phase state = Assigned
      \<and> (case sh_assignment state of None \<Rightarrow> False | Some a \<Rightarrow> parsed env (sa_expiresAt a) (\<lambda>t. t < now)))"

definition getCurrent :: "issuer_env \<Rightarrow> (nat \<Rightarrow> int) \<Rightarrow> string \<Rightarrow> public_grant issuer_op" where
  "getCurrent env clock headId db =
     bindE (hc_hex32 headId ''headId'') (\<lambda>h.
     bindE (issuer_read env h db) (\<lambda>current.
     if sh_phase current \<noteq> Assigned \<or> sh_assignment current = None
        \<or> (case sh_assignment current of None \<Rightarrow> True
             | Some a \<Rightarrow> parsed env (sa_expiresAt a) (\<lambda>t. clock 0 \<le> t))
     then Inr (publicGrant current, db)
     else mutate env Recover h (\<lambda>state db.
       case state of
         None \<Rightarrow> throwE ''grant head is missing''
       | Some s \<Rightarrow>
           let s' = (if expired_assignment env (clock 1) s
                     then s\<lparr>sh_phase := NeedsRotation, sh_challenges := []\<rparr> else s)
           in Inr ((s', publicGrant s'), db)) db))"

fun list_heads :: "issuer_env \<Rightarrow> (nat \<Rightarrow> int) \<Rightarrow> string list \<Rightarrow> public_grant list \<Rightarrow> issuer_db \<Rightarrow> public_grant list res \<times> issuer_db" where
  "list_heads env clock [] listed = finish (Inr listed)"
| "list_heads env clock (h # hs) listed =
     andThen (getCurrent env clock h) (\<lambda>g. list_heads env (\<lambda>n. clock (n + 2)) hs (listed @ [g]))"

definition listHeads :: "issuer_env \<Rightarrow> (nat \<Rightarrow> int) \<Rightarrow> issuer_db \<Rightarrow> public_grant list res \<times> issuer_db" where
  "listHeads env clock db = list_heads env clock (sort (map fst (db_heads db))) [] db"

definition issueAdmittedChallenge ::
  "issuer_env \<Rightarrow> int \<Rightarrow> string \<Rightarrow> string \<Rightarrow> string \<Rightarrow> js_number \<Rightarrow> string \<Rightarrow> string \<Rightarrow> grant_challenge issuer_op" where
  "issueAdmittedChallenge env now challengeId headId requestHash lifetimeSeconds quotedAmount admissionKey db =
     bindE (hc_hex32 headId ''headId'') (\<lambda>h.
     bindE (hc_hex32 requestHash ''requestHash'') (\<lambda>request.
     bindE (canonicalAmount quotedAmount) (\<lambda>amount.
     bindE (hc_hex32 admissionKey ''challenge admission key'') (\<lambda>admission.
     bindE (checkE (in_range lifetimeSeconds 1 300) ''challenge lifetime must be 1 to 300 seconds'') (\<lambda>_.
     mutate env Allocate h (\<lambda>current db.
       case current of
         None \<Rightarrow> throwE ''current grant is unavailable''
       | Some state \<Rightarrow>
         bindE (checkE (sh_phase state = Ready) ''current grant is unavailable'') (\<lambda>_.
         let live = filter (\<lambda>c. parsed env (ch_expiresAt c) (\<lambda>t. now \<le> t)) (sh_challenges state);
             s1 = state\<lparr>sh_challenges := live\<rparr> in
         case find (challenge_matches s1 admission request amount) live of
           Some existing \<Rightarrow> Inr ((s1, publicChallenge existing), db)
         | None \<Rightarrow>
           bindE (checkE (length (filter (\<lambda>c. ch_admissionKey c = Some admission) live) < iv_maxLiveChallenges env)
                    ''too many live challenges for admission key'') (\<lambda>_.
           bindE (checkE (length live < 64) ''too many live challenges for head'') (\<lambda>_.
           case item (sh_grants state) (sh_nextIndex state) of
             None \<Rightarrow> Inl (JsTypeError ''Cannot read properties of undefined'')
           | Some grant \<Rightarrow>
             let challenge = \<lparr>ch_headId = h, ch_headVersion = sh_version state, ch_grantId = sg_grantId grant,
                   ch_challengeId = challengeId, ch_requestHash = request, ch_quotedAmount = Some amount,
                   ch_issuedAt = iv_toISO env now,
                   ch_expiresAt = iv_toISO env (now + num_int lifetimeSeconds * 1000),
                   ch_admissionKey = Some admission\<rparr>;
                 s2 = s1\<lparr>sh_challenges := live @ [challenge]\<rparr> in
             Inr ((s2, publicChallenge challenge), db))))) db)))))"


section \<open>Claims\<close>

record authorized_claim =
  az_headId :: string
  az_claim :: grant_claim
  az_headVersion :: int
  az_head :: observed_head
  az_admissionKey :: string
  az_current :: public_grant
  az_needsQualification :: bool

definition authorizeGrantClaim :: "issuer_env \<Rightarrow> int \<Rightarrow> string \<Rightarrow> grant_claim \<Rightarrow> issuer_db \<Rightarrow> authorized_claim res" where
  "authorizeGrantClaim env now headId claim db =
     bindE (hc_hex32 headId ''headId'') (\<lambda>h.
     bindE (normalizeClaim env claim) (\<lambda>normalized.
     bindE (issuer_read env h db) (\<lambda>state.
     bindE (inspectGrantClaim env state normalized now) (\<lambda>(grant, challenge).
     bindE (checkE (sh_assignment state \<noteq> None \<or> iv_preflight env normalized (publicGrant state))
              ''payer is ineligible for grant'') (\<lambda>_.
     bindE (challengeAdmissionKey env h challenge) (\<lambda>admissionKey.
     Inr \<lparr>az_headId = h, az_claim = normalized, az_headVersion = sh_version state, az_head = sh_head state,
          az_admissionKey = admissionKey, az_current = publicGrant state,
          az_needsQualification = (sh_assignment state = None)\<rparr>))))))"

definition beginGrantClaim ::
  "issuer_env \<Rightarrow> int \<Rightarrow> string \<Rightarrow> grant_claim \<Rightarrow> string option \<Rightarrow> issuer_db \<Rightarrow> authorized_claim res" where
  \<comment> \<open>\<open>claimGrantAfterCurrentHeadObservation\<close> up to its first await\<close>
  "beginGrantClaim env now headId claim expectedAdmissionKey db =
     bindE (hc_hex32 headId ''headId'') (\<lambda>h.
     bindE (authorizeGrantClaim env now h claim db) (\<lambda>authorized.
     bindE (case expectedAdmissionKey of
              None \<Rightarrow> Inr ()
            | Some k \<Rightarrow> bindE (hc_hex32 k ''expected admission key'') (\<lambda>k'.
                checkE (k' = az_admissionKey authorized) ''grant claim admission changed during authorization'')) (\<lambda>_.
     Inr authorized)))"

definition holdForReorg :: "issuer_env \<Rightarrow> string \<Rightarrow> public_grant issuer_op" where
  "holdForReorg env headId db =
     bindE (hc_hex32 headId ''headId'') (\<lambda>h.
     mutate env Recover h (\<lambda>current db.
       case current of
         None \<Rightarrow> throwE ''grant head is missing''
       | Some state \<Rightarrow>
           let s1 = (if sh_phase state \<noteq> Hold then state\<lparr>sh_phaseBeforeHold := Some (sh_phase state)\<rparr> else state);
               s2 = s1\<lparr>sh_phase := Hold\<rparr> in
           Inr ((s2, publicGrant s2), db)) db)"

definition observeGrantClaim ::
  "issuer_env \<Rightarrow> (nat \<Rightarrow> int) \<Rightarrow> authorized_claim \<Rightarrow> utxo_observation option \<Rightarrow> issuer_db \<Rightarrow> unit res \<times> issuer_db" where
  \<comment> \<open>between the two awaits: a mismatch puts the head on hold, and that stays although the call throws\<close>
  "observeGrantClaim env clock authorized observed =
     andThen (getCurrent env clock (az_headId authorized)) (\<lambda>latest.
     if pg_headVersion latest \<noteq> pg_headVersion (az_current authorized)
        \<or> \<not> sameHead (pg_head latest) (pg_head (az_current authorized))
     then finish (throwE ''grant head changed during authoritative observation'')
     else if \<not> currentUtxoMatches observed (pg_head (az_current authorized))
     then andThen (holdForReorg env (az_headId authorized)) (\<lambda>_.
            finish (throwE ''current hash-chain head does not match the authoritative selected UTXO''))
     else finish (Inr ()))"

definition count_admissions :: "(admission_row \<Rightarrow> string) \<Rightarrow> string \<Rightarrow> int \<Rightarrow> (string \<times> admission_row) list \<Rightarrow> nat" where
  \<comment> \<open>\<open>SELECT COUNT(*) \<dots> WHERE fingerprint = ? AND disclosed_at >= ?\<close>\<close>
  "count_admissions field fingerprint start rows =
     length (filter (\<lambda>(_, a). field a = fingerprint \<and> start \<le> ad_disclosedAt a) rows)"

fun selectOutpoint ::
  "issuer_env \<Rightarrow> (string \<times> admission_row) list \<Rightarrow> funding_outpoint list \<Rightarrow> (funding_outpoint \<times> string) option res" where
  "selectOutpoint env admissions [] = Inr None"
| "selectOutpoint env admissions (candidate # rest) =
     bindE (checkE (in_range (op_index candidate) 0 MAX_SAFE_INTEGER) ''qualifying funding outpoint is required'') (\<lambda>_.
     bindE (hc_hex32 (op_txid candidate) ''funding transaction'') (\<lambda>txid.
     let fingerprint = textFingerprint env
           (''outpoint:'' @ txid @ '':'' @ int_to_string (num_int (op_index candidate))) in
     if map_of admissions fingerprint = None
     then Inr (Some (\<lparr>op_txid = txid, op_index = op_index candidate\<rparr>, fingerprint))
     else selectOutpoint env admissions rest))"

definition admitClaimant ::
  "issuer_env \<Rightarrow> int \<Rightarrow> string \<Rightarrow> string \<Rightarrow> funding_outpoint list \<Rightarrow> issuer_db \<Rightarrow> (funding_outpoint \<times> issuer_db) res" where
  \<comment> \<open>quota, choice of the funding outpoint and the admission row\<close>
  "admitClaimant env now claimantId admissionKey candidates db =
     bindE (checkE (candidates \<noteq> []) ''qualifying funding outpoint is required'') (\<lambda>_.
     let claimant = textFingerprint env (''claimant:'' @ claimantId);
         admission = textFingerprint env (''admission:'' @ admissionKey);
         windowStart = now - iv_windowSeconds env * 1000 in
     bindE (checkE (claimant \<notin> set (db_legacy db)) ''legacy claimant requires a fresh payer key'') (\<lambda>_.
     bindE (checkE (count_admissions ad_claimant claimant windowStart (db_admissions db) < iv_maxGrantsPerClaimant env
              \<and> count_admissions ad_admission admission windowStart (db_admissions db) < iv_maxGrantsPerClaimant env)
              ''claimant grant quota exceeded'') (\<lambda>_.
     bindE (selectOutpoint env (db_admissions db) candidates) (\<lambda>selected.
     case selected of
       None \<Rightarrow> throwE ''funding outpoint already qualified a disclosed grant''
     | Some (outpoint, fingerprint) \<Rightarrow>
         bindE (insert_row fingerprint \<lparr>ad_claimant = claimant, ad_admission = admission, ad_disclosedAt = now\<rparr>
                  (db_admissions db)) (\<lambda>rows.
         Inr (outpoint, db\<lparr>db_admissions := rows\<rparr>))))))"

definition deliveryRecord ::
  "stored_head \<Rightarrow> stored_grant \<Rightarrow> stored_challenge \<Rightarrow> grant_claim \<Rightarrow> stored_assignment \<Rightarrow> delivery_record" where
  "deliveryRecord state grant challenge claim assignment =
     \<lparr>dr_headId = sh_headId state, dr_headVersion = sh_version state, dr_headOutpoint = oh_outpoint (sh_head state),
      dr_headAmount = oh_amount (sh_head state), dr_headGuard = oh_guard (sh_head state),
      dr_headScriptPublicKey = oh_scriptPublicKey (sh_head state), dr_covenantId = oh_covenantId (sh_head state),
      dr_ownerPublicKey = sh_ownerPublicKey state, dr_grantId = sg_grantId grant,
      dr_nextGuard = sg_revealedGuard grant, dr_oneTimePublicKey = sg_oneTimePublicKey grant,
      dr_challengeId = gc_challengeId claim, dr_challengeIssuedAt = ch_issuedAt challenge,
      dr_challengeExpiresAt = ch_expiresAt challenge, dr_requestHash = gc_requestHash claim,
      dr_quotedAmount = ch_quotedAmount challenge, dr_payerPublicKey = gc_payerPublicKey claim,
      dr_claimantId = Some (gc_payerPublicKey claim),
      dr_qualifyingFundingOutpoint = sa_qualifyingFundingOutpoint assignment,
      dr_expiresAt = gc_expiresAt claim, dr_deliveryCommittedAt = sa_deliveryCommittedAt assignment\<rparr>"

definition assignGrant ::
  "issuer_env \<Rightarrow> (nat \<Rightarrow> int) \<Rightarrow> string \<Rightarrow> grant_claim \<Rightarrow> string \<Rightarrow> funding_outpoint list \<Rightarrow> stored_head \<Rightarrow> stored_grant
     \<Rightarrow> stored_challenge \<Rightarrow> stored_head issuer_op" where
  \<comment> \<open>the first delivery of a grant\<close>
  "assignGrant env clock h claim admissionKey candidates state grant challenge db =
     bindE (admitClaimant env (clock 1) (gc_payerPublicKey claim) admissionKey candidates db) (\<lambda>(outpoint, db1).
     let assignment = \<lparr>sa_grantId = gc_grantId claim, sa_challengeId = gc_challengeId claim,
           sa_requestHash = gc_requestHash claim, sa_quotedAmount = ch_quotedAmount challenge,
           sa_payerPublicKey = gc_payerPublicKey claim, sa_claimantId = Some (gc_payerPublicKey claim),
           sa_qualifyingFundingOutpoint = Some outpoint, sa_expiresAt = gc_expiresAt claim,
           sa_deliveryCommittedAt = iv_toISO env (clock 2), sa_candidateTransactionId = None\<rparr>;
         s1 = state\<lparr>sh_assignment := Some assignment, sh_phase := Assigned, sh_challenges := [challenge]\<rparr> in
     bindE (insert_row (h, sg_grantId grant) (deliveryRecord s1 grant challenge claim assignment) (db_deliveries db1)) (\<lambda>rows.
     Inr (s1, db1\<lparr>db_deliveries := rows\<rparr>)))"

definition commitAuthorizedGrantClaim ::
  "issuer_env \<Rightarrow> (nat \<Rightarrow> int) \<Rightarrow> authorized_claim \<Rightarrow> funding_outpoint list \<Rightarrow> grant_delivery issuer_op" where
  \<comment> \<open>the funding outpoints are the list that the policy has resolved, empty when it was not asked\<close>
  "commitAuthorizedGrantClaim env clock authorized candidates db =
     (let h = az_headId authorized; claim = az_claim authorized in
      mutate env Claim h (\<lambda>current db.
        case current of
          None \<Rightarrow> throwE ''grant head changed after claim authorization''
        | Some state \<Rightarrow>
          bindE (checkE (sh_version state = az_headVersion authorized \<and> sameHead (sh_head state) (az_head authorized))
                   ''grant head changed after claim authorization'') (\<lambda>_.
          bindE (inspectGrantClaim env state claim (clock 0)) (\<lambda>(grant, challenge).
          bindE (if sh_assignment state = None
                 then assignGrant env clock h claim (az_admissionKey authorized) candidates state grant challenge db
                 else Inr (state, db)) (\<lambda>(s1, db1).
          case (sh_assignment s1, sg_oneTimePrivateKey grant) of
            (Some assigned, Some privateKey) \<Rightarrow>
              Inr ((s1, \<lparr>gd_grantId = sg_grantId grant, gd_headVersion = sh_version s1,
                     gd_nextGuard = sg_revealedGuard grant, gd_oneTimePublicKey = sg_oneTimePublicKey grant,
                     gd_oneTimePrivateKey = privateKey, gd_expiresAt = sa_expiresAt assigned,
                     gd_deliveryCommittedAt = sa_deliveryCommittedAt assigned\<rparr>), db1)
          | _ \<Rightarrow> throwE ''grant claim does not match a live challenge'')))) db)"

record payment_candidate =
  pc_headId :: string
  pc_headVersion :: string
  pc_grantId :: string
  pc_challengeId :: string
  pc_requestHash :: string
  pc_payerPublicKey :: string
  pc_transactionId :: string

definition accepted_matches :: "payment_candidate \<Rightarrow> accepted_payment \<Rightarrow> delivery_record option \<Rightarrow> bool" where
  "accepted_matches n accepted delivery =
     (ap_grantId accepted = pc_grantId n \<and> ap_challengeId accepted = pc_challengeId n
      \<and> ap_requestHash accepted = pc_requestHash n \<and> ap_payerPublicKey accepted = pc_payerPublicKey n
      \<and> (case delivery of None \<Rightarrow> False
          | Some d \<Rightarrow> int_to_string (dr_headVersion d) = pc_headVersion n \<and> dr_challengeId d = pc_challengeId n
              \<and> dr_requestHash d = pc_requestHash n \<and> dr_payerPublicKey d = pc_payerPublicKey n))"

definition candidate_matches :: "payment_candidate \<Rightarrow> stored_head \<Rightarrow> stored_assignment \<Rightarrow> bool" where
  "candidate_matches n state assigned =
     (int_to_string (sh_version state) = pc_headVersion n
      \<and> (sh_phase state = Assigned \<or> sh_phase state = Hold \<and> sh_phaseBeforeHold state = Some Assigned)
      \<and> sa_grantId assigned = pc_grantId n \<and> sa_challengeId assigned = pc_challengeId n
      \<and> sa_requestHash assigned = pc_requestHash n \<and> sa_payerPublicKey assigned = pc_payerPublicKey n)"

definition pinPaymentCandidate :: "issuer_env \<Rightarrow> payment_candidate \<Rightarrow> unit issuer_op" where
  "pinPaymentCandidate env n db =
     bindE (hc_hex32 (pc_headId n) ''headId'') (\<lambda>h.
     bindE (canonicalVersion (pc_headVersion n)) (\<lambda>_.
     bindE (hc_hex32 (pc_grantId n) ''grantId'') (\<lambda>_.
     bindE (hc_hex32 (pc_challengeId n) ''challengeId'') (\<lambda>_.
     bindE (hc_hex32 (pc_requestHash n) ''requestHash'') (\<lambda>_.
     bindE (hc_hex32 (pc_payerPublicKey n) ''payerPublicKey'') (\<lambda>_.
     bindE (hc_hex32 (pc_transactionId n) ''transactionId'') (\<lambda>_.
     mutate env Recover h (\<lambda>current db.
       case current of
         None \<Rightarrow> throwE ''grant head is missing''
       | Some state \<Rightarrow>
         (case map_of (db_payments db) (pc_transactionId n) of
            Some accepted \<Rightarrow>
              bindE (checkE (accepted_matches n accepted (map_of (db_deliveries db) (h, pc_grantId n)))
                       ''accepted payment candidate does not match the durable grant delivery'') (\<lambda>_.
              Inr ((state, ()), db))
          | None \<Rightarrow>
              (case sh_assignment state of
                 None \<Rightarrow> throwE ''payment candidate does not match the assigned grant''
               | Some assigned \<Rightarrow>
                   bindE (checkE (candidate_matches n state assigned)
                            ''payment candidate does not match the assigned grant'') (\<lambda>_.
                   bindE (checkE (falsy (sa_candidateTransactionId assigned)
                              \<or> sa_candidateTransactionId assigned = Some (pc_transactionId n))
                            ''assigned grant already owns another payment candidate'') (\<lambda>_.
                   Inr ((state\<lparr>sh_assignment :=
                          Some (assigned\<lparr>sa_candidateTransactionId := Some (pc_transactionId n)\<rparr>)\<rparr>, ()), db)))))) db)))))))"

definition markAbandoned :: "issuer_env \<Rightarrow> int \<Rightarrow> string \<Rightarrow> public_grant issuer_op" where
  "markAbandoned env now headId db =
     bindE (hc_hex32 headId ''headId'') (\<lambda>h.
     mutate env Recover h (\<lambda>current db.
       case current of
         None \<Rightarrow> throwE ''no assigned grant to abandon''
       | Some state \<Rightarrow>
         if sh_phase state = NeedsRotation then Inr ((state, publicGrant state), db)
         else if sh_phase state \<noteq> Assigned then throwE ''no assigned grant to abandon''
         else (case sh_assignment state of
                 None \<Rightarrow> throwE ''no assigned grant to abandon''
               | Some a \<Rightarrow>
                   if parsed env (sa_expiresAt a) (\<lambda>t. now \<le> t) then throwE ''assigned grant has not expired''
                   else let s = state\<lparr>sh_phase := NeedsRotation, sh_challenges := []\<rparr> in
                        Inr ((s, publicGrant s), db))) db)"


section \<open>Accepted transitions\<close>

datatype advance_kind = Borrow | Rotate

definition finality_trusted :: "hc_finality \<Rightarrow> bool" where
  "finality_trusted f = (f = Accepted \<or> f = Confirmed)"

definition sompi :: "string \<Rightarrow> int" where
  \<comment> \<open>\<open>BigInt\<close> of a canonical amount\<close>
  "sompi amount = int (dec_val amount)"

definition quoted_is :: "string option \<Rightarrow> int \<Rightarrow> bool" where
  "quoted_is quoted amount = (case quoted of None \<Rightarrow> False | Some q \<Rightarrow> sompi q = amount)"

definition unmatched_borrow ::
  "string \<Rightarrow> stored_head \<Rightarrow> stored_grant \<Rightarrow> observed_head \<Rightarrow> issuer_db \<Rightarrow> bool" where
  \<comment> \<open>the evidence that lets a held head advance without a payment\<close>
  "unmatched_borrow h state grant after db =
     (sh_phaseBeforeHold state \<in> {Some Assigned, Some NeedsRotation}
      \<and> (case sh_assignment state of
           None \<Rightarrow> False
         | Some assigned \<Rightarrow>
             \<not> falsy (sa_quotedAmount assigned)
             \<and> (case map_of (db_deliveries db) (h, sa_grantId assigned) of
                  None \<Rightarrow> False
                | Some delivery \<Rightarrow> dr_quotedAmount delivery = sa_quotedAmount assigned
                    \<and> dr_headVersion delivery = sh_version state
                    \<and> hc_sameOutpoint (dr_headOutpoint delivery) (oh_outpoint (sh_head state)))
             \<and> sa_grantId assigned = sg_grantId grant
             \<and> \<not> quoted_is (sa_quotedAmount assigned) (sompi (oh_amount after) - sompi (oh_amount (sh_head state)))))"

definition exact_payment ::
  "string \<Rightarrow> stored_head \<Rightarrow> stored_grant \<Rightarrow> observed_head \<Rightarrow> accepted_payment \<Rightarrow> issuer_db \<Rightarrow> bool" where
  "exact_payment h state grant after payment db =
     (case (sh_assignment state, map_of (db_deliveries db) (h, ap_grantId payment)) of
        (Some assigned, Some delivery) \<Rightarrow>
          sg_grantId grant = ap_grantId payment
          \<and> sa_challengeId assigned = ap_challengeId payment \<and> sa_requestHash assigned = ap_requestHash payment
          \<and> sa_payerPublicKey assigned = ap_payerPublicKey payment
          \<and> dr_headVersion delivery = sh_version state
          \<and> hc_sameOutpoint (dr_headOutpoint delivery) (oh_outpoint (sh_head state))
          \<and> dr_headAmount delivery = oh_amount (sh_head state) \<and> dr_headGuard delivery = oh_guard (sh_head state)
          \<and> (falsy (sa_quotedAmount assigned) \<or> sa_quotedAmount assigned = Some (ap_amount payment))
          \<and> (falsy (dr_quotedAmount delivery) \<or> dr_quotedAmount delivery = Some (ap_amount payment))
          \<and> sompi (oh_amount after) = sompi (oh_amount (sh_head state)) + sompi (ap_amount payment)
      | _ \<Rightarrow> False)"

definition insert_payment :: "accepted_payment \<Rightarrow> issuer_db \<Rightarrow> issuer_db res" where
  \<comment> \<open>both the transaction and the grant are unique\<close>
  "insert_payment payment db =
     bindE (checkE (\<not> list_ex (\<lambda>(_, p). ap_grantId p = ap_grantId payment) (db_payments db)) ''UNIQUE constraint failed'') (\<lambda>_.
     bindE (insert_row (ap_transactionId payment) payment (db_payments db)) (\<lambda>rows. Inr (db\<lparr>db_payments := rows\<rparr>)))"

definition borrow_effect ::
  "string \<Rightarrow> stored_head \<Rightarrow> observed_head \<Rightarrow> accepted_payment option \<Rightarrow> issuer_db \<Rightarrow> issuer_db res" where
  "borrow_effect h state after payment db =
     (case item (sh_grants state) (sh_nextIndex state) of
        None \<Rightarrow> throwE ''accepted borrow is not the current positive head transition''
      | Some grant \<Rightarrow>
        bindE (checkE (oh_guard after = sg_revealedGuard grant \<and> sompi (oh_amount (sh_head state)) < sompi (oh_amount after))
                 ''accepted borrow is not the current positive head transition'') (\<lambda>_.
        bindE (checkE (sh_phase state \<noteq> Hold \<or> payment \<noteq> None \<or> unmatched_borrow h state grant after db)
                 ''held head requires a nonconforming assigned borrow'') (\<lambda>_.
        case payment of
          None \<Rightarrow> Inr db
        | Some p \<Rightarrow>
            bindE (checkE (exact_payment h state grant after p db)
                     ''accepted payment does not consume the assigned exact grant'') (\<lambda>_.
            insert_payment p db))))"

definition replacement_grants ::
  "issuer_env \<Rightarrow> (nat \<Rightarrow> string) \<Rightarrow> string \<Rightarrow> borrow_grant list \<Rightarrow> stored_grant list option" where
  \<comment> \<open>the replacement chain, if it is well-formed and starts at the new guard\<close>
  "replacement_grants env grantId guard replacement =
     (if replacement = [] \<or> 1024 < length replacement then None
      else case bindE (normalizeGrants env grantId replacement) (\<lambda>grants.
                  bindE (check_chain env guard grants) (\<lambda>matches. Inr (grants, matches))) of
             Inr (grants, True) \<Rightarrow> Some grants
           | _ \<Rightarrow> None)"

definition rotate_effect ::
  "issuer_env \<Rightarrow> (nat \<Rightarrow> string) \<Rightarrow> string \<Rightarrow> stored_head \<Rightarrow> observed_head \<Rightarrow> borrow_grant list \<Rightarrow> issuer_db
     \<Rightarrow> ((stored_grant list \<times> bool) \<times> issuer_db) res" where
  \<comment> \<open>the grants after the rotation and whether their keys are all new\<close>
  "rotate_effect env grantId h state after replacement db =
     bindE (checkE (oh_guard after \<noteq> oh_guard (sh_head state) \<and> sompi (oh_amount (sh_head state)) \<le> sompi (oh_amount after))
              ''accepted owner rotation is invalid'') (\<lambda>_.
     case replacement_grants env grantId (oh_guard after) replacement of
       None \<Rightarrow> Inr (([], False), db)
     | Some grants \<Rightarrow>
         let (reused, seen) = rememberGrantKeys env h grants (db_seenKeys db) in
         Inr ((grants, \<not> reused), db\<lparr>db_seenKeys := seen\<rparr>))"

definition push_history :: "history_entry \<Rightarrow> history_entry list \<Rightarrow> history_entry list" where
  "push_history entry history = (let h = history @ [entry] in if 128 < length h then tl h else h)"

definition quarantined :: "stored_head \<Rightarrow> bool" where
  "quarantined state = (sh_phase state = NeedsRotation
     \<or> sh_phase state = Hold \<and> sh_phaseBeforeHold state = Some NeedsRotation)"

definition past_entry :: "stored_head \<Rightarrow> history_entry" where
  "past_entry state = \<lparr>he_head = sh_head state, he_grant = item (sh_grants state) (sh_nextIndex state),
     he_exposed = (sh_assignment state \<noteq> None)\<rparr>"

definition advanced_head ::
  "advance_kind \<Rightarrow> bool \<Rightarrow> stored_head \<Rightarrow> observed_head \<Rightarrow> stored_grant list \<Rightarrow> bool \<Rightarrow> stored_head" where
  "advanced_head kind recoveryRotation state after replacement replacementSafe =
     (let index = (if kind = Borrow then sh_nextIndex state + 1 else 0);
          grants1 = (if kind = Borrow then sh_grants state else replacement);
          grants2 = (if recoveryRotation then map publicRecoveryGrant (take 1 grants1) else grants1);
          phase = (if kind = Rotate \<and> (\<not> replacementSafe \<or> recoveryRotation) then NeedsRotation
                   else if length grants2 \<le> index then Exhausted
                   else if quarantined state \<and> kind = Borrow then NeedsRotation else Ready) in
      state\<lparr>sh_history := push_history (past_entry state) (sh_history state), sh_head := after,
            sh_version := sh_version state + 1, sh_challenges := [], sh_assignment := None,
            sh_phaseBeforeHold := None, sh_grants := grants2, sh_nextIndex := index, sh_phase := phase\<rparr>)"

definition advance ::
  "issuer_env \<Rightarrow> (nat \<Rightarrow> string) \<Rightarrow> string \<Rightarrow> accepted_transition \<Rightarrow> advance_kind \<Rightarrow> borrow_grant list
     \<Rightarrow> accepted_payment option \<Rightarrow> bool \<Rightarrow> public_grant issuer_op" where
  "advance env grantId headId transition kind replacement payment recoveryRotation db =
     bindE (hc_hex32 headId ''headId'') (\<lambda>h.
     bindE (checkE (finality_trusted (tr_finality transition)) ''transition lacks trusted accepted finality'') (\<lambda>_.
     mutate env (if kind = Borrow \<or> recoveryRotation then Recover else Allocate) h (\<lambda>current db.
       case current of
         None \<Rightarrow> throwE ''head must be live and reconciled before advancement''
       | Some state \<Rightarrow>
         bindE (checkE (sh_phase state \<noteq> Retired
                  \<and> \<not> (sh_phase state = Hold \<and> (kind \<noteq> Borrow \<or> payment \<noteq> None \<and> sh_phaseBeforeHold state \<noteq> Some Assigned)))
                  ''head must be live and reconciled before advancement'') (\<lambda>_.
         bindE (hc_normalizeOutpoint (tr_predecessor transition)) (\<lambda>predecessor.
         bindE (checkE (hc_sameOutpoint predecessor (oh_outpoint (sh_head state))) ''transition does not spend the current head'') (\<lambda>_.
         bindE (normalizeHead env (tr_successor transition) (sh_ownerPublicKey state)) (\<lambda>after.
         bindE (checkE (oh_covenantId after = oh_covenantId (sh_head state)
                  \<and> \<not> hc_sameOutpoint (oh_outpoint after) (oh_outpoint (sh_head state)))
                  ''successor changed covenant identity or reused outpoint'') (\<lambda>_.
         bindE (if kind = Borrow
                then bindE (borrow_effect h state after payment db) (\<lambda>db1. Inr (([], False), db1))
                else rotate_effect env grantId h state after replacement db) (\<lambda>((grants, safe), db1).
         let s = advanced_head kind recoveryRotation state after grants safe in
         Inr ((s, publicGrant s), db1))))))) ) db))"

definition recordAcceptedBorrow :: "issuer_env \<Rightarrow> string \<Rightarrow> accepted_transition \<Rightarrow> public_grant issuer_op" where
  "recordAcceptedBorrow env headId transition = advance env (\<lambda>_. []) headId transition Borrow [] None False"

definition recordAcceptedPayment ::
  "issuer_env \<Rightarrow> (nat \<Rightarrow> int) \<Rightarrow> string \<Rightarrow> accepted_transition \<Rightarrow> accepted_payment \<Rightarrow> public_grant issuer_op" where
  "recordAcceptedPayment env clock headId transition payment db =
     bindE (hc_hex32 headId ''headId'') (\<lambda>h.
     bindE (hc_hex32 (ap_transactionId payment) ''transactionId'') (\<lambda>_.
     bindE (hc_hex32 (ap_grantId payment) ''grantId'') (\<lambda>_.
     bindE (hc_hex32 (ap_challengeId payment) ''challengeId'') (\<lambda>_.
     bindE (hc_hex32 (ap_requestHash payment) ''requestHash'') (\<lambda>_.
     bindE (hc_hex32 (ap_payerPublicKey payment) ''payerPublicKey'') (\<lambda>_.
     bindE (hc_hex32 (ap_requirementsHash payment) ''requirementsHash'') (\<lambda>_.
     bindE (canonicalAmount (ap_amount payment)) (\<lambda>_.
     bindE (checkE (ap_paymentIdentifier payment \<noteq> [] \<and> length (ap_paymentIdentifier payment) \<le> 256
              \<and> finality_trusted (ap_finality payment)
              \<and> ap_transactionId payment = op_txid (oh_outpoint (tr_successor transition))
              \<and> ap_finality payment = tr_finality transition) ''accepted payment evidence is inconsistent'') (\<lambda>_.
     case map_of (db_payments db) (ap_transactionId payment) of
       Some existing \<Rightarrow>
         bindE (stableStringify (payment_json (existing\<lparr>ap_finality := Accepted\<rparr>))) (\<lambda>a.
         bindE (stableStringify (payment_json (payment\<lparr>ap_finality := Accepted\<rparr>))) (\<lambda>b.
         bindE (checkE (a = b) ''transaction already belongs to another payment'') (\<lambda>_.
         getCurrent env clock h db)))
     | None \<Rightarrow> advance env (\<lambda>_. []) h transition Borrow [] (Some payment) False db)))))))))"

definition recordAcceptedRotation ::
  "issuer_env \<Rightarrow> (nat \<Rightarrow> string) \<Rightarrow> (nat \<Rightarrow> string) \<Rightarrow> string \<Rightarrow> accepted_transition \<Rightarrow> borrow_grant list \<Rightarrow> public_grant issuer_op" where
  \<comment> \<open>grant ids are drawn anew when the rotation is repeated in recovery\<close>
  "recordAcceptedRotation env grantId grantId' headId transition grants db =
     (case advance env grantId headId transition Rotate grants None False db of
        Inl e \<Rightarrow> if is_capacity_error e then advance env grantId' headId transition Rotate grants None True db else Inl e
      | Inr r \<Rightarrow> Inr r)"

record selected_transaction =
  st_transactionId :: string
  st_finality :: hc_finality
  st_spentHead :: funding_outpoint
  st_amount :: string
  st_scriptPublicKey :: string
  st_covenantId :: string
  st_authorizingInput :: js_number

definition selected_successor ::
  "issuer_env \<Rightarrow> string \<Rightarrow> public_grant \<Rightarrow> string \<Rightarrow> selected_transaction option \<Rightarrow> bool res" where
  \<comment> \<open>the selected transaction spends the head into a successor with the given guard\<close>
  "selected_successor env txid current guard selected =
     (case selected of
        None \<Rightarrow> Inr False
      | Some t \<Rightarrow>
        if st_transactionId t \<noteq> txid \<or> \<not> finality_trusted (st_finality t)
           \<or> \<not> hc_sameOutpoint (st_spentHead t) (oh_outpoint (pg_head current))
           \<or> st_authorizingInput t \<noteq> JsInt 0 \<or> st_covenantId t \<noteq> oh_covenantId (pg_head current)
        then Inr False
        else bindE (hashChainHeadScriptPublicKey (iv_chain env)
                      \<lparr>hp_ownerPublicKey = pg_ownerPublicKey current, hp_guard = guard\<rparr>) (\<lambda>script.
             Inr (st_scriptPublicKey t = script)))"

definition selected_transition :: "string \<Rightarrow> string \<Rightarrow> public_grant \<Rightarrow> selected_transaction \<Rightarrow> accepted_transition" where
  "selected_transition txid guard current t =
     \<lparr>tr_finality = st_finality t, tr_predecessor = oh_outpoint (pg_head current),
      tr_successor = \<lparr>oh_outpoint = \<lparr>op_txid = txid, op_index = JsInt 0\<rparr>, oh_amount = st_amount t,
        oh_guard = guard, oh_scriptPublicKey = st_scriptPublicKey t, oh_covenantId = st_covenantId t\<rparr>\<rparr>"

definition readback_of :: "grant_phase \<Rightarrow> public_grant \<Rightarrow> public_grant \<Rightarrow> bool" where
  "readback_of phase latest current =
     (pg_headVersion latest = pg_headVersion current \<and> pg_phase latest = phase
      \<and> sameHead (pg_head latest) (pg_head current))"

definition recoverSelectedUnmatchedBorrow ::
  "issuer_env \<Rightarrow> (nat \<Rightarrow> int) \<Rightarrow> string \<Rightarrow> public_grant \<Rightarrow> selected_transaction option \<Rightarrow> issuer_db
     \<Rightarrow> public_grant res \<times> issuer_db" where
  \<comment> \<open>after the await: \<open>current\<close> is the public grant that \<open>getCurrent\<close> gave before it\<close>
  "recoverSelectedUnmatchedBorrow env clock txid current selected =
     (let checked = bindE (hc_hex32 txid ''transactionId'') (\<lambda>_.
            bindE (checkE (pg_phase current = Hold \<and> pg_nextGuard current \<noteq> [])
                     ''head is not awaiting an assigned borrow readback'') (\<lambda>_.
            bindE (selected_successor env txid current (pg_nextGuard current) selected) (\<lambda>ok.
            checkE ok ''transaction is not the selected successor of the held head''))) in
      case (checked, selected) of
        (Inr _, Some t) \<Rightarrow>
          andThen (getCurrent env clock (pg_headId current)) (\<lambda>latest.
          if \<not> readback_of Hold latest current
          then finish (throwE ''held head changed during selected-chain readback'')
          else andThen (recordAcceptedBorrow env (pg_headId current)
                          (selected_transition txid (pg_nextGuard current) current t)) (\<lambda>g. finish (Inr g)))
      | (Inl e, _) \<Rightarrow> finish (Inl e)
      | (Inr _, None) \<Rightarrow> finish (throwE ''transaction is not the selected successor of the held head''))"

definition recoverOwnerRotationAfterSelectedObservation ::
  "issuer_env \<Rightarrow> (nat \<Rightarrow> int) \<Rightarrow> (nat \<Rightarrow> string) \<Rightarrow> (nat \<Rightarrow> string) \<Rightarrow> string \<Rightarrow> public_grant \<Rightarrow> borrow_grant list
     \<Rightarrow> selected_transaction option \<Rightarrow> issuer_db \<Rightarrow> public_grant res \<times> issuer_db" where
  "recoverOwnerRotationAfterSelectedObservation env clock grantId grantId' txid current grants selected =
     (let checked = bindE (hc_hex32 txid ''rotation transaction ID'') (\<lambda>_.
            bindE (checkE (pg_phase current = NeedsRotation) ''head is not awaiting owner rotation'') (\<lambda>_.
            bindE (checkE (grants \<noteq> [] \<and> length grants \<le> 1024) ''replacement grant chain length is invalid'') (\<lambda>_.
            bindE (normalizeGrant env [] (hd grants)) (\<lambda>first.
            bindE (hashChainBorrowGuard (ce_blake3 (iv_chain env)) (sg_revealedGuard first) (sg_oneTimePublicKey first)) (\<lambda>newGuard.
            bindE (selected_successor env txid current newGuard selected) (\<lambda>ok.
            bindE (checkE ok ''owner rotation is not accepted on the selected chain'') (\<lambda>_. Inr newGuard))))))) in
      case (checked, selected) of
        (Inr newGuard, Some t) \<Rightarrow>
          andThen (getCurrent env clock (pg_headId current)) (\<lambda>latest.
          if \<not> readback_of NeedsRotation latest current
          then finish (throwE ''head changed during owner rotation readback'')
          else andThen (recordAcceptedRotation env grantId grantId' (pg_headId current)
                          (selected_transition txid newGuard current t) grants) (\<lambda>g. finish (Inr g)))
      | (Inl e, _) \<Rightarrow> finish (Inl e)
      | (Inr _, None) \<Rightarrow> finish (throwE ''owner rotation is not accepted on the selected chain''))"

definition recordAcceptedSweep :: "issuer_env \<Rightarrow> string \<Rightarrow> accepted_sweep \<Rightarrow> public_grant issuer_op" where
  "recordAcceptedSweep env headId sweep db =
     bindE (hc_hex32 headId ''headId'') (\<lambda>h.
     bindE (checkE (finality_trusted (sw_finality sweep) \<and> sw_sameIdOutputCount sweep = JsInt 0)
              ''owner sweep lacks accepted zero-successor evidence'') (\<lambda>_.
     bindE (hc_hex32 (sw_transactionId sweep) ''owner sweep transactionId'') (\<lambda>txid.
     mutate env Recover h (\<lambda>current db.
       case current of
         None \<Rightarrow> throwE ''head cannot be swept in its current phase''
       | Some state \<Rightarrow>
         bindE (checkE (sh_phase state \<noteq> Hold \<and> sh_phase state \<noteq> Retired) ''head cannot be swept in its current phase'') (\<lambda>_.
         bindE (hc_normalizeOutpoint (sw_predecessor sweep)) (\<lambda>predecessor.
         bindE (checkE (hc_sameOutpoint predecessor (oh_outpoint (sh_head state))) ''owner sweep does not spend the current head'') (\<lambda>_.
         bindE (checkE (txid \<noteq> op_txid (oh_outpoint (sh_head state))) ''owner sweep transaction cannot reuse the head txid'') (\<lambda>_.
         let s = state\<lparr>sh_history := push_history (past_entry state) (sh_history state),
                   sh_version := sh_version state + 1, sh_phase := Retired, sh_assignment := None, sh_challenges := []\<rparr> in
         Inr ((s, publicGrant s), db)))))) db)))"

definition reconciled_head :: "observed_head \<Rightarrow> stored_head \<Rightarrow> stored_head res" where
  "reconciled_head actual state =
     bindE (if sameHead actual (sh_head state)
            then let prior = (case sh_phaseBeforeHold state of None \<Rightarrow> NeedsRotation | Some p \<Rightarrow> p) in
                 Inr (state\<lparr>sh_phase := (if prior = Retired then NeedsRotation else prior)\<rparr>)
            else case find (\<lambda>e. sameHead (he_head e) actual) (sh_history state) of
                   None \<Rightarrow> throwE ''observed head is outside known lineage; keep hold and investigate''
                 | Some previous \<Rightarrow>
                     Inr (state\<lparr>sh_head := actual,
                       sh_grants := (case he_grant previous of None \<Rightarrow> [] | Some g \<Rightarrow> [g]), sh_nextIndex := 0,
                       sh_assignment := None, sh_challenges := [], sh_phase := NeedsRotation\<rparr>))
       (\<lambda>s. Inr (s\<lparr>sh_phaseBeforeHold := None\<rparr>))"

definition reconcileObservedHead :: "issuer_env \<Rightarrow> string \<Rightarrow> observed_head \<Rightarrow> public_grant issuer_op" where
  "reconcileObservedHead env headId observed db =
     bindE (hc_hex32 headId ''headId'') (\<lambda>h.
     mutate env Recover h (\<lambda>current db.
       case current of
         None \<Rightarrow> throwE ''head is not in reconciliation hold''
       | Some state \<Rightarrow>
         bindE (checkE (sh_phase state = Hold) ''head is not in reconciliation hold'') (\<lambda>_.
         bindE (normalizeHead env observed (sh_ownerPublicKey state)) (\<lambda>actual.
         bindE (reconciled_head actual state) (\<lambda>s. Inr ((s, publicGrant s), db))))) db)"

section \<open>Administration\<close>

definition getStorageUsage :: "issuer_db \<Rightarrow> storage_usage res" where
  "getStorageUsage db = storageUsage db"

definition increaseStorageLimits :: "storage_limits \<Rightarrow> storage_usage issuer_op" where
  "increaseStorageLimits limits db =
     bindE (validateStorageLimits limits) (\<lambda>_.
     bindE (readStorageLimits db) (\<lambda>current.
     bindE (checkE (num_int (sl_maxBytes current) \<le> num_int (sl_maxBytes limits)
              \<and> num_int (sl_maxRecords current) \<le> num_int (sl_maxRecords limits)) ''grant storage limits may only increase'') (\<lambda>_.
     let db1 = db\<lparr>db_limits := Some limits\<rparr> in
     bindE (check_capacity db1 False) (\<lambda>usage. Inr (usage, db1)))))"

definition compact_head :: "stored_head \<Rightarrow> stored_head" where
  "compact_head state =
     (if sh_phase state \<noteq> Retired then state
      else state\<lparr>sh_grants := (case item (sh_grants state) (sh_nextIndex state) of
                                None \<Rightarrow> [] | Some g \<Rightarrow> [publicRecoveryGrant g]),
                sh_nextIndex := 0,
                sh_history := map (\<lambda>e. e\<lparr>he_grant := map_option publicRecoveryGrant (he_grant e)\<rparr>) (sh_history state)\<rparr>)"

definition map_heads :: "(string \<Rightarrow> stored_head \<Rightarrow> stored_head) \<Rightarrow> issuer_db \<Rightarrow> issuer_db" where
  "map_heads f db = db\<lparr>db_heads := map (\<lambda>(h, s). (h, f h s)) (db_heads db)\<rparr>"

definition compactStorage :: "storage_usage issuer_op" where
  "compactStorage db =
     (let db1 = map_heads (\<lambda>_. compact_head) db in
      bindE (check_capacity db1 False) (\<lambda>usage. Inr (usage, db1)))"

definition migrate_head_keys :: "stored_head \<Rightarrow> stored_head" where
  "migrate_head_keys state =
     (let s1 = (if sh_phase state = Hold then state\<lparr>sh_phaseBeforeHold := Some NeedsRotation\<rparr>
                else if sh_phase state \<noteq> Retired then state\<lparr>sh_phase := NeedsRotation\<rparr> else state)
      in s1\<lparr>sh_challenges := []\<rparr>)"

definition head_keys :: "stored_head \<Rightarrow> (string \<times> string) list" where
  "head_keys state = map (\<lambda>g. (''stored one-time key'', sg_oneTimePublicKey g)) (sh_grants state)
     @ map (\<lambda>g. (''historical one-time key'', sg_oneTimePublicKey g)) (List.map_filter he_grant (sh_history state))"

definition migrate_key ::
  "issuer_env \<Rightarrow> string \<Rightarrow> (string \<times> string) list \<Rightarrow> string \<times> string \<Rightarrow> (string \<times> string) list res" where
  "migrate_key env h seen labelled =
     bindE (hc_hex32 (snd labelled) (fst labelled)) (\<lambda>k. Inr (insert_or_ignore (grantKeyFingerprint env k) h seen))"

definition migrateLegacyGrantKeys :: "issuer_env \<Rightarrow> issuer_db \<Rightarrow> issuer_db res" where
  "migrateLegacyGrantKeys env db =
     bindE (foldE (\<lambda>seen (h, s). foldE (migrate_key env h) seen (head_keys s)) (db_seenKeys db) (db_heads db)) (\<lambda>seen1.
     bindE (foldE (\<lambda>seen ((h, g), r). migrate_key env h seen (''delivered one-time key'', dr_oneTimePublicKey r))
              seen1 (db_deliveries db)) (\<lambda>seen2.
     Inr ((map_heads (\<lambda>_. migrate_head_keys) db)\<lparr>db_seenKeys := seen2, db_schemaVersion := 1\<rparr>)))"

definition migrateQuotedGrants :: "issuer_db \<Rightarrow> issuer_db" where
  "migrateQuotedGrants db =
     (map_heads (\<lambda>_ s. if sh_phase s = Ready then s\<lparr>sh_challenges := []\<rparr> else s) db)\<lparr>db_schemaVersion := 2\<rparr>"

definition add_legacy :: "issuer_env \<Rightarrow> string \<Rightarrow> string list \<Rightarrow> string list res" where
  "add_legacy env payerPublicKey legacy =
     bindE (hc_hex32 payerPublicKey ''legacy payer public key'') (\<lambda>k.
     let f = textFingerprint env (''claimant:'' @ k) in
     Inr (if f \<in> set legacy then legacy else legacy @ [f]))"

definition migrate_assignment :: "issuer_env \<Rightarrow> issuer_db \<Rightarrow> string \<times> stored_head \<Rightarrow> issuer_db res" where
  "migrate_assignment env db row =
     (case row of (h, state) \<Rightarrow>
      (case sh_assignment state of
         None \<Rightarrow> Inr db
       | Some a \<Rightarrow>
         if sa_claimantId a \<noteq> None \<or> sa_qualifyingFundingOutpoint a \<noteq> None then Inr db
         else bindE (add_legacy env (sa_payerPublicKey a) (db_legacy db)) (\<lambda>legacy.
         let db1 = db\<lparr>db_legacy := legacy\<rparr> in
         case find (\<lambda>c. ch_challengeId c = sa_challengeId a) (sh_challenges state) of
           None \<Rightarrow> Inr db1
         | Some challenge \<Rightarrow>
           (case iv_dateParse env (sa_deliveryCommittedAt a) of
              None \<Rightarrow> throwE ''legacy grant delivery time is invalid''
            | Some disclosedAt \<Rightarrow>
              bindE (challengeAdmissionKey env h challenge) (\<lambda>admissionKey.
              Inr (db1\<lparr>db_admissions := insert_or_ignore
                     (textFingerprint env (''legacy:'' @ h @ '':'' @ sa_grantId a))
                     \<lparr>ad_claimant = textFingerprint env (''claimant:'' @ sa_payerPublicKey a),
                      ad_admission = textFingerprint env (''admission:'' @ admissionKey), ad_disclosedAt = disclosedAt\<rparr>
                     (db_admissions db1)\<rparr>))))))"

definition migrate_delivery :: "issuer_env \<Rightarrow> issuer_db \<Rightarrow> (string \<times> string) \<times> delivery_record \<Rightarrow> issuer_db res" where
  "migrate_delivery env db row =
     (let r = snd row in
      if dr_claimantId r \<noteq> None \<and> dr_qualifyingFundingOutpoint r \<noteq> None then Inr db
      else bindE (add_legacy env (dr_payerPublicKey r) (db_legacy db)) (\<lambda>legacy. Inr (db\<lparr>db_legacy := legacy\<rparr>)))"

definition migrateLegacyGrantAdmissions :: "issuer_env \<Rightarrow> issuer_db \<Rightarrow> issuer_db res" where
  "migrateLegacyGrantAdmissions env db =
     bindE (foldE (migrate_assignment env) db (db_heads db)) (\<lambda>db1.
     foldE (migrate_delivery env) db1 (db_deliveries db))"

definition fromStorage :: "issuer_env \<Rightarrow> storage_limits option \<Rightarrow> unit issuer_op" where
  \<comment> \<open>opening the database: the tables exist, the encryption key is the one the store was made with\<close>
  "fromStorage env storageLimits db =
     bindE (case storageLimits of None \<Rightarrow> Inr () | Some l \<Rightarrow> validateStorageLimits l) (\<lambda>_.
     bindE (if db_limits db \<noteq> None then readStorageLimits db
            else Inr (case storageLimits of None \<Rightarrow> DEFAULT_STORAGE_LIMITS | Some l \<Rightarrow> l)) (\<lambda>limits.
     bindE (checkE (case storageLimits of None \<Rightarrow> True | Some l \<Rightarrow> l = limits)
              ''grant storage limits differ from the persisted policy; use increaseStorageLimits'') (\<lambda>_.
     bindE (checkE (db_schemaVersion db \<in> {0, 1, 2}) ''unsupported grant database schema version'') (\<lambda>_.
     bindE (checkE (db_meta db \<or> db_heads db = [] \<and> db_deliveries db = []) ''grant database encryption metadata is missing'') (\<lambda>_.
     let db1 = db\<lparr>db_meta := True\<rparr> in
     bindE (if db_schemaVersion db1 = 0 then migrateLegacyGrantKeys env db1 else Inr db1) (\<lambda>db2.
     let db3 = (if db_schemaVersion db1 \<noteq> 2 then migrateQuotedGrants db2 else db2) in
     bindE (migrateLegacyGrantAdmissions env db3) (\<lambda>db4.
     let db5 = db4\<lparr>db_limits := Some limits\<rparr> in
     bindE (check_capacity db5 (db_limits db = None)) (\<lambda>_. Inr ((), db5)))))))))"

end
