(* ===== verification/Issuer_Keys.thy ===== *)
theory Issuer_Keys
  imports Hash_Chain_Issuer
begin

text \<open>
  One-time keys are disclosed once. A head that can still be claimed holds keys which are registered
  for it alone and which no delivery has disclosed; a head whose keys may be compromised is
  quarantined until its owner has rotated it to new ones. Every transaction of the issuer keeps
  this invariant, whatever the calls are and however their parts interleave.
\<close>

section \<open>Calls\<close>

datatype issuer_call =
    Open "storage_limits option"
  | Increase storage_limits
  | Compact
  | Install "nat \<Rightarrow> string" install_input "js_number option"
  | Current "nat \<Rightarrow> int" string
  | Issue int string string string js_number string string
  | Commit "nat \<Rightarrow> int" authorized_claim "funding_outpoint list"
  | Pin payment_candidate
  | Abandon int string
  | Borrowed string accepted_transition
  | Paid "nat \<Rightarrow> int" string accepted_transition accepted_payment
  | Rotated "nat \<Rightarrow> string" "nat \<Rightarrow> string" string accepted_transition "borrow_grant list"
  | Swept string accepted_sweep
  | HoldHead string
  | Reconcile string observed_head

definition after_call :: "('a \<times> issuer_db) res \<Rightarrow> issuer_db res" where
  "after_call r = bindE r (\<lambda>(_, db). Inr db)"

fun issuer_run :: "issuer_env \<Rightarrow> issuer_db \<Rightarrow> issuer_call \<Rightarrow> issuer_db res" where
  "issuer_run env db (Open l) = after_call (fromStorage env l db)"
| "issuer_run env db (Increase l) = after_call (increaseStorageLimits l db)"
| "issuer_run env db Compact = after_call (compactStorage db)"
| "issuer_run env db (Install ids input m) = after_call (installHead env ids input m db)"
| "issuer_run env db (Current clock h) = after_call (getCurrent env clock h db)"
| "issuer_run env db (Issue now c h q l a k) = after_call (issueAdmittedChallenge env now c h q l a k db)"
| "issuer_run env db (Commit clock a ops) = after_call (commitAuthorizedGrantClaim env clock a ops db)"
| "issuer_run env db (Pin p) = after_call (pinPaymentCandidate env p db)"
| "issuer_run env db (Abandon now h) = after_call (markAbandoned env now h db)"
| "issuer_run env db (Borrowed h t) = after_call (recordAcceptedBorrow env h t db)"
| "issuer_run env db (Paid clock h t p) = after_call (recordAcceptedPayment env clock h t p db)"
| "issuer_run env db (Rotated ids ids' h t gs) = after_call (recordAcceptedRotation env ids ids' h t gs db)"
| "issuer_run env db (Swept h s) = after_call (recordAcceptedSweep env h s db)"
| "issuer_run env db (HoldHead h) = after_call (holdForReorg env h db)"
| "issuer_run env db (Reconcile h o') = after_call (reconcileObservedHead env h o' db)"

lemma after_call_Inr [run_simps]: "after_call r = Inr db \<longleftrightarrow> (\<exists>x. r = Inr (x, db))"
  by (auto simp: after_call_def bindE_Inr)

lemma checkE_Inr [run_simps]: "checkE b m = Inr u \<longleftrightarrow> b"
  by (auto simp: checkE_def throwE_def)

lemma throwE_Inr [run_simps]: "throwE m = Inr u \<longleftrightarrow> False"
  by (simp add: throwE_def)

lemma hc_hex32_Inr [run_simps]: "hc_hex32 v l = Inr x \<longleftrightarrow> is_lower_hash32 v \<and> x = v"
  by (auto simp: hc_hex32_def throwE_def)

section \<open>Tables\<close>

lemma insert_row_Inr [run_simps]:
  "insert_row k v rows = Inr rows' \<longleftrightarrow> map_of rows k = None \<and> rows' = rows @ [(k, v)]"
  by (auto simp: insert_row_def throwE_def)

lemma map_add_absent [simp]: "m k = None \<Longrightarrow> [k \<mapsto> v] ++ m = m(k \<mapsto> v)"
  by (auto simp: fun_eq_iff map_add_def split: option.splits)

lemma map_le_absent [simp]: "m k = None \<Longrightarrow> m \<subseteq>\<^sub>m m(k \<mapsto> v)"
  by (auto simp: map_le_def)

lemma map_le_insert_or_ignore: "map_of rows \<subseteq>\<^sub>m map_of (insert_or_ignore k v rows)"
  by (auto simp: insert_or_ignore_def map_le_def)

lemma map_of_map_heads: "map_of (map (\<lambda>(h, s). (h, f h s)) rows) h = map_option (f h) (map_of rows h)"
  by (induction rows) auto

section \<open>The invariant\<close>

definition effective_phase :: "stored_head \<Rightarrow> grant_phase" where
  \<comment> \<open>the phase to which a held head returns\<close>
  "effective_phase s = (if sh_phase s = Hold
     then case sh_phaseBeforeHold s of None \<Rightarrow> NeedsRotation | Some p \<Rightarrow> p else sh_phase s)"

definition undisclosed :: "stored_head \<Rightarrow> stored_grant list" where
  \<comment> \<open>the grants that can still be delivered for the first time\<close>
  "undisclosed s = (if effective_phase s \<in> {Ready, Exhausted} then drop (sh_nextIndex s) (sh_grants s)
     else if effective_phase s = Assigned then drop (sh_nextIndex s + 1) (sh_grants s) else [])"

abbreviation grant_fp :: "issuer_env \<Rightarrow> stored_grant \<Rightarrow> string" where
  "grant_fp env g \<equiv> grantKeyFingerprint env (sg_oneTimePublicKey g)"

abbreviation record_fp :: "issuer_env \<Rightarrow> delivery_record \<Rightarrow> string" where
  "record_fp env r \<equiv> grantKeyFingerprint env (dr_oneTimePublicKey r)"

definition assigned_to :: "delivery_record \<Rightarrow> stored_assignment \<Rightarrow> bool" where
  "assigned_to r a \<longleftrightarrow> dr_payerPublicKey r = sa_payerPublicKey a \<and> dr_requestHash r = sa_requestHash a
     \<and> dr_challengeId r = sa_challengeId a \<and> dr_quotedAmount r = sa_quotedAmount a \<and> \<not> falsy (sa_quotedAmount a)
     \<and> sa_claimantId a \<noteq> None"

definition assignment_ok :: "(string \<times> string \<Rightarrow> delivery_record option) \<Rightarrow> string \<Rightarrow> stored_head \<Rightarrow> bool" where
  "assignment_ok dels h s \<longleftrightarrow>
     (\<exists>a g r. sh_assignment s = Some a \<and> item (sh_grants s) (sh_nextIndex s) = Some g
        \<and> sa_grantId a = sg_grantId g \<and> dels (h, sg_grantId g) = Some r
        \<and> dr_oneTimePublicKey r = sg_oneTimePublicKey g \<and> assigned_to r a)"

definition fresh_grants ::
  "issuer_env \<Rightarrow> (string \<Rightarrow> string option) \<Rightarrow> (string \<times> string \<Rightarrow> delivery_record option) \<Rightarrow> string
     \<Rightarrow> stored_grant list \<Rightarrow> bool" where
  "fresh_grants env seen dels h gs \<longleftrightarrow> distinct (map (grant_fp env) gs)
     \<and> (\<forall>g \<in> set gs. seen (grant_fp env g) = Some h)
     \<and> (\<forall>g \<in> set gs. \<forall>k r. dels k = Some r \<longrightarrow> record_fp env r \<noteq> grant_fp env g)"

definition head_keys_ok ::
  "issuer_env \<Rightarrow> (string \<Rightarrow> string option) \<Rightarrow> (string \<times> string \<Rightarrow> delivery_record option) \<Rightarrow> string \<Rightarrow> stored_head \<Rightarrow> bool" where
  "head_keys_ok env seen dels h s \<longleftrightarrow> sh_headId s = h \<and> fresh_grants env seen dels h (undisclosed s)
     \<and> (effective_phase s \<in> {Ready, Exhausted} \<longrightarrow> sh_assignment s = None)
     \<and> (effective_phase s = Assigned \<longrightarrow> sh_assignment s \<noteq> None)
     \<and> (sh_assignment s \<noteq> None \<longrightarrow> assignment_ok dels h s)"

definition deliveries_ok ::
  "issuer_env \<Rightarrow> (string \<Rightarrow> string option) \<Rightarrow> (string \<times> string \<Rightarrow> delivery_record option) \<Rightarrow> bool" where
  "deliveries_ok env seen dels \<longleftrightarrow>
     (\<forall>k r. dels k = Some r \<longrightarrow> seen (record_fp env r) \<noteq> None \<and> k = (dr_headId r, dr_grantId r))
     \<and> (\<forall>k k' r r'. dels k = Some r \<longrightarrow> dels k' = Some r' \<longrightarrow> record_fp env r = record_fp env r' \<longrightarrow> k = k')"

definition keys_ok :: "issuer_env \<Rightarrow> issuer_db \<Rightarrow> bool" where
  "keys_ok env db \<longleftrightarrow> distinct (map fst (db_heads db))
     \<and> deliveries_ok env (map_of (db_seenKeys db)) (map_of (db_deliveries db))
     \<and> (\<forall>h s. map_of (db_heads db) h = Some s
          \<longrightarrow> head_keys_ok env (map_of (db_seenKeys db)) (map_of (db_deliveries db)) h s)"

lemma keys_okD:
  assumes "keys_ok env db"
  shows "deliveries_ok env (map_of (db_seenKeys db)) (map_of (db_deliveries db))"
    and "map_of (db_heads db) h = Some s \<Longrightarrow>
      head_keys_ok env (map_of (db_seenKeys db)) (map_of (db_deliveries db)) h s"
    and "distinct (map fst (db_heads db))"
  using assms by (auto simp: keys_ok_def)

lemma map_le_SomeD: "m \<subseteq>\<^sub>m m' \<Longrightarrow> m k = Some v \<Longrightarrow> m' k = Some v"
  by (auto simp: map_le_def dom_def)

lemma fresh_grants_subset:
  assumes "fresh_grants env seen dels h gs" "seen \<subseteq>\<^sub>m seen'"
  shows "fresh_grants env seen' dels h (drop n gs)"
  unfolding fresh_grants_def
proof (intro conjI ballI)
  show "distinct (map (grant_fp env) (drop n gs))"
    using assms(1) by (simp add: fresh_grants_def drop_map [symmetric])
  fix g assume "g \<in> set (drop n gs)"
  then have g: "g \<in> set gs" by (rule in_set_dropD)
  show "seen' (grant_fp env g) = Some h"
    using g assms by (auto simp: fresh_grants_def intro: map_le_SomeD)
  show "\<forall>k r. dels k = Some r \<longrightarrow> record_fp env r \<noteq> grant_fp env g"
    using g assms(1) by (auto simp: fresh_grants_def)
qed

lemma fresh_grants_Nil [simp]: "fresh_grants env seen dels h []"
  by (simp add: fresh_grants_def)

lemma head_keys_seen:
  "head_keys_ok env seen dels h s \<Longrightarrow> seen \<subseteq>\<^sub>m seen' \<Longrightarrow> head_keys_ok env seen' dels h s"
  using fresh_grants_subset [of env seen dels h "undisclosed s" seen' 0] by (auto simp: head_keys_ok_def)

lemma deliveries_seen: "deliveries_ok env seen dels \<Longrightarrow> seen \<subseteq>\<^sub>m seen' \<Longrightarrow> deliveries_ok env seen' dels"
  unfolding deliveries_ok_def by (blast dest: map_le_SomeD)

lemma head_keys_quarantine:
  assumes "effective_phase s \<in> {NeedsRotation, Hold, Retired}" "sh_headId s = h"
    and "sh_assignment s \<noteq> None \<Longrightarrow> assignment_ok dels h s"
  shows "head_keys_ok env seen dels h s"
  using assms by (auto simp: head_keys_ok_def undisclosed_def)

lemma head_keys_assignment:
  assumes "head_keys_ok env seen dels h s" "sh_assignment s' = sh_assignment s" "sh_assignment s' \<noteq> None"
    and "sh_grants s' = sh_grants s" "sh_nextIndex s' = sh_nextIndex s"
  shows "assignment_ok dels h s'"
  using assms by (auto simp: head_keys_ok_def assignment_ok_def)

lemma head_keys_move:
  assumes ok: "head_keys_ok env seen dels h s" and "effective_phase s' \<in> {NeedsRotation, Hold, Retired}"
    and "sh_headId s' = sh_headId s" "sh_assignment s' = sh_assignment s"
    and "sh_grants s' = sh_grants s" "sh_nextIndex s' = sh_nextIndex s"
  shows "head_keys_ok env seen dels h s'"
  using assms head_keys_assignment [OF ok, of s'] by (intro head_keys_quarantine) (auto simp: head_keys_ok_def)

lemma head_keys_cong:
  assumes "head_keys_ok env seen dels h s" "sh_headId s' = sh_headId s" "effective_phase s' = effective_phase s"
    and "sh_grants s' = sh_grants s" "sh_nextIndex s' = sh_nextIndex s" "sh_assignment s' = sh_assignment s"
  shows "head_keys_ok env seen dels h s'"
  using assms unfolding head_keys_ok_def undisclosed_def assignment_ok_def by metis

lemma keys_ok_update:
  assumes ok: "keys_ok env db" and heads: "db_heads db1 = db_heads db"
    and seen: "map_of (db_seenKeys db) \<subseteq>\<^sub>m map_of (db_seenKeys db1)"
    and dels: "db_deliveries db1 = db_deliveries db"
    and nxt: "head_keys_ok env (map_of (db_seenKeys db1)) (map_of (db_deliveries db)) h nxt"
  shows "keys_ok env (db1\<lparr>db_heads := AList.update h nxt (db_heads db1)\<rparr>)"
  unfolding keys_ok_def
proof (intro conjI allI impI)
  show "distinct (map fst (db_heads (db1\<lparr>db_heads := AList.update h nxt (db_heads db1)\<rparr>)))"
    using keys_okD(3) [OF ok] heads by (simp add: distinct_update)
  show "deliveries_ok env (map_of (db_seenKeys (db1\<lparr>db_heads := AList.update h nxt (db_heads db1)\<rparr>)))
      (map_of (db_deliveries (db1\<lparr>db_heads := AList.update h nxt (db_heads db1)\<rparr>)))"
    using keys_okD(1) [OF ok] seen dels by (simp add: deliveries_seen)
  fix k s assume "map_of (db_heads (db1\<lparr>db_heads := AList.update h nxt (db_heads db1)\<rparr>)) k = Some s"
  then show "head_keys_ok env (map_of (db_seenKeys (db1\<lparr>db_heads := AList.update h nxt (db_heads db1)\<rparr>)))
      (map_of (db_deliveries (db1\<lparr>db_heads := AList.update h nxt (db_heads db1)\<rparr>))) k s"
    using keys_okD(2) [OF ok, of k s] seen dels heads nxt
    by (auto simp: update_conv' split: if_splits intro: head_keys_seen)
qed

section \<open>Transactions on one head\<close>

lemma mutateE:
  assumes "mutate env mode h change db = Inr (r, db')"
  obtains nxt db1 where "change (map_of (db_heads db) h) db = Inr ((nxt, r), db1)"
    "db' = db1\<lparr>db_heads := AList.update h nxt (db_heads db1)\<rparr>"
    "\<exists>reserve u. check_capacity db' reserve = Inr u"
  using assms by (auto simp: mutate_def Let_def bindE_Inr split: prod.splits)

lemma keys_ok_mutate:
  assumes run: "mutate env mode h change db = Inr (r, db')" and ok: "keys_ok env db"
    and local: "\<And>s nxt db1. map_of (db_heads db) h = Some s \<Longrightarrow> change (Some s) db = Inr ((nxt, r), db1) \<Longrightarrow>
       head_keys_ok env (map_of (db_seenKeys db)) (map_of (db_deliveries db)) h s \<Longrightarrow>
       db_heads db1 = db_heads db \<and> db_seenKeys db1 = db_seenKeys db \<and> db_deliveries db1 = db_deliveries db
       \<and> head_keys_ok env (map_of (db_seenKeys db)) (map_of (db_deliveries db)) h nxt"
    and new: "\<And>x. change None db \<noteq> Inr x"
  shows "keys_ok env db'"
proof -
  obtain nxt db1 where c: "change (map_of (db_heads db) h) db = Inr ((nxt, r), db1)"
    and db': "db' = db1\<lparr>db_heads := AList.update h nxt (db_heads db1)\<rparr>"
    using mutateE [OF run] by metis
  then obtain s where s: "map_of (db_heads db) h = Some s" using new by (cases "map_of (db_heads db) h") auto
  then have *: "db_heads db1 = db_heads db" "db_seenKeys db1 = db_seenKeys db" "db_deliveries db1 = db_deliveries db"
    "head_keys_ok env (map_of (db_seenKeys db)) (map_of (db_deliveries db)) h nxt"
    using local [OF s _ keys_okD(2) [OF ok s]] c by auto
  then show ?thesis unfolding db' by (intro keys_ok_update [OF ok]) auto
qed


lemma head_keys_id: "head_keys_ok env seen dels h s \<Longrightarrow> sh_headId s = h"
  by (simp add: head_keys_ok_def)

lemma keys_getCurrent:
  assumes "getCurrent env clock h db = Inr (r, db')" "keys_ok env db"
  shows "keys_ok env db'"
proof -
  let ?change = "\<lambda>state db. case state of None \<Rightarrow> throwE ''grant head is missing''
       | Some s \<Rightarrow> let s' = (if expired_assignment env (clock 1) s
                     then s\<lparr>sh_phase := NeedsRotation, sh_challenges := []\<rparr> else s)
           in Inr ((s', publicGrant s'), db)"
  consider "db' = db" | "mutate env Recover h ?change db = Inr (r, db')"
    using assms(1) by (auto simp: getCurrent_def bindE_Inr hc_hex32_Inr split: if_splits)
  then show ?thesis
  proof cases
    case 2
    then show ?thesis
    proof (rule keys_ok_mutate [OF _ assms(2)])
      fix s nxt db1
      assume "map_of (db_heads db) h = Some s" "?change (Some s) db = Inr ((nxt, r), db1)"
        and ok: "head_keys_ok env (map_of (db_seenKeys db)) (map_of (db_deliveries db)) h s"
      moreover have "head_keys_ok env (map_of (db_seenKeys db)) (map_of (db_deliveries db)) h
          (s\<lparr>sh_phase := NeedsRotation, sh_challenges := []\<rparr>)"
        by (rule head_keys_move [OF ok]) (simp_all add: effective_phase_def)
      ultimately show "db_heads db1 = db_heads db \<and> db_seenKeys db1 = db_seenKeys db \<and> db_deliveries db1 = db_deliveries db
          \<and> head_keys_ok env (map_of (db_seenKeys db)) (map_of (db_deliveries db)) h nxt"
        by (auto simp: Let_def split: if_splits)
    qed (simp add: throwE_def)
  qed (use assms in simp)
qed

lemma keys_holdForReorg:
  assumes "holdForReorg env h db = Inr (r, db')" "keys_ok env db"
  shows "keys_ok env db'"
  using assms unfolding holdForReorg_def bindE_Inr hc_hex32_Inr
  by (elim exE conjE, elim keys_ok_mutate)
    (auto simp: Let_def throwE_def effective_phase_def split: if_splits elim!: head_keys_cong)

lemma keys_issueChallenge:
  assumes "issueAdmittedChallenge env now c h q l a k db = Inr (r, db')" "keys_ok env db"
  shows "keys_ok env db'"
  using assms unfolding issueAdmittedChallenge_def bindE_Inr hc_hex32_Inr
  by (elim exE conjE, elim keys_ok_mutate)
    (auto simp: Let_def throwE_def effective_phase_def bindE_Inr split: if_splits option.splits elim!: head_keys_cong)

lemma assignment_ok_pin:
  "assignment_ok dels h s \<Longrightarrow> sh_assignment s = Some a \<Longrightarrow>
     assignment_ok dels h (s\<lparr>sh_assignment := Some (a\<lparr>sa_candidateTransactionId := t\<rparr>)\<rparr>)"
  by (auto simp: assignment_ok_def assigned_to_def)

lemma head_keys_pin:
  assumes "head_keys_ok env seen dels h s" "sh_assignment s = Some a"
  shows "head_keys_ok env seen dels h (s\<lparr>sh_assignment := Some (a\<lparr>sa_candidateTransactionId := t\<rparr>)\<rparr>)"
  using assms assignment_ok_pin [of dels h s a t]
  by (auto simp: head_keys_ok_def undisclosed_def effective_phase_def split: if_splits)

lemma keys_pin:
  assumes "pinPaymentCandidate env n db = Inr (r, db')" "keys_ok env db"
  shows "keys_ok env db'"
  using assms unfolding pinPaymentCandidate_def bindE_Inr hc_hex32_Inr
  by (elim exE conjE, elim keys_ok_mutate)
    (auto simp: throwE_def bindE_Inr checkE_Inr split: option.splits intro: head_keys_pin)

lemma keys_abandon:
  assumes "markAbandoned env now h db = Inr (r, db')" "keys_ok env db"
  shows "keys_ok env db'"
  using assms unfolding markAbandoned_def bindE_Inr hc_hex32_Inr
  by (elim exE conjE, elim keys_ok_mutate)
    (auto simp: Let_def throwE_def effective_phase_def split: if_splits option.splits
      elim!: head_keys_move)

lemma keys_sweep:
  assumes "recordAcceptedSweep env h sw db = Inr (r, db')" "keys_ok env db"
  shows "keys_ok env db'"
  using assms unfolding recordAcceptedSweep_def bindE_Inr hc_hex32_Inr
  by (elim exE conjE, elim keys_ok_mutate)
    (auto simp: Let_def throwE_def effective_phase_def bindE_Inr
      intro!: head_keys_quarantine dest: head_keys_id)

lemma head_keys_release:
  assumes ok: "head_keys_ok env seen dels h s" and hold: "sh_phase s = Hold"
    and prior: "prior = (case sh_phaseBeforeHold s of None \<Rightarrow> NeedsRotation | Some p \<Rightarrow> p)"
  shows "head_keys_ok env seen dels h
     (s\<lparr>sh_phase := (if prior = Retired then NeedsRotation else prior), sh_phaseBeforeHold := None\<rparr>)"
proof (cases "prior \<in> {NeedsRotation, Hold, Retired}")
  case True
  then show ?thesis
    by (intro head_keys_move [OF ok]) (auto simp: effective_phase_def)
next
  case False
  then show ?thesis
    using hold prior by (intro head_keys_cong [OF ok]) (auto simp: effective_phase_def)
qed

lemma reconciled_keys:
  assumes ok: "head_keys_ok env seen dels h s" and hold: "sh_phase s = Hold" and run: "reconciled_head actual s = Inr s'"
  shows "head_keys_ok env seen dels h s'"
proof (cases "sameHead actual (sh_head s)")
  case True
  then show ?thesis using run head_keys_release [OF ok hold refl] by (auto simp: reconciled_head_def Let_def)
next
  case False
  then show ?thesis
    using run head_keys_id [OF ok]
    by (auto simp: reconciled_head_def throwE_def effective_phase_def split: option.splits intro!: head_keys_quarantine)
qed

lemma keys_reconcile:
  assumes "reconcileObservedHead env h o' db = Inr (r, db')" "keys_ok env db"
  shows "keys_ok env db'"
  using assms unfolding reconcileObservedHead_def bindE_Inr hc_hex32_Inr
  by (elim exE conjE, elim keys_ok_mutate)
    (auto simp: throwE_def bindE_Inr checkE_Inr intro: reconciled_keys)

section \<open>New keys\<close>

lemma rememberGrantKeys_le: "map_of seen \<subseteq>\<^sub>m map_of (snd (rememberGrantKeys env h gs seen))"
proof (induction gs arbitrary: seen)
  case (Cons g gs)
  let ?f = "grant_fp env g"
  show ?case
  proof (cases "map_of seen ?f = None")
    case True
    then have "map_of seen \<subseteq>\<^sub>m map_of (seen @ [(?f, h)])" by simp
    then have "map_of seen \<subseteq>\<^sub>m map_of (snd (rememberGrantKeys env h gs (seen @ [(?f, h)])))"
      using Cons.IH [of "seen @ [(?f, h)]"] by (rule map_le_trans)
    then show ?thesis using True by (simp add: Let_def)
  qed (use Cons.IH [of seen] in \<open>auto simp: Let_def\<close>)
qed simp

lemma rememberGrantKeys_new:
  assumes "rememberGrantKeys env h gs seen = (False, seen')"
  shows "distinct (map (grant_fp env) gs)
    \<and> (\<forall>g \<in> set gs. map_of seen (grant_fp env g) = None \<and> map_of seen' (grant_fp env g) = Some h)"
  using assms
proof (induction gs arbitrary: seen)
  case (Cons g gs)
  let ?f = "grant_fp env g"
  have f: "map_of seen ?f = None" and run: "rememberGrantKeys env h gs (seen @ [(?f, h)]) = (False, seen')"
    using Cons.prems by (auto simp: Let_def split: if_splits)
  have le: "map_of (seen @ [(?f, h)]) \<subseteq>\<^sub>m map_of seen'"
    using rememberGrantKeys_le [of "seen @ [(?f, h)]" env h gs] run by simp
  have own: "map_of seen' ?f = Some h" using f by (intro map_le_SomeD [OF le]) simp
  have IH: "distinct (map (grant_fp env) gs)"
    "\<And>x. x \<in> set gs \<Longrightarrow> map_of (seen @ [(?f, h)]) (grant_fp env x) = None \<and> map_of seen' (grant_fp env x) = Some h"
    using Cons.IH [OF run] by auto
  have rest: "grant_fp env x \<noteq> ?f \<and> map_of seen (grant_fp env x) = None" if "x \<in> set gs" for x
    using IH(2) [OF that] f by (auto split: if_splits)
  have "?f \<notin> set (map (grant_fp env) gs)" using rest by fastforce
  then show ?case using IH f own rest by auto
qed simp

lemma new_grants_fresh:
  assumes "rememberGrantKeys env h gs seen = (False, seen')" "deliveries_ok env (map_of seen) dels"
  shows "fresh_grants env (map_of seen') dels h gs"
  using rememberGrantKeys_new [OF assms(1)] assms(2) unfolding fresh_grants_def deliveries_ok_def by metis

lemma keys_install:
  assumes "installHead env ids input m db = Inr (r, db')" "keys_ok env db"
  shows "keys_ok env db'"
proof -
  obtain h grants stored where
    run: "mutate env Allocate h (\<lambda>current db.
       bindE (checkE (current = None) ''grant head already exists'') (\<lambda>_.
       bindE (checkE (case m of None \<Rightarrow> True
                | Some m \<Rightarrow> int (length (filter (\<lambda>(_, s). sh_phase s \<noteq> Retired) (db_heads db))) < num_int m)
                ''hash-chain ready-head pool is full'') (\<lambda>_.
       let (reused, seen) = rememberGrantKeys env h grants (db_seenKeys db) in
       bindE (checkE (\<not> reused) ''one-time key has already been used'') (\<lambda>_.
       Inr ((stored, publicGrant stored), db\<lparr>db_seenKeys := seen\<rparr>))))) db = Inr (r, db')"
    and st: "sh_headId stored = h" "sh_phase stored = Ready" "sh_assignment stored = None"
      "sh_grants stored = grants" "sh_nextIndex stored = 0"
    using assms(1) by (auto simp: installHead_def bindE_Inr hc_hex32_Inr Let_def)
  obtain reused seen where rem: "rememberGrantKeys env h grants (db_seenKeys db) = (reused, seen)" by fastforce
  obtain nxt db1 where new: "\<not> reused" "nxt = stored"
    "db1 = db\<lparr>db_seenKeys := seen\<rparr>" and db': "db' = db1\<lparr>db_heads := AList.update h nxt (db_heads db1)\<rparr>"
    using run by (rule mutateE) (auto simp: bindE_Inr checkE_Inr rem)
  show ?thesis unfolding db'
  proof (rule keys_ok_update [OF assms(2)])
    show "map_of (db_seenKeys db) \<subseteq>\<^sub>m map_of (db_seenKeys db1)"
      using rememberGrantKeys_le [of "db_seenKeys db" env h grants] new rem by simp
    have "fresh_grants env (map_of seen) (map_of (db_deliveries db)) h grants"
      using new_grants_fresh [OF _ keys_okD(1) [OF assms(2)]] rem new(1) by simp
    then show "head_keys_ok env (map_of (db_seenKeys db1)) (map_of (db_deliveries db)) h nxt"
      using st new by (simp add: head_keys_ok_def undisclosed_def effective_phase_def)
  qed (simp_all add: new)
qed


section \<open>Advancing a head\<close>

lemma drop_Suc_undisclosed:
  assumes "effective_phase s \<in> {Ready, Exhausted, Assigned}" "fresh_grants env seen dels h (undisclosed s)"
  shows "fresh_grants env seen dels h (drop (sh_nextIndex s + 1) (sh_grants s))"
  using assms fresh_grants_subset [of env seen dels h "undisclosed s" seen 1]
  by (auto simp: undisclosed_def split: if_splits)

lemma advanced_head_fields [simp]:
  "sh_headId (advanced_head kind rec s after gs safe) = sh_headId s"
  "sh_assignment (advanced_head kind rec s after gs safe) = None"
  "sh_nextIndex (advanced_head kind rec s after gs safe) = (if kind = Borrow then sh_nextIndex s + 1 else 0)"
  "sh_grants (advanced_head Borrow False s after gs safe) = sh_grants s"
  "sh_grants (advanced_head Rotate False s after gs safe) = gs"
  by (auto simp: advanced_head_def Let_def)

lemma advanced_head_phase:
  "effective_phase (advanced_head Borrow False s after gs safe) =
     (if length (sh_grants s) \<le> sh_nextIndex s + 1 then Exhausted else if quarantined s then NeedsRotation else Ready)"
  "effective_phase (advanced_head Rotate rec s after gs safe) =
     (if safe \<and> \<not> rec then if gs = [] then Exhausted else Ready else NeedsRotation)"
  by (auto simp: effective_phase_def advanced_head_def Let_def)

lemma borrowed_keys:
  assumes ok: "head_keys_ok env seen dels h s"
    and live: "sh_phase s \<noteq> Retired" "sh_phase s \<noteq> Hold \<or> sh_phaseBeforeHold s \<in> {Some Assigned, Some NeedsRotation}"
  shows "head_keys_ok env seen dels h (advanced_head Borrow False s after gs safe)"
proof (cases "quarantined s")
  case True
  then show ?thesis
    using head_keys_id [OF ok] by (auto simp: head_keys_ok_def undisclosed_def advanced_head_phase)
next
  case False
  have "effective_phase s \<in> {Ready, Exhausted, Assigned}"
    using False live by (cases "sh_phase s") (auto simp: effective_phase_def quarantined_def)
  then have "fresh_grants env seen dels h (drop (sh_nextIndex s + 1) (sh_grants s))"
    using ok drop_Suc_undisclosed by (auto simp: head_keys_ok_def)
  then show ?thesis
    using head_keys_id [OF ok] False by (auto simp: head_keys_ok_def undisclosed_def advanced_head_phase)
qed

lemma rotated_keys:
  assumes ok: "head_keys_ok env seen dels h s" and new: "safe \<Longrightarrow> fresh_grants env seen' dels h gs"
  shows "head_keys_ok env seen' dels h (advanced_head Rotate rec s after gs safe)"
  using head_keys_id [OF ok] new by (auto simp: head_keys_ok_def undisclosed_def advanced_head_phase)

lemma advance_effect:
  assumes "advance env ids h tr kind repl pay rec db = Inr (r, db')" "kind = Borrow \<longrightarrow> \<not> rec"
  obtains s after gs safe db1 where "map_of (db_heads db) h = Some s" "sh_phase s \<noteq> Retired"
    "sh_phase s = Hold \<longrightarrow> kind = Borrow \<and> (pay \<noteq> None \<longrightarrow> sh_phaseBeforeHold s = Some Assigned)"
    "if kind = Borrow then borrow_effect h s after pay db = Inr db1
     else rotate_effect env ids h s after repl db = Inr ((gs, safe), db1)"
    "normalizeHead env (tr_successor tr) (sh_ownerPublicKey s) = Inr after"
    "oh_covenantId after = oh_covenantId (sh_head s)"
    "db' = db1\<lparr>db_heads := AList.update h (advanced_head kind rec s after gs safe) (db_heads db1)\<rparr>"
proof -
  from assms(1) obtain nxt db1 where
    c: "(case map_of (db_heads db) h of
         None \<Rightarrow> throwE ''head must be live and reconciled before advancement''
       | Some state \<Rightarrow>
         bindE (checkE (sh_phase state \<noteq> Retired
                  \<and> \<not> (sh_phase state = Hold \<and> (kind \<noteq> Borrow \<or> pay \<noteq> None \<and> sh_phaseBeforeHold state \<noteq> Some Assigned)))
                  ''head must be live and reconciled before advancement'') (\<lambda>_.
         bindE (hc_normalizeOutpoint (tr_predecessor tr)) (\<lambda>predecessor.
         bindE (checkE (hc_sameOutpoint predecessor (oh_outpoint (sh_head state))) ''transition does not spend the current head'') (\<lambda>_.
         bindE (normalizeHead env (tr_successor tr) (sh_ownerPublicKey state)) (\<lambda>after.
         bindE (checkE (oh_covenantId after = oh_covenantId (sh_head state)
                  \<and> \<not> hc_sameOutpoint (oh_outpoint after) (oh_outpoint (sh_head state)))
                  ''successor changed covenant identity or reused outpoint'') (\<lambda>_.
         bindE (if kind = Borrow
                then bindE (borrow_effect h state after pay db) (\<lambda>db1. Inr (([], False), db1))
                else rotate_effect env ids h state after repl db) (\<lambda>((grants, safe), db1).
         let s = advanced_head kind rec state after grants safe in
         Inr ((s, publicGrant s), db1)))))))) = Inr ((nxt, r), db1)"
    and db': "db' = db1\<lparr>db_heads := AList.update h nxt (db_heads db1)\<rparr>"
    unfolding advance_def bindE_Inr hc_hex32_Inr by (elim exE conjE, elim mutateE) blast
  then obtain s where s: "map_of (db_heads db) h = Some s" by (cases "map_of (db_heads db) h") (auto simp: throwE_def)
  with c obtain after gs safe where *: "sh_phase s \<noteq> Retired"
    "sh_phase s = Hold \<longrightarrow> kind = Borrow \<and> (pay \<noteq> None \<longrightarrow> sh_phaseBeforeHold s = Some Assigned)"
    "(if kind = Borrow then bindE (borrow_effect h s after pay db) (\<lambda>db1. Inr (([], False), db1))
      else rotate_effect env ids h s after repl db) = Inr ((gs, safe), db1)"
    "normalizeHead env (tr_successor tr) (sh_ownerPublicKey s) = Inr after"
    "oh_covenantId after = oh_covenantId (sh_head s)" "nxt = advanced_head kind rec s after gs safe"
    by (auto simp: bindE_Inr checkE_Inr Let_def)
  show thesis
    by (rule that [OF s, of after db1 gs safe]) (use * db' in \<open>auto simp: bindE_Inr split: if_splits\<close>)
qed


lemma borrow_effectE:
  assumes "borrow_effect h s after pay db = Inr db1"
  obtains g rows where "db1 = db\<lparr>db_payments := rows\<rparr>" "item (sh_grants s) (sh_nextIndex s) = Some g"
    "oh_guard after = sg_revealedGuard g" "sompi (oh_amount (sh_head s)) < sompi (oh_amount after)"
    "sh_phase s = Hold \<longrightarrow> pay \<noteq> None \<or> unmatched_borrow h s g after db"
    "\<forall>p. pay = Some p \<longrightarrow> exact_payment h s g after p db \<and> map_of (db_payments db) (ap_transactionId p) = None
       \<and> ap_grantId p \<notin> set (map (\<lambda>(_, q). ap_grantId q) (db_payments db))
       \<and> rows = db_payments db @ [(ap_transactionId p, p)]"
    "pay = None \<longrightarrow> rows = db_payments db"
proof -
  obtain g where g: "item (sh_grants s) (sh_nextIndex s) = Some g"
    "oh_guard after = sg_revealedGuard g" "sompi (oh_amount (sh_head s)) < sompi (oh_amount after)"
    "sh_phase s = Hold \<longrightarrow> pay \<noteq> None \<or> unmatched_borrow h s g after db"
    and rest: "(case pay of None \<Rightarrow> Inr db
        | Some p \<Rightarrow> bindE (checkE (exact_payment h s g after p db)
            ''accepted payment does not consume the assigned exact grant'') (\<lambda>_. insert_payment p db)) = Inr db1"
    using assms by (auto simp: borrow_effect_def throwE_def bindE_Inr checkE_Inr split: option.split_asm)
  show thesis
  proof (cases pay)
    case None
    then show thesis using that [of "db_payments db" g] g rest by simp
  next
    case (Some p)
    then have p: "exact_payment h s g after p db" "map_of (db_payments db) (ap_transactionId p) = None"
      "\<not> list_ex (\<lambda>(_, q). ap_grantId q = ap_grantId p) (db_payments db)"
      "db1 = db\<lparr>db_payments := db_payments db @ [(ap_transactionId p, p)]\<rparr>"
      using rest Some by (simp_all add: insert_payment_def bindE_Inr checkE_Inr insert_row_Inr)
    have "ap_grantId p \<notin> set (map (\<lambda>(_, q). ap_grantId q) (db_payments db))"
      using p(3) by (auto simp: list_ex_iff)
    then show thesis using g p Some by (intro that [of "db_payments db @ [(ap_transactionId p, p)]" g]) auto
  qed
qed

lemma rotate_effectE:
  assumes "rotate_effect env ids h s after repl db = Inr ((gs, safe), db1)"
  obtains seen where "db1 = db\<lparr>db_seenKeys := seen\<rparr>" "map_of (db_seenKeys db) \<subseteq>\<^sub>m map_of seen"
    "safe \<longrightarrow> rememberGrantKeys env h gs (db_seenKeys db) = (False, seen)"
    "sompi (oh_amount (sh_head s)) \<le> sompi (oh_amount after)"
proof (cases "replacement_grants env ids (oh_guard after) repl")
  case None
  then show thesis using assms that [of "db_seenKeys db"] by (auto simp: rotate_effect_def bindE_Inr checkE_Inr)
next
  case (Some grants)
  obtain reused seen where rem: "rememberGrantKeys env h grants (db_seenKeys db) = (reused, seen)" by fastforce
  then show thesis using assms Some that [of seen] rememberGrantKeys_le [of "db_seenKeys db" env h grants]
    by (auto simp: rotate_effect_def bindE_Inr checkE_Inr)
qed

lemma keys_advance:
  assumes run: "advance env ids h tr kind repl pay rec db = Inr (r, db')" and kind: "kind = Borrow \<longrightarrow> \<not> rec"
    and ok: "keys_ok env db"
  shows "keys_ok env db'"
proof -
  obtain s after gs safe db1 where s: "map_of (db_heads db) h = Some s" "sh_phase s \<noteq> Retired"
    "sh_phase s = Hold \<longrightarrow> kind = Borrow \<and> (pay \<noteq> None \<longrightarrow> sh_phaseBeforeHold s = Some Assigned)"
    and eff: "if kind = Borrow then borrow_effect h s after pay db = Inr db1
     else rotate_effect env ids h s after repl db = Inr ((gs, safe), db1)"
    and db': "db' = db1\<lparr>db_heads := AList.update h (advanced_head kind rec s after gs safe) (db_heads db1)\<rparr>"
    using advance_effect [OF run kind] by metis
  have sk: "head_keys_ok env (map_of (db_seenKeys db)) (map_of (db_deliveries db)) h s" by (rule keys_okD(2) [OF ok s(1)])
  show ?thesis
  proof (cases kind)
    case Borrow
    then have "borrow_effect h s after pay db = Inr db1" using eff by simp
    then obtain g rows where b: "db1 = db\<lparr>db_payments := rows\<rparr>"
      "sh_phase s = Hold \<longrightarrow> pay \<noteq> None \<or> unmatched_borrow h s g after db"
      by (rule borrow_effectE)
    have "head_keys_ok env (map_of (db_seenKeys db)) (map_of (db_deliveries db)) h (advanced_head Borrow False s after gs safe)"
      using s b by (intro borrowed_keys [OF sk]) (auto simp: unmatched_borrow_def)
    then show ?thesis unfolding db' using Borrow kind by (intro keys_ok_update [OF ok]) (auto simp: b(1))
  next
    case Rotate
    then have "rotate_effect env ids h s after repl db = Inr ((gs, safe), db1)" using eff by simp
    then obtain seen where b: "db1 = db\<lparr>db_seenKeys := seen\<rparr>" "map_of (db_seenKeys db) \<subseteq>\<^sub>m map_of seen"
      "safe \<longrightarrow> rememberGrantKeys env h gs (db_seenKeys db) = (False, seen)"
      by (rule rotate_effectE)
    have "head_keys_ok env (map_of seen) (map_of (db_deliveries db)) h (advanced_head Rotate rec s after gs safe)"
      using b(3) by (intro rotated_keys [OF sk]) (auto intro: new_grants_fresh [OF _ keys_okD(1) [OF ok]])
    then show ?thesis unfolding db' using Rotate b by (intro keys_ok_update [OF ok]) auto
  qed
qed

lemma keys_recordBorrow: "recordAcceptedBorrow env h t db = Inr (r, db') \<Longrightarrow> keys_ok env db \<Longrightarrow> keys_ok env db'"
  unfolding recordAcceptedBorrow_def by (rule keys_advance) auto

lemma keys_recordPayment:
  assumes "recordAcceptedPayment env clock h t p db = Inr (r, db')" "keys_ok env db"
  shows "keys_ok env db'"
  using assms unfolding recordAcceptedPayment_def bindE_Inr hc_hex32_Inr
  by (auto simp: bindE_Inr split: option.splits intro: keys_getCurrent keys_advance [of env _ h t Borrow "[]" "Some p" False])

lemma keys_recordRotation:
  assumes "recordAcceptedRotation env ids ids' h t gs db = Inr (r, db')" "keys_ok env db"
  shows "keys_ok env db'"
  using assms unfolding recordAcceptedRotation_def
  by (auto split: sum.splits if_splits intro: keys_advance [where kind = Rotate])

section \<open>Delivering a key\<close>

lemma inspect_Inr:
  assumes "inspectGrantClaim env s claim now = Inr (g, c)"
  shows "sh_phase s \<in> {Ready, Assigned}" "item (sh_grants s) (sh_nextIndex s) = Some g"
    "gc_grantId claim = sg_grantId g" "c \<in> set (sh_challenges s)" "ch_challengeId c = gc_challengeId claim"
    "sh_assignment s = Some a \<Longrightarrow> tupleMatches a claim" "sh_assignment s = None \<Longrightarrow> \<not> falsy (ch_quotedAmount c)"
  using assms
  by (auto simp: inspectGrantClaim_def bindE_Inr checkE_Inr claim_live_def throwE_def find_Some_iff split: option.splits)

lemma admitClaimant_Inr:
  assumes "admitClaimant env now payer adm ops db = Inr (o', db1)"
  obtains f where "map_of (db_admissions db) f = None"
    "db1 = db\<lparr>db_admissions := db_admissions db @ [(f, \<lparr>ad_claimant = textFingerprint env (''claimant:'' @ payer),
       ad_admission = textFingerprint env (''admission:'' @ adm), ad_disclosedAt = now\<rparr>)]\<rparr>"
    "count_admissions ad_claimant (textFingerprint env (''claimant:'' @ payer)) (now - iv_windowSeconds env * 1000)
       (db_admissions db) < iv_maxGrantsPerClaimant env"
    "count_admissions ad_admission (textFingerprint env (''admission:'' @ adm)) (now - iv_windowSeconds env * 1000)
       (db_admissions db) < iv_maxGrantsPerClaimant env"
  using assms
  by (auto simp: admitClaimant_def bindE_Inr checkE_Inr insert_row_Inr Let_def throwE_def split: option.splits)


definition assigned_head :: "stored_head \<Rightarrow> stored_assignment \<Rightarrow> stored_challenge \<Rightarrow> stored_head" where
  "assigned_head s a c = s\<lparr>sh_assignment := Some a, sh_phase := Assigned, sh_challenges := [c]\<rparr>"

lemma assignGrantE:
  assumes "assignGrant env clock h claim adm ops s g c db = Inr (s1, db1)"
  obtains a op db2 where "s1 = assigned_head s a c" "admitClaimant env (clock 1) (gc_payerPublicKey claim) adm ops db = Inr (op, db2)"
    "map_of (db_deliveries db2) (h, sg_grantId g) = None"
    "db1 = db2\<lparr>db_deliveries := db_deliveries db2 @ [((h, sg_grantId g), deliveryRecord s1 g c claim a)]\<rparr>"
    "sa_grantId a = gc_grantId claim" "sa_challengeId a = gc_challengeId claim" "sa_requestHash a = gc_requestHash claim"
    "sa_payerPublicKey a = gc_payerPublicKey claim" "sa_quotedAmount a = ch_quotedAmount c"
    "sa_claimantId a = Some (gc_payerPublicKey claim)" "sa_qualifyingFundingOutpoint a = Some op"
proof -
  obtain op db2 where adm: "admitClaimant env (clock 1) (gc_payerPublicKey claim) adm ops db = Inr (op, db2)"
    using assms by (auto simp: assignGrant_def bindE_Inr)
  let ?a = "\<lparr>sa_grantId = gc_grantId claim, sa_challengeId = gc_challengeId claim,
           sa_requestHash = gc_requestHash claim, sa_quotedAmount = ch_quotedAmount c,
           sa_payerPublicKey = gc_payerPublicKey claim, sa_claimantId = Some (gc_payerPublicKey claim),
           sa_qualifyingFundingOutpoint = Some op, sa_expiresAt = gc_expiresAt claim,
           sa_deliveryCommittedAt = iv_toISO env (clock 2), sa_candidateTransactionId = None\<rparr>"
  have "map_of (db_deliveries db2) (h, sg_grantId g) = None" "s1 = assigned_head s ?a c"
    "db1 = db2\<lparr>db_deliveries := db_deliveries db2 @ [((h, sg_grantId g), deliveryRecord s1 g c claim ?a)]\<rparr>"
    using assms adm unfolding assignGrant_def bindE_Inr
    by (auto simp: Let_def bindE_Inr insert_row_Inr assigned_head_def)
  then show thesis using that [of ?a op db2] adm by simp
qed

lemma commitE:
  assumes "commitAuthorizedGrantClaim env clock az ops db = Inr (d, db')"
  obtains s g c s1 db1 where "map_of (db_heads db) (az_headId az) = Some s"
    "inspectGrantClaim env s (az_claim az) (clock 0) = Inr (g, c)"
    "gd_oneTimePublicKey d = sg_oneTimePublicKey g" "gd_grantId d = sg_grantId g"
    "sg_oneTimePrivateKey g = Some (gd_oneTimePrivateKey d)"
    "db' = db1\<lparr>db_heads := AList.update (az_headId az) s1 (db_heads db1)\<rparr>"
    "if sh_assignment s = None
     then assignGrant env clock (az_headId az) (az_claim az) (az_admissionKey az) ops s g c db = Inr (s1, db1)
     else s1 = s \<and> db1 = db"
proof -
  from assms obtain s1 db1 where
    c: "(case map_of (db_heads db) (az_headId az) of
          None \<Rightarrow> throwE ''grant head changed after claim authorization''
        | Some state \<Rightarrow>
          bindE (checkE (sh_version state = az_headVersion az \<and> sameHead (sh_head state) (az_head az))
                   ''grant head changed after claim authorization'') (\<lambda>_.
          bindE (inspectGrantClaim env state (az_claim az) (clock 0)) (\<lambda>(grant, challenge).
          bindE (if sh_assignment state = None
                 then assignGrant env clock (az_headId az) (az_claim az) (az_admissionKey az) ops state grant challenge db
                 else Inr (state, db)) (\<lambda>(s1, db1).
          case (sh_assignment s1, sg_oneTimePrivateKey grant) of
            (Some assigned, Some privateKey) \<Rightarrow>
              Inr ((s1, \<lparr>gd_grantId = sg_grantId grant, gd_headVersion = sh_version s1,
                     gd_nextGuard = sg_revealedGuard grant, gd_oneTimePublicKey = sg_oneTimePublicKey grant,
                     gd_oneTimePrivateKey = privateKey, gd_expiresAt = sa_expiresAt assigned,
                     gd_deliveryCommittedAt = sa_deliveryCommittedAt assigned\<rparr>), db1)
          | _ \<Rightarrow> throwE ''grant claim does not match a live challenge'')))) = Inr ((s1, d), db1)"
    and db': "db' = db1\<lparr>db_heads := AList.update (az_headId az) s1 (db_heads db1)\<rparr>"
    unfolding commitAuthorizedGrantClaim_def Let_def by (elim mutateE) blast
  then obtain s where s: "map_of (db_heads db) (az_headId az) = Some s"
    by (cases "map_of (db_heads db) (az_headId az)") (auto simp: throwE_def)
  with c obtain g ch sx dbx where *: "inspectGrantClaim env s (az_claim az) (clock 0) = Inr (g, ch)"
    "(if sh_assignment s = None
      then assignGrant env clock (az_headId az) (az_claim az) (az_admissionKey az) ops s g ch db
      else Inr (s, db)) = Inr (sx, dbx)"
    and fin: "(case (sh_assignment sx, sg_oneTimePrivateKey g) of
        (Some assigned, Some privateKey) \<Rightarrow>
          Inr ((sx, \<lparr>gd_grantId = sg_grantId g, gd_headVersion = sh_version sx,
                 gd_nextGuard = sg_revealedGuard g, gd_oneTimePublicKey = sg_oneTimePublicKey g,
                 gd_oneTimePrivateKey = privateKey, gd_expiresAt = sa_expiresAt assigned,
                 gd_deliveryCommittedAt = sa_deliveryCommittedAt assigned\<rparr>), dbx)
      | _ \<Rightarrow> throwE ''grant claim does not match a live challenge'') = Inr ((s1, d), db1)"
    by (auto simp: bindE_Inr)
  have "sx = s1" "dbx = db1" "gd_oneTimePublicKey d = sg_oneTimePublicKey g" "gd_grantId d = sg_grantId g"
    "sg_oneTimePrivateKey g = Some (gd_oneTimePrivateKey d)"
    using fin by (cases "sh_assignment sx"; cases "sg_oneTimePrivateKey g"; auto simp: throwE_def)+
  then show thesis using * that [OF s, of g ch s1 db1] db' by (auto split: if_splits)
qed

lemma first_delivery:
  assumes ok: "keys_ok env db" and s: "map_of (db_heads db) h = Some s"
    and ins: "inspectGrantClaim env s claim now = Inr (g, c)" and new: "sh_assignment s = None"
  shows "sh_phase s = Ready" "undisclosed s = g # drop (sh_nextIndex s + 1) (sh_grants s)"
proof -
  have hk: "head_keys_ok env (map_of (db_seenKeys db)) (map_of (db_deliveries db)) h s" by (rule keys_okD(2) [OF ok s])
  show ready: "sh_phase s = Ready"
    using inspect_Inr(1) [OF ins] hk new by (auto simp: head_keys_ok_def effective_phase_def assignment_ok_def)
  have "sh_nextIndex s < length (sh_grants s)" "g = sh_grants s ! sh_nextIndex s"
    using inspect_Inr(2) [OF ins] by (auto simp: item_def split: if_splits)
  then show "undisclosed s = g # drop (sh_nextIndex s + 1) (sh_grants s)"
    using ready by (simp add: undisclosed_def effective_phase_def Cons_nth_drop_Suc)
qed

lemma fresh_grants_delivered:
  assumes "fresh_grants env seen dels h gs" "\<forall>g \<in> set gs. grant_fp env g \<noteq> record_fp env r"
  shows "fresh_grants env seen (dels(k \<mapsto> r)) h gs"
  using assms unfolding fresh_grants_def by (auto split: if_splits)

lemma keys_delivered:
  assumes ok: "keys_ok env db" and s: "map_of (db_heads db) h = Some s"
    and und: "undisclosed s = g # gs" and r: "dr_oneTimePublicKey r = sg_oneTimePublicKey g"
    and k: "map_of (db_deliveries db) k = None" "k = (dr_headId r, dr_grantId r)" "dr_headId r = h"
  shows "deliveries_ok env (map_of (db_seenKeys db)) ((map_of (db_deliveries db))(k \<mapsto> r))"
    and "fresh_grants env (map_of (db_seenKeys db)) ((map_of (db_deliveries db))(k \<mapsto> r)) h gs"
    and "map_of (db_heads db) h' = Some s' \<Longrightarrow> h' \<noteq> h \<Longrightarrow>
      head_keys_ok env (map_of (db_seenKeys db)) ((map_of (db_deliveries db))(k \<mapsto> r)) h' s'"
proof -
  let ?seen = "map_of (db_seenKeys db)" and ?dels = "map_of (db_deliveries db)"
  have hk: "head_keys_ok env ?seen ?dels h s" and dk: "deliveries_ok env ?seen ?dels"
    using keys_okD [OF ok] s by auto
  then have fr: "fresh_grants env ?seen ?dels h (g # gs)" by (simp add: head_keys_ok_def und)
  then have g: "?seen (grant_fp env g) = Some h" "\<And>k r. ?dels k = Some r \<Longrightarrow> record_fp env r \<noteq> grant_fp env g"
    by (auto simp: fresh_grants_def)
  show "deliveries_ok env ?seen (?dels(k \<mapsto> r))"
    using dk g k r unfolding deliveries_ok_def by (auto split: if_splits) metis+
  show "fresh_grants env ?seen (?dels(k \<mapsto> r)) h gs"
  proof (rule fresh_grants_delivered)
    show "fresh_grants env ?seen ?dels h gs" using fr by (auto simp: fresh_grants_def)
    show "\<forall>x \<in> set gs. grant_fp env x \<noteq> record_fp env r" using fr r by (auto simp: fresh_grants_def) (metis image_eqI)
  qed
  assume s': "map_of (db_heads db) h' = Some s'" "h' \<noteq> h"
  then have hk': "head_keys_ok env ?seen ?dels h' s'" by (intro keys_okD(2) [OF ok])
  then have "\<forall>x \<in> set (undisclosed s'). grant_fp env x \<noteq> record_fp env r"
    using s'(2) g(1) r by (auto simp: head_keys_ok_def fresh_grants_def)
  then have "fresh_grants env ?seen (?dels(k \<mapsto> r)) h' (undisclosed s')"
    using hk' by (auto simp: head_keys_ok_def intro: fresh_grants_delivered)
  moreover have "assignment_ok (?dels(k \<mapsto> r)) h' s'" if "assignment_ok ?dels h' s'"
    using that k s'(2) by (auto simp: assignment_ok_def)
  ultimately show "head_keys_ok env ?seen (?dels(k \<mapsto> r)) h' s'"
    using hk' by (auto simp: head_keys_ok_def)
qed


lemma keys_commit:
  assumes run: "commitAuthorizedGrantClaim env clock az ops db = Inr (d, db')" and ok: "keys_ok env db"
  shows "keys_ok env db'"
proof -
  let ?h = "az_headId az"
  obtain s g c s1 db1 where s: "map_of (db_heads db) ?h = Some s"
    and ins: "inspectGrantClaim env s (az_claim az) (clock 0) = Inr (g, c)"
    and db': "db' = db1\<lparr>db_heads := AList.update ?h s1 (db_heads db1)\<rparr>"
    and eff: "if sh_assignment s = None
     then assignGrant env clock ?h (az_claim az) (az_admissionKey az) ops s g c db = Inr (s1, db1)
     else s1 = s \<and> db1 = db"
    using run by (rule commitE)
  have hk: "head_keys_ok env (map_of (db_seenKeys db)) (map_of (db_deliveries db)) ?h s" by (rule keys_okD(2) [OF ok s])
  show ?thesis
  proof (cases "sh_assignment s")
    case (Some a)
    then show ?thesis unfolding db' using eff hk by (intro keys_ok_update [OF ok]) auto
  next
    case None
    then have "assignGrant env clock ?h (az_claim az) (az_admissionKey az) ops s g c db = Inr (s1, db1)" using eff by simp
    then obtain a op db2 where s1: "s1 = assigned_head s a c"
      and adm: "admitClaimant env (clock 1) (gc_payerPublicKey (az_claim az)) (az_admissionKey az) ops db = Inr (op, db2)"
      and free: "map_of (db_deliveries db2) (?h, sg_grantId g) = None"
      and db1: "db1 = db2\<lparr>db_deliveries := db_deliveries db2 @ [((?h, sg_grantId g), deliveryRecord s1 g c (az_claim az) a)]\<rparr>"
      and a: "sa_grantId a = gc_grantId (az_claim az)" "sa_challengeId a = gc_challengeId (az_claim az)"
        "sa_requestHash a = gc_requestHash (az_claim az)" "sa_payerPublicKey a = gc_payerPublicKey (az_claim az)"
        "sa_quotedAmount a = ch_quotedAmount c" "sa_claimantId a \<noteq> None"
      by (rule assignGrantE) blast
    have db2: "db_heads db2 = db_heads db" "db_seenKeys db2 = db_seenKeys db" "db_deliveries db2 = db_deliveries db"
      using adm by (auto elim: admitClaimant_Inr)
    let ?r = "deliveryRecord s1 g c (az_claim az) a" and ?k = "(?h, sg_grantId g)"
    let ?dels = "(map_of (db_deliveries db))(?k \<mapsto> ?r)"
    have r: "dr_oneTimePublicKey ?r = sg_oneTimePublicKey g" "?k = (dr_headId ?r, dr_grantId ?r)" "dr_headId ?r = ?h"
      using head_keys_id [OF hk] by (auto simp: deliveryRecord_def s1 assigned_head_def)
    note und = first_delivery [OF ok s ins None]
    note del = keys_delivered [OF ok s und(2) r(1) free [unfolded db2] r(2,3)]
    have "assignment_ok ?dels ?h s1"
      using a inspect_Inr(2,3) [OF ins] inspect_Inr(7) [OF ins None]
      by (auto simp: assignment_ok_def s1 assigned_head_def deliveryRecord_def assigned_to_def)
    moreover have "undisclosed s1 = drop (sh_nextIndex s + 1) (sh_grants s)" "effective_phase s1 = Assigned" "sh_headId s1 = ?h"
      using head_keys_id [OF hk] by (simp_all add: undisclosed_def effective_phase_def s1 assigned_head_def)
    ultimately have "head_keys_ok env (map_of (db_seenKeys db)) ?dels ?h s1"
      using del(2) by (simp add: head_keys_ok_def s1 assigned_head_def)
    then show ?thesis
      using del(1,3) free keys_okD(3) [OF ok] unfolding keys_ok_def db' db1
      by (auto simp: db2 update_conv' distinct_update split: if_splits)
  qed
qed

section \<open>Administration\<close>

lemma keys_ok_same:
  assumes "keys_ok env db" "db_heads db' = db_heads db" "db_seenKeys db' = db_seenKeys db" "db_deliveries db' = db_deliveries db"
  shows "keys_ok env db'"
  using assms by (simp add: keys_ok_def)

lemma keys_increase: "increaseStorageLimits l db = Inr (r, db') \<Longrightarrow> keys_ok env db \<Longrightarrow> keys_ok env db'"
  by (auto simp: increaseStorageLimits_def bindE_Inr Let_def elim: keys_ok_same)

lemma keys_map_heads:
  assumes ok: "keys_ok env db" and seen: "map_of (db_seenKeys db) \<subseteq>\<^sub>m map_of (db_seenKeys db1)"
    and db1: "db_heads db1 = db_heads (map_heads f db)" "db_deliveries db1 = db_deliveries db"
    and f: "\<And>seen dels h s. head_keys_ok env seen dels h s \<Longrightarrow> head_keys_ok env seen dels h (f h s)"
  shows "keys_ok env db1"
  unfolding keys_ok_def
proof (intro conjI allI impI)
  show "distinct (map fst (db_heads db1))"
    using keys_okD(3) [OF ok] by (simp add: db1 map_heads_def case_prod_unfold comp_def)
  show "deliveries_ok env (map_of (db_seenKeys db1)) (map_of (db_deliveries db1))"
    using keys_okD(1) [OF ok] seen db1 by (auto intro: deliveries_seen)
  fix h s assume "map_of (db_heads db1) h = Some s"
  then obtain t where t: "map_of (db_heads db) h = Some t" "s = f h t"
    by (auto simp: db1 map_heads_def map_of_map_heads)
  show "head_keys_ok env (map_of (db_seenKeys db1)) (map_of (db_deliveries db1)) h s"
    unfolding t(2) db1(2) by (rule f, rule head_keys_seen [OF keys_okD(2) [OF ok t(1)] seen])
qed

lemma compact_assignment:
  assumes ok: "head_keys_ok env seen dels h s" and retired: "sh_phase s = Retired"
    and some: "sh_assignment (compact_head s) \<noteq> None"
  shows "assignment_ok dels h (compact_head s)"
proof -
  have "sh_assignment (compact_head s) = sh_assignment s" using retired by (simp add: compact_head_def)
  then have "assignment_ok dels h s" using ok some by (simp add: head_keys_ok_def)
  then show ?thesis using retired
    by (auto simp: assignment_ok_def compact_head_def item_def publicRecoveryGrant_def split: if_splits)
qed

lemma keys_compact:
  assumes "compactStorage db = Inr (r, db')" "keys_ok env db"
  shows "keys_ok env db'"
proof -
  have db': "db' = map_heads (\<lambda>_. compact_head) db" using assms(1) by (auto simp: compactStorage_def Let_def bindE_Inr)
  show ?thesis
  proof (rule keys_map_heads [OF assms(2)])
    fix seen dels h s assume ok: "head_keys_ok env seen dels h s"
    show "head_keys_ok env seen dels h (compact_head s)"
    proof (cases "sh_phase s = Retired")
      case True
      then show ?thesis
        using head_keys_id [OF ok] compact_assignment [OF ok True]
        by (intro head_keys_quarantine) (auto simp: compact_head_def effective_phase_def)
    qed (use ok in \<open>simp add: compact_head_def\<close>)
  qed (simp_all add: db' map_heads_def)
qed

lemma migrate_key_le: "migrate_key env h seen k = Inr seen' \<Longrightarrow> map_of seen \<subseteq>\<^sub>m map_of seen'"
  by (auto simp: migrate_key_def bindE_Inr map_le_insert_or_ignore)

lemma foldE_map_le:
  assumes "foldE f (seen :: ('k \<times> 'v) list) xs = Inr seen'"
    and "\<And>s x s'. x \<in> set xs \<Longrightarrow> f s x = Inr s' \<Longrightarrow> map_of s \<subseteq>\<^sub>m map_of s'"
  shows "map_of seen \<subseteq>\<^sub>m map_of seen'"
  using assms
proof (induction xs arbitrary: seen)
  case (Cons x xs)
  then obtain s1 where s1: "f seen x = Inr s1" "foldE f s1 xs = Inr seen'" by (auto simp: bindE_Inr)
  have "map_of s1 \<subseteq>\<^sub>m map_of seen'" using s1(2) Cons.prems(2) by (intro Cons.IH) auto
  then show ?case using Cons.prems(2) [of x seen s1] s1(1) by (auto intro: map_le_trans)
qed simp

lemma keys_migrate:
  assumes "migrateLegacyGrantKeys env db = Inr db'" "keys_ok env db"
  shows "keys_ok env db'"
proof -
  obtain seen1 seen2 where a: "foldE (\<lambda>seen (h, s). foldE (migrate_key env h) seen (head_keys s)) (db_seenKeys db) (db_heads db) = Inr seen1"
    and b: "foldE (\<lambda>seen ((h, g), r). migrate_key env h seen (''delivered one-time key'', dr_oneTimePublicKey r)) seen1 (db_deliveries db) = Inr seen2"
    and db': "db' = (map_heads (\<lambda>_. migrate_head_keys) db)\<lparr>db_seenKeys := seen2, db_schemaVersion := 1\<rparr>"
    using assms(1) by (auto simp: migrateLegacyGrantKeys_def bindE_Inr)
  have "map_of (db_seenKeys db) \<subseteq>\<^sub>m map_of seen1" by (rule foldE_map_le [OF a]) (auto intro: foldE_map_le migrate_key_le)
  moreover have "map_of seen1 \<subseteq>\<^sub>m map_of seen2" by (rule foldE_map_le [OF b]) (auto intro: migrate_key_le)
  ultimately have le: "map_of (db_seenKeys db) \<subseteq>\<^sub>m map_of seen2" by (rule map_le_trans)
  show ?thesis
  proof (rule keys_map_heads [OF assms(2)])
    show "map_of (db_seenKeys db) \<subseteq>\<^sub>m map_of (db_seenKeys db')" using le by (simp add: db')
    fix seen dels h s assume ok: "head_keys_ok env seen dels h s"
    show "head_keys_ok env seen dels h (migrate_head_keys s)"
      by (rule head_keys_move [OF ok]) (auto simp: migrate_head_keys_def Let_def effective_phase_def)
  qed (simp_all add: db' map_heads_def)
qed

lemma keys_migrateQuoted:
  assumes "keys_ok env db"
  shows "keys_ok env (migrateQuotedGrants db)"
proof (rule keys_map_heads [OF assms])
  let ?f = "\<lambda>(_ :: string) s. if sh_phase s = Ready then s\<lparr>sh_challenges := []\<rparr> else s"
  show "db_heads (migrateQuotedGrants db) = db_heads (map_heads ?f db)" by (simp add: migrateQuotedGrants_def map_heads_def)
  fix seen dels h s assume ok: "head_keys_ok env seen dels h s"
  show "head_keys_ok env seen dels h (?f h s)" by (rule head_keys_cong [OF ok]) (auto simp: effective_phase_def)
qed (simp_all add: migrateQuotedGrants_def map_heads_def)

lemma migrate_assignment_frame:
  assumes "migrate_assignment env d (h, s) = Inr d'"
  shows "\<exists>l a. d' = d\<lparr>db_legacy := l, db_admissions := a\<rparr>"
proof -
  have id: "\<exists>l a. d = d\<lparr>db_legacy := l, db_admissions := a\<rparr>"
    by (intro exI [of _ "db_legacy d"] exI [of _ "db_admissions d"]) simp
  have one: "\<exists>l a. d\<lparr>db_legacy := x\<rparr> = d\<lparr>db_legacy := l, db_admissions := a\<rparr>" for x
    by (intro exI [of _ x] exI [of _ "db_admissions d"]) simp
  show ?thesis
  proof (cases "sh_assignment s")
    case (Some a)
    show ?thesis
    proof (cases "find (\<lambda>c. ch_challengeId c = sa_challengeId a) (sh_challenges s)")
      case None
      then show ?thesis using assms Some id one
        by (auto simp: migrate_assignment_def bindE_Inr Let_def split: if_splits)
    next
      case (Some c)
      then show ?thesis using assms \<open>sh_assignment s = Some a\<close> id
        by (cases "iv_dateParse env (sa_deliveryCommittedAt a)")
          (auto simp: migrate_assignment_def bindE_Inr Let_def throwE_def split: if_splits)
    qed
  qed (use assms id in \<open>auto simp: migrate_assignment_def\<close>)
qed

lemma migrate_admissions_frame:
  assumes "migrateLegacyGrantAdmissions env db = Inr db'"
  shows "db_heads db' = db_heads db \<and> db_seenKeys db' = db_seenKeys db \<and> db_deliveries db' = db_deliveries db
    \<and> db_payments db' = db_payments db \<and> db_limits db' = db_limits db \<and> db_meta db' = db_meta db"
proof -
  let ?P = "\<lambda>d. db_heads d = db_heads db \<and> db_seenKeys d = db_seenKeys db \<and> db_deliveries d = db_deliveries db
    \<and> db_payments d = db_payments db \<and> db_limits d = db_limits db \<and> db_meta d = db_meta db"
  have as: "?P d'" if "?P d" "migrate_assignment env d row = Inr d'" for d d' row
    using that migrate_assignment_frame [of env d "fst row" "snd row" d'] by auto
  have de: "?P d'" if "?P d" "migrate_delivery env d row = Inr d'" for d d' row
    using that by (auto simp: migrate_delivery_def bindE_Inr Let_def split: if_split_asm)
  obtain db1 where 1: "foldE (migrate_assignment env) db (db_heads db) = Inr db1"
    and 2: "foldE (migrate_delivery env) db1 (db_deliveries db) = Inr db'"
    using assms by (auto simp: migrateLegacyGrantAdmissions_def bindE_Inr)
  have "?P db1" by (rule foldE_inv [OF 1, of ?P]) (use as in blast)+
  then show ?thesis by (rule foldE_inv [OF 2, of ?P]) (use de in blast)
qed

lemma openE:
  assumes "fromStorage env l db = Inr (r, db')"
  obtains db3 db4 limits where "keys_ok env db \<longrightarrow> keys_ok env db3" "migrateLegacyGrantAdmissions env db3 = Inr db4"
    "db' = db4\<lparr>db_limits := Some limits\<rparr>" "\<exists>reserve u. check_capacity db' reserve = Inr u"
    "db_deliveries db3 = db_deliveries db" "db_payments db3 = db_payments db" "db_admissions db3 = db_admissions db"
proof -
  obtain db2 db3 db4 limits u where
    2: "(if db_schemaVersion db = 0 then migrateLegacyGrantKeys env (db\<lparr>db_meta := True\<rparr>) else Inr (db\<lparr>db_meta := True\<rparr>)) = Inr db2"
    and 3: "db3 = (if db_schemaVersion db \<noteq> 2 then migrateQuotedGrants db2 else db2)"
    and 4: "migrateLegacyGrantAdmissions env db3 = Inr db4" "db' = db4\<lparr>db_limits := Some limits\<rparr>"
      "check_capacity db' (db_limits db = None) = Inr u"
    using assms by (auto simp: fromStorage_def bindE_Inr Let_def)
  have frame: "db_deliveries db3 = db_deliveries db" "db_payments db3 = db_payments db" "db_admissions db3 = db_admissions db"
    using 2 3 by (auto simp: migrateLegacyGrantKeys_def bindE_Inr migrateQuotedGrants_def map_heads_def split: if_splits)
  have "keys_ok env db3" if ok: "keys_ok env db"
  proof -
    have "keys_ok env (db\<lparr>db_meta := True\<rparr>)" by (rule keys_ok_same [OF ok]) simp_all
    then have "keys_ok env db2" using 2 by (auto split: if_splits intro: keys_migrate)
    then show ?thesis using 3 keys_migrateQuoted by auto
  qed
  then show thesis using that 4 frame by blast
qed

lemma keys_open:
  assumes "fromStorage env l db = Inr (r, db')" "keys_ok env db"
  shows "keys_ok env db'"
proof -
  obtain db3 db4 limits where "keys_ok env db \<longrightarrow> keys_ok env db3" "migrateLegacyGrantAdmissions env db3 = Inr db4"
    "db' = db4\<lparr>db_limits := Some limits\<rparr>"
    using assms(1) by (rule openE)
  then show ?thesis using assms(2) migrate_admissions_frame [of env db3 db4] by (auto intro: keys_ok_same [of env db3])
qed

lemma keys_run: "keys_ok env db \<Longrightarrow> issuer_run env db call = Inr db' \<Longrightarrow> keys_ok env db'"
  by (cases call)
    (auto simp: after_call_Inr intro: keys_open keys_increase keys_compact keys_install keys_getCurrent keys_issueChallenge
      keys_commit keys_pin keys_abandon keys_recordBorrow keys_recordPayment keys_recordRotation keys_sweep
      keys_holdForReorg keys_reconcile)

end
