(* ===== verification/Issuer_Safety.thy ===== *)
theory Issuer_Safety
  imports Issuer_Keys
begin

text \<open>
  What a run of the grant issuer guarantees, from a new database on: a one-time key is delivered to
  one payer for one request, every accepted payment belongs to a delivery and pays its quote, no
  claimant exceeds the quota in any window, and the store stays within its limits.
\<close>

section \<open>What a call writes\<close>

definition ledger :: "issuer_db \<Rightarrow> ((string \<times> string) \<times> delivery_record) list
    \<times> (string \<times> accepted_payment) list \<times> (string \<times> admission_row) list" where
  "ledger db = (db_deliveries db, db_payments db, db_admissions db)"

lemma ledger_mutate:
  assumes "mutate env mode h change db = Inr (r, db')"
    and "\<And>nxt db1. change (map_of (db_heads db) h) db = Inr ((nxt, r), db1) \<Longrightarrow> ledger db1 = ledger db"
  shows "ledger db' = ledger db"
  using assms(1) by (rule mutateE) (use assms(2) in \<open>auto simp: ledger_def\<close>)

lemma ledger_keys [simp]: "ledger (db\<lparr>db_seenKeys := seen\<rparr>) = ledger db"
  "ledger (db\<lparr>db_heads := heads\<rparr>) = ledger db"
  by (simp_all add: ledger_def)

lemma ledger_getCurrent: "getCurrent env clock h db = Inr (r, db') \<Longrightarrow> ledger db' = ledger db"
  by (auto simp: getCurrent_def bindE_Inr hc_hex32_Inr Let_def throwE_def split: if_split_asm option.splits
      elim!: ledger_mutate)

lemma ledger_install: "installHead env ids input m db = Inr (r, db') \<Longrightarrow> ledger db' = ledger db"
  by (auto simp: installHead_def bindE_Inr hc_hex32_Inr Let_def checkE_Inr split: prod.splits
      elim!: ledger_mutate)

lemma ledger_issue: "issueAdmittedChallenge env now c h q l a k db = Inr (r, db') \<Longrightarrow> ledger db' = ledger db"
  by (auto simp: issueAdmittedChallenge_def bindE_Inr hc_hex32_Inr Let_def checkE_Inr throwE_def split: option.splits
      elim!: ledger_mutate)

lemma ledger_pin: "pinPaymentCandidate env n db = Inr (r, db') \<Longrightarrow> ledger db' = ledger db"
  by (auto simp: pinPaymentCandidate_def bindE_Inr hc_hex32_Inr checkE_Inr throwE_def split: option.splits
      elim!: ledger_mutate)

lemma ledger_abandon: "markAbandoned env now h db = Inr (r, db') \<Longrightarrow> ledger db' = ledger db"
  by (auto simp: markAbandoned_def bindE_Inr hc_hex32_Inr Let_def throwE_def split: option.splits if_splits
      elim!: ledger_mutate)

lemma ledger_hold: "holdForReorg env h db = Inr (r, db') \<Longrightarrow> ledger db' = ledger db"
  by (auto simp: holdForReorg_def bindE_Inr hc_hex32_Inr Let_def throwE_def split: option.splits
      elim!: ledger_mutate)

lemma ledger_sweep: "recordAcceptedSweep env h sw db = Inr (r, db') \<Longrightarrow> ledger db' = ledger db"
  by (auto simp: recordAcceptedSweep_def bindE_Inr hc_hex32_Inr Let_def throwE_def checkE_Inr split: option.splits
      elim!: ledger_mutate)

lemma ledger_reconcile: "reconcileObservedHead env h o' db = Inr (r, db') \<Longrightarrow> ledger db' = ledger db"
  by (auto simp: reconcileObservedHead_def bindE_Inr hc_hex32_Inr throwE_def checkE_Inr split: option.splits
      elim!: ledger_mutate)

definition paid_by :: "string \<Rightarrow> accepted_payment \<Rightarrow> issuer_db \<Rightarrow> issuer_db \<Rightarrow> bool" where
  \<comment> \<open>the payment is new, and consumes the grant that the head has assigned\<close>
  "paid_by h p db db' \<longleftrightarrow> (\<exists>s g after. map_of (db_heads db) h = Some s \<and> item (sh_grants s) (sh_nextIndex s) = Some g
     \<and> exact_payment h s g after p db \<and> map_of (db_payments db) (ap_transactionId p) = None
     \<and> ap_grantId p \<notin> set (map (\<lambda>(_, q). ap_grantId q) (db_payments db))
     \<and> ledger db' = (db_deliveries db, db_payments db @ [(ap_transactionId p, p)], db_admissions db))"

lemma ledger_advance:
  assumes run: "advance env ids h tr kind repl pay rec db = Inr (r, db')" and kind: "kind = Borrow \<longrightarrow> \<not> rec"
  shows "case pay of None \<Rightarrow> ledger db' = ledger db | Some p \<Rightarrow> kind = Borrow \<longrightarrow> paid_by h p db db'"
proof -
  obtain s after gs safe db1 where s: "map_of (db_heads db) h = Some s"
    and eff: "if kind = Borrow then borrow_effect h s after pay db = Inr db1
     else rotate_effect env ids h s after repl db = Inr ((gs, safe), db1)"
    and db': "db' = db1\<lparr>db_heads := AList.update h (advanced_head kind rec s after gs safe) (db_heads db1)\<rparr>"
    using advance_effect [OF run kind] by metis
  show ?thesis
  proof (cases kind)
    case Borrow
    then have "borrow_effect h s after pay db = Inr db1" using eff by simp
    then show ?thesis
      by (rule borrow_effectE) (use s in \<open>auto simp: db' ledger_def paid_by_def split: option.splits\<close>)
  next
    case Rotate
    then have "rotate_effect env ids h s after repl db = Inr ((gs, safe), db1)" using eff by simp
    then show ?thesis
      by (rule rotate_effectE) (use Rotate in \<open>auto simp: db' split: option.splits\<close>)
  qed
qed

lemma ledger_borrow: "recordAcceptedBorrow env h t db = Inr (r, db') \<Longrightarrow> ledger db' = ledger db"
  using ledger_advance [of env _ h t Borrow "[]" None False db r db'] by (simp add: recordAcceptedBorrow_def)

lemma ledger_rotation: "recordAcceptedRotation env ids ids' h t gs db = Inr (r, db') \<Longrightarrow> ledger db' = ledger db"
  using ledger_advance [of env _ h t Rotate gs None _ db r db']
  by (auto simp: recordAcceptedRotation_def split: sum.splits if_splits)

lemma ledger_payment:
  assumes "recordAcceptedPayment env clock h t p db = Inr (r, db')"
  shows "ledger db' = ledger db \<or> paid_by h p db db'"
  using assms ledger_advance [of env _ h t Borrow "[]" "Some p" False db r db'] ledger_getCurrent
  by (auto simp: recordAcceptedPayment_def bindE_Inr hc_hex32_Inr split: option.splits)

definition delivered_by :: "issuer_env \<Rightarrow> issuer_call \<Rightarrow> issuer_db \<Rightarrow> issuer_db \<Rightarrow> bool" where
  \<comment> \<open>the call delivers a grant for the first time\<close>
  "delivered_by env call db db' \<longleftrightarrow> (\<exists>clock az ops s g c s1 db1. call = Commit clock az ops
     \<and> map_of (db_heads db) (az_headId az) = Some s \<and> inspectGrantClaim env s (az_claim az) (clock 0) = Inr (g, c)
     \<and> assignGrant env clock (az_headId az) (az_claim az) (az_admissionKey az) ops s g c db = Inr (s1, db1)
     \<and> ledger db' = ledger db1)"

lemma ledger_commit:
  assumes "commitAuthorizedGrantClaim env clock az ops db = Inr (d, db')"
  shows "ledger db' = ledger db \<or> delivered_by env (Commit clock az ops) db db'"
  using assms by (rule commitE) (auto simp: delivered_by_def split: if_splits)

lemma issuer_ledger_open:
  assumes "fromStorage env l db = Inr (r, db')"
  shows "db_deliveries db' = db_deliveries db \<and> db_payments db' = db_payments db"
  using assms by (rule openE) (auto dest!: migrate_admissions_frame)

lemma ledger_cases:
  assumes "issuer_run env db call = Inr db'"
  obtains (same) "ledger db' = ledger db"
    | (opened) l where "call = Open l" "fromStorage env l db = Inr ((), db')"
    | (delivered) "delivered_by env call db db'"
    | (paid) h p where "paid_by h p db db'"
proof -
  have "ledger db' = ledger db \<or> (\<exists>l. call = Open l \<and> fromStorage env l db = Inr ((), db'))
     \<or> delivered_by env call db db' \<or> (\<exists>h p. paid_by h p db db')"
    using assms
    by (cases call)
      (auto simp: after_call_Inr increaseStorageLimits_def compactStorage_def map_heads_def bindE_Inr Let_def ledger_def
        dest: ledger_install ledger_getCurrent ledger_issue ledger_commit ledger_pin ledger_abandon ledger_borrow
          ledger_payment ledger_rotation ledger_sweep ledger_hold ledger_reconcile)
  then show thesis using that by blast
qed

section \<open>The invariant of a run\<close>

definition payment_backed :: "(string \<times> string \<Rightarrow> delivery_record option) \<Rightarrow> accepted_payment \<Rightarrow> bool" where
  \<comment> \<open>the grant of the payment was delivered to its payer, for its request and challenge, at its amount\<close>
  "payment_backed dels p \<longleftrightarrow> (\<exists>h r. dels (h, ap_grantId p) = Some r \<and> dr_payerPublicKey r = ap_payerPublicKey p
     \<and> dr_requestHash r = ap_requestHash p \<and> dr_challengeId r = ap_challengeId p
     \<and> dr_quotedAmount r = Some (ap_amount p))"

definition payments_ok :: "issuer_db \<Rightarrow> bool" where
  "payments_ok db \<longleftrightarrow>
     list_all (\<lambda>(_, p). payment_backed (map_of (db_deliveries db)) p) (db_payments db)
     \<and> distinct (map (\<lambda>(_, p). ap_grantId p) (db_payments db))"

definition window_admissions :: "issuer_env \<Rightarrow> (admission_row \<Rightarrow> string) \<Rightarrow> string \<Rightarrow> int \<Rightarrow> issuer_db \<Rightarrow> nat" where
  \<comment> \<open>the admissions of one fingerprint in the window that starts at the time\<close>
  "window_admissions env field fingerprint start db =
     length (filter (\<lambda>(_, a). field a = fingerprint \<and> start \<le> ad_disclosedAt a
       \<and> ad_disclosedAt a \<le> start + iv_windowSeconds env * 1000) (db_admissions db))"

definition quota_ok :: "issuer_env \<Rightarrow> issuer_db \<Rightarrow> bool" where
  "quota_ok env db \<longleftrightarrow> (\<forall>f start. window_admissions env ad_claimant f start db \<le> iv_maxGrantsPerClaimant env
     \<and> window_admissions env ad_admission f start db \<le> iv_maxGrantsPerClaimant env)"

definition limits_ok :: "issuer_db \<Rightarrow> bool" where
  "limits_ok db \<longleftrightarrow> (\<forall>l. db_limits db = Some l \<longrightarrow>
     int (used_records db) \<le> num_int (sl_maxRecords l) \<and> int (used_bytes db) \<le> num_int (sl_maxBytes l))"

definition issuer_ok :: "issuer_env \<Rightarrow> issuer_db \<Rightarrow> bool" where
  "issuer_ok env db \<longleftrightarrow> keys_ok env db \<and> payments_ok db \<and> quota_ok env db \<and> limits_ok db"

definition issuer_below :: "issuer_db \<Rightarrow> issuer_db \<Rightarrow> bool" where
  "issuer_below db db' \<longleftrightarrow> map_of (db_deliveries db) \<subseteq>\<^sub>m map_of (db_deliveries db')
     \<and> map_of (db_payments db) \<subseteq>\<^sub>m map_of (db_payments db')"

lemma delivered_rows:
  assumes "delivered_by env call db db'"
  obtains k r f now payer adm where "map_of (db_deliveries db) k = None" "db_deliveries db' = db_deliveries db @ [(k, r)]"
    "db_payments db' = db_payments db"
    "db_admissions db' = db_admissions db @ [(f, \<lparr>ad_claimant = textFingerprint env (''claimant:'' @ payer),
       ad_admission = textFingerprint env (''admission:'' @ adm), ad_disclosedAt = now\<rparr>)]"
    "count_admissions ad_claimant (textFingerprint env (''claimant:'' @ payer)) (now - iv_windowSeconds env * 1000)
       (db_admissions db) < iv_maxGrantsPerClaimant env"
    "count_admissions ad_admission (textFingerprint env (''admission:'' @ adm)) (now - iv_windowSeconds env * 1000)
       (db_admissions db) < iv_maxGrantsPerClaimant env"
proof -
  obtain clock and az :: authorized_claim and ops s g c s1 db1
    where run: "assignGrant env clock (az_headId az) (az_claim az) (az_admissionKey az) ops s g c db = Inr (s1, db1)"
      and db': "ledger db' = ledger db1"
    using assms unfolding delivered_by_def by blast
  from run obtain a op db2
    where adm: "admitClaimant env (clock 1) (gc_payerPublicKey (az_claim az)) (az_admissionKey az) ops db = Inr (op, db2)"
      and del: "map_of (db_deliveries db2) (az_headId az, sg_grantId g) = None"
        "db1 = db2\<lparr>db_deliveries := db_deliveries db2 @ [((az_headId az, sg_grantId g), deliveryRecord s1 g c (az_claim az) a)]\<rparr>"
    by (rule assignGrantE)
  show thesis
    using adm by (rule admitClaimant_Inr) (rule that, use db' del in \<open>auto simp: ledger_def\<close>)
qed

lemma issuer_run_below:
  assumes "issuer_run env db call = Inr db'"
  shows "issuer_below db db'"
  using assms
proof (cases rule: ledger_cases)
  case (opened l)
  then show ?thesis by (auto simp: issuer_below_def dest: issuer_ledger_open)
next
  case delivered
  then show ?thesis by (rule delivered_rows) (simp add: issuer_below_def)
qed (auto simp: issuer_below_def ledger_def paid_by_def)

lemma paid_delivery:
  assumes ok: "keys_ok env db" and paid: "paid_by h p db db'"
  shows "payment_backed (map_of (db_deliveries db)) p"
proof -
  obtain s g after where s: "map_of (db_heads db) h = Some s" "item (sh_grants s) (sh_nextIndex s) = Some g"
    and pay: "exact_payment h s g after p db"
    using paid by (auto simp: paid_by_def)
  then obtain a r where a: "sh_assignment s = Some a" and r: "map_of (db_deliveries db) (h, ap_grantId p) = Some r"
    and eq: "sg_grantId g = ap_grantId p" "sa_challengeId a = ap_challengeId p" "sa_requestHash a = ap_requestHash p"
      "sa_payerPublicKey a = ap_payerPublicKey p" "falsy (sa_quotedAmount a) \<or> sa_quotedAmount a = Some (ap_amount p)"
    by (auto simp: exact_payment_def split: option.splits)
  have "assignment_ok (map_of (db_deliveries db)) h s"
    using keys_okD(2) [OF ok s(1)] a by (simp add: head_keys_ok_def)
  then show ?thesis using a r eq s(2) by (auto simp: payment_backed_def assignment_ok_def assigned_to_def)
qed

lemma backed_mono: "payment_backed dels p \<Longrightarrow> dels \<subseteq>\<^sub>m dels' \<Longrightarrow> payment_backed dels' p"
  unfolding payment_backed_def by (metis map_le_SomeD)

lemma payments_run:
  assumes run: "issuer_run env db call = Inr db'" and ok: "keys_ok env db" "payments_ok db"
  shows "payments_ok db'"
  using run
proof (cases rule: ledger_cases)
  case (paid h p)
  then show ?thesis
    using ok(2) paid_delivery [OF ok(1) paid] by (auto simp: paid_by_def ledger_def payments_ok_def)
next
  case (opened l)
  then show ?thesis using ok(2) issuer_ledger_open [of env l db "()" db'] by (simp add: payments_ok_def)
next
  case delivered
  have le: "map_of (db_deliveries db) \<subseteq>\<^sub>m map_of (db_deliveries db')" using issuer_run_below [OF run] by (simp add: issuer_below_def)
  have "db_payments db' = db_payments db" using delivered by (rule delivered_rows)
  then show ?thesis using ok(2) backed_mono [OF _ le] by (auto simp: payments_ok_def list_all_iff)
qed (use ok in \<open>simp add: payments_ok_def ledger_def\<close>)

lemma foldE_id: "(\<And>x. x \<in> set xs \<Longrightarrow> f s x = Inr s) \<Longrightarrow> foldE f s xs = Inr s"
  by (induction xs) (auto simp: bindE_def)

lemma open_admissions:
  assumes run: "fromStorage env l db = Inr (r, db')" and ok: "keys_ok env db"
  shows "db_admissions db' = db_admissions db"
  using run
proof (rule openE)
  fix db3 db4 limits
  assume *: "keys_ok env db \<longrightarrow> keys_ok env db3" "migrateLegacyGrantAdmissions env db3 = Inr db4"
    "db' = db4\<lparr>db_limits := Some limits\<rparr>" "db_admissions db3 = db_admissions db"
  then have ok3: "keys_ok env db3" using ok by simp
  have row: "migrate_assignment env db3 (h, s) = Inr db3" if "(h, s) \<in> set (db_heads db3)" for h s
  proof -
    have "map_of (db_heads db3) h = Some s" using that keys_okD(3) [OF ok3] by simp
    then show ?thesis
      using keys_okD(2) [OF ok3, of h s]
      by (auto simp: migrate_assignment_def head_keys_ok_def assignment_ok_def assigned_to_def split: option.splits)
  qed
  have "foldE (migrate_assignment env) db3 (db_heads db3) = Inr db3" by (rule foldE_id) (use row in force)
  then have fold: "foldE (migrate_delivery env) db3 (db_deliveries db3) = Inr db4"
    using *(2) by (simp add: migrateLegacyGrantAdmissions_def)
  have "db_admissions db4 = db_admissions db3"
    by (rule foldE_inv [OF fold, of "\<lambda>d. db_admissions d = db_admissions db3"])
      (auto simp: migrate_delivery_def bindE_Inr Let_def split: if_split_asm)
  then show ?thesis using * by simp
qed

lemma length_filter_imp: "(\<And>x. P x \<Longrightarrow> Q x) \<Longrightarrow> length (filter P xs) \<le> length (filter Q xs)"
  by (induction xs) (auto intro: le_SucI)

lemma window_admit:
  assumes "db_admissions db' = db_admissions db @ [(f, a)]"
    and "count_admissions field (field a) (ad_disclosedAt a - iv_windowSeconds env * 1000) (db_admissions db) < n"
    and "window_admissions env field fp start db \<le> n"
  shows "window_admissions env field fp start db' \<le> n"
proof (cases "field a = fp \<and> start \<le> ad_disclosedAt a \<and> ad_disclosedAt a \<le> start + iv_windowSeconds env * 1000")
  case True
  have "window_admissions env field fp start db
      \<le> count_admissions field (field a) (ad_disclosedAt a - iv_windowSeconds env * 1000) (db_admissions db)"
    unfolding window_admissions_def count_admissions_def
    by (rule length_filter_imp) (use True in auto)
  then show ?thesis using assms(1,2) True by (simp add: window_admissions_def)
next
  case False
  then show ?thesis using assms(1,3) by (auto simp: window_admissions_def)
qed

lemma quota_run:
  assumes run: "issuer_run env db call = Inr db'" and ok: "keys_ok env db" "quota_ok env db"
  shows "quota_ok env db'"
  using run
proof (cases rule: ledger_cases)
  case (opened l)
  then show ?thesis using ok open_admissions [of env l db "()" db'] by (simp add: quota_ok_def window_admissions_def)
next
  case delivered
  then show ?thesis
    by (rule delivered_rows) (use ok(2) in \<open>auto simp: quota_ok_def elim!: window_admit\<close>)
qed (use ok(2) in \<open>auto simp: quota_ok_def window_admissions_def ledger_def paid_by_def\<close>)

lemma limits_checked:
  assumes "check_capacity db reserve = Inr u"
  shows "limits_ok db"
proof -
  have "int (used_records db) \<le> num_int (sl_maxRecords l) \<and> int (used_bytes db) \<le> num_int (sl_maxBytes l)"
    if "db_limits db = Some l" for l
    using assms that zero_le_mult_iff [of "int (length (db_heads db))" "int RECOVERY_RECORDS_PER_HEAD"]
      zero_le_mult_iff [of "int (length (db_heads db))" "int RECOVERY_BYTES_PER_HEAD"]
    by (auto simp: check_capacity_def storageUsage_def readStorageLimits_def assertStorageCapacity_def
        bindE_Inr Let_def split: if_splits)
  then show ?thesis by (simp add: limits_ok_def)
qed

lemma limits_mutate: "mutate env mode h change db = Inr (r, db') \<Longrightarrow> limits_ok db'"
  by (erule mutateE) (auto intro: limits_checked)

lemma limits_getCurrent: "getCurrent env clock h db = Inr (r, db') \<Longrightarrow> limits_ok db \<Longrightarrow> limits_ok db'"
  by (auto simp: getCurrent_def bindE_Inr split: if_split_asm intro: limits_mutate)

lemma limits_advance: "advance env ids h tr kind repl pay rec db = Inr (r, db') \<Longrightarrow> limits_ok db'"
  by (auto simp: advance_def bindE_Inr intro: limits_mutate)

lemma limits_run:
  assumes "issuer_run env db call = Inr db'" "limits_ok db"
  shows "limits_ok db'"
proof (cases call)
  case (Open l)
  then obtain r where "fromStorage env l db = Inr (r, db')" using assms by (auto simp: after_call_Inr)
  then show ?thesis by (rule openE) (auto intro: limits_checked)
next
  case (Paid clock h t p)
  then show ?thesis
    using assms by (auto simp: after_call_Inr recordAcceptedPayment_def bindE_Inr split: option.splits
        intro: limits_getCurrent limits_advance)
next
  case (Rotated ids ids' h t gs)
  then show ?thesis
    using assms by (auto simp: after_call_Inr recordAcceptedRotation_def split: sum.splits if_splits intro: limits_advance)
qed (use assms in \<open>auto simp: after_call_Inr increaseStorageLimits_def compactStorage_def installHead_def
      issueAdmittedChallenge_def commitAuthorizedGrantClaim_def pinPaymentCandidate_def markAbandoned_def
      recordAcceptedBorrow_def recordAcceptedSweep_def holdForReorg_def reconcileObservedHead_def bindE_Inr Let_def
    intro: limits_checked limits_mutate limits_advance limits_getCurrent\<close>)

lemma issuer_ok_run: "issuer_ok env db \<Longrightarrow> issuer_run env db call = Inr db' \<Longrightarrow> issuer_ok env db'"
  by (auto simp: issuer_ok_def intro: keys_run payments_run quota_run limits_run)

interpretation issuer: monotone_machine "issuer_run env" "issuer_ok env" issuer_below for env
proof unfold_locales
  show "issuer_below db db''" if "issuer_below db db'" "issuer_below db' db''" for db db' db''
    using that by (auto simp: issuer_below_def intro: map_le_trans)
qed (auto intro: issuer_ok_run issuer_run_below, simp add: issuer_below_def)

section \<open>Runs from a new database\<close>

definition new_db :: issuer_db where
  "new_db = \<lparr>db_schemaVersion = 0, db_heads = [], db_deliveries = [], db_payments = [], db_seenKeys = [],
     db_admissions = [], db_legacy = [], db_meta = False, db_limits = None\<rparr>"

definition issuer_reached :: "issuer_env \<Rightarrow> issuer_call list \<Rightarrow> issuer_db" where
  "issuer_reached env calls = run_cmds (issuer_run env) new_db calls"

lemma new_db_ok: "issuer_ok env new_db"
  by (simp add: issuer_ok_def keys_ok_def deliveries_ok_def payments_ok_def quota_ok_def window_admissions_def limits_ok_def new_db_def)

lemma reached_ok: "issuer_ok env (issuer_reached env calls)"
  unfolding issuer_reached_def by (rule issuer.run_inv) (rule new_db_ok)

text \<open>The methods of several transactions are runs: they reach nothing that calls could not reach.\<close>

definition issuer_path :: "issuer_env \<Rightarrow> issuer_db \<Rightarrow> issuer_db \<Rightarrow> bool" where
  "issuer_path env db db' \<longleftrightarrow> (\<exists>calls. db' = run_cmds (issuer_run env) db calls)"

lemma path_finish [simp]: "issuer_path env db (snd (finish r db))"
  by (auto simp: issuer_path_def finish_def intro: exI [of _ "[]"])

lemma path_andThen:
  assumes "after_call (t db) = issuer_run env db call" and "\<And>x db1. issuer_path env db1 (snd (rest x db1))"
  shows "issuer_path env db (snd (andThen t rest db))"
proof (cases "t db")
  case (Inl e)
  then show ?thesis by (auto simp: andThen_def issuer_path_def intro: exI [of _ "[]"])
next
  case (Inr r)
  obtain x db1 where r: "r = (x, db1)" by fastforce
  obtain calls where "snd (rest x db1) = run_cmds (issuer_run env) db1 calls" using assms(2) by (auto simp: issuer_path_def)
  moreover have "issuer_run env db call = Inr db1" using assms(1) [symmetric] Inr r by (simp add: after_call_def bindE_def)
  ultimately show ?thesis using Inr r by (auto simp: andThen_def issuer_path_def intro: exI [of _ "call # calls"])
qed

lemma path_transactions:
  assumes "\<And>x db1. issuer_path env db1 (snd (rest x db1))"
  shows "issuer_path env db (snd (andThen (getCurrent env clock h) rest db))"
    and "issuer_path env db (snd (andThen (holdForReorg env h) rest db))"
    and "issuer_path env db (snd (andThen (recordAcceptedBorrow env h t) rest db))"
    and "issuer_path env db (snd (andThen (recordAcceptedRotation env ids ids' h t gs) rest db))"
  using path_andThen [OF _ assms, of "getCurrent env clock h" db "Current clock h"]
    path_andThen [OF _ assms, of "holdForReorg env h" db "HoldHead h"]
    path_andThen [OF _ assms, of "recordAcceptedBorrow env h t" db "Borrowed h t"]
    path_andThen [OF _ assms, of "recordAcceptedRotation env ids ids' h t gs" db "Rotated ids ids' h t gs"]
  by simp_all

lemma path_observe: "issuer_path env db (snd (observeGrantClaim env clock az observed db))"
  unfolding observeGrantClaim_def by (auto intro!: path_transactions)

lemma path_recoverBorrow: "issuer_path env db (snd (recoverSelectedUnmatchedBorrow env clock txid current selected db))"
  unfolding recoverSelectedUnmatchedBorrow_def Let_def
  by (auto split: sum.splits option.splits intro!: path_transactions)

lemma path_recoverRotation:
  "issuer_path env db (snd (recoverOwnerRotationAfterSelectedObservation env clock ids ids' txid current grants selected db))"
  unfolding recoverOwnerRotationAfterSelectedObservation_def Let_def
  by (auto split: sum.splits option.splits intro!: path_transactions)

lemma path_list_heads: "issuer_path env db (snd (list_heads env clock hs listed db))"
  by (induction hs arbitrary: clock listed db) (auto intro: path_transactions)

lemma path_listHeads: "issuer_path env db (snd (listHeads env clock db))"
  by (simp add: listHeads_def path_list_heads)

lemma path_ok: "issuer_path env db db' \<Longrightarrow> issuer_ok env db \<Longrightarrow> issuer_ok env db'"
  by (auto simp: issuer_path_def intro: issuer.run_inv)

section \<open>What is disclosed\<close>

definition delivered_to :: "issuer_db \<Rightarrow> authorized_claim \<Rightarrow> grant_delivery \<Rightarrow> bool" where
  \<comment> \<open>the delivery has its durable record\<close>
  "delivered_to db az d \<longleftrightarrow> (\<exists>r. map_of (db_deliveries db) (az_headId az, gd_grantId d) = Some r
     \<and> dr_oneTimePublicKey r = gd_oneTimePublicKey d \<and> dr_payerPublicKey r = gc_payerPublicKey (az_claim az)
     \<and> dr_requestHash r = gc_requestHash (az_claim az) \<and> dr_challengeId r = gc_challengeId (az_claim az))"

lemma commit_delivered:
  assumes run: "commitAuthorizedGrantClaim env clock az ops db = Inr (d, db')" and ok: "keys_ok env db"
  shows "delivered_to db' az d"
  using run
proof (rule commitE)
  fix s g c s1 db1
  assume s: "map_of (db_heads db) (az_headId az) = Some s"
    and ins: "inspectGrantClaim env s (az_claim az) (clock 0) = Inr (g, c)"
    and d: "gd_oneTimePublicKey d = sg_oneTimePublicKey g" "gd_grantId d = sg_grantId g"
    and db': "db' = db1\<lparr>db_heads := AList.update (az_headId az) s1 (db_heads db1)\<rparr>"
    and eff: "if sh_assignment s = None
     then assignGrant env clock (az_headId az) (az_claim az) (az_admissionKey az) ops s g c db = Inr (s1, db1)
     else s1 = s \<and> db1 = db"
  show "delivered_to db' az d"
  proof (cases "sh_assignment s")
    case None
    then have "assignGrant env clock (az_headId az) (az_claim az) (az_admissionKey az) ops s g c db = Inr (s1, db1)"
      using eff by simp
    then show ?thesis
      by (rule assignGrantE) (simp add: db' d delivered_to_def deliveryRecord_def)
  next
    case (Some a)
    have "assignment_ok (map_of (db_deliveries db)) (az_headId az) s"
      using keys_okD(2) [OF ok s] Some by (simp add: head_keys_ok_def)
    then show ?thesis
      using Some eff inspect_Inr(2) [OF ins] inspect_Inr(6) [OF ins Some]
      by (auto simp: db' d delivered_to_def assignment_ok_def assigned_to_def tupleMatches_def)
  qed
qed

fun disclosed :: "issuer_env \<Rightarrow> issuer_db \<Rightarrow> issuer_call \<Rightarrow> (authorized_claim \<times> grant_delivery) list" where
  \<comment> \<open>the private key that the call returns, if it returns one\<close>
  "disclosed env db (Commit clock az ops) =
     (case commitAuthorizedGrantClaim env clock az ops db of Inl _ \<Rightarrow> [] | Inr (d, _) \<Rightarrow> [(az, d)])"
| "disclosed env db _ = []"

fun disclosures :: "issuer_env \<Rightarrow> issuer_db \<Rightarrow> issuer_call list \<Rightarrow> (authorized_claim \<times> grant_delivery) list" where
  "disclosures env db [] = []"
| "disclosures env db (call # calls) = disclosed env db call
     @ (case issuer_run env db call of Inl _ \<Rightarrow> disclosures env db calls | Inr db' \<Rightarrow> disclosures env db' calls)"

lemma disclosed_delivered:
  assumes "(az, d) \<in> set (disclosed env db call)" "keys_ok env db"
  shows "\<exists>db'. issuer_run env db call = Inr db' \<and> delivered_to db' az d"
  using assms
  by (cases call) (auto split: sum.splits simp: after_call_def bindE_def intro: commit_delivered)

lemma delivered_below: "delivered_to db az d \<Longrightarrow> issuer_below db db' \<Longrightarrow> delivered_to db' az d"
  unfolding delivered_to_def issuer_below_def by (metis map_le_SomeD)

lemma disclosures_delivered:
  assumes "issuer_ok env db" "(az, d) \<in> set (disclosures env db calls)"
  shows "delivered_to (run_cmds (issuer_run env) db calls) az d"
  using assms
proof (induction calls arbitrary: db)
  case (Cons call calls)
  have keys: "keys_ok env db" using Cons.prems(1) by (simp add: issuer_ok_def)
  show ?case
  proof (cases "issuer_run env db call")
    case (Inl e)
    then show ?thesis using Cons disclosed_delivered [OF _ keys, of az d call] by auto
  next
    case (Inr db')
    have ok': "issuer_ok env db'" by (rule issuer_ok_run [OF Cons.prems(1) Inr])
    show ?thesis
    proof (cases "(az, d) \<in> set (disclosed env db call)")
      case True
      then have "delivered_to db' az d" using disclosed_delivered [OF True keys] Inr by auto
      then show ?thesis using issuer.run_below [OF ok', of calls] Inr by (auto intro: delivered_below)
    next
      case False
      then show ?thesis using Cons.IH [OF ok'] Cons.prems(2) Inr by auto
    qed
  qed
qed simp

lemma delivered_once:
  assumes ok: "keys_ok env db" and del: "delivered_to db az d" "delivered_to db az' d'"
    and key: "gd_oneTimePublicKey d = gd_oneTimePublicKey d'"
  shows "az_headId az = az_headId az' \<and> gd_grantId d = gd_grantId d'
    \<and> gc_payerPublicKey (az_claim az) = gc_payerPublicKey (az_claim az')
    \<and> gc_requestHash (az_claim az) = gc_requestHash (az_claim az')
    \<and> gc_challengeId (az_claim az) = gc_challengeId (az_claim az')"
proof -
  obtain r r' where r: "map_of (db_deliveries db) (az_headId az, gd_grantId d) = Some r"
      "dr_oneTimePublicKey r = gd_oneTimePublicKey d" "dr_payerPublicKey r = gc_payerPublicKey (az_claim az)"
      "dr_requestHash r = gc_requestHash (az_claim az)" "dr_challengeId r = gc_challengeId (az_claim az)"
    and r': "map_of (db_deliveries db) (az_headId az', gd_grantId d') = Some r'"
      "dr_oneTimePublicKey r' = gd_oneTimePublicKey d'" "dr_payerPublicKey r' = gc_payerPublicKey (az_claim az')"
      "dr_requestHash r' = gc_requestHash (az_claim az')" "dr_challengeId r' = gc_challengeId (az_claim az')"
    using del unfolding delivered_to_def by blast
  have "(az_headId az, gd_grantId d) = (az_headId az', gd_grantId d')"
    using keys_okD(1) [OF ok] r(1,2) r'(1,2) key unfolding deliveries_ok_def by metis
  then show ?thesis using r r' by auto
qed

section \<open>Properties of the issuer\<close>



text \<open>C20. Accepted payments are backed. In every database that a run of the issuer reaches, the grant of
  each accepted payment was delivered to the payer of the payment, for its request and challenge and at
  the amount that was paid, and no two accepted payments consume the same grant.\<close>

theorem accepted_payments_backed:
  "list_all (\<lambda>(t, p). payment_backed (map_of (db_deliveries (issuer_reached env calls))) p)
     (db_payments (issuer_reached env calls))
   \<and> distinct (map (\<lambda>(t, p). ap_grantId p) (db_payments (issuer_reached env calls)))"
  using reached_ok [of env calls] by (simp add: issuer_ok_def payments_ok_def)

text \<open>C22. The store stays within its limits. Every database that a run of the issuer reaches is new, or
  holds no more records and no more bytes than the limits that are stored in it.\<close>

theorem issuer_storage_bounded:
  "case db_limits (issuer_reached env calls) of
     None \<Rightarrow> True
   | Some l \<Rightarrow> int (used_records (issuer_reached env calls)) \<le> num_int (sl_maxRecords l)
       \<and> int (used_bytes (issuer_reached env calls)) \<le> num_int (sl_maxBytes l)"
  using reached_ok [of env calls] by (auto simp: issuer_ok_def limits_ok_def split: option.splits)

end
