(* ===== verification/Issuer_Examples.thy ===== *)
theory Issuer_Examples
  imports Issuer_Safety Chain_Examples
begin

text \<open>
  A run of the grant issuer with constant digests in place of the hash functions: a database is opened,
  a head is installed, a challenge is issued and claimed twice, and the payment is accepted.
\<close>

section \<open>The calls\<close>

definition issuer_example_env :: issuer_env where
  "issuer_example_env = \<lparr>iv_chain = \<lparr>ce_blake3 = (\<lambda>_. replicate 32 0x11), ce_blake2b = zero_sha, ce_onCurve = (\<lambda>_. True)\<rparr>,
     iv_sha = zero_sha, iv_hmac = id, iv_getPublicKey = id, iv_verify = (\<lambda>_ _ _. True),
     iv_dateParse = (\<lambda>t. Some (int (dec_val t))), iv_toISO = int_to_string, iv_allowMainnet = False,
     iv_maxGrantsPerClaimant = 1, iv_windowSeconds = 60, iv_maxLiveChallenges = 2, iv_preflight = (\<lambda>_ _. True)\<rparr>"

definition grant_script :: string where
  "grant_script = bytesToHex ([0, 0, 0xaa, 0x20] @ replicate 32 0 @ [0x87])"

definition grant_head :: "char \<Rightarrow> string \<Rightarrow> observed_head" where
  "grant_head c amount = \<lparr>oh_outpoint = \<lparr>op_txid = id64 c, op_index = JsInt 0\<rparr>, oh_amount = amount,
     oh_guard = id64 (CHR ''1''), oh_scriptPublicKey = grant_script, oh_covenantId = id64 (CHR ''c'')\<rparr>"

definition install_example :: install_input where
  "install_example = \<lparr>in_headId = id64 (CHR ''d''), in_network = ''kaspa:testnet-10'', in_ownerPublicKey = id64 (CHR ''a''),
     in_head = grant_head (CHR ''2'') ''1000'',
     in_grants = [\<lparr>bg_revealedGuard = id64 (CHR ''1''), bg_oneTimePublicKey = id64 (CHR ''5''),
                   bg_oneTimePrivateKey = id64 (CHR ''5'')\<rparr>]\<rparr>"

definition stored_example :: stored_head where
  "stored_example = \<lparr>sh_headId = id64 (CHR ''d''), sh_version = 0, sh_network = ''kaspa:testnet-10'',
     sh_ownerPublicKey = id64 (CHR ''a''), sh_head = grant_head (CHR ''2'') ''1000'',
     sh_grants = [\<lparr>sg_grantId = id64 (CHR ''e''), sg_revealedGuard = id64 (CHR ''1''),
        sg_oneTimePublicKey = id64 (CHR ''5''), sg_oneTimePrivateKey = Some (id64 (CHR ''5''))\<rparr>],
     sh_nextIndex = 0, sh_phase = Ready, sh_challenges = [], sh_assignment = None, sh_phaseBeforeHold = None, sh_history = []\<rparr>"

definition opened_db :: issuer_db where
  "opened_db = new_db\<lparr>db_schemaVersion := 2, db_meta := True, db_limits := Some DEFAULT_STORAGE_LIMITS\<rparr>"

definition installed_db :: issuer_db where
  "installed_db = opened_db\<lparr>db_heads := [(id64 (CHR ''d''), stored_example)],
     db_seenKeys := [(id64 (CHR ''5''), id64 (CHR ''d''))]\<rparr>"

definition challenge_example :: stored_challenge where
  "challenge_example = \<lparr>ch_headId = id64 (CHR ''d''), ch_headVersion = 0, ch_grantId = id64 (CHR ''e''),
     ch_challengeId = id64 (CHR ''f''), ch_requestHash = id64 (CHR ''7''), ch_quotedAmount = Some ''500'',
     ch_issuedAt = ''5000'', ch_expiresAt = ''65000'', ch_admissionKey = Some (id64 (CHR ''8''))\<rparr>"

definition challenged_db :: issuer_db where
  "challenged_db = installed_db\<lparr>db_heads := [(id64 (CHR ''d''), stored_example\<lparr>sh_challenges := [challenge_example]\<rparr>)]\<rparr>"

definition grant_claim_example :: grant_claim where
  "grant_claim_example = \<lparr>gc_grantId = id64 (CHR ''e''), gc_challengeId = id64 (CHR ''f''), gc_requestHash = id64 (CHR ''7''),
     gc_payerPublicKey = id64 (CHR ''3''), gc_expiresAt = ''65000'', gc_signature = replicate 128 (CHR ''4'')\<rparr>"

definition authorized_example :: authorized_claim where
  "authorized_example = \<lparr>az_headId = id64 (CHR ''d''), az_claim = grant_claim_example, az_headVersion = 0,
     az_head = grant_head (CHR ''2'') ''1000'', az_admissionKey = id64 (CHR ''8''),
     az_current = publicGrant stored_example, az_needsQualification = True\<rparr>"

definition funding_example :: funding_outpoint where
  "funding_example = \<lparr>op_txid = id64 (CHR ''b''), op_index = JsInt 0\<rparr>"

definition assignment_example :: stored_assignment where
  "assignment_example = \<lparr>sa_grantId = id64 (CHR ''e''), sa_challengeId = id64 (CHR ''f''), sa_requestHash = id64 (CHR ''7''),
     sa_quotedAmount = Some ''500'', sa_payerPublicKey = id64 (CHR ''3''), sa_claimantId = Some (id64 (CHR ''3'')),
     sa_qualifyingFundingOutpoint = Some funding_example, sa_expiresAt = ''65000'', sa_deliveryCommittedAt = ''6000'',
     sa_candidateTransactionId = None\<rparr>"

definition assigned_example :: stored_head where
  "assigned_example = assigned_head stored_example assignment_example challenge_example"

definition delivery_example :: delivery_record where
  "delivery_example = deliveryRecord assigned_example (hd (sh_grants stored_example)) challenge_example grant_claim_example assignment_example"

definition admission_example :: "string \<times> admission_row" where
  "admission_example = (textFingerprint issuer_example_env (''outpoint:'' @ id64 (CHR ''b'') @ '':0''),
     \<lparr>ad_claimant = textFingerprint issuer_example_env (''claimant:'' @ id64 (CHR ''3'')),
      ad_admission = textFingerprint issuer_example_env (''admission:'' @ id64 (CHR ''8'')), ad_disclosedAt = 6000\<rparr>)"

definition delivered_db :: issuer_db where
  "delivered_db = installed_db\<lparr>db_heads := [(id64 (CHR ''d''), assigned_example)],
     db_deliveries := [((id64 (CHR ''d''), id64 (CHR ''e'')), delivery_example)], db_admissions := [admission_example]\<rparr>"

definition key_example :: grant_delivery where
  "key_example = \<lparr>gd_grantId = id64 (CHR ''e''), gd_headVersion = 0, gd_nextGuard = id64 (CHR ''1''),
     gd_oneTimePublicKey = id64 (CHR ''5''), gd_oneTimePrivateKey = id64 (CHR ''5''), gd_expiresAt = ''65000'',
     gd_deliveryCommittedAt = ''6000''\<rparr>"

section \<open>Sizes and hashes\<close>

lemma sealedSize_le: "sealedSize v \<le> 29 + size_bound v"
  using json_stringify_length [of v] by (simp add: sealedSize_def)

lemma capacity_ok:
  assumes "db_limits db = Some DEFAULT_STORAGE_LIMITS"
    and "used_records db + length (db_heads db) * 1025 \<le> 100000" "used_bytes db + length (db_heads db) * 524288 \<le> 67108864"
  shows "check_capacity db reserve = Inr
    \<lparr>su_limits = DEFAULT_STORAGE_LIMITS, su_records = used_records db, su_bytes = used_bytes db,
      su_reservedRecords = length (db_heads db) * 1025, su_reservedBytes = length (db_heads db) * 524288,
      su_admissionAvailable = (used_records db + length (db_heads db) * 1025 < 100000
        \<and> used_bytes db + length (db_heads db) * 524288 < 67108864)\<rparr>"
proof -
  have lim: "readStorageLimits db = Inr DEFAULT_STORAGE_LIMITS"
    using assms(1) by (simp add: readStorageLimits_def validateStorageLimits_def DEFAULT_STORAGE_LIMITS_def in_range_def checkE_def bindE_def)
  have int: "int (used_records db) + int (length (db_heads db)) * 1025 \<le> 100000"
    "int (used_bytes db) + int (length (db_heads db)) * 524288 \<le> 67108864"
    using assms(2,3) by linarith+
  then show ?thesis
    using assms(2,3)
    by (simp add: check_capacity_def storageUsage_def lim bindE_def Let_def assertStorageCapacity_def
        RECOVERY_RECORDS_PER_HEAD_def RECOVERY_BYTES_PER_HEAD_def DEFAULT_STORAGE_LIMITS_def) linarith
qed

lemma limits_size: "sealedSize (limits_json DEFAULT_STORAGE_LIMITS) \<le> 1000"
proof (rule sealedSize_le [THEN le_trans])
  show "29 + size_bound (limits_json DEFAULT_STORAGE_LIMITS) \<le> 1000"
    by (simp add: limits_json_def DEFAULT_STORAGE_LIMITS_def json_number_def int_to_string_def nat_to_string.simps utf8ByteLength_Cons code_def)
qed

lemma id64_facts [simp]: "length (id64 c) = 64" "is_lower_hex c \<Longrightarrow> is_lower_hash32 (id64 c)"
  "is_lower_hex c \<Longrightarrow> is_hash32 (id64 c)" "id64 c = id64 c' \<longleftrightarrow> c = c'" "id64 c \<noteq> []"
  by (auto simp: id64_def is_lower_hash32_def is_hash32_def list_all_length replicate_eq_replicate lower_hex_is_hex)

lemma example_opens: "fromStorage issuer_example_env None new_db = Inr ((), opened_db)"
proof -
  have "check_capacity opened_db True = Inr u" if "u = \<lparr>su_limits = DEFAULT_STORAGE_LIMITS, su_records = used_records opened_db, su_bytes = used_bytes opened_db,
      su_reservedRecords = 0, su_reservedBytes = 0,
      su_admissionAvailable = (used_records opened_db < 100000 \<and> used_bytes opened_db < 67108864)\<rparr>" for u
    using capacity_ok [of opened_db True] limits_size that
    by (simp add: opened_db_def new_db_def used_records_def used_bytes_def table_bytes_def)
  then show ?thesis
    by (simp add: fromStorage_def new_db_def opened_db_def bindE_def checkE_def migrateLegacyGrantKeys_def map_heads_def
       migrateQuotedGrants_def migrateLegacyGrantAdmissions_def Let_def)
qed

lemma mutate_ok:
  assumes "db_limits db = Some DEFAULT_STORAGE_LIMITS"
    and "\<forall>s. map_of (db_heads db) h = Some s \<longrightarrow> sh_network s = ''kaspa:testnet-10''"
    and "change (map_of (db_heads db) h) db = Inr ((nxt, r), db1)"
    and "db' = db1\<lparr>db_heads := AList.update h nxt (db_heads db1)\<rparr>" "db_limits db1 = Some DEFAULT_STORAGE_LIMITS"
    and "used_records db' + length (db_heads db') * 1025 \<le> 100000" "used_bytes db' + length (db_heads db') * 524288 \<le> 67108864"
  shows "mutate env mode h change db = Inr (r, db')"
proof -
  have lim: "readStorageLimits db = Inr DEFAULT_STORAGE_LIMITS"
    using assms(1) by (simp add: readStorageLimits_def validateStorageLimits_def DEFAULT_STORAGE_LIMITS_def in_range_def checkE_def bindE_def)
  have "\<exists>u. check_capacity db' reserve = Inr u" for reserve
    using capacity_ok [of db' reserve] assms by simp
  then obtain u where "check_capacity db' (mode = Allocate \<or> mode = Claim
      \<and> \<not> (case map_of (db_heads db) h of None \<Rightarrow> False | Some s \<Rightarrow> sh_assignment s \<noteq> None)) = Inr u" by blast
  moreover have "(case map_of (db_heads db) h of None \<Rightarrow> Inr () | Some s \<Rightarrow> assertSupportedGrantNetwork env (sh_network s)) = Inr ()"
    using assms(2) by (auto simp: assertSupportedGrantNetwork_def checkE_def split: option.splits)
  ultimately show ?thesis using assms(3,4) by (simp add: mutate_def lim bindE_def Let_def)
qed

lemma grant_script: "hashChainHeadScriptPublicKey (iv_chain issuer_example_env)
    \<lparr>hp_ownerPublicKey = id64 (CHR ''a''), hp_guard = id64 (CHR ''1'')\<rparr> = Inr grant_script"
proof -
  obtain redeem where "buildHashChainHeadRedeemScript (iv_chain issuer_example_env)
      \<lparr>hp_ownerPublicKey = id64 (CHR ''a''), hp_guard = id64 (CHR ''1'')\<rparr> = Inr (bytesToHex redeem)"
    using build_head_Inr by (simp add: example_digits issuer_example_env_def)
  then show ?thesis
    by (simp add: hashChainHeadScriptPublicKey_def payToScriptHashScript_def serializedScriptPublicKey_def covenant_hexToBytes_def
      bytesToHex_hex in_range_def grant_script_def b8_def issuer_example_env_def zero_sha_def bindE_def del: bytesToHex_Cons)
qed

lemma grant_script_lower: "to_lower grant_script = grant_script"
  unfolding grant_script_def by (rule to_lower_bytesToHex)

lemma grant_amounts: "canonicalAmount ''1000'' = Inr ''1000''" "canonicalAmount ''1500'' = Inr ''1500''"
  "canonicalAmount ''500'' = Inr ''500''"
  by (simp_all add: canonicalAmount_def canonical_dec_def dec_val_def digit_val_def code_def)

lemma id64_nonzero: "\<not> list_all (\<lambda>c. c = CHR ''0'') (id64 (CHR ''c''))"
proof -
  have "CHR ''c'' \<in> set (id64 (CHR ''c''))" by (simp add: id64_def)
  then show ?thesis by (auto simp: list_all_iff)
qed

lemma grant_head_normal:
  assumes "is_lower_hex c" "canonicalAmount amount = Inr amount"
  shows "normalizeHead issuer_example_env (grant_head c amount) (id64 (CHR ''a'')) = Inr (grant_head c amount)"
  using assms
  by (simp add: normalizeHead_def grant_head_def hc_normalizeOutpoint_def hc_hex32_def bindE_def example_digits grant_script
      grant_script_lower id64_nonzero)

lemma digit_e: "is_lower_hex (CHR ''e'')" "is_lower_hex (CHR ''f'')" "is_lower_hex (CHR ''5'')" "is_lower_hex (CHR ''7'')"
    "is_lower_hex (CHR ''8'')"
  by (simp_all add: is_lower_hex_def code_def)

lemma id64_bytes: "is_lower_hex c \<Longrightarrow> bytesToHex (hex_decode (id64 c)) = id64 c"
  using bytesToHex_hex_decode [of "id64 c"] by (simp add: id64_def list_all_length lower_hex_is_hex to_lower_def lower_char_lower_hex)

lemma example_guard: "bytesToHex (replicate 32 0x11) = id64 (CHR ''1'')"
  by (simp add: id64_def) code_simp

lemma example_grants:
  "normalizeGrants issuer_example_env (\<lambda>_. id64 (CHR ''e'')) (in_grants install_example) = Inr (sh_grants stored_example)"
  by (simp add: normalizeGrants_def normalizeGrant_def install_example_def stored_example_def hc_hex32_def bindE_def
      example_digits digit_e issuer_example_env_def id64_bytes)

lemma example_chain: "check_chain issuer_example_env (id64 (CHR ''1'')) (sh_grants stored_example) = Inr True"
  by (simp add: stored_example_def hashChainBorrowGuard_def fixedBytes_def bindE_def example_digits digit_e
      issuer_example_env_def example_guard)

lemma head_size:
  assumes "size_bound (head_json s) \<le> 100000"
  shows "sealedSize (head_json s) \<le> 100029"
  using assms sealedSize_le [of "head_json s"] by simp

lemmas json_defs = head_json_def observed_json_def grant_json_def challenge_json_def assignment_json_def history_json_def
  delivery_json_def payment_json_def outpoint_json_def json_opt_def

lemma grant_script_length [simp]: "length grant_script = 74"
  by (simp add: grant_script_def)

lemma number_size: "utf8ByteLength (json_number (JsInt 0)) = 1" "utf8ByteLength (json_number (JsInt 1)) = 1"
  by (simp_all add: json_number_def int_to_string_def nat_to_string.simps utf8ByteLength_Cons code_def)

lemma example_installs:
  "installHead issuer_example_env (\<lambda>_. id64 (CHR ''e'')) install_example None opened_db = Inr (publicGrant stored_example, installed_db)"
proof -
  let ?h = "id64 (CHR ''d'')" and ?f = "id64 (CHR ''5'')"
  have size: "sealedSize (head_json stored_example) \<le> 100029"
    by (rule head_size) (simp add: stored_example_def grant_head_def json_defs number_size)
  have fp: "grantKeyFingerprint issuer_example_env ?f = ?f"
    by (simp add: grantKeyFingerprint_def issuer_example_env_def id64_bytes digit_e)
  have mut: "mutate issuer_example_env Allocate ?h change opened_db = Inr (r, installed_db)"
    if "change None opened_db = Inr ((s, r), db1)" "s = stored_example" "db1 = opened_db\<lparr>db_seenKeys := [(?f, ?h)]\<rparr>"
    for change s db1 r
    using that size limits_size
    by (intro mutate_ok) (auto simp: installed_db_def opened_db_def new_db_def used_records_def used_bytes_def table_bytes_def)
  have grants: "in_grants install_example \<noteq> []" "length (in_grants install_example) = 1"
    and fields: "in_headId install_example = ?h" "in_network install_example = ''kaspa:testnet-10''"
      "in_ownerPublicKey install_example = id64 (CHR ''a'')" "in_head install_example = grant_head (CHR ''2'') ''1000''"
    by (simp_all add: install_example_def)
  have seen: "rememberGrantKeys issuer_example_env ?h (sh_grants stored_example) (db_seenKeys opened_db) = (False, [(?f, ?h)])"
    by (simp add: stored_example_def opened_db_def new_db_def fp)
  have head: "oh_guard (grant_head (CHR ''2'') ''1000'') = id64 (CHR ''1'')" by (simp add: grant_head_def)
  have st: "\<lparr>sh_headId = ?h, sh_version = 0, sh_network = ''kaspa:testnet-10'', sh_ownerPublicKey = id64 (CHR ''a''),
      sh_head = grant_head (CHR ''2'') ''1000'', sh_grants = sh_grants stored_example, sh_nextIndex = 0, sh_phase = Ready,
      sh_challenges = [], sh_assignment = None, sh_phaseBeforeHold = None, sh_history = []\<rparr> = stored_example"
    by (simp add: stored_example_def)
  show ?thesis
    unfolding installHead_def bindE_def
    by (simp add: fields grants example_grants example_chain head grant_head_normal grant_amounts checkE_def hc_hex32_def
        example_digits assertSupportedGrantNetwork_def Let_def st) (rule mut, simp_all add: seen checkE_def)
qed

section \<open>A challenge and its claim\<close>

lemma example_times: "int_to_string 5000 = ''5000''" "int_to_string 65000 = ''65000''" "int_to_string 6000 = ''6000''"
  by (simp_all add: int_to_string_def nat_to_string.simps)

lemma example_issues:
  "issueAdmittedChallenge issuer_example_env 5000 (id64 (CHR ''f'')) (id64 (CHR ''d'')) (id64 (CHR ''7'')) (JsInt 60) ''500''
     (id64 (CHR ''8'')) installed_db = Inr (publicChallenge challenge_example, challenged_db)"
proof -
  let ?h = "id64 (CHR ''d'')" and ?s = "stored_example\<lparr>sh_challenges := [challenge_example]\<rparr>"
  have size: "sealedSize (head_json ?s) \<le> 100029"
    by (rule head_size) (simp add: stored_example_def challenge_example_def grant_head_def json_defs number_size)
  have mut: "mutate issuer_example_env Allocate ?h change installed_db = Inr (r, challenged_db)"
    if "change (Some stored_example) installed_db = Inr ((?s, r), installed_db)" for change r
    using that size limits_size
    by (intro mutate_ok) (auto simp: challenged_db_def installed_db_def opened_db_def new_db_def used_records_def used_bytes_def
        table_bytes_def stored_example_def)
  have fields: "sh_phase stored_example = Ready" "sh_challenges stored_example = []" "sh_version stored_example = 0"
    "item (sh_grants stored_example) (sh_nextIndex stored_example) = Some (hd (sh_grants stored_example))"
    "sg_grantId (hd (sh_grants stored_example)) = id64 (CHR ''e'')"
    by (simp_all add: stored_example_def item_def)
  have env: "iv_maxLiveChallenges issuer_example_env = 2" "iv_toISO issuer_example_env = int_to_string"
    by (simp_all add: issuer_example_env_def)
  show ?thesis
    unfolding issueAdmittedChallenge_def bindE_def
    by (simp add: hc_hex32_def example_digits digit_e grant_amounts checkE_def in_range_def)
      (rule mut, simp add: fields env checkE_def Let_def example_times challenge_example_def)
qed

lemma example_digest: "\<exists>d. hashChainGrantClaimDigest issuer_example_env ''kaspa:testnet-10'' grant_claim_example = Inr d"
proof -
  let ?v = "JObj [(''scope'', JStr ''kaspa-x402-hash-chain-grant-claim-v1''), (''network'', JStr ''kaspa:testnet-10''),
        (''binding'', JStr ''kaspa-hash-chain-exact-v1''), (''grantId'', JStr (gc_grantId grant_claim_example)),
        (''challengeId'', JStr (gc_challengeId grant_claim_example)), (''requestHash'', JStr (gc_requestHash grant_claim_example)),
        (''payerPublicKey'', JStr (gc_payerPublicKey grant_claim_example)), (''expiresAt'', JStr (gc_expiresAt grant_claim_example))]"
  have "small ?v"
    by (simp add: small_def grant_claim_example_def KASPA_X402_RESOURCE_BUDGET_def ARTIFACT_FIELDS_def object_limit_def
        string_limit_def utf8ByteLength_le [THEN le_trans])
  then show ?thesis by (simp add: hashChainGrantClaimDigest_def stableStringify_of_small bindE_def)
qed

lemma example_inspects:
  assumes "s = stored_example\<lparr>sh_challenges := [challenge_example]\<rparr> \<or> s = assigned_example"
  shows "inspectGrantClaim issuer_example_env s grant_claim_example 6000 = Inr (hd (sh_grants stored_example), challenge_example)"
proof -
  let ?g = "hd (sh_grants stored_example)"
  have dates: "int (dec_val ''65000'') = 65000" by (simp add: dec_val_def digit_val_def code_def)
  have s: "sh_phase s \<in> {Ready, Assigned}" "item (sh_grants s) (sh_nextIndex s) = Some ?g" "sh_challenges s = [challenge_example]"
    "sh_network s = ''kaspa:testnet-10''" "sh_version s = 0" "sh_assignment s \<in> {None, Some assignment_example}"
    using assms by (auto simp: stored_example_def assigned_example_def assigned_head_def item_def)
  have live: "claim_live issuer_example_env s grant_claim_example ?g challenge_example 6000"
    using s by (simp add: claim_live_def challenge_example_def grant_claim_example_def stored_example_def falsy_def parsed_def
        issuer_example_env_def dates)
  have "tupleMatches assignment_example grant_claim_example" by (simp add: tupleMatches_def assignment_example_def grant_claim_example_def)
  moreover have "ch_challengeId challenge_example = gc_challengeId grant_claim_example"
    by (simp add: challenge_example_def grant_claim_example_def)
  moreover have "iv_verify issuer_example_env a b c" for a b c by (simp add: issuer_example_env_def)
  moreover obtain d where "hashChainGrantClaimDigest issuer_example_env ''kaspa:testnet-10'' grant_claim_example = Inr d"
    using example_digest by blast
  ultimately show ?thesis
    using s live by (auto simp: inspectGrantClaim_def bindE_def checkE_def)
qed

lemma example_admits:
  "admitClaimant issuer_example_env 6000 (gc_payerPublicKey grant_claim_example) (id64 (CHR ''8'')) [funding_example] challenged_db
     = Inr (funding_example, challenged_db\<lparr>db_admissions := [admission_example]\<rparr>)"
proof -
  have tables: "db_admissions challenged_db = []" "db_legacy challenged_db = []"
    by (simp_all add: challenged_db_def installed_db_def opened_db_def new_db_def)
  have env: "iv_maxGrantsPerClaimant issuer_example_env = 1" by (simp add: issuer_example_env_def)
  have f: "op_txid funding_example = id64 (CHR ''b'')" "op_index funding_example = JsInt 0"
      "\<lparr>op_txid = id64 (CHR ''b''), op_index = JsInt 0\<rparr> = funding_example"
    by (simp_all add: funding_example_def)
  have t: "int_to_string 0 = ''0''" by (simp add: int_to_string_def nat_to_string.simps)
  show ?thesis
    by (simp add: admitClaimant_def bindE_def checkE_def tables env count_admissions_def f in_range_def hc_hex32_def example_digits
        insert_row_def Let_def t grant_claim_example_def admission_example_def MAX_SAFE_INTEGER_def)
qed

lemma example_assigns:
  "assignGrant issuer_example_env (\<lambda>_. 6000) (id64 (CHR ''d'')) grant_claim_example (id64 (CHR ''8'')) [funding_example]
     (stored_example\<lparr>sh_challenges := [challenge_example]\<rparr>) (hd (sh_grants stored_example)) challenge_example challenged_db
   = Inr (assigned_example, challenged_db\<lparr>db_admissions := [admission_example],
       db_deliveries := [((id64 (CHR ''d''), id64 (CHR ''e'')), delivery_example)]\<rparr>)"
proof -
  have a: "\<lparr>sa_grantId = gc_grantId grant_claim_example, sa_challengeId = gc_challengeId grant_claim_example,
           sa_requestHash = gc_requestHash grant_claim_example, sa_quotedAmount = ch_quotedAmount challenge_example,
           sa_payerPublicKey = gc_payerPublicKey grant_claim_example, sa_claimantId = Some (gc_payerPublicKey grant_claim_example),
           sa_qualifyingFundingOutpoint = Some funding_example, sa_expiresAt = gc_expiresAt grant_claim_example,
           sa_deliveryCommittedAt = iv_toISO issuer_example_env 6000, sa_candidateTransactionId = None\<rparr> = assignment_example"
    by (simp add: assignment_example_def grant_claim_example_def challenge_example_def issuer_example_env_def example_times)
  have s: "stored_example\<lparr>sh_assignment := Some assignment_example, sh_phase := Assigned,
        sh_challenges := [challenge_example]\<rparr> = assigned_example"
    by (simp add: assigned_example_def assigned_head_def)
  have tables: "db_deliveries challenged_db = []" "sg_grantId (hd (sh_grants stored_example)) = id64 (CHR ''e'')"
    by (simp_all add: challenged_db_def installed_db_def opened_db_def new_db_def stored_example_def)
  show ?thesis
    by (simp add: assignGrant_def example_admits bindE_def Let_def a s insert_row_def tables delivery_example_def)
qed

lemma example_head_sizes:
  "sealedSize (head_json assigned_example) \<le> 100029" "sealedSize (delivery_json delivery_example) \<le> 100029"
proof -
  show "sealedSize (head_json assigned_example) \<le> 100029"
    by (rule head_size) (simp add: assigned_example_def assigned_head_def stored_example_def challenge_example_def
        assignment_example_def funding_example_def grant_head_def json_defs number_size)
  have "size_bound (delivery_json delivery_example) \<le> 100000"
    by (simp add: delivery_example_def deliveryRecord_def assigned_example_def assigned_head_def stored_example_def
        challenge_example_def grant_claim_example_def assignment_example_def funding_example_def grant_head_def json_defs number_size)
  then show "sealedSize (delivery_json delivery_example) \<le> 100029"
    using sealedSize_le [of "delivery_json delivery_example"] by simp
qed

lemma fingerprint_length: "length (textFingerprint issuer_example_env t) \<le> 6 * length t"
  using utf8ByteLength_le [of t] by (simp add: textFingerprint_def issuer_example_env_def utf8ByteLength_utf8Bytes [symmetric])

lemma delivered_db_small:
  "used_records delivered_db + length (db_heads delivered_db) * 1025 \<le> 100000
   \<and> used_bytes delivered_db + length (db_heads delivered_db) * 524288 \<le> 67108864"
  using example_head_sizes limits_size fingerprint_length [of "''outpoint:'' @ id64 (CHR ''b'') @ '':0''"]
    fingerprint_length [of "''claimant:'' @ id64 (CHR ''3'')"] fingerprint_length [of "''admission:'' @ id64 (CHR ''8'')"]
  by (simp add: delivered_db_def installed_db_def opened_db_def new_db_def used_records_def used_bytes_def table_bytes_def
      admission_example_def)

lemma example_commits:
  "commitAuthorizedGrantClaim issuer_example_env (\<lambda>_. 6000) authorized_example [funding_example] challenged_db
     = Inr (key_example, delivered_db)"
  "commitAuthorizedGrantClaim issuer_example_env (\<lambda>_. 6000) authorized_example [] delivered_db = Inr (key_example, delivered_db)"
proof -
  let ?h = "id64 (CHR ''d'')" and ?s = "stored_example\<lparr>sh_challenges := [challenge_example]\<rparr>" and ?g = "hd (sh_grants stored_example)"
  have az: "az_headId authorized_example = ?h" "az_claim authorized_example = grant_claim_example"
    "az_admissionKey authorized_example = id64 (CHR ''8'')" "az_headVersion authorized_example = 0"
    "az_head authorized_example = grant_head (CHR ''2'') ''1000''"
    by (simp_all add: authorized_example_def)
  have head: "sh_version stored_example = 0" "sh_head stored_example = grant_head (CHR ''2'') ''1000''"
    "sh_assignment stored_example = None" "sh_version assigned_example = 0"
    "sh_head assigned_example = grant_head (CHR ''2'') ''1000''" "sh_assignment assigned_example = Some assignment_example"
    "sg_oneTimePrivateKey ?g = Some (id64 (CHR ''5''))"
    by (simp_all add: stored_example_def assigned_example_def assigned_head_def)
  have same: "sameHead (grant_head (CHR ''2'') ''1000'') (grant_head (CHR ''2'') ''1000'')"
    by (simp add: sameHead_def hc_sameOutpoint_def grant_head_def)
  have key: "\<lparr>gd_grantId = sg_grantId ?g, gd_headVersion = 0, gd_nextGuard = sg_revealedGuard ?g,
      gd_oneTimePublicKey = sg_oneTimePublicKey ?g, gd_oneTimePrivateKey = id64 (CHR ''5''),
      gd_expiresAt = sa_expiresAt assignment_example, gd_deliveryCommittedAt = sa_deliveryCommittedAt assignment_example\<rparr> = key_example"
    by (simp add: key_example_def stored_example_def assignment_example_def)
  have net: "sh_network stored_example = ''kaspa:testnet-10''" "sh_network assigned_example = ''kaspa:testnet-10''"
    by (simp_all add: stored_example_def assigned_example_def assigned_head_def)
  note small = delivered_db_small [THEN conjunct1] delivered_db_small [THEN conjunct2]
  have heads: "db_heads challenged_db = [(?h, ?s)]" "db_heads delivered_db = [(?h, assigned_example)]"
    "db_limits challenged_db = Some DEFAULT_STORAGE_LIMITS" "db_limits delivered_db = Some DEFAULT_STORAGE_LIMITS"
    by (simp_all add: challenged_db_def delivered_db_def installed_db_def opened_db_def)
  show "commitAuthorizedGrantClaim issuer_example_env (\<lambda>_. 6000) authorized_example [funding_example] challenged_db
     = Inr (key_example, delivered_db)"
    unfolding commitAuthorizedGrantClaim_def Let_def
  proof (rule mutate_ok [OF _ _ _ _ _ small])
    show "delivered_db = (challenged_db\<lparr>db_admissions := [admission_example],
       db_deliveries := [((?h, id64 (CHR ''e'')), delivery_example)]\<rparr>)\<lparr>db_heads := AList.update (az_headId authorized_example)
         assigned_example (db_heads (challenged_db\<lparr>db_admissions := [admission_example],
       db_deliveries := [((?h, id64 (CHR ''e'')), delivery_example)]\<rparr>))\<rparr>"
      by (simp add: delivered_db_def challenged_db_def installed_db_def opened_db_def new_db_def az)
  qed (simp_all add: az heads head net same key example_inspects example_assigns bindE_def checkE_def)
  show "commitAuthorizedGrantClaim issuer_example_env (\<lambda>_. 6000) authorized_example [] delivered_db = Inr (key_example, delivered_db)"
    unfolding commitAuthorizedGrantClaim_def Let_def
  proof (rule mutate_ok [OF _ _ _ _ _ small])
    show "delivered_db = delivered_db\<lparr>db_heads := AList.update (az_headId authorized_example) assigned_example (db_heads delivered_db)\<rparr>"
      by (simp add: heads az)
  qed (simp_all add: az heads head net same key example_inspects bindE_def checkE_def)
qed

section \<open>The payment\<close>

definition payment_example :: accepted_payment where
  "payment_example = \<lparr>ap_transactionId = id64 (CHR ''8''), ap_grantId = id64 (CHR ''e''), ap_challengeId = id64 (CHR ''f''),
     ap_requestHash = id64 (CHR ''7''), ap_payerPublicKey = id64 (CHR ''3''), ap_requirementsHash = id64 (CHR ''7''),
     ap_paymentIdentifier = ''payment'', ap_amount = ''500'', ap_finality = Accepted\<rparr>"

definition transition_example :: accepted_transition where
  "transition_example = \<lparr>tr_finality = Accepted, tr_predecessor = \<lparr>op_txid = id64 (CHR ''2''), op_index = JsInt 0\<rparr>,
     tr_successor = grant_head (CHR ''8'') ''1500''\<rparr>"

definition paid_head :: stored_head where
  "paid_head = advanced_head Borrow False assigned_example (grant_head (CHR ''8'') ''1500'') [] False"

definition paid_db :: issuer_db where
  "paid_db = delivered_db\<lparr>db_heads := [(id64 (CHR ''d''), paid_head)], db_payments := [(id64 (CHR ''8''), payment_example)]\<rparr>"

lemma paid_db_small:
  "used_records paid_db + length (db_heads paid_db) * 1025 \<le> 100000
   \<and> used_bytes paid_db + length (db_heads paid_db) * 524288 \<le> 67108864"
proof -
  have "sealedSize (head_json paid_head) \<le> 100029"
    by (rule head_size) (simp add: paid_head_def advanced_head_def push_history_def past_entry_def assigned_example_def assigned_head_def
        stored_example_def grant_head_def item_def json_defs number_size Let_def quarantined_def)
  moreover have "size_bound (payment_json payment_example) \<le> 100000" by (simp add: payment_example_def json_defs)
  ultimately show ?thesis
    using example_head_sizes(2) limits_size fingerprint_length [of "''outpoint:'' @ id64 (CHR ''b'') @ '':0''"]
      fingerprint_length [of "''claimant:'' @ id64 (CHR ''3'')"] fingerprint_length [of "''admission:'' @ id64 (CHR ''8'')"]
      sealedSize_le [of "payment_json payment_example"]
    by (simp add: paid_db_def delivered_db_def installed_db_def opened_db_def new_db_def used_records_def used_bytes_def table_bytes_def
      admission_example_def payment_example_def)
qed

lemma example_pays:
  "recordAcceptedPayment issuer_example_env (\<lambda>_. 7000) (id64 (CHR ''d'')) transition_example payment_example delivered_db
     = Inr (publicGrant paid_head, paid_db)"
proof -
  let ?h = "id64 (CHR ''d'')" and ?after = "grant_head (CHR ''8'') ''1500''" and ?g = "hd (sh_grants stored_example)"
  have tables: "map_of (db_payments delivered_db) x = None" "db_payments delivered_db = []" "db_heads delivered_db = [(?h, assigned_example)]"
      "map_of (db_deliveries delivered_db) (?h, id64 (CHR ''e'')) = Some delivery_example"
      "db_limits delivered_db = Some DEFAULT_STORAGE_LIMITS" for x
    by (simp_all add: delivered_db_def installed_db_def opened_db_def new_db_def)
  have head: "sh_phase assigned_example = Assigned" "sh_network assigned_example = ''kaspa:testnet-10''"
      "sh_head assigned_example = grant_head (CHR ''2'') ''1000''" "sh_ownerPublicKey assigned_example = id64 (CHR ''a'')"
      "item (sh_grants assigned_example) (sh_nextIndex assigned_example) = Some ?g" "sg_revealedGuard ?g = id64 (CHR ''1'')"
    by (simp_all add: assigned_example_def assigned_head_def stored_example_def item_def)
  have amounts: "sompi ''1000'' = 1000" "sompi ''1500'' = 1500" "sompi ''500'' = 500"
    by (simp_all add: sompi_def dec_val_def digit_val_def code_def)
  have exact: "exact_payment ?h assigned_example ?g ?after payment_example delivered_db"
    by (simp add: exact_payment_def payment_example_def tables assigned_example_def assigned_head_def assignment_example_def
        delivery_example_def deliveryRecord_def stored_example_def challenge_example_def grant_claim_example_def grant_head_def
        hc_sameOutpoint_def falsy_def amounts)
  have effect: "borrow_effect ?h assigned_example ?after (Some payment_example) delivered_db
      = Inr (delivered_db\<lparr>db_payments := [(id64 (CHR ''8''), payment_example)]\<rparr>)"
    using exact by (simp add: borrow_effect_def head bindE_def checkE_def insert_payment_def insert_row_def tables)
      (simp add: grant_head_def amounts payment_example_def)
  have paid: "mutate issuer_example_env mode ?h change delivered_db = Inr (publicGrant paid_head, paid_db)"
    if "change (Some assigned_example) delivered_db
      = Inr ((paid_head, publicGrant paid_head), delivered_db\<lparr>db_payments := [(id64 (CHR ''8''), payment_example)]\<rparr>)" for mode change
    using that paid_db_small
    by (intro mutate_ok) (auto simp: tables head paid_db_def)
  have same: "hc_sameOutpoint \<lparr>op_txid = id64 (CHR ''2''), op_index = JsInt 0\<rparr> (oh_outpoint (grant_head (CHR ''2'') ''1000''))"
    and new: "oh_covenantId ?after = oh_covenantId (grant_head (CHR ''2'') ''1000'')"
      "\<not> hc_sameOutpoint (oh_outpoint ?after) (oh_outpoint (grant_head (CHR ''2'') ''1000''))"
    by (simp_all add: hc_sameOutpoint_def grant_head_def)
  have "advance issuer_example_env (\<lambda>_. []) ?h transition_example Borrow [] (Some payment_example) False delivered_db
      = Inr (publicGrant paid_head, paid_db)"
    unfolding advance_def Let_def transition_example_def
    by (simp add: hc_hex32_def example_digits bindE_def checkE_def finality_trusted_def, rule paid)
      (simp_all add: tables head bindE_def checkE_def hc_normalizeOutpoint_def hc_hex32_def example_digits same new effect
        grant_head_normal digit_e grant_amounts paid_head_def)
  then show ?thesis
    using grant_amounts
    by (simp add: recordAcceptedPayment_def bindE_def hc_hex32_def example_digits digit_e checkE_def tables finality_trusted_def)
     (simp add: payment_example_def transition_example_def grant_head_def example_digits digit_e)
qed

definition issuer_example_calls :: "issuer_call list" where
  "issuer_example_calls = [Open None, Install (\<lambda>_. id64 (CHR ''e'')) install_example None,
     Issue 5000 (id64 (CHR ''f'')) (id64 (CHR ''d'')) (id64 (CHR ''7'')) (JsInt 60) ''500'' (id64 (CHR ''8'')),
     Commit (\<lambda>_. 6000) authorized_example [funding_example], Commit (\<lambda>_. 6000) authorized_example [],
     Paid (\<lambda>_. 7000) (id64 (CHR ''d'')) transition_example payment_example]"

lemma issuer_example_reached: "issuer_reached issuer_example_env issuer_example_calls = paid_db"
  by (simp add: issuer_reached_def issuer_example_calls_def after_call_def bindE_def example_opens example_installs example_issues
      example_commits example_pays)

lemma issuer_example_disclosures:
  "disclosures issuer_example_env new_db issuer_example_calls = [(authorized_example, key_example), (authorized_example, key_example)]"
  by (simp add: issuer_example_calls_def after_call_def bindE_def example_opens example_installs example_issues
      example_commits example_pays)

section \<open>The properties at the example\<close>



theorem accepted_payments_backed_witness:
  "db_payments (issuer_reached issuer_example_env issuer_example_calls) = [(id64 (CHR ''8''), payment_example)]
   \<and> payment_backed (map_of (db_deliveries (issuer_reached issuer_example_env issuer_example_calls))) payment_example"
  using accepted_payments_backed [of issuer_example_env issuer_example_calls]
  by (simp add: issuer_example_reached paid_db_def)

end
