(* ===== verification/Exact_Authorization.thy ===== *)
theory Exact_Authorization
  imports Batch_Presentation
begin

text \<open>
  The payer's authorisation of one exact transaction: \<^verbatim>\<open>core/src/exact-authorization.ts\<close>.
  The digest hashes the canonical text of thirteen fields and a scope. The client chooses the
  expiry with \<open>exactAuthorizationExpiresAt\<close>; the client before it signs, and the server three
  times while it settles, judge it with \<open>exactAuthorizationExpiryError\<close>. \<open>Date.parse\<close> is the
  parameter \<open>dateParse\<close> as for presentations, and the text that \<open>toISOString\<close> prints for a
  time value is the parameter \<open>isoText\<close>; that both are defined up to
  \<open>8.64 \<cdot> 10\<^sup>15\<close> milliseconds only, and that \<open>toISOString\<close> throws beyond, is written out.
  A time value and the sum of \<open>nowMs\<close> and the timeout are integers: below \<open>2\<^sup>53\<close> the double
  arithmetic of the source is exact, and above it both sides exceed every time value.
\<close>

section \<open>exact-authorization.ts\<close>

definition EXACT_REQUEST_AUTHORIZATION_VERSION :: string where
  "EXACT_REQUEST_AUTHORIZATION_VERSION = ''kaspa-x402-exact-request-authorization-v2''"

record exact_digest_input =
  ei_network :: string
  ei_profile :: string
  ei_transactionId :: string
  ei_paymentOutputIndex :: js_number
  ei_amount :: string
  ei_payTo :: string
  ei_payToScriptPublicKey :: string
  ei_paymentRequirementsHash :: string
  ei_requestHash :: string
  ei_paymentIdentifier :: string
  ei_challengeId :: "string option"
  ei_inputIndex :: js_number
  ei_expiresAt :: string

definition exact_digest_object :: "exact_digest_input \<Rightarrow> js_value" where
  \<comment> \<open>the object literal of \<open>exactRequestAuthorizationPreimage\<close>\<close>
  "exact_digest_object i = JObj
     [(''scope'', JStr EXACT_REQUEST_AUTHORIZATION_VERSION),
      (''network'', JStr (ei_network i)),
      (''profile'', JStr (ei_profile i)),
      (''transactionId'', JStr (to_lower (ei_transactionId i))),
      (''paymentOutputIndex'', JNum (ei_paymentOutputIndex i)),
      (''amount'', JStr (ei_amount i)),
      (''payTo'', JStr (ei_payTo i)),
      (''payToScriptPublicKey'', JStr (to_lower (ei_payToScriptPublicKey i))),
      (''paymentRequirementsHash'', JStr (to_lower (ei_paymentRequirementsHash i))),
      (''requestHash'', JStr (to_lower (ei_requestHash i))),
      (''paymentIdentifier'', JStr (ei_paymentIdentifier i)),
      (''challengeId'', case ei_challengeId i of None \<Rightarrow> JNull | Some c \<Rightarrow> JStr (to_lower c)),
      (''inputIndex'', JNum (ei_inputIndex i)),
      (''expiresAt'', JStr (ei_expiresAt i))]"

definition exactRequestAuthorizationPreimage :: "exact_digest_input \<Rightarrow> string res" where
  "exactRequestAuthorizationPreimage input = stableStringify (exact_digest_object input)"

definition exactRequestAuthorizationDigest ::
  "(byte list \<Rightarrow> byte list) \<Rightarrow> exact_digest_input \<Rightarrow> string res" where
  "exactRequestAuthorizationDigest sha input =
     bindE (exactRequestAuthorizationPreimage input) (\<lambda>t. Inr (sha256Hex sha (utf8Bytes t)))"

datatype exact_expiry_error =
    Exact_invalid_max_timeout
  | Exact_invalid_authorization_expiry
  | Exact_expired_authorization
  | Exact_authorization_exceeds_max_timeout
  | Exact_invalid_challenge_expiry
  | Exact_expired_challenge
  | Exact_authorization_exceeds_challenge

definition MAX_TIME_VALUE :: int where
  "MAX_TIME_VALUE = 8640000000000000"

definition toISOString :: "(int \<Rightarrow> string) \<Rightarrow> int \<Rightarrow> string res" where
  \<comment> \<open>\<open>new Date(t).toISOString()\<close>\<close>
  "toISOString isoText t =
     (if MAX_TIME_VALUE < \<bar>t\<bar> then Inl (JsRangeError ''Invalid time value'') else Inr (isoText t))"

definition exactAuthorizationExpiresAt ::
  "(string \<Rightarrow> int option) \<Rightarrow> (int \<Rightarrow> string) \<Rightarrow> js_number \<Rightarrow> string option \<Rightarrow> int \<Rightarrow> string res" where
  "exactAuthorizationExpiresAt dateParse isoText maxTimeoutSeconds challengeExpiresAt nowMs =
     (case maxTimeoutSeconds of
        JsNonInt _ \<Rightarrow> Inl (JsRangeError ''maxTimeoutSeconds must be a positive integer'')
      | JsInt seconds \<Rightarrow>
          if seconds \<le> 0 then Inl (JsRangeError ''maxTimeoutSeconds must be a positive integer'')
          else (let timeoutExpiresAt = nowMs + seconds * 1000
                in case challengeExpiresAt of
                     None \<Rightarrow> toISOString isoText timeoutExpiresAt
                   | Some c \<Rightarrow>
                       (case dateParse c of
                          None \<Rightarrow> Inl (JsRangeError ''challengeExpiresAt must be a future timestamp'')
                        | Some challenge \<Rightarrow>
                            if challenge \<le> nowMs
                            then Inl (JsRangeError ''challengeExpiresAt must be a future timestamp'')
                            else toISOString isoText (min timeoutExpiresAt challenge))))"

definition exactAuthorizationExpiryError ::
  "(string \<Rightarrow> int option) \<Rightarrow> js_number \<Rightarrow> string \<Rightarrow> string option \<Rightarrow> int \<Rightarrow> exact_expiry_error option" where
  "exactAuthorizationExpiryError dateParse maxTimeoutSeconds authorizationExpiresAt challengeExpiresAt nowMs =
     (case maxTimeoutSeconds of
        JsNonInt _ \<Rightarrow> Some Exact_invalid_max_timeout
      | JsInt seconds \<Rightarrow>
          if seconds \<le> 0 then Some Exact_invalid_max_timeout
          else (case dateParse authorizationExpiresAt of
             None \<Rightarrow> Some Exact_invalid_authorization_expiry
           | Some authorization \<Rightarrow>
               if authorization \<le> nowMs then Some Exact_expired_authorization
               else if nowMs + seconds * 1000 < authorization
               then Some Exact_authorization_exceeds_max_timeout
               else (case challengeExpiresAt of
                  None \<Rightarrow> None
                | Some c \<Rightarrow>
                    (case dateParse c of
                       None \<Rightarrow> Some Exact_invalid_challenge_expiry
                     | Some challenge \<Rightarrow>
                         if challenge \<le> nowMs then Some Exact_expired_challenge
                         else if challenge < authorization then Some Exact_authorization_exceeds_challenge
                         else None))))"

record exact_request_authorization =
  ra_version :: string
  ra_inputIndex :: js_number
  ra_expiresAt :: string
  ra_digest :: string
  ra_signature :: string

definition exact_id_object :: "exact_request_authorization \<Rightarrow> js_value" where
  \<comment> \<open>the object literal of \<open>exactRequestAuthorizationId\<close>\<close>
  "exact_id_object a = JObj
     [(''scope'', JStr ''kaspa:x402:exact-request-authorization-id:v1''),
      (''version'', JStr (ra_version a)),
      (''digest'', JStr (to_lower (ra_digest a))),
      (''inputIndex'', JNum (ra_inputIndex a)),
      (''expiresAt'', JStr (ra_expiresAt a)),
      (''signature'', JStr (to_lower (ra_signature a)))]"

definition exactRequestAuthorizationId ::
  "(byte list \<Rightarrow> byte list) \<Rightarrow> exact_request_authorization \<Rightarrow> string res" where
  "exactRequestAuthorizationId sha authorization =
     bindE (stableStringify (exact_id_object authorization)) (\<lambda>t. Inr (sha256Hex sha (utf8Bytes t)))"

section \<open>Binding\<close>

definition lower_exact_input :: "exact_digest_input \<Rightarrow> exact_digest_input" where
  "lower_exact_input i = i\<lparr>ei_transactionId := to_lower (ei_transactionId i),
     ei_payToScriptPublicKey := to_lower (ei_payToScriptPublicKey i),
     ei_paymentRequirementsHash := to_lower (ei_paymentRequirementsHash i),
     ei_requestHash := to_lower (ei_requestHash i),
     ei_challengeId := map_option to_lower (ei_challengeId i)\<rparr>"

definition lower_authorization :: "exact_request_authorization \<Rightarrow> exact_request_authorization" where
  "lower_authorization a = a\<lparr>ra_digest := to_lower (ra_digest a), ra_signature := to_lower (ra_signature a)\<rparr>"

definition exact_input_ok :: "exact_digest_input \<Rightarrow> bool" where
  \<comment> \<open>the two indices are numbers that print the way \<open>String(n)\<close> prints a finite number\<close>
  "exact_input_ok i = (wf_number (ei_paymentOutputIndex i) \<and> wf_number (ei_inputIndex i))"

lemma wf_exact_digest_object: "exact_input_ok i \<Longrightarrow> wf_js (exact_digest_object i)"
  by (simp add: exact_digest_object_def exact_input_ok_def split: option.splits)

lemma exact_digest_object_inject:
  assumes "canon (exact_digest_object i) = canon (exact_digest_object j)"
  shows "lower_exact_input i = lower_exact_input j"
  using canon_fixed_keys [OF assms [unfolded exact_digest_object_def]]
  by (intro exact_digest_input.equality) (simp_all add: lower_exact_input_def split: option.splits)

lemma exact_id_object_inject:
  assumes "canon (exact_id_object a) = canon (exact_id_object b)"
  shows "lower_authorization a = lower_authorization b"
  using canon_fixed_keys [OF assms [unfolded exact_id_object_def]]
  by (intro exact_request_authorization.equality) (simp_all add: lower_authorization_def)

lemma stable_digest_eq:
  \<comment> \<open>two values whose canonical texts have one digest are the same value, or the texts collide\<close>
  assumes "bindE (stableStringify v) (\<lambda>t. Inr (sha256Hex sha (utf8Bytes t))) = Inr d"
    and "bindE (stableStringify w) (\<lambda>t. Inr (sha256Hex sha (utf8Bytes t))) = Inr d"
    and "wf_js v" "wf_js w" "\<not> collision_in sha [utf8Bytes (stableJson v), utf8Bytes (stableJson w)]"
  shows "canon v = canon w"
proof -
  from assms(1,2) have "sha (utf8Bytes (stableJson v)) = sha (utf8Bytes (stableJson w))"
    by (auto simp: bindE_Inr sha256Hex_def dest!: stableStringify_Inr)
  then have "stableJson v = stableJson w" by (rule preimage_eq [where sha = sha]) (fact assms(5))
  with assms(3,4) show ?thesis by (simp add: canonical_text_iff)
qed

definition exact_digest_hashed :: "exact_digest_input \<Rightarrow> byte list list" where
  "exact_digest_hashed i = [utf8Bytes (stableJson (exact_digest_object i))]"

text \<open>The digest a payer signs binds the network, the profile, the transaction, the output
  and its amount, the payee and its script, the accepted requirements, the request, the payment
  identifier, the challenge, the input and the expiry: two inputs with the same digest agree in all
  thirteen fields (hex fields up to case), or their two preimages collide.\<close>

theorem exact_digest_binds:
  assumes "exactRequestAuthorizationDigest sha i = Inr d" "exactRequestAuthorizationDigest sha j = Inr d"
    and "exact_input_ok i" "exact_input_ok j"
  shows "lower_exact_input i = lower_exact_input j \<or> collision_in sha (exact_digest_hashed i @ exact_digest_hashed j)"
proof (rule disjCI)
  assume c: "\<not> collision_in sha (exact_digest_hashed i @ exact_digest_hashed j)"
  have "canon (exact_digest_object i) = canon (exact_digest_object j)"
    using assms(1,2) wf_exact_digest_object [OF assms(3)] wf_exact_digest_object [OF assms(4)] c
    unfolding exactRequestAuthorizationDigest_def exactRequestAuthorizationPreimage_def exact_digest_hashed_def append.simps
    by (rule stable_digest_eq)
  then show "lower_exact_input i = lower_exact_input j" by (rule exact_digest_object_inject)
qed

text \<open>Two authorisations with one id are the same authorisation (digest and signature up to
  case), or the two preimages of their ids collide.\<close>

theorem exact_authorization_id_binds:
  assumes "exactRequestAuthorizationId sha a = Inr d" "exactRequestAuthorizationId sha b = Inr d"
    and "wf_number (ra_inputIndex a)" "wf_number (ra_inputIndex b)"
  shows "lower_authorization a = lower_authorization b
     \<or> collision_in sha [utf8Bytes (stableJson (exact_id_object a)), utf8Bytes (stableJson (exact_id_object b))]"
proof (rule disjCI)
  assume c: "\<not> collision_in sha [utf8Bytes (stableJson (exact_id_object a)), utf8Bytes (stableJson (exact_id_object b))]"
  have wf: "wf_js (exact_id_object a)" "wf_js (exact_id_object b)"
    using assms(3,4) by (simp_all add: exact_id_object_def)
  have "canon (exact_id_object a) = canon (exact_id_object b)"
    using assms(1,2) wf c unfolding exactRequestAuthorizationId_def by (rule stable_digest_eq)
  then show "lower_authorization a = lower_authorization b" by (rule exact_id_object_inject)
qed

section \<open>Expiry\<close>

definition iso_roundtrip :: "(string \<Rightarrow> int option) \<Rightarrow> (int \<Rightarrow> string) \<Rightarrow> bool" where
  \<comment> \<open>\<open>Date.parse\<close> reads back what \<open>toISOString\<close> prints for a time value\<close>
  "iso_roundtrip dateParse isoText = (\<forall>t. \<bar>t\<bar> \<le> MAX_TIME_VALUE \<longrightarrow> dateParse (isoText t) = Some t)"

lemma issued_expiry:
  assumes "exactAuthorizationExpiresAt dp prn m challenge start = Inr e" "iso_roundtrip dp prn"
  obtains seconds t where "m = JsInt seconds" "0 < seconds" "dp e = Some t" "start < t"
    "t \<le> start + seconds * 1000"
    "\<And>c. challenge = Some c \<Longrightarrow> \<exists>u. dp c = Some u \<and> start < u \<and> t \<le> u"
proof -
  have "\<exists>seconds t. m = JsInt seconds \<and> 0 < seconds \<and> dp e = Some t \<and> start < t
      \<and> t \<le> start + seconds * 1000
      \<and> (\<forall>c. challenge = Some c \<longrightarrow> (\<exists>u. dp c = Some u \<and> start < u \<and> t \<le> u))"
    using assms by (auto simp: exactAuthorizationExpiresAt_def toISOString_def iso_roundtrip_def Let_def
        split: js_number.splits option.splits if_splits)
  then show thesis using that by blast
qed

text \<open>C38. Client and server agree on the lifetime of an exact authorisation. Whenever the
  client issues an expiry for a timeout and an optional head challenge, the verifier, run at any
  later time on the same timeout and challenge, gives no error before that expiry and
  \<open>expired_authorization\<close> from it on; no other of its seven errors can occur.\<close>

theorem issued_expiry_accepted:
  assumes "exactAuthorizationExpiresAt dp prn m challenge start = Inr e" "iso_roundtrip dp prn"
    and "start \<le> now"
  shows "exactAuthorizationExpiryError dp m e challenge now =
    (if now < the (dp e) then None else Some Exact_expired_authorization)"
proof -
  obtain seconds t where "m = JsInt seconds" "0 < seconds" "dp e = Some t" "t \<le> start + seconds * 1000"
    "\<And>c. challenge = Some c \<Longrightarrow> \<exists>u. dp c = Some u \<and> start < u \<and> t \<le> u"
    using issued_expiry [OF assms(1,2)] by metis
  with assms(3) show ?thesis
    by (cases challenge) (fastforce simp: exactAuthorizationExpiryError_def)+
qed

text \<open>The verifier never accepts an authorisation that has expired, that outlives the
  advertised timeout, or that outlives the head challenge it depends on, and it accepts every
  other one.\<close>

theorem exact_expiry_exact:
  "exactAuthorizationExpiryError dp m e challenge now = None \<longleftrightarrow>
     (\<exists>s t. m = JsInt s \<and> 0 < s \<and> dp e = Some t \<and> now < t \<and> t \<le> now + s * 1000
        \<and> (\<forall>c. challenge = Some c \<longrightarrow> (\<exists>u. dp c = Some u \<and> t \<le> u)))"
  by (auto simp: exactAuthorizationExpiryError_def split: js_number.splits option.splits if_splits)

definition decimal_date :: "string \<Rightarrow> int option" where
  \<comment> \<open>a reading of decimal texts as times, for evaluating the definitions on concrete inputs\<close>
  "decimal_date s = (case s of c # r \<Rightarrow> if c = CHR ''-'' then Some (- int (dec_val r)) else Some (int (dec_val s))
     | [] \<Rightarrow> None)"

lemma decimal_date_roundtrip: "iso_roundtrip decimal_date int_to_string"
proof -
  have "decimal_date (nat_to_string n) = Some (int n)" for n
  proof (cases "nat_to_string n")
    case (Cons c r)
    then have "is_digit c" by (metis list.set_intros(1) nat_to_string_digits)
    then have "c \<noteq> CHR ''-''" by (auto simp: is_digit_def code_def)
    then have "decimal_date (c # r) = Some (int (dec_val (c # r)))" by (simp add: decimal_date_def)
    then show ?thesis by (simp flip: Cons)
  qed simp
  then have "decimal_date (int_to_string t) = Some t" for t
    by (simp add: int_to_string_def decimal_date_def)
  then show ?thesis by (simp add: iso_roundtrip_def)
qed

theorem issued_expiry_accepted_witness:
  "\<exists>e. exactAuthorizationExpiresAt decimal_date int_to_string (JsInt 60) (Some (int_to_string 41000)) 1000 = Inr e
     \<and> exactAuthorizationExpiryError decimal_date (JsInt 60) e (Some (int_to_string 41000)) 30000 = None
     \<and> exactAuthorizationExpiryError decimal_date (JsInt 60) e (Some (int_to_string 41000)) 41000
         = Some Exact_expired_authorization"
proof -
  have d: "decimal_date (int_to_string 41000) = Some 41000"
    using decimal_date_roundtrip by (simp add: iso_roundtrip_def MAX_TIME_VALUE_def)
  have e: "exactAuthorizationExpiresAt decimal_date int_to_string (JsInt 60) (Some (int_to_string 41000)) 1000
      = Inr (int_to_string 41000)"
    by (simp add: exactAuthorizationExpiresAt_def d toISOString_def MAX_TIME_VALUE_def)
  show ?thesis
    using e issued_expiry_accepted [OF e decimal_date_roundtrip, of 30000]
      issued_expiry_accepted [OF e decimal_date_roundtrip, of 41000]
    by (simp add: d)
qed

end
