(* ===== verification/Security_Context.thy ===== *)
theory Security_Context
  imports Exact_Authorization Exact_Heads
begin

text \<open>
  The trusted security context of a request: \<^verbatim>\<open>core/src/security-context.ts\<close>. The host hands
  over the claims of the caller; they are checked, put into a canonical form and hashed, and the
  request hash is bound to that digest. A context is plain data: the properties of an object, each
  of which is an arbitrary value, so that the run-time type checks of the source are conditions
  of the model. Proved: the canonical form carries no credential field and depends on the set of
  scopes and on the handler state only; a bound request hash determines the request hash and the
  claims.
\<close>

section \<open>security-context.ts\<close>

definition CREDENTIAL_FIELD_WORDS :: "string list" where
  "CREDENTIAL_FIELD_WORDS =
     [''authorization'', ''cookie'', ''credential'', ''password'', ''secret'', ''token'']"

definition ascii_upper :: "char \<Rightarrow> bool" where
  "ascii_upper c = (65 \<le> code c \<and> code c \<le> 90)"

definition ascii_lower :: "char \<Rightarrow> bool" where
  "ascii_lower c = (97 \<le> code c \<and> code c \<le> 122)"

fun break_before_upper :: "string \<Rightarrow> string" where
  \<comment> \<open>\<open>replace(/([a-z0-9])([A-Z])/g, "$1-$2")\<close>\<close>
  "break_before_upper (a # b # r) =
     (if (ascii_lower a \<or> is_digit a) \<and> ascii_upper b then a # CHR ''-'' # b # break_before_upper r
      else a # break_before_upper (b # r))"
| "break_before_upper r = r"

fun break_acronym :: "string \<Rightarrow> string" where
  \<comment> \<open>\<open>replace(/([A-Z])([A-Z][a-z])/g, "$1-$2")\<close>\<close>
  "break_acronym (a # b # c # r) =
     (if ascii_upper a \<and> ascii_upper b \<and> ascii_lower c then a # CHR ''-'' # b # c # break_acronym r
      else a # break_acronym (b # c # r))"
| "break_acronym r = r"

fun split_words :: "string \<Rightarrow> string list" where
  \<comment> \<open>\<open>split(/[-_]/)\<close>\<close>
  "split_words [] = [[]]"
| "split_words (c # r) =
     (if c \<in> set ''-_'' then [] # split_words r
      else (case split_words r of w # ws \<Rightarrow> (c # w) # ws | [] \<Rightarrow> [[c]]))"

definition isCredentialField :: "string \<Rightarrow> bool" where
  "isCredentialField key =
     list_ex (\<lambda>word. to_lower word \<in> set CREDENTIAL_FIELD_WORDS)
       (split_words (break_acronym (break_before_upper key)))"

type_synonym security_context = "(string \<times> js_value) list"

definition own_value :: "string \<Rightarrow> security_context \<Rightarrow> js_value" where
  "own_value k kvs = (case map_of kvs k of None \<Rightarrow> JUndefined | Some v \<Rightarrow> v)"

definition context_fail :: "string \<Rightarrow> 'a res" where
  "context_fail message = Inl (KaspaX402Error Invalid_payload (''trusted security context '' @ message))"

fun non_empty_text :: "js_value \<Rightarrow> bool" where
  "non_empty_text (JStr s) = (s \<noteq> [])"
| "non_empty_text _ = False"

fun iterate :: "js_value \<Rightarrow> js_value list res" where
  \<comment> \<open>the items \<open>new Set(value)\<close> reads\<close>
  "iterate (JArr xs) = Inr xs"
| "iterate (JStr s) = Inr (map (\<lambda>c. JStr [c]) s)"
| "iterate _ = Inl (JsTypeError ''value is not iterable'')"

fun text_of :: "js_value \<Rightarrow> string" where
  "text_of (JStr s) = s"
| "text_of _ = []"

definition context_scopes :: "js_value \<Rightarrow> string list res" where
  \<comment> \<open>the scopes without repetitions in code unit order; a scope that is not a non-empty string is
     refused, and the order of such a list, which the source sorts first, is never seen\<close>
  "context_scopes v =
     (if \<not> js_truthy v then Inr []
      else bindE (iterate v) (\<lambda>xs.
        if \<not> list_all non_empty_text xs
        then context_fail ''authorization scopes must be non-empty strings''
        else Inr (sort (remdups (map text_of xs)))))"

definition object_members :: "js_value \<Rightarrow> (string \<times> js_value) list" where
  \<comment> \<open>\<open>Object.keys\<close> with the values they read\<close>
  "object_members v =
     (case v of JObj kvs \<Rightarrow> kvs
      | JArr xs \<Rightarrow> zip (map nat_to_string [0..<length xs]) xs
      | JStr s \<Rightarrow> zip (map nat_to_string [0..<length s]) (map (\<lambda>c. JStr [c]) s)
      | _ \<Rightarrow> [])"

fun scalar_claim :: "js_value \<Rightarrow> bool" where
  "scalar_claim JNull = True"
| "scalar_claim (JStr _) = True"
| "scalar_claim (JNum _) = True"
| "scalar_claim (JBool _) = True"
| "scalar_claim _ = False"

definition checkHandlerClaim :: "string \<times> js_value \<Rightarrow> unit res" where
  \<comment> \<open>the body of the loop over the sorted keys\<close>
  "checkHandlerClaim m =
     (if isCredentialField (fst m)
      then context_fail (''must not contain raw credential field '' @ fst m)
      else if \<not> scalar_claim (snd m)
      then context_fail ''handler state must contain only scalar claims''
      else if (case snd m of JNum n \<Rightarrow> \<not> is_finite_num n | _ \<Rightarrow> False)
      then context_fail ''handler state contains a non-finite number''
      else Inr ())"

definition context_handlerState :: "js_value \<Rightarrow> (string \<times> js_value) list res" where
  "context_handlerState v =
     (if \<not> js_truthy v then Inr []
      else (let members = sort_key fst (object_members v)
            in bindE (forE checkHandlerClaim members) (\<lambda>_. Inr members)))"

definition canonical_context :: "js_value \<Rightarrow> js_value \<Rightarrow> string list \<Rightarrow> (string \<times> js_value) list \<Rightarrow> js_value" where
  \<comment> \<open>the returned object literal\<close>
  "canonical_context who tenant scopes handlerState = JObj
     [(''version'', JStr ''kaspa-x402-trusted-security-context-v1''),
      (''principal'', who),
      (''tenant'', if tenant = JUndefined then JNull else tenant),
      (''authorizationScopes'', JArr (map JStr scopes)),
      (''handlerState'', JObj handlerState)]"

definition canonicalTrustedSecurityContext :: "security_context \<Rightarrow> js_value res" where
  "canonicalTrustedSecurityContext context =
     bindE (assertJsonResourceBudget KASPA_X402_RESOURCE_BUDGET Invalid_payload
              ''trusted security context'' (JObj context)) (\<lambda>_.
     let who = own_value ''principal'' context; tenant = own_value ''tenant'' context
     in if \<not> non_empty_text who
        then context_fail ''principal must be a non-empty opaque identifier''
        else if tenant \<noteq> JUndefined \<and> \<not> non_empty_text tenant
        then context_fail ''tenant must be a non-empty opaque identifier''
        else bindE (context_scopes (own_value ''authorizationScopes'' context)) (\<lambda>scopes.
             bindE (context_handlerState (own_value ''handlerState'' context)) (\<lambda>handlerState.
             Inr (canonical_context who tenant scopes handlerState))))"

definition trustedSecurityContextHash ::
  "(byte list \<Rightarrow> byte list) \<Rightarrow> security_context \<Rightarrow> string res" where
  "trustedSecurityContextHash sha context =
     bindE (canonicalTrustedSecurityContext context) (\<lambda>v.
     bindE (stableStringify v) (\<lambda>t. Inr (sha256Hex sha (utf8Bytes t))))"

definition bound_request_object :: "string \<Rightarrow> string \<Rightarrow> js_value" where
  "bound_request_object requestHash contextHash = JObj
     [(''scope'', JStr ''kaspa:x402:trusted-request-context:v1''),
      (''requestHash'', JStr requestHash),
      (''securityContextHash'', JStr contextHash)]"

definition bindRequestHashToTrustedContext ::
  "(byte list \<Rightarrow> byte list) \<Rightarrow> string \<Rightarrow> security_context option \<Rightarrow> string res" where
  "bindRequestHashToTrustedContext sha requestHash context =
     (if \<not> hex32 requestHash
      then Inl (KaspaX402Error Invalid_payload ''request hash must be a 32-byte hexadecimal string'')
      else (case context of
              None \<Rightarrow> Inr (to_lower requestHash)
            | Some c \<Rightarrow>
                bindE (trustedSecurityContextHash sha c) (\<lambda>contextHash.
                bindE (stableStringify (bound_request_object (to_lower requestHash) contextHash))
                  (\<lambda>t. Inr (sha256Hex sha (utf8Bytes t))))))"

section \<open>The canonical form\<close>

lemma non_empty_text_iff: "non_empty_text v \<longleftrightarrow> (\<exists>s. v = JStr s \<and> s \<noteq> [])"
  by (cases v) auto

lemma context_scopes_Inr:
  "context_scopes v = Inr ss \<Longrightarrow> sorted ss \<and> distinct ss \<and> [] \<notin> set ss"
  by (fastforce simp: context_scopes_def bindE_Inr context_fail_def list_all_iff non_empty_text_iff split: if_splits)

lemma scopes_as_a_set:
  \<comment> \<open>the order and the multiplicity of the scopes do not matter\<close>
  assumes "context_scopes (JArr (map JStr ss)) = Inr us" "set ss = set ts" "[] \<notin> set ss"
  shows "context_scopes (JArr (map JStr ts)) = Inr us"
proof -
  have "sort (remdups ss) = sort (remdups ts)"
    using assms(2) by (intro sorted_distinct_set_unique) simp_all
  then show ?thesis using assms by (auto simp: context_scopes_def list_all_iff comp_def split: if_splits)
qed

lemma checkHandlerClaim_Inr:
  "checkHandlerClaim m = Inr u \<longleftrightarrow> \<not> isCredentialField (fst m) \<and> scalar_claim (snd m)
     \<and> (\<forall>n. snd m = JNum n \<longrightarrow> is_finite_num n)"
  by (auto simp: checkHandlerClaim_def context_fail_def split: js_value.splits if_splits)

lemma context_handlerState_Inr:
  assumes "context_handlerState v = Inr kvs"
  shows "sorted (map fst kvs) \<and> (\<forall>m\<in>set kvs. \<not> isCredentialField (fst m) \<and> scalar_claim (snd m))
     \<and> set kvs \<subseteq> set (object_members v)"
  using assms by (auto simp: context_handlerState_def Let_def bindE_Inr forE_Inr checkHandlerClaim_Inr split: if_splits)

lemma canonical_Inr:
  assumes "canonicalTrustedSecurityContext c = Inr v"
  obtains p scopes kvs where "v = canonical_context p (own_value ''tenant'' c) scopes kvs"
    "p = own_value ''principal'' c" "non_empty_text p"
    "own_value ''tenant'' c = JUndefined \<or> non_empty_text (own_value ''tenant'' c)"
    "context_scopes (own_value ''authorizationScopes'' c) = Inr scopes"
    "context_handlerState (own_value ''handlerState'' c) = Inr kvs"
  using assms that by (auto simp: canonicalTrustedSecurityContext_def Let_def bindE_Inr context_fail_def split: if_splits)

lemma canon_scalar: "scalar_claim v \<Longrightarrow> canon v = v"
  by (cases v) auto

lemma canon_sorted_scalars:
  assumes "sorted (map fst kvs)" "\<forall>m\<in>set kvs. scalar_claim (snd m)"
  shows "canon (JObj kvs) = JObj kvs"
proof -
  have "map (\<lambda>(k, v). (k, canon v)) kvs = kvs"
    using assms(2) by (intro map_idI) (auto simp: canon_scalar)
  then show ?thesis using assms(1) by (simp add: sort_key_id_if_sorted)
qed

lemma canonical_is_canonical:
  \<comment> \<open>the values of the canonical form are in canonical order already\<close>
  assumes "canonicalTrustedSecurityContext c = Inr v" "canonicalTrustedSecurityContext c' = Inr v'"
    and "canon v = canon v'"
  shows "v = v'"
proof -
  obtain p s k where v: "v = canonical_context p (own_value ''tenant'' c) s k" "non_empty_text p"
    "own_value ''tenant'' c = JUndefined \<or> non_empty_text (own_value ''tenant'' c)"
    and k: "canon (JObj k) = JObj k"
    using assms(1) by (elim canonical_Inr) (use context_handlerState_Inr canon_sorted_scalars in blast)
  obtain p' s' k' where v': "v' = canonical_context p' (own_value ''tenant'' c') s' k'" "non_empty_text p'"
    "own_value ''tenant'' c' = JUndefined \<or> non_empty_text (own_value ''tenant'' c')"
    and k': "canon (JObj k') = JObj k'"
    using assms(2) by (elim canonical_Inr) (use context_handlerState_Inr canon_sorted_scalars in blast)
  have id: "canon w = w" if "non_empty_text w" for w using that by (cases w) auto
  show ?thesis
    using canon_fixed_keys [OF assms(3) [unfolded v(1) v'(1) canonical_context_def]] v v' k k'
    by (auto simp: canonical_context_def id comp_def split: if_splits)
qed

lemma wf_canonical:
  assumes "canonicalTrustedSecurityContext c = Inr v" "wf_js (JObj c)"
  shows "wf_js v"
proof -
  have own: "wf_js (own_value k c)" for k
    using assms(2) by (auto simp: own_value_def list_all_iff dest!: map_of_SomeD split: option.splits)
  have "wf_js x" if "(k, x) \<in> set (object_members w)" "wf_js w" for k x w
    using that by (simp add: object_members_def list_all_iff split: js_value.splits) (fastforce dest: set_zip_rightD)+
  with own assms(1) show ?thesis
    by (elim canonical_Inr) (fastforce simp: canonical_context_def list_all_iff dest!: context_handlerState_Inr)
qed

text \<open>No raw credential is ever hashed: the handler state of a canonical context has scalar
  values only, and none of its keys has a word that names a credential.\<close>

theorem canonical_no_credentials:
  assumes "canonicalTrustedSecurityContext c = Inr v"
  shows "\<exists>kvs. get_prop ''handlerState'' v = Inr (JObj kvs)
     \<and> list_all (\<lambda>m. \<not> isCredentialField (fst m) \<and> scalar_claim (snd m)) kvs"
  using assms by (elim canonical_Inr) (auto simp: canonical_context_def list_all_iff dest!: context_handlerState_Inr)

section \<open>Binding\<close>

definition context_hashed :: "(byte list \<Rightarrow> byte list) \<Rightarrow> string \<Rightarrow> security_context \<Rightarrow> byte list list" where
  \<comment> \<open>the byte strings that are hashed to bind a request to a context\<close>
  "context_hashed sha requestHash c =
     (case canonicalTrustedSecurityContext c of
        Inl _ \<Rightarrow> []
      | Inr v \<Rightarrow>
          (let t = utf8Bytes (stableJson v)
           in [t, utf8Bytes (stableJson (bound_request_object (to_lower requestHash) (sha256Hex sha t)))]))"

lemma collision_in_subset: "collision_in sha xs \<Longrightarrow> set xs \<subseteq> set ys \<Longrightarrow> collision_in sha ys"
  by (auto simp: collision_in_def list_ex_iff)

lemma bound_request_object_inject:
  "canon (bound_request_object r h) = canon (bound_request_object r' h') \<Longrightarrow> r = r' \<and> h = h'"
  unfolding bound_request_object_def by (drule canon_fixed_keys) simp_all

lemma context_hash_binds:
  assumes "trustedSecurityContextHash sha c = Inr d" "trustedSecurityContextHash sha c' = Inr d"
    and "wf_js (JObj c)" "wf_js (JObj c')"
    and "canonicalTrustedSecurityContext c = Inr v" "canonicalTrustedSecurityContext c' = Inr v'"
    and "\<not> collision_in sha [utf8Bytes (stableJson v), utf8Bytes (stableJson v')]"
  shows "v = v'"
proof -
  have "canon v = canon v'"
    using assms(1,2) wf_canonical [OF assms(5,3)] wf_canonical [OF assms(6,4)] assms(7)
    unfolding trustedSecurityContextHash_def assms(5,6) bindE_simps by (rule stable_digest_eq)
  with assms(5,6) show ?thesis by (rule canonical_is_canonical)
qed

text \<open>C39. A request hash that is bound to a security context determines both: two bindings
  with the same result are for the same request hash (up to case) and for contexts with the same
  principal, tenant, set of scopes and handler state, or two of the byte strings that were
  hashed for them collide.\<close>

theorem bound_request_hash_binds:
  assumes "bindRequestHashToTrustedContext sha r (Some c) = Inr d"
    and "bindRequestHashToTrustedContext sha r' (Some c') = Inr d"
    and "wf_js (JObj c)" "wf_js (JObj c')"
  shows "to_lower r = to_lower r' \<and> canonicalTrustedSecurityContext c = canonicalTrustedSecurityContext c'
     \<or> collision_in sha (context_hashed sha r c @ context_hashed sha r' c')"
proof (rule disjCI)
  assume no: "\<not> collision_in sha (context_hashed sha r c @ context_hashed sha r' c')"
  from assms(1) obtain h where h: "trustedSecurityContextHash sha c = Inr h"
    "bindE (stableStringify (bound_request_object (to_lower r) h)) (\<lambda>t. Inr (sha256Hex sha (utf8Bytes t))) = Inr d"
    by (auto simp: bindRequestHashToTrustedContext_def bindE_Inr split: if_splits)
  from assms(2) obtain h' where h': "trustedSecurityContextHash sha c' = Inr h'"
    "bindE (stableStringify (bound_request_object (to_lower r') h')) (\<lambda>t. Inr (sha256Hex sha (utf8Bytes t))) = Inr d"
    by (auto simp: bindRequestHashToTrustedContext_def bindE_Inr split: if_splits)
  from h(1) obtain v where v: "canonicalTrustedSecurityContext c = Inr v" "h = sha256Hex sha (utf8Bytes (stableJson v))"
    by (auto simp: trustedSecurityContextHash_def bindE_Inr dest!: stableStringify_Inr)
  from h'(1) obtain v' where v': "canonicalTrustedSecurityContext c' = Inr v'" "h' = sha256Hex sha (utf8Bytes (stableJson v'))"
    by (auto simp: trustedSecurityContextHash_def bindE_Inr dest!: stableStringify_Inr)
  have apart: "\<not> collision_in sha xs"
    if "set xs \<subseteq> set (context_hashed sha r c @ context_hashed sha r' c')" for xs
    using that no collision_in_subset by blast
  have "canon (bound_request_object (to_lower r) h) = canon (bound_request_object (to_lower r') h')"
    by (rule stable_digest_eq [OF h(2) h'(2)], simp add: bound_request_object_def, simp add: bound_request_object_def)
      (rule apart, simp add: context_hashed_def v v' Let_def)
  then have "to_lower r = to_lower r'" "h = h'" by (blast dest: bound_request_object_inject)+
  moreover have "v = v'"
    using h(1) h'(1) [folded \<open>h = h'\<close>] assms(3,4) v(1) v'(1)
    by (rule context_hash_binds) (rule apart, simp add: context_hashed_def v v' Let_def)
  ultimately show "to_lower r = to_lower r' \<and> canonicalTrustedSecurityContext c = canonicalTrustedSecurityContext c'"
    using v(1) v'(1) by simp
qed

section \<open>A concrete context\<close>

definition context_example :: "string list \<Rightarrow> security_context" where
  "context_example scopes = [(''principal'', JStr ''user-1''), (''authorizationScopes'', JArr (map JStr scopes)),
     (''handlerState'', JObj [(''plan'', JStr ''gold'')])]"

lemma length_sha256Hex: "digest32 sha \<Longrightarrow> length (sha256Hex sha bs) = 64"
  by (simp add: sha256Hex_def digest32_def)

lemma context_example_canonical:
  assumes "scopes = [''b'', ''a'', ''b''] \<or> scopes = [''a'', ''b'']"
  shows "canonicalTrustedSecurityContext (context_example scopes)
     = Inr (canonical_context (JStr ''user-1'') JUndefined [''a'', ''b''] [(''plan'', JStr ''gold'')])"
proof -
  let ?c = "JObj (context_example scopes)"
  have "fits KASPA_X402_RESOURCE_BUDGET 0 None ?c \<and> size_bound ?c \<le> 98304 \<and> value_nodes ?c \<le> 4096 \<and> value_work ?c \<le> 8191"
    using assms by (auto simp: context_example_def KASPA_X402_RESOURCE_BUDGET_def object_limit_def array_limit_def
        string_limit_def ARTIFACT_FIELDS_def utf8ByteLength_le [THEN le_trans])
  then have "\<exists>n. assertJsonResourceBudget KASPA_X402_RESOURCE_BUDGET Invalid_payload ''trusted security context'' ?c = Inr n"
    using canonical_length_le [of ?c] by (simp add: assertJsonResourceBudget_Inr within_def KASPA_X402_RESOURCE_BUDGET_def)
  moreover have "context_scopes (JArr (map JStr scopes)) = Inr [''a'', ''b'']"
    using assms by (auto simp: context_scopes_def)
  moreover have "\<not> isCredentialField ''plan''" by code_simp
  ultimately show ?thesis
    by (auto simp: canonicalTrustedSecurityContext_def context_example_def own_value_def context_handlerState_def
        object_members_def checkHandlerClaim_def)
qed

lemma context_example_bound:
  assumes "scopes = [''b'', ''a'', ''b''] \<or> scopes = [''a'', ''b'']" "hex32 r"
  shows "\<exists>h. bindRequestHashToTrustedContext fold_sha r (Some (context_example scopes))
     = Inr (sha256Hex fold_sha (utf8Bytes (stableJson (bound_request_object (to_lower r) h))))
    \<and> h = sha256Hex fold_sha (utf8Bytes (stableJson
        (canonical_context (JStr ''user-1'') JUndefined [''a'', ''b''] [(''plan'', JStr ''gold'')])))"
proof -
  let ?v = "canonical_context (JStr ''user-1'') JUndefined [''a'', ''b''] [(''plan'', JStr ''gold'')]"
  note limits = KASPA_X402_RESOURCE_BUDGET_def object_limit_def array_limit_def string_limit_def ARTIFACT_FIELDS_def
    utf8ByteLength_le [THEN le_trans]
  have "stableStringify ?v = Inr (stableJson ?v)"
    by (rule stableStringify_small) (simp_all add: canonical_context_def limits)
  moreover have "stableStringify (bound_request_object a b) = Inr (stableJson (bound_request_object a b))"
    if "length a = 64" "length b = 64" for a b
    using that by (intro stableStringify_small) (simp_all add: bound_request_object_def limits)
  moreover have "length (to_lower r) = 64" using assms(2) by (simp add: hex32_def to_lower_def)
  ultimately show ?thesis
    using assms by (simp add: bindRequestHashToTrustedContext_def trustedSecurityContextHash_def
        context_example_canonical length_sha256Hex fold_sha_digest32)
qed

theorem bound_request_hash_binds_witness:
  "\<exists>d. bindRequestHashToTrustedContext fold_sha (replicate 64 (CHR ''a'')) (Some (context_example [''b'', ''a'', ''b''])) = Inr d
     \<and> bindRequestHashToTrustedContext fold_sha (replicate 64 (CHR ''a'')) (Some (context_example [''a'', ''b''])) = Inr d
     \<and> (canonicalTrustedSecurityContext (context_example [''b'', ''a'', ''b''])
          = canonicalTrustedSecurityContext (context_example [''a'', ''b''])
        \<or> collision_in fold_sha (context_hashed fold_sha (replicate 64 (CHR ''a'')) (context_example [''b'', ''a'', ''b''])
            @ context_hashed fold_sha (replicate 64 (CHR ''a'')) (context_example [''a'', ''b''])))"
proof -
  let ?r = "replicate 64 (CHR ''a'')"
  have r: "hex32 ?r" by (simp add: hex32_replicate example_hex)
  obtain d where d: "bindRequestHashToTrustedContext fold_sha ?r (Some (context_example [''b'', ''a'', ''b''])) = Inr d"
    "bindRequestHashToTrustedContext fold_sha ?r (Some (context_example [''a'', ''b''])) = Inr d"
    using context_example_bound [OF _ r, of "[''b'', ''a'', ''b'']"] context_example_bound [OF _ r, of "[''a'', ''b'']"]
    by auto
  show ?thesis using bound_request_hash_binds [OF d] d by (auto simp: context_example_def)
qed

end
