(* ===== verification/Spec2Isabelle.thy ===== *)
theory Spec2Isabelle
  imports Batch_Authorization Channel_Examples Channel_Locks Client_Examples Issuer_Examples
    Security_Context
begin

text \<open>
  A verification library for Kaspa x402, the TypeScript implementation of HTTP 402 payments on
  Kaspa (\<^verbatim>\<open>src/protocol/packages\<close>; all paths below are relative to it).

  \<^bold>\<open>The program.\<close> A resource server asks for a payment in one of two schemes. In the \<^emph>\<open>exact\<close> scheme a
  client pays each request with a transaction that spends a reusable KIP-10 output of the merchant
  (the \<^emph>\<open>head\<close>) and pays it back increased by the price. In the \<^emph>\<open>batch\<close> scheme the client locks a deposit
  in a covenant output (the \<^emph>\<open>channel\<close>), signs vouchers over a growing cumulative amount, and the
  server claims the authorised amount later. A \<^emph>\<open>hash-chain head\<close> is a third kind of output, which can be
  spent only with the next key of a chain; the server hands the keys out one by one. The \<^verbatim>\<open>core\<close> package defines the encodings, digests and the
  chain evidence that both sides share; \<^verbatim>\<open>covenant\<close> the scripts; \<^verbatim>\<open>server\<close> the transitions and the durable
  store of the server; \<^verbatim>\<open>client\<close> the durable store of the client. Handlers of both sides read and write
  only through their stores, so that the safety of a payment rests on the checks these make.

  \<^bold>\<open>Shared notions.\<close>
  \<^item> \<^verbatim>\<open>X402_Prelude\<close>: JavaScript values that occur everywhere (a property that is absent, undefined or
    present; truthiness; numbers; text in Latin-1), the error type, results \<open>js_error + 'a\<close> with \<open>bindE\<close>,
    decimal printing, the named collections of rules.
  \<^item> \<^verbatim>\<open>Store_Programs\<close>: store calls as programs over a state with exceptions: a throw keeps the writes
    made before it. A weakest-precondition calculus for them, and the locale \<open>guarded_machine\<close>: calls
    that keep an invariant and respect an order on states, on both exits, do so along every history.

  \<^bold>\<open>Core package.\<close>
  \<^item> \<^verbatim>\<open>Core_Amount\<close> (\<^verbatim>\<open>constants.ts, amount.ts, network.ts\<close>): the sompi pattern accepts exactly the decimal
    texts of the 64-bit amounts.
  \<^item> \<^verbatim>\<open>Core_Binary\<close> (\<^verbatim>\<open>binary.ts\<close>): hex, little-endian and UTF-8 encodings and their round trips.
  \<^item> \<^verbatim>\<open>Js_Json, Canonical_Json\<close> (\<^verbatim>\<open>stable-json.ts, resource-budget.ts\<close>): the iterative budget check is
    equivalent to a structural one; the canonical text is injective up to the order of keys.
  \<^item> \<^verbatim>\<open>Batch_Lane\<close> (\<^verbatim>\<open>batch-lane.ts\<close>): lane snapshots refine an abstract lane, claims conserve value.
  \<^item> \<^verbatim>\<open>Batch_Ids, Batch_Commitment, Batch_Presentation\<close> (\<^verbatim>\<open>channel.ts, voucher.ts, batch-commitment.ts,
    batch-presentation.ts\<close>): every digest binds all of its fields, or two of the byte
    strings that were hashed for the two ids collide.
  \<^item> \<^verbatim>\<open>Batch_Authorization\<close> (\<^verbatim>\<open>batch-authorization.ts\<close>): the intent that a payer signs binds all of its
    fields, and a lane on which every payment was authorised never exposes more than the payer's cap.
  \<^item> \<^verbatim>\<open>Exact_Authorization\<close> (\<^verbatim>\<open>exact-authorization.ts\<close>): the digest that a payer signs for an exact payment binds
    all of its fields; an expiry that the client issues is accepted until it has passed.
  \<^item> \<^verbatim>\<open>Security_Context\<close> (\<^verbatim>\<open>security-context.ts\<close>): no credential field is hashed, and a request hash bound to a
    security context determines the request and the claims.
  \<^item> \<^verbatim>\<open>Chain_Evidence\<close> to \<^verbatim>\<open>Chain_Examples\<close> (\<^verbatim>\<open>chain-truth.ts\<close>): decisions on chain evidence; the covenant
    lineage, a journal of accepted and removed transitions with its anchor (\<^verbatim>\<open>Chain_Lineage\<close>);
    selected-chain updates (\<^verbatim>\<open>Chain_Update\<close>); what an update does to the canonical chain
    (\<^verbatim>\<open>Chain_Journal\<close>); agreement with the extension check of the stores (\<^verbatim>\<open>Chain_Extension\<close>); conservation of
    value and the meaning of compaction (\<^verbatim>\<open>Chain_Compaction\<close>); the invariant of reachable states
    (\<^verbatim>\<open>Chain_Invariant\<close>); a journal on which compaction fails (\<^verbatim>\<open>Chain_Examples\<close>).

  \<^bold>\<open>Covenant package.\<close> \<^verbatim>\<open>Kip10_Template\<close>: the additive KIP-10 script of \<^verbatim>\<open>template.ts\<close>; parsing inverts building.
  \<^verbatim>\<open>Hash_Chain_Script\<close>: the scripts of \<^verbatim>\<open>hash-chain.ts\<close> over the pinned bytecode of \<^verbatim>\<open>generated/hash-chain-head-v2.ts\<close>;
  parsing accepts exactly what building makes, and prepared chains link.

  \<^bold>\<open>Server package, exact scheme.\<close>
  \<^item> \<^verbatim>\<open>Payment_Identifier\<close> (\<^verbatim>\<open>payment-identifier-state.ts\<close>), \<^verbatim>\<open>Exact_Heads, Head_Lifecycle\<close> (\<^verbatim>\<open>exact-heads.ts\<close>)
    and \<^verbatim>\<open>Exact_Transitions\<close> (\<^verbatim>\<open>exact-payment-transitions.ts, durable-record-budget.ts\<close>): reservations, heads and
    the decision of each command on a snapshot; attempts follow a phase machine.
  \<^item> \<^verbatim>\<open>Exact_Store\<close> (the exact part of \<^verbatim>\<open>stores.ts\<close>) with \<^verbatim>\<open>Store_Budget, Store_Ledger, Store_Decisions, Store_Safety\<close>:
    the budget of durable records is exact in every reachable store, accepted payments are never lost
    and heads never lose value.

  \<^bold>\<open>Server package, batch scheme.\<close>
  \<^item> \<^verbatim>\<open>Server_Channel\<close> (\<^verbatim>\<open>channel-lineage.ts\<close> and the records of \<^verbatim>\<open>types.ts\<close>), \<^verbatim>\<open>Batch_Attempts\<close>
    (\<^verbatim>\<open>batch-settlement-attempts.ts\<close>), \<^verbatim>\<open>Claim_Attempts\<close> and \<^verbatim>\<open>Channel_Store\<close> (\<^verbatim>\<open>stores.ts\<close>, every method of the
    memory store that changes its state).
  \<^item> \<^verbatim>\<open>Store_Logic, Batch_Ledger, Channel_Ownership, Channel_Steps\<close>: in every reachable store a channel has
    one owner, and applied claims are confirmed. \<^verbatim>\<open>Channel_History\<close>: channels are never rolled back and
    agree with their lineages. \<^verbatim>\<open>Channel_Examples\<close>: concrete stores on which the theorems are applied.
  \<^item> \<^verbatim>\<open>Channel_Locks\<close>: the promise chains of the lock of \<^verbatim>\<open>stores.ts\<close> and of the lease of \<^verbatim>\<open>client/src/channel-store.ts\<close>,
    as interleavings of enter, start, finish and settle: mutual exclusion, service in order of arrival
    without deadlock, and the lease as a refinement of the lock.

  \<^bold>\<open>Server package, hash-chain grants\<close> (\<^verbatim>\<open>hash-chain-issuer.ts\<close>).
  \<^item> \<^verbatim>\<open>Issuer_Records\<close>: the records, their checks and the sizes of their sealed rows. \<^verbatim>\<open>Hash_Chain_Issuer\<close>: every
    method of the class as a transaction on the tables of the database; the claim and the two recovery
    methods are split at their awaits, so that other calls may come between the parts.
  \<^item> \<^verbatim>\<open>Issuer_Keys\<close>: the invariant of the one-time keys and that each of the fifteen calls keeps it. \<^verbatim>\<open>Issuer_Safety\<close>:
    along every run from a new database a key has one holder, accepted payments are backed by
    deliveries, the claimant quota holds in every window, and the store stays within its limits.
    \<^verbatim>\<open>Issuer_Examples\<close>: a run with a delivery, its retry and its payment.

  \<^bold>\<open>Client package.\<close> \<^verbatim>\<open>Client_Channel, Client_Attempts, Client_Store\<close> (\<^verbatim>\<open>client/src/channel-store.ts\<close> and the records
  of its \<^verbatim>\<open>types.ts\<close>): channels, funding transitions, refunds and exact payments of the payer, with the constructor
  that loads persisted records. \<^verbatim>\<open>Client_Lineage\<close>: an applied transaction extends the lineage by one
  transition. \<^verbatim>\<open>Client_Invariant, Client_Safety\<close>: from a store opened on any records that the constructor
  admits, the index agrees with the lineages, funding and refund exclude each other, applied
  transactions are confirmed, payments are kept, and a save compares and sets. \<^verbatim>\<open>Client_Stranded\<close>: a
  quarantine during a top-up blocks a channel for ever. \<^verbatim>\<open>Client_Examples, Launch_Examples\<close>: concrete records.

  \<^bold>\<open>How code becomes definitions.\<close> A method of a store is one program over the record of its maps,
  with the source's checks and writes in their order; every \<open>throw\<close> is an exception value. An
  asynchronous store method has no suspension point inside, so that it is one atomic step; the
  interleaving of whole operations is what the histories range over. The issuer runs each method in a
  transaction of its database: an error leaves the database as it was. Amounts are decimal texts
  parsed to integers, as the \<open>BigInt\<close> code does. All functions are total: loops run over lists or have
  a termination measure, so that there is no fuel and nothing is true only because it does not return.

  \<^bold>\<open>Parameters.\<close> SHA-256 and BLAKE2b (arbitrary functions on bytes; a binding theorem says that the
  fields agree or that two of an explicit list of byte strings have one digest), the parsing and printing of dates
  and the parsing of URLs, the
  construction of the escrow covenant's scripts and the identity of its launch, the clock (one reading
  per call; for the issuer the sequence of its readings in the call). For the issuer also BLAKE3, HMAC,
  the public key of a private key, signature verification, the random ids, and the host's eligibility
  check and funding outpoints; AES-GCM contributes only the length of a sealed row. The theorems assume of them
  that SHA-256 returns 32 bytes and that \<open>Date.parse\<close> reads back what \<open>toISOString\<close> prints, and nothing
  else that the source does not check.

  \<^bold>\<open>Idealisations.\<close> Strings are lists of Latin-1 characters. Records are plain data: a value that the
  source copies with \<open>structuredClone\<close> is the value itself, and the order of properties is the declared
  one. Where a theorem needs a property that the code leaves to its caller (lower-case ids, the size
  limit of canonical texts), it is a premise.

  \<^bold>\<open>Not modelled.\<close> The request handlers \<^verbatim>\<open>server/src/direct-server.ts\<close> and \<^verbatim>\<open>client/src/direct-client.ts\<close>, which
  compose the stores with HTTP, signers and nodes; \<^verbatim>\<open>replay-identity.ts\<close>, which serves these handlers;
  headers and JSON schemas; the encoding of covenant transactions (\<^verbatim>\<open>covenant/src/tx-v1.ts, storage-mass.ts\<close>),
  whose results enter the modelled parts as outpoints, amounts and scripts of the evidence; the hash-chain verifier, which reads the issuer
  through HTTP; the physical file limit that a database may add to the issuer's quota; adapters,
  facilitator, command line, demo gateway and scripts, which are input and output around the parts above.
\<close>

end
